(* ===== verification/Prelude.thy ===== *)
theory Prelude
  imports Main "HOL-Library.Word" "HOL-Library.AList" "HOL-Library.Sublist"
begin

section \<open>Shared vocabulary of the development\<close>

text \<open>
  What every component theory uses: Rust byte strings and the few string operations the
  sources call, lower-case hexadecimal rendering, the state-and-error monad in which the
  effectful Rust functions are written, its weakest-precondition calculus, and the predicates
  that every outcome of a computation preserves.

  A Rust \<open>String\<close> is a sequence of UTF-8 bytes, so it is an Isabelle \<open>string\<close> read as bytes:
  \<open>length\<close> is Rust's \<open>len()\<close>. Binary data (\<open>Vec<u8>\<close>) is a list of \<open>8 word\<close>.
\<close>

named_theorems wp_simps "equations of the weakest-precondition transformer"
named_theorems fs_simps "weakest preconditions of the directory primitives"

type_synonym byte = "8 word"
type_synonym bytes = "byte list"
type_synonym uuid = "128 word"

subsection \<open>Strings\<close>

definition as_bytes :: "string \<Rightarrow> bytes" where
  "as_bytes s = map of_char s"

definition starts_with :: "string \<Rightarrow> string \<Rightarrow> bool" where
  "starts_with s p = (take (length p) s = p)"

definition ends_with :: "string \<Rightarrow> string \<Rightarrow> bool" where
  "ends_with s q = (length q \<le> length s \<and> drop (length s - length q) s = q)"

definition strip_prefix :: "string \<Rightarrow> string \<Rightarrow> string option" where
  "strip_prefix p s = (if starts_with s p then Some (drop (length p) s) else None)"

definition strip_suffix :: "string \<Rightarrow> string \<Rightarrow> string option" where
  "strip_suffix q s = (if ends_with s q then Some (take (length s - length q) s) else None)"

definition is_ascii_digit :: "char \<Rightarrow> bool" where
  "is_ascii_digit c = (48 \<le> (of_char c :: nat) \<and> (of_char c :: nat) \<le> 57)"

definition is_ascii_upper :: "char \<Rightarrow> bool" where
  "is_ascii_upper c = (65 \<le> (of_char c :: nat) \<and> (of_char c :: nat) \<le> 90)"

definition is_ascii_lower :: "char \<Rightarrow> bool" where
  "is_ascii_lower c = (97 \<le> (of_char c :: nat) \<and> (of_char c :: nat) \<le> 122)"

definition is_ascii_graphic :: "char \<Rightarrow> bool" where
  "is_ascii_graphic c = (33 \<le> (of_char c :: nat) \<and> (of_char c :: nat) \<le> 126)"

text \<open>The characters \<open>0-9a-f\<close>: what \<open>byte.is_ascii_digit() || (b'a'..=b'f').contains(&byte)\<close> accepts.\<close>

definition is_lower_hex :: "char \<Rightarrow> bool" where
  "is_lower_hex c = (is_ascii_digit c \<or>
     (97 \<le> (of_char c :: nat) \<and> (of_char c :: nat) \<le> 102))"

definition to_ascii_lowercase :: "char \<Rightarrow> char" where
  "to_ascii_lowercase c = (if is_ascii_upper c then char_of ((of_char c :: nat) + 32) else c)"

definition eq_ignore_ascii_case :: "string \<Rightarrow> string \<Rightarrow> bool" where
  "eq_ignore_ascii_case a b = (map to_ascii_lowercase a = map to_ascii_lowercase b)"

lemma starts_with_iff: "starts_with s p \<longleftrightarrow> (\<exists>r. s = p @ r)"
proof
  assume "starts_with s p"
  then have "s = p @ drop (length p) s"
    by (metis append_take_drop_id starts_with_def)
  then show "\<exists>r. s = p @ r" ..
qed (auto simp: starts_with_def)

lemma ends_with_iff: "ends_with s q \<longleftrightarrow> (\<exists>r. s = r @ q)"
proof
  assume "ends_with s q"
  then have "s = take (length s - length q) s @ q"
    by (metis append_take_drop_id ends_with_def)
  then show "\<exists>r. s = r @ q" ..
qed (auto simp: ends_with_def)

lemma strip_prefix_append [simp]: "strip_prefix p (p @ s) = Some s"
  by (simp add: strip_prefix_def starts_with_def)

lemma strip_suffix_append [simp]: "strip_suffix q (s @ q) = Some s"
  by (simp add: strip_suffix_def ends_with_def)

lemma strip_prefix_Some: "strip_prefix p s = Some r \<longleftrightarrow> s = p @ r"
  by (auto simp: strip_prefix_def starts_with_iff)

lemma strip_suffix_Some: "strip_suffix q s = Some r \<longleftrightarrow> s = r @ q"
  by (auto simp: strip_suffix_def ends_with_iff)

text \<open>\<open>str::split_once\<close> at a character, and \<open>str::parse::<u64>\<close>.\<close>

fun split_once :: "char \<Rightarrow> string \<Rightarrow> (string \<times> string) option" where
  "split_once c [] = None"
| "split_once c (d # s) = (if d = c then Some ([], s)
     else map_option (\<lambda>(a, b). (d # a, b)) (split_once c s))"

definition digit_value :: "char \<Rightarrow> nat" where
  "digit_value c = of_char c - 48"

definition decimal_value :: "string \<Rightarrow> nat" where
  "decimal_value s = foldl (\<lambda>n c. 10 * n + digit_value c) 0 s"

definition parse_u64 :: "string \<Rightarrow> nat option" where
  "parse_u64 s =
     (let digits = (if starts_with s ''+'' then tl s else s) in
      if digits \<noteq> [] \<and> list_all is_ascii_digit digits \<and> decimal_value digits < 2 ^ 64
      then Some (decimal_value digits) else None)"

lemma split_once_append: "c \<notin> set a \<Longrightarrow> split_once c (a @ c # b) = Some (a, b)"
  by (induction a) auto

subsection \<open>Hexadecimal rendering\<close>

definition hex_digit :: "nat \<Rightarrow> char" where
  "hex_digit n = (if n < 10 then char_of (48 + n) else char_of (87 + n))"

text \<open>Rust's \<open>write!(output, "{byte:02x}")\<close>.\<close>

definition hex_byte :: "byte \<Rightarrow> string" where
  "hex_byte b = [hex_digit (unat b div 16), hex_digit (unat b mod 16)]"

definition hex_encode :: "bytes \<Rightarrow> string" where
  "hex_encode bs = concat (map hex_byte bs)"

lemma of_char_hex_digit:
  "n < 16 \<Longrightarrow> (of_char (hex_digit n) :: nat) = (if n < 10 then 48 + n else 87 + n)"
  by (simp add: hex_digit_def)

lemma hex_digit_lower: "n < 16 \<Longrightarrow> is_lower_hex (hex_digit n)"
  by (simp add: is_lower_hex_def is_ascii_digit_def of_char_hex_digit)

lemma hex_digit_inj: "m < 16 \<Longrightarrow> n < 16 \<Longrightarrow> hex_digit m = hex_digit n \<Longrightarrow> m = n"
  by (drule arg_cong [where f = "of_char :: char \<Rightarrow> nat"])
    (simp add: of_char_hex_digit split: if_splits)

lemma unat_byte_less: "unat (b :: byte) < 256"
  using unsigned_less [of b, where ?'a = nat] by simp

lemma hex_byte_inj: "hex_byte a = hex_byte b \<Longrightarrow> a = b"
proof -
  assume eq: "hex_byte a = hex_byte b"
  have "unat a div 16 < 16" "unat b div 16 < 16"
    using unat_byte_less [of a] unat_byte_less [of b] by auto
  with eq have "unat a div 16 = unat b div 16"
    by (auto simp: hex_byte_def dest: hex_digit_inj)
  moreover have "unat a mod 16 = unat b mod 16"
    by (rule hex_digit_inj) (use eq in \<open>auto simp: hex_byte_def\<close>)
  ultimately have "unat a = unat b"
    by (metis div_mult_mod_eq)
  then show "a = b" by (simp add: word_unat_eq_iff)
qed

lemma length_hex_byte [simp]: "length (hex_byte b) = 2"
  by (simp add: hex_byte_def)

lemma length_hex_encode [simp]: "length (hex_encode bs) = 2 * length bs"
  by (induction bs) (simp_all add: hex_encode_def)

lemma hex_encode_lower: "c \<in> set (hex_encode bs) \<Longrightarrow> is_lower_hex c"
  using unat_byte_less
  by (auto simp: hex_encode_def hex_byte_def less_mult_imp_div_less intro!: hex_digit_lower)

lemma hex_encode_inj: "hex_encode xs = hex_encode ys \<Longrightarrow> xs = ys"
proof (induction xs arbitrary: ys)
  case Nil
  then show ?case by (cases ys) (auto simp: hex_encode_def hex_byte_def)
next
  case (Cons x xs)
  then obtain y ys' where ys: "ys = y # ys'"
    by (cases ys) (auto simp: hex_encode_def hex_byte_def)
  with Cons.prems have "hex_byte x @ hex_encode xs = hex_byte y @ hex_encode ys'"
    by (simp add: hex_encode_def)
  then have "hex_byte x = hex_byte y" and "hex_encode xs = hex_encode ys'"
    by (auto simp: hex_byte_def)
  with Cons.IH ys show ?case by (auto dest: hex_byte_inj)
qed

subsection \<open>Fallible and effectful computations\<close>

text \<open>
  \<open>Result<T, E>\<close> is \<open>'e + 'a\<close> with \<open>Inl\<close> for \<open>Err\<close>. A function with effects takes the state
  and returns its result together with the state at the point where it returned, whether it
  returned a value or an error: what an early \<open>?\<close> leaves behind is part of the model.
\<close>

type_synonym ('s, 'e, 'a) op = "'s \<Rightarrow> ('e + 'a) \<times> 's"

definition returnE :: "'a \<Rightarrow> ('s, 'e, 'a) op" where
  "returnE a = (\<lambda>s. (Inr a, s))"

definition throwE :: "'e \<Rightarrow> ('s, 'e, 'a) op" where
  "throwE e = (\<lambda>s. (Inl e, s))"

definition bindE :: "('s, 'e, 'a) op \<Rightarrow> ('a \<Rightarrow> ('s, 'e, 'b) op) \<Rightarrow> ('s, 'e, 'b) op" where
  "bindE m f = (\<lambda>s. case m s of (Inl e, t) \<Rightarrow> (Inl e, t) | (Inr a, t) \<Rightarrow> f a t)"

text \<open>\<open>.map_err(f)?\<close>, a pure \<open>Result\<close> followed by \<open>?\<close>, and a \<open>match\<close> on a computed \<open>Result\<close>.\<close>

definition map_errE :: "('e \<Rightarrow> 'f) \<Rightarrow> ('s, 'e, 'a) op \<Rightarrow> ('s, 'f, 'a) op" where
  "map_errE g m = (\<lambda>s. case m s of (Inl e, t) \<Rightarrow> (Inl (g e), t) | (Inr a, t) \<Rightarrow> (Inr a, t))"

definition liftE :: "'e + 'a \<Rightarrow> ('s, 'e, 'a) op" where
  "liftE r = (\<lambda>s. (r, s))"

definition tryE :: "('s, 'e, 'a) op \<Rightarrow> ('s, 'f, 'e + 'a) op" where
  "tryE m = (\<lambda>s. case m s of (r, t) \<Rightarrow> (Inr r, t))"

definition getsE :: "('s \<Rightarrow> 'a) \<Rightarrow> ('s, 'e, 'a) op" where
  "getsE f = (\<lambda>s. (Inr (f s), s))"

definition modifyE :: "('s \<Rightarrow> 's) \<Rightarrow> ('s, 'e, unit) op" where
  "modifyE f = (\<lambda>s. (Inr (), f s))"

definition ok_or :: "'e \<Rightarrow> 'a option \<Rightarrow> 'e + 'a" where
  "ok_or e x = (case x of None \<Rightarrow> Inl e | Some a \<Rightarrow> Inr a)"

definition map_err :: "('e \<Rightarrow> 'f) \<Rightarrow> 'e + 'a \<Rightarrow> 'f + 'a" where
  "map_err f r = (case r of Inl e \<Rightarrow> Inl (f e) | Inr a \<Rightarrow> Inr a)"

definition bindR :: "'e + 'a \<Rightarrow> ('a \<Rightarrow> 'e + 'b) \<Rightarrow> 'e + 'b" where
  "bindR r f = (case r of Inl e \<Rightarrow> Inl e | Inr a \<Rightarrow> f a)"

lemmas op_defs = returnE_def throwE_def bindE_def map_errE_def liftE_def tryE_def getsE_def
  modifyE_def ok_or_def

lemma bindR_simps [simp]: "bindR (Inl e) f = Inl e" "bindR (Inr a) f = f a"
  by (simp_all add: bindR_def)

lemma bindR_Inr_iff: "bindR r f = Inr b \<longleftrightarrow> (\<exists>a. r = Inr a \<and> f a = Inr b)"
  by (cases r) simp_all

lemma ok_or_simps [simp]: "ok_or e None = Inl e" "ok_or e (Some a) = Inr a"
  by (simp_all add: ok_or_def)

lemma ok_or_Inr_iff [simp]: "ok_or e x = Inr a \<longleftrightarrow> x = Some a"
  by (cases x) simp_all

lemma map_err_simps [simp]: "map_err f (Inl e) = Inl (f e)" "map_err f (Inr a) = Inr a"
  by (simp_all add: map_err_def)

lemma map_err_Inr_iff [simp]: "map_err f r = Inr a \<longleftrightarrow> r = Inr a"
  by (cases r) simp_all

subsection \<open>Weakest preconditions\<close>

text \<open>
  \<open>wpE m Q R s\<close>: running \<open>m\<close> from \<open>s\<close> ends with a value and a state in \<open>Q\<close>, or with an error and
  a state in \<open>R\<close>. Every computation returns, so this is total correctness for both outcomes.
\<close>

definition wpE :: "('s, 'e, 'a) op \<Rightarrow> ('a \<Rightarrow> 's \<Rightarrow> bool) \<Rightarrow> ('e \<Rightarrow> 's \<Rightarrow> bool) \<Rightarrow> 's \<Rightarrow> bool" where
  "wpE m Q R s = (case m s of (Inl e, t) \<Rightarrow> R e t | (Inr a, t) \<Rightarrow> Q a t)"

lemma bindE_returnE [simp]: "bindE m returnE = m" "bindE m (\<lambda>_. returnE ()) = m"
  by (auto simp: bindE_def returnE_def fun_eq_iff split: prod.splits sum.splits)

lemma wpE_returnE [wp_simps]: "wpE (returnE a) Q R = Q a"
  by (simp add: wpE_def returnE_def fun_eq_iff)

lemma wpE_throwE [wp_simps]: "wpE (throwE e) Q R = R e"
  by (simp add: wpE_def throwE_def fun_eq_iff)

lemma wpE_bindE [wp_simps]: "wpE (bindE m f) Q R = wpE m (\<lambda>a. wpE (f a) Q R) R"
  by (simp add: wpE_def bindE_def fun_eq_iff split: prod.splits sum.splits)

lemma wpE_map_errE [wp_simps]: "wpE (map_errE g m) Q R = wpE m Q (\<lambda>e. R (g e))"
  by (simp add: wpE_def map_errE_def fun_eq_iff split: prod.splits sum.splits)

lemma wpE_liftE [wp_simps]: "wpE (liftE r) Q R s = (case r of Inl e \<Rightarrow> R e s | Inr a \<Rightarrow> Q a s)"
  by (simp add: wpE_def liftE_def)

lemma wpE_tryE [wp_simps]: "wpE (tryE m) Q R = wpE m (\<lambda>a. Q (Inr a)) (\<lambda>e. Q (Inl e))"
  by (simp add: wpE_def tryE_def fun_eq_iff split: prod.splits sum.splits)

lemma wpE_getsE [wp_simps]: "wpE (getsE f) Q R s = Q (f s) s"
  by (simp add: wpE_def getsE_def)

lemma wpE_modifyE [wp_simps]: "wpE (modifyE f) Q R s = Q () (f s)"
  by (simp add: wpE_def modifyE_def)

lemma wpE_if [wp_simps]:
  "wpE (if b then m else n) Q R s = (if b then wpE m Q R s else wpE n Q R s)"
  by simp

lemma wpE_mono:
  assumes "wpE m Q R s"
    and "\<And>a t. Q a t \<Longrightarrow> Q' a t" and "\<And>e t. R e t \<Longrightarrow> R' e t"
  shows "wpE m Q' R' s"
  using assms by (auto simp: wpE_def split: prod.splits sum.splits)

lemma wpE_trivial_intro: "wpE m (\<lambda>_ _. True) (\<lambda>_ _. True) s"
  by (simp add: wpE_def split: prod.splits sum.splits)

lemma wpE_conj: "wpE m Q R s \<Longrightarrow> wpE m Q' R' s \<Longrightarrow>
    wpE m (\<lambda>a t. Q a t \<and> Q' a t) (\<lambda>e t. R e t \<and> R' e t) s"
  by (auto simp: wpE_def split: prod.splits sum.splits)

lemma wpE_resultD: "wpE m Q R s \<Longrightarrow> m s = (Inr a, t) \<Longrightarrow> Q a t"
  by (simp add: wpE_def)

lemma wpE_errorD: "wpE m Q R s \<Longrightarrow> m s = (Inl e, t) \<Longrightarrow> R e t"
  by (simp add: wpE_def)

subsection \<open>Preserved predicates\<close>

text \<open>\<open>preserves I m\<close>: whatever \<open>m\<close> returns, it leads from states in \<open>I\<close> to states in \<open>I\<close>.\<close>

definition preserves :: "('s \<Rightarrow> bool) \<Rightarrow> ('s, 'e, 'a) op \<Rightarrow> bool" where
  "preserves I m \<longleftrightarrow> (\<forall>s. I s \<longrightarrow> I (snd (m s)))"

lemma preservesD: "preserves I m \<Longrightarrow> I s \<Longrightarrow> wpE m (\<lambda>_. I) (\<lambda>_. I) s"
  unfolding preserves_def wpE_def by (auto split: prod.splits sum.splits dest!: spec [where x = s])

lemma preservesI: "(\<And>s. I s \<Longrightarrow> wpE m (\<lambda>_. I) (\<lambda>_. I) s) \<Longrightarrow> preserves I m"
  unfolding preserves_def wpE_def by (force split: prod.splits sum.splits)

lemma preserves_bindE: "preserves I m \<Longrightarrow> (\<And>a. preserves I (f a)) \<Longrightarrow> preserves I (bindE m f)"
  by (rule preservesI, unfold wpE_bindE, rule wpE_mono, rule preservesD) (auto intro: preservesD)

lemma preserves_simple [simp]:
  "preserves I (returnE a)" "preserves I (throwE e)" "preserves I (liftE r)" "preserves I (getsE f)"
  by (simp_all add: preserves_def returnE_def throwE_def liftE_def getsE_def)

lemma preserves_modifyE: "(\<And>s. I s \<Longrightarrow> I (f s)) \<Longrightarrow> preserves I (modifyE f)"
  by (simp add: preserves_def modifyE_def)

lemma preserves_map_errE: "preserves I m \<Longrightarrow> preserves I (map_errE g m)"
  by (auto intro!: preservesI simp: wpE_map_errE dest: preservesD)

lemma preserves_tryE: "preserves I m \<Longrightarrow> preserves I (tryE m)"
  by (auto intro!: preservesI simp: wpE_tryE dest: preservesD)

lemmas preserves_intros = preserves_bindE preserves_modifyE preserves_map_errE preserves_tryE

subsection \<open>Histories\<close>

text \<open>A history that grew by at most one entry, which satisfies \<open>P\<close>.\<close>

definition extends_by :: "'h list \<Rightarrow> ('h \<Rightarrow> bool) \<Rightarrow> 'h list \<Rightarrow> bool" where
  "extends_by h P h' \<longleftrightarrow> h' = h \<or> (\<exists>x. P x \<and> h' = h @ [x])"

lemma extends_by_refl [simp]: "extends_by h P h"
  by (simp add: extends_by_def)

lemma extends_by_mono: "extends_by h P h' \<Longrightarrow> (\<And>x. P x \<Longrightarrow> P' x) \<Longrightarrow> extends_by h P' h'"
  by (auto simp: extends_by_def)

end
