(* ===== verification/Store_Io.thy ===== *)
theory Store_Io
  imports Prelude
begin

section \<open>Private files of the synchronization store\<close>

text \<open>
  Models \<open>src/crates/sync-engine/src/store_io.rs\<close>: the operations with which the store reads,
  atomically replaces and removes files of its private profile directory.

  The state is one directory, an association list from file names to nodes, in the order in
  which the directory is listed. Every system call that can fail is an \<open>io_point\<close>: it consumes
  one entry of the script \<open>faults\<close> and fails when that entry is \<open>True\<close>; an exhausted script
  never fails. A statement about every state is therefore a statement about every pattern of
  I/O failures, and since a failed call ends the surrounding operation, also about a process
  that is interrupted between two system calls. Random UUIDs come from the stream
  \<open>uuid_source\<close>.
\<close>

datatype node = is_regular: Regular bytes | Symlink | Directory

datatype io_error = NotFound | OtherIo

datatype StoreError = Io io_error | InvalidMetadata | CorruptBase | CorruptJournal
  | UnsupportedSchema | WrongProfile | WrongSource | WrongTarget | ActiveJournal

record dirworld =
  dir_modes :: "(string \<times> nat) list"
  entries :: "(string \<times> node) list"
  faults :: "bool list"
  uuid_source :: "nat \<Rightarrow> uuid"
  uuid_index :: nat

abbreviation lookup :: "'a dirworld_scheme \<Rightarrow> string \<Rightarrow> node option" where
  "lookup w \<equiv> map_of (entries w)"

subsection \<open>Operations\<close>

definition io_point :: "('a dirworld_scheme, StoreError, unit) op" where
  "io_point = (\<lambda>w. case faults w of
     [] \<Rightarrow> (Inr (), w)
   | f # fs \<Rightarrow> (if f then Inl (StoreError.Io OtherIo) else Inr (), w\<lparr>faults := fs\<rparr>))"

definition new_v4 :: "('a dirworld_scheme, StoreError, uuid) op" where
  "new_v4 = (\<lambda>w. (Inr (uuid_source w (uuid_index w)), w\<lparr>uuid_index := Suc (uuid_index w)\<rparr>))"

text \<open>\<open>fs::create_dir_all\<close> and then \<open>set_permissions\<close> to \<open>0o700\<close> (448); a fresh directory has the
  default mode \<open>0o755\<close> (493) between the two calls.\<close>

definition create_private_directory :: "string \<Rightarrow> ('a dirworld_scheme, StoreError, unit) op" where
  "create_private_directory path =
     bindE io_point (\<lambda>_.
     bindE (modifyE (\<lambda>w. if map_of (dir_modes w) path = None
                         then w\<lparr>dir_modes := AList.update path 493 (dir_modes w)\<rparr> else w)) (\<lambda>_.
     bindE io_point (\<lambda>_.
     modifyE (\<lambda>w. w\<lparr>dir_modes := AList.update path 448 (dir_modes w)\<rparr>))))"

text \<open>
  \<open>AtomicWriteFile\<close> writes a temporary file and renames it over the destination on \<open>commit\<close>;
  the rename fails when the destination is a directory. The permissions are set afterwards, so
  the last call can fail with the new bytes already in place.
\<close>

definition commit_rename :: "string \<Rightarrow> bytes \<Rightarrow> ('a dirworld_scheme, StoreError, unit) op" where
  "commit_rename name bs =
     bindE io_point (\<lambda>_.
     bindE (getsE (\<lambda>w. lookup w name)) (\<lambda>n.
     if n = Some Directory then throwE (StoreError.Io OtherIo)
     else modifyE (\<lambda>w. w\<lparr>entries := AList.update name (Regular bs) (entries w)\<rparr>)))"

definition atomic_write :: "string \<Rightarrow> bytes \<Rightarrow> ('a dirworld_scheme, StoreError, unit) op" where
  "atomic_write name bs =
     bindE io_point (\<lambda>_.  \<comment> \<open>open\<close>
     bindE io_point (\<lambda>_.  \<comment> \<open>write_all\<close>
     bindE io_point (\<lambda>_.  \<comment> \<open>flush\<close>
     bindE (commit_rename name bs) (\<lambda>_.
     io_point))))         \<comment> \<open>set_permissions\<close>"

text \<open>\<open>serde_json::to_vec\<close> is the parameter \<open>to_vec\<close>.\<close>

definition atomic_write_json ::
    "('m \<Rightarrow> bytes option) \<Rightarrow> string \<Rightarrow> 'm \<Rightarrow> ('a dirworld_scheme, StoreError, unit) op" where
  "atomic_write_json to_vec name v =
     bindE (liftE (ok_or InvalidMetadata (to_vec v))) (\<lambda>bs. atomic_write name bs)"

definition read_no_follow :: "string \<Rightarrow> ('a dirworld_scheme, StoreError, bytes) op" where
  "read_no_follow name =
     bindE io_point (\<lambda>_.
     bindE (getsE (\<lambda>w. lookup w name)) (\<lambda>n. case n of
       Some (Regular bs) \<Rightarrow> returnE bs
     | None \<Rightarrow> throwE (StoreError.Io NotFound)
     | Some _ \<Rightarrow> throwE (StoreError.Io OtherIo)))"

definition read_optional_private_file ::
    "string \<Rightarrow> nat \<Rightarrow> ('a dirworld_scheme, StoreError, bytes option) op" where
  "read_optional_private_file name maximum_bytes =
     bindE io_point (\<lambda>_.
     bindE (getsE (\<lambda>w. lookup w name)) (\<lambda>n. case n of
       None \<Rightarrow> returnE None
     | Some (Regular bs) \<Rightarrow>
         if maximum_bytes < length bs then throwE InvalidMetadata
         else bindE (read_no_follow name) (\<lambda>bs. returnE (Some bs))
     | Some _ \<Rightarrow> throwE InvalidMetadata))"

definition read_private_file :: "string \<Rightarrow> ('a dirworld_scheme, StoreError, bytes) op" where
  "read_private_file name =
     bindE io_point (\<lambda>_.
     bindE (getsE (\<lambda>w. lookup w name)) (\<lambda>n. case n of
       None \<Rightarrow> throwE (StoreError.Io NotFound)
     | Some (Regular _) \<Rightarrow> read_no_follow name
     | Some _ \<Rightarrow> throwE InvalidMetadata))"

definition remove_if_file :: "string \<Rightarrow> ('a dirworld_scheme, StoreError, unit) op" where
  "remove_if_file name =
     bindE io_point (\<lambda>_.
     bindE (getsE (\<lambda>w. lookup w name)) (\<lambda>n. case n of
       None \<Rightarrow> returnE ()
     | Some (Regular _) \<Rightarrow>
         bindE io_point (\<lambda>_. modifyE (\<lambda>w. w\<lparr>entries := AList.delete name (entries w)\<rparr>))
     | Some _ \<Rightarrow> throwE InvalidMetadata))"

text \<open>The Unix version: open the directory, then \<open>sync_all\<close>.\<close>

definition sync_directory :: "('a dirworld_scheme, StoreError, unit) op" where
  "sync_directory = bindE io_point (\<lambda>_. io_point)"

subsection \<open>Weakest preconditions\<close>

text \<open>The script is kept as the outermost update.\<close>

lemma faults_outermost [simp]:
  "entries_update g (faults_update f w) = faults_update f (entries_update g w)"
  "uuid_index_update h (faults_update f w) = faults_update f (uuid_index_update h w)"
  "dir_modes_update m (faults_update f w) = faults_update f (dir_modes_update m w)"
  by simp_all

lemma faults_same: "faults w = fs \<Longrightarrow> w\<lparr>faults := fs\<rparr> = w"
  by auto

text \<open>Under arbitrary failures, as rules over every rest \<open>fs\<close> of the script.\<close>

lemma wpE_io_point:
  assumes "\<And>fs. Q () (w\<lparr>faults := fs\<rparr>)" and "\<And>fs. R (StoreError.Io OtherIo) (w\<lparr>faults := fs\<rparr>)"
  shows "wpE io_point Q R w"
proof (cases "faults w")
  case Nil
  then show ?thesis using assms(1) [of "[]"] by (simp add: wpE_def io_point_def faults_same)
next
  case (Cons f fs)
  then show ?thesis using assms by (simp add: wpE_def io_point_def)
qed

lemma wpE_new_v4 [wp_simps]:
  "wpE new_v4 Q R w = Q (uuid_source w (uuid_index w)) (w\<lparr>uuid_index := Suc (uuid_index w)\<rparr>)"
  by (simp add: wpE_def new_v4_def)

lemma wpE_atomic_write:
  assumes "\<And>fs. lookup w name \<noteq> Some Directory \<Longrightarrow>
      Q () (w\<lparr>entries := AList.update name (Regular bs) (entries w), faults := fs\<rparr>)"
    and "\<And>fs. R (StoreError.Io OtherIo) (w\<lparr>faults := fs\<rparr>)"
    and "\<And>fs. lookup w name \<noteq> Some Directory \<Longrightarrow>
      R (StoreError.Io OtherIo) (w\<lparr>entries := AList.update name (Regular bs) (entries w), faults := fs\<rparr>)"
  shows "wpE (atomic_write name bs) Q R w"
  unfolding atomic_write_def commit_rename_def
  by (auto simp: wp_simps assms intro!: wpE_io_point)

lemma wpE_remove_if_file:
  assumes "\<And>fs. lookup w name = None \<Longrightarrow> Q () (w\<lparr>faults := fs\<rparr>)"
    and "\<And>fs bs. lookup w name = Some (Regular bs) \<Longrightarrow>
      Q () (w\<lparr>entries := AList.delete name (entries w), faults := fs\<rparr>)"
    and "\<And>fs e. e = InvalidMetadata \<or> (\<exists>i. e = StoreError.Io i) \<Longrightarrow> R e (w\<lparr>faults := fs\<rparr>)"
  shows "wpE (remove_if_file name) Q R w"
  unfolding remove_if_file_def
  by (simp only: wp_simps, rule wpE_io_point)
    (auto simp: wp_simps assms split: option.splits node.splits intro!: wpE_io_point)

lemma wpE_sync_directory:
  assumes "\<And>fs. Q () (w\<lparr>faults := fs\<rparr>)" and "\<And>fs. R (StoreError.Io OtherIo) (w\<lparr>faults := fs\<rparr>)"
  shows "wpE sync_directory Q R w"
  unfolding sync_directory_def
  by (auto simp: wp_simps assms intro!: wpE_io_point)

text \<open>Without failures, as equations.\<close>

lemma io_point_ok: "faults w = [] \<Longrightarrow> io_point w = (Inr (), w)"
  by (simp add: io_point_def)

lemma wpE_io_point_ok [fs_simps]: "faults w = [] \<Longrightarrow> wpE io_point Q R w = Q () w"
  by (simp add: wpE_def io_point_ok)

lemma wpE_atomic_write_ok [fs_simps]:
  "faults w = [] \<Longrightarrow> lookup w name \<noteq> Some Directory \<Longrightarrow>
   wpE (atomic_write name bs) Q R w =
     Q () (w\<lparr>entries := AList.update name (Regular bs) (entries w)\<rparr>)"
  by (simp add: atomic_write_def commit_rename_def wp_simps fs_simps)

lemma wpE_atomic_write_json [wp_simps]:
  "wpE (atomic_write_json to_vec name v) Q R w = (case to_vec v of
     None \<Rightarrow> R InvalidMetadata w | Some bs \<Rightarrow> wpE (atomic_write name bs) Q R w)"
  by (simp add: atomic_write_json_def wp_simps split: option.splits)

lemma wpE_remove_if_file_ok [fs_simps]:
  "faults w = [] \<Longrightarrow> wpE (remove_if_file name) Q R w = (case lookup w name of
     Some (Regular bs) \<Rightarrow> Q () (w\<lparr>entries := AList.delete name (entries w)\<rparr>)
   | None \<Rightarrow> Q () w
   | Some _ \<Rightarrow> R InvalidMetadata w)"
  by (auto simp: remove_if_file_def wp_simps fs_simps split: option.splits node.splits)

lemma wpE_sync_directory_ok [fs_simps]: "faults w = [] \<Longrightarrow> wpE sync_directory Q R w = Q () w"
  by (simp add: sync_directory_def wp_simps fs_simps)

subsection \<open>Operations that only read\<close>

text \<open>
  \<open>reads m g\<close>: up to I/O failures \<open>m\<close> returns what \<open>g\<close> computes from the directory, and it changes
  nothing but the failure script. The rules follow the structure of the code, so the pure
  reading \<open>g\<close> of an operation is assembled along with its proof.
\<close>

definition reads ::
    "('a dirworld_scheme, StoreError, 'b) op \<Rightarrow> ('a dirworld_scheme \<Rightarrow> StoreError + 'b) \<Rightarrow> bool" where
  "reads m g \<longleftrightarrow>
     (\<forall>w. \<exists>fs. m w = (g w, w\<lparr>faults := fs\<rparr>) \<or> (\<exists>i. m w = (Inl (StoreError.Io i), w\<lparr>faults := fs\<rparr>))) \<and>
     (\<forall>w. faults w = [] \<longrightarrow> m w = (g w, w)) \<and>
     (\<forall>w fs. g (w\<lparr>faults := fs\<rparr>) = g w)"

lemma readsD: "reads m g \<Longrightarrow>
    \<exists>fs. m w = (g w, w\<lparr>faults := fs\<rparr>) \<or> (\<exists>i. m w = (Inl (StoreError.Io i), w\<lparr>faults := fs\<rparr>))"
  unfolding reads_def by blast

lemma reads_fault_free: "reads m g \<Longrightarrow> g (w\<lparr>faults := fs\<rparr>) = g w"
  unfolding reads_def by blast

lemma reads_cong: "reads m g \<Longrightarrow> (\<And>w. g w = h w) \<Longrightarrow> reads m h"
  by (simp add: reads_def)

lemma reads_liftE: "reads (liftE r) (\<lambda>_. r)"
proof -
  have "\<exists>fs. w = w\<lparr>faults := fs\<rparr>" for w :: "'a dirworld_scheme"
    by (rule exI [of _ "faults w"]) simp
  then show ?thesis by (auto simp: reads_def liftE_def)
qed

lemma reads_returnE: "reads (returnE a) (\<lambda>_. Inr a)"
  using reads_liftE [of "Inr a"] by (simp add: returnE_def liftE_def)

lemma reads_throwE: "reads (throwE e) (\<lambda>_. Inl e)"
  using reads_liftE [of "Inl e"] by (simp add: throwE_def liftE_def)

lemma reads_getsE:
  assumes "\<And>w fs. f (w\<lparr>faults := fs\<rparr>) = f w"
  shows "reads (getsE f) (\<lambda>w. Inr (f w))"
proof -
  have "\<exists>fs. w = w\<lparr>faults := fs\<rparr>" for w :: "'a dirworld_scheme"
    by (rule exI [of _ "faults w"]) simp
  with assms show ?thesis by (auto simp: reads_def getsE_def)
qed

lemma reads_io_point: "reads io_point (\<lambda>_. Inr ())"
proof -
  have "\<exists>fs. w = w\<lparr>faults := fs\<rparr>" for w :: "'a dirworld_scheme"
    by (rule exI [of _ "faults w"]) simp
  then show ?thesis by (auto simp: reads_def io_point_def split: list.splits)
qed

lemma reads_bindE:
  assumes m: "reads m g" and f: "\<And>a. reads (f a) (h a)"
  shows "reads (bindE m f) (\<lambda>w. bindR (g w) (\<lambda>a. h a w))"
  unfolding reads_def
proof (intro conjI allI impI)
  fix w :: "'a dirworld_scheme"
  obtain fs where fs: "m w = (g w, w\<lparr>faults := fs\<rparr>) \<or> (\<exists>i. m w = (Inl (StoreError.Io i), w\<lparr>faults := fs\<rparr>))"
    using readsD [OF m] by blast
  have "\<exists>gs. f a (w\<lparr>faults := fs\<rparr>) = (h a w, w\<lparr>faults := gs\<rparr>) \<or>
      (\<exists>i. f a (w\<lparr>faults := fs\<rparr>) = (Inl (StoreError.Io i), w\<lparr>faults := gs\<rparr>))" for a
    using readsD [OF f [of a], of "w\<lparr>faults := fs\<rparr>"] reads_fault_free [OF f [of a], of fs w] by auto
  with fs show "\<exists>gs. bindE m f w = (bindR (g w) (\<lambda>a. h a w), w\<lparr>faults := gs\<rparr>) \<or>
      (\<exists>i. bindE m f w = (Inl (StoreError.Io i), w\<lparr>faults := gs\<rparr>))"
    by (cases "g w") (auto simp: bindE_def)
next
  fix w :: "'a dirworld_scheme"
  assume "faults w = []"
  with m f show "bindE m f w = (bindR (g w) (\<lambda>a. h a w), w)"
    by (cases "g w") (auto simp: reads_def bindE_def)
next
  fix w :: "'a dirworld_scheme" and fs
  show "bindR (g (w\<lparr>faults := fs\<rparr>)) (\<lambda>a. h a (w\<lparr>faults := fs\<rparr>)) = bindR (g w) (\<lambda>a. h a w)"
    using m f by (simp add: reads_def)
qed

lemma reads_map_errE:
  assumes "reads m g" and "\<And>i. k (StoreError.Io i) = StoreError.Io i"
  shows "reads (map_errE k m) (\<lambda>w. map_err k (g w))"
  unfolding reads_def
proof (intro conjI allI impI)
  fix w :: "'a dirworld_scheme"
  obtain fs where "m w = (g w, w\<lparr>faults := fs\<rparr>) \<or> (\<exists>i. m w = (Inl (StoreError.Io i), w\<lparr>faults := fs\<rparr>))"
    using readsD [OF assms(1)] by blast
  then have "map_errE k m w = (map_err k (g w), w\<lparr>faults := fs\<rparr>) \<or>
      (\<exists>i. map_errE k m w = (Inl (StoreError.Io i), w\<lparr>faults := fs\<rparr>))"
    by (cases "g w") (auto simp: map_errE_def assms(2))
  then show "\<exists>fs. map_errE k m w = (map_err k (g w), w\<lparr>faults := fs\<rparr>) \<or>
      (\<exists>i. map_errE k m w = (Inl (StoreError.Io i), w\<lparr>faults := fs\<rparr>))" ..
next
  fix w :: "'a dirworld_scheme"
  assume "faults w = []"
  with assms(1) show "map_errE k m w = (map_err k (g w), w)"
    by (cases "g w") (auto simp: reads_def map_errE_def)
qed (simp add: reads_fault_free [OF assms(1)])

lemma reads_if: "reads m g \<Longrightarrow> reads n h \<Longrightarrow>
    reads (if b then m else n) (\<lambda>w. if b then g w else h w)"
  by simp

lemma reads_case_option: "reads m g \<Longrightarrow> (\<And>a. reads (f a) (h a)) \<Longrightarrow>
    reads (case x of None \<Rightarrow> m | Some a \<Rightarrow> f a) (\<lambda>w. case x of None \<Rightarrow> g w | Some a \<Rightarrow> h a w)"
  by (cases x) simp_all

lemmas reads_intros = reads_bindE reads_map_errE reads_if reads_case_option reads_liftE
  reads_returnE reads_throwE reads_io_point reads_getsE

lemma wpE_reads:
  assumes "reads m g"
    and "\<And>fs a. g w = Inr a \<Longrightarrow> Q a (w\<lparr>faults := fs\<rparr>)"
    and "\<And>fs e. g w = Inl e \<or> (\<exists>i. e = StoreError.Io i) \<Longrightarrow> R e (w\<lparr>faults := fs\<rparr>)"
  shows "wpE m Q R w"
proof -
  obtain fs where "m w = (g w, w\<lparr>faults := fs\<rparr>) \<or> (\<exists>i. m w = (Inl (StoreError.Io i), w\<lparr>faults := fs\<rparr>))"
    using readsD [OF assms(1)] by blast
  with assms(2,3) show ?thesis by (auto simp: wpE_def split: sum.splits)
qed

lemma wpE_reads_ok:
  "reads m g \<Longrightarrow> faults w = [] \<Longrightarrow>
   wpE m Q R w = (case g w of Inl e \<Rightarrow> R e w | Inr a \<Rightarrow> Q a w)"
  by (simp add: reads_def wpE_def)

definition optional_file :: "nat \<Rightarrow> node option \<Rightarrow> StoreError + bytes option" where
  "optional_file maximum_bytes n = (case n of
     None \<Rightarrow> Inr None
   | Some (Regular bs) \<Rightarrow> if maximum_bytes < length bs then Inl InvalidMetadata else Inr (Some bs)
   | Some _ \<Rightarrow> Inl InvalidMetadata)"

definition private_file :: "node option \<Rightarrow> StoreError + bytes" where
  "private_file n = (case n of
     None \<Rightarrow> Inl (StoreError.Io NotFound)
   | Some (Regular bs) \<Rightarrow> Inr bs
   | Some _ \<Rightarrow> Inl InvalidMetadata)"

definition no_follow :: "node option \<Rightarrow> StoreError + bytes" where
  "no_follow n = (case n of
     Some (Regular bs) \<Rightarrow> Inr bs
   | None \<Rightarrow> Inl (StoreError.Io NotFound)
   | Some _ \<Rightarrow> Inl (StoreError.Io OtherIo))"

lemma reads_node:
  assumes "\<And>n. reads (f n) (h n)"
  shows "reads (bindE io_point (\<lambda>_. bindE (getsE (\<lambda>w. lookup w name)) f)) (\<lambda>w. h (lookup w name) w)"
  by (rule reads_cong, rule reads_bindE [OF reads_io_point reads_bindE [OF reads_getsE assms]])
    simp_all

lemma reads_no_follow: "reads (read_no_follow name) (\<lambda>w. no_follow (lookup w name))"
  unfolding read_no_follow_def
  by (rule reads_node)
    (auto simp: no_follow_def intro: reads_intros split: option.split node.split)

lemma reads_private_file: "reads (read_private_file name) (\<lambda>w. private_file (lookup w name))"
proof (rule reads_cong)
  show "reads (read_private_file name) (\<lambda>w. case lookup w name of
      None \<Rightarrow> Inl (StoreError.Io NotFound)
    | Some (Regular _) \<Rightarrow> no_follow (lookup w name)
    | Some _ \<Rightarrow> Inl InvalidMetadata)"
    unfolding read_private_file_def
    by (rule reads_node [where h = "\<lambda>n w. case n of
          None \<Rightarrow> Inl (StoreError.Io NotFound)
        | Some (Regular _) \<Rightarrow> no_follow (lookup w name)
        | Some _ \<Rightarrow> Inl InvalidMetadata"])
      (auto intro: reads_no_follow reads_intros split: option.split node.split)
qed (simp add: private_file_def no_follow_def split: option.split node.split)

lemma reads_optional_file:
  "reads (read_optional_private_file name n) (\<lambda>w. optional_file n (lookup w name))"
proof (rule reads_cong)
  let ?some = "\<lambda>w :: 'a dirworld_scheme. bindR (no_follow (lookup w name)) (\<lambda>bs. Inr (Some bs))"
  show "reads (read_optional_private_file name n) (\<lambda>w. case lookup w name of
      None \<Rightarrow> Inr None
    | Some (Regular bs) \<Rightarrow> if n < length bs then Inl InvalidMetadata else ?some w
    | Some _ \<Rightarrow> Inl InvalidMetadata)"
    unfolding read_optional_private_file_def
    by (rule reads_node [where h = "\<lambda>nd w. case nd of
          None \<Rightarrow> Inr None
        | Some (Regular bs) \<Rightarrow> if n < length bs then Inl InvalidMetadata else ?some w
        | Some _ \<Rightarrow> Inl InvalidMetadata"])
      (auto intro: reads_no_follow reads_intros split: option.split node.split)
qed (simp add: optional_file_def no_follow_def split: option.split node.split)

end
