(* ===== verification/Provider_Core.thy ===== *)
theory Provider_Core
  imports Prelude
begin

section \<open>The conditional remote-object contract\<close>

text \<open>
  Models \<open>src/crates/sync-provider-core/src/lib.rs\<close>: the opaque compare-and-swap revision, the
  digest of ciphertext bytes, the bounded remote object, the provider errors and the trait
  \<open>RemoteObjectProvider\<close>. The trait is a record of three operations over the state \<open>'v\<close> of
  whatever lies outside the process; there is no unconditional write among them.

  SHA-256 (the \<open>sha2\<close> crate) is the parameter \<open>sha256\<close> of the record \<open>core_ext\<close>; what the
  development relies on is that it returns 32 bytes.
\<close>

record core_ext =
  sha256 :: "bytes \<Rightarrow> bytes"

definition sha256_ok :: "'x core_ext_scheme \<Rightarrow> bool" where
  "sha256_ok ext = (\<forall>bs. length (sha256 ext bs) = 32)"

datatype ProviderError = RemoteChanged | WriteResultUncertain | UnsupportedProvider
  | UnsafeProvider | InvalidConfiguration | AuthenticationFailed | ObjectTooLarge
  | InvalidMetadata | Transport

definition MAX_REMOTE_CIPHERTEXT_BYTES :: nat where
  "MAX_REMOTE_CIPHERTEXT_BYTES = 64 * 1024 * 1024"

subsection \<open>Revisions, digests and objects\<close>

datatype RemoteRevision = RemoteRevision (as_provider_token: string)

definition RemoteRevision_new :: "string \<Rightarrow> ProviderError + RemoteRevision" where
  "RemoteRevision_new token =
     (if token = [] \<or> length token > 4 * 1024 \<or> CHR 0x0D \<in> set token \<or> CHR 0x0A \<in> set token
      then Inl UnsafeProvider
      else Inr (RemoteRevision token))"

datatype CiphertextDigest = CiphertextDigest (digest_as_str: string)

definition CiphertextDigest_of :: "'x core_ext_scheme \<Rightarrow> bytes \<Rightarrow> CiphertextDigest" where
  "CiphertextDigest_of ext ciphertext = CiphertextDigest (hex_encode (sha256 ext ciphertext))"

definition CiphertextDigest_parse :: "string \<Rightarrow> ProviderError + CiphertextDigest" where
  "CiphertextDigest_parse value =
     (if length value = 64 \<and> list_all is_lower_hex value
      then Inr (CiphertextDigest value)
      else Inl InvalidMetadata)"

record RemoteObject =
  ciphertext :: bytes
  revision :: RemoteRevision

definition RemoteObject_new :: "bytes \<Rightarrow> RemoteRevision \<Rightarrow> ProviderError + RemoteObject" where
  "RemoteObject_new ct r =
     (if length ct > MAX_REMOTE_CIPHERTEXT_BYTES then Inl ObjectTooLarge
      else Inr \<lparr>ciphertext = ct, revision = r\<rparr>)"

definition into_parts :: "RemoteObject \<Rightarrow> bytes \<times> RemoteRevision" where
  "into_parts obj = (ciphertext obj, revision obj)"

datatype RemoteRead = Missing | Present RemoteObject

record 'v provider =
  p_read :: "('v, ProviderError, RemoteRead) op"
  p_create_if_absent :: "bytes \<Rightarrow> ('v, ProviderError, RemoteRevision) op"
  p_replace_if_revision :: "RemoteRevision \<Rightarrow> bytes \<Rightarrow> ('v, ProviderError, RemoteRevision) op"

subsection \<open>What the constructors accept\<close>

definition valid_revision :: "RemoteRevision \<Rightarrow> bool" where
  "valid_revision r = (RemoteRevision_new (as_provider_token r) = Inr r)"

definition valid_digest :: "CiphertextDigest \<Rightarrow> bool" where
  "valid_digest d = (CiphertextDigest_parse (digest_as_str d) = Inr d)"

lemma RemoteRevision_new_Inr:
  "RemoteRevision_new token = Inr r \<longleftrightarrow> r = RemoteRevision token \<and>
     0 < length token \<and> length token \<le> 4096 \<and> CHR 0x0D \<notin> set token \<and> CHR 0x0A \<notin> set token"
  by (auto simp: RemoteRevision_new_def)

lemma RemoteRevision_new_valid: "RemoteRevision_new token = Inr r \<Longrightarrow> valid_revision r"
  by (auto simp: RemoteRevision_new_Inr valid_revision_def)

lemma CiphertextDigest_parse_Inr:
  "CiphertextDigest_parse s = Inr d \<longleftrightarrow>
     d = CiphertextDigest s \<and> length s = 64 \<and> (\<forall>c\<in>set s. is_lower_hex c)"
  by (auto simp: CiphertextDigest_parse_def list_all_iff)

lemma CiphertextDigest_of_valid: "sha256_ok ext \<Longrightarrow> valid_digest (CiphertextDigest_of ext bs)"
  by (auto simp: valid_digest_def CiphertextDigest_parse_Inr CiphertextDigest_of_def sha256_ok_def
      intro: hex_encode_lower)

lemma CiphertextDigest_of_eq_iff:
  "CiphertextDigest_of ext a = CiphertextDigest_of ext b \<longleftrightarrow> sha256 ext a = sha256 ext b"
  by (auto simp: CiphertextDigest_of_def dest: hex_encode_inj)

lemma RemoteObject_new_Inr:
  "RemoteObject_new ct r = Inr obj \<longleftrightarrow>
     length ct \<le> MAX_REMOTE_CIPHERTEXT_BYTES \<and> obj = \<lparr>ciphertext = ct, revision = r\<rparr>"
  by (auto simp: RemoteObject_new_def)

end
