(* ===== verification/Sync_Store.thy ===== *)
theory Sync_Store
  imports Store_Io Provider_Core
begin

section \<open>The profile-scoped BASE and journal repository\<close>

text \<open>
  Models \<open>src/crates/sync-engine/src/store.rs\<close>, \<open>store/journal.rs\<close>, \<open>store/metadata.rs\<close> and
  the local snapshot of \<open>local.rs\<close>. The store keeps two metadata files, \<open>base.json\<close> and
  \<open>journal.json\<close>, each naming a ciphertext file beside it and the digest of that file.

  Serialization (\<open>serde_json\<close>) and the \<open>uuid\<close> crate are parameters, fields of \<open>store_ext\<close>;
  \<open>store_ext_ok\<close> states what their documentation promises: a UUID prints as 36 lower-case
  hexadecimal digits and hyphens and parses back, and a record with bounded fields serializes
  into at most 64 KiB from which the record and its schema version are read back.
\<close>

subsection \<open>Identities and records\<close>

datatype ProfileId = ProfileId (profile_uuid: uuid)
datatype SourceBinding = SourceBinding (source_as_str: string)
datatype TargetBinding = TargetBinding (target_as_str: string)

datatype RecoveryStatus = RecoveryNone | Required | Unsupported

datatype JournalPhase = Prepared | RemoteCommitted | LocalCommitted

record BaseMetadata =
  bm_schema_version :: "32 word"
  bm_profile_id :: ProfileId
  bm_source :: SourceBinding
  bm_target :: TargetBinding
  bm_ciphertext_file :: string
  bm_ciphertext_sha256 :: CiphertextDigest
  bm_remote_revision :: RemoteRevision

record JournalRecord =
  jr_schema_version :: "32 word"
  jr_profile_id :: ProfileId
  jr_source :: SourceBinding
  jr_target :: TargetBinding
  jr_operation_id :: uuid
  jr_phase :: JournalPhase
  jr_expected_local_sha256 :: CiphertextDigest
  jr_expected_remote_revision :: "RemoteRevision option"
  jr_candidate_file :: string
  jr_candidate_sha256 :: CiphertextDigest
  jr_committed_remote_revision :: "RemoteRevision option"

record BaseState =
  base_ciphertext :: bytes
  base_digest :: CiphertextDigest
  base_remote_revision :: RemoteRevision

record LoadedJournal =
  lj_record :: JournalRecord
  lj_candidate :: bytes

record SyncStore =
  st_directory :: string
  st_profile_id :: ProfileId
  st_source :: SourceBinding
  st_target :: TargetBinding

record LocalSnapshot =
  ls_source :: SourceBinding
  ls_authority_token :: string
  ls_ciphertext :: bytes
  ls_digest :: CiphertextDigest

record store_ext = core_ext +
  uuid_to_string :: "uuid \<Rightarrow> string"
  uuid_parse_str :: "string \<Rightarrow> uuid option"
  uuid_version_num :: "uuid \<Rightarrow> nat"
  base_to_vec :: "BaseMetadata \<Rightarrow> bytes option"
  base_from_slice :: "bytes \<Rightarrow> BaseMetadata option"
  journal_to_vec :: "JournalRecord \<Rightarrow> bytes option"
  journal_from_slice :: "bytes \<Rightarrow> JournalRecord option"
  envelope_from_slice :: "bytes \<Rightarrow> 32 word option"

definition SCHEMA_VERSION :: "32 word" where "SCHEMA_VERSION = 2"
definition MAX_METADATA_BYTES :: nat where "MAX_METADATA_BYTES = 64 * 1024"
definition BASE_METADATA :: string where "BASE_METADATA = ''base.json''"
definition JOURNAL_METADATA :: string where "JOURNAL_METADATA = ''journal.json''"

definition LocalSnapshot_new ::
    "'x core_ext_scheme \<Rightarrow> SourceBinding \<Rightarrow> string \<Rightarrow> bytes \<Rightarrow> LocalSnapshot" where
  "LocalSnapshot_new ext source token ct =
     \<lparr>ls_source = source, ls_authority_token = token, ls_ciphertext = ct,
      ls_digest = CiphertextDigest_of ext ct\<rparr>"

definition ProfileId_parse :: "'x store_ext_scheme \<Rightarrow> string \<Rightarrow> StoreError + ProfileId" where
  "ProfileId_parse ext value =
     bindR (ok_or StoreError.InvalidMetadata (uuid_parse_str ext value)) (\<lambda>u.
     if uuid_version_num ext u \<noteq> 4 then Inl StoreError.InvalidMetadata else Inr (ProfileId u))"

definition to_canonical_string :: "'x store_ext_scheme \<Rightarrow> ProfileId \<Rightarrow> string" where
  "to_canonical_string ext p = uuid_to_string ext (profile_uuid p)"

definition SourceBinding_from_sha256 :: "string \<Rightarrow> StoreError + SourceBinding" where
  "SourceBinding_from_sha256 value =
     bindR (map_err (\<lambda>_. StoreError.InvalidMetadata) (CiphertextDigest_parse value)) (\<lambda>_.
     Inr (SourceBinding value))"

definition TargetBinding_from_sha256 :: "string \<Rightarrow> StoreError + TargetBinding" where
  "TargetBinding_from_sha256 value =
     bindR (map_err (\<lambda>_. StoreError.InvalidMetadata) (CiphertextDigest_parse value)) (\<lambda>_.
     Inr (TargetBinding value))"

subsection \<open>Names of private files\<close>

text \<open>
  \<open>Path::components\<close> on Unix: a leading \<open>/\<close> is one component, a leading \<open>.\<close> another; empty
  segments and every other \<open>.\<close> are skipped.
\<close>

fun path_segments :: "string \<Rightarrow> string list" where
  "path_segments [] = [[]]"
| "path_segments (c # s) =
     (if c = CHR 0x2F then [] # path_segments s
      else (c # hd (path_segments s)) # tl (path_segments s))"

definition component_count :: "string \<Rightarrow> nat" where
  "component_count value =
     (let segs = path_segments value in
      (if starts_with value ''/'' then 1 else 0) + (if hd segs = ''.'' then 1 else 0) +
      length (filter (\<lambda>seg. seg \<noteq> [] \<and> seg \<noteq> ''.'') segs))"

definition validate_private_filename :: "string \<Rightarrow> string \<Rightarrow> StoreError + unit" where
  "validate_private_filename value pre =
     (if component_count value = 1 \<and> starts_with value pre \<and>
         (ends_with value ''.kdbx'' \<or> ends_with value ''.json'')
      then Inr () else Inl StoreError.InvalidMetadata)"

definition is_private_state_ciphertext_filename :: "'x store_ext_scheme \<Rightarrow> string \<Rightarrow> bool" where
  "is_private_state_ciphertext_filename ext value =
     list_ex (\<lambda>pre.
       case Option.bind (strip_prefix pre value) (strip_suffix ''.kdbx'') of
         None \<Rightarrow> False
       | Some i \<Rightarrow> (case uuid_parse_str ext i of
           None \<Rightarrow> False
         | Some u \<Rightarrow> uuid_version_num ext u = 4)) [''base-'', ''candidate-'']"

subsection \<open>Metadata\<close>

datatype MetadataSchema = SchemaMissing | SchemaCurrent | SchemaUnsupported
datatype MetadataKind = BaseKind | JournalKind

fun corrupt_error :: "MetadataKind \<Rightarrow> StoreError" where
  "corrupt_error BaseKind = CorruptBase"
| "corrupt_error JournalKind = CorruptJournal"

definition map_read_error :: "MetadataKind \<Rightarrow> StoreError \<Rightarrow> StoreError" where
  "map_read_error kind e = (case e of StoreError.InvalidMetadata \<Rightarrow> corrupt_error kind | other \<Rightarrow> other)"

definition metadata_schema ::
    "'x store_ext_scheme \<Rightarrow> string \<Rightarrow> MetadataKind \<Rightarrow> ('a dirworld_scheme, StoreError, MetadataSchema) op" where
  "metadata_schema ext filename kind =
     bindE (map_errE (map_read_error kind) (read_optional_private_file filename MAX_METADATA_BYTES)) (\<lambda>read.
     case read of
       None \<Rightarrow> returnE SchemaMissing
     | Some bs \<Rightarrow>
         bindE (liftE (ok_or (corrupt_error kind) (envelope_from_slice ext bs))) (\<lambda>schema_version.
         returnE (if schema_version = SCHEMA_VERSION then SchemaCurrent else SchemaUnsupported)))"

definition read_metadata ::
    "(bytes \<Rightarrow> 'm option) \<Rightarrow> string \<Rightarrow> MetadataKind \<Rightarrow> ('a dirworld_scheme, StoreError, 'm option) op" where
  "read_metadata from_slice filename kind =
     bindE (map_errE (map_read_error kind) (read_optional_private_file filename MAX_METADATA_BYTES)) (\<lambda>read.
     case read of
       None \<Rightarrow> returnE None
     | Some bs \<Rightarrow> liftE (ok_or (corrupt_error kind) (map_option Some (from_slice bs))))"

definition validate_identity ::
    "SyncStore \<Rightarrow> ProfileId \<Rightarrow> SourceBinding \<Rightarrow> TargetBinding \<Rightarrow> StoreError + unit" where
  "validate_identity st profile source target =
     (if profile \<noteq> st_profile_id st then Inl WrongProfile
      else if source \<noteq> st_source st then Inl WrongSource
      else if target \<noteq> st_target st then Inl WrongTarget
      else Inr ())"

definition SyncStore_open ::
    "'x store_ext_scheme \<Rightarrow> string \<Rightarrow> ProfileId \<Rightarrow> SourceBinding \<Rightarrow> TargetBinding \<Rightarrow>
     ('a dirworld_scheme, StoreError, SyncStore) op" where
  "SyncStore_open ext application_data profile source target =
     (let sync_root = application_data @ ''/sync'';
          directory = sync_root @ ''/'' @ to_canonical_string ext profile in
      bindE (create_private_directory sync_root) (\<lambda>_.
      bindE (create_private_directory directory) (\<lambda>_.
      returnE \<lparr>st_directory = directory, st_profile_id = profile, st_source = source,
               st_target = target\<rparr>)))"

subsection \<open>BASE\<close>

definition load_base ::
    "'x store_ext_scheme \<Rightarrow> SyncStore \<Rightarrow> ('a dirworld_scheme, StoreError, BaseState option) op" where
  "load_base ext st =
     bindE (metadata_schema ext BASE_METADATA BaseKind) (\<lambda>schema. case schema of
       SchemaMissing \<Rightarrow> returnE None
     | SchemaUnsupported \<Rightarrow> throwE UnsupportedSchema
     | SchemaCurrent \<Rightarrow>
         bindE (read_metadata (base_from_slice ext) BASE_METADATA BaseKind) (\<lambda>read. case read of
           None \<Rightarrow> returnE None
         | Some m \<Rightarrow>
             bindE (liftE (validate_identity st (bm_profile_id m) (bm_source m) (bm_target m))) (\<lambda>_.
             bindE (liftE (validate_private_filename (bm_ciphertext_file m) ''base-'')) (\<lambda>_.
             bindE (read_private_file (bm_ciphertext_file m)) (\<lambda>ct.
             if CiphertextDigest_of ext ct \<noteq> bm_ciphertext_sha256 m then throwE CorruptBase
             else returnE (Some \<lparr>base_ciphertext = ct, base_digest = CiphertextDigest_of ext ct,
                                 base_remote_revision = bm_remote_revision m\<rparr>))))))"

definition base_filename :: "'x store_ext_scheme \<Rightarrow> uuid \<Rightarrow> string" where
  "base_filename ext operation = ''base-'' @ uuid_to_string ext operation @ ''.kdbx''"

definition write_base ::
    "'x store_ext_scheme \<Rightarrow> SyncStore \<Rightarrow> bytes \<Rightarrow> RemoteRevision \<Rightarrow> ('a dirworld_scheme, StoreError, unit) op" where
  "write_base ext st ct remote_revision =
     bindE new_v4 (\<lambda>operation.
     bindE (atomic_write (base_filename ext operation) ct) (\<lambda>_.
     let metadata = \<lparr>bm_schema_version = SCHEMA_VERSION, bm_profile_id = st_profile_id st,
                     bm_source = st_source st, bm_target = st_target st,
                     bm_ciphertext_file = base_filename ext operation,
                     bm_ciphertext_sha256 = CiphertextDigest_of ext ct,
                     bm_remote_revision = remote_revision\<rparr> in
     bindE (read_metadata (base_from_slice ext) BASE_METADATA BaseKind) (\<lambda>old.
     bindE (atomic_write_json (base_to_vec ext) BASE_METADATA metadata) (\<lambda>_.
     bindE (case old of
              None \<Rightarrow> returnE ()
            | Some old \<Rightarrow>
                if bm_ciphertext_file old \<noteq> bm_ciphertext_file metadata \<and>
                   validate_private_filename (bm_ciphertext_file old) ''base-'' = Inr ()
                then remove_if_file (bm_ciphertext_file old) else returnE ()) (\<lambda>_.
     sync_directory)))))"

subsection \<open>Journal\<close>

definition load_journal ::
    "'x store_ext_scheme \<Rightarrow> SyncStore \<Rightarrow> ('a dirworld_scheme, StoreError, LoadedJournal option) op" where
  "load_journal ext st =
     bindE (metadata_schema ext JOURNAL_METADATA JournalKind) (\<lambda>schema. case schema of
       SchemaMissing \<Rightarrow> returnE None
     | SchemaUnsupported \<Rightarrow> throwE UnsupportedSchema
     | SchemaCurrent \<Rightarrow>
         bindE (read_metadata (journal_from_slice ext) JOURNAL_METADATA JournalKind) (\<lambda>read. case read of
           None \<Rightarrow> returnE None
         | Some m \<Rightarrow>
             bindE (liftE (validate_identity st (jr_profile_id m) (jr_source m) (jr_target m))) (\<lambda>_.
             bindE (liftE (validate_private_filename (jr_candidate_file m) ''candidate-'')) (\<lambda>_.
             bindE (read_private_file (jr_candidate_file m)) (\<lambda>candidate.
             if CiphertextDigest_of ext candidate \<noteq> jr_candidate_sha256 m then throwE CorruptJournal
             else returnE (Some \<lparr>lj_record = m, lj_candidate = candidate\<rparr>))))))"

definition recovery_status ::
    "'x store_ext_scheme \<Rightarrow> SyncStore \<Rightarrow> ('a dirworld_scheme, StoreError, RecoveryStatus) op" where
  "recovery_status ext st =
     bindE (metadata_schema ext JOURNAL_METADATA JournalKind) (\<lambda>journal.
     bindE (metadata_schema ext BASE_METADATA BaseKind) (\<lambda>base.
     if journal = SchemaUnsupported \<or> base = SchemaUnsupported then returnE Unsupported
     else
       bindE (if journal = SchemaCurrent then bindE (load_journal ext st) (\<lambda>_. returnE ())
              else returnE ()) (\<lambda>_.
       bindE (if base = SchemaCurrent then bindE (load_base ext st) (\<lambda>_. returnE ())
              else returnE ()) (\<lambda>_.
       returnE (if journal = SchemaCurrent then Required else RecoveryNone)))))"

definition write_journal ::
    "'x store_ext_scheme \<Rightarrow> JournalRecord \<Rightarrow> ('a dirworld_scheme, StoreError, unit) op" where
  "write_journal ext record =
     bindE (read_metadata (journal_from_slice ext) JOURNAL_METADATA JournalKind) (\<lambda>current.
     if (case current of None \<Rightarrow> False
         | Some current \<Rightarrow> jr_operation_id current \<noteq> jr_operation_id record)
     then throwE ActiveJournal
     else atomic_write_json (journal_to_vec ext) JOURNAL_METADATA record)"

definition candidate_filename :: "'x store_ext_scheme \<Rightarrow> uuid \<Rightarrow> string" where
  "candidate_filename ext operation_id = ''candidate-'' @ uuid_to_string ext operation_id @ ''.kdbx''"

definition prepare_journal ::
    "'x store_ext_scheme \<Rightarrow> SyncStore \<Rightarrow> LocalSnapshot \<Rightarrow> RemoteRevision option \<Rightarrow> bytes \<Rightarrow>
     ('a dirworld_scheme, StoreError, JournalRecord) op" where
  "prepare_journal ext st local expected_remote_revision candidate =
     bindE (recovery_status ext st) (\<lambda>status.
     if status \<noteq> RecoveryNone then throwE ActiveJournal
     else if ls_source local \<noteq> st_source st then throwE WrongSource
     else
       bindE new_v4 (\<lambda>operation_id.
       bindE (atomic_write (candidate_filename ext operation_id) candidate) (\<lambda>_.
       let record = \<lparr>jr_schema_version = SCHEMA_VERSION, jr_profile_id = st_profile_id st,
                     jr_source = st_source st, jr_target = st_target st,
                     jr_operation_id = operation_id, jr_phase = Prepared,
                     jr_expected_local_sha256 = ls_digest local,
                     jr_expected_remote_revision = expected_remote_revision,
                     jr_candidate_file = candidate_filename ext operation_id,
                     jr_candidate_sha256 = CiphertextDigest_of ext candidate,
                     jr_committed_remote_revision = None\<rparr> in
       bindE (write_journal ext record) (\<lambda>_.
       returnE record))))"

text \<open>The \<open>&mut JournalRecord\<close> argument: the updated record is returned.\<close>

definition mark_remote_committed ::
    "'x store_ext_scheme \<Rightarrow> JournalRecord \<Rightarrow> RemoteRevision \<Rightarrow> ('a dirworld_scheme, StoreError, JournalRecord) op" where
  "mark_remote_committed ext record r =
     (let record = record\<lparr>jr_phase := RemoteCommitted, jr_committed_remote_revision := Some r\<rparr> in
      bindE (write_journal ext record) (\<lambda>_. returnE record))"

definition mark_local_committed ::
    "'x store_ext_scheme \<Rightarrow> JournalRecord \<Rightarrow> ('a dirworld_scheme, StoreError, JournalRecord) op" where
  "mark_local_committed ext record =
     (let record = record\<lparr>jr_phase := LocalCommitted\<rparr> in
      bindE (write_journal ext record) (\<lambda>_. returnE record))"

definition remove_journal ::
    "'x store_ext_scheme \<Rightarrow> SyncStore \<Rightarrow> JournalRecord \<Rightarrow> ('a dirworld_scheme, StoreError, unit) op" where
  "remove_journal ext st record =
     bindE (load_journal ext st) (\<lambda>loaded.
     bindE (liftE (ok_or StoreError.InvalidMetadata loaded)) (\<lambda>current.
     if jr_operation_id (lj_record current) \<noteq> jr_operation_id record then throwE StoreError.InvalidMetadata
     else
       bindE (remove_if_file JOURNAL_METADATA) (\<lambda>_.
       bindE (remove_if_file (jr_candidate_file record)) (\<lambda>_.
       sync_directory))))"

subsection \<open>Explicit reset\<close>

text \<open>The directory listing: every entry is read, and refused or collected, before anything is
  removed.\<close>

fun classify_entries ::
    "'x store_ext_scheme \<Rightarrow> (string \<times> node) list \<Rightarrow> ('a dirworld_scheme, StoreError, string list) op" where
  "classify_entries ext [] = returnE []"
| "classify_entries ext ((name, nd) # rest) =
     bindE io_point (\<lambda>_.  \<comment> \<open>entry\<close>
     bindE io_point (\<lambda>_.  \<comment> \<open>file_type\<close>
     case nd of
       Regular _ \<Rightarrow>
         if name = BASE_METADATA \<or> name = JOURNAL_METADATA then classify_entries ext rest
         else if is_private_state_ciphertext_filename ext name
         then bindE (classify_entries ext rest) (\<lambda>names. returnE (name # names))
         else throwE StoreError.InvalidMetadata
     | _ \<Rightarrow> throwE StoreError.InvalidMetadata))"

fun remove_all :: "string list \<Rightarrow> ('a dirworld_scheme, StoreError, unit) op" where
  "remove_all [] = returnE ()"
| "remove_all (name # names) = bindE (remove_if_file name) (\<lambda>_. remove_all names)"

definition reset_state :: "'x store_ext_scheme \<Rightarrow> ('a dirworld_scheme, StoreError, unit) op" where
  "reset_state ext =
     bindE io_point (\<lambda>_.
     bindE (getsE entries) (\<lambda>listing.
     bindE (classify_entries ext listing) (\<lambda>ciphertext_files.
     bindE (remove_if_file JOURNAL_METADATA) (\<lambda>_.
     bindE (remove_if_file BASE_METADATA) (\<lambda>_.
     bindE (remove_all ciphertext_files) (\<lambda>_.
     sync_directory))))))"

end
