(* ===== verification/Sync_Store_Disk.thy ===== *)
theory Sync_Store_Disk
  imports Sync_Store
begin

section \<open>What the store's directory means\<close>

text \<open>
  The abstract state of the store, read off the directory: \<open>disk_base\<close> and \<open>disk_journal\<close> are
  the BASE and the journal that \<open>load_base\<close> and \<open>load_journal\<close> return when no system call fails.
  The operations of \<open>Sync_Store\<close> that only read are shown to compute them, the operations that
  write are shown to be atomic with respect to them: whatever system call fails, the BASE and
  the journal on disk are the old or the new ones and never a mixture.
\<close>

subsection \<open>Readings\<close>

type_synonym disk = "string \<Rightarrow> node option"

definition disk_schema ::
    "'x store_ext_scheme \<Rightarrow> MetadataKind \<Rightarrow> node option \<Rightarrow> StoreError + MetadataSchema" where
  "disk_schema ext kind n =
     bindR (map_err (map_read_error kind) (optional_file MAX_METADATA_BYTES n)) (\<lambda>read.
     case read of
       None \<Rightarrow> Inr SchemaMissing
     | Some bs \<Rightarrow> bindR (ok_or (corrupt_error kind) (envelope_from_slice ext bs)) (\<lambda>v.
         Inr (if v = SCHEMA_VERSION then SchemaCurrent else SchemaUnsupported)))"

definition disk_metadata ::
    "(bytes \<Rightarrow> 'm option) \<Rightarrow> MetadataKind \<Rightarrow> node option \<Rightarrow> StoreError + 'm option" where
  "disk_metadata from_slice kind n =
     bindR (map_err (map_read_error kind) (optional_file MAX_METADATA_BYTES n)) (\<lambda>read.
     case read of
       None \<Rightarrow> Inr None
     | Some bs \<Rightarrow> ok_or (corrupt_error kind) (map_option Some (from_slice bs)))"

definition disk_base :: "'x store_ext_scheme \<Rightarrow> SyncStore \<Rightarrow> disk \<Rightarrow> StoreError + BaseState option" where
  "disk_base ext st d =
     bindR (disk_schema ext BaseKind (d BASE_METADATA)) (\<lambda>schema. case schema of
       SchemaMissing \<Rightarrow> Inr None
     | SchemaUnsupported \<Rightarrow> Inl UnsupportedSchema
     | SchemaCurrent \<Rightarrow>
         bindR (disk_metadata (base_from_slice ext) BaseKind (d BASE_METADATA)) (\<lambda>read. case read of
           None \<Rightarrow> Inr None
         | Some m \<Rightarrow>
             bindR (validate_identity st (bm_profile_id m) (bm_source m) (bm_target m)) (\<lambda>_.
             bindR (validate_private_filename (bm_ciphertext_file m) ''base-'') (\<lambda>_.
             bindR (private_file (d (bm_ciphertext_file m))) (\<lambda>ct.
             if CiphertextDigest_of ext ct \<noteq> bm_ciphertext_sha256 m then Inl CorruptBase
             else Inr (Some \<lparr>base_ciphertext = ct, base_digest = CiphertextDigest_of ext ct,
                             base_remote_revision = bm_remote_revision m\<rparr>))))))"

definition disk_journal :: "'x store_ext_scheme \<Rightarrow> SyncStore \<Rightarrow> disk \<Rightarrow> StoreError + LoadedJournal option" where
  "disk_journal ext st d =
     bindR (disk_schema ext JournalKind (d JOURNAL_METADATA)) (\<lambda>schema. case schema of
       SchemaMissing \<Rightarrow> Inr None
     | SchemaUnsupported \<Rightarrow> Inl UnsupportedSchema
     | SchemaCurrent \<Rightarrow>
         bindR (disk_metadata (journal_from_slice ext) JournalKind (d JOURNAL_METADATA)) (\<lambda>read. case read of
           None \<Rightarrow> Inr None
         | Some m \<Rightarrow>
             bindR (validate_identity st (jr_profile_id m) (jr_source m) (jr_target m)) (\<lambda>_.
             bindR (validate_private_filename (jr_candidate_file m) ''candidate-'') (\<lambda>_.
             bindR (private_file (d (jr_candidate_file m))) (\<lambda>candidate.
             if CiphertextDigest_of ext candidate \<noteq> jr_candidate_sha256 m then Inl CorruptJournal
             else Inr (Some \<lparr>lj_record = m, lj_candidate = candidate\<rparr>))))))"

definition disk_status :: "'x store_ext_scheme \<Rightarrow> SyncStore \<Rightarrow> disk \<Rightarrow> StoreError + RecoveryStatus" where
  "disk_status ext st d =
     bindR (disk_schema ext JournalKind (d JOURNAL_METADATA)) (\<lambda>journal.
     bindR (disk_schema ext BaseKind (d BASE_METADATA)) (\<lambda>base.
     if journal = SchemaUnsupported \<or> base = SchemaUnsupported then Inr Unsupported
     else
       bindR (if journal = SchemaCurrent then bindR (disk_journal ext st d) (\<lambda>_. Inr ()) else Inr ()) (\<lambda>_.
       bindR (if base = SchemaCurrent then bindR (disk_base ext st d) (\<lambda>_. Inr ()) else Inr ()) (\<lambda>_.
       Inr (if journal = SchemaCurrent then Required else RecoveryNone)))))"

lemma map_read_error_Io [simp]: "map_read_error kind (StoreError.Io i) = StoreError.Io i"
  by (simp add: map_read_error_def)

lemma reads_case_schema:
  "reads m g \<Longrightarrow> reads m' g' \<Longrightarrow> reads m'' g'' \<Longrightarrow>
   reads (case x of SchemaMissing \<Rightarrow> m | SchemaCurrent \<Rightarrow> m' | SchemaUnsupported \<Rightarrow> m'')
     (\<lambda>w. case x of SchemaMissing \<Rightarrow> g w | SchemaCurrent \<Rightarrow> g' w | SchemaUnsupported \<Rightarrow> g'' w)"
  by (cases x) simp_all

lemma reads_metadata_schema:
  "reads (metadata_schema ext name kind) (\<lambda>w. disk_schema ext kind (lookup w name))"
  unfolding metadata_schema_def disk_schema_def
  by (intro reads_intros reads_optional_file map_read_error_Io)

lemma reads_metadata:
  "reads (read_metadata from_slice name kind) (\<lambda>w. disk_metadata from_slice kind (lookup w name))"
  unfolding read_metadata_def disk_metadata_def
  by (intro reads_intros reads_optional_file map_read_error_Io)

lemmas reads_store_intros = reads_metadata_schema reads_metadata reads_private_file
  reads_case_schema reads_intros

lemma reads_load_base: "reads (load_base ext st) (\<lambda>w. disk_base ext st (lookup w))"
  unfolding load_base_def disk_base_def by (intro reads_store_intros)

lemma reads_load_journal: "reads (load_journal ext st) (\<lambda>w. disk_journal ext st (lookup w))"
  unfolding load_journal_def disk_journal_def by (intro reads_store_intros)

lemma reads_recovery_status: "reads (recovery_status ext st) (\<lambda>w. disk_status ext st (lookup w))"
  unfolding recovery_status_def disk_status_def
  by (intro reads_store_intros reads_load_base reads_load_journal)

subsection \<open>File names\<close>

lemma path_segments_ne [simp]: "path_segments s \<noteq> []"
  by (cases s) auto

lemma path_segments_no_slash: "CHR 0x2F \<notin> set s \<Longrightarrow> path_segments s = [s]"
  by (induction s) auto

lemma path_segments_append:
  "CHR 0x2F \<notin> set a \<Longrightarrow> path_segments (a @ CHR 0x2F # s) = a # path_segments s"
  by (induction a) auto

lemma last_path_segments_append:
  "CHR 0x2F \<notin> set q \<Longrightarrow> \<exists>p. last (path_segments (s @ q)) = p @ q"
proof (induction s)
  case Nil
  then show ?case by (auto simp: path_segments_no_slash)
next
  case (Cons c s)
  then obtain p where p: "last (path_segments (s @ q)) = p @ q" by blast
  show ?case
  proof (cases "tl (path_segments (s @ q)) = []")
    case True
    then have "path_segments (s @ q) = [p @ q]"
      by (metis p hd_Cons_tl last_ConsL path_segments_ne)
    then show ?thesis by auto
  next
    case False
    with p show ?thesis
      by (cases "path_segments (s @ q)") auto
  qed
qed

lemma component_count_no_slash: "CHR 0x2F \<notin> set s \<Longrightarrow> s \<noteq> [] \<Longrightarrow> component_count s = 1"
  by (cases s) (auto simp: component_count_def path_segments_no_slash starts_with_iff)

text \<open>An accepted name is a plain file name: it cannot lead out of the directory.\<close>

lemma validate_private_filename_plain:
  assumes "validate_private_filename value pre = Inr ()" and "2 \<le> length pre" and "CHR 0x2F \<notin> set pre"
  shows "CHR 0x2F \<notin> set value"
proof
  assume slash: "CHR 0x2F \<in> set value"
  have cc: "component_count value = 1" and "starts_with value pre"
    and "ends_with value ''.kdbx'' \<or> ends_with value ''.json''"
    using assms(1) by (auto simp: validate_private_filename_def split: if_splits)
  then obtain r y q where r: "value = pre @ r" and y: "value = y @ q"
    and q: "q = ''.kdbx'' \<or> q = ''.json''"
    unfolding starts_with_iff ends_with_iff by blast
  from slash assms(3) r have "CHR 0x2F \<in> set r" by simp
  then obtain a s where "r = a @ CHR 0x2F # s" and "CHR 0x2F \<notin> set a"
    by (meson split_list_first)
  with r assms(3) have segs: "path_segments value = (pre @ a) # path_segments s"
    using path_segments_append [of "pre @ a" s] by simp
  have "CHR 0x2F \<notin> set q" using q by auto
  from last_path_segments_append [OF this, of y] y segs obtain p where
    p: "last (path_segments s) = p @ q" by auto
  have "last (path_segments s) \<in> set (filter (\<lambda>seg. seg \<noteq> [] \<and> seg \<noteq> ''.'') (path_segments s))"
    using q p last_in_set [OF path_segments_ne [of s]] by (auto simp: append_eq_Cons_conv)
  then have "filter (\<lambda>seg. seg \<noteq> [] \<and> seg \<noteq> ''.'') (path_segments s) \<noteq> []"
    by (metis empty_iff empty_set)
  moreover have "pre @ a \<noteq> []" "pre @ a \<noteq> ''.''" using assms(2) by (auto simp: append_eq_Cons_conv)
  ultimately have "2 \<le> component_count value"
    by (auto simp: component_count_def segs Let_def Suc_le_eq)
  with cc show False by simp
qed

lemma validate_private_filename_Inr:
  "validate_private_filename value pre = Inr () \<longleftrightarrow>
     component_count value = 1 \<and> starts_with value pre \<and>
     (ends_with value ''.kdbx'' \<or> ends_with value ''.json'')"
  by (simp add: validate_private_filename_def)

subsection \<open>Success and absence\<close>

lemma optional_file_Inr:
  "optional_file k n = Inr x \<longleftrightarrow> (n = None \<and> x = None) \<or>
     (\<exists>bs. n = Some (Regular bs) \<and> length bs \<le> k \<and> x = Some bs)"
  by (auto simp: optional_file_def split: option.splits node.splits)

lemma private_file_Inr: "private_file n = Inr bs \<longleftrightarrow> n = Some (Regular bs)"
  by (auto simp: private_file_def split: option.splits node.splits)

lemma disk_schema_Inr:
  "disk_schema ext kind n = Inr s \<longleftrightarrow> (n = None \<and> s = SchemaMissing) \<or>
     (\<exists>bs v. n = Some (Regular bs) \<and> length bs \<le> MAX_METADATA_BYTES \<and> envelope_from_slice ext bs = Some v \<and>
        s = (if v = SCHEMA_VERSION then SchemaCurrent else SchemaUnsupported))"
  by (auto simp: disk_schema_def bindR_Inr_iff optional_file_Inr split: option.splits)

lemma disk_metadata_Inr:
  "disk_metadata from_slice kind n = Inr x \<longleftrightarrow> (n = None \<and> x = None) \<or>
     (\<exists>bs m. n = Some (Regular bs) \<and> length bs \<le> MAX_METADATA_BYTES \<and> from_slice bs = Some m \<and> x = Some m)"
  by (auto simp: disk_metadata_def bindR_Inr_iff optional_file_Inr split: option.splits)

lemma validate_identity_Inr:
  "validate_identity st p s t = Inr u \<longleftrightarrow> p = st_profile_id st \<and> s = st_source st \<and> t = st_target st"
  by (auto simp: validate_identity_def)

lemma disk_base_unfold:
  "disk_base ext st d = (case d BASE_METADATA of
     None \<Rightarrow> Inr None
   | Some (Regular bs) \<Rightarrow>
       if MAX_METADATA_BYTES < length bs then Inl CorruptBase
       else (case envelope_from_slice ext bs of
         None \<Rightarrow> Inl CorruptBase
       | Some v \<Rightarrow> if v \<noteq> SCHEMA_VERSION then Inl UnsupportedSchema
           else (case base_from_slice ext bs of
             None \<Rightarrow> Inl CorruptBase
           | Some m \<Rightarrow>
             bindR (validate_identity st (bm_profile_id m) (bm_source m) (bm_target m)) (\<lambda>_.
             bindR (validate_private_filename (bm_ciphertext_file m) ''base-'') (\<lambda>_.
             bindR (private_file (d (bm_ciphertext_file m))) (\<lambda>ct.
             if CiphertextDigest_of ext ct \<noteq> bm_ciphertext_sha256 m then Inl CorruptBase
             else Inr (Some \<lparr>base_ciphertext = ct, base_digest = CiphertextDigest_of ext ct,
                             base_remote_revision = bm_remote_revision m\<rparr>))))))
   | Some _ \<Rightarrow> Inl CorruptBase)"
  by (simp add: disk_base_def disk_schema_def disk_metadata_def optional_file_def map_read_error_def
      split: option.split node.split)

lemma disk_journal_unfold:
  "disk_journal ext st d = (case d JOURNAL_METADATA of
     None \<Rightarrow> Inr None
   | Some (Regular bs) \<Rightarrow>
       if MAX_METADATA_BYTES < length bs then Inl CorruptJournal
       else (case envelope_from_slice ext bs of
         None \<Rightarrow> Inl CorruptJournal
       | Some v \<Rightarrow> if v \<noteq> SCHEMA_VERSION then Inl UnsupportedSchema
           else (case journal_from_slice ext bs of
             None \<Rightarrow> Inl CorruptJournal
           | Some m \<Rightarrow>
             bindR (validate_identity st (jr_profile_id m) (jr_source m) (jr_target m)) (\<lambda>_.
             bindR (validate_private_filename (jr_candidate_file m) ''candidate-'') (\<lambda>_.
             bindR (private_file (d (jr_candidate_file m))) (\<lambda>candidate.
             if CiphertextDigest_of ext candidate \<noteq> jr_candidate_sha256 m then Inl CorruptJournal
             else Inr (Some \<lparr>lj_record = m, lj_candidate = candidate\<rparr>))))))
   | Some _ \<Rightarrow> Inl CorruptJournal)"
  by (simp add: disk_journal_def disk_schema_def disk_metadata_def optional_file_def map_read_error_def
      split: option.split node.split)

lemma disk_base_None: "disk_base ext st d = Inr None \<longleftrightarrow> d BASE_METADATA = None"
  by (auto simp: disk_base_unfold bindR_Inr_iff split: option.splits node.splits if_splits)

lemma disk_base_Some:
  "disk_base ext st d = Inr (Some b) \<longleftrightarrow>
     (\<exists>bs m ct. d BASE_METADATA = Some (Regular bs) \<and> length bs \<le> MAX_METADATA_BYTES \<and>
        envelope_from_slice ext bs = Some SCHEMA_VERSION \<and> base_from_slice ext bs = Some m \<and>
        bm_profile_id m = st_profile_id st \<and> bm_source m = st_source st \<and> bm_target m = st_target st \<and>
        validate_private_filename (bm_ciphertext_file m) ''base-'' = Inr () \<and>
        d (bm_ciphertext_file m) = Some (Regular ct) \<and>
        bm_ciphertext_sha256 m = CiphertextDigest_of ext ct \<and>
        b = \<lparr>base_ciphertext = ct, base_digest = CiphertextDigest_of ext ct,
             base_remote_revision = bm_remote_revision m\<rparr>)"
  by (auto simp: disk_base_unfold bindR_Inr_iff validate_identity_Inr private_file_Inr
      split: option.splits node.splits if_splits)

lemma disk_journal_None: "disk_journal ext st d = Inr None \<longleftrightarrow> d JOURNAL_METADATA = None"
  by (auto simp: disk_journal_unfold bindR_Inr_iff split: option.splits node.splits if_splits)

lemma disk_journal_Some:
  "disk_journal ext st d = Inr (Some lj) \<longleftrightarrow>
     (\<exists>bs m candidate. d JOURNAL_METADATA = Some (Regular bs) \<and> length bs \<le> MAX_METADATA_BYTES \<and>
        envelope_from_slice ext bs = Some SCHEMA_VERSION \<and> journal_from_slice ext bs = Some m \<and>
        jr_profile_id m = st_profile_id st \<and> jr_source m = st_source st \<and> jr_target m = st_target st \<and>
        validate_private_filename (jr_candidate_file m) ''candidate-'' = Inr () \<and>
        d (jr_candidate_file m) = Some (Regular candidate) \<and>
        jr_candidate_sha256 m = CiphertextDigest_of ext candidate \<and>
        lj = \<lparr>lj_record = m, lj_candidate = candidate\<rparr>)"
  by (auto simp: disk_journal_unfold bindR_Inr_iff validate_identity_Inr private_file_Inr
      split: option.splits node.splits if_splits)

text \<open>The BASE depends on \<open>base.json\<close> and on files called \<open>base-...\<close> only, the journal on
  \<open>journal.json\<close> and files called \<open>candidate-...\<close> only.\<close>

lemma disk_base_frame:
  assumes "d BASE_METADATA = d' BASE_METADATA" and "\<And>n. starts_with n ''base-'' \<Longrightarrow> d n = d' n"
  shows "disk_base ext st d = disk_base ext st d'"
  unfolding disk_base_def assms(1)
  by (auto simp: bindR_def validate_private_filename_def assms(2)
      split: sum.splits MetadataSchema.splits option.splits if_splits)

lemma disk_journal_frame:
  assumes "d JOURNAL_METADATA = d' JOURNAL_METADATA"
    and "\<And>n. starts_with n ''candidate-'' \<Longrightarrow> d n = d' n"
  shows "disk_journal ext st d = disk_journal ext st d'"
  unfolding disk_journal_def assms(1)
  by (auto simp: bindR_def validate_private_filename_def assms(2)
      split: sum.splits MetadataSchema.splits option.splits if_splits)

lemma disk_status_RecoveryNone:
  "disk_status ext st d = Inr RecoveryNone \<longleftrightarrow>
     disk_journal ext st d = Inr None \<and> (\<exists>b. disk_base ext st d = Inr b)"
proof -
  have 1: "\<exists>b. disk_base ext st d = Inr b" if "disk_schema ext BaseKind (d BASE_METADATA) = Inr SchemaMissing"
    using that by (auto simp: disk_base_def)
  have 2: "\<exists>s. disk_schema ext BaseKind (d BASE_METADATA) = Inr s \<and> s \<noteq> SchemaUnsupported"
    if "disk_base ext st d = Inr b" for b
    using that by (cases "disk_schema ext BaseKind (d BASE_METADATA)") (auto simp: disk_base_def)
  have 3: "disk_schema ext JournalKind (d JOURNAL_METADATA) = Inr SchemaMissing \<longleftrightarrow> d JOURNAL_METADATA = None"
    by (auto simp: disk_schema_Inr)
  show ?thesis
  proof
    assume "disk_status ext st d = Inr RecoveryNone"
    then obtain j b where j: "disk_schema ext JournalKind (d JOURNAL_METADATA) = Inr j" "j = SchemaMissing"
      and b: "disk_schema ext BaseKind (d BASE_METADATA) = Inr b"
        "b = SchemaCurrent \<longrightarrow> (\<exists>x. disk_base ext st d = Inr x)" "b \<noteq> SchemaUnsupported"
      by (cases "disk_schema ext JournalKind (d JOURNAL_METADATA)";
          cases "disk_schema ext BaseKind (d BASE_METADATA)")
        (auto simp: disk_status_def bindR_Inr_iff split: if_splits intro: MetadataSchema.exhaust)
    with 1 3 show "disk_journal ext st d = Inr None \<and> (\<exists>b. disk_base ext st d = Inr b)"
      by (cases b) (auto simp: disk_journal_None)
  next
    assume *: "disk_journal ext st d = Inr None \<and> (\<exists>b. disk_base ext st d = Inr b)"
    then obtain b s where "disk_base ext st d = Inr b"
      "disk_schema ext BaseKind (d BASE_METADATA) = Inr s" "s \<noteq> SchemaUnsupported"
      using 2 by blast
    moreover have "disk_schema ext JournalKind (d JOURNAL_METADATA) = Inr SchemaMissing"
      using * 3 by (simp add: disk_journal_None)
    ultimately show "disk_status ext st d = Inr RecoveryNone"
      by (simp add: disk_status_def)
  qed
qed

end
