(* ===== verification/Sync_Store_Spec.thy ===== *)
theory Sync_Store_Spec
  imports Sync_Store_Disk
begin

section \<open>Atomicity of the store's writes\<close>

text \<open>
  The contract of the store's operations over the abstract state of \<open>Sync_Store_Disk\<close>. Every
  rule covers every pattern of I/O failures; the lemmas named \<open>..._ok\<close> add that without
  failures the operation succeeds.
\<close>

subsection \<open>What is assumed of serde and uuid\<close>

definition wf_base_metadata :: "BaseMetadata \<Rightarrow> bool" where
  "wf_base_metadata m = (length (source_as_str (bm_source m)) = 64 \<and>
     length (target_as_str (bm_target m)) = 64 \<and> length (bm_ciphertext_file m) \<le> 255 \<and>
     length (digest_as_str (bm_ciphertext_sha256 m)) = 64 \<and> valid_revision (bm_remote_revision m))"

definition wf_journal_record :: "JournalRecord \<Rightarrow> bool" where
  "wf_journal_record m = (length (source_as_str (jr_source m)) = 64 \<and>
     length (target_as_str (jr_target m)) = 64 \<and> length (jr_candidate_file m) \<le> 255 \<and>
     length (digest_as_str (jr_candidate_sha256 m)) = 64 \<and>
     length (digest_as_str (jr_expected_local_sha256 m)) = 64 \<and>
     pred_option valid_revision (jr_expected_remote_revision m) \<and>
     pred_option valid_revision (jr_committed_remote_revision m))"

definition store_ext_ok :: "'x store_ext_scheme \<Rightarrow> bool" where
  "store_ext_ok ext \<longleftrightarrow> sha256_ok ext \<and>
     (\<forall>u. uuid_parse_str ext (uuid_to_string ext u) = Some u \<and> length (uuid_to_string ext u) = 36 \<and>
        (\<forall>c\<in>set (uuid_to_string ext u). is_lower_hex c \<or> c = CHR ''-'')) \<and>
     (\<forall>m. wf_base_metadata m \<longrightarrow> (\<exists>bs. base_to_vec ext m = Some bs \<and> length bs \<le> MAX_METADATA_BYTES \<and>
        base_from_slice ext bs = Some m \<and> envelope_from_slice ext bs = Some (bm_schema_version m))) \<and>
     (\<forall>m. wf_journal_record m \<longrightarrow> (\<exists>bs. journal_to_vec ext m = Some bs \<and> length bs \<le> MAX_METADATA_BYTES \<and>
        journal_from_slice ext bs = Some m \<and> envelope_from_slice ext bs = Some (jr_schema_version m))) \<and>
     (\<forall>bs m. journal_from_slice ext bs = Some m \<longrightarrow> envelope_from_slice ext bs = Some (jr_schema_version m))"

definition wf_store :: "SyncStore \<Rightarrow> bool" where
  "wf_store st = (length (source_as_str (st_source st)) = 64 \<and> length (target_as_str (st_target st)) = 64)"

text \<open>The next \<open>n\<close> random UUIDs are distinct and name no existing file.\<close>

definition uuids_fresh :: "nat \<Rightarrow> 'x store_ext_scheme \<Rightarrow> 'a dirworld_scheme \<Rightarrow> bool" where
  "uuids_fresh n ext w \<longleftrightarrow>
     distinct (map (uuid_source w) [uuid_index w ..< uuid_index w + n]) \<and>
     (\<forall>i\<in>{uuid_index w ..< uuid_index w + n}.
        lookup w (base_filename ext (uuid_source w i)) = None \<and>
        lookup w (candidate_filename ext (uuid_source w i)) = None)"

lemma uuid_to_string_inj: "store_ext_ok ext \<Longrightarrow> uuid_to_string ext u = uuid_to_string ext v \<longleftrightarrow> u = v"
  by (metis option.inject store_ext_ok_def)

lemma no_slash_uuid: "store_ext_ok ext \<Longrightarrow> CHR 0x2F \<notin> set (uuid_to_string ext u)"
  by (auto simp: store_ext_ok_def is_lower_hex_def is_ascii_digit_def dest!: spec [where x = u] bspec)

lemma sha256_length: "store_ext_ok ext \<Longrightarrow> length (digest_as_str (CiphertextDigest_of ext bs)) = 64"
  by (simp add: store_ext_ok_def sha256_ok_def CiphertextDigest_of_def)

lemma filename_distinct [simp]:
  "base_filename ext u \<noteq> BASE_METADATA" "base_filename ext u \<noteq> JOURNAL_METADATA"
  "candidate_filename ext u \<noteq> BASE_METADATA" "candidate_filename ext u \<noteq> JOURNAL_METADATA"
  "base_filename ext u \<noteq> candidate_filename ext v" "candidate_filename ext v \<noteq> base_filename ext u"
  "BASE_METADATA \<noteq> JOURNAL_METADATA" "JOURNAL_METADATA \<noteq> BASE_METADATA"
  "BASE_METADATA \<noteq> base_filename ext u" "JOURNAL_METADATA \<noteq> base_filename ext u"
  "BASE_METADATA \<noteq> candidate_filename ext u" "JOURNAL_METADATA \<noteq> candidate_filename ext u"
  by (simp_all add: base_filename_def candidate_filename_def BASE_METADATA_def JOURNAL_METADATA_def)

lemma starts_with_filename [simp]:
  "starts_with (base_filename ext u) ''base-''" "\<not> starts_with (base_filename ext u) ''candidate-''"
  "starts_with (candidate_filename ext u) ''candidate-''" "\<not> starts_with (candidate_filename ext u) ''base-''"
  "\<not> starts_with BASE_METADATA ''base-''" "\<not> starts_with BASE_METADATA ''candidate-''"
  "\<not> starts_with JOURNAL_METADATA ''base-''" "\<not> starts_with JOURNAL_METADATA ''candidate-''"
  by (simp_all add: starts_with_def base_filename_def candidate_filename_def BASE_METADATA_def
      JOURNAL_METADATA_def)

lemma base_filename_inj [simp]:
  "store_ext_ok ext \<Longrightarrow> base_filename ext u = base_filename ext v \<longleftrightarrow> u = v"
  by (simp add: base_filename_def uuid_to_string_inj)

lemma candidate_filename_inj [simp]:
  "store_ext_ok ext \<Longrightarrow> candidate_filename ext u = candidate_filename ext v \<longleftrightarrow> u = v"
  by (simp add: candidate_filename_def uuid_to_string_inj)

lemma validate_filename [simp]:
  assumes "store_ext_ok ext"
  shows "validate_private_filename (base_filename ext u) ''base-'' = Inr ()"
    and "validate_private_filename (candidate_filename ext u) ''candidate-'' = Inr ()"
  using no_slash_uuid [OF assms, of u]
  by (auto simp: validate_private_filename_Inr component_count_no_slash base_filename_def
      candidate_filename_def starts_with_def ends_with_iff)

lemma uuids_freshD:
  assumes "uuids_fresh (Suc n) ext w"
  shows "lookup w (base_filename ext (uuid_source w (uuid_index w))) = None"
    and "lookup w (candidate_filename ext (uuid_source w (uuid_index w))) = None"
  using assms by (auto simp: uuids_fresh_def)

text \<open>Consuming one UUID and adding at most files named after it.\<close>

lemma uuids_fresh_Suc:
  assumes "store_ext_ok ext" and "uuids_fresh (Suc n) ext w"
    and "uuid_source t = uuid_source w" and "uuid_index t = Suc (uuid_index w)"
    and "\<And>m. lookup t m \<noteq> None \<Longrightarrow> lookup w m \<noteq> None \<or> m = BASE_METADATA \<or> m = JOURNAL_METADATA \<or>
      m = base_filename ext (uuid_source w (uuid_index w)) \<or>
      m = candidate_filename ext (uuid_source w (uuid_index w))"
  shows "uuids_fresh n ext t"
proof -
  let ?i = "uuid_index w"
  have up: "[?i ..< ?i + Suc n] = ?i # [Suc ?i ..< Suc ?i + n]"
    by (simp add: upt_conv_Cons del: upt_Suc)
  have d: "distinct (map (uuid_source w) (?i # [Suc ?i ..< Suc ?i + n]))"
    using assms(2) unfolding uuids_fresh_def up by blast
  then have ne: "uuid_source w j \<noteq> uuid_source w ?i" if "j \<in> {Suc ?i ..< Suc ?i + n}" for j
    using that by (metis atLeastLessThan_upt distinct.simps(2) image_eqI list.set_map list.simps(9))
  have "lookup w (base_filename ext (uuid_source w j)) = None"
    and "lookup w (candidate_filename ext (uuid_source w j)) = None"
    if "j \<in> {Suc ?i ..< Suc ?i + n}" for j
    using assms(2) that by (auto simp: uuids_fresh_def)
  with ne assms(1,5) have "lookup t (base_filename ext (uuid_source w j)) = None \<and>
      lookup t (candidate_filename ext (uuid_source w j)) = None"
    if "j \<in> {Suc ?i ..< Suc ?i + n}" for j
    using that by (metis base_filename_inj candidate_filename_inj filename_distinct(1-6))
  moreover have "distinct (map (uuid_source w) [Suc ?i ..< Suc ?i + n])"
    using d by simp
  ultimately show ?thesis
    using assms(3,4) by (simp add: uuids_fresh_def)
qed

lemma uuids_fresh_mono:
  assumes "uuids_fresh n ext w" and "k \<le> n" and "uuid_source t = uuid_source w"
    and "uuid_index t = uuid_index w"
    and "\<And>m. lookup t m \<noteq> None \<Longrightarrow> lookup w m \<noteq> None \<or> m = BASE_METADATA \<or> m = JOURNAL_METADATA"
  shows "uuids_fresh k ext t"
proof -
  have "[uuid_index w ..< uuid_index w + n] =
      [uuid_index w ..< uuid_index w + k] @ [uuid_index w + k ..< uuid_index w + n]"
    using assms(2) by (metis add_diff_inverse_nat le_add1 not_le upt_add_eq_append add.assoc)
  then have "distinct (map (uuid_source w) [uuid_index w ..< uuid_index w + k])"
    using assms(1) by (simp add: uuids_fresh_def)
  moreover have "lookup t m = None" if "lookup w m = None" "m \<noteq> BASE_METADATA" "m \<noteq> JOURNAL_METADATA" for m
    using assms(5) [of m] that by blast
  ultimately show ?thesis
    using assms(1-4) by (auto simp: uuids_fresh_def)
qed

subsection \<open>Disks\<close>

lemma disk_base_extend:
  assumes "disk_base ext st d = Inr b" and "d' BASE_METADATA = d BASE_METADATA"
    and "\<And>n. d n \<noteq> None \<Longrightarrow> starts_with n ''base-'' \<Longrightarrow> d' n = d n"
  shows "disk_base ext st d' = Inr b"
proof (cases b)
  case None
  with assms show ?thesis by (simp add: disk_base_None)
next
  case (Some bst)
  with assms(1) obtain bs m ct where m: "d BASE_METADATA = Some (Regular bs)" "length bs \<le> MAX_METADATA_BYTES"
      "envelope_from_slice ext bs = Some SCHEMA_VERSION" "base_from_slice ext bs = Some m"
      "validate_private_filename (bm_ciphertext_file m) ''base-'' = Inr ()"
      "d (bm_ciphertext_file m) = Some (Regular ct)"
    by (auto simp: disk_base_Some)
  then have "d' (bm_ciphertext_file m) = d (bm_ciphertext_file m)"
    using assms(3) by (simp add: validate_private_filename_Inr)
  with assms(1,2) m show ?thesis by (simp add: disk_base_unfold)
qed

lemma disk_journal_extend:
  assumes "disk_journal ext st d = Inr j" and "d' JOURNAL_METADATA = d JOURNAL_METADATA"
    and "\<And>n. d n \<noteq> None \<Longrightarrow> starts_with n ''candidate-'' \<Longrightarrow> d' n = d n"
  shows "disk_journal ext st d' = Inr j"
proof (cases j)
  case None
  with assms show ?thesis by (simp add: disk_journal_None)
next
  case (Some lj)
  with assms(1) obtain bs m ct where m: "d JOURNAL_METADATA = Some (Regular bs)" "length bs \<le> MAX_METADATA_BYTES"
      "envelope_from_slice ext bs = Some SCHEMA_VERSION" "journal_from_slice ext bs = Some m"
      "validate_private_filename (jr_candidate_file m) ''candidate-'' = Inr ()"
      "d (jr_candidate_file m) = Some (Regular ct)"
    by (auto simp: disk_journal_Some)
  then have "d' (jr_candidate_file m) = d (jr_candidate_file m)"
    using assms(3) by (simp add: validate_private_filename_Inr)
  with assms(1,2) m show ?thesis by (simp add: disk_journal_unfold)
qed

lemma starts_with_exclusive:
  "starts_with n ''candidate-'' \<Longrightarrow> \<not> starts_with n ''base-''"
  "starts_with n ''base-'' \<Longrightarrow> n \<noteq> BASE_METADATA \<and> n \<noteq> JOURNAL_METADATA"
  "starts_with n ''candidate-'' \<Longrightarrow> n \<noteq> BASE_METADATA \<and> n \<noteq> JOURNAL_METADATA"
  by (auto simp: starts_with_iff BASE_METADATA_def JOURNAL_METADATA_def)

definition base_metadata_for ::
    "'x store_ext_scheme \<Rightarrow> SyncStore \<Rightarrow> uuid \<Rightarrow> bytes \<Rightarrow> RemoteRevision \<Rightarrow> BaseMetadata" where
  "base_metadata_for ext st u ct r =
     \<lparr>bm_schema_version = SCHEMA_VERSION, bm_profile_id = st_profile_id st,
      bm_source = st_source st, bm_target = st_target st, bm_ciphertext_file = base_filename ext u,
      bm_ciphertext_sha256 = CiphertextDigest_of ext ct, bm_remote_revision = r\<rparr>"

definition base_state :: "'x store_ext_scheme \<Rightarrow> bytes \<Rightarrow> RemoteRevision \<Rightarrow> BaseState" where
  "base_state ext ct r = \<lparr>base_ciphertext = ct, base_digest = CiphertextDigest_of ext ct,
     base_remote_revision = r\<rparr>"

lemma base_metadata_for_file [simp]:
  "bm_ciphertext_file (base_metadata_for ext st u ct r) = base_filename ext u"
  by (simp add: base_metadata_for_def)

lemma base_metadata_for_encoded:
  assumes "store_ext_ok ext" and "wf_store st" and "valid_revision r"
  obtains bs where "base_to_vec ext (base_metadata_for ext st u ct r) = Some bs"
    and "length bs \<le> MAX_METADATA_BYTES" and "envelope_from_slice ext bs = Some SCHEMA_VERSION"
    and "base_from_slice ext bs = Some (base_metadata_for ext st u ct r)"
proof -
  have "length (uuid_to_string ext u) = 36" using assms(1) by (simp add: store_ext_ok_def)
  then have "wf_base_metadata (base_metadata_for ext st u ct r)"
    using assms sha256_length [OF assms(1), of ct]
    by (simp add: wf_base_metadata_def base_metadata_for_def wf_store_def base_filename_def)
  with assms(1) obtain bs where "base_to_vec ext (base_metadata_for ext st u ct r) = Some bs"
    "length bs \<le> MAX_METADATA_BYTES" "base_from_slice ext bs = Some (base_metadata_for ext st u ct r)"
    "envelope_from_slice ext bs = Some (bm_schema_version (base_metadata_for ext st u ct r))"
    unfolding store_ext_ok_def by blast
  then show thesis using that by (simp add: base_metadata_for_def)
qed

text \<open>The disk after the new metadata has been renamed into place, before and after the previous
  ciphertext file is removed.\<close>

lemma disk_base_switched:
  assumes "store_ext_ok ext" and "length bs \<le> MAX_METADATA_BYTES"
    and "envelope_from_slice ext bs = Some SCHEMA_VERSION"
    and "base_from_slice ext bs = Some (base_metadata_for ext st u ct r)"
    and "d BASE_METADATA = Some (Regular bs)" and "d (base_filename ext u) = Some (Regular ct)"
  shows "disk_base ext st d = Inr (Some (base_state ext ct r))"
  using assms by (simp add: disk_base_Some base_state_def base_metadata_for_def)

lemma disk_journal_base_files:
  assumes "\<And>n. n \<noteq> BASE_METADATA \<Longrightarrow> \<not> starts_with n ''base-'' \<Longrightarrow> d n = d' n"
  shows "disk_journal ext st d = disk_journal ext st d'"
proof (rule disk_journal_frame)
  show "d n = d' n" if "starts_with n ''candidate-''" for n
    using that starts_with_exclusive [of n] by (intro assms) blast+
qed (rule assms; simp)

lemma disk_base_candidate_files:
  assumes "\<And>n. n \<noteq> JOURNAL_METADATA \<Longrightarrow> \<not> starts_with n ''candidate-'' \<Longrightarrow> d n = d' n"
  shows "disk_base ext st d = disk_base ext st d'"
proof (rule disk_base_frame)
  show "d n = d' n" if "starts_with n ''base-''" for n
    using that starts_with_exclusive [of n] by (intro assms) blast+
qed (rule assms; simp)

subsection \<open>Writing the BASE\<close>

text \<open>What a store operation may change of the state, and the abstract state it leaves.\<close>

definition store_frame :: "'a dirworld_scheme \<Rightarrow> 'a dirworld_scheme \<Rightarrow> bool" where
  "store_frame w t \<longleftrightarrow> (\<exists>es i fs. t = w\<lparr>entries := es, uuid_index := i, faults := fs\<rparr>)"

definition disk_is ::
    "'x store_ext_scheme \<Rightarrow> SyncStore \<Rightarrow> BaseState option \<Rightarrow> LoadedJournal option \<Rightarrow>
     'a dirworld_scheme \<Rightarrow> bool" where
  "disk_is ext st b j w \<longleftrightarrow> disk_base ext st (lookup w) = Inr b \<and> disk_journal ext st (lookup w) = Inr j \<and>
     pred_option (\<lambda>lj. wf_journal_record (lj_record lj)) j"

lemma store_frame_refl [simp]: "store_frame w w"
proof -
  have "w = w\<lparr>entries := entries w, uuid_index := uuid_index w, faults := faults w\<rparr>" by simp
  then show ?thesis unfolding store_frame_def by blast
qed

lemma store_frame_trans: "store_frame w t \<Longrightarrow> store_frame t u \<Longrightarrow> store_frame w u"
proof -
  assume "store_frame w t" "store_frame t u"
  then obtain es i fs es' i' fs' where "t = w\<lparr>entries := es, uuid_index := i, faults := fs\<rparr>"
    "u = t\<lparr>entries := es', uuid_index := i', faults := fs'\<rparr>"
    unfolding store_frame_def by blast
  then have "u = w\<lparr>entries := es', uuid_index := i', faults := fs'\<rparr>" by simp
  then show ?thesis unfolding store_frame_def by blast
qed

lemma store_frame_updates [simp]:
  "store_frame w (t\<lparr>faults := fs\<rparr>) = store_frame w t"
  "store_frame w (t\<lparr>entries := es\<rparr>) = store_frame w t"
  "store_frame w (t\<lparr>uuid_index := i\<rparr>) = store_frame w t"
proof -
  have 1: "store_frame w (t\<lparr>faults := fs, entries := es, uuid_index := i\<rparr>)" if "store_frame w t"
    for t :: "'a dirworld_scheme" and es fs i
  proof -
    from that obtain es' i' fs' where "t = w\<lparr>entries := es', uuid_index := i', faults := fs'\<rparr>"
      unfolding store_frame_def by blast
    then have "t\<lparr>faults := fs, entries := es, uuid_index := i\<rparr> = w\<lparr>entries := es, uuid_index := i, faults := fs\<rparr>"
      by simp
    then show ?thesis unfolding store_frame_def by blast
  qed
  show "store_frame w (t\<lparr>faults := fs\<rparr>) = store_frame w t"
    using 1 [where t = t and fs = fs and es = "entries t" and i = "uuid_index t"]
      1 [where t = "t\<lparr>faults := fs\<rparr>" and fs = "faults t" and es = "entries t" and i = "uuid_index t"] by auto
  show "store_frame w (t\<lparr>entries := es\<rparr>) = store_frame w t"
    using 1 [where t = t and fs = "faults t" and es = es and i = "uuid_index t"]
      1 [where t = "t\<lparr>entries := es\<rparr>" and fs = "faults t" and es = "entries t" and i = "uuid_index t"] by auto
  show "store_frame w (t\<lparr>uuid_index := i\<rparr>) = store_frame w t"
    using 1 [where t = t and fs = "faults t" and es = "entries t" and i = i]
      1 [where t = "t\<lparr>uuid_index := i\<rparr>" and fs = "faults t" and es = "entries t" and i = "uuid_index t"] by auto
qed

lemma lookup_updates [simp]:
  "map_of (AList.update n nd es) = (map_of es)(n \<mapsto> nd)"
  "map_of (AList.delete n es) = (map_of es)(n := None)"
  by (simp_all add: update_conv' delete_conv')

text \<open>
  \<open>store_post ext st n w b j t\<close>: \<open>t\<close> follows \<open>w\<close> by store operations only, its abstract state is
  \<open>(b, j)\<close>, and \<open>n\<close> more fresh UUIDs are at hand.
\<close>

definition store_post ::
    "'x store_ext_scheme \<Rightarrow> SyncStore \<Rightarrow> nat \<Rightarrow> 'a dirworld_scheme \<Rightarrow> BaseState option \<Rightarrow>
     LoadedJournal option \<Rightarrow> 'a dirworld_scheme \<Rightarrow> bool" where
  "store_post ext st n w b j t \<longleftrightarrow> store_frame w t \<and> disk_is ext st b j t \<and> uuids_fresh n ext t"

lemma store_post_intro:
  assumes "store_ext_ok ext" and "uuids_fresh (Suc n) ext w" and "store_frame w t"
    and "uuid_index t = Suc (uuid_index w)"
    and "\<And>m. lookup t m \<noteq> None \<Longrightarrow> lookup w m \<noteq> None \<or> m = BASE_METADATA \<or> m = JOURNAL_METADATA \<or>
      m = base_filename ext (uuid_source w (uuid_index w)) \<or>
      m = candidate_filename ext (uuid_source w (uuid_index w))"
    and "pred_option (\<lambda>lj. wf_journal_record (lj_record lj)) j"
    and "disk_base ext st (lookup t) = Inr b" and "disk_journal ext st (lookup t) = Inr j"
  shows "store_post ext st n w b j t"
proof -
  have "uuid_source t = uuid_source w" using assms(3) by (auto simp: store_frame_def)
  then have "uuids_fresh n ext t" by (rule uuids_fresh_Suc [OF assms(1,2) _ assms(4,5)])
  with assms(3,6-8) show ?thesis by (simp add: store_post_def disk_is_def)
qed

text \<open>The states between the steps of \<open>write_base\<close>: nothing written, the ciphertext written, the
  metadata switched, the old ciphertext removed.\<close>

lemma write_base_steps:
  assumes ok: "store_ext_ok ext" "wf_store st" "valid_revision r"
    and w: "uuids_fresh (Suc n) ext w" "disk_is ext st b j w"
    and bs: "length bs \<le> MAX_METADATA_BYTES" "envelope_from_slice ext bs = Some SCHEMA_VERSION"
      "base_from_slice ext bs = Some (base_metadata_for ext st u ct r)"
    and u: "u = uuid_source w (uuid_index w)"
    and t: "store_frame w t" "uuid_index t = Suc (uuid_index w)"
  shows "lookup t = lookup w \<Longrightarrow> store_post ext st n w b j t"
    and "lookup t = (lookup w)(base_filename ext u \<mapsto> Regular ct) \<Longrightarrow> store_post ext st n w b j t"
    and "lookup t = (lookup w)(base_filename ext u \<mapsto> Regular ct, BASE_METADATA \<mapsto> Regular bs) \<Longrightarrow>
      store_post ext st n w (Some (base_state ext ct r)) j t"
    and "lookup t = (lookup w)(base_filename ext u \<mapsto> Regular ct, BASE_METADATA \<mapsto> Regular bs,
        old := None) \<Longrightarrow> starts_with old ''base-'' \<Longrightarrow> old \<noteq> base_filename ext u \<Longrightarrow>
      store_post ext st n w (Some (base_state ext ct r)) j t"
proof -
  note intro = store_post_intro [OF ok(1) w(1) t]
  have b: "disk_base ext st (lookup w) = Inr b" and j: "disk_journal ext st (lookup w) = Inr j"
    and wf: "pred_option (\<lambda>lj. wf_journal_record (lj_record lj)) j"
    using w(2) by (simp_all add: disk_is_def)
  have fresh: "lookup w (base_filename ext u) = None" using uuids_freshD(1) [OF w(1)] u by simp
  have j': "disk_journal ext st (lookup t) = Inr j"
    if "\<And>m. m \<noteq> BASE_METADATA \<Longrightarrow> \<not> starts_with m ''base-'' \<Longrightarrow> lookup t m = lookup w m"
    using j disk_journal_base_files [of "lookup t" "lookup w" ext st, OF that] by simp
  show "store_post ext st n w b j t" if "lookup t = lookup w"
    by (rule intro) (use that b j wf in auto)
  show "store_post ext st n w b j t" if "lookup t = (lookup w)(base_filename ext u \<mapsto> Regular ct)"
  proof (rule intro)
    show "disk_base ext st (lookup t) = Inr b"
      by (rule disk_base_extend [OF b]) (auto simp: that fresh)
    show "disk_journal ext st (lookup t) = Inr j" by (rule j') (use that in auto)
  qed (use that u wf in \<open>auto split: if_splits\<close>)
  show "store_post ext st n w (Some (base_state ext ct r)) j t"
    if "lookup t = (lookup w)(base_filename ext u \<mapsto> Regular ct, BASE_METADATA \<mapsto> Regular bs)"
  proof (rule intro)
    show "disk_base ext st (lookup t) = Inr (Some (base_state ext ct r))"
      by (rule disk_base_switched [OF ok(1) bs]) (auto simp: that)
    show "disk_journal ext st (lookup t) = Inr j" by (rule j') (use that in auto)
  qed (use that u wf in \<open>auto split: if_splits\<close>)
  show "store_post ext st n w (Some (base_state ext ct r)) j t"
    if "lookup t = (lookup w)(base_filename ext u \<mapsto> Regular ct, BASE_METADATA \<mapsto> Regular bs,
        old := None)" "starts_with old ''base-''" "old \<noteq> base_filename ext u"
  proof (rule intro)
    show "disk_base ext st (lookup t) = Inr (Some (base_state ext ct r))"
      by (rule disk_base_switched [OF ok(1) bs])
        (use starts_with_exclusive(2) [OF that(2)] that in auto)
    show "disk_journal ext st (lookup t) = Inr j" by (rule j') (use that in auto)
  qed (use that u wf in \<open>auto split: if_splits\<close>)
qed

lemma wpE_write_base:
  assumes ok: "store_ext_ok ext" "wf_store st" "valid_revision r"
    and w: "uuids_fresh (Suc n) ext w" "disk_is ext st b j w"
    and Q: "\<And>t. store_post ext st n w (Some (base_state ext ct r)) j t \<Longrightarrow> Q () t"
    and R: "\<And>e t. store_post ext st n w b j t \<or>
        store_post ext st n w (Some (base_state ext ct r)) j t \<Longrightarrow> R e t"
  shows "wpE (write_base ext st ct r) Q R w"
proof -
  let ?u = "uuid_source w (uuid_index w)"
  obtain bs where vec: "base_to_vec ext (base_metadata_for ext st ?u ct r) = Some bs"
    and bs: "length bs \<le> MAX_METADATA_BYTES" "envelope_from_slice ext bs = Some SCHEMA_VERSION"
      "base_from_slice ext bs = Some (base_metadata_for ext st ?u ct r)"
    using base_metadata_for_encoded [OF ok] by blast
  note step = write_base_steps [OF ok w bs refl]
  let ?w1 = "w\<lparr>uuid_index := Suc (uuid_index w)\<rparr>"
  let ?e1 = "AList.update (base_filename ext ?u) (Regular ct) (entries w)"
  let ?e2 = "AList.update BASE_METADATA (Regular bs) ?e1"
  have R0: "R e (?w1\<lparr>faults := fs\<rparr>)" for e fs by (intro R disjI1 step(1)) simp_all
  have R1: "R e (?w1\<lparr>entries := ?e1, faults := fs\<rparr>)" for e fs by (intro R disjI1 step(2)) simp_all
  have R2: "R e (?w1\<lparr>entries := ?e2, faults := fs\<rparr>)" for e fs by (intro R disjI2 step(3)) simp_all
  have Q2: "Q () (?w1\<lparr>entries := ?e2, faults := fs\<rparr>)" for fs by (intro Q step(3)) simp_all
  have S3: "store_post ext st n w (Some (base_state ext ct r)) j
      (?w1\<lparr>entries := AList.delete old ?e2, faults := fs\<rparr>)"
    if "validate_private_filename old ''base-'' = Inr ()" "old \<noteq> base_filename ext ?u" for old fs
    by (rule step(4)) (use that in \<open>simp_all add: validate_private_filename_Inr\<close>)
  note S = R0 R1 R2 Q2 Q [OF S3] R [OF disjI2 [OF S3]]
  show ?thesis
    unfolding write_base_def Let_def base_metadata_for_def [symmetric]
    by (auto simp: wp_simps vec S split: option.split
        intro!: wpE_atomic_write wpE_reads [OF reads_metadata] wpE_remove_if_file wpE_sync_directory)
qed

lemma disk_is_no_directory:
  "disk_is ext st b j w \<Longrightarrow> lookup w BASE_METADATA \<noteq> Some Directory \<and> lookup w JOURNAL_METADATA \<noteq> Some Directory"
  by (cases b; cases j) (auto simp: disk_is_def disk_base_None disk_base_Some disk_journal_None disk_journal_Some)

text \<open>Without I/O failures a healthy store is written.\<close>

lemma wpE_write_base_ok:
  assumes ok: "store_ext_ok ext" "wf_store st" "valid_revision r"
    and w: "uuids_fresh (Suc n) ext w" "disk_is ext st b j w" and "faults w = []"
  shows "wpE (write_base ext st ct r) (\<lambda>_ t. faults t = []) (\<lambda>_ _. False) w"
proof -
  let ?u = "uuid_source w (uuid_index w)"
  obtain bs where vec: "base_to_vec ext (base_metadata_for ext st ?u ct r) = Some bs"
    using base_metadata_for_encoded [OF ok] by blast
  have fresh: "lookup w (base_filename ext ?u) = None" by (rule uuids_freshD(1) [OF w(1)])
  note eval = write_base_def Let_def base_metadata_for_def [symmetric] wp_simps fs_simps vec fresh
    assms(6) wpE_reads_ok [OF reads_metadata] disk_metadata_def optional_file_def
  show ?thesis
  proof (cases b)
    case None
    with w(2) have "lookup w BASE_METADATA = None" by (simp add: disk_is_def disk_base_None)
    then show ?thesis by (simp add: eval)
  next
    case (Some bst)
    with w(2) obtain bs m ct' where m: "lookup w BASE_METADATA = Some (Regular bs)" "length bs \<le> MAX_METADATA_BYTES"
      "base_from_slice ext bs = Some m" "lookup w (bm_ciphertext_file m) = Some (Regular ct')"
      "validate_private_filename (bm_ciphertext_file m) ''base-'' = Inr ()"
      by (auto simp: disk_is_def disk_base_Some)
    then have "bm_ciphertext_file m \<noteq> base_filename ext ?u" "bm_ciphertext_file m \<noteq> BASE_METADATA"
      using fresh starts_with_exclusive(2) by (auto simp: validate_private_filename_Inr)
    with m show ?thesis by (simp add: eval)
  qed
qed

end
