(* ===== verification/Sync_Journal_Spec.thy ===== *)
theory Sync_Journal_Spec
  imports Sync_Store_Spec
begin

section \<open>Atomicity of the journal and of the reset\<close>

text \<open>
  Rules for \<open>prepare_journal\<close>, \<open>mark_remote_committed\<close>, \<open>mark_local_committed\<close>,
  \<open>remove_journal\<close> and \<open>reset_state\<close> of \<open>Sync_Store\<close>, in the form of those of \<open>Sync_Store_Spec\<close>:
  under every pattern of failures the abstract state is the old or the new one.
\<close>

subsection \<open>Writing a journal record\<close>

text \<open>A record that this store may write: it carries the store's identity, and the candidate it
  names is on disk.\<close>

definition journal_ready ::
    "'x store_ext_scheme \<Rightarrow> SyncStore \<Rightarrow> disk \<Rightarrow> JournalRecord \<Rightarrow> bytes \<Rightarrow> bool" where
  "journal_ready ext st d m candidate \<longleftrightarrow>
     wf_journal_record m \<and> jr_schema_version m = SCHEMA_VERSION \<and>
     jr_profile_id m = st_profile_id st \<and> jr_source m = st_source st \<and> jr_target m = st_target st \<and>
     validate_private_filename (jr_candidate_file m) ''candidate-'' = Inr () \<and>
     d (jr_candidate_file m) = Some (Regular candidate) \<and>
     jr_candidate_sha256 m = CiphertextDigest_of ext candidate"

lemma journal_ready_loaded:
  assumes "store_ext_ok ext" and "disk_is ext st b (Some lj) w"
  shows "journal_ready ext st (lookup w) (lj_record lj) (lj_candidate lj)"
  using assms by (auto simp: disk_is_def disk_journal_Some journal_ready_def store_ext_ok_def)

lemma journal_ready_phase:
  "journal_ready ext st d m candidate \<Longrightarrow> journal_ready ext st d (m\<lparr>jr_phase := p\<rparr>) candidate"
  by (auto simp: journal_ready_def wf_journal_record_def)

lemma journal_ready_committed:
  "journal_ready ext st d m candidate \<Longrightarrow> valid_revision r \<Longrightarrow>
   journal_ready ext st d (m\<lparr>jr_committed_remote_revision := Some r\<rparr>) candidate"
  by (auto simp: journal_ready_def wf_journal_record_def)

lemma journal_ready_encoded:
  assumes "store_ext_ok ext" and "journal_ready ext st d m candidate"
  obtains bs where "journal_to_vec ext m = Some bs" and "length bs \<le> MAX_METADATA_BYTES"
    and "envelope_from_slice ext bs = Some SCHEMA_VERSION" and "journal_from_slice ext bs = Some m"
  using assms unfolding store_ext_ok_def journal_ready_def by metis

lemma disk_journal_written:
  assumes "journal_ready ext st d m candidate" and "length bs \<le> MAX_METADATA_BYTES"
    and "envelope_from_slice ext bs = Some SCHEMA_VERSION" and "journal_from_slice ext bs = Some m"
  shows "disk_journal ext st (d(JOURNAL_METADATA \<mapsto> Regular bs)) =
    Inr (Some \<lparr>lj_record = m, lj_candidate = candidate\<rparr>)"
proof -
  have "jr_candidate_file m \<noteq> JOURNAL_METADATA"
    using assms(1) starts_with_exclusive(3) by (auto simp: journal_ready_def validate_private_filename_Inr)
  with assms show ?thesis by (simp add: disk_journal_Some journal_ready_def)
qed

lemma store_post_same:
  assumes "uuids_fresh n ext w" and "k \<le> n" and "disk_is ext st b j w"
  shows "store_post ext st k w b j (w\<lparr>faults := fs\<rparr>)"
proof -
  have "uuids_fresh k ext (w\<lparr>faults := fs\<rparr>)" by (rule uuids_fresh_mono [OF assms(1,2)]) simp_all
  with assms(3) show ?thesis by (simp add: store_post_def disk_is_def)
qed

lemma store_post_journal:
  assumes "store_ext_ok ext" and "journal_ready ext st (lookup w) m candidate"
    and "uuids_fresh n ext w" and "disk_is ext st b j w"
    and "length bs \<le> MAX_METADATA_BYTES" and "envelope_from_slice ext bs = Some SCHEMA_VERSION"
    and "journal_from_slice ext bs = Some m"
  shows "store_post ext st n w b (Some \<lparr>lj_record = m, lj_candidate = candidate\<rparr>)
    (w\<lparr>entries := AList.update JOURNAL_METADATA (Regular bs) (entries w), faults := fs\<rparr>)"
    (is "store_post _ _ _ _ _ ?j ?t")
proof -
  have "disk_base ext st (lookup ?t) = disk_base ext st (lookup w)"
    by (rule disk_base_candidate_files) simp
  moreover have "uuids_fresh n ext ?t" by (rule uuids_fresh_mono [OF assms(3)]) (auto split: if_splits)
  ultimately show ?thesis
    using assms(2,4) disk_journal_written [OF assms(2,5-7)]
    by (simp add: store_post_def disk_is_def journal_ready_def)
qed

lemma wpE_write_journal:
  assumes ok: "store_ext_ok ext" "journal_ready ext st (lookup w) m candidate"
    and w: "uuids_fresh n ext w" "disk_is ext st b j w"
    and Q: "\<And>t. store_post ext st n w b (Some \<lparr>lj_record = m, lj_candidate = candidate\<rparr>) t \<Longrightarrow> Q () t"
    and R: "\<And>e t. store_post ext st n w b j t \<or>
        store_post ext st n w b (Some \<lparr>lj_record = m, lj_candidate = candidate\<rparr>) t \<Longrightarrow> R e t"
  shows "wpE (write_journal ext m) Q R w"
proof -
  obtain bs where vec: "journal_to_vec ext m = Some bs"
    and bs: "length bs \<le> MAX_METADATA_BYTES" "envelope_from_slice ext bs = Some SCHEMA_VERSION"
      "journal_from_slice ext bs = Some m"
    using journal_ready_encoded [OF ok] by blast
  note same = store_post_same [OF w(1) order.refl w(2)]
  note new = store_post_journal [OF ok w bs]
  have S: "R e (w\<lparr>faults := fs\<rparr>)"
    "R e (w\<lparr>entries := AList.update JOURNAL_METADATA (Regular bs) (entries w), faults := fs\<rparr>)"
    "Q () (w\<lparr>entries := AList.update JOURNAL_METADATA (Regular bs) (entries w), faults := fs\<rparr>)" for e fs
    using R same new Q by blast+
  show ?thesis
    unfolding write_journal_def
    by (auto simp: wp_simps vec S split: option.split
        intro!: wpE_atomic_write wpE_reads [OF reads_metadata])
qed

lemma wpE_write_journal_ok:
  assumes ok: "store_ext_ok ext" "journal_ready ext st (lookup w) m candidate"
    and w: "disk_is ext st b j w" "faults w = []"
    and j: "pred_option (\<lambda>lj. jr_operation_id (lj_record lj) = jr_operation_id m) j"
  shows "wpE (write_journal ext m) (\<lambda>_ t. faults t = []) (\<lambda>_ _. False) w"
proof -
  obtain bs where vec: "journal_to_vec ext m = Some bs" using journal_ready_encoded [OF ok] by blast
  note eval = write_journal_def wp_simps fs_simps vec w(2) wpE_reads_ok [OF reads_metadata]
    disk_metadata_def optional_file_def
  show ?thesis
  proof (cases j)
    case None
    with w(1) have "lookup w JOURNAL_METADATA = None" by (simp add: disk_is_def disk_journal_None)
    then show ?thesis by (simp add: eval)
  next
    case (Some lj)
    with w(1) obtain bs where "lookup w JOURNAL_METADATA = Some (Regular bs)" "length bs \<le> MAX_METADATA_BYTES"
      "journal_from_slice ext bs = Some (lj_record lj)"
      by (auto simp: disk_is_def disk_journal_Some)
    with j Some show ?thesis by (simp add: eval)
  qed
qed

subsection \<open>Advancing the phase\<close>

lemma wpE_mark_remote_committed:
  assumes "store_ext_ok ext" and "disk_is ext st b (Some lj) w" and "uuids_fresh n ext w"
    and "valid_revision r"
    and "m = (lj_record lj)\<lparr>jr_phase := RemoteCommitted, jr_committed_remote_revision := Some r\<rparr>"
    and "\<And>t. store_post ext st n w b (Some \<lparr>lj_record = m, lj_candidate = lj_candidate lj\<rparr>) t \<Longrightarrow> Q m t"
    and "\<And>e t. store_post ext st n w b (Some lj) t \<or>
        store_post ext st n w b (Some \<lparr>lj_record = m, lj_candidate = lj_candidate lj\<rparr>) t \<Longrightarrow> R e t"
  shows "wpE (mark_remote_committed ext (lj_record lj) r) Q R w"
proof -
  have "journal_ready ext st (lookup w) m (lj_candidate lj)"
    unfolding assms(5) using journal_ready_loaded [OF assms(1,2)] assms(4)
    by (metis journal_ready_committed journal_ready_phase)
  from wpE_write_journal [OF assms(1) this assms(3,2)] assms(6,7) show ?thesis
    by (simp add: mark_remote_committed_def wp_simps assms(5) [symmetric])
qed

lemma wpE_mark_local_committed:
  assumes "store_ext_ok ext" and "disk_is ext st b (Some lj) w" and "uuids_fresh n ext w"
    and "m = (lj_record lj)\<lparr>jr_phase := LocalCommitted\<rparr>"
    and "\<And>t. store_post ext st n w b (Some \<lparr>lj_record = m, lj_candidate = lj_candidate lj\<rparr>) t \<Longrightarrow> Q m t"
    and "\<And>e t. store_post ext st n w b (Some lj) t \<or>
        store_post ext st n w b (Some \<lparr>lj_record = m, lj_candidate = lj_candidate lj\<rparr>) t \<Longrightarrow> R e t"
  shows "wpE (mark_local_committed ext (lj_record lj)) Q R w"
proof -
  have "journal_ready ext st (lookup w) m (lj_candidate lj)"
    unfolding assms(4) by (intro journal_ready_phase journal_ready_loaded [OF assms(1,2)])
  from wpE_write_journal [OF assms(1) this assms(3,2)] assms(5,6) show ?thesis
    by (simp add: mark_local_committed_def wp_simps assms(4) [symmetric])
qed

lemma wpE_mark_ok:
  assumes "store_ext_ok ext" and "disk_is ext st b (Some lj) w" and "faults w = []"
  shows "valid_revision r \<Longrightarrow>
      wpE (mark_remote_committed ext (lj_record lj) r) (\<lambda>_ t. faults t = []) (\<lambda>_ _. False) w"
    and "wpE (mark_local_committed ext (lj_record lj)) (\<lambda>_ t. faults t = []) (\<lambda>_ _. False) w"
proof -
  note ready = journal_ready_loaded [OF assms(1,2)]
  show "wpE (mark_local_committed ext (lj_record lj)) (\<lambda>_ t. faults t = []) (\<lambda>_ _. False) w"
    using wpE_write_journal_ok [OF assms(1) journal_ready_phase [OF ready] assms(2,3)]
    by (simp add: mark_local_committed_def Let_def wp_simps)
  assume "valid_revision r"
  then show "wpE (mark_remote_committed ext (lj_record lj) r) (\<lambda>_ t. faults t = []) (\<lambda>_ _. False) w"
    using wpE_write_journal_ok [OF assms(1) journal_ready_committed [OF journal_ready_phase [OF ready]]
        assms(2,3)]
    by (simp add: mark_remote_committed_def Let_def wp_simps)
qed

subsection \<open>Preparing a journal\<close>

definition journal_record_for ::
    "'x store_ext_scheme \<Rightarrow> SyncStore \<Rightarrow> uuid \<Rightarrow> LocalSnapshot \<Rightarrow> RemoteRevision option \<Rightarrow> bytes \<Rightarrow>
     JournalRecord" where
  "journal_record_for ext st u local er candidate =
     \<lparr>jr_schema_version = SCHEMA_VERSION, jr_profile_id = st_profile_id st,
      jr_source = st_source st, jr_target = st_target st, jr_operation_id = u, jr_phase = Prepared,
      jr_expected_local_sha256 = ls_digest local, jr_expected_remote_revision = er,
      jr_candidate_file = candidate_filename ext u,
      jr_candidate_sha256 = CiphertextDigest_of ext candidate, jr_committed_remote_revision = None\<rparr>"

lemma journal_ready_for:
  assumes "store_ext_ok ext" and "wf_store st" and "length (digest_as_str (ls_digest local)) = 64"
    and "pred_option valid_revision er" and "d (candidate_filename ext u) = Some (Regular candidate)"
  shows "journal_ready ext st d (journal_record_for ext st u local er candidate) candidate"
proof -
  have "length (uuid_to_string ext u) = 36" using assms(1) by (simp add: store_ext_ok_def)
  then have "length (candidate_filename ext u) \<le> 255" by (simp add: candidate_filename_def)
  with assms sha256_length [OF assms(1), of candidate] show ?thesis
    by (simp add: journal_ready_def journal_record_for_def wf_journal_record_def wf_store_def)
qed

text \<open>The state in which the candidate is written and the journal is not: the abstract state is
  the old one, and one UUID is used up.\<close>

lemma store_post_candidate:
  assumes "store_ext_ok ext" and "uuids_fresh (Suc n) ext w" and "disk_is ext st b j w"
    and "lookup t = lookup w \<or> lookup t =
      (lookup w)(candidate_filename ext (uuid_source w (uuid_index w)) \<mapsto> Regular candidate)"
    and "store_frame w t" and "uuid_index t = Suc (uuid_index w)"
  shows "store_post ext st n w b j t"
proof (rule store_post_intro [OF assms(1,2,5,6)])
  have fresh: "lookup w (candidate_filename ext (uuid_source w (uuid_index w))) = None"
    by (rule uuids_freshD(2) [OF assms(2)])
  show "disk_base ext st (lookup t) = Inr b"
    by (rule disk_base_extend [of _ _ "lookup w"]) (use assms(3,4) fresh in \<open>auto simp: disk_is_def\<close>)
  show "disk_journal ext st (lookup t) = Inr j"
    by (rule disk_journal_extend [of _ _ "lookup w"]) (use assms(3,4) fresh in \<open>auto simp: disk_is_def\<close>)
qed (use assms(3,4) in \<open>auto simp: disk_is_def split: if_splits\<close>)

lemma store_post_trans:
  "store_post ext st n w b j t \<Longrightarrow> store_post ext st k t b' j' u \<Longrightarrow> store_post ext st k w b' j' u"
  by (auto simp: store_post_def intro: store_frame_trans)

lemma wpE_prepare_journal:
  assumes ok: "store_ext_ok ext" "wf_store st"
    and w: "uuids_fresh (Suc n) ext w" "disk_is ext st b j w"
    and er: "length (digest_as_str (ls_digest local)) = 64" "pred_option valid_revision er"
    and m: "m = journal_record_for ext st (uuid_source w (uuid_index w)) local er candidate"
    and Q: "\<And>t. j = None \<Longrightarrow> ls_source local = st_source st \<Longrightarrow>
        store_post ext st n w b (Some \<lparr>lj_record = m, lj_candidate = candidate\<rparr>) t \<Longrightarrow> Q m t"
    and R: "\<And>e t. store_post ext st n w b j t \<or>
        j = None \<and> store_post ext st n w b (Some \<lparr>lj_record = m, lj_candidate = candidate\<rparr>) t \<Longrightarrow> R e t"
  shows "wpE (prepare_journal ext st local er candidate) Q R w"
proof -
  let ?u = "uuid_source w (uuid_index w)"
  let ?w1 = "w\<lparr>uuid_index := Suc (uuid_index w)\<rparr>"
  let ?w2 = "\<lambda>fs. ?w1\<lparr>entries := AList.update (candidate_filename ext ?u) (Regular candidate) (entries w),
    faults := fs\<rparr>"
  note fs = store_post_same [OF w(1) _ w(2)]
  have R0: "R e (w\<lparr>faults := fs\<rparr>)" for e fs by (intro R disjI1 fs) simp
  have P1: "store_post ext st n w b j (?w1\<lparr>faults := fs\<rparr>)" for fs
    by (rule store_post_candidate [OF ok(1) w, of _ candidate]) simp_all
  have P2: "store_post ext st n w b j (?w2 fs)" for fs
    by (rule store_post_candidate [OF ok(1) w, of _ candidate]) simp_all
  have "wpE (write_journal ext m) (\<lambda>_. Q m) R (?w2 fs)"
    if "j = None" "ls_source local = st_source st" for fs
  proof (rule wpE_write_journal [OF ok(1)])
    show "journal_ready ext st (lookup (?w2 fs)) m candidate"
      unfolding m by (rule journal_ready_for [OF ok er]) simp
    show "uuids_fresh n ext (?w2 fs)" "disk_is ext st b j (?w2 fs)"
      using P2 by (simp_all add: store_post_def)
  qed (use that in \<open>auto intro: Q R store_post_trans [OF P2]\<close>)
  moreover note R0 R [OF disjI1 [OF P1]] R [OF disjI1 [OF P2]]
  ultimately show ?thesis
    unfolding prepare_journal_def Let_def journal_record_for_def [symmetric]
    by (auto simp: wp_simps w(2) [unfolded disk_is_def] disk_status_RecoveryNone m
        intro!: wpE_atomic_write wpE_reads [OF reads_recovery_status])
qed

lemma wpE_prepare_journal_ok:
  assumes ok: "store_ext_ok ext" "wf_store st"
    and w: "uuids_fresh (Suc n) ext w" "disk_is ext st b None w" "faults w = []"
    and er: "length (digest_as_str (ls_digest local)) = 64" "pred_option valid_revision er"
    and src: "ls_source local = st_source st"
  shows "wpE (prepare_journal ext st local er candidate) (\<lambda>_ t. faults t = []) (\<lambda>_ _. False) w"
proof -
  let ?u = "uuid_source w (uuid_index w)"
  let ?w2 = "w\<lparr>uuid_index := Suc (uuid_index w),
    entries := AList.update (candidate_filename ext ?u) (Regular candidate) (entries w)\<rparr>"
  have P2: "store_post ext st n w b None ?w2"
    by (rule store_post_candidate [OF ok(1) w(1,2), of _ candidate]) simp_all
  have "wpE (write_journal ext (journal_record_for ext st ?u local er candidate))
      (\<lambda>_ t. faults t = []) (\<lambda>_ _. False) ?w2"
    by (rule wpE_write_journal_ok [OF ok(1) journal_ready_for [OF ok er], where b = b and j = None])
      (use P2 w(3) in \<open>simp_all add: store_post_def\<close>)
  moreover have "disk_status ext st (lookup w) = Inr RecoveryNone"
    using w(2) by (simp add: disk_is_def disk_status_RecoveryNone)
  ultimately show ?thesis
    unfolding prepare_journal_def Let_def journal_record_for_def [symmetric]
    by (simp add: wp_simps fs_simps wpE_reads_ok [OF reads_recovery_status] w(3) src
        uuids_freshD(2) [OF w(1)])
qed

subsection \<open>Removing the journal\<close>

lemma disk_journal_removed: "disk_journal ext st (d(JOURNAL_METADATA := None)) = Inr None"
  by (simp add: disk_journal_None)

text \<open>The record of the journal on disk, or one that differs from it in phase and committed
  revision only: the record the engine holds.\<close>

definition same_operation :: "JournalRecord \<Rightarrow> JournalRecord \<Rightarrow> bool" where
  "same_operation m m' \<longleftrightarrow> jr_operation_id m = jr_operation_id m' \<and> jr_candidate_file m = jr_candidate_file m'"

lemma store_post_removed:
  assumes "uuids_fresh n ext w" and "disk_is ext st b j w" and "starts_with c ''candidate-''"
    and "t = w\<lparr>entries := AList.delete JOURNAL_METADATA (entries w), faults := fs\<rparr> \<or>
      t = w\<lparr>entries := AList.delete c (AList.delete JOURNAL_METADATA (entries w)), faults := fs\<rparr>"
  shows "store_post ext st n w b None t"
proof -
  have "disk_base ext st (lookup t) = disk_base ext st (lookup w)"
    by (rule disk_base_candidate_files) (use assms(3,4) in auto)
  moreover have "uuids_fresh n ext t"
    by (rule uuids_fresh_mono [OF assms(1)]) (use assms(4) in \<open>auto split: if_splits\<close>)
  ultimately show ?thesis
    using assms(2,4) by (auto simp: store_post_def disk_is_def disk_journal_None)
qed

lemma wpE_remove_journal:
  assumes ok: "store_ext_ok ext" and w: "uuids_fresh n ext w" "disk_is ext st b (Some lj) w"
    and m: "same_operation m (lj_record lj)"
    and Q: "\<And>t. store_post ext st n w b None t \<Longrightarrow> Q () t"
    and R: "\<And>e t. store_post ext st n w b (Some lj) t \<or> store_post ext st n w b None t \<Longrightarrow> R e t"
  shows "wpE (remove_journal ext st m) Q R w"
proof -
  let ?c = "jr_candidate_file (lj_record lj)"
  have c: "starts_with ?c ''candidate-''" "?c \<noteq> JOURNAL_METADATA"
    using journal_ready_loaded [OF ok w(2)] starts_with_exclusive(3)
    by (auto simp: journal_ready_def validate_private_filename_Inr)
  note same = store_post_same [OF w(1) order.refl w(2)] and gone = store_post_removed [OF w c(1)]
  let ?e1 = "AList.delete JOURNAL_METADATA (entries w)"
  have S: "R e (w\<lparr>faults := fs\<rparr>)" "R e (w\<lparr>entries := ?e1, faults := fs\<rparr>)"
    "Q () (w\<lparr>entries := ?e1, faults := fs\<rparr>)" for e fs
    using R Q same gone by blast+
  have S': "Q () (w\<lparr>entries := AList.delete ?c ?e1, faults := fs\<rparr>)"
    "R e (w\<lparr>entries := AList.delete ?c ?e1, faults := fs\<rparr>)" for e fs
    using Q R gone by blast+
  have "disk_journal ext st (lookup w) = Inr (Some lj)" using w(2) by (simp add: disk_is_def)
  moreover from this obtain bs where "lookup w JOURNAL_METADATA = Some (Regular bs)"
    by (auto simp: disk_journal_Some)
  ultimately show ?thesis
    unfolding remove_journal_def
    using m by (auto simp: wp_simps S S' same_operation_def
        intro!: wpE_reads [OF reads_load_journal] wpE_remove_if_file wpE_sync_directory)
qed

lemma wpE_remove_journal_ok:
  assumes ok: "store_ext_ok ext" and w: "disk_is ext st b (Some lj) w" "faults w = []"
    and m: "same_operation m (lj_record lj)"
  shows "wpE (remove_journal ext st m) (\<lambda>_ t. faults t = []) (\<lambda>_ _. False) w"
proof -
  have j: "disk_journal ext st (lookup w) = Inr (Some lj)" using w(1) by (simp add: disk_is_def)
  then obtain bs where "lookup w JOURNAL_METADATA = Some (Regular bs)"
    by (auto simp: disk_journal_Some)
  moreover have "lookup w (jr_candidate_file (lj_record lj)) = Some (Regular (lj_candidate lj))"
    using journal_ready_loaded [OF ok w(1)] by (simp add: journal_ready_def)
  moreover have "jr_candidate_file (lj_record lj) \<noteq> JOURNAL_METADATA"
    using journal_ready_loaded [OF ok w(1)] starts_with_exclusive(3)
    by (auto simp: journal_ready_def validate_private_filename_Inr)
  ultimately show ?thesis
    using m j by (simp add: remove_journal_def wp_simps fs_simps wpE_reads_ok [OF reads_load_journal]
        w(2) same_operation_def)
qed

lemma remove_journal_missing:
  "disk_journal ext st (lookup w) = Inr None \<Longrightarrow>
   wpE (remove_journal ext st m) (\<lambda>_ _. False) (\<lambda>_ t. \<exists>fs. t = w\<lparr>faults := fs\<rparr>) w"
  unfolding remove_journal_def
  by (auto simp: wp_simps intro!: wpE_reads [OF reads_load_journal])

subsection \<open>Reset\<close>

lemma wpE_classify_entries:
  assumes "\<And>fs names. list_all (\<lambda>(n, nd). \<exists>bs. nd = Regular bs) es \<Longrightarrow>
      names = filter (\<lambda>n. n \<noteq> BASE_METADATA \<and> n \<noteq> JOURNAL_METADATA) (map fst es) \<Longrightarrow>
      list_all (is_private_state_ciphertext_filename ext) names \<Longrightarrow> Q names (w\<lparr>faults := fs\<rparr>)"
    and "\<And>e fs. R e (w\<lparr>faults := fs\<rparr>)"
  shows "wpE (classify_entries ext es) Q R w"
  using assms
proof (induction es arbitrary: Q w)
  case Nil
  have "w = w\<lparr>faults := faults w\<rparr>" by simp
  then show ?case using Nil(1) [of "[]" "faults w"] by (simp add: wp_simps)
next
  case (Cons e es)
  obtain n nd where e: "e = (n, nd)" by fastforce
  show ?case
  proof (cases nd)
    case (Regular bs)
    show ?thesis
      unfolding e classify_entries.simps Regular
      by (auto simp: wp_simps intro!: wpE_io_point Cons.IH Cons.prems simp: e Regular)
  qed (auto simp: e wp_simps intro!: wpE_io_point Cons.prems)
qed

lemma wpE_remove_if_file_map:
  assumes "\<And>t. store_frame w t \<Longrightarrow> lookup t = (lookup w)(name := None) \<Longrightarrow> Q () t"
    and "\<And>e fs. R e (w\<lparr>faults := fs\<rparr>)"
  shows "wpE (remove_if_file name) Q R w"
  by (rule wpE_remove_if_file) (auto intro!: assms simp: fun_upd_idem)

text \<open>Once the metadata is gone, removing ciphertext files leaves no BASE and no journal.\<close>

lemma wpE_remove_all:
  assumes "\<And>t. store_frame w t \<Longrightarrow> (\<And>n. n \<in> set names \<Longrightarrow> lookup t n = None) \<Longrightarrow>
      (\<And>n. lookup t n = lookup w n \<or> lookup t n = None) \<Longrightarrow> Q () t"
    and "\<And>e t. store_frame w t \<Longrightarrow> (\<And>n. lookup t n = lookup w n \<or> lookup t n = None) \<Longrightarrow> R e t"
  shows "wpE (remove_all names) Q R w"
  using assms
proof (induction names arbitrary: Q R w)
  case Nil
  then show ?case by (simp add: wp_simps)
next
  case (Cons n names)
  have rest: "wpE (remove_all names) Q R v"
    if v: "store_frame w v" "lookup v n = None" "\<And>m. lookup v m = lookup w m \<or> lookup v m = None" for v
  proof (rule Cons.IH)
    fix t assume t: "store_frame v t" "\<And>m. m \<in> set names \<Longrightarrow> lookup t m = None"
      "\<And>m. lookup t m = lookup v m \<or> lookup t m = None"
    show "Q () t"
    proof (rule Cons.prems(1))
      show "lookup t m = None" if "m \<in> set (n # names)" for m
        using that t(2) t(3) [of n] v(2) by auto
      show "lookup t m = lookup w m \<or> lookup t m = None" for m using t(3) [of m] v(3) [of m] by auto
    qed (rule store_frame_trans [OF v(1) t(1)])
  next
    fix e t assume t: "store_frame v t" "\<And>m. lookup t m = lookup v m \<or> lookup t m = None"
    show "R e t"
      by (rule Cons.prems(2)) (use t(2) v(3) in \<open>metis store_frame_trans [OF v(1) t(1)]\<close>)+
  qed
  show ?case
    unfolding remove_all.simps wpE_bindE
    by (rule wpE_remove_if_file_map) (auto intro!: rest Cons.prems(2) split: if_splits)
qed

text \<open>
  A reset only removes files. Interrupted anywhere it has removed nothing, or the journal is
  gone and the BASE is untouched, or both are gone: no metadata is left that names a removed
  payload.
\<close>

definition reset_post ::
    "'x store_ext_scheme \<Rightarrow> SyncStore \<Rightarrow> 'a dirworld_scheme \<Rightarrow> 'a dirworld_scheme \<Rightarrow> bool" where
  "reset_post ext st w t \<longleftrightarrow> store_frame w t \<and>
     (\<forall>n. lookup t n = lookup w n \<or> lookup t n = None) \<and>
     (lookup t = lookup w \<or>
      disk_journal ext st (lookup t) = Inr None \<and>
        disk_base ext st (lookup t) \<in> {disk_base ext st (lookup w), Inr None})"

lemma reset_postI:
  assumes "store_frame w t" and "\<And>n. lookup t n = lookup w n \<or> lookup t n = None"
    and "lookup t JOURNAL_METADATA = None"
    and "lookup t BASE_METADATA = None \<or> lookup t = (lookup w)(JOURNAL_METADATA := None)"
  shows "reset_post ext st w t"
proof -
  have "disk_base ext st (lookup t) = disk_base ext st (lookup w)"
    if "lookup t = (lookup w)(JOURNAL_METADATA := None)"
    by (rule disk_base_candidate_files) (simp add: that)
  with assms show ?thesis by (auto simp: reset_post_def disk_journal_None disk_base_None)
qed

lemma wpE_reset_state:
  assumes Q: "\<And>t. reset_post ext st w t \<Longrightarrow> entries t = [] \<Longrightarrow> Q () t"
    and R: "\<And>e t. reset_post ext st w t \<Longrightarrow> R e t"
  shows "wpE (reset_state ext) Q R w"
proof -
  have R0: "R e (w\<lparr>faults := fs\<rparr>)" for e fs by (rule R) (simp add: reset_post_def)
  let ?names = "filter (\<lambda>n. n \<noteq> BASE_METADATA \<and> n \<noteq> JOURNAL_METADATA) (map fst (entries w))"
  have all: "wpE (remove_all ?names) (\<lambda>_. wpE sync_directory Q R) R v"
    if v: "store_frame w v" "lookup v = (lookup w)(JOURNAL_METADATA := None, BASE_METADATA := None)" for v
  proof (rule wpE_remove_all)
    fix t assume t: "store_frame v t" "\<And>n. n \<in> set ?names \<Longrightarrow> lookup t n = None"
      "\<And>n. lookup t n = lookup v n \<or> lookup t n = None"
    have none: "lookup t n = None" for n
    proof (cases "n \<in> set ?names")
      case False
      then have "lookup w n = None \<or> n = BASE_METADATA \<or> n = JOURNAL_METADATA"
        by (auto dest: map_of_SomeD simp: image_iff)
          (metis eq_fst_iff map_of_SomeD not_None_eq)
      with t(3) [of n] v(2) show ?thesis by (auto split: if_splits)
    qed (rule t(2))
    then have "lookup t = Map.empty" by (intro ext)
    then show "wpE sync_directory Q R t"
      by (intro wpE_sync_directory Q R) (auto intro!: reset_postI store_frame_trans [OF v(1)] t(1))
  next
    fix e t assume t: "store_frame v t" "\<And>n. lookup t n = lookup v n \<or> lookup t n = None"
    show "R e t"
    proof (intro R reset_postI)
      show "lookup t n = lookup w n \<or> lookup t n = None" for n
        using t(2) [of n] by (auto simp: v(2) split: if_splits)
    qed (use t(2) [of JOURNAL_METADATA] t(2) [of BASE_METADATA] v t(1) in \<open>auto intro: store_frame_trans\<close>)
  qed
  have base: "wpE (remove_if_file BASE_METADATA) (\<lambda>_. wpE (remove_all ?names) (\<lambda>_. wpE sync_directory Q R) R) R v"
    if v: "store_frame w v" "lookup v = (lookup w)(JOURNAL_METADATA := None)" for v
    by (rule wpE_remove_if_file_map)
      (auto intro!: all R reset_postI store_frame_trans [OF v(1)] simp: v split: if_splits)
  have frame: "store_frame w t" if "store_frame (w\<lparr>faults := fs\<rparr>) t" for fs t
    by (rule store_frame_trans [OF _ that]) simp
  have journal: "wpE (remove_if_file JOURNAL_METADATA) (\<lambda>_. wpE (remove_if_file BASE_METADATA)
      (\<lambda>_. wpE (remove_all ?names) (\<lambda>_. wpE sync_directory Q R) R) R) R (w\<lparr>faults := fs\<rparr>)" for fs
    by (rule wpE_remove_if_file_map) (simp_all add: base frame R0)
  show ?thesis
    unfolding reset_state_def
    by (auto simp: wp_simps R0 journal intro!: wpE_io_point wpE_classify_entries)
qed

end
