(* ===== verification/Reference_Ext.thy ===== *)
theory Reference_Ext
  imports Sync_Journal_Spec
begin

section \<open>An instance of the external codecs\<close>

text \<open>
  Concrete functions for the parameters that stand for \<open>serde_json\<close>, \<open>uuid\<close> and \<open>sha2\<close>, shown to
  satisfy the assumptions made of them (\<open>ref_ext_ok\<close>). They print a UUID in its hyphenated form
  and serialize a record as a sequence of self-delimiting strings. They are what the witnesses
  of the properties are evaluated with; no property depends on them.
\<close>

subsection \<open>Self-delimiting strings\<close>

fun enc_string :: "string \<Rightarrow> bytes" where
  "enc_string [] = [0]"
| "enc_string (c # s) = 1 # of_char c # enc_string s"

fun dec_string :: "bytes \<Rightarrow> (string \<times> bytes) option" where
  "dec_string [] = None"
| "dec_string [b] = (if b = 0 then Some ([], []) else None)"
| "dec_string (b # c # bs) = (if b = 0 then Some ([], c # bs)
     else map_option (\<lambda>(s, r). (char_of (unat c) # s, r)) (dec_string bs))"

definition enc_strings :: "string list \<Rightarrow> bytes" where
  "enc_strings ss = concat (map enc_string ss)"

fun dec_strings :: "nat \<Rightarrow> bytes \<Rightarrow> string list option" where
  "dec_strings 0 bs = Some []"
| "dec_strings (Suc n) bs = (case dec_string bs of
     None \<Rightarrow> None | Some (s, r) \<Rightarrow> map_option ((#) s) (dec_strings n r))"

lemma unat_of_char_byte: "char_of (unat (of_char c :: byte)) = c"
proof -
  have eq: "(of_char c :: byte) = word_of_nat (of_char c)" by (simp add: of_nat_of_char)
  have "(of_char c :: nat) < 2 ^ LENGTH(8)" by simp
  then have "unat (word_of_nat (of_char c) :: byte) = (of_char c :: nat)"
    by (simp only: unsigned_of_nat take_bit_nat_eq_self of_nat_id)
  then show ?thesis by (simp add: eq del: of_nat_of_char)
qed

lemma dec_enc_string: "dec_string (enc_string s @ r) = Some (s, r)"
proof (induction s)
  case Nil
  then show ?case by (cases r) auto
qed (simp add: unat_of_char_byte)

lemma dec_enc_strings: "dec_strings (length ss) (enc_strings ss @ r) = Some ss"
  by (induction ss arbitrary: r) (simp_all add: enc_strings_def dec_enc_string)

lemma length_enc_string: "length (enc_string s) = 2 * length s + 1"
  by (induction s) auto

lemma length_enc_strings: "length (enc_strings ss) = (\<Sum>s\<leftarrow>ss. 2 * length s + 1)"
  by (induction ss) (simp_all add: enc_strings_def length_enc_string)

subsection \<open>Machine words\<close>

definition word_string :: "'a::len word \<Rightarrow> string" where
  "word_string x = map (\<lambda>i. if bit x i then CHR ''1'' else CHR ''0'') [0..<LENGTH('a)]"

definition string_word :: "string \<Rightarrow> 'a::len word" where
  "string_word s = horner_sum of_bool 2 (map (\<lambda>c. c = CHR ''1'') s)"

lemma string_word_inverse [simp]: "string_word (word_string x) = x"
proof -
  have "map (\<lambda>c. c = CHR ''1'') (word_string x) = map (bit x) [0..<LENGTH('a)]"
    by (simp add: word_string_def)
  then show ?thesis by (simp add: string_word_def horner_sum_bit_eq_take_bit)
qed

lemma length_word_string [simp]: "length (word_string (x :: 'a::len word)) = LENGTH('a)"
  by (simp add: word_string_def)

subsection \<open>UUIDs\<close>

definition hex_value :: "char \<Rightarrow> nat" where
  "hex_value c = (let n = of_char c in if n < 58 then n - 48 else n - 87)"

definition uuid_digits :: "uuid \<Rightarrow> string" where
  "uuid_digits u = map (\<lambda>i. hex_digit (unat u div 16 ^ i mod 16)) (rev [0..<32])"

definition ref_uuid_to_string :: "uuid \<Rightarrow> string" where
  "ref_uuid_to_string u = (let h = uuid_digits u in
     take 8 h @ ''-'' @ take 4 (drop 8 h) @ ''-'' @ take 4 (drop 12 h) @ ''-'' @
     take 4 (drop 16 h) @ ''-'' @ drop 20 h)"

definition ref_uuid_parse_str :: "string \<Rightarrow> uuid option" where
  "ref_uuid_parse_str s =
     (let u = word_of_nat (horner_sum hex_value 16 (rev (filter (\<lambda>c. c \<noteq> CHR ''-'') s))) in
      if ref_uuid_to_string u = s then Some u else None)"

definition ref_uuid_version_num :: "uuid \<Rightarrow> nat" where
  "ref_uuid_version_num u = unat u div 16 ^ 19 mod 16"

lemma hex_value_digit: "n < 16 \<Longrightarrow> hex_value (hex_digit n) = n"
  by (simp add: hex_value_def of_char_hex_digit Let_def)

lemma horner_digits: "horner_sum hex_value 16 (map (\<lambda>i. hex_digit (n div 16 ^ i mod 16)) [0..<k]) = n mod 16 ^ k"
proof (induction k arbitrary: n)
  case (Suc k)
  have "[0..<Suc k] = 0 # map Suc [0..<k]" by (simp add: upt_conv_Cons map_Suc_upt del: upt_Suc)
  then have "horner_sum hex_value 16 (map (\<lambda>i. hex_digit (n div 16 ^ i mod 16)) [0..<Suc k]) =
      n mod 16 + 16 * horner_sum hex_value 16 (map (\<lambda>i. hex_digit (n div 16 div 16 ^ i mod 16)) [0..<k])"
    by (simp add: hex_value_digit o_def div_mult2_eq del: upt_Suc)
  also have "\<dots> = n mod 16 ^ Suc k"
    by (simp add: Suc.IH mod_mult2_eq)
  finally show ?case .
qed simp

lemma filter_digits: "filter (\<lambda>c. c \<noteq> CHR ''-'') (ref_uuid_to_string u) = uuid_digits u"
proof -
  have all: "c \<noteq> CHR ''-''" if "c \<in> set (uuid_digits u)" for c
  proof -
    from that obtain i where "c = hex_digit (unat u div 16 ^ i mod 16)" by (auto simp: uuid_digits_def)
    then have "is_lower_hex c" by (simp add: hex_digit_lower)
    then show ?thesis by (auto simp: is_lower_hex_def is_ascii_digit_def)
  qed
  have part: "filter (\<lambda>c. c \<noteq> CHR ''-'') s = s" if "set s \<subseteq> set (uuid_digits u)" for s
    using that all by (auto intro: filter_True)
  have split: "take 4 (drop m xs) @ drop (m + 4) xs = drop m xs" for m and xs :: string
    using append_take_drop_id [of 4 "drop m xs"] by (simp add: add.commute)
  have "filter (\<lambda>c. c \<noteq> CHR ''-'') (ref_uuid_to_string u) =
      take 8 (uuid_digits u) @ take 4 (drop 8 (uuid_digits u)) @ take 4 (drop 12 (uuid_digits u)) @
      take 4 (drop 16 (uuid_digits u)) @ drop 20 (uuid_digits u)"
    by (auto simp: ref_uuid_to_string_def Let_def intro!: part arg_cong2 [where f = append]
        dest: in_set_takeD in_set_dropD)
  also have "\<dots> = uuid_digits u"
    using split [of 16 "uuid_digits u"] split [of 12 "uuid_digits u"] split [of 8 "uuid_digits u"] by simp
  finally show ?thesis .
qed

lemma ref_uuid_parse [simp]: "ref_uuid_parse_str (ref_uuid_to_string u) = Some u"
proof -
  have "unat u < 2 ^ 128" using unsigned_less [of u, where ?'a = nat] by simp
  then have "horner_sum hex_value 16 (rev (uuid_digits u)) = unat u"
    by (simp add: uuid_digits_def rev_map horner_digits)
  then show ?thesis by (simp add: ref_uuid_parse_str_def filter_digits Let_def)
qed

lemma ref_uuid_to_string_form:
  "length (ref_uuid_to_string u) = 36"
  "c \<in> set (ref_uuid_to_string u) \<Longrightarrow> is_lower_hex c \<or> c = CHR ''-''"
proof -
  have len: "length (uuid_digits u) = 32" by (simp add: uuid_digits_def)
  then show "length (ref_uuid_to_string u) = 36" by (simp add: ref_uuid_to_string_def Let_def)
  have "is_lower_hex c" if "c \<in> set (uuid_digits u)" for c
    using that by (auto simp: uuid_digits_def hex_digit_lower)
  then show "c \<in> set (ref_uuid_to_string u) \<Longrightarrow> is_lower_hex c \<or> c = CHR ''-''"
    by (auto simp: ref_uuid_to_string_def Let_def dest: in_set_takeD in_set_dropD)
qed

subsection \<open>Records\<close>

definition opt_strings :: "RemoteRevision option \<Rightarrow> string list" where
  "opt_strings r = (case r of None \<Rightarrow> [[], []] | Some r \<Rightarrow> [''s'', as_provider_token r])"

definition strings_opt :: "string \<Rightarrow> string \<Rightarrow> RemoteRevision option" where
  "strings_opt tag s = (if tag = [] then None else Some (RemoteRevision s))"

definition phase_string :: "JournalPhase \<Rightarrow> string" where
  "phase_string p = (case p of Prepared \<Rightarrow> ''prepared'' | RemoteCommitted \<Rightarrow> ''remoteCommitted''
     | LocalCommitted \<Rightarrow> ''localCommitted'')"

definition string_phase :: "string \<Rightarrow> JournalPhase" where
  "string_phase s = (if s = ''prepared'' then Prepared else if s = ''remoteCommitted'' then RemoteCommitted
     else LocalCommitted)"

definition base_strings :: "BaseMetadata \<Rightarrow> string list" where
  "base_strings m = [word_string (bm_schema_version m), word_string (profile_uuid (bm_profile_id m)),
     source_as_str (bm_source m), target_as_str (bm_target m), bm_ciphertext_file m,
     digest_as_str (bm_ciphertext_sha256 m), as_provider_token (bm_remote_revision m)]"

definition strings_base :: "string list \<Rightarrow> BaseMetadata" where
  "strings_base ss = \<lparr>bm_schema_version = string_word (ss ! 0), bm_profile_id = ProfileId (string_word (ss ! 1)),
     bm_source = SourceBinding (ss ! 2), bm_target = TargetBinding (ss ! 3), bm_ciphertext_file = ss ! 4,
     bm_ciphertext_sha256 = CiphertextDigest (ss ! 5), bm_remote_revision = RemoteRevision (ss ! 6)\<rparr>"

definition journal_strings :: "JournalRecord \<Rightarrow> string list" where
  "journal_strings m = [word_string (jr_schema_version m), word_string (profile_uuid (jr_profile_id m)),
     source_as_str (jr_source m), target_as_str (jr_target m), word_string (jr_operation_id m),
     phase_string (jr_phase m), digest_as_str (jr_expected_local_sha256 m), jr_candidate_file m,
     digest_as_str (jr_candidate_sha256 m)] @
     opt_strings (jr_expected_remote_revision m) @ opt_strings (jr_committed_remote_revision m)"

definition strings_journal :: "string list \<Rightarrow> JournalRecord" where
  "strings_journal ss = \<lparr>jr_schema_version = string_word (ss ! 0), jr_profile_id = ProfileId (string_word (ss ! 1)),
     jr_source = SourceBinding (ss ! 2), jr_target = TargetBinding (ss ! 3),
     jr_operation_id = string_word (ss ! 4), jr_phase = string_phase (ss ! 5),
     jr_expected_local_sha256 = CiphertextDigest (ss ! 6),
     jr_expected_remote_revision = strings_opt (ss ! 9) (ss ! 10), jr_candidate_file = ss ! 7,
     jr_candidate_sha256 = CiphertextDigest (ss ! 8),
     jr_committed_remote_revision = strings_opt (ss ! 11) (ss ! 12)\<rparr>"

definition ref_ext :: store_ext where
  "ref_ext = \<lparr>sha256 = \<lambda>bs. take 32 (bs @ replicate 32 0),
     uuid_to_string = ref_uuid_to_string, uuid_parse_str = ref_uuid_parse_str,
     uuid_version_num = ref_uuid_version_num,
     base_to_vec = \<lambda>m. Some (enc_strings (base_strings m)),
     base_from_slice = \<lambda>bs. map_option strings_base (dec_strings 7 bs),
     journal_to_vec = \<lambda>m. Some (enc_strings (journal_strings m)),
     journal_from_slice = \<lambda>bs. map_option strings_journal (dec_strings 13 bs),
     envelope_from_slice = \<lambda>bs. map_option (\<lambda>ss. string_word (ss ! 0)) (dec_strings 1 bs)\<rparr>"

lemma phase_string_inverse [simp]: "string_phase (phase_string p) = p"
  by (cases p) (simp_all add: phase_string_def string_phase_def)

lemma base_strings_inverse: "strings_base (base_strings m) = m"
  by (simp add: strings_base_def base_strings_def)

lemma journal_strings_inverse: "strings_journal (journal_strings m) = m"
  by (cases "jr_expected_remote_revision m"; cases "jr_committed_remote_revision m")
    (simp_all add: strings_journal_def journal_strings_def opt_strings_def strings_opt_def)

declare dec_strings.simps [simp del]

lemma dec_take_strings: "n \<le> length ss \<Longrightarrow> dec_strings n (enc_strings ss) = Some (take n ss)"
proof -
  assume "n \<le> length ss"
  moreover have "enc_strings ss = enc_strings (take n ss) @ enc_strings (drop n ss)"
    unfolding enc_strings_def by (metis append_take_drop_id concat_append map_append)
  ultimately show ?thesis using dec_enc_strings [of "take n ss" "enc_strings (drop n ss)"] by simp
qed

lemma dec_first: "dec_strings (Suc n) bs = Some ss \<Longrightarrow> dec_strings 1 bs = Some [ss ! 0]"
  by (auto simp: dec_strings.simps split: option.splits)

lemma ref_ext_ok: "store_ext_ok ref_ext"
  unfolding store_ext_ok_def
proof (intro conjI allI impI ballI)
  fix m assume "wf_base_metadata m"
  then have len: "length (enc_strings (base_strings m)) \<le> MAX_METADATA_BYTES"
    by (auto simp: wf_base_metadata_def length_enc_strings base_strings_def MAX_METADATA_BYTES_def
        valid_revision_def RemoteRevision_new_Inr)
  have "dec_strings 7 (enc_strings (base_strings m)) = Some (base_strings m)"
    "dec_strings 1 (enc_strings (base_strings m)) = Some [word_string (bm_schema_version m)]"
    by (simp_all add: dec_take_strings base_strings_def)
  with len show "\<exists>bs. base_to_vec ref_ext m = Some bs \<and> length bs \<le> MAX_METADATA_BYTES \<and>
      base_from_slice ref_ext bs = Some m \<and> envelope_from_slice ref_ext bs = Some (bm_schema_version m)"
    by (simp add: ref_ext_def base_strings_inverse)
next
  fix m assume wf: "wf_journal_record m"
  have opt: "(\<Sum>s\<leftarrow>opt_strings r. 2 * length s + 1) \<le> 8200" if "pred_option valid_revision r" for r
    using that by (cases r) (auto simp: opt_strings_def valid_revision_def RemoteRevision_new_Inr)
  have "length (phase_string (jr_phase m)) \<le> 20" by (cases "jr_phase m") (simp_all add: phase_string_def)
  with wf opt [of "jr_expected_remote_revision m"] opt [of "jr_committed_remote_revision m"]
  have len: "length (enc_strings (journal_strings m)) \<le> MAX_METADATA_BYTES"
    by (auto simp: wf_journal_record_def length_enc_strings journal_strings_def MAX_METADATA_BYTES_def)
  have "length (journal_strings m) = 13"
    by (cases "jr_expected_remote_revision m"; cases "jr_committed_remote_revision m")
      (simp_all add: journal_strings_def opt_strings_def)
  then have "dec_strings 13 (enc_strings (journal_strings m)) = Some (journal_strings m)"
    "dec_strings 1 (enc_strings (journal_strings m)) = Some [word_string (jr_schema_version m)]"
    by (simp_all add: dec_take_strings) (simp add: journal_strings_def)
  with len show "\<exists>bs. journal_to_vec ref_ext m = Some bs \<and> length bs \<le> MAX_METADATA_BYTES \<and>
      journal_from_slice ref_ext bs = Some m \<and> envelope_from_slice ref_ext bs = Some (jr_schema_version m)"
    by (simp add: ref_ext_def journal_strings_inverse)
next
  fix bs m assume "journal_from_slice ref_ext bs = Some m"
  then obtain ss where "dec_strings 13 bs = Some ss" "m = strings_journal ss" by (auto simp: ref_ext_def)
  then show "envelope_from_slice ref_ext bs = Some (jr_schema_version m)"
    using dec_first [of 12 bs ss] by (simp add: ref_ext_def strings_journal_def)
qed (auto simp: ref_ext_def sha256_ok_def ref_uuid_to_string_form(1) dest: ref_uuid_to_string_form(2))

text \<open>A store and an empty directory to evaluate on.\<close>

definition ref_store :: SyncStore where
  "ref_store = \<lparr>st_directory = ''/data/sync/p'', st_profile_id = ProfileId 1,
     st_source = SourceBinding (replicate 64 (CHR ''a'')), st_target = TargetBinding (replicate 64 (CHR ''b''))\<rparr>"

definition ref_world :: dirworld where
  "ref_world = \<lparr>dir_modes = [], entries = [], faults = [], uuid_source = word_of_nat, uuid_index = 0\<rparr>"

definition ref_revision :: RemoteRevision where
  "ref_revision = RemoteRevision ''r1''"

lemma ref_store_wf: "wf_store ref_store"
  by (simp add: wf_store_def ref_store_def)

lemma ref_revision_valid: "valid_revision ref_revision"
  by (simp add: valid_revision_def ref_revision_def RemoteRevision_new_def)

lemma ref_world_fresh: "uuids_fresh 4 ref_ext ref_world"
  by (simp add: uuids_fresh_def ref_world_def upt_rec)

lemma ref_world_disk: "disk_is ref_ext ref_store None None ref_world"
  by (simp add: disk_is_def disk_base_None disk_journal_None ref_world_def)

end
