(* ===== verification/Store_Properties.thy ===== *)
theory Store_Properties
  imports Reference_Ext
begin

section \<open>Properties of the synchronization store\<close>

text \<open>
  The guarantees of the private synchronization directory, over what a later \<open>load_base\<close> and
  \<open>load_journal\<close> would find in it (\<open>disk_base\<close> and \<open>disk_journal\<close>). In each property about
  failures the list of faults of the initial directory is arbitrary, so an operation may be cut
  short at any of its I/O calls.
\<close>

subsection \<open>A directory with an active journal\<close>

definition ref_local :: LocalSnapshot where
  "ref_local = \<lparr>ls_source = st_source ref_store, ls_authority_token = ''t'', ls_ciphertext = [7],
     ls_digest = CiphertextDigest_of ref_ext [7]\<rparr>"

definition ref_prepared :: "(StoreError + JournalRecord) \<times> dirworld" where
  "ref_prepared = prepare_journal ref_ext ref_store ref_local None [1, 2] ref_world"

definition ref_journal :: LoadedJournal where
  "ref_journal = \<lparr>lj_record = journal_record_for ref_ext ref_store (uuid_source ref_world (uuid_index ref_world))
       ref_local None [1, 2], lj_candidate = [1, 2]\<rparr>"

lemma ref_local_digest: "length (digest_as_str (ls_digest ref_local)) = 64"
  by (simp add: ref_local_def sha256_length [OF ref_ext_ok])

lemma ref_prepared_disk:
  "store_post ref_ext ref_store 3 ref_world None (Some ref_journal) (snd ref_prepared) \<and>
   faults (snd ref_prepared) = []"
proof -
  have fresh: "uuids_fresh (Suc 3) ref_ext ref_world" using ref_world_fresh by (simp add: numeral_eq_Suc)
  have nofault: "faults ref_world = []" by (simp add: ref_world_def)
  have src: "ls_source ref_local = st_source ref_store" by (simp add: ref_local_def)
  have "wpE (prepare_journal ref_ext ref_store ref_local None [1, 2])
      (\<lambda>_ t. store_post ref_ext ref_store 3 ref_world None (Some ref_journal) t) (\<lambda>_ _. True) ref_world"
    by (rule wpE_prepare_journal [OF ref_ext_ok ref_store_wf fresh ref_world_disk ref_local_digest _ refl])
      (simp_all add: ref_journal_def)
  moreover have "wpE (prepare_journal ref_ext ref_store ref_local None [1, 2])
      (\<lambda>_ t. faults t = []) (\<lambda>_ _. False) ref_world"
    by (rule wpE_prepare_journal_ok [OF ref_ext_ok ref_store_wf fresh ref_world_disk nofault ref_local_digest _ src])
      simp
  ultimately show ?thesis
    by (auto simp: wpE_def ref_prepared_def split: prod.splits sum.splits)
qed

lemmas ref_prepared_facts =
  ref_prepared_disk [unfolded store_post_def, THEN conjunct1, THEN conjunct2, THEN conjunct1]
  ref_prepared_disk [unfolded store_post_def, THEN conjunct1, THEN conjunct2, THEN conjunct2]
  ref_prepared_disk [THEN conjunct2]

lemma ref_prepared_fresh: "n \<le> 3 \<Longrightarrow> uuids_fresh n ref_ext (snd ref_prepared)"
  by (rule uuids_fresh_mono [OF ref_prepared_facts(2)]) simp_all

subsection \<open>BASE\<close>

text \<open>
  C8: replacing BASE is atomic. Whatever I/O call of \<open>write_base\<close> fails, the directory
  afterwards reads as the old BASE or as the complete new one, never as a corrupt BASE, and the
  journal reads as before; on success it is the new one.
\<close>

theorem write_base_atomic:
  assumes "store_ext_ok ext" and "wf_store st" and "valid_revision r"
    and "uuids_fresh 1 ext w" and "disk_is ext st b j w"
  shows "wpE (write_base ext st ct r)
    (\<lambda>_ t. disk_base ext st (lookup t) = Inr (Some (base_state ext ct r)) \<and>
       disk_journal ext st (lookup t) = Inr j)
    (\<lambda>_ t. disk_base ext st (lookup t) \<in> {Inr b, Inr (Some (base_state ext ct r))} \<and>
       disk_journal ext st (lookup t) = Inr j) w"
  by (rule wpE_write_base [OF assms(1-3) assms(4) [unfolded One_nat_def] assms(5)])
    (auto simp: store_post_def disk_is_def)

theorem write_base_atomic_witness:
  "wpE (write_base ref_ext ref_store [5] ref_revision)
    (\<lambda>_ t. disk_base ref_ext ref_store (lookup t) = Inr (Some (base_state ref_ext [5] ref_revision)) \<and>
       disk_journal ref_ext ref_store (lookup t) = Inr (Some ref_journal))
    (\<lambda>_ t. disk_base ref_ext ref_store (lookup t)
         \<in> {Inr None, Inr (Some (base_state ref_ext [5] ref_revision))} \<and>
       disk_journal ref_ext ref_store (lookup t) = Inr (Some ref_journal)) (snd ref_prepared)"
  by (rule write_base_atomic [OF ref_ext_ok ref_store_wf ref_revision_valid
        ref_prepared_fresh ref_prepared_facts(1)]) simp

text \<open>
  without I/O failures \<open>write_base\<close> succeeds, and \<open>load_base\<close> then returns exactly the
  ciphertext and the remote revision that were stored, with the ciphertext's digest.
\<close>

theorem write_base_load_base:
  assumes "store_ext_ok ext" and "wf_store st" and "valid_revision r"
    and "uuids_fresh 1 ext w" and "disk_is ext st b j w" and "faults w = []"
  shows "wpE (bindE (write_base ext st ct r) (\<lambda>_. load_base ext st))
    (\<lambda>loaded t. loaded = Some \<lparr>base_ciphertext = ct, base_digest = CiphertextDigest_of ext ct,
       base_remote_revision = r\<rparr>) (\<lambda>_ _. False) w"
proof -
  have fresh: "uuids_fresh (Suc 0) ext w" using assms(4) by simp
  have "wpE (write_base ext st ct r)
      (\<lambda>_ t. disk_base ext st (lookup t) = Inr (Some (base_state ext ct r))) (\<lambda>_ _. True) w"
    by (rule wpE_write_base [OF assms(1-3) fresh assms(5)]) (simp_all add: store_post_def disk_is_def)
  from wpE_conj [OF this wpE_write_base_ok [OF assms(1-3) fresh assms(5,6)]]
  show ?thesis
    unfolding wp_simps by (rule wpE_mono) (simp_all add: wpE_reads_ok [OF reads_load_base] base_state_def)
qed

theorem write_base_load_base_witness:
  "wpE (bindE (write_base ref_ext ref_store [5] ref_revision) (\<lambda>_. load_base ref_ext ref_store))
    (\<lambda>loaded t. loaded = Some \<lparr>base_ciphertext = [5], base_digest = CiphertextDigest_of ref_ext [5],
       base_remote_revision = ref_revision\<rparr>) (\<lambda>_ _. False) (snd ref_prepared)"
  by (rule write_base_load_base [OF ref_ext_ok ref_store_wf ref_revision_valid
        ref_prepared_fresh ref_prepared_facts(1,3)]) simp

subsection \<open>The journal\<close>

text \<open>
  C25: opening a journal is atomic and refuses to overwrite. \<open>prepare_journal\<close> succeeds only when
  no journal is active and the snapshot belongs to the store's source; the directory then holds
  exactly the prepared record and candidate. After any failure the journal reads as before or, if
  none was active, as the complete prepared one; BASE is never touched.
\<close>

theorem prepare_journal_atomic:
  assumes "store_ext_ok ext" and "wf_store st" and "uuids_fresh 1 ext w" and "disk_is ext st b j w"
    and "length (digest_as_str (ls_digest local)) = 64" and "pred_option valid_revision er"
    and "m = journal_record_for ext st (uuid_source w (uuid_index w)) local er candidate"
  shows "wpE (prepare_journal ext st local er candidate)
    (\<lambda>record t. j = None \<and> ls_source local = st_source st \<and> record = m \<and>
       disk_journal ext st (lookup t) = Inr (Some \<lparr>lj_record = m, lj_candidate = candidate\<rparr>) \<and>
       disk_base ext st (lookup t) = Inr b)
    (\<lambda>_ t. (disk_journal ext st (lookup t) = Inr j \<or>
         j = None \<and> disk_journal ext st (lookup t) = Inr (Some \<lparr>lj_record = m, lj_candidate = candidate\<rparr>)) \<and>
       disk_base ext st (lookup t) = Inr b) w"
  by (rule wpE_prepare_journal [OF assms(1,2) assms(3) [unfolded One_nat_def] assms(4-7)])
    (auto simp: store_post_def disk_is_def)

theorem prepare_journal_atomic_witness:
  "wpE (prepare_journal ref_ext ref_store ref_local (Some ref_revision) [9])
    (\<lambda>record t. (None :: LoadedJournal option) = None \<and> ls_source ref_local = st_source ref_store \<and>
       record = journal_record_for ref_ext ref_store 0 ref_local (Some ref_revision) [9] \<and>
       disk_journal ref_ext ref_store (lookup t) = Inr (Some
         \<lparr>lj_record = journal_record_for ref_ext ref_store 0 ref_local (Some ref_revision) [9], lj_candidate = [9]\<rparr>) \<and>
       disk_base ref_ext ref_store (lookup t) = Inr None)
    (\<lambda>_ t. (disk_journal ref_ext ref_store (lookup t) = Inr None \<or>
         (None :: LoadedJournal option) = None \<and> disk_journal ref_ext ref_store (lookup t) = Inr (Some
         \<lparr>lj_record = journal_record_for ref_ext ref_store 0 ref_local (Some ref_revision) [9], lj_candidate = [9]\<rparr>)) \<and>
       disk_base ref_ext ref_store (lookup t) = Inr None) ref_world"
proof (rule prepare_journal_atomic [OF ref_ext_ok ref_store_wf _ ref_world_disk ref_local_digest])
  show "uuids_fresh 1 ref_ext ref_world" by (rule uuids_fresh_mono [OF ref_world_fresh]) simp_all
qed (simp_all add: ref_revision_valid ref_world_def)

text \<open>
  Recording the remote commit is atomic. After \<open>mark_remote_committed\<close> the active journal is
  the one in phase \<open>RemoteCommitted\<close> with the new revision, for the same operation and candidate;
  after a failure it is that one or still the old one, and BASE is never touched.
\<close>

theorem mark_remote_committed_atomic:
  assumes "store_ext_ok ext" and "disk_is ext st b (Some lj) w" and "valid_revision r"
    and "m = (lj_record lj)\<lparr>jr_phase := RemoteCommitted, jr_committed_remote_revision := Some r\<rparr>"
  shows "wpE (mark_remote_committed ext (lj_record lj) r)
    (\<lambda>record t. record = m \<and> disk_base ext st (lookup t) = Inr b \<and>
       disk_journal ext st (lookup t) = Inr (Some (lj\<lparr>lj_record := m\<rparr>)))
    (\<lambda>_ t. disk_base ext st (lookup t) = Inr b \<and>
       disk_journal ext st (lookup t) \<in> {Inr (Some lj), Inr (Some (lj\<lparr>lj_record := m\<rparr>))}) w"
proof -
  have "uuids_fresh 0 ext w" by (simp add: uuids_fresh_def)
  moreover have "lj\<lparr>lj_record := m\<rparr> = \<lparr>lj_record = m, lj_candidate = lj_candidate lj\<rparr>" by (cases lj) simp
  ultimately show ?thesis
    by (intro wpE_mark_remote_committed [OF assms(1,2) _ assms(3,4)]) (auto simp: store_post_def disk_is_def)
qed

theorem mark_remote_committed_atomic_witness:
  "let m = (lj_record ref_journal)\<lparr>jr_phase := RemoteCommitted,
       jr_committed_remote_revision := Some ref_revision\<rparr> in
   wpE (mark_remote_committed ref_ext (lj_record ref_journal) ref_revision)
    (\<lambda>record t. record = m \<and> disk_base ref_ext ref_store (lookup t) = Inr None \<and>
       disk_journal ref_ext ref_store (lookup t) = Inr (Some (ref_journal\<lparr>lj_record := m\<rparr>)))
    (\<lambda>_ t. disk_base ref_ext ref_store (lookup t) = Inr None \<and>
       disk_journal ref_ext ref_store (lookup t)
         \<in> {Inr (Some ref_journal), Inr (Some (ref_journal\<lparr>lj_record := m\<rparr>))}) (snd ref_prepared)"
  unfolding Let_def
  by (rule mark_remote_committed_atomic [OF ref_ext_ok ref_prepared_facts(1) ref_revision_valid refl])

text \<open>
  C26: closing a journal is atomic. \<open>remove_journal\<close> on the active operation leaves no journal and
  the same BASE; interrupted, it leaves the complete old journal or none, never a journal whose
  candidate is missing.
\<close>

theorem remove_journal_atomic:
  assumes "store_ext_ok ext" and "disk_is ext st b (Some lj) w"
    and "jr_operation_id m = jr_operation_id (lj_record lj)"
    and "jr_candidate_file m = jr_candidate_file (lj_record lj)"
  shows "wpE (remove_journal ext st m)
    (\<lambda>_ t. disk_base ext st (lookup t) = Inr b \<and> disk_journal ext st (lookup t) = Inr None)
    (\<lambda>_ t. disk_base ext st (lookup t) = Inr b \<and>
       disk_journal ext st (lookup t) \<in> {Inr (Some lj), Inr None}) w"
proof -
  have "uuids_fresh 0 ext w" by (simp add: uuids_fresh_def)
  then show ?thesis
    by (rule wpE_remove_journal [OF assms(1) _ assms(2)])
      (use assms in \<open>auto simp: store_post_def disk_is_def same_operation_def\<close>)
qed

theorem remove_journal_atomic_witness:
  "wpE (remove_journal ref_ext ref_store (lj_record ref_journal))
    (\<lambda>_ t. disk_base ref_ext ref_store (lookup t) = Inr None \<and> disk_journal ref_ext ref_store (lookup t) = Inr None)
    (\<lambda>_ t. disk_base ref_ext ref_store (lookup t) = Inr None \<and>
       disk_journal ref_ext ref_store (lookup t) \<in> {Inr (Some ref_journal), Inr None}) (snd ref_prepared)"
  by (rule remove_journal_atomic [OF ref_ext_ok ref_prepared_facts(1) refl refl])

text \<open>
  C27: an explicit reset that succeeds leaves the private directory empty. Interrupted at any I/O
  call it has only removed files, and the directory is untouched or holds no journal and either
  the old BASE or none: a half-finished reset never leaves a journal behind.
\<close>

theorem reset_state_interrupted:
  "wpE (reset_state ext) (\<lambda>_ t. entries t = [])
    (\<lambda>_ t. (\<forall>n. lookup t n \<in> {lookup w n, None}) \<and>
       (lookup t = lookup w \<or>
        disk_journal ext st (lookup t) = Inr None \<and>
          disk_base ext st (lookup t) \<in> {disk_base ext st (lookup w), Inr None})) w"
  by (rule wpE_reset_state [of ext st]) (auto simp: reset_post_def)

subsection \<open>File names\<close>

text \<open>
  A file name taken from metadata cannot lead out of the private directory: a name accepted
  for BASE or for a candidate contains no path separator.
\<close>

theorem private_filename_confined:
  assumes "validate_private_filename value pre = Inr ()" and "pre \<in> {''base-'', ''candidate-''}"
  shows "CHR ''/'' \<notin> set value \<and> starts_with value pre \<and>
    (ends_with value ''.kdbx'' \<or> ends_with value ''.json'')"
proof -
  have "CHR 0x2F \<notin> set value" by (rule validate_private_filename_plain [OF assms(1)]) (use assms(2) in auto)
  with assms(1) show ?thesis by (auto simp: validate_private_filename_def split: if_splits)
qed

theorem private_filename_confined_witness:
  "validate_private_filename ''base-1.kdbx'' ''base-'' = Inr () \<and>
   (CHR ''/'' \<notin> set ''base-1.kdbx'' \<and> starts_with ''base-1.kdbx'' ''base-'' \<and>
    (ends_with ''base-1.kdbx'' ''.kdbx'' \<or> ends_with ''base-1.kdbx'' ''.json''))"
proof -
  have "validate_private_filename ''base-1.kdbx'' ''base-'' = Inr ()" by code_simp
  with private_filename_confined [OF this] show ?thesis by blast
qed

end
