(* ===== verification/Kdbx_Document.thy ===== *)
theory Kdbx_Document
  imports Prelude
begin

section \<open>KDBX documents\<close>

text \<open>
  Models the parts of \<open>src/crates/kdbx\<close> on which synchronization rests: the error and version
  types, the credential, the document with its process-local mutation counter, and the
  value-free conflict descriptors of \<open>sync.rs\<close>.

  The database proper is the type parameter \<open>'db\<close>. Parsing and writing its encrypted form is the
  third-party \<open>keepass\<close> crate and a field of \<open>kdbx_api\<close>; so are the three database operations of
  \<open>sync.rs\<close>, which \<open>Kdbx_Three_Way\<close> models over a concrete database. Writing draws fresh salts
  and nonces, so \<open>database_save\<close> takes a seed.
\<close>

datatype KdbxError = Io | InvalidKdbx | InvalidCredentials | UnsupportedFormat | Conversion string
  | UnsupportedWriteFormat | EntryNotFound | GroupNotFound | CannotDeleteRootGroup
  | InvalidGroupMove | ReservedField | InvalidAttachmentName | AttachmentNotFound
  | AttachmentAlreadyExists | InvalidDatabaseMetadata | InvalidExpiry | InvalidIcon
  | InvalidEntryTags | TotpNotConfigured | InvalidTotp | UnsupportedTotpFormat
  | HistoryRevisionNotFound | StaleHistory | HistoryRestoreUnsupported | InvalidHistoryPolicy
  | RecycleBinDisabled | InvalidRecycleBinOperation | WriteIo | Serialization
  | VerificationFailed | SyncInvariant

datatype KdbxVersion = Kdbx3 "16 word" | Kdbx4 "16 word"

record KdbxCredential =
  cred_password :: "string option"
  cred_keyfile :: "bytes option"

definition has_component :: "KdbxCredential \<Rightarrow> bool" where
  "has_component cred = (cred_password cred \<noteq> None \<or> cred_keyfile cred \<noteq> None)"

subsection \<open>Conflict descriptors\<close>

datatype SyncConflictKind = FieldEdit | DeleteVsModify | MoveVsMove | GroupDeleteVsDescendantChange
  | UuidCollision | HierarchyCycle | Metadata | Binary | CustomIcon | History | UnsupportedSemantic

datatype SyncConflictObject = EntryObject string | GroupObject string | DatabaseObject

datatype SyncConflictFieldKind = Standard | Custom | Reserved | EntryMetadata | GroupMetadata
  | DatabaseMetadata

record SyncConflictField =
  scf_kind :: SyncConflictFieldKind
  scf_name :: "string option"

record SyncConflict =
  sc_object :: SyncConflictObject
  sc_kind :: SyncConflictKind
  sc_field :: "SyncConflictField option"

datatype 'd divergent_outcome = MergedDoc 'd | ConflictedDoc "SyncConflict list"

subsection \<open>The document\<close>

record 'db KdbxDocument =
  kd_version :: KdbxVersion
  kd_database :: 'db
  kd_revision :: "64 word"
  kd_revision_permanently_dirty :: bool

record 'db kdbx_api =
  parse_database :: "bytes \<Rightarrow> KdbxCredential \<Rightarrow> KdbxError + (KdbxVersion \<times> 'db)"
  database_save :: "nat \<Rightarrow> 'db \<Rightarrow> KdbxCredential \<Rightarrow> KdbxError + bytes"
  database_semantically_eq :: "'db \<Rightarrow> 'db \<Rightarrow> bool"
  database_valid_for_sync :: "'db \<Rightarrow> bool"
  database_merge :: "'db \<Rightarrow> 'db \<Rightarrow> 'db \<Rightarrow> KdbxError + 'db divergent_outcome"

definition open_reader_with_credential ::
    "'db kdbx_api \<Rightarrow> bytes \<Rightarrow> KdbxCredential \<Rightarrow> KdbxError + 'db KdbxDocument" where
  "open_reader_with_credential api source cred =
     bindR (parse_database api source cred) (\<lambda>(version, db).
     Inr \<lparr>kd_version = version, kd_database = db, kd_revision = 0, kd_revision_permanently_dirty = False\<rparr>)"

definition ensure_writable_format :: "'db KdbxDocument \<Rightarrow> KdbxError + unit" where
  "ensure_writable_format doc =
     (if kd_version doc = Kdbx4 1 then Inr () else Inl UnsupportedWriteFormat)"

definition save_to_writer_with_credential ::
    "'db kdbx_api \<Rightarrow> nat \<Rightarrow> 'db KdbxDocument \<Rightarrow> KdbxCredential \<Rightarrow> KdbxError + bytes" where
  "save_to_writer_with_credential api seed doc cred =
     bindR (ensure_writable_format doc) (\<lambda>_.
     if \<not> has_component cred then Inl InvalidCredentials
     else database_save api seed (kd_database doc) cred)"

definition semantically_equals :: "'db kdbx_api \<Rightarrow> 'db KdbxDocument \<Rightarrow> 'db KdbxDocument \<Rightarrow> bool" where
  "semantically_equals api a b =
     (kd_version a = kd_version b \<and> database_semantically_eq api (kd_database a) (kd_database b))"

definition verify_semantic_equivalence ::
    "'db kdbx_api \<Rightarrow> 'db KdbxDocument \<Rightarrow> 'db KdbxDocument \<Rightarrow> KdbxError + unit" where
  "verify_semantic_equivalence api a b =
     (if kd_version a = kd_version b \<and> database_semantically_eq api (kd_database a) (kd_database b)
      then Inr () else Inl VerificationFailed)"

definition validate_for_sync :: "'db kdbx_api \<Rightarrow> 'db KdbxDocument \<Rightarrow> KdbxError + unit" where
  "validate_for_sync api doc =
     (if database_valid_for_sync api (kd_database doc) then Inr () else Inl SyncInvariant)"

text \<open>The outcome of the builder carries the version of LOCAL and starts a new mutation counter.\<close>

definition merge_divergent ::
    "'db kdbx_api \<Rightarrow> 'db KdbxDocument \<Rightarrow> 'db KdbxDocument \<Rightarrow> 'db KdbxDocument \<Rightarrow>
     KdbxError + 'db KdbxDocument divergent_outcome" where
  "merge_divergent api base local remote =
     (if kd_version base \<noteq> kd_version local \<or> kd_version base \<noteq> kd_version remote \<or>
         kd_version base \<noteq> Kdbx4 1
      then Inl SyncInvariant
      else bindR (database_merge api (kd_database base) (kd_database local) (kd_database remote)) (\<lambda>outcome.
        Inr (case outcome of
          ConflictedDoc conflicts \<Rightarrow> ConflictedDoc conflicts
        | MergedDoc db \<Rightarrow> MergedDoc \<lparr>kd_version = kd_version local, kd_database = db, kd_revision = 0,
                                     kd_revision_permanently_dirty = False\<rparr>)))"

subsection \<open>The mutation counter\<close>

definition has_changes_since :: "'db KdbxDocument \<Rightarrow> 64 word \<Rightarrow> bool" where
  "has_changes_since doc saved_revision =
     (kd_revision_permanently_dirty doc \<or> kd_revision doc \<noteq> saved_revision)"

definition mark_changed :: "'db KdbxDocument \<Rightarrow> 'db KdbxDocument" where
  "mark_changed doc =
     (if kd_revision doc = - 1 then doc\<lparr>kd_revision_permanently_dirty := True\<rparr>
      else doc\<lparr>kd_revision := kd_revision doc + 1\<rparr>)"

lemma mark_changed_monotone:
  "kd_revision doc \<le> kd_revision (mark_changed doc)"
  "kd_revision_permanently_dirty doc \<Longrightarrow> kd_revision_permanently_dirty (mark_changed doc)"
proof -
  show "kd_revision doc \<le> kd_revision (mark_changed doc)"
  proof (cases "kd_revision doc = - 1")
    case False
    then have "1 + kd_revision doc \<noteq> 0" by (metis add.commute add_eq_0_iff2)
    then have "unat (1 + kd_revision doc) = Suc (unat (kd_revision doc))" by (rule unatSuc)
    with False show ?thesis by (simp add: mark_changed_def word_le_nat_alt add.commute)
  qed (simp add: mark_changed_def)
qed (simp add: mark_changed_def)

text \<open>Once dirty against a saved revision that the counter has reached, a document stays dirty
  however many mutations follow: the counter saturates instead of wrapping.\<close>

lemma mark_changed_stays_dirty:
  assumes "saved \<le> kd_revision doc" and "has_changes_since doc saved"
  shows "has_changes_since ((mark_changed ^^ n) doc) saved \<and> saved \<le> kd_revision ((mark_changed ^^ n) doc)"
proof (induction n)
  case (Suc n)
  let ?d = "(mark_changed ^^ n) doc"
  have le: "kd_revision ?d \<le> kd_revision (mark_changed ?d)" by (rule mark_changed_monotone)
  show ?case
  proof (cases "kd_revision_permanently_dirty ?d")
    case True
    with Suc le show ?thesis by (auto simp: has_changes_since_def mark_changed_monotone(2))
  next
    case False
    with Suc have "saved < kd_revision ?d" by (auto simp: has_changes_since_def)
    from this le have "saved < kd_revision (mark_changed ?d)" by (rule less_le_trans)
    then show ?thesis by (auto simp: has_changes_since_def)
  qed
qed (use assms in simp)

lemma mark_changed_dirty: "has_changes_since (mark_changed doc) (kd_revision doc)"
  by (simp add: has_changes_since_def mark_changed_def)

end
