(* ===== verification/Vault_Sync.thy ===== *)
theory Vault_Sync
  imports Kdbx_Document
begin

section \<open>Three-way merge orchestration\<close>

text \<open>Models \<open>src/crates/vault-sync/src/lib.rs\<close>: the decision between BASE, LOCAL and REMOTE.\<close>

datatype 'd MergeOutcome = Equivalent | FastForwardLocal | FastForwardRemote | Merged 'd
  | Conflicted "SyncConflict list"

datatype MergeError = VersionMismatch | InvalidInput | UnsupportedVersion | MergeKdbx KdbxError

definition merge ::
    "'db kdbx_api \<Rightarrow> 'db KdbxDocument \<Rightarrow> 'db KdbxDocument \<Rightarrow> 'db KdbxDocument \<Rightarrow>
     MergeError + 'db KdbxDocument MergeOutcome" where
  "merge api base local remote =
     (if kd_version base \<noteq> kd_version local \<or> kd_version base \<noteq> kd_version remote then Inl VersionMismatch
      else bindR (map_err (\<lambda>_. InvalidInput)
          (bindR (validate_for_sync api base) (\<lambda>_.
           bindR (validate_for_sync api local) (\<lambda>_. validate_for_sync api remote)))) (\<lambda>_.
        if semantically_equals api local remote then Inr Equivalent
        else if semantically_equals api remote base then Inr FastForwardLocal
        else if semantically_equals api local base then Inr FastForwardRemote
        else if kd_version base \<noteq> Kdbx4 1 then Inl UnsupportedVersion
        else bindR (map_err MergeKdbx (merge_divergent api base local remote)) (\<lambda>outcome.
          Inr (case outcome of MergedDoc doc \<Rightarrow> Merged doc | ConflictedDoc conflicts \<Rightarrow> Conflicted conflicts))))"

text \<open>What each outcome says about the three generations.\<close>

lemma merge_cases:
  assumes "merge api base local remote = Inr outcome"
  shows "kd_version base = kd_version local" and "kd_version base = kd_version remote"
    and "database_valid_for_sync api (kd_database base)" "database_valid_for_sync api (kd_database local)"
      "database_valid_for_sync api (kd_database remote)"
    and "outcome = Equivalent \<longleftrightarrow> semantically_equals api local remote"
    and "outcome = FastForwardLocal \<longleftrightarrow>
      \<not> semantically_equals api local remote \<and> semantically_equals api remote base"
    and "outcome = FastForwardRemote \<longleftrightarrow> \<not> semantically_equals api local remote \<and>
      \<not> semantically_equals api remote base \<and> semantically_equals api local base"
    and "outcome = Merged doc \<longleftrightarrow> \<not> semantically_equals api local remote \<and>
      \<not> semantically_equals api remote base \<and> \<not> semantically_equals api local base \<and>
      merge_divergent api base local remote = Inr (MergedDoc doc)"
    and "outcome = Conflicted cs \<longleftrightarrow> \<not> semantically_equals api local remote \<and>
      \<not> semantically_equals api remote base \<and> \<not> semantically_equals api local base \<and>
      merge_divergent api base local remote = Inr (ConflictedDoc cs)"
  using assms
  by (auto simp: merge_def bindR_def map_err_def validate_for_sync_def
      split: if_splits sum.splits divergent_outcome.splits)

end
