(* ===== verification/Sync_Engine.thy ===== *)
theory Sync_Engine
  imports Sync_Store Vault_Sync
begin

section \<open>The synchronization engine\<close>

text \<open>
  Models \<open>src/crates/sync-engine/src\<close>: \<open>engine.rs\<close>, \<open>recovery.rs\<close>, \<open>commit.rs\<close>,
  \<open>conflict.rs\<close>, \<open>conflict_authority.rs\<close>, \<open>credential.rs\<close>, \<open>codec.rs\<close>, \<open>error.rs\<close> and the
  traits of \<open>local.rs\<close>.

  The state of an engine is the store's directory, the pending conflict of its authority (a
  mutex, which may be poisoned), a counter that seeds KDBX encryption, and the state \<open>env\<close> of
  the world outside: the remote object and the open vault, on which the provider and the local
  vault act. Everything another process does between two calls happens inside those calls.
\<close>

subsection \<open>Errors, snapshots and traits\<close>

datatype LocalCommitError = Locked | Dirty | Changed | LocalUnsupported | Failed

datatype SyncError = Provider ProviderError | Store StoreError | Local LocalCommitError
  | Merge MergeError | VaultAuthenticationFailed | InvalidVault | RemoteChanged | LocalChanged
  | LocalChangedDuringRecovery | UncertainState | StaleConflict | Internal

definition from_provider_error :: "ProviderError \<Rightarrow> SyncError" where
  "from_provider_error e = (case e of
     ProviderError.RemoteChanged \<Rightarrow> SyncError.RemoteChanged | other \<Rightarrow> Provider other)"

record 'v local_vault =
  capture_clean :: "('v, LocalCommitError, LocalSnapshot) op"
  replace_if_unchanged :: "LocalSnapshot \<Rightarrow> bytes \<Rightarrow> KdbxCredential \<Rightarrow> ('v, LocalCommitError, unit) op"

datatype SyncCompletion = CreatedRemote | EstablishedBase | EquivalentGenerations | UploadedLocal
  | AppliedRemote | MergedGenerations | Recovered

datatype ConflictChoice = KeepLocal | KeepRemote

record ConflictDescriptor =
  cd_object_kind :: string
  cd_object_id :: "string option"
  cd_conflict_kind :: string
  cd_field_kind :: "string option"

record ConflictOperation =
  co_id :: string
  co_initial :: bool
  co_conflicts :: "ConflictDescriptor list"

datatype SyncOutcome = Done SyncCompletion | Conflict ConflictOperation

record PendingConflict =
  pc_local :: LocalSnapshot
  pc_remote_bytes :: bytes
  pc_remote_digest :: CiphertextDigest
  pc_remote_revision :: RemoteRevision
  pc_base_digest :: "CiphertextDigest option"
  pc_operation :: ConflictOperation

datatype CommitRemote = CreateObject | ReplaceObject | AlreadyCommitted bytes

record CommitPlan =
  plan_local_snapshot :: LocalSnapshot
  plan_expected_remote :: "RemoteRevision option"
  plan_remote_action :: CommitRemote
  plan_completion :: SyncCompletion

record 'v engine_world = dirworld +
  pending :: "PendingConflict option"
  poisoned :: bool
  save_seed :: nat
  env :: 'v

record ('v, 'db) SyncEngine =
  se_ext :: store_ext
  se_store :: SyncStore
  se_kdbx :: "'db kdbx_api"
  se_provider :: "'v provider"
  se_local :: "'v local_vault"

type_synonym ('v, 'a) engine_op = "('v engine_world, SyncError, 'a) op"

subsection \<open>Embedding of the collaborators\<close>

definition on_env :: "('v, 'e, 'a) op \<Rightarrow> ('v engine_world, 'e, 'a) op" where
  "on_env m = (\<lambda>w. case m (env w) of (r, v) \<Rightarrow> (r, w\<lparr>env := v\<rparr>))"

definition provider_read :: "('v, 'db) SyncEngine \<Rightarrow> ('v engine_world, ProviderError, RemoteRead) op" where
  "provider_read en = on_env (p_read (se_provider en))"

definition capture :: "('v, 'db) SyncEngine \<Rightarrow> ('v, LocalSnapshot) engine_op" where
  "capture en = map_errE Local (on_env (capture_clean (se_local en)))"

definition store :: "('v engine_world, StoreError, 'a) op \<Rightarrow> ('v, 'a) engine_op" where
  "store m = map_errE Store m"

subsection \<open>Conflict descriptors and authority\<close>

fun describe_object :: "SyncConflictObject \<Rightarrow> string \<times> string option" where
  "describe_object (EntryObject i) = (''entry'', Some i)"
| "describe_object (GroupObject i) = (''group'', Some i)"
| "describe_object DatabaseObject = (''database'', None)"

fun describe_kind :: "SyncConflictKind \<Rightarrow> string" where
  "describe_kind FieldEdit = ''fieldEdit''"
| "describe_kind DeleteVsModify = ''deleteVsModify''"
| "describe_kind MoveVsMove = ''moveVsMove''"
| "describe_kind GroupDeleteVsDescendantChange = ''groupDeleteVsDescendantChange''"
| "describe_kind UuidCollision = ''uuidCollision''"
| "describe_kind HierarchyCycle = ''hierarchyCycle''"
| "describe_kind Metadata = ''metadata''"
| "describe_kind Binary = ''binary''"
| "describe_kind CustomIcon = ''customIcon''"
| "describe_kind History = ''history''"
| "describe_kind UnsupportedSemantic = ''unsupportedSemantic''"

fun describe_field :: "SyncConflictFieldKind \<Rightarrow> string" where
  "describe_field Standard = ''standard''"
| "describe_field Custom = ''custom''"
| "describe_field Reserved = ''reserved''"
| "describe_field EntryMetadata = ''entryMetadata''"
| "describe_field GroupMetadata = ''groupMetadata''"
| "describe_field DatabaseMetadata = ''databaseMetadata''"

definition describe :: "SyncConflict \<Rightarrow> ConflictDescriptor" where
  "describe conflict = (let (object_kind, object_id) = describe_object (sc_object conflict) in
     \<lparr>cd_object_kind = object_kind, cd_object_id = object_id,
      cd_conflict_kind = describe_kind (sc_kind conflict),
      cd_field_kind = map_option (\<lambda>field. describe_field (scf_kind field)) (sc_field conflict)\<rparr>)"

definition lock_pending :: "('v, unit) engine_op" where
  "lock_pending = (\<lambda>w. (if poisoned w then Inl Internal else Inr (), w))"

definition invalidate_pending_conflict :: "('v, unit) engine_op" where
  "invalidate_pending_conflict = bindE lock_pending (\<lambda>_. modifyE (\<lambda>w. w\<lparr>pending := None\<rparr>))"

definition install ::
    "('v, 'db) SyncEngine \<Rightarrow> LocalSnapshot \<Rightarrow> bytes \<Rightarrow> RemoteRevision \<Rightarrow> CiphertextDigest option \<Rightarrow> bool \<Rightarrow>
     ConflictDescriptor list \<Rightarrow> ('v, ConflictOperation) engine_op" where
  "install en local remote_bytes remote_revision base initial conflicts =
     bindE (store new_v4) (\<lambda>u.
     let operation = \<lparr>co_id = uuid_to_string (se_ext en) u, co_initial = initial, co_conflicts = conflicts\<rparr> in
     bindE lock_pending (\<lambda>_.
     bindE (modifyE (\<lambda>w. w\<lparr>pending := Some
        \<lparr>pc_local = local, pc_remote_bytes = remote_bytes,
         pc_remote_digest = CiphertextDigest_of (se_ext en) remote_bytes,
         pc_remote_revision = remote_revision, pc_base_digest = base, pc_operation = operation\<rparr>\<rparr>)) (\<lambda>_.
     returnE operation)))"

definition take_pending :: "string \<Rightarrow> ('v, PendingConflict) engine_op" where
  "take_pending operation_id =
     bindE lock_pending (\<lambda>_.
     bindE (getsE pending) (\<lambda>p. case p of
       None \<Rightarrow> throwE StaleConflict
     | Some conflict \<Rightarrow>
         if co_id (pc_operation conflict) \<noteq> operation_id then throwE StaleConflict
         else bindE (modifyE (\<lambda>w. w\<lparr>pending := None\<rparr>)) (\<lambda>_. returnE conflict)))"

subsection \<open>Encrypted generations\<close>

definition open_document ::
    "('v, 'db) SyncEngine \<Rightarrow> bytes \<Rightarrow> KdbxCredential \<Rightarrow> SyncError + 'db KdbxDocument" where
  "open_document en bs cred =
     map_err (\<lambda>e. if e = InvalidCredentials then VaultAuthenticationFailed else InvalidVault)
       (open_reader_with_credential (se_kdbx en) bs cred)"

definition serialize_verified ::
    "('v, 'db) SyncEngine \<Rightarrow> 'db KdbxDocument \<Rightarrow> KdbxCredential \<Rightarrow> ('v, bytes) engine_op" where
  "serialize_verified en doc cred =
     bindE (getsE save_seed) (\<lambda>seed.
     bindE (modifyE (\<lambda>w. w\<lparr>save_seed := Suc seed\<rparr>)) (\<lambda>_.
     bindE (liftE (map_err (\<lambda>_. InvalidVault)
        (save_to_writer_with_credential (se_kdbx en) seed doc cred))) (\<lambda>bs.
     bindE (liftE (open_document en bs cred)) (\<lambda>reopened.
     bindE (liftE (map_err (\<lambda>_. InvalidVault) (verify_semantic_equivalence (se_kdbx en) doc reopened))) (\<lambda>_.
     returnE bs)))))"

subsection \<open>Preconditions\<close>

definition require_local_unchanged :: "('v, 'db) SyncEngine \<Rightarrow> LocalSnapshot \<Rightarrow> ('v, unit) engine_op" where
  "require_local_unchanged en expected =
     bindE (capture en) (\<lambda>current.
     if ls_source current = ls_source expected \<and> ls_digest current = ls_digest expected \<and>
        ls_authority_token current = ls_authority_token expected
     then returnE () else throwE LocalChanged)"

definition require_base_unchanged ::
    "('v, 'db) SyncEngine \<Rightarrow> CiphertextDigest option \<Rightarrow> ('v, unit) engine_op" where
  "require_base_unchanged en expected_digest =
     bindE (store (load_base (se_ext en) (se_store en))) (\<lambda>current.
     case (expected_digest, current) of
       (None, None) \<Rightarrow> returnE ()
     | (Some expected, Some base) \<Rightarrow>
         if expected = base_digest base then returnE () else throwE StaleConflict
     | _ \<Rightarrow> throwE StaleConflict)"

subsection \<open>Recovery\<close>

definition local_matches_persisted :: "LocalSnapshot \<Rightarrow> JournalRecord \<Rightarrow> bool" where
  "local_matches_persisted local journal =
     (ls_source local = jr_source journal \<and> ls_digest local = jr_expected_local_sha256 journal)"

text \<open>What a remote read says about a journal: does the object match the candidate, is it still
  the expected one, and which revision does it have.\<close>

definition compare_remote ::
    "('v, 'db) SyncEngine \<Rightarrow> JournalRecord \<Rightarrow> RemoteRead \<Rightarrow> bool \<times> bool \<times> RemoteRevision option" where
  "compare_remote en record remote = (case remote of
     Missing \<Rightarrow> (False, jr_expected_remote_revision record = None, None)
   | Present obj \<Rightarrow>
       (CiphertextDigest_of (se_ext en) (ciphertext obj) = jr_candidate_sha256 record,
        (case jr_expected_remote_revision record of
           None \<Rightarrow> False | Some expected \<Rightarrow> expected = revision obj),
        Some (revision obj)))"

text \<open>The two phase steps of \<open>recover_loaded\<close>; \<open>None\<close> is its early \<open>return Ok(false)\<close>.\<close>

definition recover_prepared ::
    "('v, 'db) SyncEngine \<Rightarrow> LocalSnapshot \<Rightarrow> JournalRecord \<Rightarrow> bool \<times> bool \<times> RemoteRevision option \<Rightarrow>
     ('v, JournalRecord option) engine_op" where
  "recover_prepared en current_local record cmp = (case cmp of
     (remote_matches_candidate, remote_unchanged, current_revision) \<Rightarrow>
       if jr_phase record = Prepared then
         if remote_matches_candidate then
           bindE (liftE (ok_or UncertainState current_revision)) (\<lambda>r.
           bindE (store (mark_remote_committed (se_ext en) record r)) (\<lambda>record. returnE (Some record)))
         else if remote_unchanged then
           if local_matches_persisted current_local record then
             bindE (store (remove_journal (se_ext en) (se_store en) record)) (\<lambda>_. returnE None)
           else throwE LocalChangedDuringRecovery
         else throwE UncertainState
       else returnE (Some record))"

definition recover_local ::
    "('v, 'db) SyncEngine \<Rightarrow> KdbxCredential \<Rightarrow> LocalSnapshot \<Rightarrow> bytes \<Rightarrow> JournalRecord \<Rightarrow> bool \<Rightarrow>
     ('v, JournalRecord) engine_op" where
  "recover_local en cred current_local candidate record remote_matches_candidate =
     (if jr_phase record = RemoteCommitted then
        if \<not> remote_matches_candidate then throwE UncertainState
        else
          bindE (if ls_digest current_local \<noteq> jr_candidate_sha256 record then
                   if \<not> local_matches_persisted current_local record then throwE LocalChangedDuringRecovery
                   else map_errE Local (on_env (replace_if_unchanged (se_local en) current_local candidate cred))
                 else returnE ()) (\<lambda>_.
          store (mark_local_committed (se_ext en) record))
      else returnE record)"

text \<open>The part of \<open>recover_loaded\<close> after the journal is known to be committed remotely.\<close>

definition finish_recovery ::
    "('v, 'db) SyncEngine \<Rightarrow> KdbxCredential \<Rightarrow> LocalSnapshot \<Rightarrow> bytes \<Rightarrow> bool \<times> bool \<times> RemoteRevision option \<Rightarrow>
     JournalRecord \<Rightarrow> ('v, bool) engine_op" where
  "finish_recovery en cred current_local candidate cmp record =
     bindE (recover_local en cred current_local candidate record (fst cmp)) (\<lambda>record.
     bindE (capture en) (\<lambda>refreshed.
     if ls_digest refreshed \<noteq> jr_candidate_sha256 record \<or> \<not> fst cmp then throwE UncertainState
     else
       bindE (liftE (ok_or UncertainState (case snd (snd cmp) of
           None \<Rightarrow> jr_committed_remote_revision record | Some r \<Rightarrow> Some r))) (\<lambda>r.
       bindE (store (write_base (se_ext en) (se_store en) candidate r)) (\<lambda>_.
       bindE (store (remove_journal (se_ext en) (se_store en) record)) (\<lambda>_.
       returnE True)))))"

definition recover_loaded ::
    "('v, 'db) SyncEngine \<Rightarrow> KdbxCredential \<Rightarrow> LocalSnapshot \<Rightarrow> ('v, bool) engine_op" where
  "recover_loaded en cred current_local =
     bindE (store (load_journal (se_ext en) (se_store en))) (\<lambda>loaded. case loaded of
       None \<Rightarrow> returnE False
     | Some lj \<Rightarrow>
         bindE (liftE (open_document en (lj_candidate lj) cred)) (\<lambda>_.
         bindE (map_errE from_provider_error (provider_read en)) (\<lambda>remote.
         let cmp = compare_remote en (lj_record lj) remote in
         bindE (recover_prepared en current_local (lj_record lj) cmp) (\<lambda>next. case next of
           None \<Rightarrow> returnE False
         | Some record \<Rightarrow> finish_recovery en cred current_local (lj_candidate lj) cmp record))))"

subsection \<open>Commit\<close>

definition commit_remote ::
    "('v, 'db) SyncEngine \<Rightarrow> CommitRemote \<Rightarrow> RemoteRevision option \<Rightarrow> bytes \<Rightarrow>
     ('v, ProviderError + RemoteRevision) engine_op" where
  "commit_remote en action expected_remote candidate = (case action of
     CreateObject \<Rightarrow> tryE (on_env (p_create_if_absent (se_provider en) candidate))
   | ReplaceObject \<Rightarrow>
       bindE (liftE (ok_or Internal expected_remote)) (\<lambda>expected.
       tryE (on_env (p_replace_if_revision (se_provider en) expected candidate)))
   | AlreadyCommitted _ \<Rightarrow>
       bindE (liftE (ok_or Internal expected_remote)) (\<lambda>expected. returnE (Inr expected)))"

definition commit_local ::
    "('v, 'db) SyncEngine \<Rightarrow> KdbxCredential \<Rightarrow> LocalSnapshot \<Rightarrow> bytes \<Rightarrow> ('v, unit) engine_op" where
  "commit_local en cred local_snapshot candidate =
     (if candidate \<noteq> ls_ciphertext local_snapshot
      then map_errE Local (on_env (replace_if_unchanged (se_local en) local_snapshot candidate cred))
      else require_local_unchanged en local_snapshot)"

definition commit_candidate_bytes ::
    "('v, 'db) SyncEngine \<Rightarrow> KdbxCredential \<Rightarrow> bytes \<Rightarrow> CommitPlan \<Rightarrow> ('v, SyncOutcome) engine_op" where
  "commit_candidate_bytes en cred candidate plan =
     bindE (store (prepare_journal (se_ext en) (se_store en) (plan_local_snapshot plan)
        (plan_expected_remote plan) candidate)) (\<lambda>journal.
     bindE (commit_remote en (plan_remote_action plan) (plan_expected_remote plan) candidate) (\<lambda>result.
     case result of
       Inl ProviderError.WriteResultUncertain \<Rightarrow>
         bindE (capture en) (\<lambda>current.
         bindE (recover_loaded en cred current) (\<lambda>recovered.
         if recovered then returnE (Done Recovered) else throwE SyncError.RemoteChanged))
     | Inl ProviderError.RemoteChanged \<Rightarrow>
         bindE (store (remove_journal (se_ext en) (se_store en) journal)) (\<lambda>_.
         throwE SyncError.RemoteChanged)
     | Inl e \<Rightarrow> throwE (Provider e)
     | Inr remote_revision \<Rightarrow>
         bindE (store (mark_remote_committed (se_ext en) journal remote_revision)) (\<lambda>journal.
         bindE (commit_local en cred (plan_local_snapshot plan) candidate) (\<lambda>_.
         bindE (store (mark_local_committed (se_ext en) journal)) (\<lambda>journal.
         bindE (store (write_base (se_ext en) (se_store en) candidate remote_revision)) (\<lambda>_.
         bindE (store (remove_journal (se_ext en) (se_store en) journal)) (\<lambda>_.
         returnE (Done (plan_completion plan)))))))))"

definition commit_candidate ::
    "('v, 'db) SyncEngine \<Rightarrow> KdbxCredential \<Rightarrow> CommitPlan \<Rightarrow> ('v, SyncOutcome) engine_op" where
  "commit_candidate en cred plan =
     (let candidate = (case plan_remote_action plan of
          AlreadyCommitted bs \<Rightarrow> bs | _ \<Rightarrow> ls_ciphertext (plan_local_snapshot plan)) in
      bindE (liftE (open_document en candidate cred)) (\<lambda>_.
      commit_candidate_bytes en cred candidate plan))"

subsection \<open>The operations\<close>

text \<open>The \<open>match\<close> on the merge outcome in \<open>merge_existing\<close>.\<close>

definition apply_outcome ::
    "('v, 'db) SyncEngine \<Rightarrow> KdbxCredential \<Rightarrow> LocalSnapshot \<Rightarrow> BaseState \<Rightarrow> bytes \<Rightarrow> RemoteRevision \<Rightarrow>
     'db KdbxDocument MergeOutcome \<Rightarrow> ('v, SyncOutcome) engine_op" where
  "apply_outcome en cred local_snapshot base remote_bytes remote_revision outcome = (case outcome of
     Equivalent \<Rightarrow>
       bindE (require_local_unchanged en local_snapshot) (\<lambda>_.
       bindE (store (write_base (se_ext en) (se_store en) remote_bytes remote_revision)) (\<lambda>_.
       returnE (Done EquivalentGenerations)))
   | FastForwardLocal \<Rightarrow>
       commit_candidate en cred \<lparr>plan_local_snapshot = local_snapshot,
         plan_expected_remote = Some remote_revision, plan_remote_action = ReplaceObject,
         plan_completion = UploadedLocal\<rparr>
   | FastForwardRemote \<Rightarrow>
       commit_candidate en cred \<lparr>plan_local_snapshot = local_snapshot,
         plan_expected_remote = Some remote_revision,
         plan_remote_action = AlreadyCommitted remote_bytes, plan_completion = AppliedRemote\<rparr>
   | Merged merged \<Rightarrow>
       bindE (serialize_verified en merged cred) (\<lambda>candidate.
       commit_candidate_bytes en cred candidate \<lparr>plan_local_snapshot = local_snapshot,
         plan_expected_remote = Some remote_revision, plan_remote_action = ReplaceObject,
         plan_completion = MergedGenerations\<rparr>)
   | Conflicted conflicts \<Rightarrow>
       bindE (install en local_snapshot remote_bytes remote_revision (Some (base_digest base)) False
          (map describe conflicts)) (\<lambda>operation.
       returnE (Conflict operation)))"

definition merge_existing ::
    "('v, 'db) SyncEngine \<Rightarrow> KdbxCredential \<Rightarrow> LocalSnapshot \<Rightarrow> BaseState \<Rightarrow> RemoteObject \<Rightarrow>
     ('v, SyncOutcome) engine_op" where
  "merge_existing en cred local_snapshot base remote =
     (let (remote_bytes, remote_revision) = into_parts remote in
      bindE (liftE (open_document en (base_ciphertext base) cred)) (\<lambda>base_document.
      bindE (liftE (open_document en (ls_ciphertext local_snapshot) cred)) (\<lambda>local_document.
      bindE (liftE (open_document en remote_bytes cred)) (\<lambda>remote_document.
      bindE (liftE (map_err Merge (merge (se_kdbx en) base_document local_document remote_document))) (\<lambda>outcome.
      apply_outcome en cred local_snapshot base remote_bytes remote_revision outcome)))))"

definition establish ::
    "('v, 'db) SyncEngine \<Rightarrow> KdbxCredential \<Rightarrow> LocalSnapshot \<Rightarrow> RemoteObject \<Rightarrow> ('v, SyncOutcome) engine_op" where
  "establish en cred local_snapshot remote =
     (let (remote_bytes, remote_revision) = into_parts remote in
      bindE (liftE (open_document en (ls_ciphertext local_snapshot) cred)) (\<lambda>local_document.
      bindE (liftE (open_document en remote_bytes cred)) (\<lambda>remote_document.
      if semantically_equals (se_kdbx en) local_document remote_document then
        bindE (require_local_unchanged en local_snapshot) (\<lambda>_.
        bindE (store (write_base (se_ext en) (se_store en) remote_bytes remote_revision)) (\<lambda>_.
        returnE (Done EstablishedBase)))
      else
        bindE (install en local_snapshot remote_bytes remote_revision None True []) (\<lambda>operation.
        returnE (Conflict operation)))))"

text \<open>The \<open>match\<close> on BASE and REMOTE in \<open>sync\<close>.\<close>

definition sync_decide ::
    "('v, 'db) SyncEngine \<Rightarrow> KdbxCredential \<Rightarrow> LocalSnapshot \<Rightarrow> BaseState option \<Rightarrow> RemoteRead \<Rightarrow>
     ('v, SyncOutcome) engine_op" where
  "sync_decide en cred local_snapshot base remote = (case (base, remote) of
     (None, Missing) \<Rightarrow>
       commit_candidate en cred \<lparr>plan_local_snapshot = local_snapshot, plan_expected_remote = None,
         plan_remote_action = CreateObject, plan_completion = CreatedRemote\<rparr>
   | (None, Present remote) \<Rightarrow> establish en cred local_snapshot remote
   | (Some _, Missing) \<Rightarrow> throwE SyncError.RemoteChanged
   | (Some base, Present remote) \<Rightarrow> merge_existing en cred local_snapshot base remote)"

definition sync :: "('v, 'db) SyncEngine \<Rightarrow> KdbxCredential \<Rightarrow> ('v, SyncOutcome) engine_op" where
  "sync en cred =
     bindE invalidate_pending_conflict (\<lambda>_.
     if \<not> has_component cred then throwE VaultAuthenticationFailed
     else
       bindE (capture en) (\<lambda>local_snapshot.
       bindE (recover_loaded en cred local_snapshot) (\<lambda>recovered.
       if recovered then returnE (Done Recovered)
       else
         bindE (store (load_base (se_ext en) (se_store en))) (\<lambda>base.
         bindE (map_errE from_provider_error (provider_read en)) (\<lambda>remote.
         sync_decide en cred local_snapshot base remote)))))"

text \<open>The part of \<open>resolve\<close> after the conflict token is consumed.\<close>

definition resolve_pending ::
    "('v, 'db) SyncEngine \<Rightarrow> ConflictChoice \<Rightarrow> KdbxCredential \<Rightarrow> PendingConflict \<Rightarrow> ('v, SyncOutcome) engine_op" where
  "resolve_pending en choice cred pc =
     bindE (require_base_unchanged en (pc_base_digest pc)) (\<lambda>_.
     bindE (require_local_unchanged en (pc_local pc)) (\<lambda>_.
     bindE (map_errE from_provider_error (provider_read en)) (\<lambda>read.
     case read of
       Missing \<Rightarrow> throwE SyncError.RemoteChanged
     | Present remote \<Rightarrow>
         if revision remote \<noteq> pc_remote_revision pc then throwE SyncError.RemoteChanged
         else if CiphertextDigest_of (se_ext en) (ciphertext remote) \<noteq> pc_remote_digest pc
         then throwE SyncError.RemoteChanged
         else (case choice of
           KeepLocal \<Rightarrow>
             commit_candidate en cred \<lparr>plan_local_snapshot = pc_local pc,
               plan_expected_remote = Some (pc_remote_revision pc),
               plan_remote_action = ReplaceObject, plan_completion = UploadedLocal\<rparr>
         | KeepRemote \<Rightarrow>
             commit_candidate en cred \<lparr>plan_local_snapshot = pc_local pc,
               plan_expected_remote = Some (pc_remote_revision pc),
               plan_remote_action = AlreadyCommitted (pc_remote_bytes pc),
               plan_completion = AppliedRemote\<rparr>))))"

definition resolve ::
    "('v, 'db) SyncEngine \<Rightarrow> string \<Rightarrow> ConflictChoice \<Rightarrow> KdbxCredential \<Rightarrow> ('v, SyncOutcome) engine_op" where
  "resolve en conflict_operation_id choice cred =
     (if \<not> has_component cred then throwE VaultAuthenticationFailed
      else
        bindE (capture en) (\<lambda>current_local.
        bindE (liftE (open_document en (ls_ciphertext current_local) cred)) (\<lambda>_.
        bindE (take_pending conflict_operation_id) (\<lambda>pc.
        resolve_pending en choice cred pc))))"

end
