(* ===== verification/Engine_Env.thy ===== *)
theory Engine_Env
  imports Sync_Engine Sync_Journal_Spec
begin

section \<open>The contract between the engine and the world outside\<close>

text \<open>
  What the engine relies on when it calls a provider and a local vault, as a locale. The laws
  hold in the presence of other clients and other processes: they speak of a history of the
  changes this client itself made to the remote object and to the local vault, each with the
  bytes it overwrote. \<open>names r bs\<close> says that the provider may call the bytes \<open>bs\<close> by the revision
  \<open>r\<close>. A conditional write that took effect, whatever it reported, overwrote bytes that its revision
  names.
\<close>

locale sync_env =
  fixes prov :: "'v provider"
    and loc :: "'v local_vault"
    and digest :: "bytes \<Rightarrow> CiphertextDigest"
    and names :: "RemoteRevision \<Rightarrow> bytes \<Rightarrow> bool"
    and history :: "'v \<Rightarrow> (bytes option \<times> bytes) list"
    and local_history :: "'v \<Rightarrow> (bytes \<times> bytes) list"
  assumes read_law: "wpE (p_read prov)
      (\<lambda>r v'. history v' = history v \<and> local_history v' = local_history v \<and>
        (\<forall>obj. r = Present obj \<longrightarrow> names (revision obj) (ciphertext obj) \<and> valid_revision (revision obj)))
      (\<lambda>_ v'. history v' = history v \<and> local_history v' = local_history v) v"
    and create_law: "wpE (p_create_if_absent prov ct)
      (\<lambda>r v'. extends_by (history v) (\<lambda>x. x = (None, ct)) (history v') \<and>
        local_history v' = local_history v \<and> valid_revision r)
      (\<lambda>_ v'. extends_by (history v) (\<lambda>x. x = (None, ct)) (history v') \<and>
        local_history v' = local_history v) v"
    and replace_law: "wpE (p_replace_if_revision prov r0 ct)
      (\<lambda>r v'. extends_by (history v) (\<lambda>x. \<exists>old. x = (Some old, ct) \<and> names r0 old) (history v') \<and>
        local_history v' = local_history v \<and> valid_revision r)
      (\<lambda>_ v'. extends_by (history v) (\<lambda>x. \<exists>old. x = (Some old, ct) \<and> names r0 old) (history v') \<and>
        local_history v' = local_history v) v"
    and capture_law: "wpE (capture_clean loc)
      (\<lambda>s v'. history v' = history v \<and> local_history v' = local_history v \<and>
        ls_digest s = digest (ls_ciphertext s))
      (\<lambda>_ v'. history v' = history v \<and> local_history v' = local_history v) v"
    and local_law: "wpE (replace_if_unchanged loc s ct cred)
      (\<lambda>_ v'. history v' = history v \<and>
        extends_by (local_history v) (\<lambda>x. \<exists>old. x = (old, ct)) (local_history v'))
      (\<lambda>_ v'. history v' = history v \<and>
        extends_by (local_history v) (\<lambda>x. \<exists>old. x = (old, ct)) (local_history v')) v"
begin

text \<open>An engine over this world.\<close>

definition uses :: "('v, 'db) SyncEngine \<Rightarrow> bool" where
  "uses en \<longleftrightarrow> se_provider en = prov \<and> se_local en = loc \<and> digest = CiphertextDigest_of (se_ext en)"

end

subsection \<open>Steps that leave the outside alone\<close>

definition inside :: "('v engine_world, 'e, 'a) op \<Rightarrow> bool" where
  "inside m \<longleftrightarrow> (\<forall>w. env (snd (m w)) = env w)"

lemma insideD: "inside m \<Longrightarrow> wpE m (\<lambda>_ t. env t = env w) (\<lambda>_ t. env t = env w) w"
  unfolding inside_def wpE_def by (auto split: prod.splits sum.splits dest!: spec [where x = w])

lemma inside_bindE: "inside m \<Longrightarrow> (\<And>a. inside (f a)) \<Longrightarrow> inside (bindE m f)"
  unfolding inside_def bindE_def by (auto split: prod.splits sum.splits) (metis snd_conv)+

lemma inside_simple [simp]:
  "inside (returnE a)" "inside (throwE e)" "inside (liftE r)" "inside (getsE f)" "inside io_point"
  "inside new_v4" "inside lock_pending"
  by (simp_all add: inside_def op_defs io_point_def new_v4_def lock_pending_def split: list.splits)

lemma inside_modifyE: "(\<And>w. env (f w) = env w) \<Longrightarrow> inside (modifyE f)"
  by (simp add: inside_def modifyE_def)

lemma inside_map_errE [simp]: "inside (map_errE g m) = inside m"
  by (auto simp: inside_def map_errE_def split: prod.splits sum.splits)
    (metis Inl_Inr_False fst_conv old.sum.exhaust prod.collapse snd_conv)+

lemma inside_reads: "reads m g \<Longrightarrow> inside m"
  unfolding inside_def
proof
  fix w assume "reads m g"
  then show "env (snd (m w)) = env w" using readsD [of m g w] by auto
qed

lemmas inside_intros = inside_bindE inside_modifyE inside_simple

lemma inside_atomic_write [simp]: "inside (atomic_write n bs)"
  unfolding atomic_write_def commit_rename_def by (auto intro!: inside_intros)

lemma inside_atomic_write_json [simp]: "inside (atomic_write_json f n v)"
  unfolding atomic_write_json_def by (auto intro!: inside_intros)

lemma inside_remove_if_file [simp]: "inside (remove_if_file n)"
  unfolding remove_if_file_def by (auto intro!: inside_intros split: option.splits node.splits)

lemma inside_store_reads [simp]:
  "inside (load_base ext st)" "inside (load_journal ext st)" "inside (recovery_status ext st)"
  "inside (read_metadata f n k)"
  by (rule inside_reads, rule reads_load_base reads_load_journal reads_recovery_status reads_metadata)+

lemma inside_write_journal [simp]: "inside (write_journal ext m)"
  unfolding write_journal_def by (auto intro!: inside_intros)

lemma inside_store_writes [simp]:
  "inside (write_base ext st ct r)" "inside (prepare_journal ext st s er ct)"
  "inside (mark_remote_committed ext m r)" "inside (mark_local_committed ext m)"
  "inside (remove_journal ext st m)"
  unfolding write_base_def prepare_journal_def mark_remote_committed_def mark_local_committed_def
    remove_journal_def sync_directory_def Let_def
  by (auto intro!: inside_intros split: option.splits)

lemma inside_store [simp]: "inside (store m) = inside m"
  by (simp add: store_def)

lemma inside_engine_steps [simp]:
  "inside (serialize_verified en doc cred)" "inside (install en s bs r b initial cs)" "inside invalidate_pending_conflict"
  "inside (take_pending i)" "inside (require_base_unchanged en d)"
  unfolding serialize_verified_def install_def invalidate_pending_conflict_def take_pending_def
    require_base_unchanged_def Let_def
  by (auto intro!: inside_intros split: option.splits)

end
