(* ===== verification/Engine_Safety.thy ===== *)
theory Engine_Safety
  imports Engine_Env
begin

section \<open>No update is lost\<close>

text \<open>
  The engine overwrites a remote generation only after having read it and decided on it, and the
  local vault only with a generation that is already remote. Both hold in any world of
  \<open>sync_env\<close>, under every interference and every failure.
\<close>

text \<open>Why an upload of \<open>new\<close> over \<open>old\<close> is allowed: there was no remote object and no BASE, or the
  remote generation that was read, called by the same revision as the one overwritten, merges with
  BASE and the captured local generation into \<open>new\<close>.\<close>

definition upload_justified ::
    "('v, 'db) SyncEngine \<Rightarrow> KdbxCredential \<Rightarrow> (RemoteRevision \<Rightarrow> bytes \<Rightarrow> bool) \<Rightarrow> BaseState option \<Rightarrow>
     LocalSnapshot \<Rightarrow> bytes option \<Rightarrow> bytes \<Rightarrow> bool" where
  "upload_justified en cred names b s old new \<longleftrightarrow> (case old of
     None \<Rightarrow> b = None \<and> new = ls_ciphertext s
   | Some overwritten \<Rightarrow> \<exists>base seen r bd ld rd outcome.
       b = Some base \<and> names r seen \<and> names r overwritten \<and>
       open_document en (base_ciphertext base) cred = Inr bd \<and>
       open_document en (ls_ciphertext s) cred = Inr ld \<and> open_document en seen cred = Inr rd \<and>
       merge (se_kdbx en) bd ld rd = Inr outcome \<and>
       (outcome = FastForwardLocal \<and> new = ls_ciphertext s \<or>
        (\<exists>m nd. outcome = Merged m \<and> open_document en new cred = Inr nd \<and>
           verify_semantic_equivalence (se_kdbx en) m nd = Inr ())))"

lemma upload_justified_Some:
  assumes "names r seen" and "names r old" and "open_document en (base_ciphertext base) cred = Inr bd"
    and "open_document en (ls_ciphertext s) cred = Inr ld" and "open_document en seen cred = Inr rd"
    and "merge (se_kdbx en) bd ld rd = Inr outcome"
    and "outcome = FastForwardLocal \<and> new = ls_ciphertext s \<or>
      (\<exists>m nd. outcome = Merged m \<and> open_document en new cred = Inr nd \<and>
        verify_semantic_equivalence (se_kdbx en) m nd = Inr ())"
  shows "upload_justified en cred names (Some base) s (Some old) new"
  unfolding upload_justified_def option.case using assms by blast

lemma wpE_on_env:
  "wpE (on_env m) Q R w = wpE m (\<lambda>a v. Q a (w\<lparr>env := v\<rparr>)) (\<lambda>e v. R e (w\<lparr>env := v\<rparr>)) (env w)"
  by (simp add: wpE_def on_env_def split: prod.splits sum.splits)

lemma wpE_trivial [simp]: "wpE m (\<lambda>_ _. True) (\<lambda>_ _. True) = (\<lambda>_. True)"
  by (simp add: wpE_def fun_eq_iff split: prod.splits sum.splits)

lemma wpE_lock_pending [wp_simps]:
  "wpE lock_pending Q R w = (if poisoned w then R Internal w else Q () w)"
  by (simp add: wpE_def lock_pending_def)

lemma wpE_all: "(\<And>a t. Q a t) \<Longrightarrow> (\<And>e t. R e t) \<Longrightarrow> wpE m Q R w"
  by (simp add: wpE_def split: prod.splits sum.splits)

lemma wpE_then: "(\<And>a t. wpE (f a) Q R t) \<Longrightarrow> (\<And>e t. R e t) \<Longrightarrow> wpE (bindE m f) Q R w"
  unfolding wpE_bindE by (rule wpE_all)

lemma wpE_snd: "wpE m (\<lambda>_. P) (\<lambda>_. P) w = P (snd (m w))"
  by (simp add: wpE_def split: prod.splits sum.splits)

text \<open>Recovery that asks to continue has left the BASE alone and no journal behind.\<close>

lemma finish_recovery_True: "wpE (finish_recovery en cred s ct cmp m) (\<lambda>r _. r) (\<lambda>_ _. True) w"
  unfolding finish_recovery_def wpE_bindE
  by (rule wpE_all, rule wpE_all) (simp_all add: wp_simps split: sum.split)

lemma disk_env [simp]:
  "disk_is ext st b j (w\<lparr>env := v\<rparr>) = disk_is ext st b j w" "uuids_fresh n ext (w\<lparr>env := v\<rparr>) = uuids_fresh n ext w"
  "disk_is ext st b j (w\<lparr>pending := p\<rparr>) = disk_is ext st b j w"
  "uuids_fresh n ext (w\<lparr>pending := p\<rparr>) = uuids_fresh n ext w"
  "disk_is ext st b j (w\<lparr>faults := fs\<rparr>) = disk_is ext st b j w" "uuids_fresh n ext (w\<lparr>faults := fs\<rparr>) = uuids_fresh n ext w"
  by (simp_all add: disk_is_def uuids_fresh_def)

lemma recover_prepared_continue:
  assumes "store_ext_ok (se_ext en)" and "disk_is (se_ext en) (se_store en) b (Some lj) w"
    and "uuids_fresh n (se_ext en) w"
  shows "wpE (recover_prepared en s (lj_record lj) cmp) (\<lambda>r t. r = None \<longrightarrow>
      disk_is (se_ext en) (se_store en) b None t \<and> uuids_fresh n (se_ext en) t) (\<lambda>_ _. True) w"
proof -
  have "wpE (remove_journal (se_ext en) (se_store en) (lj_record lj))
      (\<lambda>_ t. disk_is (se_ext en) (se_store en) b None t \<and> uuids_fresh n (se_ext en) t) (\<lambda>_ _. True) w"
    by (rule wpE_remove_journal [OF assms(1,3,2)]) (simp_all add: same_operation_def store_post_def)
  then show ?thesis
    by (simp add: recover_prepared_def store_def wp_simps split: prod.split sum.split)
qed

lemma recover_continue:
  assumes "store_ext_ok (se_ext en)" and "disk_is (se_ext en) (se_store en) b j w"
    and "uuids_fresh n (se_ext en) w"
  shows "wpE (recover_loaded en cred s) (\<lambda>r t. \<not> r \<longrightarrow>
      disk_is (se_ext en) (se_store en) b None t \<and> uuids_fresh n (se_ext en) t) (\<lambda>_ _. True) w"
proof -
  let ?Q = "\<lambda>r t. \<not> r \<longrightarrow> disk_is (se_ext en) (se_store en) b None t \<and> uuids_fresh n (se_ext en) t"
  have read: "wpE (provider_read en) (\<lambda>_ t. disk_is (se_ext en) (se_store en) b j t \<and>
      uuids_fresh n (se_ext en) t) (\<lambda>_ _. True) (w\<lparr>faults := fs\<rparr>)" for fs
    using assms(2,3) by (simp add: provider_read_def wpE_on_env)
  have fin: "wpE (finish_recovery en cred s ct cmp m) ?Q (\<lambda>_ _. True) t" for ct cmp m t
    by (rule wpE_mono [OF finish_recovery_True]) simp_all
  have step: "wpE (recover_prepared en s (lj_record lj) cmp)
      (\<lambda>r. wpE (case r of None \<Rightarrow> returnE False
                | Some m \<Rightarrow> finish_recovery en cred s (lj_candidate lj) cmp m) ?Q (\<lambda>_ _. True))
      (\<lambda>_ _. True) t"
    if "j = Some lj" "disk_is (se_ext en) (se_store en) b j t" "uuids_fresh n (se_ext en) t" for lj cmp t
    by (rule wpE_mono [OF recover_prepared_continue [OF assms(1)]])
      (use that in \<open>auto simp: wp_simps fin split: option.split\<close>)
  have dj: "disk_journal (se_ext en) (se_store en) (lookup w) = Inr j"
    using assms(2) by (simp add: disk_is_def)
  show ?thesis
    unfolding recover_loaded_def store_def Let_def
    using assms(2,3) dj
    by (auto simp: wp_simps intro!: wpE_reads [OF reads_load_journal]
        wpE_mono [OF read] step split: option.split sum.split)
qed

subsection \<open>Histories\<close>

context sync_env
begin

definition calm :: "('v engine_world, 'e, 'a) op \<Rightarrow> bool" where
  "calm m \<longleftrightarrow> (\<forall>w. history (env (snd (m w))) = history (env w))"

definition grows :: "(bytes option \<times> bytes \<Rightarrow> bool) \<Rightarrow> ('v engine_world, 'e, 'a) op \<Rightarrow> bool" where
  "grows P m \<longleftrightarrow> (\<forall>w. extends_by (history (env w)) P (history (env (snd (m w)))))"

lemma calm_inside: "inside m \<Longrightarrow> calm m"
  by (simp add: inside_def calm_def)

lemma calm_bindE: "calm m \<Longrightarrow> (\<And>a. calm (f a)) \<Longrightarrow> calm (bindE m f)"
  unfolding calm_def bindE_def by (auto split: prod.splits sum.splits) (metis snd_conv)+

lemma calm_map_errE [simp]: "calm (map_errE g m) = calm m"
  by (auto simp: calm_def map_errE_def split: prod.splits sum.splits)
    (metis Inl_Inr_False fst_conv old.sum.exhaust prod.collapse snd_conv)+

lemma calm_tryE: "calm m \<Longrightarrow> calm (tryE m)"
  by (auto simp: calm_def tryE_def split: prod.splits) (metis snd_conv)

lemma calm_on_env:
  "(\<And>v. wpE m (\<lambda>_ v'. history v' = history v) (\<lambda>_ v'. history v' = history v) v) \<Longrightarrow> calm (on_env m)"
  by (auto simp: calm_def on_env_def wpE_snd split: prod.splits) (metis snd_conv)

lemma calm_simple [simp]: "calm (returnE a)" "calm (throwE e)" "calm (liftE r)"
  by (simp_all add: calm_inside)

lemma calm_store [simp]: "inside m \<Longrightarrow> calm (store m)"
  by (simp add: calm_inside)

lemma calm_install [simp]: "calm (install en s bs r b initial cs)"
  by (simp add: calm_inside)

lemma usesD: "uses en \<Longrightarrow> se_provider en = prov" "uses en \<Longrightarrow> se_local en = loc"
    "uses en \<Longrightarrow> CiphertextDigest_of (se_ext en) = digest"
  by (simp_all add: uses_def)

lemma calm_collaborators:
  assumes "uses en"
  shows "calm (capture en)" and "calm (provider_read en)"
    and "calm (on_env (replace_if_unchanged (se_local en) s ct cred))"
  unfolding capture_def provider_read_def usesD [OF assms] calm_map_errE
  by (auto intro!: calm_on_env wpE_mono [OF capture_law] wpE_mono [OF read_law] wpE_mono [OF local_law])

lemma calm_recover_loaded: "uses en \<Longrightarrow> calm (recover_loaded en cred s)"
  unfolding recover_loaded_def recover_prepared_def finish_recovery_def recover_local_def Let_def
  by (auto intro!: calm_bindE calm_collaborators split: option.split prod.split)

lemma calm_require_local_unchanged: "uses en \<Longrightarrow> calm (require_local_unchanged en s)"
  unfolding require_local_unchanged_def by (auto intro!: calm_bindE calm_collaborators)

lemma grows_calm: "calm m \<Longrightarrow> grows P m"
  by (simp add: calm_def grows_def)

lemma grows_mono: "grows P m \<Longrightarrow> (\<And>x. P x \<Longrightarrow> P' x) \<Longrightarrow> grows P' m"
  unfolding grows_def by (blast intro: extends_by_mono)

lemma grows_bindE_calm: "grows P m \<Longrightarrow> (\<And>a. calm (f a)) \<Longrightarrow> grows P (bindE m f)"
  unfolding grows_def calm_def bindE_def by (auto split: prod.splits sum.splits) (metis snd_conv)+

lemma calm_bindE_grows: "calm m \<Longrightarrow> (\<And>a. grows P (f a)) \<Longrightarrow> grows P (bindE m f)"
  unfolding grows_def calm_def bindE_def by (auto split: prod.splits sum.splits) (metis snd_conv extends_by_refl)+

lemma grows_on_env:
  "(\<And>v. wpE m (\<lambda>_ v'. extends_by (history v) P (history v')) (\<lambda>_ v'. extends_by (history v) P (history v')) v) \<Longrightarrow>
   grows P (tryE (on_env m))"
  by (auto simp: grows_def on_env_def tryE_def wpE_snd split: prod.splits) (metis snd_conv)

text \<open>What a commit may write: nothing, the candidate where there was no object, or the candidate
  over an object that the expected revision names.\<close>

definition commit_writes :: "CommitPlan \<Rightarrow> bytes \<Rightarrow> bytes option \<times> bytes \<Rightarrow> bool" where
  "commit_writes plan ct x \<longleftrightarrow> (case plan_remote_action plan of
     CreateObject \<Rightarrow> x = (None, ct)
   | ReplaceObject \<Rightarrow> (\<exists>r old. plan_expected_remote plan = Some r \<and> x = (Some old, ct) \<and> names r old)
   | AlreadyCommitted _ \<Rightarrow> False)"

lemma grows_commit_remote:
  assumes "uses en"
  shows "grows (commit_writes plan ct) (commit_remote en (plan_remote_action plan) (plan_expected_remote plan) ct)"
proof (cases "plan_remote_action plan")
  case CreateObject
  then show ?thesis
    by (auto simp: commit_remote_def usesD [OF assms] commit_writes_def intro!: grows_on_env
        wpE_mono [OF create_law] elim!: extends_by_mono)
next
  case ReplaceObject
  show ?thesis
  proof (cases "plan_expected_remote plan")
    case None
    then show ?thesis using ReplaceObject
      by (simp add: commit_remote_def grows_def bindE_def liftE_def)
  next
    case (Some r)
    have "grows (commit_writes plan ct) (tryE (on_env (p_replace_if_revision (se_provider en) r ct)))"
      using ReplaceObject Some
      by (auto simp: usesD [OF assms] commit_writes_def intro!: grows_on_env wpE_mono [OF replace_law]
          elim!: extends_by_mono)
    then show ?thesis using ReplaceObject Some
      by (simp add: commit_remote_def bindE_def liftE_def)
  qed
next
  case (AlreadyCommitted bs)
  then show ?thesis by (auto simp: commit_remote_def intro!: grows_calm calm_inside inside_intros)
qed

lemma grows_commit_candidate_bytes:
  assumes "uses en"
  shows "grows (commit_writes plan ct) (commit_candidate_bytes en cred ct plan)"
proof -
  note calm = calm_bindE calm_recover_loaded [OF assms] calm_collaborators [OF assms]
    calm_require_local_unchanged [OF assms]
  show ?thesis
    unfolding commit_candidate_bytes_def commit_local_def
    by (intro calm_bindE_grows grows_bindE_calm grows_commit_remote [OF assms])
      (auto intro!: calm split: sum.split ProviderError.split)
qed

lemma grows_commit_candidate:
  assumes "uses en" and "plan_remote_action plan \<in> {CreateObject, ReplaceObject}"
  shows "grows (commit_writes plan (ls_ciphertext (plan_local_snapshot plan))) (commit_candidate en cred plan)"
  using assms grows_commit_candidate_bytes [OF assms(1)] unfolding commit_candidate_def Let_def
  by (auto intro!: calm_bindE_grows)

lemma calm_commit_candidate_remote:
  assumes "uses en" and "plan_remote_action plan = AlreadyCommitted bs"
  shows "calm (commit_candidate en cred plan)"
proof -
  have "grows (commit_writes plan bs) (commit_candidate_bytes en cred bs plan)"
    by (rule grows_commit_candidate_bytes [OF assms(1)])
  then have "calm (commit_candidate_bytes en cred bs plan)"
    using assms(2) by (simp add: grows_def calm_def extends_by_def commit_writes_def)
  with assms(2) show ?thesis unfolding commit_candidate_def Let_def by (auto intro!: calm_bindE)
qed

lemma grows_wpE: "grows P m \<Longrightarrow> wpE m (\<lambda>_ t. extends_by (history (env w)) P (history (env t)))
    (\<lambda>_ t. extends_by (history (env w)) P (history (env t))) w"
  by (simp add: wpE_snd grows_def)

lemma calm_wpE: "calm m \<Longrightarrow> wpE m (\<lambda>_ t. history (env t) = history (env w))
    (\<lambda>_ t. history (env t) = history (env w)) w"
  by (simp add: wpE_snd calm_def)

lemma serialize_verified_spec:
  "wpE (serialize_verified en doc cred) (\<lambda>bs t. env t = env w \<and> (\<exists>nd. open_document en bs cred = Inr nd \<and>
      verify_semantic_equivalence (se_kdbx en) doc nd = Inr ())) (\<lambda>_ t. env t = env w) w"
  unfolding serialize_verified_def by (auto simp: wp_simps map_err_def split: sum.splits)

text \<open>The merge step writes at most one generation, and a justified one.\<close>

lemma apply_outcome_history:
  assumes "uses en" and "\<And>r old. r = rr \<Longrightarrow> names r old \<Longrightarrow> outcome = FastForwardLocal \<Longrightarrow> P (Some old, ls_ciphertext s)"
    and "\<And>r old m ct nd. r = rr \<Longrightarrow> names r old \<Longrightarrow> outcome = Merged m \<Longrightarrow> open_document en ct cred = Inr nd \<Longrightarrow>
      verify_semantic_equivalence (se_kdbx en) m nd = Inr () \<Longrightarrow> P (Some old, ct)"
  shows "grows P (apply_outcome en cred s base rb rr outcome)"
proof (cases outcome)
  case Equivalent
  then show ?thesis unfolding apply_outcome_def
    by (auto intro!: grows_calm calm_bindE calm_require_local_unchanged [OF assms(1)])
next
  case FastForwardLocal
  let ?plan = "\<lparr>plan_local_snapshot = s, plan_expected_remote = Some rr, plan_remote_action = ReplaceObject,
    plan_completion = UploadedLocal\<rparr>"
  from FastForwardLocal show ?thesis
    unfolding apply_outcome_def
    by (auto simp: commit_writes_def assms(2)
        intro!: grows_mono [OF grows_commit_candidate [OF assms(1), of ?plan]])
next
  case FastForwardRemote
  then show ?thesis unfolding apply_outcome_def
    by (auto intro!: grows_calm calm_commit_candidate_remote [OF assms(1)])
next
  case (Merged m)
  have "wpE (apply_outcome en cred s base rb rr outcome) (\<lambda>_ t. extends_by (history (env w)) P (history (env t)))
      (\<lambda>_ t. extends_by (history (env w)) P (history (env t))) w" for w
    unfolding Merged apply_outcome_def MergeOutcome.case wpE_bindE
  proof (rule wpE_mono [OF serialize_verified_spec])
    fix ct and t :: "'v engine_world" assume ct: "env t = env w \<and> (\<exists>nd. open_document en ct cred = Inr nd \<and>
      verify_semantic_equivalence (se_kdbx en) m nd = Inr ())"
    show "wpE (commit_candidate_bytes en cred ct \<lparr>plan_local_snapshot = s, plan_expected_remote = Some rr,
        plan_remote_action = ReplaceObject, plan_completion = MergedGenerations\<rparr>)
      (\<lambda>_ t. extends_by (history (env w)) P (history (env t)))
      (\<lambda>_ t. extends_by (history (env w)) P (history (env t))) t"
      by (rule wpE_mono [OF grows_wpE [OF grows_commit_candidate_bytes [OF assms(1)]]])
        (use ct Merged assms(3) in \<open>auto simp: commit_writes_def elim!: extends_by_mono\<close>)
  qed simp
  then show ?thesis by (simp add: wpE_snd grows_def)
next
  case (Conflicted cs)
  then show ?thesis unfolding apply_outcome_def
    by (auto intro!: grows_calm calm_bindE)
qed

lemma merge_existing_history:
  assumes "uses en" and "names (revision obj) (ciphertext obj)"
  shows "grows (\<lambda>(old, new). upload_justified en cred names (Some base) s old new)
    (merge_existing en cred s base obj)" (is "grows ?P _")
proof -
  have "grows ?P (apply_outcome en cred s base (ciphertext obj) (revision obj) outcome)"
    if "open_document en (base_ciphertext base) cred = Inr bd" "open_document en (ls_ciphertext s) cred = Inr ld"
      "open_document en (ciphertext obj) cred = Inr rd" "merge (se_kdbx en) bd ld rd = Inr outcome"
    for bd ld rd outcome
    by (rule apply_outcome_history [OF assms(1)])
      (use that assms(2) in \<open>auto intro: upload_justified_Some [of names "revision obj"]\<close>)
  then show ?thesis
    unfolding merge_existing_def into_parts_def Let_def prod.case
    by (auto simp: grows_def bindE_def liftE_def map_err_def split: sum.splits)
qed

lemma establish_calm: "uses en \<Longrightarrow> calm (establish en cred s obj)"
  unfolding establish_def into_parts_def Let_def prod.case
  by (auto intro!: calm_bindE calm_require_local_unchanged)

text \<open>Whatever \<open>sync\<close> returns, it made at most one remote change, and a justified one.\<close>

lemma sync_history:
  assumes en: "uses en" "store_ext_ok (se_ext en)"
    and w: "disk_is (se_ext en) (se_store en) b j w" "uuids_fresh n (se_ext en) w"
  shows "extends_by (history (env w)) (\<lambda>(old, new). \<exists>s v. capture_clean loc (env w) = (Inr s, v) \<and>
      upload_justified en cred names b s old new) (history (env (snd (sync en cred w))))"
    (is "extends_by _ ?P _")
proof -
  define P where "P = ?P"
  let ?G = "\<lambda>t. extends_by (history (env w)) P (history (env t))"
  have final: "wpE m (\<lambda>_. ?G) (\<lambda>_. ?G) t"
    if "grows (\<lambda>(old, new). upload_justified en cred names b s old new) m"
      "capture_clean loc (env w) = (Inr s, v)" "history (env t) = history (env w)"
    for m :: "('v, SyncOutcome) engine_op" and s v t
    by (rule wpE_mono [OF grows_wpE [OF grows_mono [OF that(1)], of P]])
      (use that in \<open>auto simp: P_def\<close>)
  have decide: "wpE (sync_decide en cred s b remote) (\<lambda>_. ?G) (\<lambda>_. ?G) t"
    if "capture_clean loc (env w) = (Inr s, v)" "history (env t) = history (env w)"
      "\<And>obj. remote = Present obj \<Longrightarrow> names (revision obj) (ciphertext obj)" for s v t remote
  proof (rule final [OF _ that(1,2)])
    let ?plan = "\<lparr>plan_local_snapshot = s, plan_expected_remote = None,
      plan_remote_action = CreateObject, plan_completion = CreatedRemote\<rparr>"
    have "grows (\<lambda>(old, new). upload_justified en cred names None s old new) (commit_candidate en cred ?plan)"
      by (rule grows_mono [OF grows_commit_candidate [OF en(1)]])
        (auto simp: commit_writes_def upload_justified_def)
    then show "grows (\<lambda>(old, new). upload_justified en cred names b s old new) (sync_decide en cred s b remote)"
      using that(3) merge_existing_history [OF en(1)] establish_calm [OF en(1)]
      by (auto simp: sync_decide_def split: option.split RemoteRead.split intro!: grows_calm)
  qed
  have read: "wpE (p_read (se_provider en)) (\<lambda>r v'. history v' = history v \<and>
      (\<forall>obj. r = Present obj \<longrightarrow> names (revision obj) (ciphertext obj))) (\<lambda>_ v'. history v' = history v) v" for v
    unfolding usesD [OF en(1)] by (rule wpE_mono [OF read_law]) auto
  have tail: "wpE (store (load_base (se_ext en) (se_store en)))
      (\<lambda>base. wpE (provider_read en) (\<lambda>remote.
        wpE (sync_decide en cred s base remote) (\<lambda>_. ?G) (\<lambda>_. ?G)) (\<lambda>_. ?G)) (\<lambda>_. ?G) t"
    if t: "capture_clean loc (env w) = (Inr s, v)" "history (env t) = history (env w)"
      "disk_is (se_ext en) (se_store en) b None t" for s v t
  proof -
    have "disk_base (se_ext en) (se_store en) (lookup t) = Inr b" using t(3) by (simp add: disk_is_def)
    then show ?thesis
      unfolding store_def provider_read_def wpE_map_errE using t(2)
      by (auto simp: wpE_on_env intro!: wpE_reads [OF reads_load_base] wpE_mono [OF read]
          decide [OF t(1)])
  qed
  have rec: "wpE (recover_loaded en cred s)
      (\<lambda>r. wpE (if r then returnE (Done Recovered) else
         bindE (store (load_base (se_ext en) (se_store en))) (\<lambda>base.
         bindE (map_errE from_provider_error (provider_read en)) (\<lambda>remote.
         sync_decide en cred s base remote))) (\<lambda>_. ?G) (\<lambda>_. ?G)) (\<lambda>_. ?G) t"
    if t: "capture_clean loc (env w) = (Inr s, v)" "history (env t) = history (env w)"
      "disk_is (se_ext en) (se_store en) b j t" "uuids_fresh n (se_ext en) t" for s v t
    by (rule wpE_mono [OF wpE_conj [OF calm_wpE [OF calm_recover_loaded [OF en(1)]]
            recover_continue [OF en(2) t(3,4)]]])
      (use t(2) in \<open>auto simp: wp_simps intro!: tail [OF t(1)]\<close>)
  have cap: "wpE (capture en) (\<lambda>s. wpE (recover_loaded en cred s)
      (\<lambda>r. wpE (if r then returnE (Done Recovered) else
         bindE (store (load_base (se_ext en) (se_store en))) (\<lambda>base.
         bindE (map_errE from_provider_error (provider_read en)) (\<lambda>remote.
         sync_decide en cred s base remote))) (\<lambda>_. ?G) (\<lambda>_. ?G)) (\<lambda>_. ?G)) (\<lambda>_. ?G) (w\<lparr>pending := p\<rparr>)" for p
    using capture_law [of "env w"] w
    by (auto simp: capture_def wp_simps wpE_on_env usesD [OF en(1)] wpE_def [of "capture_clean loc"]
        intro!: rec split: prod.splits sum.splits)
  have "wpE (sync en cred) (\<lambda>_. ?G) (\<lambda>_. ?G) w"
    unfolding sync_def invalidate_pending_conflict_def using cap by (auto simp: wp_simps)
  then show ?thesis by (simp add: wpE_snd P_def)
qed

text \<open>A resolution uploads at most one generation: the local one of the pending conflict, over a
  remote generation with the revision that the conflict was about.\<close>

definition resolution_writes :: "PendingConflict \<Rightarrow> ConflictChoice \<Rightarrow> bytes option \<times> bytes \<Rightarrow> bool" where
  "resolution_writes pc choice x \<longleftrightarrow> choice = KeepLocal \<and>
     (\<exists>old. x = (Some old, ls_ciphertext (pc_local pc)) \<and> names (pc_remote_revision pc) old)"

lemma grows_resolve_commit:
  assumes "uses en"
  shows "grows (resolution_writes pc KeepLocal) (commit_candidate en cred \<lparr>plan_local_snapshot = pc_local pc,
      plan_expected_remote = Some (pc_remote_revision pc), plan_remote_action = ReplaceObject,
      plan_completion = UploadedLocal\<rparr>)"
    and "grows P (commit_candidate en cred \<lparr>plan_local_snapshot = pc_local pc,
      plan_expected_remote = Some (pc_remote_revision pc), plan_remote_action = AlreadyCommitted (pc_remote_bytes pc),
      plan_completion = AppliedRemote\<rparr>)"
proof -
  let ?plan = "\<lparr>plan_local_snapshot = pc_local pc, plan_expected_remote = Some (pc_remote_revision pc),
    plan_remote_action = ReplaceObject, plan_completion = UploadedLocal\<rparr>"
  show "grows (resolution_writes pc KeepLocal) (commit_candidate en cred ?plan)"
    by (rule grows_mono [OF grows_commit_candidate [OF assms, of ?plan]])
      (auto simp: commit_writes_def resolution_writes_def)
qed (auto intro!: grows_calm calm_commit_candidate_remote [OF assms])

lemma grows_resolve_pending:
  assumes "uses en"
  shows "grows (resolution_writes pc choice) (resolve_pending en choice cred pc)"
proof -
  note calm = calm_collaborators [OF assms] calm_require_local_unchanged [OF assms]
  show ?thesis
    unfolding resolve_pending_def
    using grows_resolve_commit [OF assms]
    by (auto intro!: calm_bindE_grows calm simp: calm_inside grows_calm split: RemoteRead.split ConflictChoice.split)
qed

lemma resolve_history:
  assumes "uses en"
  shows "extends_by (history (env w)) (\<lambda>x. \<exists>pc. pending w = Some pc \<and> co_id (pc_operation pc) = i \<and>
      resolution_writes pc choice x) (history (env (snd (resolve en i choice cred w))))" (is "extends_by _ ?P _")
proof -
  define P where "P = ?P"
  let ?G = "\<lambda>t. extends_by (history (env w)) P (history (env t))"
  have commit: "wpE (resolve_pending en choice cred pc) (\<lambda>_. ?G) (\<lambda>_. ?G) t"
    if "pending w = Some pc" "co_id (pc_operation pc) = i" "history (env t) = history (env w)" for pc t
  proof -
    have "grows P (resolve_pending en choice cred pc)"
      by (rule grows_mono [OF grows_resolve_pending [OF assms]]) (use that in \<open>auto simp: P_def\<close>)
    from grows_wpE [OF this, of t] show ?thesis using that(3) by simp
  qed
  have take: "wpE (take_pending i) (\<lambda>pc. wpE (resolve_pending en choice cred pc) (\<lambda>_. ?G) (\<lambda>_. ?G)) (\<lambda>_. ?G) t"
    if "pending t = pending w" "history (env t) = history (env w)" for t
    using that by (auto simp: take_pending_def wp_simps intro!: commit split: option.split)
  have "wpE (resolve en i choice cred) (\<lambda>_. ?G) (\<lambda>_. ?G) w"
    unfolding resolve_def capture_def
    by (auto simp: wp_simps wpE_on_env usesD [OF assms] take intro!: wpE_mono [OF capture_law] split: sum.split)
  then show ?thesis by (simp add: wpE_snd P_def)
qed

end

end
