(* ===== verification/Gateway_Storage.thy ===== *)
theory Gateway_Storage
  imports Store_Io Provider_Core
begin

section \<open>Object storage of the sync gateway\<close>

text \<open>
  Models \<open>src/apps/sync-gateway/src/storage.rs\<close>. One directory holds the objects, one file per
  vault, and a subdirectory the uploads that are still being received. An upload is written
  completely before the per-vault lock is taken; under the lock the precondition is compared
  with the object on disk and the upload is renamed over it.

  The directories are association lists as in \<open>Store_Io\<close>, and system calls fail along a script
  in the same way. The lock of one vault serializes \<open>install_upload\<close> and \<open>read_object\<close> on it, so
  these run as single steps; \<open>Gateway_Steps\<close> interleaves the steps of concurrent requests.
\<close>

datatype StorageError = Io | UnsafeFile | AlreadyRunning | PreconditionFailed | TooLarge

record StoredObject =
  so_bytes :: bytes
  so_revision :: string

datatype WriteCondition = Create | Replace string

record PreparedUpload =
  pu_path :: string
  pu_revision :: string

record codec_ext = core_ext +
  hyphenated :: "uuid \<Rightarrow> string"
  parse_uuid :: "string \<Rightarrow> uuid option"
  uuid_is_v4 :: "uuid \<Rightarrow> bool"

record storage =
  g_root :: "(string \<times> node) list"
  g_temporary :: "(string \<times> node) list"
  g_locked :: bool
  g_faults :: "bool list"
  g_uuids :: "nat \<Rightarrow> uuid"
  g_uuid_index :: nat

definition g_point :: "('a storage_scheme, StorageError, unit) op" where
  "g_point = (\<lambda>w. case g_faults w of
     [] \<Rightarrow> (Inr (), w)
   | f # fs \<Rightarrow> (if f then Inl StorageError.Io else Inr (), w\<lparr>g_faults := fs\<rparr>))"

text \<open>The strong entity tag: the quoted lower-case SHA-256 of the object.\<close>

definition revision_of :: "'x core_ext_scheme \<Rightarrow> bytes \<Rightarrow> string" where
  "revision_of ext bs = [CHR 0x22] @ hex_encode (sha256 ext bs) @ [CHR 0x22]"

definition object_path :: "'x codec_ext_scheme \<Rightarrow> uuid \<Rightarrow> string" where
  "object_path ext vault_id = hyphenated ext vault_id @ ''.kdbx''"

definition read_object ::
    "'x codec_ext_scheme \<Rightarrow> string \<Rightarrow> ('a storage_scheme, StorageError, StoredObject option) op" where
  "read_object ext path =
     bindE g_point (\<lambda>_.
     bindE (getsE (\<lambda>w. map_of (g_root w) path)) (\<lambda>n. case n of
       None \<Rightarrow> returnE None
     | Some (Regular bs) \<Rightarrow>
         if length bs > MAX_REMOTE_CIPHERTEXT_BYTES then throwE TooLarge
         else
           bindE g_point (\<lambda>_.  \<comment> \<open>open\<close>
           bindE g_point (\<lambda>_.  \<comment> \<open>read_to_end\<close>
           returnE (Some \<lparr>so_bytes = bs, so_revision = revision_of ext bs\<rparr>)))
     | Some _ \<Rightarrow> throwE UnsafeFile))"

definition upload_path :: "'x codec_ext_scheme \<Rightarrow> 'a storage_scheme \<Rightarrow> string" where
  "upload_path ext w = ''upload-'' @ hyphenated ext (g_uuids w (g_uuid_index w)) @ ''.tmp''"

text \<open>\<open>private_create_new\<close> opens with \<open>O_EXCL\<close>; a failure after it leaves the partial file, which
  the destructor of the prepared upload never sees.\<close>

definition prepare_upload ::
    "'x codec_ext_scheme \<Rightarrow> bytes \<Rightarrow> ('a storage_scheme, StorageError, PreparedUpload) op" where
  "prepare_upload ext bs =
     bindE (getsE (upload_path ext)) (\<lambda>path.
     bindE (modifyE (\<lambda>w. w\<lparr>g_uuid_index := Suc (g_uuid_index w)\<rparr>)) (\<lambda>_.
     bindE g_point (\<lambda>_.
     bindE (getsE (\<lambda>w. map_of (g_temporary w) path)) (\<lambda>n.
     if n \<noteq> None then throwE StorageError.Io
     else
       bindE (modifyE (\<lambda>w. w\<lparr>g_temporary := AList.update path (Regular []) (g_temporary w)\<rparr>)) (\<lambda>_.
       bindE g_point (\<lambda>_.  \<comment> \<open>write_all\<close>
       bindE (modifyE (\<lambda>w. w\<lparr>g_temporary := AList.update path (Regular bs) (g_temporary w)\<rparr>)) (\<lambda>_.
       bindE g_point (\<lambda>_.  \<comment> \<open>flush\<close>
       bindE g_point (\<lambda>_.  \<comment> \<open>sync_all\<close>
       returnE \<lparr>pu_path = path, pu_revision = revision_of ext bs\<rparr>)))))))))"

definition sync_root :: "('a storage_scheme, StorageError, unit) op" where
  "sync_root = bindE g_point (\<lambda>_. g_point)"

definition drop_upload :: "PreparedUpload \<Rightarrow> 'a storage_scheme \<Rightarrow> 'a storage_scheme" where
  "drop_upload prepared w = (case g_faults w of
     [] \<Rightarrow> w\<lparr>g_temporary := AList.delete (pu_path prepared) (g_temporary w)\<rparr>
   | f # fs \<Rightarrow> if f then w\<lparr>g_faults := fs\<rparr>
       else w\<lparr>g_temporary := AList.delete (pu_path prepared) (g_temporary w), g_faults := fs\<rparr>)"

definition rename_upload :: "PreparedUpload \<Rightarrow> string \<Rightarrow> ('a storage_scheme, StorageError, unit) op" where
  "rename_upload prepared path =
     bindE g_point (\<lambda>_.
     bindE (getsE (\<lambda>w. map_of (g_temporary w) (pu_path prepared))) (\<lambda>n. case n of
       None \<Rightarrow> throwE StorageError.Io
     | Some nd \<Rightarrow> modifyE (\<lambda>w. w\<lparr>g_root := AList.update path nd (g_root w),
                                  g_temporary := AList.delete (pu_path prepared) (g_temporary w)\<rparr>)))"

definition install_checked ::
    "'x codec_ext_scheme \<Rightarrow> PreparedUpload \<Rightarrow> string \<Rightarrow> WriteCondition \<Rightarrow> ('a storage_scheme, StorageError, string) op" where
  "install_checked ext prepared path condition =
     bindE (read_object ext path) (\<lambda>current.
     if (case (condition, current) of
           (Create, None) \<Rightarrow> True
         | (Create, Some _) \<Rightarrow> False
         | (Replace _, None) \<Rightarrow> False
         | (Replace expected, Some current) \<Rightarrow> expected = so_revision current)
     then
       bindE (rename_upload prepared path) (\<lambda>_.
       bindE sync_root (\<lambda>_.
       returnE (pu_revision prepared)))
     else throwE PreconditionFailed)"

text \<open>The prepared upload is dropped on every exit.\<close>

definition install_upload ::
    "'x codec_ext_scheme \<Rightarrow> PreparedUpload \<Rightarrow> string \<Rightarrow> WriteCondition \<Rightarrow> ('a storage_scheme, StorageError, string) op" where
  "install_upload ext prepared path condition =
     (\<lambda>w. case install_checked ext prepared path condition w of (r, t) \<Rightarrow> (r, drop_upload prepared t))"

definition storage_read ::
    "'x codec_ext_scheme \<Rightarrow> uuid \<Rightarrow> ('a storage_scheme, StorageError, StoredObject option) op" where
  "storage_read ext vault_id = read_object ext (object_path ext vault_id)"

definition storage_write ::
    "'x codec_ext_scheme \<Rightarrow> uuid \<Rightarrow> WriteCondition \<Rightarrow> bytes \<Rightarrow> ('a storage_scheme, StorageError, string) op" where
  "storage_write ext vault_id condition bs =
     (if length bs > MAX_REMOTE_CIPHERTEXT_BYTES then throwE TooLarge
      else
        bindE (prepare_upload ext bs) (\<lambda>prepared.
        install_upload ext prepared (object_path ext vault_id) condition))"

subsection \<open>Start-up\<close>

fun cleanup_entries :: "(string \<times> node) list \<Rightarrow> ('a storage_scheme, StorageError, unit) op" where
  "cleanup_entries [] = returnE ()"
| "cleanup_entries ((name, nd) # rest) =
     bindE g_point (\<lambda>_.  \<comment> \<open>entry\<close>
     bindE g_point (\<lambda>_.  \<comment> \<open>symlink_metadata\<close>
     if \<not> starts_with name ''upload-'' \<or> \<not> ends_with name ''.tmp'' \<or> \<not> is_regular nd
     then throwE UnsafeFile
     else
       bindE g_point (\<lambda>_.
       bindE (modifyE (\<lambda>w. w\<lparr>g_temporary := AList.delete name (g_temporary w)\<rparr>)) (\<lambda>_.
       cleanup_entries rest))))"

definition cleanup_temporary :: "('a storage_scheme, StorageError, unit) op" where
  "cleanup_temporary =
     bindE g_point (\<lambda>_.
     bindE (getsE g_temporary) (\<lambda>listing.
     bindE (cleanup_entries listing) (\<lambda>_. sync_root)))"

definition Storage_open :: "('a storage_scheme, StorageError, unit) op" where
  "Storage_open =
     bindE g_point (\<lambda>_.  \<comment> \<open>create and check the data directory\<close>
     bindE (getsE (\<lambda>w. map_of (g_root w) ''.gateway.lock'')) (\<lambda>n.
     if \<not> pred_option is_regular n then throwE UnsafeFile
     else
       bindE g_point (\<lambda>_.
       bindE (modifyE (\<lambda>w. if n = None
           then w\<lparr>g_root := AList.update ''.gateway.lock'' (Regular []) (g_root w)\<rparr> else w)) (\<lambda>_.
       bindE (getsE g_locked) (\<lambda>locked.
       if locked then throwE AlreadyRunning
       else
         bindE g_point (\<lambda>_.
         bindE (modifyE (\<lambda>w. w\<lparr>g_locked := True\<rparr>)) (\<lambda>_.
         bindE g_point (\<lambda>_.  \<comment> \<open>create and check the upload directory\<close>
         cleanup_temporary))))))))"

subsection \<open>Rules\<close>

lemma g_faults_same: "g_faults w = fs \<Longrightarrow> w\<lparr>g_faults := fs\<rparr> = w"
  by auto

lemma wpE_g_point:
  assumes "\<And>fs. Q () (w\<lparr>g_faults := fs\<rparr>)" and "\<And>fs. R StorageError.Io (w\<lparr>g_faults := fs\<rparr>)"
  shows "wpE g_point Q R w"
proof (cases "g_faults w")
  case Nil
  then show ?thesis using assms(1) [of "[]"] by (simp add: wpE_def g_point_def g_faults_same)
next
  case (Cons f fs)
  then show ?thesis using assms by (simp add: wpE_def g_point_def)
qed

lemma g_faults_outermost [simp]:
  "g_root_update g (g_faults_update f w) = g_faults_update f (g_root_update g w)"
  "g_temporary_update g (g_faults_update f w) = g_faults_update f (g_temporary_update g w)"
  "g_uuid_index_update h (g_faults_update f w) = g_faults_update f (g_uuid_index_update h w)"
  by simp_all

lemma wpE_g_point_ok [fs_simps]: "g_faults w = [] \<Longrightarrow> wpE g_point Q R w = Q () w"
  by (simp add: wpE_def g_point_def)

text \<open>The object of a vault, as the storage would serve it.\<close>

definition object_at :: "'x codec_ext_scheme \<Rightarrow> 'a storage_scheme \<Rightarrow> uuid \<Rightarrow> bytes option" where
  "object_at ext w vault_id = (case map_of (g_root w) (object_path ext vault_id) of
     Some (Regular bs) \<Rightarrow> Some bs | _ \<Rightarrow> None)"

definition satisfies :: "'x core_ext_scheme \<Rightarrow> WriteCondition \<Rightarrow> bytes option \<Rightarrow> bool" where
  "satisfies ext condition current = (case condition of
     Create \<Rightarrow> current = None
   | Replace expected \<Rightarrow> (\<exists>bs. current = Some bs \<and> expected = revision_of ext bs))"

lemma satisfies_simps [simp]:
  "satisfies ext Create None" "\<not> satisfies ext Create (Some bs)" "\<not> satisfies ext (Replace e) None"
  "satisfies ext (Replace e) (Some bs) \<longleftrightarrow> e = revision_of ext bs"
  by (simp_all add: satisfies_def)

lemma wpE_read_object:
  assumes "\<And>fs. map_of (g_root w) path = None \<Longrightarrow> Q None (w\<lparr>g_faults := fs\<rparr>)"
    and "\<And>fs bs. map_of (g_root w) path = Some (Regular bs) \<Longrightarrow> length bs \<le> MAX_REMOTE_CIPHERTEXT_BYTES \<Longrightarrow>
      Q (Some \<lparr>so_bytes = bs, so_revision = revision_of ext bs\<rparr>) (w\<lparr>g_faults := fs\<rparr>)"
    and "\<And>fs e. e \<noteq> PreconditionFailed \<Longrightarrow> R e (w\<lparr>g_faults := fs\<rparr>)"
  shows "wpE (read_object ext path) Q R w"
  unfolding read_object_def
  by (auto simp: wp_simps assms split: option.splits node.splits intro!: wpE_g_point)

lemma wpE_read_object_ok [fs_simps]:
  "g_faults w = [] \<Longrightarrow> wpE (read_object ext path) Q R w = (case map_of (g_root w) path of
     None \<Rightarrow> Q None w
   | Some (Regular bs) \<Rightarrow> if length bs > MAX_REMOTE_CIPHERTEXT_BYTES then R TooLarge w
       else Q (Some \<lparr>so_bytes = bs, so_revision = revision_of ext bs\<rparr>) w
   | Some _ \<Rightarrow> R UnsafeFile w)"
  by (auto simp: read_object_def wp_simps fs_simps split: option.splits node.splits)

definition storage_keeps :: "'a storage_scheme \<Rightarrow> 'a storage_scheme \<Rightarrow> bool" where
  "storage_keeps w t \<longleftrightarrow> g_root t = g_root w \<and> storage.more t = storage.more w \<and> g_locked t = g_locked w"

definition storage_wrote :: "'a storage_scheme \<Rightarrow> string \<Rightarrow> bytes \<Rightarrow> 'a storage_scheme \<Rightarrow> bool" where
  "storage_wrote w path bs t \<longleftrightarrow>
     g_root t = AList.update path (Regular bs) (g_root w) \<and> storage.more t = storage.more w \<and>
     g_locked t = g_locked w"

lemma wpE_prepare_upload:
  assumes "\<And>p t. storage_keeps w t \<Longrightarrow> pu_revision p = revision_of ext bs \<Longrightarrow>
      map_of (g_temporary t) (pu_path p) = Some (Regular bs) \<Longrightarrow> Q p t"
    and "\<And>t. storage_keeps w t \<Longrightarrow> R StorageError.Io t"
  shows "wpE (prepare_upload ext bs) Q R w"
  unfolding prepare_upload_def
  by (auto simp: wp_simps storage_keeps_def update_conv' intro!: wpE_g_point assms)

lemma drop_upload_keeps [simp]:
  "g_root (drop_upload p t) = g_root t" "storage.more (drop_upload p t) = storage.more t"
  "g_locked (drop_upload p t) = g_locked t"
  by (auto simp: drop_upload_def split: list.splits)

lemma wpE_install_checked:
  assumes up: "pu_revision p = revision_of ext bs" "map_of (g_temporary w) (pu_path p) = Some (Regular bs)"
    and Q: "\<And>t. satisfies ext condition (object_at ext w vault_id) \<Longrightarrow>
      storage_wrote w (object_path ext vault_id) bs t \<Longrightarrow> Q (revision_of ext bs) t"
    and R: "\<And>e t. storage_keeps w t \<Longrightarrow> R e t"
    and R': "\<And>t. satisfies ext condition (object_at ext w vault_id) \<Longrightarrow>
      storage_wrote w (object_path ext vault_id) bs t \<Longrightarrow> R StorageError.Io t"
  shows "wpE (install_checked ext p (object_path ext vault_id) condition) Q R w"
proof -
  have keep: "R e (w\<lparr>g_faults := fs\<rparr>)" for e fs by (rule R) (simp add: storage_keeps_def)
  let ?t = "\<lambda>fs. w\<lparr>g_root := AList.update (object_path ext vault_id) (Regular bs) (g_root w),
    g_temporary := AList.delete (pu_path p) (g_temporary w), g_faults := fs\<rparr>"
  have wrote: "storage_wrote w (object_path ext vault_id) bs (?t fs)" for fs
    by (simp add: storage_wrote_def)
  have install: "wpE (rename_upload p (object_path ext vault_id))
      (\<lambda>_. wpE sync_root (\<lambda>_. Q (pu_revision p)) R) R (w\<lparr>g_faults := fs\<rparr>)"
    if "satisfies ext condition (object_at ext w vault_id)" for fs
    unfolding rename_upload_def sync_root_def
    using up Q [OF that wrote] R' [OF that wrote]
    by (auto simp: wp_simps keep intro!: wpE_g_point)
  show ?thesis
    unfolding install_checked_def
    by (auto simp: wp_simps keep object_at_def intro!: wpE_read_object install
        split: WriteCondition.splits)
qed

lemma wpE_storage_write:
  assumes Q: "\<And>t. satisfies ext condition (object_at ext w vault_id) \<Longrightarrow>
      storage_wrote w (object_path ext vault_id) bs t \<Longrightarrow> length bs \<le> MAX_REMOTE_CIPHERTEXT_BYTES \<Longrightarrow>
      Q (revision_of ext bs) t"
    and R: "\<And>e t. storage_keeps w t \<Longrightarrow> R e t"
    and R': "\<And>t. satisfies ext condition (object_at ext w vault_id) \<Longrightarrow>
      storage_wrote w (object_path ext vault_id) bs t \<Longrightarrow> length bs \<le> MAX_REMOTE_CIPHERTEXT_BYTES \<Longrightarrow>
      R StorageError.Io t"
  shows "wpE (storage_write ext vault_id condition bs) Q R w"
proof (cases "length bs > MAX_REMOTE_CIPHERTEXT_BYTES")
  case True
  then show ?thesis by (simp add: storage_write_def wp_simps R storage_keeps_def)
next
  case False
  have install: "wpE (install_upload ext p (object_path ext vault_id) condition) Q R t"
    if t: "storage_keeps w t" and p: "pu_revision p = revision_of ext bs"
      "map_of (g_temporary t) (pu_path p) = Some (Regular bs)" for p t
  proof -
    have obj: "object_at ext t vault_id = object_at ext w vault_id"
      using t by (simp add: object_at_def storage_keeps_def)
    have "wpE (install_checked ext p (object_path ext vault_id) condition)
        (\<lambda>a s. Q a (drop_upload p s)) (\<lambda>e s. R e (drop_upload p s)) t"
      by (rule wpE_install_checked [OF p]) (use t False Q R R' obj in
        \<open>auto simp: storage_keeps_def storage_wrote_def\<close>)
    then show ?thesis by (simp add: wpE_def install_upload_def split: prod.splits sum.splits)
  qed
  show ?thesis
    using False
    by (auto simp: storage_write_def wp_simps intro!: wpE_prepare_upload install R)
qed

end
