(* ===== verification/Gateway_Server.thy ===== *)
theory Gateway_Server
  imports Gateway_Storage
begin

section \<open>The gateway's HTTP interface\<close>

text \<open>
  Models \<open>src/apps/sync-gateway/src/server.rs\<close> and \<open>auth.rs\<close>, and the token grammar of
  \<open>src/crates/sync-gateway-protocol\<close>. A request is its method, path, query, header lines with
  lower-case names, and the way its body arrives; the HTTP framing below it is the \<open>hyper\<close> crate.
  \<open>handle\<close> runs one request; a write permit is held only while it runs.
\<close>

definition MIN_GATEWAY_TOKEN_BYTES :: nat where "MIN_GATEWAY_TOKEN_BYTES = 32"
definition MAX_GATEWAY_TOKEN_BYTES :: nat where "MAX_GATEWAY_TOKEN_BYTES = 512"
definition MAX_REQUEST_TARGET_BYTES :: nat where "MAX_REQUEST_TARGET_BYTES = 256"

definition valid_gateway_token :: "string \<Rightarrow> bool" where
  "valid_gateway_token token =
     (MIN_GATEWAY_TOKEN_BYTES \<le> length token \<and> length token \<le> MAX_GATEWAY_TOKEN_BYTES \<and>
      list_all is_ascii_graphic token)"

datatype Method = GET | PUT | OtherMethod string

datatype Body = Collected bytes | BodyFailed | BodyTimedOut

record Request =
  rq_method :: Method
  rq_path :: string
  rq_query :: "string option"
  rq_headers :: "(string \<times> string) list"
  rq_body :: Body

record Response =
  rs_status :: nat
  rs_headers :: "(string \<times> string) list"
  rs_body :: bytes

record gateway = storage +
  g_token_digest :: bytes
  g_write_permits :: nat

subsection \<open>Headers\<close>

definition get_all :: "(string \<times> string) list \<Rightarrow> string \<Rightarrow> string list" where
  "get_all headers name = map snd (filter (\<lambda>(n, _). n = name) headers)"

text \<open>\<open>HeaderValue::to_str\<close>: visible ASCII, space and tab.\<close>

definition to_str :: "string \<Rightarrow> string option" where
  "to_str v = (if list_all (\<lambda>c. (32 \<le> (of_char c :: nat) \<and> (of_char c :: nat) < 127) \<or> (of_char c :: nat) = 9) v
     then Some v else None)"

definition header_get :: "(string \<times> string) list \<Rightarrow> string \<Rightarrow> string option" where
  "header_get headers name = (case get_all headers name of [] \<Rightarrow> None | v # _ \<Rightarrow> to_str v)"

definition single_header :: "(string \<times> string) list \<Rightarrow> string \<Rightarrow> nat + string option" where
  "single_header headers name = (case get_all headers name of
     [] \<Rightarrow> Inr None
   | [v] \<Rightarrow> (case to_str v of None \<Rightarrow> Inl 400 | Some s \<Rightarrow> Inr (Some s))
   | _ \<Rightarrow> Inl 400)"

definition valid_strong_etag :: "string \<Rightarrow> bool" where
  "valid_strong_etag value = (length value = 66 \<and> starts_with value [CHR 0x22] \<and> ends_with value [CHR 0x22] \<and>
     list_all is_lower_hex (take 64 (drop 1 value)))"

definition condition_of :: "(string \<times> string) list \<Rightarrow> nat + WriteCondition" where
  "condition_of headers =
     bindR (single_header headers ''if-none-match'') (\<lambda>create.
     bindR (single_header headers ''if-match'') (\<lambda>replace.
     case (create, replace) of
       (Some c, None) \<Rightarrow> if c = ''*'' then Inr Create else Inl 400
     | (None, Some value) \<Rightarrow> if valid_strong_etag value then Inr (Replace value) else Inl 400
     | (None, None) \<Rightarrow> Inl 428
     | _ \<Rightarrow> Inl 400))"

subsection \<open>Authentication\<close>

definition TokenVerifier_new :: "'x core_ext_scheme \<Rightarrow> string \<Rightarrow> bytes option" where
  "TokenVerifier_new ext token =
     (if valid_gateway_token token then Some (sha256 ext (as_bytes token)) else None)"

definition authenticates :: "'x core_ext_scheme \<Rightarrow> bytes \<Rightarrow> (string \<times> string) list \<Rightarrow> bool" where
  "authenticates ext expected headers = (case get_all headers ''authorization'' of
     [value] \<Rightarrow> (case Option.bind (to_str value) (split_once (CHR '' '')) of
        None \<Rightarrow> False
      | Some (scheme, token) \<Rightarrow>
          eq_ignore_ascii_case scheme ''bearer'' \<and> valid_gateway_token token \<and>
          sha256 ext (as_bytes token) = expected)
   | _ \<Rightarrow> False)"

subsection \<open>Responses\<close>

definition no_store :: "string \<times> string" where
  "no_store = (''cache-control'', ''no-store'')"

definition fixed :: "nat \<Rightarrow> string \<Rightarrow> Response" where
  "fixed status body = \<lparr>rs_status = status,
     rs_headers = [no_store, (''content-type'', ''text/plain; charset=utf-8'')],
     rs_body = as_bytes body\<rparr>"

definition internal_error :: Response where
  "internal_error = fixed 500 ''Internal Server Error\<newline>''"

text \<open>\<open>HeaderValue::from_str\<close> accepts visible ASCII, spaces and tabs.\<close>

definition object_response :: "bytes \<Rightarrow> string \<Rightarrow> Response" where
  "object_response bs r = (case to_str r of
     Some value \<Rightarrow> \<lparr>rs_status = 200,
       rs_headers = [(''content-type'', ''application/octet-stream''), no_store, (''etag'', value)],
       rs_body = bs\<rparr>
   | None \<Rightarrow> internal_error)"

definition empty_with_etag :: "nat \<Rightarrow> string \<Rightarrow> Response" where
  "empty_with_etag status r = (case to_str r of
     Some value \<Rightarrow> (fixed status [])\<lparr>rs_headers := rs_headers (fixed status []) @ [(''etag'', value)]\<rparr>
   | None \<Rightarrow> internal_error)"

definition status_text :: "nat \<Rightarrow> string" where
  "status_text status = (if status = 428 then ''Precondition Required\<newline>'' else ''Bad Request\<newline>'')"

subsection \<open>Routing\<close>

definition vault_id_of :: "'x codec_ext_scheme \<Rightarrow> string \<Rightarrow> string option \<Rightarrow> uuid option" where
  "vault_id_of ext path query =
     (if query \<noteq> None then None
      else Option.bind (strip_prefix ''/v1/vaults/'' path) (\<lambda>value.
        if CHR 0x2F \<in> set value then None
        else Option.bind (parse_uuid ext value) (\<lambda>i.
          if uuid_is_v4 ext i \<and> value = hyphenated ext i then Some i else None)))"

definition uri_string :: "Request \<Rightarrow> string" where
  "uri_string rq = rq_path rq @ (case rq_query rq of None \<Rightarrow> [] | Some q \<Rightarrow> CHR 0x3F # q)"

type_synonym 'a handler = "('a gateway_scheme, unit, Response) op"

text \<open>A handler always responds: the storage's result becomes a response.\<close>

definition responding ::
    "('a gateway_scheme, StorageError, 'b) op \<Rightarrow> (StorageError + 'b \<Rightarrow> Response) \<Rightarrow> 'a handler" where
  "responding m f = bindE (tryE m) (\<lambda>r. returnE (f r))"

definition read_vault :: "'x codec_ext_scheme \<Rightarrow> uuid \<Rightarrow> 'a handler" where
  "read_vault ext vault_id = responding (storage_read ext vault_id) (\<lambda>r. case r of
     Inr (Some obj) \<Rightarrow> object_response (so_bytes obj) (so_revision obj)
   | Inr None \<Rightarrow> fixed 404 ''Not Found\<newline>''
   | Inl TooLarge \<Rightarrow> fixed 413 ''Payload Too Large\<newline>''
   | Inl _ \<Rightarrow> internal_error)"

definition write_response :: "bool \<Rightarrow> StorageError + string \<Rightarrow> Response" where
  "write_response is_create result = (case result of
     Inr r \<Rightarrow> empty_with_etag (if is_create then 201 else 204) r
   | Inl PreconditionFailed \<Rightarrow> fixed 412 ''Precondition Failed\<newline>''
   | Inl TooLarge \<Rightarrow> fixed 413 ''Payload Too Large\<newline>''
   | Inl _ \<Rightarrow> internal_error)"

definition write_vault :: "'x codec_ext_scheme \<Rightarrow> uuid \<Rightarrow> Request \<Rightarrow> 'a handler" where
  "write_vault ext vault_id rq =
     (if header_get (rq_headers rq) ''content-type'' \<noteq> Some ''application/octet-stream''
      then returnE (fixed 415 ''Unsupported Media Type\<newline>'')
      else if (case Option.bind (header_get (rq_headers rq) ''content-length'') parse_u64 of
                 None \<Rightarrow> False | Some len \<Rightarrow> len > MAX_REMOTE_CIPHERTEXT_BYTES)
      then returnE (fixed 413 ''Payload Too Large\<newline>'')
      else (case condition_of (rq_headers rq) of
        Inl status \<Rightarrow> returnE (fixed status (status_text status))
      | Inr condition \<Rightarrow>
          bindE (getsE g_write_permits) (\<lambda>permits.
          if permits = 0 then returnE (fixed 503 ''Service Unavailable\<newline>'')
          else (case rq_body rq of
            BodyTimedOut \<Rightarrow> returnE (fixed 408 ''Request Timeout\<newline>'')
          | BodyFailed \<Rightarrow> returnE (fixed 413 ''Payload Too Large\<newline>'')
          | Collected bs \<Rightarrow>
              if length bs > MAX_REMOTE_CIPHERTEXT_BYTES then returnE (fixed 413 ''Payload Too Large\<newline>'')
              else responding (storage_write ext vault_id condition bs)
                     (write_response (condition = Create))))))"

definition route :: "'x codec_ext_scheme \<Rightarrow> Request \<Rightarrow> 'a handler" where
  "route ext rq =
     (if rq_path rq = ''/healthz'' \<and> rq_query rq = None
      then returnE (if rq_method rq = GET then fixed 200 ''OK\<newline>'' else fixed 405 ''Method Not Allowed\<newline>'')
      else
        bindE (getsE g_token_digest) (\<lambda>token.
        if length (uri_string rq) > MAX_REQUEST_TARGET_BYTES \<or> \<not> authenticates ext token (rq_headers rq)
        then returnE (fixed 401 ''Unauthorized\<newline>'')
        else (case vault_id_of ext (rq_path rq) (rq_query rq) of
          None \<Rightarrow> returnE (fixed 404 ''Not Found\<newline>'')
        | Some vault_id \<Rightarrow> (case rq_method rq of
            GET \<Rightarrow> read_vault ext vault_id
          | PUT \<Rightarrow> write_vault ext vault_id rq
          | _ \<Rightarrow> returnE (fixed 405 ''Method Not Allowed\<newline>'')))))"

text \<open>One served request: its response and the gateway afterwards.\<close>

definition handle :: "'x codec_ext_scheme \<Rightarrow> Request \<Rightarrow> 'a gateway_scheme \<Rightarrow> Response \<times> 'a gateway_scheme" where
  "handle ext rq w = (case route ext rq w of (Inr rs, t) \<Rightarrow> (rs, t) | (Inl _, t) \<Rightarrow> (internal_error, t))"

subsection \<open>What a request can do\<close>

lemma revision_of_form:
  assumes "sha256_ok ext"
  shows "valid_strong_etag (revision_of ext bs)" and "to_str (revision_of ext bs) = Some (revision_of ext bs)"
proof -
  have len: "length (hex_encode (sha256 ext bs)) = 64" using assms by (simp add: sha256_ok_def)
  have hex: "is_lower_hex c" if "c \<in> set (hex_encode (sha256 ext bs))" for c
    using that by (rule hex_encode_lower)
  from len hex show "valid_strong_etag (revision_of ext bs)"
    by (auto simp: valid_strong_etag_def revision_of_def starts_with_def ends_with_iff list_all_iff)
  have "32 \<le> (of_char c :: nat) \<and> (of_char c :: nat) < 127" if "is_lower_hex c" for c
    using that by (auto simp: is_lower_hex_def is_ascii_digit_def)
  with hex show "to_str (revision_of ext bs) = Some (revision_of ext bs)"
    by (auto simp: to_str_def revision_of_def list_all_iff)
qed

lemma revision_of_eq_iff: "revision_of ext a = revision_of ext b \<longleftrightarrow> sha256 ext a = sha256 ext b"
  by (auto simp: revision_of_def dest: hex_encode_inj)

lemma storage_keeps_refl [simp]: "storage_keeps w w"
  by (simp add: storage_keeps_def)

lemma wpE_storage_read:
  assumes "\<And>t. storage_keeps w t \<Longrightarrow> map_of (g_root w) (object_path ext v) = None \<Longrightarrow> Q None t"
    and "\<And>t bs. storage_keeps w t \<Longrightarrow> object_at ext w v = Some bs \<Longrightarrow>
      Q (Some \<lparr>so_bytes = bs, so_revision = revision_of ext bs\<rparr>) t"
    and "\<And>e t. storage_keeps w t \<Longrightarrow> R e t"
  shows "wpE (storage_read ext v) Q R w"
  unfolding storage_read_def
  by (rule wpE_read_object) (auto intro!: assms simp: storage_keeps_def object_at_def)

text \<open>The effect of one request. \<open>Wrote v old bs\<close>: the object of vault \<open>v\<close>, which was \<open>old\<close>, is
  now \<open>bs\<close>.\<close>

datatype effect = NoEffect | Wrote uuid "bytes option" bytes

definition effect_ok ::
    "'x codec_ext_scheme \<Rightarrow> Request \<Rightarrow> 'a gateway_scheme \<Rightarrow> Response \<Rightarrow> 'a gateway_scheme \<Rightarrow> effect \<Rightarrow> bool" where
  "effect_ok ext rq w rs t eff = (case eff of
     NoEffect \<Rightarrow> storage_keeps w t \<and> rs_status rs \<notin> {201, 204}
   | Wrote v old bs \<Rightarrow>
       authenticates ext (g_token_digest w) (rq_headers rq) \<and> rq_method rq = PUT \<and>
       vault_id_of ext (rq_path rq) (rq_query rq) = Some v \<and> rq_body rq = Collected bs \<and>
       (\<exists>condition. condition_of (rq_headers rq) = Inr condition \<and> satisfies ext condition old) \<and>
       old = object_at ext w v \<and> storage_wrote w (object_path ext v) bs t \<and>
       length bs \<le> MAX_REMOTE_CIPHERTEXT_BYTES \<and> rs_status rs \<in> {201, 204, 500})"

lemma fixed_status [simp]: "rs_status (fixed s b) = s"
  by (simp add: fixed_def)

lemma empty_with_etag_status: "rs_status (empty_with_etag s r) \<in> {s, 500}"
  by (simp add: empty_with_etag_def internal_error_def split: option.splits)

lemma route_effect:
  assumes "sha256_ok ext"
  shows "wpE (route ext rq) (\<lambda>rs t. \<exists>eff. effect_ok ext rq w rs t eff) (\<lambda>_ _. False) w"
proof -
  let ?Q = "\<lambda>rs t. \<exists>eff. effect_ok ext rq w rs t eff"
  have same: "?Q (fixed s b) w" if "s \<notin> {201, 204}" for s b
    using that by (auto simp: effect_ok_def intro!: exI [of _ NoEffect])
  have keep: "?Q rs t" if "storage_keeps w t" "rs_status rs \<notin> {201, 204}" for rs t
    using that by (auto simp: effect_ok_def intro!: exI [of _ NoEffect])
  have rd: "wpE (read_vault ext v) ?Q (\<lambda>_ _. False) w" for v
    unfolding read_vault_def responding_def
    by (auto simp: wp_simps object_response_def internal_error_def intro!: wpE_storage_read keep
        split: option.splits StorageError.splits)
  have wr: "wpE (write_vault ext v rq) ?Q (\<lambda>_ _. False) w"
    if v: "vault_id_of ext (rq_path rq) (rq_query rq) = Some v" "rq_method rq = PUT"
      "authenticates ext (g_token_digest w) (rq_headers rq)" for v
  proof -
    have st: "s \<notin> {201, 204}" if "condition_of (rq_headers rq) = Inl s" for s
      using that by (auto simp: condition_of_def bindR_def single_header_def
          split: sum.splits option.splits list.splits if_splits)
    have "wpE (responding (storage_write ext v c bs) (write_response (c = Create))) ?Q (\<lambda>_ _. False) w"
      if c: "condition_of (rq_headers rq) = Inr c" "rq_body rq = Collected bs" for c bs
      unfolding responding_def wp_simps
    proof (rule wpE_storage_write)
      fix t assume "satisfies ext c (object_at ext w v)" "storage_wrote w (object_path ext v) bs t"
        "length bs \<le> MAX_REMOTE_CIPHERTEXT_BYTES"
      then show "?Q (write_response (c = Create) (Inr (revision_of ext bs))) t"
        and "?Q (write_response (c = Create) (Inl StorageError.Io)) t"
        using c v empty_with_etag_status [of 201 "revision_of ext bs"]
          empty_with_etag_status [of 204 "revision_of ext bs"]
        by (auto simp: effect_ok_def write_response_def internal_error_def
            intro!: exI [of _ "Wrote v (object_at ext w v) bs"])
    next
      fix e t assume "storage_keeps w t"
      then show "?Q (write_response (c = Create) (Inl e)) t"
        by (intro keep) (auto simp: write_response_def internal_error_def split: StorageError.splits)
    qed
    then show ?thesis
      unfolding write_vault_def
      by (auto simp: wp_simps split: sum.splits Body.splits intro!: same dest: st)
  qed
  show ?thesis
    unfolding route_def
    by (auto simp: wp_simps same rd wr split: option.splits Method.splits)
qed

lemma handle_effect:
  assumes "sha256_ok ext" and "handle ext rq w = (rs, t)"
  shows "\<exists>eff. effect_ok ext rq w rs t eff"
  using route_effect [OF assms(1), of rq w] assms(2)
  by (auto simp: wpE_def handle_def split: prod.splits sum.splits)

text \<open>A served object always comes with the tag of exactly its bytes.\<close>

lemma route_object:
  assumes "sha256_ok ext"
  shows "wpE (route ext rq) (\<lambda>rs t. rs_status rs = 200 \<longrightarrow> rq_path rq \<noteq> ''/healthz'' \<longrightarrow>
      (\<exists>v bs. vault_id_of ext (rq_path rq) (rq_query rq) = Some v \<and> object_at ext w v = Some bs \<and>
        rs = object_response bs (revision_of ext bs))) (\<lambda>_ _. False) w"
proof -
  have wr: "rs_status (write_response b r) \<noteq> 200" for b r
    by (auto simp: write_response_def internal_error_def empty_with_etag_def
        split: sum.splits StorageError.splits option.splits)
  have wv: "wpE (write_vault ext v rq) (\<lambda>rs t. rs_status rs = 200 \<longrightarrow> P rs t) (\<lambda>_ _. False) w" for v P
  proof -
    have st: "s \<noteq> 200" if "condition_of (rq_headers rq) = Inl s" for s
      using that by (auto simp: condition_of_def bindR_def single_header_def
          split: sum.splits option.splits list.splits if_splits)
    have "wpE (responding m (write_response b)) (\<lambda>rs t. rs_status rs = 200 \<longrightarrow> P rs t) (\<lambda>_ _. False) w" for m b
      using wr by (simp add: wpE_def responding_def op_defs split: prod.splits)
    with st show ?thesis
      unfolding write_vault_def by (auto simp: wp_simps split: sum.splits Body.splits)
  qed
  show ?thesis
    unfolding route_def read_vault_def responding_def
    by (auto simp: wp_simps internal_error_def intro!: wpE_storage_read wv
        split: option.splits Method.splits StorageError.splits)
qed

lemma handle_object:
  assumes "sha256_ok ext" and "handle ext rq w = (rs, t)" and "rs_status rs = 200"
    and "rq_path rq \<noteq> ''/healthz''"
  obtains v bs where "vault_id_of ext (rq_path rq) (rq_query rq) = Some v"
    and "object_at ext w v = Some bs" and "rs = object_response bs (revision_of ext bs)"
  using route_object [OF assms(1), of rq w] assms(2-4)
  by (auto simp: wpE_def handle_def split: prod.splits sum.splits)

end
