(* ===== verification/Gateway_Client.thy ===== *)
theory Gateway_Client
  imports Gateway_Server
begin

section \<open>The gateway provider\<close>

text \<open>
  Models \<open>src/crates/sync-provider-gateway/src/lib.rs\<close>, the client of the gateway and an
  implementation of the provider contract. The connection (\<open>reqwest\<close>) is modelled by a script:
  before each request of this client other clients' requests are served, and the request or its
  response may be lost, or the response's body cut off. Response bodies arrive in chunks.

  The environment also keeps a history of what this client's requests changed: the pair of the
  object before and after each change. No operation reads it.
\<close>

datatype Fate = Delivered | RequestLost | ResponseLost | BodyCut

record gateway_env =
  ge_server :: gateway
  ge_script :: "(Request list \<times> Fate) list"
  ge_history :: "(bytes option \<times> bytes) list"

record GatewayProvider =
  gp_base_path :: string
  gp_vault_id :: uuid
  gp_token :: string

record ClientResponse =
  cr_status :: nat
  cr_headers :: "(string \<times> string) list"
  cr_chunks :: "bytes list"
  cr_complete :: bool

subsection \<open>Transport\<close>

definition serve_others :: "'x codec_ext_scheme \<Rightarrow> Request list \<Rightarrow> gateway \<Rightarrow> gateway" where
  "serve_others ext rqs w = fold (\<lambda>rq w. snd (handle ext rq w)) rqs w"

definition next_script :: "gateway_env \<Rightarrow> Request list \<times> Fate" where
  "next_script e = (case ge_script e of [] \<Rightarrow> ([], Delivered) | s # _ \<Rightarrow> s)"

definition deliver :: "'x codec_ext_scheme \<Rightarrow> GatewayProvider \<Rightarrow> Request \<Rightarrow> gateway_env \<Rightarrow> Response \<times> gateway_env" where
  "deliver ext gp rq e = (case handle ext rq (ge_server e) of (rs, t) \<Rightarrow>
     (rs, e\<lparr>ge_server := t,
            ge_history := ge_history e @
              (case object_at ext t (gp_vault_id gp) of
                 None \<Rightarrow> []
               | Some bs \<Rightarrow> if object_at ext (ge_server e) (gp_vault_id gp) = Some bs then []
                   else [(object_at ext (ge_server e) (gp_vault_id gp), bs)])\<rparr>))"

definition send :: "'x codec_ext_scheme \<Rightarrow> GatewayProvider \<Rightarrow> Request \<Rightarrow> (gateway_env, unit, ClientResponse) op" where
  "send ext gp rq = (\<lambda>e. case next_script e of (others, fate) \<Rightarrow>
     let e' = e\<lparr>ge_server := serve_others ext others (ge_server e), ge_script := tl (ge_script e)\<rparr> in
     case fate of
       RequestLost \<Rightarrow> (Inl (), e')
     | ResponseLost \<Rightarrow> (Inl (), snd (deliver ext gp rq e'))
     | _ \<Rightarrow> (case deliver ext gp rq e' of (rs, e'') \<Rightarrow>
         (Inr \<lparr>cr_status = rs_status rs, cr_headers = rs_headers rs, cr_chunks = [rs_body rs],
               cr_complete = (fate = Delivered)\<rparr>, e'')))"

subsection \<open>Requests\<close>

definition bearer :: "GatewayProvider \<Rightarrow> string \<times> string" where
  "bearer gp = (''authorization'', ''Bearer '' @ gp_token gp)"

definition object_url :: "'x codec_ext_scheme \<Rightarrow> GatewayProvider \<Rightarrow> string" where
  "object_url ext gp = gp_base_path gp @ ''v1/vaults/'' @ hyphenated ext (gp_vault_id gp)"

definition get_request :: "'x codec_ext_scheme \<Rightarrow> GatewayProvider \<Rightarrow> Request" where
  "get_request ext gp = \<lparr>rq_method = GET, rq_path = object_url ext gp, rq_query = None,
     rq_headers = [bearer gp], rq_body = Collected []\<rparr>"

definition put_request ::
    "'x codec_ext_scheme \<Rightarrow> GatewayProvider \<Rightarrow> string \<Rightarrow> string \<Rightarrow> bytes \<Rightarrow> Request" where
  "put_request ext gp header value ct = \<lparr>rq_method = PUT, rq_path = object_url ext gp, rq_query = None,
     rq_headers = [(header, value), (''content-type'', ''application/octet-stream''), bearer gp],
     rq_body = Collected ct\<rparr>"

subsection \<open>Responses\<close>

definition is_whitespace :: "char \<Rightarrow> bool" where
  "is_whitespace c = ((of_char c :: nat) = 32 \<or> 9 \<le> (of_char c :: nat) \<and> (of_char c :: nat) \<le> 13)"

definition trim :: "string \<Rightarrow> string" where
  "trim s = rev (dropWhile is_whitespace (rev (dropWhile is_whitespace s)))"

definition strong_etag :: "(string \<times> string) list \<Rightarrow> ProviderError + RemoteRevision" where
  "strong_etag headers = (case get_all headers ''etag'' of
     [] \<Rightarrow> Inl UnsupportedProvider
   | v # _ \<Rightarrow>
       bindR (ok_or UnsafeProvider (to_str v)) (\<lambda>s.
       let etag = trim s in
       if starts_with etag ''W/'' \<or> length etag < 2 \<or> \<not> starts_with etag [CHR 0x22] \<or>
          \<not> ends_with etag [CHR 0x22]
       then Inl UnsupportedProvider else RemoteRevision_new etag))"

fun read_chunks :: "bytes \<Rightarrow> bytes list \<Rightarrow> bool \<Rightarrow> ProviderError + bytes" where
  "read_chunks ct [] complete = (if complete then Inr ct else Inl Transport)"
| "read_chunks ct (chunk # chunks) complete =
     (if length ct + length chunk > MAX_REMOTE_CIPHERTEXT_BYTES then Inl ObjectTooLarge
      else read_chunks (ct @ chunk) chunks complete)"

definition read_success :: "ClientResponse \<Rightarrow> ProviderError + RemoteRead" where
  "read_success response =
     bindR (strong_etag (cr_headers response)) (\<lambda>r.
     if (case Option.bind (header_get (cr_headers response) ''content-length'') parse_u64 of
           None \<Rightarrow> False | Some len \<Rightarrow> len > MAX_REMOTE_CIPHERTEXT_BYTES)
     then Inl ObjectTooLarge
     else
       bindR (read_chunks [] (cr_chunks response) (cr_complete response)) (\<lambda>ct.
       bindR (RemoteObject_new ct r) (\<lambda>obj. Inr (Present obj))))"

definition is_success :: "nat \<Rightarrow> bool" where "is_success status = (200 \<le> status \<and> status < 300)"
definition is_redirection :: "nat \<Rightarrow> bool" where "is_redirection status = (300 \<le> status \<and> status < 400)"

definition read_status :: "ClientResponse \<Rightarrow> ProviderError + RemoteRead" where
  "read_status response = (let status = cr_status response in
     if status = 200 then read_success response
     else if status = 404 then Inr Missing
     else if status = 401 \<or> status = 403 then Inl AuthenticationFailed
     else if status = 413 then Inl ObjectTooLarge
     else if is_redirection status then Inl UnsafeProvider
     else Inl Transport)"

subsection \<open>The provider operations\<close>

definition gateway_read :: "'x codec_ext_scheme \<Rightarrow> GatewayProvider \<Rightarrow> (gateway_env, ProviderError, RemoteRead) op" where
  "gateway_read ext gp =
     bindE (map_errE (\<lambda>_. Transport) (send ext gp (get_request ext gp))) (\<lambda>response.
     liftE (read_status response))"

definition confirm_committed ::
    "'x codec_ext_scheme \<Rightarrow> GatewayProvider \<Rightarrow> bytes \<Rightarrow> (gateway_env, ProviderError, RemoteRevision) op" where
  "confirm_committed ext gp expected_ciphertext =
     bindE (tryE (gateway_read ext gp)) (\<lambda>r. case r of
       Inr (Present remote) \<Rightarrow>
         if ciphertext remote = expected_ciphertext then returnE (revision remote)
         else throwE RemoteChanged
     | Inr Missing \<Rightarrow> throwE RemoteChanged
     | Inl _ \<Rightarrow> throwE WriteResultUncertain)"

definition conditional_put ::
    "'x codec_ext_scheme \<Rightarrow> GatewayProvider \<Rightarrow> string \<Rightarrow> string \<Rightarrow> bytes \<Rightarrow>
     (gateway_env, ProviderError, RemoteRevision) op" where
  "conditional_put ext gp header value ct =
     (if length ct > MAX_REMOTE_CIPHERTEXT_BYTES then throwE ObjectTooLarge
      else
        bindE (map_errE (\<lambda>_. WriteResultUncertain) (send ext gp (put_request ext gp header value ct))) (\<lambda>response.
        let status = cr_status response in
        if is_success status then confirm_committed ext gp ct
        else if status = 412 \<or> status = 409 then throwE RemoteChanged
        else if status = 401 \<or> status = 403 then throwE AuthenticationFailed
        else if status = 413 then throwE ObjectTooLarge
        else if is_redirection status then throwE UnsafeProvider
        else throwE WriteResultUncertain))"

definition gateway_create ::
    "'x codec_ext_scheme \<Rightarrow> GatewayProvider \<Rightarrow> bytes \<Rightarrow> (gateway_env, ProviderError, RemoteRevision) op" where
  "gateway_create ext gp ct = conditional_put ext gp ''if-none-match'' ''*'' ct"

definition gateway_replace ::
    "'x codec_ext_scheme \<Rightarrow> GatewayProvider \<Rightarrow> RemoteRevision \<Rightarrow> bytes \<Rightarrow>
     (gateway_env, ProviderError, RemoteRevision) op" where
  "gateway_replace ext gp expected ct = conditional_put ext gp ''if-match'' (as_provider_token expected) ct"

definition gateway_provider :: "'x codec_ext_scheme \<Rightarrow> GatewayProvider \<Rightarrow> gateway_env provider" where
  "gateway_provider ext gp = \<lparr>p_read = gateway_read ext gp, p_create_if_absent = gateway_create ext gp,
     p_replace_if_revision = gateway_replace ext gp\<rparr>"

end
