(* ===== verification/Remote_Contract.thy ===== *)
theory Remote_Contract
  imports Engine_Env
begin

section \<open>The contracts of a provider and of a local vault\<close>

text \<open>
  The two halves of the world of the engine, each with its own state: a provider that changes the
  remote object only under the condition it was given, and a local vault that captures and replaces
  generations. A provider and a local vault put side by side are a world of \<open>sync_env\<close>, so each kind
  of provider has to be shown to keep its own half of the contract only. The laws speak of the history of
  this client's own changes, each with the bytes it overwrote, so they hold whatever other clients do
  between two requests.
\<close>

subsection \<open>Conditional providers\<close>

definition overwrites :: "(RemoteRevision \<Rightarrow> bytes \<Rightarrow> bool) \<Rightarrow> RemoteRevision option \<Rightarrow> bytes \<Rightarrow> bytes option \<times> bytes \<Rightarrow> bool" where
  "overwrites names expected ct x \<longleftrightarrow> (case expected of
     None \<Rightarrow> x = (None, ct)
   | Some r \<Rightarrow> (\<exists>old. x = (Some old, ct) \<and> names r old))"

text \<open>
  The guarantee: reading changes nothing and returns bounded bytes under a revision that names them; a
  write that took effect, reported or not, overwrote exactly what its condition allows; a reported
  success returns a revision that names the bytes written.
\<close>

definition reads_named :: "(RemoteRevision \<Rightarrow> bytes \<Rightarrow> bool) \<Rightarrow> ('s \<Rightarrow> (bytes option \<times> bytes) list) \<Rightarrow> ('s, ProviderError, RemoteRead) op \<Rightarrow> bool" where
  "reads_named names hist m \<longleftrightarrow> (\<forall>s. wpE m
     (\<lambda>r t. hist t = hist s \<and> (\<forall>obj. r = Present obj \<longrightarrow> names (revision obj) (ciphertext obj) \<and>
        valid_revision (revision obj) \<and> length (ciphertext obj) \<le> MAX_REMOTE_CIPHERTEXT_BYTES))
     (\<lambda>_ t. hist t = hist s) s)"

definition writes_named ::
    "(RemoteRevision \<Rightarrow> bytes \<Rightarrow> bool) \<Rightarrow> ('s \<Rightarrow> (bytes option \<times> bytes) list) \<Rightarrow> RemoteRevision option \<Rightarrow> bytes \<Rightarrow>
     ('s, ProviderError, RemoteRevision) op \<Rightarrow> bool" where
  "writes_named names hist expected ct m \<longleftrightarrow> (\<forall>s. wpE m
     (\<lambda>r t. extends_by (hist s) (overwrites names expected ct) (hist t) \<and> names r ct \<and> valid_revision r)
     (\<lambda>_ t. extends_by (hist s) (overwrites names expected ct) (hist t)) s)"

definition conditional_provider :: "(RemoteRevision \<Rightarrow> bytes \<Rightarrow> bool) \<Rightarrow> ('s \<Rightarrow> (bytes option \<times> bytes) list) \<Rightarrow> 's provider \<Rightarrow> bool" where
  "conditional_provider names hist p \<longleftrightarrow> reads_named names hist (p_read p) \<and>
     (\<forall>ct. writes_named names hist None ct (p_create_if_absent p ct)) \<and>
     (\<forall>r ct. writes_named names hist (Some r) ct (p_replace_if_revision p r ct))"

locale remote_contract =
  fixes prov :: "'r provider"
    and names :: "RemoteRevision \<Rightarrow> bytes \<Rightarrow> bool"
    and remote_changes :: "'r \<Rightarrow> (bytes option \<times> bytes) list"
  assumes conditional: "conditional_provider names remote_changes prov"
begin

lemma read_named:
  "wpE (p_read prov)
     (\<lambda>r t. remote_changes t = remote_changes s \<and> (\<forall>obj. r = Present obj \<longrightarrow> names (revision obj) (ciphertext obj) \<and>
        valid_revision (revision obj) \<and> length (ciphertext obj) \<le> MAX_REMOTE_CIPHERTEXT_BYTES))
     (\<lambda>_ t. remote_changes t = remote_changes s) s"
  using conditional by (simp add: conditional_provider_def reads_named_def)

lemma create_named:
  "wpE (p_create_if_absent prov ct)
     (\<lambda>r t. extends_by (remote_changes s) (overwrites names None ct) (remote_changes t) \<and> names r ct \<and> valid_revision r)
     (\<lambda>_ t. extends_by (remote_changes s) (overwrites names None ct) (remote_changes t)) s"
  using conditional by (simp add: conditional_provider_def writes_named_def)

lemma replace_named:
  "wpE (p_replace_if_revision prov r0 ct)
     (\<lambda>r t. extends_by (remote_changes s) (overwrites names (Some r0) ct) (remote_changes t) \<and> names r ct \<and> valid_revision r)
     (\<lambda>_ t. extends_by (remote_changes s) (overwrites names (Some r0) ct) (remote_changes t)) s"
  using conditional by (simp add: conditional_provider_def writes_named_def)

end

subsection \<open>Local vaults\<close>

locale local_contract =
  fixes loc :: "'l local_vault"
    and digest :: "bytes \<Rightarrow> CiphertextDigest"
    and local_changes :: "'l \<Rightarrow> (bytes \<times> bytes) list"
  assumes captures: "wpE (capture_clean loc)
      (\<lambda>s d'. local_changes d' = local_changes d \<and> ls_digest s = digest (ls_ciphertext s))
      (\<lambda>_ d'. local_changes d' = local_changes d) d"
    and replaces: "wpE (replace_if_unchanged loc s ct cred)
      (\<lambda>_ d'. extends_by (local_changes d) (\<lambda>x. \<exists>old. x = (old, ct)) (local_changes d'))
      (\<lambda>_ d'. extends_by (local_changes d) (\<lambda>x. \<exists>old. x = (old, ct)) (local_changes d')) d"

subsection \<open>Side by side\<close>

definition at_remote :: "('a, 'e, 'r) op \<Rightarrow> ('a \<times> 'b, 'e, 'r) op" where
  "at_remote m = (\<lambda>(a, b). case m a of (r, a') \<Rightarrow> (r, (a', b)))"

definition at_local :: "('b, 'e, 'r) op \<Rightarrow> ('a \<times> 'b, 'e, 'r) op" where
  "at_local m = (\<lambda>(a, b). case m b of (r, b') \<Rightarrow> (r, (a, b')))"

definition remote_side :: "'a provider \<Rightarrow> ('a \<times> 'b) provider" where
  "remote_side p = \<lparr>p_read = at_remote (p_read p), p_create_if_absent = (\<lambda>ct. at_remote (p_create_if_absent p ct)),
     p_replace_if_revision = (\<lambda>r ct. at_remote (p_replace_if_revision p r ct))\<rparr>"

definition local_side :: "'b local_vault \<Rightarrow> ('a \<times> 'b) local_vault" where
  "local_side l = \<lparr>capture_clean = at_local (capture_clean l),
     replace_if_unchanged = (\<lambda>s ct cred. at_local (replace_if_unchanged l s ct cred))\<rparr>"

lemma wpE_at_remote:
  "wpE (at_remote m) Q R v = wpE m (\<lambda>a e. Q a (e, snd v)) (\<lambda>err e. R err (e, snd v)) (fst v)"
  by (cases v) (simp add: wpE_def at_remote_def split: prod.splits sum.splits)

lemma wpE_at_local:
  "wpE (at_local m) Q R v = wpE m (\<lambda>a d. Q a (fst v, d)) (\<lambda>err d. R err (fst v, d)) (snd v)"
  by (cases v) (simp add: wpE_def at_local_def split: prod.splits sum.splits)

locale deployment = remote_contract prov names remote_changes + local_contract loc digest local_changes
  for prov :: "'r provider" and names remote_changes and loc :: "'l local_vault" and digest local_changes

sublocale deployment \<subseteq> sync_env "remote_side prov" "local_side loc" digest names "remote_changes \<circ> fst" "local_changes \<circ> snd"
proof
  fix v :: "'r \<times> 'l" and ct r0 s cred
  show "wpE (p_read (remote_side prov))
      (\<lambda>r v'. (remote_changes \<circ> fst) v' = (remote_changes \<circ> fst) v \<and> (local_changes \<circ> snd) v' = (local_changes \<circ> snd) v \<and>
        (\<forall>obj. r = Present obj \<longrightarrow> names (revision obj) (ciphertext obj) \<and> valid_revision (revision obj)))
      (\<lambda>_ v'. (remote_changes \<circ> fst) v' = (remote_changes \<circ> fst) v \<and> (local_changes \<circ> snd) v' = (local_changes \<circ> snd) v) v"
    unfolding remote_side_def provider.select_convs wpE_at_remote by (rule wpE_mono [OF read_named]) auto
  show "wpE (p_create_if_absent (remote_side prov) ct)
      (\<lambda>r v'. extends_by ((remote_changes \<circ> fst) v) (\<lambda>x. x = (None, ct)) ((remote_changes \<circ> fst) v') \<and>
        (local_changes \<circ> snd) v' = (local_changes \<circ> snd) v \<and> valid_revision r)
      (\<lambda>_ v'. extends_by ((remote_changes \<circ> fst) v) (\<lambda>x. x = (None, ct)) ((remote_changes \<circ> fst) v') \<and>
        (local_changes \<circ> snd) v' = (local_changes \<circ> snd) v) v"
    unfolding remote_side_def provider.select_convs wpE_at_remote
    by (rule wpE_mono [OF create_named]) (auto simp: overwrites_def elim: extends_by_mono)
  show "wpE (p_replace_if_revision (remote_side prov) r0 ct)
      (\<lambda>r v'. extends_by ((remote_changes \<circ> fst) v) (\<lambda>x. \<exists>old. x = (Some old, ct) \<and> names r0 old) ((remote_changes \<circ> fst) v') \<and>
        (local_changes \<circ> snd) v' = (local_changes \<circ> snd) v \<and> valid_revision r)
      (\<lambda>_ v'. extends_by ((remote_changes \<circ> fst) v) (\<lambda>x. \<exists>old. x = (Some old, ct) \<and> names r0 old) ((remote_changes \<circ> fst) v') \<and>
        (local_changes \<circ> snd) v' = (local_changes \<circ> snd) v) v"
    unfolding remote_side_def provider.select_convs wpE_at_remote
    by (rule wpE_mono [OF replace_named]) (auto simp: overwrites_def elim: extends_by_mono)
  show "wpE (capture_clean (local_side loc))
      (\<lambda>s v'. (remote_changes \<circ> fst) v' = (remote_changes \<circ> fst) v \<and> (local_changes \<circ> snd) v' = (local_changes \<circ> snd) v \<and>
        ls_digest s = digest (ls_ciphertext s))
      (\<lambda>_ v'. (remote_changes \<circ> fst) v' = (remote_changes \<circ> fst) v \<and> (local_changes \<circ> snd) v' = (local_changes \<circ> snd) v) v"
    unfolding local_side_def local_vault.select_convs wpE_at_local by (rule wpE_mono [OF captures]) auto
  show "wpE (replace_if_unchanged (local_side loc) s ct cred)
      (\<lambda>_ v'. (remote_changes \<circ> fst) v' = (remote_changes \<circ> fst) v \<and>
        extends_by ((local_changes \<circ> snd) v) (\<lambda>x. \<exists>old. x = (old, ct)) ((local_changes \<circ> snd) v'))
      (\<lambda>_ v'. (remote_changes \<circ> fst) v' = (remote_changes \<circ> fst) v \<and>
        extends_by ((local_changes \<circ> snd) v) (\<lambda>x. \<exists>old. x = (old, ct)) ((local_changes \<circ> snd) v')) v"
    unfolding local_side_def local_vault.select_convs wpE_at_local by (rule wpE_mono [OF replaces]) auto
qed

context deployment
begin

lemma is_sync_env: "sync_env (remote_side prov) (local_side loc) digest names (remote_changes \<circ> fst) (local_changes \<circ> snd)"
  by unfold_locales

end

end
