(* ===== verification/Gateway_Contract.thy ===== *)
theory Gateway_Contract
  imports Gateway_Client Remote_Contract
begin

section \<open>The gateway keeps the provider contract\<close>

text \<open>
  Client and server together: what a request of this client can change is what its own
  precondition allows, and what it reads is an object with the tag of exactly its bytes, whatever
  other clients do and whatever the network loses.
\<close>

definition gateway_ext_ok :: "'x codec_ext_scheme \<Rightarrow> bool" where
  "gateway_ext_ok ext \<longleftrightarrow> sha256_ok ext \<and> (\<forall>u. parse_uuid ext (hyphenated ext u) = Some u)"

text \<open>A revision names the bytes whose quoted digest it is.\<close>

definition gateway_names :: "'x core_ext_scheme \<Rightarrow> RemoteRevision \<Rightarrow> bytes \<Rightarrow> bool" where
  "gateway_names ext r bs \<longleftrightarrow> as_provider_token r = revision_of ext bs"

lemma object_path_inj: "gateway_ext_ok ext \<Longrightarrow> object_path ext u = object_path ext v \<longleftrightarrow> u = v"
  unfolding gateway_ext_ok_def object_path_def by (metis append_same_eq option.inject)

lemma object_at_keeps: "storage_keeps w t \<Longrightarrow> object_at ext t v = object_at ext w v"
  by (simp add: object_at_def storage_keeps_def)

lemma object_at_wrote:
  assumes "gateway_ext_ok ext" and "storage_wrote w (object_path ext u) bs t"
  shows "object_at ext t v = (if v = u then Some bs else object_at ext w v)"
  using assms by (auto simp: object_at_def storage_wrote_def update_conv' object_path_inj)

subsection \<open>One request\<close>

lemma deliver_history:
  assumes "gateway_ext_ok ext" and "deliver ext gp rq e = (rs, e')"
  shows "extends_by (ge_history e) (\<lambda>(old, new). rq_method rq = PUT \<and> rq_body rq = Collected new \<and>
      rs_status rs \<in> {201, 204, 500} \<and>
      (\<exists>c. condition_of (rq_headers rq) = Inr c \<and> satisfies ext c old)) (ge_history e')"
    and "ge_script e' = ge_script e"
proof -
  obtain t where t: "handle ext rq (ge_server e) = (rs, t)"
    and e': "e' = e\<lparr>ge_server := t, ge_history := ge_history e' \<rparr>"
    and h: "ge_history e' = ge_history e @ (case object_at ext t (gp_vault_id gp) of None \<Rightarrow> []
      | Some bs \<Rightarrow> if object_at ext (ge_server e) (gp_vault_id gp) = Some bs then []
          else [(object_at ext (ge_server e) (gp_vault_id gp), bs)])"
    using assms(2) by (auto simp: deliver_def split: prod.splits)
  have sha: "sha256_ok ext" using assms(1) by (simp add: gateway_ext_ok_def)
  obtain eff where eff: "effect_ok ext rq (ge_server e) rs t eff" using handle_effect [OF sha t] ..
  show "extends_by (ge_history e) (\<lambda>(old, new). rq_method rq = PUT \<and> rq_body rq = Collected new \<and>
      rs_status rs \<in> {201, 204, 500} \<and>
      (\<exists>c. condition_of (rq_headers rq) = Inr c \<and> satisfies ext c old)) (ge_history e')"
  proof (cases eff)
    case NoEffect
    with eff have "object_at ext t v = object_at ext (ge_server e) v" for v
      by (simp add: effect_ok_def object_at_keeps)
    with h show ?thesis by (auto split: option.splits)
  next
    case (Wrote v old bs)
    with eff have wr: "storage_wrote (ge_server e) (object_path ext v) bs t" "old = object_at ext (ge_server e) v"
      "rq_method rq = PUT" "rq_body rq = Collected bs" "rs_status rs \<in> {201, 204, 500}"
      "\<exists>c. condition_of (rq_headers rq) = Inr c \<and> satisfies ext c old"
      by (auto simp: effect_ok_def)
    with h object_at_wrote [OF assms(1) wr(1)] show ?thesis
      by (auto simp: extends_by_def split: option.splits)
  qed
  from e' show "ge_script e' = ge_script e" by (metis gateway_env.select_convs(2) gateway_env.surjective gateway_env.update_convs(1,3))
qed

lemma send_history:
  assumes "gateway_ext_ok ext"
  shows "wpE (send ext gp rq)
    (\<lambda>rs e'. extends_by (ge_history e) (\<lambda>(old, new). rq_method rq = PUT \<and> rq_body rq = Collected new \<and>
        cr_status rs \<in> {201, 204, 500} \<and>
        (\<exists>c. condition_of (rq_headers rq) = Inr c \<and> satisfies ext c old)) (ge_history e'))
    (\<lambda>_ e'. extends_by (ge_history e) (\<lambda>(old, new). rq_method rq = PUT \<and> rq_body rq = Collected new \<and>
        (\<exists>c. condition_of (rq_headers rq) = Inr c \<and> satisfies ext c old)) (ge_history e')) e"
proof -
  obtain others fate where sc: "next_script e = (others, fate)" by fastforce
  define e1 where "e1 = e\<lparr>ge_server := serve_others ext others (ge_server e), ge_script := tl (ge_script e)\<rparr>"
  obtain rs e2 where d: "deliver ext gp rq e1 = (rs, e2)" by fastforce
  have "ge_history e1 = ge_history e" by (simp add: e1_def)
  with deliver_history(1) [OF assms d] show ?thesis
    unfolding wpE_def send_def sc prod.case Let_def e1_def [symmetric] d
    by (cases fate) (auto elim!: extends_by_mono)
qed

subsection \<open>Reading\<close>

lemma object_url_not_health: "object_url ext gp \<noteq> ''/healthz''"
proof
  assume eq: "object_url ext gp = ''/healthz''"
  have "CHR ''v'' \<in> set (object_url ext gp)" by (simp add: object_url_def)
  with eq show False by simp
qed

lemma dropWhile_hd: "\<not> P x \<Longrightarrow> dropWhile P (x # xs) = x # xs"
  by simp

lemma trim_quoted: "trim ([CHR 0x22] @ s @ [CHR 0x22]) = [CHR 0x22] @ s @ [CHR 0x22]"
  by (simp add: trim_def is_whitespace_def)

lemma strong_etag_object:
  assumes "sha256_ok ext"
  shows "strong_etag (rs_headers (object_response bs (revision_of ext bs))) = Inr (RemoteRevision (revision_of ext bs))"
proof -
  have len: "length (revision_of ext bs) = 66" and hex: "\<And>c. c \<in> set (hex_encode (sha256 ext bs)) \<Longrightarrow> is_lower_hex c"
    using assms by (auto simp: revision_of_def sha256_ok_def intro: hex_encode_lower)
  have tr: "trim (revision_of ext bs) = revision_of ext bs"
    unfolding revision_of_def by (rule trim_quoted)
  have "CHR 0x0A \<notin> set (revision_of ext bs)" "CHR 0x0D \<notin> set (revision_of ext bs)"
    using hex by (auto simp: revision_of_def is_lower_hex_def is_ascii_digit_def dest!: hex)
  with len have "RemoteRevision_new (revision_of ext bs) = Inr (RemoteRevision (revision_of ext bs))"
    by (auto simp: RemoteRevision_new_Inr)
  moreover have "starts_with (revision_of ext bs) [CHR 0x22]" "ends_with (revision_of ext bs) [CHR 0x22]"
    "\<not> starts_with (revision_of ext bs) ''W/''"
    by (auto simp: revision_of_def starts_with_def ends_with_iff)
  ultimately show ?thesis
    using revision_of_form(2) [OF assms, of bs] len tr
    by (simp add: strong_etag_def object_response_def get_all_def no_store_def Let_def)
qed

text \<open>A response that arrives was produced by the server for this request.\<close>

definition response_to :: "'x codec_ext_scheme \<Rightarrow> Request \<Rightarrow> ClientResponse \<Rightarrow> bool" where
  "response_to ext rq rs \<longleftrightarrow> (\<exists>(w :: gateway) t rsp. handle ext rq w = (rsp, t) \<and> cr_status rs = rs_status rsp \<and>
     cr_headers rs = rs_headers rsp \<and> cr_chunks rs = [rs_body rsp])"

lemma send_response: "wpE (send ext gp rq) (\<lambda>rs _. response_to ext rq rs) (\<lambda>_ _. True) e"
proof -
  obtain others fate where sc: "next_script e = (others, fate)" by fastforce
  define e1 where "e1 = e\<lparr>ge_server := serve_others ext others (ge_server e), ge_script := tl (ge_script e)\<rparr>"
  obtain rs t where "handle ext rq (ge_server e1) = (rs, t)" by fastforce
  then have "fst (deliver ext gp rq e1) = rs" "response_to ext rq \<lparr>cr_status = rs_status rs,
      cr_headers = rs_headers rs, cr_chunks = [rs_body rs], cr_complete = c\<rparr>" for c
    unfolding response_to_def by (auto simp: deliver_def split: prod.splits)
  then show ?thesis
    unfolding wpE_def send_def sc prod.case Let_def e1_def [symmetric]
    by (cases fate) (auto split: prod.splits)
qed

lemma read_status_Present:
  assumes "sha256_ok ext" and "response_to ext (get_request ext gp) rs" and "read_status rs = Inr (Present obj)"
  shows "gateway_names ext (revision obj) (ciphertext obj) \<and> valid_revision (revision obj) \<and>
    length (ciphertext obj) \<le> MAX_REMOTE_CIPHERTEXT_BYTES"
proof -
  obtain w :: gateway and t rsp where rsp: "handle ext (get_request ext gp) w = (rsp, t)" "cr_status rs = rs_status rsp"
      "cr_headers rs = rs_headers rsp" "cr_chunks rs = [rs_body rsp]"
    using assms(2) by (auto simp: response_to_def)
  have 200: "cr_status rs = 200" and ok: "read_success rs = Inr (Present obj)"
    using assms(3) by (auto simp: read_status_def Let_def split: if_splits)
  have "rq_path (get_request ext gp) \<noteq> ''/healthz''"
    using object_url_not_health [of ext gp] by (simp add: get_request_def)
  with handle_object [OF assms(1) rsp(1)] 200 rsp(2)
  obtain bs where bs: "rsp = object_response bs (revision_of ext bs)" by metis
  then have body: "rs_body rsp = bs" using revision_of_form(2) [OF assms(1), of bs] by (simp add: object_response_def)
  have tag: "strong_etag (cr_headers rs) = Inr (RemoteRevision (revision_of ext bs))"
    using strong_etag_object [OF assms(1)] bs rsp(3) by simp
  with ok have "obj = \<lparr>ciphertext = bs, revision = RemoteRevision (revision_of ext bs)\<rparr> \<and> length bs \<le> MAX_REMOTE_CIPHERTEXT_BYTES"
    using body rsp(4) by (auto simp: read_success_def bindR_Inr_iff RemoteObject_new_Inr split: if_splits)
  moreover have "valid_revision (RemoteRevision (revision_of ext bs))"
    using tag by (auto simp: strong_etag_def bindR_Inr_iff Let_def RemoteRevision_new_Inr valid_revision_def
        split: list.splits if_splits)
  ultimately show ?thesis by (simp add: gateway_names_def)
qed

lemma gateway_read_law:
  assumes "gateway_ext_ok ext"
  shows "wpE (gateway_read ext gp)
      (\<lambda>r e'. ge_history e' = ge_history e \<and>
        (\<forall>obj. r = Present obj \<longrightarrow> gateway_names ext (revision obj) (ciphertext obj) \<and> valid_revision (revision obj) \<and>
          length (ciphertext obj) \<le> MAX_REMOTE_CIPHERTEXT_BYTES))
      (\<lambda>_ e'. ge_history e' = ge_history e) e"
proof -
  have sha: "sha256_ok ext" using assms by (simp add: gateway_ext_ok_def)
  have get: "rq_method (get_request ext gp) \<noteq> PUT" by (simp add: get_request_def)
  show ?thesis
    unfolding gateway_read_def wpE_bindE wpE_map_errE
    by (rule wpE_mono [OF wpE_conj [OF send_history [OF assms, of gp "get_request ext gp" e] send_response]])
      (use get read_status_Present [OF sha] in \<open>auto simp: wp_simps extends_by_def split: sum.split\<close>)
qed

subsection \<open>Writing\<close>

lemma condition_of_put:
  assumes "header \<in> {''if-match'', ''if-none-match''}"
  shows "condition_of (rq_headers (put_request ext gp header value ct)) = Inr c \<longleftrightarrow>
    (header = ''if-match'' \<and> to_str value \<noteq> None \<and> valid_strong_etag value \<and> c = Replace value) \<or>
    (header = ''if-none-match'' \<and> value = ''*'' \<and> c = Create)"
proof -
  have star: "to_str ''*'' = Some ''*''" by (simp add: to_str_def)
  have "to_str value = Some s \<Longrightarrow> s = value" for s by (simp add: to_str_def split: if_splits)
  with assms star show ?thesis
    by (auto simp: condition_of_def put_request_def bearer_def single_header_def get_all_def
        split: option.splits if_splits)
qed

lemma conditional_put_law:
  assumes ext: "gateway_ext_ok ext" and header: "header \<in> {''if-match'', ''if-none-match''}"
    and P: "\<And>old c. condition_of (rq_headers (put_request ext gp header value ct)) = Inr c \<Longrightarrow>
      satisfies ext c old \<Longrightarrow> P (old, ct)"
  shows "wpE (conditional_put ext gp header value ct)
      (\<lambda>r e'. extends_by (ge_history e) P (ge_history e') \<and> gateway_names ext r ct \<and> valid_revision r)
      (\<lambda>err e'. extends_by (ge_history e) P (ge_history e')) e"
    (is "wpE _ ?Q ?R e")
proof -
  let ?rq = "put_request ext gp header value ct"
  have confirm: "wpE (confirm_committed ext gp ct) ?Q ?R e'"
    if "extends_by (ge_history e) P (ge_history e')" for e'
    unfolding confirm_committed_def wpE_bindE wpE_tryE
    by (rule wpE_mono [OF gateway_read_law [OF ext]])
      (use that in \<open>auto simp: wp_simps split: RemoteRead.split\<close>)
  have body: "rq_body ?rq = Collected ct" "rq_method ?rq = PUT" by (simp_all add: put_request_def)
  have sent: "wpE (send ext gp ?rq)
      (\<lambda>rs e'. extends_by (ge_history e) P (ge_history e') \<and>
        (cr_status rs \<notin> {201, 204, 500} \<longrightarrow> ge_history e' = ge_history e))
      (\<lambda>_ e'. extends_by (ge_history e) P (ge_history e')) e"
    by (rule wpE_mono [OF send_history [OF ext, of gp ?rq e]])
      (use P body in \<open>auto simp: extends_by_def\<close>)
  show ?thesis
    unfolding conditional_put_def Let_def
    using sent by (auto simp: wp_simps is_success_def is_redirection_def intro!: confirm wpE_mono [OF sent])
qed

text \<open>The provider of the gateway keeps its half of the contract, over any network and any other clients.\<close>

lemma gateway_conditional:
  assumes "gateway_ext_ok ext"
  shows "conditional_provider (gateway_names ext) ge_history (gateway_provider ext gp)"
proof -
  have "wpE (gateway_create ext gp ct)
      (\<lambda>r e'. extends_by (ge_history e) (overwrites (gateway_names ext) None ct) (ge_history e') \<and> gateway_names ext r ct \<and> valid_revision r)
      (\<lambda>_ e'. extends_by (ge_history e) (overwrites (gateway_names ext) None ct) (ge_history e')) e" for ct e
    unfolding gateway_create_def
    by (rule conditional_put_law [OF assms]) (auto simp: condition_of_put satisfies_def overwrites_def)
  moreover have "wpE (gateway_replace ext gp r0 ct)
      (\<lambda>r e'. extends_by (ge_history e) (overwrites (gateway_names ext) (Some r0) ct) (ge_history e') \<and> gateway_names ext r ct \<and> valid_revision r)
      (\<lambda>_ e'. extends_by (ge_history e) (overwrites (gateway_names ext) (Some r0) ct) (ge_history e')) e" for r0 ct e
    unfolding gateway_replace_def
    by (rule conditional_put_law [OF assms]) (auto simp: condition_of_put satisfies_def overwrites_def gateway_names_def)
  ultimately show ?thesis
    using gateway_read_law [OF assms]
    by (simp add: conditional_provider_def reads_named_def writes_named_def gateway_provider_def)
qed

end
