(* ===== verification/Vault_Session.thy ===== *)
theory Vault_Session
  imports Provider_Core Kdbx_Document Store_Io
begin

section \<open>Unlocked sessions and verified persistence\<close>

text \<open>
  Models \<open>src/crates/vault-session/src\<close>: \<open>lib.rs\<close>, \<open>save.rs\<close>, \<open>sync_persistence.rs\<close>,
  \<open>fingerprint.rs\<close> and the Unix branch of \<open>platform.rs\<close>.

  The world is the directory of the vault, as in \<open>Store_Io\<close>, and the session. Every system call
  consumes an event of a script: it succeeds, it fails, or another process first changes a file.
  Other processes may change every file but the temporary files that this process has armed, which
  have random names and mode 0600. A file is read as one step; where the code keeps a handle open
  and reads it again, the model reads the path again, and a path that has become a symbolic link is
  unreadable also where the code would follow it. Temporary files are removed when their guard is
  dropped while still armed. \<open>v_history\<close> records each replacement of the primary file that overwrote bytes,
  with those bytes, and \<open>v_checks\<close> what was read back from the vault after a replacement; no operation
  reads them.
\<close>

datatype fs_event = Proceed | Fault | External string "node option"

datatype SessionError = UnsupportedPath | CreateTarget | ExportTarget | ExportVerificationFailed KdbxError
  | UnsupportedPersistencePlatform | UnsavedChanges | ReadSource | Kdbx KdbxError
  | ExternalModificationDetected | CredentialMismatch | CredentialVerificationFailed KdbxError
  | TempCreateFailed | TempRandomFailed | WriteTemp | SyncTemp | TempVerificationFailed KdbxError
  | BackupTempFailed | BackupFailed | BackupVerificationFailed | SavedButBackupUpdateFailed
  | SavedButBackupDurabilityUncertain | AtomicReplaceFailed | FinalVerificationFailed KdbxError
  | FinalReadFailed | FinalExternalModificationDetected | DurabilityUncertain

datatype SaveOutcome = Unchanged | Saved

record FileFingerprint =
  fp_size :: nat
  fp_sha256 :: bytes

record 'db VaultSession =
  vs_path :: string
  vs_document :: "'db KdbxDocument"
  vs_source_fingerprint :: FileFingerprint
  vs_saved_revision :: "64 word"

record 'db vault_world =
  v_session :: "'db VaultSession"
  v_files :: "(string \<times> node) list"
  v_script :: "fs_event list"
  v_random :: "nat \<Rightarrow> bytes"
  v_random_index :: nat
  v_armed :: "string list"
  v_seed :: nat
  v_history :: "(bytes \<times> bytes) list"
  v_checks :: "('db KdbxDocument \<times> FileFingerprint) list"

record 'db vault_ext = core_ext +
  vx_kdbx :: "'db kdbx_api"

type_synonym ('db, 'a) vault_op = "('db vault_world, SessionError, 'a) op"

subsection \<open>System calls\<close>

definition sys :: "SessionError \<Rightarrow> ('db, unit) vault_op" where
  "sys e = (\<lambda>w. case v_script w of
     [] \<Rightarrow> (Inr (), w)
   | Proceed # s \<Rightarrow> (Inr (), w\<lparr>v_script := s\<rparr>)
   | Fault # s \<Rightarrow> (Inl e, w\<lparr>v_script := s\<rparr>)
   | External p n # s \<Rightarrow> (Inr (), w\<lparr>v_script := s, v_files :=
         (if p \<in> set (v_armed w) then v_files w
          else case n of None \<Rightarrow> AList.delete p (v_files w) | Some nd \<Rightarrow> AList.update p nd (v_files w))\<rparr>))"

definition fingerprint :: "'x core_ext_scheme \<Rightarrow> bytes \<Rightarrow> FileFingerprint" where
  "fingerprint ext bs = \<lparr>fp_size = length bs, fp_sha256 = sha256 ext bs\<rparr>"

text \<open>Opening with \<open>O_NOFOLLOW\<close> and reading to the end.\<close>

definition read_file :: "SessionError \<Rightarrow> string \<Rightarrow> ('db, bytes) vault_op" where
  "read_file e p = bindE (sys e) (\<lambda>_. bindE (getsE (\<lambda>w. map_of (v_files w) p)) (\<lambda>n. case n of
     Some (Regular bs) \<Rightarrow> returnE bs | _ \<Rightarrow> throwE e))"

definition validate_current_target :: "string \<Rightarrow> ('db, unit) vault_op" where
  "validate_current_target p =
     bindE (sys ReadSource) (\<lambda>_. bindE (getsE (\<lambda>w. map_of (v_files w) p)) (\<lambda>n. case n of
       None \<Rightarrow> throwE ReadSource
     | Some (Regular _) \<Rightarrow> returnE ()
     | Some _ \<Rightarrow> throwE UnsupportedPath))"

definition fingerprint_path :: "'db vault_ext \<Rightarrow> string \<Rightarrow> ('db, FileFingerprint) vault_op" where
  "fingerprint_path ext p = bindE (read_file ReadSource p) (\<lambda>bs. returnE (fingerprint ext bs))"

definition open_document_with_credential ::
    "'db vault_ext \<Rightarrow> string \<Rightarrow> KdbxCredential \<Rightarrow> ('db vault_world, KdbxError, 'db KdbxDocument) op" where
  "open_document_with_credential ext p cred =
     bindE (map_errE (\<lambda>_. KdbxError.Io) (read_file ReadSource p)) (\<lambda>bs.
     liftE (open_reader_with_credential (vx_kdbx ext) bs cred))"

definition open_stable_document_with_credential ::
    "'db vault_ext \<Rightarrow> string \<Rightarrow> KdbxCredential \<Rightarrow> ('db, 'db KdbxDocument \<times> FileFingerprint) vault_op" where
  "open_stable_document_with_credential ext p cred =
     bindE (validate_current_target p) (\<lambda>_.
     bindE (fingerprint_path ext p) (\<lambda>fingerprint_before.
     bindE (read_file ReadSource p) (\<lambda>bs.
     bindE (liftE (map_err Kdbx (open_reader_with_credential (vx_kdbx ext) bs cred))) (\<lambda>document.
     bindE (fingerprint_path ext p) (\<lambda>fingerprint_after.
     if fingerprint_before \<noteq> fingerprint_after then throwE ExternalModificationDetected
     else
       bindE (validate_current_target p) (\<lambda>_.
       bindE (fingerprint_path ext p) (\<lambda>now.
       if fingerprint_before \<noteq> now then throwE ExternalModificationDetected
       else returnE (document, fingerprint_before))))))))"

definition map_final_open_error :: "SessionError \<Rightarrow> SessionError" where
  "map_final_open_error e = (case e of
     Kdbx source \<Rightarrow> FinalVerificationFailed source
   | ReadSource \<Rightarrow> FinalReadFailed
   | ExternalModificationDetected \<Rightarrow> FinalExternalModificationDetected
   | UnsupportedPath \<Rightarrow> FinalExternalModificationDetected
   | other \<Rightarrow> other)"

subsection \<open>Managed temporary files\<close>

definition TEMP_CREATE_ATTEMPTS :: nat where "TEMP_CREATE_ATTEMPTS = 128"

definition backup_path :: "string \<Rightarrow> string" where "backup_path p = p @ ''.bak''"

definition parent_of :: "string \<Rightarrow> string" where
  "parent_of p = rev (dropWhile (\<lambda>c. c \<noteq> CHR 0x2F) (rev p))"

definition random_temp_name :: "string \<Rightarrow> ('db, string) vault_op" where
  "random_temp_name pre =
     bindE (sys TempRandomFailed) (\<lambda>_. \<lambda>w.
       (Inr (pre @ hex_encode (v_random w (v_random_index w)) @ ''.tmp''),
        w\<lparr>v_random_index := Suc (v_random_index w)\<rparr>))"

definition disarm :: "string \<Rightarrow> ('db, unit) vault_op" where
  "disarm p = modifyE (\<lambda>w. w\<lparr>v_armed := removeAll p (v_armed w)\<rparr>)"

text \<open>A file whose identity cannot be read has no guard and stays behind.\<close>

fun temp_create :: "nat \<Rightarrow> string \<Rightarrow> string \<Rightarrow> ('db, string) vault_op" where
  "temp_create 0 parent pre = throwE TempCreateFailed"
| "temp_create (Suc n) parent pre =
     bindE (random_temp_name pre) (\<lambda>name.
     let p = parent @ name in
     bindE (sys TempCreateFailed) (\<lambda>_.
     bindE (getsE (\<lambda>w. map_of (v_files w) p)) (\<lambda>existing.
     if existing \<noteq> None then temp_create n parent pre
     else
       bindE (modifyE (\<lambda>w. w\<lparr>v_files := AList.update p (Regular []) (v_files w), v_armed := p # v_armed w\<rparr>)) (\<lambda>_.
       bindE (tryE (sys TempCreateFailed)) (\<lambda>identity. case identity of
         Inr _ \<Rightarrow> returnE p
       | Inl e \<Rightarrow> bindE (disarm p) (\<lambda>_. throwE e))))))"

text \<open>The destructor of the guard of \<open>p\<close>, on every exit of its scope; a failed removal is ignored.\<close>

definition drop_temp :: "string \<Rightarrow> 'db vault_world \<Rightarrow> 'db vault_world" where
  "drop_temp p w = (if p \<in> set (v_armed w)
     then (case sys TempCreateFailed w of (r, t) \<Rightarrow>
       t\<lparr>v_files := (if r = Inr () then AList.delete p (v_files t) else v_files t),
         v_armed := removeAll p (v_armed t)\<rparr>)
     else w)"

definition with_temp ::
    "('db, string) vault_op \<Rightarrow> (string \<Rightarrow> ('db, 'a) vault_op) \<Rightarrow> ('db, 'a) vault_op" where
  "with_temp create body =
     bindE create (\<lambda>p. \<lambda>w. case body p w of (r, t) \<Rightarrow> (r, drop_temp p t))"

definition write_temp :: "SessionError \<Rightarrow> string \<Rightarrow> bytes \<Rightarrow> ('db, unit) vault_op" where
  "write_temp e p bs =
     bindE (sys e) (\<lambda>_. modifyE (\<lambda>w. w\<lparr>v_files := AList.update p (Regular bs) (v_files w)\<rparr>))"

subsection \<open>The session\<close>

definition is_dirty :: "'db VaultSession \<Rightarrow> bool" where
  "is_dirty s = has_changes_since (vs_document s) (vs_saved_revision s)"

definition require_source_unchanged :: "'db vault_ext \<Rightarrow> ('db, unit) vault_op" where
  "require_source_unchanged ext =
     bindE (getsE v_session) (\<lambda>s.
     bindE (validate_current_target (vs_path s)) (\<lambda>_.
     bindE (fingerprint_path ext (vs_path s)) (\<lambda>fp.
     if fp = vs_source_fingerprint s then returnE () else throwE ExternalModificationDetected)))"

definition verify_save_credential :: "'db vault_ext \<Rightarrow> KdbxCredential \<Rightarrow> ('db, unit) vault_op" where
  "verify_save_credential ext cred =
     bindE (getsE v_session) (\<lambda>s.
     bindE (tryE (open_document_with_credential ext (vs_path s) cred)) (\<lambda>r. case r of
       Inr _ \<Rightarrow> returnE ()
     | Inl e \<Rightarrow> if e = InvalidCredentials then throwE CredentialMismatch
                else throwE (CredentialVerificationFailed e)))"

definition reject_symlink_if_present :: "SessionError \<Rightarrow> string \<Rightarrow> ('db, unit) vault_op" where
  "reject_symlink_if_present e p =
     bindE (sys e) (\<lambda>_. bindE (getsE (\<lambda>w. map_of (v_files w) p)) (\<lambda>n.
     if pred_option is_regular n then returnE () else throwE e))"

text \<open>The body of \<open>prepare_backup\<close>, inside the guard of the temporary file \<open>b\<close>.\<close>

definition fill_backup :: "'db vault_ext \<Rightarrow> string \<Rightarrow> ('db, unit) vault_op" where
  "fill_backup ext b =
     bindE (getsE v_session) (\<lambda>s.
     bindE (read_file BackupFailed (vs_path s)) (\<lambda>bs.
     bindE (write_temp BackupFailed b bs) (\<lambda>_.
     if fingerprint ext bs \<noteq> vs_source_fingerprint s then throwE ExternalModificationDetected
     else
       bindE (sys BackupFailed) (\<lambda>_.  \<comment> \<open>flush\<close>
       bindE (sys BackupFailed) (\<lambda>_.  \<comment> \<open>sync_all\<close>
       bindE (sys BackupFailed) (\<lambda>_.  \<comment> \<open>apply_restricted_permissions\<close>
       bindE (sys BackupFailed) (\<lambda>_.  \<comment> \<open>sync_path\<close>
       bindE (read_file BackupFailed b) (\<lambda>copied.
       if fingerprint ext copied \<noteq> vs_source_fingerprint s then throwE BackupVerificationFailed
       else returnE ()))))))))"

definition create_backup_temp :: "string \<Rightarrow> ('db, string) vault_op" where
  "create_backup_temp p =
     bindE (reject_symlink_if_present BackupFailed (backup_path p)) (\<lambda>_.
     map_errE (\<lambda>e. if e = TempCreateFailed then BackupTempFailed else e)
       (temp_create TEMP_CREATE_ATTEMPTS (parent_of p) ''.nian-pass-backup-''))"

definition rename_file :: "SessionError \<Rightarrow> string \<Rightarrow> string \<Rightarrow> ('db, unit) vault_op" where
  "rename_file e from to =
     bindE (sys e) (\<lambda>_. bindE (getsE (\<lambda>w. (map_of (v_files w) from, map_of (v_files w) to))) (\<lambda>(src, dst).
     case src of
       None \<Rightarrow> throwE e
     | Some nd \<Rightarrow> if dst = Some Directory then throwE e
         else modifyE (\<lambda>w. w\<lparr>v_files := AList.update to nd (AList.delete from (v_files w))\<rparr>)))"

text \<open>\<open>replace_primary\<close>: the rename over the vault file, recorded in the history.\<close>

definition replace_primary :: "string \<Rightarrow> string \<Rightarrow> ('db, unit) vault_op" where
  "replace_primary prepared p =
     bindE (sys AtomicReplaceFailed) (\<lambda>_.
     bindE (getsE (\<lambda>w. (map_of (v_files w) prepared, map_of (v_files w) p))) (\<lambda>(src, dst).
     case src of
       None \<Rightarrow> throwE AtomicReplaceFailed
     | Some nd \<Rightarrow> if dst = Some Directory then throwE AtomicReplaceFailed
         else modifyE (\<lambda>w. w\<lparr>v_files := AList.update p nd (AList.delete prepared (v_files w)),
                v_history := v_history w @ (case (dst, nd) of
                  (Some (Regular old), Regular new) \<Rightarrow> [(old, new)] | _ \<Rightarrow> [])\<rparr>)))"

definition commit_backup :: "string \<Rightarrow> string \<Rightarrow> ('db, unit) vault_op" where
  "commit_backup b p =
     bindE (reject_symlink_if_present SavedButBackupUpdateFailed (backup_path p)) (\<lambda>_.
     bindE (rename_file SavedButBackupUpdateFailed b (backup_path p)) (\<lambda>_.
     bindE (disarm b) (\<lambda>_.
     bindE (sys SavedButBackupDurabilityUncertain) (\<lambda>_. sys SavedButBackupDurabilityUncertain))))"

text \<open>\<open>sync_parent\<close> after the replacement: its result is kept and returned at the very end.\<close>

definition sync_parent :: "('db, SessionError + unit) vault_op" where
  "sync_parent = tryE (bindE (sys DurabilityUncertain) (\<lambda>_. sys DurabilityUncertain))"

subsection \<open>Replacing the vault file\<close>

text \<open>
  The last part of \<open>save\<close> and of \<open>replace_encrypted_if_unchanged\<close>, from the last check of the
  source to the end: \<open>p\<close> is the verified temporary file, \<open>b\<close> the filled backup, \<open>doc\<close> the document
  the file must hold. Sync passes the expected fingerprint and takes the reopened document over;
  save keeps its own document.
\<close>

definition finish_replace ::
    "'db vault_ext \<Rightarrow> KdbxCredential \<Rightarrow> string \<Rightarrow> string \<Rightarrow> 'db KdbxDocument \<Rightarrow> FileFingerprint option \<Rightarrow>
     ('db, unit) vault_op" where
  "finish_replace ext cred p b doc expected =
     bindE (require_source_unchanged ext) (\<lambda>_.
     bindE (getsE v_session) (\<lambda>s.
     bindE (replace_primary p (vs_path s)) (\<lambda>_.
     bindE (disarm p) (\<lambda>_.
     bindE sync_parent (\<lambda>durability.
     bindE (map_errE map_final_open_error
        (open_stable_document_with_credential ext (vs_path s) cred)) (\<lambda>(final_document, final_fingerprint).
     bindE (modifyE (\<lambda>w. w\<lparr>v_checks := v_checks w @ [(final_document, final_fingerprint)]\<rparr>)) (\<lambda>_.
     if \<not> pred_option (\<lambda>fp. fp = final_fingerprint) expected then throwE FinalExternalModificationDetected
     else
       bindE (liftE (map_err FinalVerificationFailed
          (verify_semantic_equivalence (vx_kdbx ext) doc final_document))) (\<lambda>_.
       bindE (modifyE (\<lambda>w. w\<lparr>v_session :=
          (let document = (if expected = None then vs_document s else final_document) in
           s\<lparr>vs_document := document, vs_source_fingerprint := final_fingerprint,
             vs_saved_revision := kd_revision document\<rparr>)\<rparr>)) (\<lambda>_.
       bindE (commit_backup b (vs_path s)) (\<lambda>_.
       liftE durability))))))))))"

text \<open>The body of \<open>persist_with_credentials\<close> inside the guard of the temporary file \<open>p\<close>.\<close>

definition persist_body :: "'db vault_ext \<Rightarrow> KdbxCredential \<Rightarrow> string \<Rightarrow> ('db, SaveOutcome) vault_op" where
  "persist_body ext target p =
     bindE (getsE v_session) (\<lambda>s.
     bindE (getsE v_seed) (\<lambda>seed.
     bindE (modifyE (\<lambda>w. w\<lparr>v_seed := Suc seed\<rparr>)) (\<lambda>_.
     bindE (liftE (map_err Kdbx
        (save_to_writer_with_credential (vx_kdbx ext) seed (vs_document s) target))) (\<lambda>bs.
     bindE (write_temp (Kdbx WriteIo) p bs) (\<lambda>_.
     bindE (sys WriteTemp) (\<lambda>_.  \<comment> \<open>flush\<close>
     bindE (sys SyncTemp) (\<lambda>_.   \<comment> \<open>sync_all\<close>
     bindE (map_errE TempVerificationFailed (open_document_with_credential ext p target)) (\<lambda>reopened.
     bindE (liftE (map_err TempVerificationFailed
        (verify_semantic_equivalence (vx_kdbx ext) (vs_document s) reopened))) (\<lambda>_.
     bindE (require_source_unchanged ext) (\<lambda>_.
     bindE (sys WriteTemp) (\<lambda>_.  \<comment> \<open>apply_restricted_permissions\<close>
     bindE (sys SyncTemp) (\<lambda>_.   \<comment> \<open>sync_path\<close>
     with_temp (create_backup_temp (vs_path s)) (\<lambda>b.
     bindE (fill_backup ext b) (\<lambda>_.
     bindE (finish_replace ext target p b (vs_document s) None) (\<lambda>_.
     returnE Saved)))))))))))))))"

definition persist_with_credentials ::
    "'db vault_ext \<Rightarrow> KdbxCredential \<Rightarrow> KdbxCredential \<Rightarrow> bool \<Rightarrow> ('db, SaveOutcome) vault_op" where
  "persist_with_credentials ext current target force_reencrypt =
     bindE (getsE v_session) (\<lambda>s.
     if \<not> force_reencrypt \<and> \<not> is_dirty s then returnE Unchanged
     else
       bindE (validate_current_target (vs_path s)) (\<lambda>_.
       bindE (require_source_unchanged ext) (\<lambda>_.
       bindE (verify_save_credential ext current) (\<lambda>_.
       with_temp (temp_create TEMP_CREATE_ATTEMPTS (parent_of (vs_path s)) ''.nian-pass-save-'')
         (persist_body ext target)))))"

definition save_with_credential :: "'db vault_ext \<Rightarrow> KdbxCredential \<Rightarrow> ('db, SaveOutcome) vault_op" where
  "save_with_credential ext cred = persist_with_credentials ext cred cred False"

definition rotate_credential ::
    "'db vault_ext \<Rightarrow> KdbxCredential \<Rightarrow> KdbxCredential \<Rightarrow> ('db, SaveOutcome) vault_op" where
  "rotate_credential ext current replacement = persist_with_credentials ext current replacement True"

subsection \<open>Exchange with synchronization\<close>

record EncryptedVaultSnapshot =
  ev_ciphertext :: bytes
  ev_fingerprint :: FileFingerprint

definition capture_encrypted :: "'db vault_ext \<Rightarrow> ('db, EncryptedVaultSnapshot) vault_op" where
  "capture_encrypted ext =
     bindE (getsE v_session) (\<lambda>s.
     if is_dirty s then throwE UnsavedChanges
     else
       bindE (require_source_unchanged ext) (\<lambda>_.
       bindE (read_file ReadSource (vs_path s)) (\<lambda>bs.
       bindE (require_source_unchanged ext) (\<lambda>_.
       if fingerprint ext bs \<noteq> vs_source_fingerprint s then throwE ExternalModificationDetected
       else returnE \<lparr>ev_ciphertext = bs, ev_fingerprint = fingerprint ext bs\<rparr>))))"

definition replace_body ::
    "'db vault_ext \<Rightarrow> bytes \<Rightarrow> KdbxCredential \<Rightarrow> 'db KdbxDocument \<Rightarrow> string \<Rightarrow> ('db, unit) vault_op" where
  "replace_body ext ct cred candidate p =
     bindE (getsE v_session) (\<lambda>s.
     bindE (write_temp WriteTemp p ct) (\<lambda>_.
     bindE (sys WriteTemp) (\<lambda>_.  \<comment> \<open>flush\<close>
     bindE (sys SyncTemp) (\<lambda>_.   \<comment> \<open>sync_all\<close>
     bindE (map_errE TempVerificationFailed (open_document_with_credential ext p cred)) (\<lambda>reopened.
     bindE (liftE (map_err TempVerificationFailed
        (verify_semantic_equivalence (vx_kdbx ext) candidate reopened))) (\<lambda>_.
     bindE (fingerprint_path ext p) (\<lambda>fp.
     if fp \<noteq> fingerprint ext ct then throwE (TempVerificationFailed VerificationFailed)
     else
       bindE (sys WriteTemp) (\<lambda>_.  \<comment> \<open>apply_restricted_permissions\<close>
       bindE (sys SyncTemp) (\<lambda>_.   \<comment> \<open>sync_path\<close>
       bindE (require_source_unchanged ext) (\<lambda>_.
       with_temp (create_backup_temp (vs_path s)) (\<lambda>b.
       bindE (fill_backup ext b) (\<lambda>_.
       finish_replace ext cred p b candidate (Some (fingerprint ext ct))))))))))))))"

definition replace_encrypted_if_unchanged ::
    "'db vault_ext \<Rightarrow> FileFingerprint \<Rightarrow> bytes \<Rightarrow> KdbxCredential \<Rightarrow> ('db, unit) vault_op" where
  "replace_encrypted_if_unchanged ext expected ct cred =
     bindE (getsE v_session) (\<lambda>s.
     if is_dirty s then throwE UnsavedChanges
     else if expected \<noteq> vs_source_fingerprint s then throwE ExternalModificationDetected
     else
       bindE (validate_current_target (vs_path s)) (\<lambda>_.
       bindE (require_source_unchanged ext) (\<lambda>_.
       bindE (liftE (map_err TempVerificationFailed (open_reader_with_credential (vx_kdbx ext) ct cred))) (\<lambda>candidate.
       with_temp (temp_create TEMP_CREATE_ATTEMPTS (parent_of (vs_path s)) ''.nian-pass-save-'')
         (replace_body ext ct cred candidate)))))"

end
