(* ===== verification/Vault_Safety.thy ===== *)
theory Vault_Safety
  imports Vault_Session
begin

section \<open>What a session writes over the vault file\<close>

text \<open>
  Whatever fails and whatever other processes do in between, a save or a replacement by sync
  renames at most one file over the vault, and that file holds bytes that were read back and
  verified before. The second part of the theory is about runs without other writers.
\<close>

subsection \<open>Steps that replace nothing\<close>

definition quiet :: "('db vault_world, 'e, 'a) op \<Rightarrow> bool" where
  "quiet m \<longleftrightarrow> (\<forall>w. v_history (snd (m w)) = v_history w)"

lemma quietD: "quiet m \<Longrightarrow> wpE m (\<lambda>_ t. v_history t = v_history w) (\<lambda>_ t. v_history t = v_history w) w"
  unfolding quiet_def wpE_def by (auto split: prod.splits sum.splits dest!: spec [where x = w])

lemma quiet_bindE: "quiet m \<Longrightarrow> (\<And>a. quiet (f a)) \<Longrightarrow> quiet (bindE m f)"
  unfolding quiet_def bindE_def by (auto split: prod.splits sum.splits) (metis snd_conv)+

lemma quiet_modifyE: "(\<And>w. v_history (f w) = v_history w) \<Longrightarrow> quiet (modifyE f)"
  by (simp add: quiet_def modifyE_def)

lemma quiet_map_errE: "quiet m \<Longrightarrow> quiet (map_errE g m)"
  unfolding quiet_def map_errE_def by (auto split: prod.splits sum.splits) (metis snd_conv)+

lemma quiet_tryE: "quiet m \<Longrightarrow> quiet (tryE m)"
  unfolding quiet_def tryE_def by (auto split: prod.splits) (metis snd_conv)

lemma sys_history [simp]: "v_history (snd (sys e w)) = v_history w"
  by (simp add: sys_def split: list.split fs_event.split)

lemma quiet_simple [simp]:
  "quiet (returnE a)" "quiet (throwE e)" "quiet (liftE r)" "quiet (getsE f)" "quiet (sys e)" "quiet (disarm p)"
  by (simp_all add: quiet_def returnE_def throwE_def liftE_def getsE_def disarm_def modifyE_def)

lemmas quiet_intros = quiet_bindE quiet_modifyE quiet_map_errE quiet_tryE

lemma quiet_files [simp]:
  "quiet (read_file e p)" "quiet (write_temp e p bs)" "quiet (reject_symlink_if_present e p)"
  "quiet (rename_file e p q)" "quiet (validate_current_target p)"
  unfolding read_file_def write_temp_def reject_symlink_if_present_def rename_file_def
    validate_current_target_def
  by (auto intro!: quiet_intros split: option.split node.split prod.split)

lemma quiet_reads [simp]:
  "quiet (fingerprint_path ext p)" "quiet (open_document_with_credential ext p cred)"
  "quiet (require_source_unchanged ext)"
  unfolding fingerprint_path_def open_document_with_credential_def require_source_unchanged_def
  by (auto intro!: quiet_intros)

lemma quiet_open_stable [simp]: "quiet (open_stable_document_with_credential ext p cred)"
  unfolding open_stable_document_with_credential_def by (auto intro!: quiet_intros)

lemma quiet_session [simp]:
  "quiet (verify_save_credential ext cred)" "quiet (fill_backup ext b)" "quiet (commit_backup b p)"
  "quiet sync_parent" "quiet (capture_encrypted ext)"
  unfolding verify_save_credential_def fill_backup_def commit_backup_def sync_parent_def capture_encrypted_def
  by (auto intro!: quiet_intros split: sum.split)

lemma quiet_random_temp_name [simp]: "quiet (random_temp_name pre)"
  unfolding random_temp_name_def by (rule quiet_bindE) (simp_all add: quiet_def)

lemma quiet_temp_create [simp]: "quiet (temp_create n parent pre)"
  by (induction n) (auto simp: Let_def intro!: quiet_intros split: sum.split)

lemma quiet_create_backup_temp [simp]: "quiet (create_backup_temp p)"
  unfolding create_backup_temp_def by (auto intro!: quiet_intros)

lemma drop_temp_history [simp]: "v_history (drop_temp p w) = v_history w"
  by (cases "sys TempCreateFailed w") (use sys_history [of TempCreateFailed w] in \<open>auto simp: drop_temp_def\<close>)

text \<open>The guard of a temporary file adds nothing to the history.\<close>

lemma wpE_with_temp_history:
  assumes "wpE create (\<lambda>p. wpE (body p) (\<lambda>_ t. P (v_history t)) (\<lambda>_ t. P (v_history t))) (\<lambda>_ t. P (v_history t)) w"
  shows "wpE (with_temp create body) (\<lambda>_ t. P (v_history t)) (\<lambda>_ t. P (v_history t)) w"
  using assms unfolding with_temp_def wpE_bindE
  by (auto simp: wpE_def split: prod.splits sum.splits)

subsection \<open>Steps that keep the session\<close>

definition same_session :: "('db vault_world, 'e, 'a) op \<Rightarrow> bool" where
  "same_session m \<longleftrightarrow> (\<forall>w. v_session (snd (m w)) = v_session w \<and> v_checks (snd (m w)) = v_checks w)"

lemma same_session_wpE:
  "same_session m \<Longrightarrow> wpE m (\<lambda>_ t. v_session t = v_session w \<and> v_checks t = v_checks w)
     (\<lambda>_ t. v_session t = v_session w \<and> v_checks t = v_checks w) w"
  unfolding same_session_def wpE_def by (auto split: prod.splits sum.splits dest!: spec [where x = w])

lemma same_session_bindE: "same_session m \<Longrightarrow> (\<And>a. same_session (f a)) \<Longrightarrow> same_session (bindE m f)"
  unfolding same_session_def bindE_def by (auto split: prod.splits sum.splits) (metis snd_conv)+

lemma same_session_modifyE:
  "(\<And>w. v_session (f w) = v_session w) \<Longrightarrow> (\<And>w. v_checks (f w) = v_checks w) \<Longrightarrow> same_session (modifyE f)"
  by (simp add: same_session_def modifyE_def)

lemma same_session_map_errE: "same_session m \<Longrightarrow> same_session (map_errE g m)"
  unfolding same_session_def map_errE_def by (auto split: prod.splits sum.splits) (metis snd_conv)+

lemma same_session_tryE: "same_session m \<Longrightarrow> same_session (tryE m)"
  unfolding same_session_def tryE_def by (auto split: prod.splits) (metis snd_conv)+

lemma same_session_simple [simp]:
  "same_session (returnE a)" "same_session (throwE e)" "same_session (liftE r)" "same_session (getsE f)"
  "same_session (sys e)" "same_session (disarm p)"
  by (simp_all add: same_session_def returnE_def throwE_def liftE_def getsE_def disarm_def modifyE_def
      sys_def split: list.split fs_event.split)

lemmas same_session_intros =
  same_session_bindE same_session_modifyE same_session_map_errE same_session_tryE

lemma same_session_temp_create [simp]: "same_session (temp_create n parent pre)"
proof -
  have "same_session (random_temp_name pre)"
    unfolding random_temp_name_def
    by (rule same_session_bindE, rule same_session_simple) (simp add: same_session_def)
  then show ?thesis
    by (induction n) (auto simp: Let_def intro!: same_session_intros split: sum.split)
qed

lemma same_session_reads [simp]:
  "same_session (read_file e p)" "same_session (validate_current_target p)" "same_session (fingerprint_path ext p)"
  "same_session (open_document_with_credential ext p cred)" "same_session (require_source_unchanged ext)"
  "same_session (verify_save_credential ext cred)"
  unfolding read_file_def validate_current_target_def fingerprint_path_def open_document_with_credential_def
    require_source_unchanged_def verify_save_credential_def
  by (auto intro!: same_session_intros split: option.split node.split sum.split)

lemma same_session_capture [simp]: "same_session (capture_encrypted ext)"
  unfolding capture_encrypted_def by (auto intro!: same_session_intros)

subsection \<open>The verified temporary file\<close>

definition holds_temp :: "string \<Rightarrow> bytes \<Rightarrow> (bytes \<times> bytes) list \<Rightarrow> 'db vault_world \<Rightarrow> bool" where
  "holds_temp p bs h w \<longleftrightarrow>
     map_of (v_files w) p = Some (Regular bs) \<and> p \<in> set (v_armed w) \<and> v_history w = h"

lemma holds_temp_sys [simp]: "preserves (holds_temp p bs h) (sys e)"
  by (auto simp: preserves_def holds_temp_def sys_def update_conv' delete_conv' restrict_map_def
      split: list.split fs_event.split option.split)

lemma holds_temp_files [simp]:
  "preserves (holds_temp p bs h) (read_file e q)" "preserves (holds_temp p bs h) (reject_symlink_if_present e q)"
  "preserves (holds_temp p bs h) (validate_current_target q)" "preserves (holds_temp p bs h) (random_temp_name pre)"
proof -
  show "preserves (holds_temp p bs h) (random_temp_name pre)"
    unfolding random_temp_name_def
    by (rule preserves_bindE, rule holds_temp_sys) (simp add: preserves_def holds_temp_def)
qed (auto simp: read_file_def reject_symlink_if_present_def validate_current_target_def
    intro!: preserves_intros split: option.split node.split)

lemma holds_temp_write [simp]: "b \<noteq> p \<Longrightarrow> preserves (holds_temp p bs h) (write_temp e b cs)"
  unfolding write_temp_def
  by (auto intro!: preserves_intros) (simp add: holds_temp_def update_conv')

lemma holds_temp_reads [simp]:
  "preserves (holds_temp p bs h) (fingerprint_path ext q)"
  "preserves (holds_temp p bs h) (open_document_with_credential ext q cred)"
  "preserves (holds_temp p bs h) (require_source_unchanged ext)"
  unfolding fingerprint_path_def open_document_with_credential_def require_source_unchanged_def
  by (auto intro!: preserves_intros)

lemma holds_temp_fill_backup [simp]: "b \<noteq> p \<Longrightarrow> preserves (holds_temp p bs h) (fill_backup ext b)"
  unfolding fill_backup_def by (auto intro!: preserves_intros)

lemma holds_temp_disarm [simp]:
  "b \<noteq> p \<Longrightarrow> holds_temp p bs h (w\<lparr>v_armed := removeAll b (v_armed w)\<rparr>) = holds_temp p bs h w"
  by (simp add: holds_temp_def)

text \<open>A second temporary file is a different file.\<close>

lemma temp_create_other:
  "holds_temp p bs h w \<Longrightarrow> wpE (temp_create n parent pre) (\<lambda>b t. holds_temp p bs h t \<and> b \<noteq> p)
    (\<lambda>_. holds_temp p bs h) w"
proof (induction n arbitrary: w)
  case 0
  then show ?case by (simp add: wp_simps)
next
  case (Suc n)
  let ?I = "holds_temp p bs h"
  have create: "wpE (bindE (modifyE (\<lambda>w. w\<lparr>v_files := AList.update b (Regular []) (v_files w),
        v_armed := b # v_armed w\<rparr>)) (\<lambda>_.
      bindE (tryE (sys TempCreateFailed)) (\<lambda>identity. case identity of
        Inr _ \<Rightarrow> returnE b | Inl e \<Rightarrow> bindE (disarm b) (\<lambda>_. throwE e))))
      (\<lambda>b t. ?I t \<and> b \<noteq> p) (\<lambda>_. ?I) w"
    if w: "?I w" "map_of (v_files w) b = None" for b w
  proof -
    have "b \<noteq> p" using w by (auto simp: holds_temp_def)
    moreover from this w have "?I (w\<lparr>v_files := AList.update b (Regular []) (v_files w), v_armed := b # v_armed w\<rparr>)"
      by (auto simp: holds_temp_def update_conv')
    ultimately show ?thesis
      by (simp add: wpE_bindE wpE_modifyE wpE_tryE)
        (rule wpE_mono [OF preservesD [OF holds_temp_sys]], auto simp: wp_simps disarm_def)
  qed
  show ?case
    unfolding temp_create.simps Let_def wpE_bindE
    by (rule wpE_mono [OF preservesD [OF holds_temp_files(4) Suc.prems]],
        rule wpE_mono [OF preservesD [OF holds_temp_sys]])
      (use create in \<open>auto simp: wp_simps Suc.IH\<close>)
qed

lemma create_backup_temp_other:
  assumes "holds_temp p bs h w"
  shows "wpE (create_backup_temp q) (\<lambda>b t. holds_temp p bs h t \<and> b \<noteq> p) (\<lambda>_. holds_temp p bs h) w"
  unfolding create_backup_temp_def wpE_bindE wpE_map_errE
  by (rule wpE_mono [OF preservesD [OF holds_temp_files(2) assms]]) (auto intro: temp_create_other)

subsection \<open>Replacing the vault file\<close>

definition installs :: "(bytes \<times> bytes) list \<Rightarrow> bytes \<Rightarrow> (bytes \<times> bytes) list \<Rightarrow> bool" where
  "installs h bs h' \<longleftrightarrow> extends_by h (\<lambda>(old, new). new = bs) h'"

lemma installs_refl: "holds_temp p bs h w \<Longrightarrow> installs h bs (v_history w)"
  by (simp add: installs_def holds_temp_def)

lemma replace_primary_installs:
  assumes "holds_temp p bs h w"
  shows "wpE (replace_primary p q) (\<lambda>_ t. installs h bs (v_history t)) (\<lambda>_ t. installs h bs (v_history t)) w"
  unfolding replace_primary_def wpE_bindE
  by (rule wpE_mono [OF preservesD [OF holds_temp_sys assms]])
    (auto simp: wp_simps holds_temp_def installs_def extends_by_def split: option.split node.split)

lemma quiet_installs:
  "quiet m \<Longrightarrow> installs h bs (v_history w) \<Longrightarrow>
   wpE m (\<lambda>_ t. installs h bs (v_history t)) (\<lambda>_ t. installs h bs (v_history t)) w"
  by (rule wpE_mono [OF quietD]) auto

lemma finish_replace_installs:
  assumes "holds_temp p bs h w"
  shows "wpE (finish_replace ext cred p b doc expected) (\<lambda>_ t. installs h bs (v_history t))
    (\<lambda>_ t. installs h bs (v_history t)) w"
  unfolding finish_replace_def wpE_bindE
  by (rule wpE_mono [OF preservesD [OF holds_temp_reads(3) assms]], simp only: wpE_getsE,
      erule wpE_mono [OF replace_primary_installs])
    (auto simp only: wpE_bindE [symmetric] intro!: quiet_installs quiet_intros quiet_simple quiet_session
      quiet_open_stable intro: installs_refl split: prod.split if_split, simp_all)

text \<open>From the moment the temporary file is verified.\<close>

lemma guarded_replace_installs:
  assumes "holds_temp p bs h w"
  shows "wpE (with_temp (create_backup_temp q) (\<lambda>b. bindE (fill_backup ext b) (\<lambda>_.
      bindE (finish_replace ext cred p b doc expected) (\<lambda>_. returnE a))))
    (\<lambda>_ t. installs h bs (v_history t)) (\<lambda>_ t. installs h bs (v_history t)) w"
proof -
  have "wpE (bindE (fill_backup ext b) (\<lambda>_. bindE (finish_replace ext cred p b doc expected) (\<lambda>_. returnE a)))
      (\<lambda>_ t. installs h bs (v_history t)) (\<lambda>_ t. installs h bs (v_history t)) t"
    if "holds_temp p bs h t" "b \<noteq> p" for b t
    unfolding wp_simps
    by (rule wpE_mono [OF preservesD [OF holds_temp_fill_backup]])
      (use that in \<open>auto intro: finish_replace_installs installs_refl\<close>)
  then show ?thesis
    by (intro wpE_with_temp_history wpE_mono [OF create_backup_temp_other [OF assms]])
      (auto intro: installs_refl)
qed

text \<open>\<open>extends_by\<close> seen from the guard of the temporary file: a property of what is installed.\<close>

lemma installs_extends: "installs h bs h' \<Longrightarrow> P bs \<Longrightarrow> extends_by h (\<lambda>(old, new). P new) h'"
  by (auto simp: installs_def extends_by_def)

lemma wpE_sys_frame:
  "wpE (sys e) (\<lambda>_ t. v_armed t = v_armed w \<and> v_history t = v_history w \<and> v_session t = v_session w)
     (\<lambda>_ t. v_armed t = v_armed w \<and> v_history t = v_history w \<and> v_session t = v_session w) w"
  by (simp add: wpE_def sys_def split: list.split fs_event.split)

lemma write_temp_holds:
  assumes "p \<in> set (v_armed w)"
  shows "wpE (write_temp e p bs) (\<lambda>_. holds_temp p bs (v_history w)) (\<lambda>_ t. v_history t = v_history w) w"
  unfolding write_temp_def wpE_bindE
  by (rule wpE_mono [OF wpE_sys_frame]) (use assms in \<open>auto simp: wp_simps holds_temp_def update_conv'\<close>)

lemma temp_create_armed: "wpE (temp_create n parent pre) (\<lambda>p t. p \<in> set (v_armed t)) (\<lambda>_ _. True) w"
proof (induction n arbitrary: w)
  case (Suc n)
  show ?case
    unfolding temp_create.simps Let_def wpE_bindE
    by (rule wpE_mono [OF wpE_trivial_intro], rule wpE_mono [OF wpE_trivial_intro])
      (auto simp: wp_simps Suc.IH disarm_def intro!: wpE_mono [OF wpE_sys_frame])
qed (simp add: wp_simps)

text \<open>\<open>replace_encrypted_if_unchanged\<close> and \<open>save\<close>: at most one replacement, of verified bytes.\<close>

lemmas holds_temp_steps =
  wpE_mono [OF preservesD [OF holds_temp_sys]] wpE_mono [OF preservesD [OF holds_temp_reads(1)]]
  wpE_mono [OF preservesD [OF holds_temp_reads(2)]] wpE_mono [OF preservesD [OF holds_temp_reads(3)]]

lemma replace_body_installs:
  assumes "p \<in> set (v_armed w)"
  shows "wpE (replace_body ext ct cred candidate p) (\<lambda>_ t. installs (v_history w) ct (v_history t))
    (\<lambda>_ t. installs (v_history w) ct (v_history t)) w"
proof -
  let ?h = "v_history w" let ?G = "\<lambda>_ t. installs (v_history w) ct (v_history t)"
  have fin: "wpE (with_temp (create_backup_temp q) (\<lambda>b. bindE (fill_backup ext b) (\<lambda>_.
      finish_replace ext cred p b candidate e))) ?G ?G t" if "holds_temp p ct ?h t" for q e t
    using guarded_replace_installs [OF that, of q ext cred candidate e "()"] by simp
  show ?thesis
    unfolding replace_body_def wpE_bindE wpE_getsE
    by (rule wpE_mono [OF write_temp_holds [OF assms]])
      (auto simp: wp_simps installs_def [of ?h ct ?h] intro!: fin holds_temp_steps installs_refl [of p] split: sum.split)
qed

lemma holds_temp_extends: "holds_temp p bs h t \<Longrightarrow> extends_by h P (v_history t)"
  by (simp add: holds_temp_def)

lemma holds_temp_bind:
  assumes "preserves (holds_temp p bs h) m" and "holds_temp p bs h w"
    and "\<And>a t. holds_temp p bs h t \<Longrightarrow>
      wpE (f a) (\<lambda>_ t. extends_by h P (v_history t)) (\<lambda>_ t. extends_by h P (v_history t)) t"
  shows "wpE (bindE m f) (\<lambda>_ t. extends_by h P (v_history t)) (\<lambda>_ t. extends_by h P (v_history t)) w"
  unfolding wpE_bindE
  by (rule wpE_mono [OF preservesD [OF assms(1,2)]]) (auto intro: assms(3) holds_temp_extends)

definition verified_bytes :: "'db vault_ext \<Rightarrow> KdbxCredential \<Rightarrow> 'db KdbxDocument \<Rightarrow> bytes \<Rightarrow> bool" where
  "verified_bytes ext cred doc bs \<longleftrightarrow> (\<exists>reopened. open_reader_with_credential (vx_kdbx ext) bs cred = Inr reopened \<and>
     verify_semantic_equivalence (vx_kdbx ext) doc reopened = Inr ())"

text \<open>Reading a temporary file back yields the bytes it holds.\<close>

lemma open_temp_holds:
  assumes "holds_temp p bs h w"
  shows "wpE (open_document_with_credential ext p cred)
    (\<lambda>doc t. holds_temp p bs h t \<and> open_reader_with_credential (vx_kdbx ext) bs cred = Inr doc)
    (\<lambda>_. holds_temp p bs h) w"
  unfolding open_document_with_credential_def read_file_def wpE_bindE wpE_map_errE
  by (rule wpE_mono [OF preservesD [OF holds_temp_sys assms]])
    (auto simp: wp_simps holds_temp_def split: sum.split)

lemma persist_body_installs:
  assumes "p \<in> set (v_armed w)"
  shows "wpE (persist_body ext target p)
    (\<lambda>_ t. extends_by (v_history w) (\<lambda>(old, new). verified_bytes ext target (vs_document (v_session w)) new) (v_history t))
    (\<lambda>_ t. extends_by (v_history w) (\<lambda>(old, new). verified_bytes ext target (vs_document (v_session w)) new) (v_history t)) w"
proof -
  let ?h = "v_history w" and ?doc = "vs_document (v_session w)"
  let ?G = "\<lambda>_ (t :: 'a vault_world). extends_by (v_history w) (\<lambda>(old, new). verified_bytes ext target (vs_document (v_session w)) new) (v_history t)"
  have tail: "wpE (bindE (require_source_unchanged ext) (\<lambda>_. bindE (sys WriteTemp) (\<lambda>_. bindE (sys SyncTemp) (\<lambda>_.
      with_temp (create_backup_temp q) (\<lambda>b. bindE (fill_backup ext b) (\<lambda>_.
      bindE (finish_replace ext target p b ?doc None) (\<lambda>_. returnE Saved))))))) ?G ?G t"
    if "holds_temp p bs ?h t" "verified_bytes ext target ?doc bs" for bs q t
  proof (intro holds_temp_bind [of p bs ?h])
    fix t :: "'a vault_world" assume "holds_temp p bs ?h t"
    from guarded_replace_installs [OF this]
    show "wpE (with_temp (create_backup_temp q) (\<lambda>b. bindE (fill_backup ext b) (\<lambda>_.
        bindE (finish_replace ext target p b ?doc None) (\<lambda>_. returnE Saved)))) ?G ?G t"
      by (rule wpE_mono) (use that(2) in \<open>auto intro: installs_extends\<close>)
  qed (use that in simp_all)
  have check: "wpE (bindE (map_errE TempVerificationFailed (open_document_with_credential ext p target)) (\<lambda>reopened.
      bindE (liftE (map_err TempVerificationFailed
        (verify_semantic_equivalence (vx_kdbx ext) ?doc reopened))) (\<lambda>_.
      bindE (require_source_unchanged ext) (\<lambda>_. bindE (sys WriteTemp) (\<lambda>_. bindE (sys SyncTemp) (\<lambda>_.
      with_temp (create_backup_temp q) (\<lambda>b. bindE (fill_backup ext b) (\<lambda>_.
      bindE (finish_replace ext target p b ?doc None) (\<lambda>_. returnE Saved))))))))) ?G ?G t"
    if "holds_temp p bs ?h t" for bs q t
    unfolding wpE_bindE [of "map_errE _ _"] wpE_bindE [of "liftE _"] wpE_map_errE
    by (rule wpE_mono [OF open_temp_holds [OF that]])
      (auto simp: wpE_liftE map_err_def verified_bytes_def intro!: tail dest: holds_temp_extends split: sum.splits)
  let ?w = "w\<lparr>v_seed := Suc (v_seed w)\<rparr>"
  have temp: "wpE (write_temp e p bs) (\<lambda>_. holds_temp p bs ?h) (\<lambda>_ t. v_history t = ?h) ?w" for e bs
    using write_temp_holds [of p ?w] assms by simp
  show ?thesis
    unfolding persist_body_def
    by (auto simp: wpE_getsE wpE_modifyE wpE_liftE wpE_bindE [of "getsE _"] wpE_bindE [of "modifyE _"]
        wpE_bindE [of "liftE _"] wpE_bindE [of "write_temp _ _ _"] intro!: wpE_mono [OF temp] check
        holds_temp_bind split: sum.split)
qed

text \<open>Both operations, from the start.\<close>

lemma with_temp_extends:
  assumes "\<And>p t. p \<in> set (v_armed t) \<Longrightarrow> v_history t = v_history w \<Longrightarrow> v_session t = v_session w \<Longrightarrow>
      wpE (body p) (\<lambda>_ t. extends_by (v_history w) P (v_history t)) (\<lambda>_ t. extends_by (v_history w) P (v_history t)) t"
  shows "wpE (with_temp (temp_create n parent pre) body)
    (\<lambda>_ t. extends_by (v_history w) P (v_history t)) (\<lambda>_ t. extends_by (v_history w) P (v_history t)) w"
proof (rule wpE_with_temp_history, rule wpE_mono)
  show "wpE (temp_create n parent pre)
      (\<lambda>p t. p \<in> set (v_armed t) \<and> v_history t = v_history w \<and> v_session t = v_session w)
      (\<lambda>_ t. v_history t = v_history w) w"
    by (rule wpE_mono [OF wpE_conj [OF temp_create_armed wpE_conj [OF quietD [OF quiet_temp_create]
            same_session_wpE [OF same_session_temp_create]]]]) auto
qed (use assms in auto)

lemma persist_history:
  "wpE (persist_with_credentials ext current target force)
    (\<lambda>_ t. extends_by (v_history w) (\<lambda>(old, new). verified_bytes ext target (vs_document (v_session w)) new) (v_history t))
    (\<lambda>_ t. extends_by (v_history w) (\<lambda>(old, new). verified_bytes ext target (vs_document (v_session w)) new) (v_history t)) w"
proof -
  let ?G = "\<lambda>_ (t :: 'a vault_world). extends_by (v_history w)
      (\<lambda>(old, new). verified_bytes ext target (vs_document (v_session w)) new) (v_history t)"
  have body: "wpE (with_temp (temp_create n par pre) (persist_body ext target)) ?G ?G t"
    if "v_history t = v_history w" "v_session t = v_session w" for n par pre t
  proof -
    have "wpE (persist_body ext target p)
        (\<lambda>_ u. extends_by (v_history t) (\<lambda>(old, new). verified_bytes ext target (vs_document (v_session t)) new) (v_history u))
        (\<lambda>_ u. extends_by (v_history t) (\<lambda>(old, new). verified_bytes ext target (vs_document (v_session t)) new) (v_history u)) s"
      if "p \<in> set (v_armed s)" "v_history s = v_history t" "v_session s = v_session t" for p s
      using persist_body_installs [OF that(1), of ext target] that(2,3) by simp
    from with_temp_extends [OF this] show ?thesis using that by simp
  qed
  have "wpE (bindE (validate_current_target q) (\<lambda>_. bindE (require_source_unchanged ext) (\<lambda>_.
      bindE (verify_save_credential ext current) (\<lambda>_.
      with_temp (temp_create TEMP_CREATE_ATTEMPTS par pre) (persist_body ext target))))) ?G ?G w" for q par pre
    unfolding wpE_bindE
    by (rule wpE_mono, rule wpE_conj [OF quietD same_session_wpE], simp, simp,
        rule wpE_mono, rule wpE_conj [OF quietD same_session_wpE], simp, simp,
        rule wpE_mono, rule wpE_conj [OF quietD same_session_wpE], simp, simp)
      (auto intro: body)
  then show ?thesis by (simp add: persist_with_credentials_def wp_simps)
qed

lemma replace_history:
  "wpE (replace_encrypted_if_unchanged ext expected ct cred)
    (\<lambda>_ t. extends_by (v_history w) (\<lambda>(old, new). new = ct) (v_history t))
    (\<lambda>_ t. extends_by (v_history w) (\<lambda>(old, new). new = ct) (v_history t)) w"
proof -
  let ?G = "\<lambda>_ (t :: 'a vault_world). extends_by (v_history w) (\<lambda>(old, new). new = ct) (v_history t)"
  have body: "wpE (with_temp (temp_create n par pre) (replace_body ext ct cred c)) ?G ?G t"
    if "v_history t = v_history w" for n par pre c t
  proof -
    have "wpE (replace_body ext ct cred c p) (\<lambda>_ u. extends_by (v_history t) (\<lambda>(old, new). new = ct) (v_history u))
        (\<lambda>_ u. extends_by (v_history t) (\<lambda>(old, new). new = ct) (v_history u)) s"
      if "p \<in> set (v_armed s)" "v_history s = v_history t" "v_session s = v_session t" for p s
      using replace_body_installs [OF that(1), of ext ct cred c] that(2) by (simp add: installs_def)
    from with_temp_extends [OF this] show ?thesis using that by simp
  qed
  have "wpE (bindE (validate_current_target q) (\<lambda>_. bindE (require_source_unchanged ext) (\<lambda>_.
      bindE (liftE r) (\<lambda>c. with_temp (temp_create TEMP_CREATE_ATTEMPTS par pre) (replace_body ext ct cred c))))) ?G ?G w"
    for q par pre r
    unfolding wpE_bindE
    by (rule wpE_mono, rule quietD, simp, rule wpE_mono, rule quietD, simp)
      (auto intro: body simp: wpE_liftE split: sum.split)
  then show ?thesis by (simp add: replace_encrypted_if_unchanged_def wp_simps)
qed

end
