(* ===== verification/Desktop_Local.thy ===== *)
theory Desktop_Local
  imports Vault_Safety Sync_Engine
begin

section \<open>The desktop application's vault as LOCAL\<close>

text \<open>
  Models the part of \<open>src/apps/desktop/src-tauri/src\<close> through which synchronization sees the open
  vault: \<open>sync/local.rs\<close>, \<open>state/sync_support.rs\<close>, the error type of \<open>state/error.rs\<close>, locking and
  the session token of \<open>state.rs\<close>, and the error mapping of \<open>sync/mod.rs\<close>.

  The service is a mutex around at most one session. The session itself is the one of the vault
  world, meaningful while \<open>dk_unlocked\<close> holds. Whoever else takes the mutex between two calls of the
  engine does so in \<open>dk_users\<close>: before each call the next list of user steps runs. \<open>dk_history\<close>
  records the replacements of the vault file made by synchronization; no operation reads it.
\<close>

datatype DesktopError = AlreadyUnlocked | Locked | NoVaultSelected | UnlockFailed | UnsupportedVault
  | VaultCreateFailed | VaultAlreadyExists | EntryNotFound | GroupNotFound | InvalidRequest
  | InvalidMove | HistoryChanged | HistoryRestoreUnsupported | AttachmentNotFound
  | AttachmentAlreadyExists | AttachmentTooLarge | AttachmentIoFailed | ReservedField
  | SecretUnavailable | UnsavedChanges | SaveFailed | SaveAuthenticationFailed | SaveUncertain
  | UnsupportedWriteFormat | UnsupportedPersistencePlatform | ReadOnlySource | ExternalChange
  | ReloadFailed | ClipboardFailed | Internal | OperationInProgress | SyncFailed
  | SyncRemoteChanged | SyncLocalChanged | SyncLocalChangedDuringRecovery | SyncRecoveryRequired
  | SyncStateUnsupported | SyncStateCorrupt | SyncUnsupportedProvider | SyncUnsafeProvider
  | SyncCredentialsRequired

datatype 'db user_step = EditDocument 'db | SaveVault KdbxCredential | LockVault | DiscardVault
  | UnlockVault "'db VaultSession" KdbxCredential

record 'db desktop =
  dk_world :: "'db vault_world"
  dk_unlocked :: bool
  dk_save_credential :: "KdbxCredential option"
  dk_browser_session_id :: "string option"
  dk_poisoned :: bool
  dk_users :: "'db user_step list list"
  dk_history :: "(bytes \<times> bytes) list"

type_synonym ('db, 'a) desktop_op = "('db desktop, DesktopError, 'a) op"

definition on_session :: "('db vault_world, 'e, 'a) op \<Rightarrow> ('db desktop, 'e, 'a) op" where
  "on_session m = (\<lambda>d. case m (dk_world d) of (r, w) \<Rightarrow> (r, d\<lparr>dk_world := w\<rparr>))"

definition require_session :: "('db, unit) desktop_op" where
  "require_session = bindE (getsE dk_unlocked) (\<lambda>unlocked. if unlocked then returnE () else throwE Locked)"

subsection \<open>The service\<close>

definition random_process_token :: "('db, string) desktop_op" where
  "random_process_token =
     bindE (map_errE (\<lambda>_. Internal) (on_session (sys TempRandomFailed))) (\<lambda>_. \<lambda>d.
       (Inr (hex_encode (v_random (dk_world d) (v_random_index (dk_world d)))),
        d\<lparr>dk_world := (dk_world d)\<lparr>v_random_index := Suc (v_random_index (dk_world d))\<rparr>\<rparr>))"

definition discard_and_lock :: "('db, unit) desktop_op" where
  "discard_and_lock =
     bindE require_session (\<lambda>_.
     modifyE (\<lambda>d. d\<lparr>dk_unlocked := False, dk_save_credential := None, dk_browser_session_id := None\<rparr>))"

definition service_lock :: "('db, unit) desktop_op" where
  "service_lock =
     bindE require_session (\<lambda>_.
     bindE (getsE (\<lambda>d. is_dirty (v_session (dk_world d)))) (\<lambda>dirty.
     if dirty then throwE UnsavedChanges else discard_and_lock))"

text \<open>\<open>bytes\<close> of a path on Unix.\<close>

definition source_binding :: "'x core_ext_scheme \<Rightarrow> string \<Rightarrow> string" where
  "source_binding ext path = digest_as_str (CiphertextDigest_of ext (as_bytes path))"

definition map_sync_session_error :: "SessionError \<Rightarrow> DesktopError" where
  "map_sync_session_error e = (case e of
     SessionError.UnsavedChanges \<Rightarrow> UnsavedChanges
   | ExternalModificationDetected \<Rightarrow> ExternalChange
   | FinalExternalModificationDetected \<Rightarrow> ExternalChange
   | UnsupportedPath \<Rightarrow> ExternalChange
   | ReadSource \<Rightarrow> ExternalChange
   | SessionError.UnsupportedPersistencePlatform \<Rightarrow> SyncUnsupportedProvider
   | CredentialMismatch \<Rightarrow> SyncCredentialsRequired
   | TempVerificationFailed k \<Rightarrow> if k = InvalidCredentials then SyncCredentialsRequired else SyncFailed
   | _ \<Rightarrow> SyncFailed)"

record DesktopSyncCapture =
  dc_source_binding :: string
  dc_authority :: string
  dc_ciphertext :: bytes

definition sync_credential :: "string option \<Rightarrow> ('db, KdbxCredential) desktop_op" where
  "sync_credential password =
     bindE require_session (\<lambda>_.
     bindE (getsE dk_save_credential) (\<lambda>current.
     bindE (liftE (ok_or Locked current)) (\<lambda>current.
     let cred = \<lparr>cred_password = password, cred_keyfile = cred_keyfile current\<rparr> in
     if \<not> has_component cred then throwE SyncCredentialsRequired else returnE cred)))"

definition sync_capture :: "'db vault_ext \<Rightarrow> ('db, DesktopSyncCapture) desktop_op" where
  "sync_capture ext =
     bindE require_session (\<lambda>_.
     bindE (map_errE map_sync_session_error (on_session (capture_encrypted ext))) (\<lambda>encrypted.
     bindE (getsE dk_browser_session_id) (\<lambda>authority.
     bindE (liftE (ok_or Locked authority)) (\<lambda>authority.
     bindE (getsE (\<lambda>d. vs_path (v_session (dk_world d)))) (\<lambda>path.
     returnE \<lparr>dc_source_binding = source_binding ext path, dc_authority = authority,
              dc_ciphertext = ev_ciphertext encrypted\<rparr>)))))"

definition sync_source_binding :: "'db vault_ext \<Rightarrow> ('db, string) desktop_op" where
  "sync_source_binding ext =
     bindE require_session (\<lambda>_. getsE (\<lambda>d. source_binding ext (vs_path (v_session (dk_world d)))))"

definition sync_replace ::
    "'db vault_ext \<Rightarrow> string \<Rightarrow> string \<Rightarrow> string \<Rightarrow> bytes \<Rightarrow> KdbxCredential \<Rightarrow> ('db, unit) desktop_op" where
  "sync_replace ext expected_source expected_authority expected_digest ct cred =
     bindE (getsE dk_browser_session_id) (\<lambda>authority.
     if authority \<noteq> Some expected_authority then throwE ExternalChange
     else
       bindE require_session (\<lambda>_.
       bindE (getsE (\<lambda>d. vs_path (v_session (dk_world d)))) (\<lambda>path.
       if source_binding ext path \<noteq> expected_source then throwE ExternalChange
       else
         bindE (map_errE map_sync_session_error (on_session (capture_encrypted ext))) (\<lambda>current.
         if digest_as_str (CiphertextDigest_of ext (ev_ciphertext current)) \<noteq> expected_digest
         then throwE ExternalChange
         else
           bindE (map_errE map_sync_session_error
              (on_session (replace_encrypted_if_unchanged ext (ev_fingerprint current) ct cred))) (\<lambda>_.
           bindE random_process_token (\<lambda>token.
           modifyE (\<lambda>d. d\<lparr>dk_browser_session_id := Some token\<rparr>)))))))"

subsection \<open>Other users of the service\<close>

definition user_step :: "'db vault_ext \<Rightarrow> 'db user_step \<Rightarrow> 'db desktop \<Rightarrow> 'db desktop" where
  "user_step ext step d = (case step of
     EditDocument db \<Rightarrow>
       if dk_unlocked d
       then d\<lparr>dk_world := (dk_world d)\<lparr>v_session := (v_session (dk_world d))\<lparr>vs_document :=
           mark_changed ((vs_document (v_session (dk_world d)))\<lparr>kd_database := db\<rparr>)\<rparr>\<rparr>\<rparr>
       else d
   | SaveVault cred \<Rightarrow>
       if dk_unlocked d then snd (on_session (save_with_credential ext cred) d) else d
   | LockVault \<Rightarrow> snd (service_lock d)
   | DiscardVault \<Rightarrow> snd (discard_and_lock d)
   | UnlockVault s cred \<Rightarrow>
       if dk_unlocked d then d
       else (case random_process_token d of
           (Inl _, d) \<Rightarrow> d
         | (Inr token, d) \<Rightarrow> d\<lparr>dk_world := (dk_world d)\<lparr>v_session := s\<rparr>, dk_unlocked := True,
             dk_save_credential := Some cred, dk_browser_session_id := Some token\<rparr>))"

text \<open>Taking the mutex: other users go first, and a poisoned mutex fails.\<close>

definition lock_service :: "'db vault_ext \<Rightarrow> ('db desktop, LocalCommitError, unit) op" where
  "lock_service ext = (\<lambda>d.
     let d' = fold (user_step ext) (case dk_users d of [] \<Rightarrow> [] | steps # _ \<Rightarrow> steps)
                (d\<lparr>dk_users := tl (dk_users d)\<rparr>) in
     (if dk_poisoned d' then Inl Failed else Inr (), d'))"

subsection \<open>The local vault of the engine\<close>

definition map_desktop_error :: "DesktopError \<Rightarrow> LocalCommitError" where
  "map_desktop_error e = (case e of
     Locked \<Rightarrow> LocalCommitError.Locked
   | UnsavedChanges \<Rightarrow> Dirty
   | ExternalChange \<Rightarrow> Changed
   | SyncUnsupportedProvider \<Rightarrow> LocalUnsupported
   | _ \<Rightarrow> Failed)"

definition desktop_capture_clean :: "'db vault_ext \<Rightarrow> ('db desktop, LocalCommitError, LocalSnapshot) op" where
  "desktop_capture_clean ext =
     bindE (lock_service ext) (\<lambda>_.
     bindE (map_errE map_desktop_error (sync_capture ext)) (\<lambda>c.
     bindE (liftE (map_err (\<lambda>_. Failed) (SourceBinding_from_sha256 (dc_source_binding c)))) (\<lambda>source.
     returnE (LocalSnapshot_new ext source (dc_authority c) (dc_ciphertext c)))))"

definition desktop_replace_if_unchanged ::
    "'db vault_ext \<Rightarrow> LocalSnapshot \<Rightarrow> bytes \<Rightarrow> KdbxCredential \<Rightarrow> ('db desktop, LocalCommitError, unit) op" where
  "desktop_replace_if_unchanged ext expected ct cred =
     bindE (lock_service ext) (\<lambda>_.
     map_errE map_desktop_error (\<lambda>d.
       case sync_replace ext (source_as_str (ls_source expected)) (ls_authority_token expected)
              (digest_as_str (ls_digest expected)) ct cred d of
         (r, d') \<Rightarrow> (r, d'\<lparr>dk_history := dk_history d' @
             drop (length (v_history (dk_world d))) (v_history (dk_world d'))\<rparr>)))"

definition desktop_local :: "'db vault_ext \<Rightarrow> 'db desktop local_vault" where
  "desktop_local ext = \<lparr>capture_clean = desktop_capture_clean ext,
     replace_if_unchanged = desktop_replace_if_unchanged ext\<rparr>"

subsection \<open>What the user is told\<close>

definition map_provider_error :: "ProviderError \<Rightarrow> DesktopError" where
  "map_provider_error e = (case e of
     AuthenticationFailed \<Rightarrow> SyncCredentialsRequired
   | UnsupportedProvider \<Rightarrow> SyncUnsupportedProvider
   | UnsafeProvider \<Rightarrow> SyncUnsafeProvider
   | InvalidConfiguration \<Rightarrow> SyncUnsafeProvider
   | ProviderError.RemoteChanged \<Rightarrow> SyncRemoteChanged
   | WriteResultUncertain \<Rightarrow> SyncRecoveryRequired
   | _ \<Rightarrow> SyncFailed)"

definition map_store_error :: "StoreError \<Rightarrow> DesktopError" where
  "map_store_error e = (case e of
     UnsupportedSchema \<Rightarrow> SyncStateUnsupported
   | CorruptBase \<Rightarrow> SyncStateCorrupt
   | CorruptJournal \<Rightarrow> SyncStateCorrupt
   | StoreError.InvalidMetadata \<Rightarrow> SyncStateCorrupt
   | _ \<Rightarrow> SyncFailed)"

definition map_sync_error :: "SyncError \<Rightarrow> DesktopError" where
  "map_sync_error e = (case e of
     SyncError.RemoteChanged \<Rightarrow> SyncRemoteChanged
   | LocalChanged \<Rightarrow> SyncLocalChanged
   | LocalChangedDuringRecovery \<Rightarrow> SyncLocalChangedDuringRecovery
   | UncertainState \<Rightarrow> SyncRecoveryRequired
   | VaultAuthenticationFailed \<Rightarrow> SyncCredentialsRequired
   | Local l \<Rightarrow> (case l of Dirty \<Rightarrow> UnsavedChanges | LocalCommitError.Locked \<Rightarrow> Locked | _ \<Rightarrow> SyncFailed)
   | Provider p \<Rightarrow> map_provider_error p
   | Store s \<Rightarrow> map_store_error s
   | _ \<Rightarrow> SyncFailed)"

subsection \<open>Histories\<close>

definition quiet_desktop :: "('db desktop, 'e, 'a) op \<Rightarrow> bool" where
  "quiet_desktop m \<longleftrightarrow> (\<forall>d. dk_history (snd (m d)) = dk_history d)"

lemma quiet_desktopD:
  "quiet_desktop m \<Longrightarrow> wpE m (\<lambda>_ t. dk_history t = dk_history d) (\<lambda>_ t. dk_history t = dk_history d) d"
  unfolding quiet_desktop_def wpE_def by (auto split: prod.splits sum.splits dest!: spec [where x = d])

lemma quiet_desktop_bindE: "quiet_desktop m \<Longrightarrow> (\<And>a. quiet_desktop (f a)) \<Longrightarrow> quiet_desktop (bindE m f)"
  unfolding quiet_desktop_def bindE_def by (auto split: prod.splits sum.splits) (metis snd_conv)+

lemma quiet_desktop_modifyE: "(\<And>d. dk_history (f d) = dk_history d) \<Longrightarrow> quiet_desktop (modifyE f)"
  by (simp add: quiet_desktop_def modifyE_def)

lemma quiet_desktop_map_errE: "quiet_desktop m \<Longrightarrow> quiet_desktop (map_errE g m)"
  unfolding quiet_desktop_def map_errE_def by (auto split: prod.splits sum.splits) (metis snd_conv)+

lemmas quiet_desktop_intros = quiet_desktop_bindE quiet_desktop_modifyE quiet_desktop_map_errE

lemma quiet_desktop_simple [simp]:
  "quiet_desktop (returnE a)" "quiet_desktop (throwE e)" "quiet_desktop (liftE r)" "quiet_desktop (getsE f)"
  "quiet_desktop (on_session m)"
  by (simp_all add: quiet_desktop_def returnE_def throwE_def liftE_def getsE_def on_session_def split: prod.split)

lemma quiet_random_process_token [simp]: "quiet_desktop random_process_token"
  unfolding random_process_token_def
  by (rule quiet_desktop_bindE, rule quiet_desktop_map_errE, simp) (simp add: quiet_desktop_def)

lemma quiet_service [simp]:
  "quiet_desktop require_session" "quiet_desktop discard_and_lock" "quiet_desktop service_lock"
  "quiet_desktop (sync_capture ext)" "quiet_desktop (sync_replace ext es ea ed ct cred)"
  unfolding require_session_def discard_and_lock_def service_lock_def sync_capture_def sync_replace_def
  by (auto intro!: quiet_desktop_intros)

lemma quiet_desktop_snd: "quiet_desktop m \<Longrightarrow> dk_history (snd (m d)) = dk_history d"
  by (simp add: quiet_desktop_def)

lemma user_step_history: "dk_history (user_step ext step d) = dk_history d"
  by (auto simp: user_step_def quiet_desktop_snd split: user_step.split prod.split sum.split)
    (metis quiet_desktop_snd quiet_random_process_token snd_conv)+

lemma quiet_lock_service [simp]: "quiet_desktop (lock_service ext)"
proof -
  have "dk_history (fold (user_step ext) steps d) = dk_history d" for steps d
    by (induction steps arbitrary: d) (simp_all add: user_step_history)
  then show ?thesis by (simp add: quiet_desktop_def lock_service_def Let_def)
qed

text \<open>The two laws of a local vault.\<close>

lemma desktop_capture_law:
  "wpE (desktop_capture_clean ext)
    (\<lambda>s t. dk_history t = dk_history d \<and> ls_digest s = CiphertextDigest_of ext (ls_ciphertext s))
    (\<lambda>_ t. dk_history t = dk_history d) d"
proof -
  have "quiet_desktop (desktop_capture_clean ext)"
    unfolding desktop_capture_clean_def by (auto intro!: quiet_desktop_intros)
  moreover have "wpE (desktop_capture_clean ext)
      (\<lambda>s _. ls_digest s = CiphertextDigest_of ext (ls_ciphertext s)) (\<lambda>_ _. True) d"
    unfolding desktop_capture_clean_def wpE_bindE wpE_map_errE
    by (rule wpE_mono [OF wpE_trivial_intro], rule wpE_mono [OF wpE_trivial_intro])
      (auto simp: wp_simps LocalSnapshot_new_def split: sum.split)
  ultimately show ?thesis using wpE_conj [OF quiet_desktopD] by fastforce
qed

lemma wpE_on_session:
  "wpE (on_session m) Q R d = wpE m (\<lambda>a w. Q a (d\<lparr>dk_world := w\<rparr>)) (\<lambda>e w. R e (d\<lparr>dk_world := w\<rparr>)) (dk_world d)"
  by (simp add: wpE_def on_session_def split: prod.splits sum.splits)

lemma sync_replace_history:
  "wpE (sync_replace ext es ea ed ct cred)
    (\<lambda>_ t. extends_by (v_history (dk_world d)) (\<lambda>(old, new). new = ct) (v_history (dk_world t)))
    (\<lambda>_ t. extends_by (v_history (dk_world d)) (\<lambda>(old, new). new = ct) (v_history (dk_world t))) d"
proof -
  let ?G = "\<lambda>t. extends_by (v_history (dk_world d)) (\<lambda>(old, new). new = ct) (v_history (dk_world t))"
  have capture: "wpE (on_session (capture_encrypted ext)) (\<lambda>_ t. v_history (dk_world t) = v_history (dk_world d))
      (\<lambda>_ t. v_history (dk_world t) = v_history (dk_world d)) d"
    unfolding wpE_on_session by (rule wpE_mono [OF quietD [OF quiet_session(5)]]) simp_all
  have replace: "wpE (on_session (replace_encrypted_if_unchanged ext fp ct cred)) (\<lambda>_. ?G) (\<lambda>_. ?G) t"
    if "v_history (dk_world t) = v_history (dk_world d)" for fp t
    unfolding wpE_on_session by (rule wpE_mono [OF replace_history]) (simp_all add: that)
  have token: "wpE random_process_token (\<lambda>_ u. ?G (u\<lparr>dk_browser_session_id := b\<rparr>)) (\<lambda>_. ?G) t" if "?G t" for b t
    unfolding random_process_token_def wpE_bindE wpE_map_errE wpE_on_session
    by (rule wpE_mono [OF quietD [OF quiet_simple(5)]]) (use that in \<open>simp_all add: wpE_def\<close>)
  have fresh: "wpE random_process_token (\<lambda>a. wpE (modifyE (\<lambda>d. d\<lparr>dk_browser_session_id := Some a\<rparr>)) (\<lambda>_. ?G) (\<lambda>_. ?G))
      (\<lambda>_. ?G) t" if "?G t" for t
    using token [OF that, of None] by (simp add: wpE_def modifyE_def split: prod.splits sum.splits)
  show ?thesis
    unfolding sync_replace_def require_session_def
    by (auto simp: wp_simps intro!: wpE_mono [OF capture] wpE_mono [OF replace] fresh)
qed

lemma desktop_replace_law:
  "wpE (desktop_replace_if_unchanged ext s ct cred)
    (\<lambda>_ t. extends_by (dk_history d) (\<lambda>x. \<exists>old. x = (old, ct)) (dk_history t))
    (\<lambda>_ t. extends_by (dk_history d) (\<lambda>x. \<exists>old. x = (old, ct)) (dk_history t)) d"
proof -
  let ?m = "\<lambda>es ea ed d. case sync_replace ext es ea ed ct cred d of (r, d') \<Rightarrow>
    (r, d'\<lparr>dk_history := dk_history d' @ drop (length (v_history (dk_world d))) (v_history (dk_world d'))\<rparr>)"
  have one: "extends_by h (\<lambda>x. \<exists>old. x = (old, ct)) (h @ drop (length g) g')"
    if "extends_by g (\<lambda>(old, new). new = ct) g'" for h and g g' :: "(bytes \<times> bytes) list"
    using that by (auto simp: extends_by_def)
  have step: "wpE (?m es ea ed) (\<lambda>_ t. extends_by (dk_history d) (\<lambda>x. \<exists>old. x = (old, ct)) (dk_history t))
      (\<lambda>_ t. extends_by (dk_history d) (\<lambda>x. \<exists>old. x = (old, ct)) (dk_history t)) t"
    if "dk_history t = dk_history d" for es ea ed t
    using wpE_conj [OF sync_replace_history [of ext es ea ed ct cred t]
        quiet_desktopD [OF quiet_service(5) [of ext es ea ed ct cred], of t]] that
    by (auto simp: wpE_def intro!: one split: prod.splits sum.splits)
  show ?thesis
    unfolding desktop_replace_if_unchanged_def wpE_bindE wpE_map_errE
    by (rule wpE_mono [OF quiet_desktopD [OF quiet_lock_service]]) (auto intro: step)
qed

end
