(* ===== verification/Sync_World.thy ===== *)
theory Sync_World
  imports Engine_Safety Gateway_Contract Desktop_Local Reference_Ext
begin

section \<open>Engine, gateway and desktop together\<close>

text \<open>
  The world of an engine that synchronizes the vault open in the desktop application through a
  gateway: the state of the gateway and its network on one side, the desktop on the other. The
  laws of \<open>sync_env\<close> are proved for it, for every codec that satisfies the assumptions made of
  \<open>uuid\<close> and \<open>sha2\<close>; \<open>gateway_codec\<close> is the type of these.
\<close>

type_synonym 'db sync_world = "gateway_env \<times> 'db desktop"

definition remote_provider :: "'x codec_ext_scheme \<Rightarrow> GatewayProvider \<Rightarrow> 'db sync_world provider" where
  "remote_provider gx gp = \<lparr>p_read = at_remote (gateway_read gx gp),
     p_create_if_absent = (\<lambda>ct. at_remote (gateway_create gx gp ct)),
     p_replace_if_revision = (\<lambda>r ct. at_remote (gateway_replace gx gp r ct))\<rparr>"

definition desktop_vault :: "'db vault_ext \<Rightarrow> 'db sync_world local_vault" where
  "desktop_vault vx = \<lparr>capture_clean = at_local (desktop_capture_clean vx),
     replace_if_unchanged = (\<lambda>s ct cred. at_local (desktop_replace_if_unchanged vx s ct cred))\<rparr>"

definition vault_ext_of :: "'x core_ext_scheme \<Rightarrow> 'db kdbx_api \<Rightarrow> 'db vault_ext" where
  "vault_ext_of ext api = \<lparr>sha256 = sha256 ext, vx_kdbx = api\<rparr>"

definition remote_history :: "'db sync_world \<Rightarrow> (bytes option \<times> bytes) list" where
  "remote_history v = ge_history (fst v)"

definition desktop_history :: "'db sync_world \<Rightarrow> (bytes \<times> bytes) list" where
  "desktop_history v = dk_history (snd v)"

lemma vault_ext_of_digest [simp]: "CiphertextDigest_of (vault_ext_of ext api) = CiphertextDigest_of ext"
  by (simp add: fun_eq_iff CiphertextDigest_of_def vault_ext_of_def)

subsection \<open>Codecs\<close>

definition ref_gateway_ext :: codec_ext where
  "ref_gateway_ext = \<lparr>sha256 = sha256 ref_ext, hyphenated = ref_uuid_to_string,
     parse_uuid = ref_uuid_parse_str, uuid_is_v4 = (\<lambda>_. True)\<rparr>"

lemma ref_gateway_ext_ok: "gateway_ext_ok ref_gateway_ext"
  using ref_ext_ok by (simp add: gateway_ext_ok_def ref_gateway_ext_def store_ext_ok_def sha256_ok_def ref_ext_def)

typedef gateway_codec = "{gx :: codec_ext. gateway_ext_ok gx}"
  using ref_gateway_ext_ok by blast

lemma codec_ok: "gateway_ext_ok (Rep_gateway_codec c)"
  using Rep_gateway_codec [of c] by simp

subsection \<open>The contract holds\<close>

interpretation gateway: remote_contract
  "gateway_provider (Rep_gateway_codec c) gp" "gateway_names (Rep_gateway_codec c)" ge_history for c gp
  by unfold_locales (rule gateway_conditional [OF codec_ok])

interpretation desktop: local_contract "desktop_local vx" "CiphertextDigest_of vx" dk_history for vx :: "'db vault_ext"
  unfolding desktop_local_def local_contract_def local_vault.select_convs
  using desktop_capture_law desktop_replace_law by blast

text \<open>Side by side they are the world above.\<close>

lemma remote_provider_side: "remote_provider gx gp = remote_side (gateway_provider gx gp)"
  by (simp add: remote_provider_def remote_side_def gateway_provider_def)

lemma desktop_vault_side: "desktop_vault vx = local_side (desktop_local vx)"
  by (simp add: desktop_vault_def local_side_def desktop_local_def)

lemma sync_world_histories: "remote_history = ge_history \<circ> fst" "desktop_history = dk_history \<circ> snd"
  by (simp_all add: fun_eq_iff remote_history_def desktop_history_def)

lemma desktop_deployment:
  assumes "conditional_provider names remote_changes p" and "CiphertextDigest_of vx = digest"
  shows "deployment p names remote_changes (desktop_local vx) digest dk_history"
  using assms desktop.local_contract_axioms [of vx] by (simp add: deployment_def remote_contract_def)

interpretation gw: sync_env
  "remote_provider (Rep_gateway_codec c) gp" "desktop_vault (vault_ext_of (Rep_gateway_codec c) api)"
  "CiphertextDigest_of (Rep_gateway_codec c)" "gateway_names (Rep_gateway_codec c)"
  remote_history desktop_history
  for c gp and api :: "'db kdbx_api"
  unfolding remote_provider_side desktop_vault_side sync_world_histories
  by (rule deployment.is_sync_env [OF desktop_deployment [OF gateway_conditional [OF codec_ok] vault_ext_of_digest]])

end
