(* ===== verification/Reference_World.thy ===== *)
theory Reference_World
  imports Sync_World
begin

section \<open>A concrete deployment\<close>

text \<open>
  One small world on which the properties are evaluated: an empty gateway, a desktop with one
  unlocked vault, and an engine with an empty store between them.
\<close>

text \<open>A database whose encrypted form is its content, opened by the password \<open>pw\<close>.\<close>

definition ref_api :: "bytes kdbx_api" where
  "ref_api = \<lparr>parse_database = (\<lambda>bs cred. if cred_password cred = Some ''pw'' then Inr (Kdbx4 1, bs)
       else Inl InvalidCredentials),
     database_save = (\<lambda>_ db _. Inr db), database_semantically_eq = (=),
     database_valid_for_sync = (\<lambda>_. True), database_merge = (\<lambda>_ _ _. Inr (ConflictedDoc []))\<rparr>"

definition ref_cred :: KdbxCredential where
  "ref_cred = \<lparr>cred_password = Some ''pw'', cred_keyfile = None\<rparr>"

definition ref_provider :: GatewayProvider where
  "ref_provider = \<lparr>gp_base_path = ''/'', gp_vault_id = 5, gp_token = replicate 32 (CHR ''t'')\<rparr>"

definition ref_gateway :: gateway where
  "ref_gateway = \<lparr>g_root = [], g_temporary = [], g_locked = True, g_faults = [], g_uuids = word_of_nat,
     g_uuid_index = 0, g_token_digest = sha256 ref_gateway_ext (as_bytes (gp_token ref_provider)),
     g_write_permits = 4\<rparr>"

definition ref_session :: "bytes VaultSession" where
  "ref_session = \<lparr>vs_path = ''/v/a.kdbx'',
     vs_document = \<lparr>kd_version = Kdbx4 1, kd_database = [7], kd_revision = 0, kd_revision_permanently_dirty = False\<rparr>,
     vs_source_fingerprint = fingerprint ref_gateway_ext [7], vs_saved_revision = 0\<rparr>"

definition ref_vault_world :: "bytes vault_world" where
  "ref_vault_world = \<lparr>v_session = ref_session, v_files = [(''/v/a.kdbx'', Regular [7])], v_script = [],
     v_random = (\<lambda>n. [word_of_nat n]), v_random_index = 0, v_armed = [], v_seed = 0, v_history = [], v_checks = []\<rparr>"

definition ref_desktop :: "bytes desktop" where
  "ref_desktop = \<lparr>dk_world = ref_vault_world, dk_unlocked = True, dk_save_credential = Some ref_cred,
     dk_browser_session_id = Some ''s'', dk_poisoned = False, dk_users = [], dk_history = []\<rparr>"

definition ref_engine :: "(bytes sync_world, bytes) SyncEngine" where
  "ref_engine = \<lparr>se_ext = ref_ext, se_store = ref_store, se_kdbx = ref_api,
     se_provider = remote_provider ref_gateway_ext ref_provider,
     se_local = desktop_vault (vault_ext_of ref_gateway_ext ref_api)\<rparr>"

definition ref_engine_world :: "bytes sync_world engine_world" where
  "ref_engine_world = \<lparr>dir_modes = [], entries = [], faults = [], uuid_source = word_of_nat, uuid_index = 0,
     pending = None, poisoned = False, save_seed = 0,
     env = (\<lparr>ge_server = ref_gateway, ge_script = [], ge_history = []\<rparr>, ref_desktop)\<rparr>"

lemma ref_engine_simps [simp]:
  "se_ext ref_engine = ref_ext" "se_store ref_engine = ref_store" "se_kdbx ref_engine = ref_api"
  by (simp_all add: ref_engine_def)

lemma source_binding_valid:
  "sha256_ok ext \<Longrightarrow> SourceBinding_from_sha256 (source_binding ext p) = Inr (SourceBinding (source_binding ext p))"
  using CiphertextDigest_of_valid [of ext "as_bytes p"]
  by (auto simp: SourceBinding_from_sha256_def source_binding_def valid_digest_def)

lemma ref_desktop_capture:
  "desktop_capture_clean (vault_ext_of ref_gateway_ext ref_api) ref_desktop =
    (Inr (LocalSnapshot_new (vault_ext_of ref_gateway_ext ref_api)
      (SourceBinding (source_binding (vault_ext_of ref_gateway_ext ref_api) ''/v/a.kdbx'')) ''s'' [7]), ref_desktop)"
proof -
  let ?vx = "vault_ext_of ref_gateway_ext ref_api"
  have sha: "sha256_ok ?vx" using ref_gateway_ext_ok by (simp add: gateway_ext_ok_def sha256_ok_def vault_ext_of_def)
  have fp: "fingerprint ?vx [7] = fingerprint ref_gateway_ext [7]" by (simp add: fingerprint_def vault_ext_of_def)
  have src: "require_source_unchanged ?vx ref_vault_world = (Inr (), ref_vault_world)"
    by (simp add: require_source_unchanged_def validate_current_target_def fingerprint_path_def read_file_def sys_def
        op_defs ref_vault_world_def ref_session_def fp)
  have "capture_encrypted ?vx ref_vault_world =
      (Inr \<lparr>ev_ciphertext = [7], ev_fingerprint = fingerprint ?vx [7]\<rparr>, ref_vault_world)"
    using src by (simp add: capture_encrypted_def read_file_def sys_def op_defs ref_vault_world_def ref_session_def fp
        is_dirty_def has_changes_since_def)
  then show ?thesis
    by (simp add: desktop_capture_clean_def lock_service_def sync_capture_def require_session_def on_session_def
        op_defs ref_desktop_def ref_vault_world_def ref_session_def source_binding_valid [OF sha])
qed

lemma ref_capture: "\<exists>s v. capture_clean (se_local ref_engine) (env ref_engine_world) = (Inr s, v)"
  using ref_desktop_capture by (simp add: ref_engine_def ref_engine_world_def desktop_vault_def at_local_def)

lemma ref_engine_disk: "disk_is ref_ext ref_store None None ref_engine_world"
  by (simp add: disk_is_def disk_base_None disk_journal_None ref_engine_world_def)

end
