(* ===== verification/Engine_Tokens.thy ===== *)
theory Engine_Tokens
  imports Engine_Safety
begin

section \<open>The conflict token\<close>

text \<open>
  Which operations touch the pending conflict: \<open>sync\<close> drops it first and may install a new one as
  its very last step, \<open>resolve\<close> consumes it once, and nothing else changes it.
\<close>

definition inert :: "('v engine_world, 'e, 'a) op \<Rightarrow> bool" where
  "inert m \<longleftrightarrow> (\<forall>w. pending (snd (m w)) = pending w)"

lemma inertD: "inert m \<Longrightarrow> wpE m (\<lambda>_ t. pending t = pending w) (\<lambda>_ t. pending t = pending w) w"
  by (simp add: wpE_snd inert_def)

lemma inert_bindE: "inert m \<Longrightarrow> (\<And>a. inert (f a)) \<Longrightarrow> inert (bindE m f)"
  unfolding inert_def bindE_def by (auto split: prod.splits sum.splits) (metis snd_conv)+

lemma inert_modifyE: "(\<And>w. pending (f w) = pending w) \<Longrightarrow> inert (modifyE f)"
  by (simp add: inert_def modifyE_def)

lemma inert_map_errE: "inert m \<Longrightarrow> inert (map_errE g m)"
  unfolding inert_def map_errE_def by (auto split: prod.splits sum.splits) (metis snd_conv)+

lemma inert_tryE: "inert m \<Longrightarrow> inert (tryE m)"
  unfolding inert_def tryE_def by (auto split: prod.splits) (metis snd_conv)

lemmas inert_intros = inert_bindE inert_modifyE inert_map_errE inert_tryE

lemma inert_simple [simp]:
  "inert (returnE a)" "inert (throwE e)" "inert (liftE r)" "inert (getsE f)" "inert io_point" "inert new_v4"
  "inert (on_env m)" "inert lock_pending"
  by (simp_all add: inert_def op_defs io_point_def new_v4_def on_env_def lock_pending_def split: list.splits prod.split)

lemma inert_reads: "reads m g \<Longrightarrow> inert m"
  unfolding inert_def
proof
  fix w assume "reads m g"
  then show "pending (snd (m w)) = pending w" using readsD [of m g w] by auto
qed

lemma inert_files [simp]:
  "inert (atomic_write n bs)" "inert (atomic_write_json f n v)" "inert (remove_if_file n)"
  unfolding atomic_write_def commit_rename_def atomic_write_json_def remove_if_file_def
  by (auto intro!: inert_intros split: option.splits node.splits)

lemma inert_store_reads [simp]:
  "inert (load_base ext st)" "inert (load_journal ext st)" "inert (recovery_status ext st)"
  "inert (read_metadata f n k)"
  by (rule inert_reads, rule reads_load_base reads_load_journal reads_recovery_status reads_metadata)+

lemma inert_store_writes [simp]:
  "inert (write_journal ext m)"
  "inert (write_base ext st ct r)" "inert (prepare_journal ext st s er ct)"
  "inert (mark_remote_committed ext m r)" "inert (mark_local_committed ext m)"
  "inert (remove_journal ext st m)"
  unfolding write_base_def prepare_journal_def mark_remote_committed_def mark_local_committed_def
    remove_journal_def sync_directory_def write_journal_def Let_def
  by (auto intro!: inert_intros split: option.splits)

lemma inert_store [simp]: "inert m \<Longrightarrow> inert (store m)"
  unfolding store_def by (rule inert_map_errE)

lemma inert_collaborators [simp]: "inert (capture en)" "inert (provider_read en)"
  unfolding capture_def provider_read_def by (auto intro!: inert_intros)

lemma inert_checks [simp]:
  "inert (require_local_unchanged en s)" "inert (require_base_unchanged en d)" "inert (serialize_verified en doc cred)"
  unfolding require_local_unchanged_def require_base_unchanged_def serialize_verified_def
  by (auto intro!: inert_intros split: option.splits)

lemma inert_recover_loaded [simp]: "inert (recover_loaded en cred s)"
  unfolding recover_loaded_def recover_prepared_def finish_recovery_def recover_local_def Let_def
  by (auto intro!: inert_intros split: option.split prod.split)

lemma inert_commit_candidate_bytes [simp]: "inert (commit_candidate_bytes en cred ct plan)"
  unfolding commit_candidate_bytes_def commit_remote_def commit_local_def
  by (auto intro!: inert_intros split: sum.split ProviderError.split CommitRemote.split)

lemma inert_commit_candidate [simp]: "inert (commit_candidate en cred plan)"
  unfolding commit_candidate_def Let_def by (auto intro!: inert_intros)

lemma inert_resolve_pending [simp]: "inert (resolve_pending en choice cred pc)"
  unfolding resolve_pending_def by (auto intro!: inert_intros split: RemoteRead.split ConflictChoice.split)

subsection \<open>After a synchronization\<close>

text \<open>The pending conflict is the one that was reported.\<close>

definition token_reported :: "SyncOutcome \<Rightarrow> 'v engine_world \<Rightarrow> bool" where
  "token_reported outcome t \<longleftrightarrow> (case outcome of
     Done _ \<Rightarrow> pending t = None
   | Conflict operation \<Rightarrow> (\<exists>pc. pending t = Some pc \<and> pc_operation pc = operation))"

lemma wpE_install:
  "wpE (install en s bs r b initial cs) (\<lambda>operation t. token_reported (Conflict operation) t)
     (\<lambda>_ t. pending t = pending w) w"
proof -
  have new: "wpE (store new_v4) (\<lambda>_ t. pending t = pending w) (\<lambda>_ t. pending t = pending w) w"
    by (rule inertD) simp
  show ?thesis
    unfolding install_def Let_def wpE_bindE [of "store new_v4"]
    by (rule wpE_mono [OF new]) (auto simp: wp_simps token_reported_def)
qed

lemma inert_reported:
  assumes "inert m" and "pending w = None"
  shows "wpE m (\<lambda>_ t. pending t = None) (\<lambda>_ t. pending t = None) w"
  using inertD [OF assms(1), of w] assms(2) by simp

lemma commit_reported:
  assumes "pending w = None"
  shows "wpE (commit_candidate_bytes en cred ct plan) token_reported (\<lambda>_ t. pending t = None) w"
    and "wpE (commit_candidate en cred plan) token_reported (\<lambda>_ t. pending t = None) w"
proof -
  have fin: "wpE (commit_candidate_bytes en cred ct plan) (\<lambda>outcome _. \<exists>c. outcome = Done c) (\<lambda>_ _. True) v" for ct v
    unfolding commit_candidate_bytes_def
    by (auto simp: wpE_returnE wpE_throwE intro!: wpE_then split: sum.split ProviderError.split)
  have 1: "wpE (commit_candidate_bytes en cred ct plan) token_reported (\<lambda>_ t. pending t = None) w" for ct
    by (rule wpE_mono [OF wpE_conj [OF inert_reported [OF inert_commit_candidate_bytes assms] fin]])
      (auto simp: token_reported_def)
  then show "wpE (commit_candidate_bytes en cred ct plan) token_reported (\<lambda>_ t. pending t = None) w" .
  show "wpE (commit_candidate en cred plan) token_reported (\<lambda>_ t. pending t = None) w"
    unfolding commit_candidate_def Let_def using assms by (auto simp: wp_simps intro: 1 split: sum.split)
qed

lemma sync_decide_reported:
  assumes "pending w = None"
  shows "wpE (sync_decide en cred s b remote) token_reported (\<lambda>_ t. pending t = None) w"
proof -
  note inert = wpE_mono [OF inert_reported [OF _ assms]]
  have inst: "wpE (install en s bs r d initial cs) (\<lambda>operation t. token_reported (Conflict operation) t)
      (\<lambda>_ t. pending t = None) v" if "pending v = None" for s bs r d initial cs v
    using wpE_install [of en s bs r d initial cs v] that by simp
  have base: "wpE (require_local_unchanged en s) (\<lambda>_. wpE (store (write_base (se_ext en) (se_store en) ct r))
      (\<lambda>_ t. pending t = None) (\<lambda>_ t. pending t = None)) (\<lambda>_ t. pending t = None) w" for s ct r
    by (rule wpE_mono [OF inert_reported [OF inert_checks(1) assms]]) (auto intro: inert_reported)
  have ser: "wpE (serialize_verified en m cred)
      (\<lambda>ct. wpE (commit_candidate_bytes en cred ct plan) token_reported (\<lambda>_ t. pending t = None))
      (\<lambda>_ t. pending t = None) w" for m plan
    by (rule wpE_mono [OF inert_reported [OF inert_checks(3) assms]]) (auto intro: commit_reported)
  have out: "wpE (apply_outcome en cred s base rb rr outcome) token_reported (\<lambda>_ t. pending t = None) w" for base rb rr outcome
    unfolding apply_outcome_def using base
    by (auto simp: wp_simps token_reported_def [of "Done _"] intro!: commit_reported assms ser
        wpE_mono [OF inst [OF assms]] split: MergeOutcome.split)
  show ?thesis
    unfolding sync_decide_def establish_def merge_existing_def into_parts_def Let_def using base
    by (auto simp: wp_simps assms token_reported_def [of "Done _"] intro!: commit_reported out wpE_mono [OF inst [OF assms]]
        split: option.split RemoteRead.split sum.split)
qed

lemma sync_reported:
  "wpE (sync en cred) (\<lambda>outcome t. token_reported outcome t) (\<lambda>_ t. poisoned w \<or> pending t = None) w"
proof -
  let ?P = "\<lambda>t :: 'a engine_world. pending t = None"
  have tail: "wpE (store (load_base (se_ext en) (se_store en))) (\<lambda>base. wpE (provider_read en)
      (\<lambda>remote. wpE (sync_decide en cred s base remote) token_reported (\<lambda>_. ?P)) (\<lambda>_. ?P)) (\<lambda>_. ?P) t"
    if "?P t" for s t
    by (rule wpE_mono [OF inert_reported [OF _ that]], simp, rule wpE_mono [OF inert_reported])
      (auto intro: sync_decide_reported)
  have rec: "wpE (capture en) (\<lambda>s. wpE (recover_loaded en cred s) (\<lambda>r. wpE (if r then returnE (Done Recovered) else
      bindE (store (load_base (se_ext en) (se_store en))) (\<lambda>base.
      bindE (map_errE from_provider_error (provider_read en)) (\<lambda>remote.
      sync_decide en cred s base remote))) token_reported (\<lambda>_. ?P)) (\<lambda>_. ?P)) (\<lambda>_. ?P) t" if "?P t" for t
    by (rule wpE_mono [OF inert_reported [OF _ that]], simp, rule wpE_mono [OF inert_reported])
      (auto simp: wp_simps token_reported_def [of "Done _"] tail)
  show ?thesis
    unfolding sync_def invalidate_pending_conflict_def
    by (auto simp: wp_simps intro!: wpE_mono [OF rec])
qed

subsection \<open>After a resolution\<close>

lemma resolve_pending_cases:
  "wpE (resolve en i choice cred) (\<lambda>_ t. pending t = None) (\<lambda>_ t. pending t = pending w \<or> pending t = None) w"
proof -
  have take: "wpE (take_pending i) (\<lambda>pc. wpE (resolve_pending en choice cred pc) (\<lambda>_ t. pending t = None)
      (\<lambda>_ t. pending t = pending w \<or> pending t = None)) (\<lambda>_ t. pending t = pending w \<or> pending t = None) t"
    if "pending t = pending w" for t
    using that inert_reported [OF inert_resolve_pending]
    by (auto simp: take_pending_def wp_simps intro!: wpE_mono [OF inert_reported [OF inert_resolve_pending]] split: option.split)
  show ?thesis
    unfolding resolve_def
    by (auto simp: wp_simps take intro!: wpE_mono [OF inertD [OF inert_collaborators(1)]] split: sum.split)
qed

end
