(* ===== verification/Sync_Properties.thy ===== *)
theory Sync_Properties
  imports Reference_World Engine_Tokens
begin

section \<open>Properties of synchronization\<close>

text \<open>
  The guarantees of the engine, of the gateway and of the session, stated over the model of the
  whole: an engine whose provider is the gateway client and whose local vault is the desktop.
\<close>

subsection \<open>The engine\<close>

text \<open>An engine that runs on the gateway and the desktop is one of the interpreted environment.\<close>

definition deployed :: "codec_ext \<Rightarrow> GatewayProvider \<Rightarrow> 'db kdbx_api \<Rightarrow> ('db sync_world, 'db) SyncEngine \<Rightarrow> bool" where
  "deployed gx gp api en \<longleftrightarrow> gateway_ext_ok gx \<and> store_ext_ok (se_ext en) \<and> sha256 (se_ext en) = sha256 gx \<and>
     se_provider en = remote_provider gx gp \<and> se_local en = desktop_vault (vault_ext_of gx api)"

lemma deployed_uses:
  assumes "deployed gx gp api en" and "gx = Rep_gateway_codec c"
  shows "gw.uses c gp api en"
  using assms by (simp add: deployed_def gw.uses_def CiphertextDigest_of_def fun_eq_iff)

lemma deployed_codec: "deployed gx gp api en \<Longrightarrow> \<exists>c. gx = Rep_gateway_codec c"
  unfolding deployed_def by (metis Abs_gateway_codec_inverse mem_Collect_eq)

lemma ref_engine_deployed: "deployed ref_gateway_ext ref_provider ref_api ref_engine"
  using ref_gateway_ext_ok ref_ext_ok by (simp add: deployed_def ref_engine_def ref_gateway_ext_def)

text \<open>
  C1: no remote update is lost. Whatever the other clients of the gateway do, whatever requests,
  responses and I/O calls fail and whatever other programs and the user do to the local vault, one
  run of \<open>sync\<close> changes the remote object at most once. The change creates an object where there
  was none and no BASE, or it replaces a generation with the same SHA-256 as one that was read,
  opened and merged with BASE and with the captured local vault into what is uploaded.
\<close>

theorem sync_no_lost_update:
  assumes "deployed gx gp api en" and "disk_is (se_ext en) (se_store en) b j w"
  shows "extends_by (ge_history (fst (env w)))
    (\<lambda>(old, new). \<exists>s v. capture_clean (se_local en) (env w) = (Inr s, v) \<and>
       upload_justified en cred (gateway_names gx) b s old new)
    (ge_history (fst (env (snd (sync en cred w)))))"
proof -
  obtain c where c: "gx = Rep_gateway_codec c" using deployed_codec [OF assms(1)] ..
  have "uuids_fresh 0 (se_ext en) w" by (simp add: uuids_fresh_def)
  with gw.sync_history [OF deployed_uses [OF assms(1) c] _ assms(2), of 0 cred] assms(1) c
  show ?thesis by (simp add: deployed_def remote_history_def)
qed

theorem sync_no_lost_update_witness:
  "extends_by (ge_history (fst (env ref_engine_world)))
    (\<lambda>(old, new). \<exists>s v. capture_clean (se_local ref_engine) (env ref_engine_world) = (Inr s, v) \<and>
       upload_justified ref_engine ref_cred (gateway_names ref_gateway_ext) None s old new)
    (ge_history (fst (env (snd (sync ref_engine ref_cred ref_engine_world)))))"
  by (rule sync_no_lost_update [OF ref_engine_deployed, of None None]) (simp add: ref_engine_disk)

text \<open>
  C7: resolving a conflict overwrites only what the user was asked about. \<open>resolve\<close> changes the
  remote object at most once, only for the choice \<open>KeepLocal\<close> and the token of the pending
  conflict, with the local generation captured in that conflict, over an object that has the
  revision recorded there.
\<close>

theorem resolve_no_lost_update:
  assumes "deployed gx gp api en"
  shows "extends_by (ge_history (fst (env w)))
    (\<lambda>(old, new). \<exists>pc overwritten. pending w = Some pc \<and> co_id (pc_operation pc) = i \<and> choice = KeepLocal \<and>
       new = ls_ciphertext (pc_local pc) \<and> old = Some overwritten \<and>
       gateway_names gx (pc_remote_revision pc) overwritten)
    (ge_history (fst (env (snd (resolve en i choice cred w)))))"
proof -
  obtain c where c: "gx = Rep_gateway_codec c" using deployed_codec [OF assms(1)] ..
  have "extends_by (remote_history (env w)) (\<lambda>x. \<exists>pc. pending w = Some pc \<and> co_id (pc_operation pc) = i \<and>
      gw.resolution_writes c pc choice x) (remote_history (env (snd (resolve en i choice cred w))))"
    by (rule gw.resolve_history [OF deployed_uses [OF assms c]])
  then show ?thesis
    unfolding remote_history_def by (rule extends_by_mono) (auto simp: gw.resolution_writes_def c)
qed

theorem resolve_no_lost_update_witness:
  "extends_by (ge_history (fst (env ref_engine_world)))
    (\<lambda>(old, new). \<exists>pc overwritten. pending ref_engine_world = Some pc \<and> co_id (pc_operation pc) = ''x'' \<and>
       KeepLocal = KeepLocal \<and> new = ls_ciphertext (pc_local pc) \<and> old = Some overwritten \<and>
       gateway_names ref_gateway_ext (pc_remote_revision pc) overwritten)
    (ge_history (fst (env (snd (resolve ref_engine ''x'' KeepLocal ref_cred ref_engine_world)))))"
  by (rule resolve_no_lost_update [OF ref_engine_deployed])

text \<open>The results of further calls of \<open>resolve\<close>, one after the other, and the last state.\<close>

primrec resolve_attempts ::
    "('v, 'db) SyncEngine \<Rightarrow> (string \<times> ConflictChoice \<times> KdbxCredential) list \<Rightarrow> 'v engine_world \<Rightarrow>
     bool list \<times> 'v engine_world" where
  "resolve_attempts en [] w = ([], w)"
| "resolve_attempts en (a # as) w =
     (case resolve en (fst a) (fst (snd a)) (snd (snd a)) w of
        (r, t) \<Rightarrow> (case resolve_attempts en as t of (rs, u) \<Rightarrow> (isl r # rs, u)))"

lemma resolve_without_conflict:
  assumes "pending w = None"
  shows "wpE (resolve en i choice cred) (\<lambda>_ _. False) (\<lambda>_ t. pending t = None) w"
  unfolding resolve_def using assms
  by (auto simp: wp_simps take_pending_def intro!: wpE_mono [OF inert_reported [OF inert_collaborators(1)]] split: sum.split)

lemma resolve_attempts_fail:
  assumes "pending w = None"
  shows "list_all (\<lambda>failed. failed) (fst (resolve_attempts en attempts w)) \<and> pending (snd (resolve_attempts en attempts w)) = None"
  using assms
proof (induction attempts arbitrary: w)
  case (Cons a as)
  obtain r t where r: "resolve en (fst a) (fst (snd a)) (snd (snd a)) w = (r, t)" by fastforce
  with resolve_without_conflict [OF Cons.prems, of en "fst a" "fst (snd a)" "snd (snd a)"]
  have "isl r \<and> pending t = None" by (simp add: wpE_def split: sum.splits)
  with Cons.IH [of t] r show ?case by (auto split: prod.split)
qed simp

text \<open>
  C28: a conflict token is single use. After a \<open>resolve\<close> that succeeded, every further \<open>resolve\<close>
  fails, in any number and with the same token or others, and no conflict becomes pending again:
  only a new \<open>sync\<close> can report one.
\<close>

theorem resolve_single_use:
  "wpE (resolve en i choice cred)
     (\<lambda>_ t. list_all (\<lambda>failed. failed) (fst (resolve_attempts en attempts t)) \<and> pending (snd (resolve_attempts en attempts t)) = None)
     (\<lambda>_ _. True) w"
  by (rule wpE_mono [OF resolve_pending_cases]) (auto simp: resolve_attempts_fail)

text \<open>
  C29: \<open>sync\<close> invalidates every older token: when it returns, the pending conflict is exactly the
  one it reports, and there is none when it reports a completed synchronization or an error. The
  one exception is the poisoned mutex, with which nothing is touched.
\<close>

theorem sync_pending_reported:
  "wpE (sync en cred)
    (\<lambda>outcome t. case outcome of Done _ \<Rightarrow> pending t = None
       | Conflict operation \<Rightarrow> \<exists>pc. pending t = Some pc \<and> pc_operation pc = operation)
    (\<lambda>_ t. poisoned w \<or> pending t = None) w"
  using sync_reported [of en cred w] by (simp add: token_reported_def)

text \<open>
  A wrong password does not spend the token. When the captured local vault cannot be opened
  with the credential, \<open>resolve\<close> fails with that error and the pending conflict is still there.
\<close>

theorem resolve_wrong_credential:
  assumes "has_component cred" and "capture_clean (se_local en) (env w) = (Inr s, v)"
    and "open_document en (ls_ciphertext s) cred = Inl e"
  shows "resolve en i choice cred w = (Inl e, w\<lparr>env := v\<rparr>)"
  using assms by (simp add: resolve_def capture_def on_env_def bindE_def map_errE_def liftE_def)

theorem resolve_wrong_credential_witness:
  "\<exists>v. resolve ref_engine ''x'' KeepLocal (ref_cred\<lparr>cred_password := Some ''no''\<rparr>) ref_engine_world =
     (Inl VaultAuthenticationFailed, ref_engine_world\<lparr>env := v\<rparr>)"
proof -
  let ?cred = "ref_cred\<lparr>cred_password := Some ''no''\<rparr>"
  obtain s v where v: "capture_clean (se_local ref_engine) (env ref_engine_world) = (Inr s, v)"
    using ref_capture by blast
  have "has_component ?cred" by (simp add: has_component_def)
  moreover have "open_document ref_engine (ls_ciphertext s) ?cred = Inl VaultAuthenticationFailed"
    by (simp add: open_document_def open_reader_with_credential_def ref_api_def)
  ultimately show ?thesis using resolve_wrong_credential [OF _ v] by blast
qed

end
