(* ===== verification/Gateway_Steps.thy ===== *)
theory Gateway_Steps
  imports Gateway_Contract
begin

section \<open>The gateway over time\<close>

text \<open>
  A gateway process serves requests one after another per object (the per-object lock of
  \<open>storage.rs\<close> is held for the whole of a read or write), and is restarted now and then, when
  \<open>Storage::open\<close> cleans the upload directory. Each step may meet I/O failures: the faults of the
  next step are arbitrary.
\<close>

definition restart :: "gateway \<Rightarrow> StorageError + unit \<Rightarrow> gateway \<Rightarrow> bool" where
  "restart w r t \<longleftrightarrow> Storage_open (w\<lparr>g_locked := False\<rparr>) = (r, t)"

inductive gateway_step :: "codec_ext \<Rightarrow> gateway \<Rightarrow> gateway \<Rightarrow> bool" for ext where
  Serve: "handle ext rq w = (rs, t) \<Longrightarrow> gateway_step ext w t"
| Restart: "restart w r t \<Longrightarrow> gateway_step ext w t"
| Environment: "gateway_step ext w (w\<lparr>g_faults := fs, g_write_permits := n\<rparr>)"

inductive reachable :: "codec_ext \<Rightarrow> gateway \<Rightarrow> gateway \<Rightarrow> bool" for ext w where
  Start: "reachable ext w w"
| Step: "reachable ext w t \<Longrightarrow> gateway_step ext t u \<Longrightarrow> reachable ext w u"

inductive_cases gateway_stepE: "gateway_step ext w t"

subsection \<open>Start-up touches no object\<close>

definition no_object_touched :: "('a storage_scheme, 'e, 'b) op \<Rightarrow> bool" where
  "no_object_touched m \<longleftrightarrow> (\<forall>w. (\<forall>p. p \<noteq> ''.gateway.lock'' \<longrightarrow>
     map_of (g_root (snd (m w))) p = map_of (g_root w) p) \<and> storage.more (snd (m w)) = storage.more w)"

lemma no_object_touched_bindE:
  "no_object_touched m \<Longrightarrow> (\<And>a. no_object_touched (f a)) \<Longrightarrow> no_object_touched (bindE m f)"
  unfolding no_object_touched_def bindE_def by (auto split: prod.splits sum.splits) (metis snd_conv)+

lemma no_object_touched_modifyE:
  "(\<And>w p. p \<noteq> ''.gateway.lock'' \<Longrightarrow> map_of (g_root (f w)) p = map_of (g_root w) p) \<Longrightarrow>
   (\<And>w. storage.more (f w) = storage.more w) \<Longrightarrow> no_object_touched (modifyE f)"
  by (simp add: no_object_touched_def modifyE_def)

lemma no_object_touched_simple [simp]:
  "no_object_touched (returnE a)" "no_object_touched (throwE e)" "no_object_touched (getsE f)" "no_object_touched g_point"
  by (simp_all add: no_object_touched_def returnE_def throwE_def getsE_def g_point_def split: list.split)

lemmas no_object_touched_intros = no_object_touched_bindE no_object_touched_modifyE

lemma no_object_touched_cleanup: "no_object_touched (cleanup_entries listing)"
  by (induction listing rule: cleanup_entries.induct) (auto intro!: no_object_touched_intros)

lemma no_object_touched_open [simp]: "no_object_touched Storage_open"
  unfolding Storage_open_def cleanup_temporary_def sync_root_def
  by (auto intro!: no_object_touched_intros no_object_touched_cleanup simp: update_conv')

lemma restart_object:
  assumes "restart w r t" and "object_path ext v \<noteq> ''.gateway.lock''"
  shows "object_at ext t v = object_at ext w v"
proof -
  have "no_object_touched (Storage_open :: (unit gateway_ext storage_scheme, StorageError, unit) op)" by simp
  then show ?thesis using assms
    by (force simp: restart_def object_at_def no_object_touched_def dest!: spec [where x = "w\<lparr>g_locked := False\<rparr>"])
qed

lemma object_path_not_lock: "object_path ext v \<noteq> ''.gateway.lock''"
proof
  assume "object_path ext v = ''.gateway.lock''"
  then have "ends_with ''.gateway.lock'' ''.kdbx''" by (metis ends_with_iff object_path_def)
  then show False by (simp add: ends_with_def)
qed

subsection \<open>Steps and objects\<close>

text \<open>Every step that changes an object is a request that satisfies its own precondition.\<close>

definition justified_change ::
    "codec_ext \<Rightarrow> uuid \<Rightarrow> gateway \<Rightarrow> Request \<Rightarrow> Response \<Rightarrow> gateway \<Rightarrow> bool" where
  "justified_change ext v w rq rs t \<longleftrightarrow>
     authenticates ext (g_token_digest w) (rq_headers rq) \<and> rq_method rq = PUT \<and>
     vault_id_of ext (rq_path rq) (rq_query rq) = Some v \<and>
     (\<exists>bs c. rq_body rq = Collected bs \<and> length bs \<le> MAX_REMOTE_CIPHERTEXT_BYTES \<and> object_at ext t v = Some bs \<and>
        condition_of (rq_headers rq) = Inr c \<and> satisfies ext c (object_at ext w v)) \<and>
     rs_status rs \<in> {201, 204, 500}"

lemma handle_change:
  assumes "gateway_ext_ok ext" and "handle ext rq w = (rs, t)"
  shows "object_at ext t v = object_at ext w v \<or> justified_change ext v w rq rs t"
proof -
  have "sha256_ok ext" using assms(1) by (simp add: gateway_ext_ok_def)
  from handle_effect [OF this assms(2)] obtain eff where eff: "effect_ok ext rq w rs t eff" ..
  show ?thesis
  proof (cases eff)
    case NoEffect
    with eff show ?thesis by (simp add: effect_ok_def object_at_keeps)
  next
    case (Wrote u old bs)
    with eff object_at_wrote [OF assms(1), of w u bs t v] show ?thesis
      by (auto simp: effect_ok_def justified_change_def)
  qed
qed

lemma step_change:
  assumes "gateway_ext_ok ext" and "gateway_step ext w t"
  shows "object_at ext t v = object_at ext w v \<or> (\<exists>rq rs. handle ext rq w = (rs, t) \<and> justified_change ext v w rq rs t)"
  using assms(2)
proof cases
  case (Serve rq rs)
  with handle_change [OF assms(1)] show ?thesis by blast
next
  case Restart
  then show ?thesis using restart_object [OF _ object_path_not_lock] by blast
qed (simp add: object_at_def)

text \<open>Objects never outgrow the limit, so a read never fails because of its size.\<close>

definition bounded_objects :: "codec_ext \<Rightarrow> gateway \<Rightarrow> bool" where
  "bounded_objects ext w \<longleftrightarrow> (\<forall>v. pred_option (\<lambda>bs. length bs \<le> MAX_REMOTE_CIPHERTEXT_BYTES) (object_at ext w v))"

lemma bounded_objects_step:
  assumes "gateway_ext_ok ext" and "gateway_step ext w t" and "bounded_objects ext w"
  shows "bounded_objects ext t"
  unfolding bounded_objects_def
proof
  fix v
  show "pred_option (\<lambda>bs. length bs \<le> MAX_REMOTE_CIPHERTEXT_BYTES) (object_at ext t v)"
    using step_change [OF assms(1,2), of v] assms(3)
    by (auto simp: bounded_objects_def justified_change_def)
qed

lemma bounded_objects_reachable:
  "reachable ext w t \<Longrightarrow> gateway_ext_ok ext \<Longrightarrow> bounded_objects ext w \<Longrightarrow> bounded_objects ext t"
  by (induction rule: reachable.induct) (blast intro: bounded_objects_step)+

subsection \<open>Writing without failures\<close>

text \<open>An upload leaves nothing behind in the temporary directory but the counter it used.\<close>

definition tidy :: "'a storage_scheme \<Rightarrow> 'a storage_scheme \<Rightarrow> bool" where
  "tidy w t \<longleftrightarrow> g_faults t = [] \<and> g_uuids t = g_uuids w \<and> g_uuid_index t = Suc (g_uuid_index w) \<and>
     map_of (g_temporary t) = map_of (g_temporary w)"

lemma delete_update_same: "AList.delete k (AList.update k x al) = AList.delete k al"
  by (induction al) (auto simp: AList.delete_eq)

lemma wpE_install_checked_ok:
  assumes "g_faults w = []" and "map_of (g_temporary w) p = Some (Regular bs)"
    and "bounded_objects ext w" and "pred_option is_regular (map_of (g_root w) (object_path ext v))"
  shows "wpE (install_checked ext \<lparr>pu_path = p, pu_revision = r\<rparr> (object_path ext v) c) Q R w =
    (if satisfies ext c (object_at ext w v)
     then Q r (w\<lparr>g_root := AList.update (object_path ext v) (Regular bs) (g_root w),
                 g_temporary := AList.delete p (g_temporary w)\<rparr>)
     else R PreconditionFailed w)"
proof -
  have small: "length old \<le> MAX_REMOTE_CIPHERTEXT_BYTES" if "map_of (g_root w) (object_path ext v) = Some (Regular old)" for old
    using assms(3) that by (auto simp: bounded_objects_def object_at_def dest!: spec [where x = v])
  have reg: "\<exists>old. n = Regular old" if "map_of (g_root w) (object_path ext v) = Some n" for n
    using assms(4) that by (cases n) simp_all
  show ?thesis
    unfolding install_checked_def rename_upload_def sync_root_def
    using assms(1,2) small reg
    by (auto simp: wp_simps fs_simps object_at_def satisfies_def split: option.splits node.splits WriteCondition.splits)
qed

lemma wpE_storage_write_ok:
  assumes "g_faults w = []" and "length bs \<le> MAX_REMOTE_CIPHERTEXT_BYTES"
    and "map_of (g_temporary w) (upload_path ext w) = None"
    and "bounded_objects ext w"
    and "pred_option is_regular (map_of (g_root w) (object_path ext v))"
  shows "wpE (storage_write ext v c bs)
    (\<lambda>r t. satisfies ext c (object_at ext w v) \<and> r = revision_of ext bs \<and> storage_wrote w (object_path ext v) bs t \<and> tidy w t)
    (\<lambda>e t. \<not> satisfies ext c (object_at ext w v) \<and> e = PreconditionFailed \<and> storage_keeps w t \<and> tidy w t) w"
proof -
  let ?p = "upload_path ext w"
  let ?u = "\<lparr>pu_path = ?p, pu_revision = revision_of ext bs\<rparr>"
  let ?t = "w\<lparr>g_uuid_index := Suc (g_uuid_index w), g_temporary := AList.update ?p (Regular bs) (g_temporary w)\<rparr>"
  have gone: "(map_of (g_temporary w))(?p := None) = map_of (g_temporary w)"
    using assms(3) by (rule fun_upd_idem)
  have del: "AList.delete ?p (AList.update ?p x (g_temporary w)) = AList.delete ?p (g_temporary w)" for x
    by (rule delete_update_same)
  have inst: "wpE (install_upload ext ?u (object_path ext v) c) Q R ?t =
      wpE (install_checked ext ?u (object_path ext v) c) (\<lambda>r s. Q r (drop_upload ?u s)) (\<lambda>e s. R e (drop_upload ?u s)) ?t"
    for Q and R :: "StorageError \<Rightarrow> gateway \<Rightarrow> bool"
    by (simp add: wpE_def install_upload_def split: prod.splits sum.splits)
  have b: "bounded_objects ext ?t" "object_at ext ?t v = object_at ext w v"
    using assms(4) by (simp_all add: bounded_objects_def object_at_def)
  show ?thesis
    unfolding storage_write_def prepare_upload_def
    using assms(1-3,5) b
    by (simp add: wp_simps fs_simps inst wpE_install_checked_ok update_conv' drop_upload_def tidy_def gone del
        storage_keeps_def storage_wrote_def)
qed

end
