(* ===== verification/Gateway_Register.thy ===== *)
theory Gateway_Register
  imports Gateway_Steps
begin

section \<open>The gateway is a compare-and-swap register\<close>

text \<open>
  The specification of a provider when nobody interferes: one optional object, created when
  absent and replaced when the caller names the current generation. Client and server together
  refine it: over a connection that loses nothing, to a gateway that meets no I/O failure, every
  operation returns what the register returns and leaves the object as the register does.
\<close>

subsection \<open>Specification\<close>

definition tag_of :: "'x core_ext_scheme \<Rightarrow> bytes \<Rightarrow> RemoteRevision" where
  "tag_of ext bs = RemoteRevision (revision_of ext bs)"

definition register_read :: "'x core_ext_scheme \<Rightarrow> bytes option \<Rightarrow> RemoteRead" where
  "register_read ext obj = (case obj of None \<Rightarrow> Missing
     | Some bs \<Rightarrow> Present \<lparr>ciphertext = bs, revision = tag_of ext bs\<rparr>)"

definition register_create ::
    "'x core_ext_scheme \<Rightarrow> bytes \<Rightarrow> bytes option \<Rightarrow> (ProviderError + RemoteRevision) \<times> bytes option" where
  "register_create ext ct obj =
     (if obj = None then (Inr (tag_of ext ct), Some ct) else (Inl ProviderError.RemoteChanged, obj))"

definition register_replace ::
    "'x core_ext_scheme \<Rightarrow> RemoteRevision \<Rightarrow> bytes \<Rightarrow> bytes option \<Rightarrow> (ProviderError + RemoteRevision) \<times> bytes option" where
  "register_replace ext expected ct obj =
     (if \<exists>bs. obj = Some bs \<and> expected = tag_of ext bs then (Inr (tag_of ext ct), Some ct)
      else (Inl ProviderError.RemoteChanged, obj))"

subsection \<open>A quiet gateway\<close>

definition quiet_gateway :: "codec_ext \<Rightarrow> GatewayProvider \<Rightarrow> gateway \<Rightarrow> bool" where
  "quiet_gateway ext gp w \<longleftrightarrow>
     g_faults w = [] \<and> 0 < g_write_permits w \<and>
     g_token_digest w = sha256 ext (as_bytes (gp_token gp)) \<and> valid_gateway_token (gp_token gp) \<and>
     gp_base_path gp = ''/'' \<and> uuid_is_v4 ext (gp_vault_id gp) \<and>
     CHR 0x2F \<notin> set (hyphenated ext (gp_vault_id gp)) \<and> length (hyphenated ext (gp_vault_id gp)) \<le> 100 \<and>
     bounded_objects ext w \<and> pred_option is_regular (map_of (g_root w) (object_path ext (gp_vault_id gp))) \<and>
     (\<forall>n\<ge>g_uuid_index w. map_of (g_temporary w) (''upload-'' @ hyphenated ext (g_uuids w n) @ ''.tmp'') = None)"

definition quiet_env :: "codec_ext \<Rightarrow> GatewayProvider \<Rightarrow> gateway_env \<Rightarrow> bool" where
  "quiet_env ext gp e \<longleftrightarrow> ge_script e = [] \<and> quiet_gateway ext gp (ge_server e)"

definition remote_object :: "codec_ext \<Rightarrow> GatewayProvider \<Rightarrow> gateway_env \<Rightarrow> bytes option" where
  "remote_object ext gp e = object_at ext (ge_server e) (gp_vault_id gp)"

text \<open>The requests of this client reach the object.\<close>

lemma bearer_ok:
  assumes "valid_gateway_token (gp_token gp)" and "g_token_digest w = sha256 ext (as_bytes (gp_token gp))"
    and "get_all headers ''authorization'' = [''Bearer '' @ gp_token gp]"
  shows "authenticates ext (g_token_digest w) headers"
proof -
  have graphic: "is_ascii_graphic c" if "c \<in> set (gp_token gp)" for c
    using assms(1) that by (simp add: valid_gateway_token_def list_all_iff)
  have "to_str (''Bearer '' @ gp_token gp) = Some (''Bearer '' @ gp_token gp)"
    using graphic by (force simp: to_str_def list_all_iff is_ascii_graphic_def)
  moreover have "split_once (CHR '' '') (''Bearer '' @ gp_token gp) = Some (''Bearer'', gp_token gp)"
    by simp
  moreover have "eq_ignore_ascii_case ''Bearer'' ''bearer''" by code_simp
  ultimately show ?thesis using assms by (simp add: authenticates_def del: split_once.simps append_Cons)
qed

lemma vault_path_ok:
  assumes "gateway_ext_ok ext" and "quiet_gateway ext gp w"
  shows "vault_id_of ext (object_url ext gp) None = Some (gp_vault_id gp)"
    and "length (object_url ext gp) \<le> MAX_REQUEST_TARGET_BYTES"
proof -
  have "strip_prefix ''/v1/vaults/'' (object_url ext gp) = Some (hyphenated ext (gp_vault_id gp))"
    using assms(2) strip_prefix_append [of "''/v1/vaults/''"] by (simp add: object_url_def quiet_gateway_def)
  then show "vault_id_of ext (object_url ext gp) None = Some (gp_vault_id gp)"
    using assms by (simp add: vault_id_of_def quiet_gateway_def gateway_ext_ok_def)
  show "length (object_url ext gp) \<le> MAX_REQUEST_TARGET_BYTES"
    using assms(2) by (simp add: object_url_def quiet_gateway_def MAX_REQUEST_TARGET_BYTES_def)
qed

subsection \<open>Serving this client's requests\<close>

lemma quiet_get:
  assumes "gateway_ext_ok ext" and "quiet_gateway ext gp w"
  shows "handle ext (get_request ext gp) w =
    (case object_at ext w (gp_vault_id gp) of None \<Rightarrow> fixed 404 ''Not Found\<newline>''
     | Some bs \<Rightarrow> object_response bs (revision_of ext bs), w)"
proof -
  have auth: "authenticates ext (g_token_digest w) [bearer gp]"
    using assms(2) by (intro bearer_ok) (simp_all add: quiet_gateway_def bearer_def get_all_def)
  have small: "length old \<le> MAX_REMOTE_CIPHERTEXT_BYTES"
    if "map_of (g_root w) (object_path ext (gp_vault_id gp)) = Some (Regular old)" for old
    using assms(2) that by (auto simp: quiet_gateway_def bounded_objects_def object_at_def dest!: spec [where x = "gp_vault_id gp"])
  have reg: "\<exists>old. n = Regular old" if "map_of (g_root w) (object_path ext (gp_vault_id gp)) = Some n" for n
    using assms(2) that by (cases n) (simp_all add: quiet_gateway_def)
  have "wpE (route ext (get_request ext gp)) (\<lambda>rs t. (rs, t) =
      (case object_at ext w (gp_vault_id gp) of None \<Rightarrow> fixed 404 ''Not Found\<newline>''
       | Some bs \<Rightarrow> object_response bs (revision_of ext bs), w)) (\<lambda>_ _. False) w"
    unfolding route_def read_vault_def storage_read_def responding_def
    using vault_path_ok [OF assms] object_url_not_health [of ext gp] auth small reg assms(2)
    by (auto simp: wp_simps fs_simps get_request_def uri_string_def object_at_def quiet_gateway_def
        split: option.splits node.splits)
  then show ?thesis by (auto simp: wpE_def handle_def split: prod.splits sum.splits)
qed

lemma gateway_fields:
  assumes "storage.more t = storage.more (w :: gateway)"
  shows "g_token_digest t = g_token_digest w" and "g_write_permits t = g_write_permits w"
  using assms by (cases w; cases t; simp)+

lemma quiet_put:
  assumes "gateway_ext_ok ext" and "quiet_gateway ext gp w" and "length ct \<le> MAX_REMOTE_CIPHERTEXT_BYTES"
    and "condition_of (rq_headers (put_request ext gp header value ct)) = Inr c"
    and "header \<in> {''if-match'', ''if-none-match''}"
    and "handle ext (put_request ext gp header value ct) w = (rs, t)"
  shows "quiet_gateway ext gp t \<and>
    (if satisfies ext c (object_at ext w (gp_vault_id gp))
     then rs_status rs \<in> {201, 204} \<and> object_at ext t (gp_vault_id gp) = Some ct
     else rs_status rs = 412 \<and> object_at ext t (gp_vault_id gp) = object_at ext w (gp_vault_id gp))"
    (is "?goal rs t")
proof -
  let ?rq = "put_request ext gp header value ct"
  let ?v = "gp_vault_id gp"
  have sha: "sha256_ok ext" using assms(1) by (simp add: gateway_ext_ok_def)
  have auth: "authenticates ext (g_token_digest w) (rq_headers ?rq)"
    using assms(2,5) by (intro bearer_ok) (auto simp: quiet_gateway_def bearer_def get_all_def put_request_def)
  have headers: "header_get (rq_headers ?rq) ''content-type'' = Some ''application/octet-stream''"
    "header_get (rq_headers ?rq) ''content-length'' = None"
    using assms(5) by (auto simp: put_request_def header_get_def get_all_def bearer_def to_str_def)
  have kept: "quiet_gateway ext gp t" if "storage_keeps w t" "tidy w t" for t
    using assms(2) that gateway_fields [of t w]
    by (simp add: quiet_gateway_def storage_keeps_def tidy_def bounded_objects_def object_at_def)
  have wrote: "quiet_gateway ext gp t" if "storage_wrote w (object_path ext ?v) ct t" "tidy w t" for t
    using assms(2,3) that gateway_fields [of t w]
    by (auto simp: quiet_gateway_def storage_wrote_def tidy_def bounded_objects_def object_at_def update_conv')
  have st: "rs_status (empty_with_etag n (revision_of ext ct)) = n" for n
    using revision_of_form(2) [OF sha, of ct] by (simp add: empty_with_etag_def)
  have upload: "map_of (g_temporary w) (upload_path ext w) = None"
    using assms(2) by (simp add: quiet_gateway_def upload_path_def)
  have quiet: "g_faults w = []" "0 < g_write_permits w" "bounded_objects ext w"
    "pred_option is_regular (map_of (g_root w) (object_path ext ?v))"
    using assms(2) by (simp_all add: quiet_gateway_def)
  have "wpE (responding (storage_write ext ?v c ct) (write_response (c = Create))) ?goal (\<lambda>_ _. False) w"
    unfolding responding_def wp_simps
    by (rule wpE_mono [OF wpE_storage_write_ok [OF quiet(1) assms(3) upload quiet(3,4)]])
      (auto simp: kept wrote st write_response_def object_at_keeps object_at_wrote [OF assms(1)])
  then have "wpE (write_vault ext ?v ?rq) ?goal (\<lambda>_ _. False) w"
    unfolding write_vault_def using headers assms(3,4) quiet(2) by (simp add: wp_simps put_request_def)
  then have "wpE (route ext ?rq) ?goal (\<lambda>_ _. False) w"
    unfolding route_def
    using vault_path_ok [OF assms(1,2)] object_url_not_health [of ext gp] auth
    by (simp add: wp_simps put_request_def uri_string_def)
  with assms(6) show ?thesis by (auto simp: wpE_def handle_def split: prod.splits sum.splits)
qed

subsection \<open>Refinement\<close>

lemma quiet_send:
  assumes "ge_script e = []" and "handle ext rq (ge_server e) = (rs, t)"
  shows "\<exists>h. send ext gp rq e = (Inr \<lparr>cr_status = rs_status rs, cr_headers = rs_headers rs,
    cr_chunks = [rs_body rs], cr_complete = True\<rparr>, e\<lparr>ge_server := t, ge_history := h\<rparr>)"
  using assms by (cases e) (auto simp: send_def next_script_def serve_others_def deliver_def Let_def)

lemma read_status_object:
  assumes "sha256_ok ext" and "length bs \<le> MAX_REMOTE_CIPHERTEXT_BYTES"
    and "rs = object_response bs (revision_of ext bs)"
  shows "read_status \<lparr>cr_status = rs_status rs, cr_headers = rs_headers rs, cr_chunks = [rs_body rs], cr_complete = True\<rparr> =
    Inr (Present \<lparr>ciphertext = bs, revision = tag_of ext bs\<rparr>)"
proof -
  have "rs_status rs = 200" "rs_body rs = bs" "header_get (rs_headers rs) ''content-length'' = None"
    using revision_of_form(2) [OF assms(1), of bs] assms(3)
    by (simp_all add: object_response_def header_get_def get_all_def no_store_def)
  then show ?thesis
    using strong_etag_object [OF assms(1), of bs] assms(2,3)
    by (simp add: read_status_def read_success_def tag_of_def RemoteObject_new_def)
qed

lemma quiet_read:
  assumes "gateway_ext_ok ext" and "quiet_env ext gp e"
  shows "\<exists>h. gateway_read ext gp e = (Inr (register_read ext (remote_object ext gp e)), e\<lparr>ge_history := h\<rparr>)"
proof -
  let ?w = "ge_server e" and ?rq = "get_request ext gp"
  have quiet: "ge_script e = []" "quiet_gateway ext gp ?w" and sha: "sha256_ok ext"
    using assms by (simp_all add: quiet_env_def gateway_ext_ok_def)
  obtain rs where rs: "handle ext ?rq ?w = (rs, ?w)" using quiet_get [OF assms(1) quiet(2)] by simp
  obtain h where send: "send ext gp ?rq e = (Inr \<lparr>cr_status = rs_status rs, cr_headers = rs_headers rs,
      cr_chunks = [rs_body rs], cr_complete = True\<rparr>, e\<lparr>ge_history := h\<rparr>)"
    using quiet_send [OF quiet(1) rs] by auto
  have "read_status \<lparr>cr_status = rs_status rs, cr_headers = rs_headers rs, cr_chunks = [rs_body rs], cr_complete = True\<rparr> =
      Inr (register_read ext (remote_object ext gp e))"
  proof (cases "object_at ext ?w (gp_vault_id gp)")
    case None
    then show ?thesis
      using quiet_get [OF assms(1) quiet(2)] rs by (simp add: read_status_def register_read_def remote_object_def)
  next
    case (Some bs)
    moreover from Some have "length bs \<le> MAX_REMOTE_CIPHERTEXT_BYTES"
      using quiet(2) by (auto simp: quiet_gateway_def bounded_objects_def dest!: spec [where x = "gp_vault_id gp"])
    ultimately show ?thesis
      using quiet_get [OF assms(1) quiet(2)] rs read_status_object [OF sha]
      by (simp add: register_read_def remote_object_def)
  qed
  with send show ?thesis by (auto simp: gateway_read_def op_defs)
qed

lemma quiet_env_history [simp]:
  "quiet_env ext gp (e\<lparr>ge_history := h\<rparr>) = quiet_env ext gp e"
  "remote_object ext gp (e\<lparr>ge_history := h\<rparr>) = remote_object ext gp e"
  by (simp_all add: quiet_env_def remote_object_def)

lemma quiet_conditional_put:
  assumes "gateway_ext_ok ext" and "quiet_env ext gp e" and "length ct \<le> MAX_REMOTE_CIPHERTEXT_BYTES"
    and "condition_of (rq_headers (put_request ext gp header value ct)) = Inr c"
    and "header \<in> {''if-match'', ''if-none-match''}"
  shows "wpE (conditional_put ext gp header value ct)
    (\<lambda>r e'. satisfies ext c (remote_object ext gp e) \<and> r = tag_of ext ct \<and> remote_object ext gp e' = Some ct \<and> quiet_env ext gp e')
    (\<lambda>err e'. \<not> satisfies ext c (remote_object ext gp e) \<and> err = ProviderError.RemoteChanged \<and>
      remote_object ext gp e' = remote_object ext gp e \<and> quiet_env ext gp e') e"
proof -
  let ?rq = "put_request ext gp header value ct"
  have quiet: "ge_script e = []" "quiet_gateway ext gp (ge_server e)"
    using assms(2) by (simp_all add: quiet_env_def)
  obtain rs t where t: "handle ext ?rq (ge_server e) = (rs, t)" by fastforce
  obtain h where send: "send ext gp ?rq e = (Inr \<lparr>cr_status = rs_status rs, cr_headers = rs_headers rs,
      cr_chunks = [rs_body rs], cr_complete = True\<rparr>, e\<lparr>ge_server := t, ge_history := h\<rparr>)"
    using quiet_send [OF quiet(1) t] by blast
  let ?e = "e\<lparr>ge_server := t, ge_history := h\<rparr>"
  note put = quiet_put [OF assms(1) quiet(2) assms(3-5) t]
  have q: "quiet_env ext gp ?e" using put quiet(1) by (simp add: quiet_env_def)
  show ?thesis
  proof (cases "satisfies ext c (remote_object ext gp e)")
    case True
    then have obj: "remote_object ext gp ?e = Some ct" "is_success (rs_status rs)"
      using put by (auto simp: remote_object_def is_success_def)
    obtain h' where "gateway_read ext gp ?e = (Inr (register_read ext (Some ct)), ?e\<lparr>ge_history := h'\<rparr>)"
      using quiet_read [OF assms(1) q] obj(1) by auto
    with True q obj assms(3) send show ?thesis
      by (simp add: conditional_put_def confirm_committed_def wpE_def op_defs register_read_def remote_object_def quiet_env_def)
  next
    case False
    with put q assms(3) send show ?thesis
      by (simp add: conditional_put_def wpE_def op_defs is_success_def remote_object_def)
  qed
qed

text \<open>The three operations of the provider, as functions on the object alone.\<close>

definition refines :: "codec_ext \<Rightarrow> GatewayProvider \<Rightarrow> (gateway_env, 'e, 'a) op \<Rightarrow> (bytes option \<Rightarrow> ('e + 'a) \<times> bytes option) \<Rightarrow> bool" where
  "refines ext gp m f \<longleftrightarrow> (\<forall>e. quiet_env ext gp e \<longrightarrow>
     map_prod id (remote_object ext gp) (m e) = f (remote_object ext gp e) \<and> quiet_env ext gp (snd (m e)))"

lemma refines_read: "gateway_ext_ok ext \<Longrightarrow> refines ext gp (gateway_read ext gp) (\<lambda>obj. (Inr (register_read ext obj), obj))"
  unfolding refines_def using quiet_read by force

lemma refines_create:
  assumes "gateway_ext_ok ext" and "length ct \<le> MAX_REMOTE_CIPHERTEXT_BYTES"
  shows "refines ext gp (gateway_create ext gp ct) (register_create ext ct)"
  unfolding refines_def gateway_create_def
proof (intro allI impI)
  fix e assume q: "quiet_env ext gp e"
  have "condition_of (rq_headers (put_request ext gp ''if-none-match'' ''*'' ct)) = Inr Create"
    by (simp add: condition_of_put)
  from quiet_conditional_put [OF assms(1) q assms(2) this]
  show "map_prod id (remote_object ext gp) (conditional_put ext gp ''if-none-match'' ''*'' ct e) =
      register_create ext ct (remote_object ext gp e) \<and>
    quiet_env ext gp (snd (conditional_put ext gp ''if-none-match'' ''*'' ct e))"
    by (auto simp: wpE_def register_create_def satisfies_def split: prod.splits sum.splits)
qed

lemma refines_replace:
  assumes "gateway_ext_ok ext" and "length ct \<le> MAX_REMOTE_CIPHERTEXT_BYTES" and "expected = tag_of ext known"
  shows "refines ext gp (gateway_replace ext gp expected ct) (register_replace ext expected ct)"
  unfolding refines_def gateway_replace_def
proof (intro allI impI)
  fix e assume q: "quiet_env ext gp e"
  have sha: "sha256_ok ext" using assms(1) by (simp add: gateway_ext_ok_def)
  have "condition_of (rq_headers (put_request ext gp ''if-match'' (as_provider_token expected) ct)) =
      Inr (Replace (as_provider_token expected))"
    using revision_of_form [OF sha, of known] assms(3) by (simp add: condition_of_put tag_of_def)
  from quiet_conditional_put [OF assms(1) q assms(2) this]
  show "map_prod id (remote_object ext gp) (conditional_put ext gp ''if-match'' (as_provider_token expected) ct e) =
      register_replace ext expected ct (remote_object ext gp e) \<and>
    quiet_env ext gp (snd (conditional_put ext gp ''if-match'' (as_provider_token expected) ct e))"
    using assms(3) by (auto simp: wpE_def register_replace_def satisfies_def tag_of_def split: prod.splits sum.splits)
qed

end
