(* ===== verification/Gateway_Properties.thy ===== *)
theory Gateway_Properties
  imports Gateway_Register Reference_World
begin

section \<open>Properties of the gateway and its client\<close>

text \<open>
  The gateway as a register, the authorization of every change of an object, the bound on objects and
  what a client may conclude from a response, with the concrete gateway on which they are evaluated.
\<close>

definition ref_gateway_env :: gateway_env where
  "ref_gateway_env = \<lparr>ge_server = ref_gateway, ge_script = [], ge_history = []\<rparr>"

lemma ref_hyphenated: "hyphenated ref_gateway_ext u = ref_uuid_to_string u"
  by (simp add: ref_gateway_ext_def)

lemma ref_gateway_env_quiet: "quiet_env ref_gateway_ext ref_provider ref_gateway_env"
proof -
  have "is_ascii_graphic (CHR ''t'')" by (simp add: is_ascii_graphic_def)
  then have "valid_gateway_token (gp_token ref_provider)"
    by (simp add: valid_gateway_token_def ref_provider_def MIN_GATEWAY_TOKEN_BYTES_def MAX_GATEWAY_TOKEN_BYTES_def list_all_iff)
  moreover have "CHR 0x2F \<notin> set (ref_uuid_to_string 5)" "length (ref_uuid_to_string 5) \<le> 100"
    by (auto simp: is_lower_hex_def is_ascii_digit_def ref_uuid_to_string_form(1) dest!: ref_uuid_to_string_form(2))
  ultimately show ?thesis
    by (simp add: quiet_env_def quiet_gateway_def ref_gateway_env_def ref_gateway_def bounded_objects_def object_at_def
        ref_hyphenated) (simp add: ref_provider_def ref_gateway_ext_def)
qed

lemma ref_gateway_env_empty: "remote_object ref_gateway_ext ref_provider ref_gateway_env = None"
  by (simp add: remote_object_def object_at_def ref_gateway_env_def ref_gateway_def)

text \<open>
  C2: client and gateway together are a compare-and-swap register. When nobody interferes and
  nothing fails, reading, creating and replacing return what the register returns, leave the
  object as the register does, and keep the system ready for the next operation. The precondition
  of a replacement is the tag of some generation, current or not.
\<close>

theorem gateway_refines_register:
  assumes "gateway_ext_ok ext" and "length ct \<le> MAX_REMOTE_CIPHERTEXT_BYTES"
  shows "refines ext gp (p_read (gateway_provider ext gp)) (\<lambda>obj. (Inr (register_read ext obj), obj)) \<and>
    refines ext gp (p_create_if_absent (gateway_provider ext gp) ct) (register_create ext ct) \<and>
    refines ext gp (p_replace_if_revision (gateway_provider ext gp) (tag_of ext known) ct)
      (register_replace ext (tag_of ext known) ct)"
  using refines_read [OF assms(1)] refines_create [OF assms] refines_replace [OF assms refl]
  by (simp add: gateway_provider_def)

theorem gateway_refines_register_witness:
  "quiet_env ref_gateway_ext ref_provider ref_gateway_env \<and>
   (\<exists>e. p_create_if_absent (gateway_provider ref_gateway_ext ref_provider) [1] ref_gateway_env =
       (Inr (tag_of ref_gateway_ext [1]), e) \<and> remote_object ref_gateway_ext ref_provider e = Some [1])"
proof -
  have "length [1 :: byte] \<le> MAX_REMOTE_CIPHERTEXT_BYTES" by (simp add: MAX_REMOTE_CIPHERTEXT_BYTES_def)
  from gateway_refines_register [OF ref_gateway_ext_ok this, of ref_provider] ref_gateway_env_quiet
  have "map_prod id (remote_object ref_gateway_ext ref_provider)
      (p_create_if_absent (gateway_provider ref_gateway_ext ref_provider) [1] ref_gateway_env) =
    (Inr (tag_of ref_gateway_ext [1]), Some [1])"
    by (auto simp: refines_def register_create_def ref_gateway_env_empty)
  then show ?thesis using ref_gateway_env_quiet
    by (cases "p_create_if_absent (gateway_provider ref_gateway_ext ref_provider) [1] ref_gateway_env") auto
qed

text \<open>
  C6: every change of an object is authorized. Whatever a step of the gateway process is (a request
  of any client, a restart, I/O failures), an object changes only in a PUT request that carries the
  token, names that vault, has a complete body of at most the limit, and whose If-None-Match or
  If-Match precondition the old object satisfied; the object is then exactly the body.
\<close>

theorem object_change_authorized:
  assumes "gateway_ext_ok ext" and "gateway_step ext w t" and "object_at ext t v \<noteq> object_at ext w v"
  shows "\<exists>rq rs. handle ext rq w = (rs, t) \<and> justified_change ext v w rq rs t"
  using step_change [OF assms(1,2), of v] assms(3) by blast

theorem object_change_authorized_witness:
  "\<exists>t rq rs. handle ref_gateway_ext rq ref_gateway = (rs, t) \<and>
     justified_change ref_gateway_ext 5 ref_gateway rq rs t \<and> object_at ref_gateway_ext t 5 = Some [1]"
proof -
  let ?rq = "put_request ref_gateway_ext ref_provider ''if-none-match'' ''*'' [1]"
  obtain rs t where h: "handle ref_gateway_ext ?rq ref_gateway = (rs, t)" by fastforce
  have c: "condition_of (rq_headers ?rq) = Inr Create" by (simp add: condition_of_put)
  have q: "quiet_gateway ref_gateway_ext ref_provider ref_gateway"
    using ref_gateway_env_quiet by (simp add: quiet_env_def ref_gateway_env_def)
  have none: "object_at ref_gateway_ext ref_gateway 5 = None" and v: "gp_vault_id ref_provider = 5"
    by (simp_all add: object_at_def ref_gateway_def ref_provider_def)
  have new: "object_at ref_gateway_ext t 5 = Some [1]"
    using quiet_put [OF ref_gateway_ext_ok q _ c _ h] none v by (simp add: MAX_REMOTE_CIPHERTEXT_BYTES_def)
  obtain rq rs' where "handle ref_gateway_ext rq ref_gateway = (rs', t)"
      "justified_change ref_gateway_ext 5 ref_gateway rq rs' t"
    using object_change_authorized [OF ref_gateway_ext_ok gateway_step.Serve [OF h], of 5] new none by auto
  with new show ?thesis by blast
qed

text \<open>
  C32: the size limit is an invariant. In every state that a gateway reaches from one whose objects
  are within \<open>MAX_REMOTE_CIPHERTEXT_BYTES\<close>, all objects are within it.
\<close>

theorem objects_stay_bounded:
  assumes "gateway_ext_ok ext" and "bounded_objects ext w" and "reachable ext w t"
  shows "bounded_objects ext t"
  using bounded_objects_reachable [OF assms(3,1,2)] .

theorem objects_stay_bounded_witness:
  "bounded_objects ref_gateway_ext
     (snd (handle ref_gateway_ext (get_request ref_gateway_ext ref_provider) ref_gateway))"
proof -
  let ?rq = "get_request ref_gateway_ext ref_provider"
  have b: "bounded_objects ref_gateway_ext ref_gateway"
    by (simp add: bounded_objects_def object_at_def ref_gateway_def)
  have "gateway_step ref_gateway_ext ref_gateway (snd (handle ref_gateway_ext ?rq ref_gateway))"
    by (rule gateway_step.Serve [of _ ?rq _ "fst (handle ref_gateway_ext ?rq ref_gateway)"]) simp
  then show ?thesis by (rule objects_stay_bounded [OF ref_gateway_ext_ok b reachable.Step [OF reachable.Start]])
qed

text \<open>
  an object is served with the tag of exactly its bytes: a response of status 200 to anything
  but the health check carries the current object of the vault that the path names and the quoted
  SHA-256 of it as the entity tag.
\<close>

theorem served_object_tagged:
  assumes "sha256_ok ext" and "handle ext rq w = (rs, t)" and "rs_status rs = 200" and "rq_path rq \<noteq> ''/healthz''"
  shows "\<exists>v bs. vault_id_of ext (rq_path rq) (rq_query rq) = Some v \<and> object_at ext w v = Some bs \<and>
    rs_body rs = bs \<and> get_all (rs_headers rs) ''etag'' = [revision_of ext bs]"
proof -
  obtain v bs where "vault_id_of ext (rq_path rq) (rq_query rq) = Some v" "object_at ext w v = Some bs"
      "rs = object_response bs (revision_of ext bs)"
    using handle_object [OF assms] .
  then show ?thesis
    using revision_of_form(2) [OF assms(1), of bs] by (auto simp: object_response_def get_all_def no_store_def)
qed

definition ref_full_gateway :: gateway where
  "ref_full_gateway = ref_gateway\<lparr>g_root := [(object_path ref_gateway_ext 5, Regular [1])]\<rparr>"

theorem served_object_tagged_witness:
  "get_all (rs_headers (fst (handle ref_gateway_ext (get_request ref_gateway_ext ref_provider) ref_full_gateway))) ''etag'' =
     [revision_of ref_gateway_ext [1]]"
proof -
  let ?rq = "get_request ref_gateway_ext ref_provider"
  have sha: "sha256_ok ref_gateway_ext" using ref_gateway_ext_ok by (simp add: gateway_ext_ok_def)
  have obj: "object_at ref_gateway_ext ref_full_gateway v = (if v = 5 then Some [1] else None)" for v
    using object_path_inj [OF ref_gateway_ext_ok] by (simp add: object_at_def ref_full_gateway_def)
  have "quiet_gateway ref_gateway_ext ref_provider ref_gateway" and v: "gp_vault_id ref_provider = 5"
    using ref_gateway_env_quiet by (simp_all add: quiet_env_def ref_gateway_env_def ref_provider_def)
  then have q: "quiet_gateway ref_gateway_ext ref_provider ref_full_gateway"
    unfolding quiet_gateway_def bounded_objects_def obj
    by (auto simp: ref_full_gateway_def MAX_REMOTE_CIPHERTEXT_BYTES_def)
  obtain rs where rs: "handle ref_gateway_ext ?rq ref_full_gateway = (rs, ref_full_gateway)" "rs = object_response [1] (revision_of ref_gateway_ext [1])"
    using quiet_get [OF ref_gateway_ext_ok q] obj v by simp
  then have "rs_status rs = 200" using revision_of_form(2) [OF sha, of "[1]"] by (simp add: object_response_def)
  from served_object_tagged [OF sha rs(1) this] object_url_not_health [of ref_gateway_ext ref_provider] obj
  show ?thesis using rs(1) by (auto simp: get_request_def split: if_splits)
qed

text \<open>
  without the token there is nothing to see. A request that does not authenticate gets status
  401 with a fixed body, whatever vault it names and whether it exists, and nothing changes; only
  the health check answers without a token.
\<close>

theorem unauthenticated_rejected:
  assumes "\<not> authenticates ext (g_token_digest w) (rq_headers rq)"
    and "\<not> (rq_path rq = ''/healthz'' \<and> rq_query rq = None)"
  shows "handle ext rq w = (fixed 401 ''Unauthorized\<newline>'', w)"
  using assms by (auto simp: handle_def route_def op_defs)

theorem unauthenticated_rejected_witness:
  "handle ref_gateway_ext ((get_request ref_gateway_ext ref_provider)\<lparr>rq_headers := []\<rparr>) ref_full_gateway =
     (fixed 401 ''Unauthorized\<newline>'', ref_full_gateway)"
  by (rule unauthenticated_rejected)
    (use object_url_not_health [of ref_gateway_ext ref_provider] in \<open>auto simp: authenticates_def get_all_def get_request_def\<close>)

text \<open>
  a write that succeeds is confirmed. Whatever the network and the other clients do, a
  conditional write returns a revision only if that revision names exactly the bytes it wrote, as
  read back after the write.
\<close>

theorem conditional_put_confirmed:
  assumes "gateway_ext_ok ext" and "conditional_put ext gp header value ct e = (Inr r, e')"
  shows "gateway_names ext r ct \<and> length ct \<le> MAX_REMOTE_CIPHERTEXT_BYTES"
proof -
  let ?Q = "\<lambda>r _. gateway_names ext r ct \<and> length ct \<le> MAX_REMOTE_CIPHERTEXT_BYTES"
  have confirm: "wpE (confirm_committed ext gp ct) (\<lambda>r _. gateway_names ext r ct) (\<lambda>_ _. True) e" for e
    unfolding confirm_committed_def wpE_bindE wpE_tryE
    by (rule wpE_mono [OF gateway_read_law [OF assms(1)]]) (auto simp: wp_simps split: RemoteRead.split)
  have "wpE (conditional_put ext gp header value ct) ?Q (\<lambda>_ _. True) e"
    unfolding conditional_put_def Let_def
    by (auto simp: wp_simps intro!: wpE_mono [OF wpE_trivial_intro [of "send ext gp rq" for rq]] confirm)
  with assms(2) show ?thesis by (simp add: wpE_def)
qed

theorem conditional_put_confirmed_witness:
  "\<exists>r e'. conditional_put ref_gateway_ext ref_provider ''if-none-match'' ''*'' [1] ref_gateway_env = (Inr r, e') \<and>
     gateway_names ref_gateway_ext r [1]"
proof -
  let ?put = "conditional_put ref_gateway_ext ref_provider ''if-none-match'' ''*'' [1]"
  have "condition_of (rq_headers (put_request ref_gateway_ext ref_provider ''if-none-match'' ''*'' [1])) = Inr Create"
    by (simp add: condition_of_put)
  from quiet_conditional_put [OF ref_gateway_ext_ok ref_gateway_env_quiet _ this] ref_gateway_env_empty
  obtain r e' where "?put ref_gateway_env = (Inr r, e')"
    by (auto simp: wpE_def MAX_REMOTE_CIPHERTEXT_BYTES_def split: prod.splits sum.splits)
  with conditional_put_confirmed [OF ref_gateway_ext_ok this] show ?thesis by blast
qed

end
