(* ===== verification/Session_Properties.thy ===== *)
theory Session_Properties
  imports Reference_World
begin

section \<open>Properties of the vault session and of the merge decision\<close>

subsection \<open>What a save does to the session\<close>

text \<open>The session \<open>s\<close> after its document was written to a file with fingerprint \<open>fp\<close>.\<close>

definition marked_saved :: "'db VaultSession \<Rightarrow> FileFingerprint \<Rightarrow> 'db VaultSession" where
  "marked_saved s fp = s\<lparr>vs_source_fingerprint := fp, vs_saved_revision := kd_revision (vs_document s)\<rparr>"

text \<open>The session is \<open>s\<close>, and \<open>cs\<close> was read back so far.\<close>

definition in_session :: "'db VaultSession \<Rightarrow> ('db KdbxDocument \<times> FileFingerprint) list \<Rightarrow> 'db vault_world \<Rightarrow> bool" where
  "in_session s cs w \<longleftrightarrow> v_session w = s \<and> v_checks w = cs"

text \<open>
  The session is marked as saved, with the fingerprint of a file that was read back after the
  replacement, in this run, to a document equal to that of the session.
\<close>

definition saved_and_checked ::
    "'db vault_ext \<Rightarrow> 'db VaultSession \<Rightarrow> ('db KdbxDocument \<times> FileFingerprint) list \<Rightarrow> 'db vault_world \<Rightarrow> bool" where
  "saved_and_checked ext s cs w \<longleftrightarrow> (\<exists>final fp. v_checks w = cs @ [(final, fp)] \<and>
     verify_semantic_equivalence (vx_kdbx ext) (vs_document s) final = Inr () \<and> v_session w = marked_saved s fp)"

lemma session_bind:
  assumes "same_session m" and "in_session s cs w"
    and "\<And>a t. in_session s cs t \<Longrightarrow> wpE (f a) Q R t" and "\<And>e t. in_session s cs t \<Longrightarrow> R e t"
  shows "wpE (bindE m f) Q R w"
  unfolding wpE_bindE by (rule wpE_mono [OF same_session_wpE [OF assms(1)]]) (use assms(2-4) in \<open>auto simp: in_session_def\<close>)

lemma session_get: "in_session s cs t \<Longrightarrow> wpE (f s) Q R t \<Longrightarrow> wpE (bindE (getsE v_session) f) Q R t"
  by (simp add: wpE_bindE wpE_getsE in_session_def)

lemma session_final:
  assumes "same_session m" and "in_session s cs w" and "\<And>a t. in_session s cs t \<Longrightarrow> Q a t" and "\<And>e t. in_session s cs t \<Longrightarrow> R e t"
  shows "wpE m Q R w"
  by (rule wpE_mono [OF same_session_wpE [OF assms(1)]]) (use assms(2-4) in \<open>auto simp: in_session_def\<close>)

lemma same_session_files [simp]:
  "same_session (write_temp e p bs)" "same_session (reject_symlink_if_present e p)" "same_session (rename_file e p q)"
  "same_session (replace_primary p q)" "same_session (open_stable_document_with_credential ext p cred)"
  "same_session (commit_backup b p)" "same_session sync_parent" "same_session (create_backup_temp p)"
  "same_session (fill_backup ext b)"
  unfolding write_temp_def reject_symlink_if_present_def rename_file_def replace_primary_def
    open_stable_document_with_credential_def commit_backup_def sync_parent_def create_backup_temp_def fill_backup_def
  by (auto intro!: same_session_intros split: option.split node.split prod.split)

lemma drop_temp_session [simp]: "v_session (drop_temp p w) = v_session w" "v_checks (drop_temp p w) = v_checks w"
  using same_session_simple(5) [of TempCreateFailed] unfolding same_session_def
  by (auto simp: drop_temp_def split: prod.splits dest!: spec [where x = w])

lemma drop_temp_in_session [simp]:
  "in_session s cs (drop_temp p w) = in_session s cs w" "saved_and_checked ext s cs (drop_temp p w) = saved_and_checked ext s cs w"
  by (simp_all add: in_session_def saved_and_checked_def)

lemma wpE_with_temp_session:
  assumes "wpE create (\<lambda>p. wpE (body p) (\<lambda>a. saved_and_checked ext s cs) (\<lambda>e t. v_session t = s \<or> saved_and_checked ext s cs t))
      (\<lambda>e t. v_session t = s \<or> saved_and_checked ext s cs t) w"
  shows "wpE (with_temp create body) (\<lambda>a. saved_and_checked ext s cs) (\<lambda>e t. v_session t = s \<or> saved_and_checked ext s cs t) w"
  using assms unfolding with_temp_def wpE_bindE by (auto simp: wpE_def split: prod.splits sum.splits)

lemma finish_replace_session:
  assumes w: "in_session s cs w"
  shows "wpE (finish_replace ext cred p b (vs_document s) None) (\<lambda>_. saved_and_checked ext s cs)
    (\<lambda>_ t. v_session t = s \<or> saved_and_checked ext s cs t) w"
proof -
  let ?R = "\<lambda>_ t. v_session t = s \<or> saved_and_checked ext s cs t"
  have same: "v_session t = s" if "in_session s cs t" for t using that by (simp add: in_session_def)
  have tail: "wpE (bindE (commit_backup b q) (\<lambda>_. liftE d)) (\<lambda>_. saved_and_checked ext s cs) ?R t"
    if "saved_and_checked ext s cs t" for q d t
    by (rule session_final [where s = "v_session t" and cs = "v_checks t"])
      (use that in \<open>auto intro!: same_session_intros simp: in_session_def saved_and_checked_def\<close>)
  have check: "wpE (bindE (modifyE (\<lambda>w. w\<lparr>v_checks := v_checks w @ [(final, fp)]\<rparr>)) (\<lambda>_.
      if \<not> pred_option (\<lambda>f. f = fp) None then throwE FinalExternalModificationDetected
      else bindE (liftE (map_err FinalVerificationFailed (verify_semantic_equivalence (vx_kdbx ext) (vs_document s) final))) (\<lambda>_.
      bindE (modifyE (\<lambda>w. w\<lparr>v_session := (let document = if None = None then vs_document s else final
        in s\<lparr>vs_document := document, vs_source_fingerprint := fp, vs_saved_revision := kd_revision document\<rparr>)\<rparr>)) (\<lambda>_.
      bindE (commit_backup b q) (\<lambda>_. liftE d))))) (\<lambda>_. saved_and_checked ext s cs) ?R t"
    if "in_session s cs t" for final fp q d t
  proof -
    have "saved_and_checked ext s cs (t\<lparr>v_checks := v_checks t @ [(final, fp)], v_session := s\<lparr>vs_source_fingerprint := fp,
        vs_saved_revision := kd_revision (vs_document s)\<rparr>\<rparr>)"
      if "verify_semantic_equivalence (vx_kdbx ext) (vs_document s) final = Inr ()"
      using that \<open>in_session s cs t\<close> by (simp add: saved_and_checked_def in_session_def marked_saved_def)
    moreover have "v_session t = s" using that by (simp add: in_session_def)
    ultimately show ?thesis
      by (simp add: wpE_bindE [of "modifyE _"] wpE_modifyE wpE_bindE [of "liftE _"] wpE_liftE map_err_def tail split: sum.split)
  qed
  show ?thesis
    unfolding finish_replace_def
    by (rule session_bind [OF _ w], simp, rule session_get, assumption, (rule session_bind, simp add: same_session_map_errE, assumption)+)
      (auto intro!: check [simplified] simp: same)
qed

lemma persist_body_session:
  assumes "in_session s cs w"
  shows "wpE (persist_body ext target p) (\<lambda>out t. out = Saved \<and> saved_and_checked ext s cs t)
    (\<lambda>_ t. v_session t = s \<or> saved_and_checked ext s cs t) w"
proof -
  let ?R = "\<lambda>_ t. v_session t = s \<or> saved_and_checked ext s cs t"
  have same: "v_session t = s" if "in_session s cs t" for t using that by (simp add: in_session_def)
  have "wpE (with_temp (create_backup_temp q) (\<lambda>b. bindE (fill_backup ext b) (\<lambda>_.
      bindE (finish_replace ext target p b (vs_document s) None) (\<lambda>_. returnE Saved)))) (\<lambda>_. saved_and_checked ext s cs) ?R t"
    if "in_session s cs t" for q t
    by (rule wpE_with_temp_session, rule session_final [OF _ that], simp, rule session_bind, simp, assumption)
      (auto simp: wp_simps same intro!: wpE_mono [OF finish_replace_session])
  moreover have "wpE (with_temp (create_backup_temp q) (\<lambda>b. bindE (fill_backup ext b) (\<lambda>_.
      bindE (finish_replace ext target p b (vs_document s) None) (\<lambda>_. returnE Saved)))) (\<lambda>out _. out = Saved) (\<lambda>_ _. True) t" for q t
    by (simp add: with_temp_def wpE_def op_defs split: prod.splits sum.splits)
  ultimately have backup: "wpE (with_temp (create_backup_temp q) (\<lambda>b. bindE (fill_backup ext b) (\<lambda>_.
      bindE (finish_replace ext target p b (vs_document s) None) (\<lambda>_. returnE Saved))))
      (\<lambda>out t. out = Saved \<and> saved_and_checked ext s cs t) ?R t" if "in_session s cs t" for q t
    using wpE_conj that by fastforce
  have s: "v_session w = s" using assms by (simp add: in_session_def)
  show ?thesis
    unfolding persist_body_def wpE_bindE [of "getsE _"] wpE_getsE s
    by (intro session_bind [where s = s and cs = cs] same_session_map_errE backup)
      (use assms in \<open>auto simp: in_session_def intro!: same_session_modifyE\<close>)
qed

text \<open>
  C9: a save never loses an edit. Whatever fails and whatever other processes do, the document of
  the session is the same after \<open>save\<close> or \<open>rotate\<close> as before. The session is marked as saved only
  after the replaced vault file was read back in the same run and found equal to its document, and
  then with the revision that was written and the fingerprint that was read; on every other exit
  nothing of it changes, so unsaved changes stay marked as such. \<open>Unchanged\<close> is reported only for a
  clean session and does nothing.
\<close>

theorem save_keeps_edits:
  "wpE (persist_with_credentials ext current target force)
    (\<lambda>outcome t. case outcome of
         Unchanged \<Rightarrow> \<not> force \<and> \<not> is_dirty (v_session w) \<and> t = w
       | Saved \<Rightarrow> saved_and_checked ext (v_session w) (v_checks w) t)
    (\<lambda>_ t. v_session t = v_session w \<or> saved_and_checked ext (v_session w) (v_checks w) t) w"
proof -
  let ?s = "v_session w" and ?cs = "v_checks w"
  have w: "in_session ?s ?cs w" by (simp add: in_session_def)
  have same: "v_session t = ?s" if "in_session ?s ?cs t" for t using that by (simp add: in_session_def)
  have body: "wpE (persist_body ext target p) (\<lambda>_. saved_and_checked ext ?s ?cs) (\<lambda>_ t. v_session t = ?s \<or> saved_and_checked ext ?s ?cs t) t"
    if "in_session ?s ?cs t" for p t
    by (rule wpE_mono [OF persist_body_session [OF that]]) auto
  have "wpE (bindE (validate_current_target q) (\<lambda>_. bindE (require_source_unchanged ext) (\<lambda>_.
      bindE (verify_save_credential ext current) (\<lambda>_.
      with_temp (temp_create TEMP_CREATE_ATTEMPTS par pre) (persist_body ext target)))))
      (\<lambda>_. saved_and_checked ext ?s ?cs) (\<lambda>_ t. v_session t = ?s \<or> saved_and_checked ext ?s ?cs t) w" for q par pre
    by (rule session_bind [OF _ w], simp, (rule session_bind, simp, assumption)+, rule wpE_with_temp_session,
        rule session_final, simp, assumption) (auto intro: body same)
  moreover have "wpE (bindE (validate_current_target q) (\<lambda>_. bindE (require_source_unchanged ext) (\<lambda>_.
      bindE (verify_save_credential ext current) (\<lambda>_.
      with_temp (temp_create TEMP_CREATE_ATTEMPTS par pre) (persist_body ext target)))))
      (\<lambda>out _. out = Saved) (\<lambda>_ _. True) w" for q par pre
    by (simp add: persist_body_def with_temp_def wpE_def op_defs split: prod.splits sum.splits)
  ultimately have main: "wpE (bindE (validate_current_target q) (\<lambda>_. bindE (require_source_unchanged ext) (\<lambda>_.
      bindE (verify_save_credential ext current) (\<lambda>_.
      with_temp (temp_create TEMP_CREATE_ATTEMPTS par pre) (persist_body ext target)))))
      (\<lambda>out t. out = Saved \<and> saved_and_checked ext ?s ?cs t)
      (\<lambda>_ t. v_session t = ?s \<or> saved_and_checked ext ?s ?cs t) w" for q par pre
    using wpE_conj by fastforce
  show ?thesis
  proof (cases "\<not> force \<and> \<not> is_dirty ?s")
    case True
    then show ?thesis by (simp add: persist_with_credentials_def wpE_bindE wpE_getsE wpE_returnE)
  next
    case False
    show ?thesis
      unfolding persist_with_credentials_def wpE_bindE [of "getsE _"] wpE_getsE if_not_P [OF False]
      by (rule wpE_mono [OF main]) auto
  qed
qed

text \<open>
  C5: only verified bytes reach the vault file. Whatever fails and whatever other processes do
  to other files, one save or credential rotation renames at most one file over the vault, and that
  file holds bytes which were written completely, read back with the target credential and found
  semantically equal to the session's document.
\<close>

theorem save_installs_verified:
  "extends_by (v_history w) (\<lambda>(old, new). verified_bytes ext target (vs_document (v_session w)) new)
    (v_history (snd (persist_with_credentials ext current target force w)))"
  using persist_history [of ext current target force w] by (simp add: wpE_def split: prod.splits sum.splits)

text \<open>
  C30: the replacement requested by synchronization puts exactly the candidate over the vault file,
  at most once, and a session with unsaved changes or of another generation is never overwritten.
\<close>

theorem replace_installs_candidate:
  "extends_by (v_history w)
    (\<lambda>(old, new). new = ct \<and> \<not> is_dirty (v_session w) \<and> expected = vs_source_fingerprint (v_session w))
    (v_history (snd (replace_encrypted_if_unchanged ext expected ct cred w)))"
proof (cases "is_dirty (v_session w) \<or> expected \<noteq> vs_source_fingerprint (v_session w)")
  case True
  then show ?thesis by (auto simp: replace_encrypted_if_unchanged_def op_defs)
next
  case False
  then show ?thesis
    using replace_history [of ext expected ct cred w] by (simp add: wpE_def split: prod.splits sum.splits)
qed

text \<open>
  What synchronization captures is the saved generation: a successful capture comes from a
  session without unsaved changes and returns bytes whose size and SHA-256 are those the session
  recorded when it last read or wrote the file; the capture changes nothing of the session.
\<close>

theorem capture_is_saved_generation:
  "wpE (capture_encrypted ext)
    (\<lambda>snapshot t. v_session t = v_session w \<and> \<not> is_dirty (v_session w) \<and>
       fingerprint ext (ev_ciphertext snapshot) = vs_source_fingerprint (v_session w) \<and>
       ev_fingerprint snapshot = vs_source_fingerprint (v_session w))
    (\<lambda>_ t. v_session t = v_session w) w"
proof -
  let ?s = "v_session w"
  have "wpE (bindE (require_source_unchanged ext) (\<lambda>_. bindE (read_file ReadSource q) (\<lambda>bs.
      bindE (require_source_unchanged ext) (\<lambda>_.
      if fingerprint ext bs \<noteq> vs_source_fingerprint ?s then throwE ExternalModificationDetected
      else returnE \<lparr>ev_ciphertext = bs, ev_fingerprint = fingerprint ext bs\<rparr>))))
    (\<lambda>snapshot t. v_session t = v_session w \<and> fingerprint ext (ev_ciphertext snapshot) = vs_source_fingerprint ?s \<and>
       ev_fingerprint snapshot = vs_source_fingerprint ?s) (\<lambda>_ t. v_session t = ?s) w" for q
    by (intro session_bind [where s = ?s and cs = "v_checks w"]) (auto simp: wp_simps in_session_def)
  then show ?thesis
    by (simp add: capture_encrypted_def wpE_bindE [of "getsE _"] wpE_getsE wpE_throwE)
qed

subsection \<open>The mutation counter and the merge decision\<close>

text \<open>
  C31: the 64-bit mutation counter never makes a modified document look saved. However many
  mutations follow, also past the largest value of the counter, a document that differs from a
  revision saved earlier keeps differing from it.
\<close>

theorem modified_stays_modified:
  assumes "saved \<le> kd_revision doc" and "0 < n \<or> has_changes_since doc saved"
  shows "has_changes_since ((mark_changed ^^ n) doc) saved"
proof (cases "has_changes_since doc saved")
  case True
  then show ?thesis using mark_changed_stays_dirty [OF assms(1)] by blast
next
  case False
  then have saved: "kd_revision doc = saved" and "0 < n" using assms(2) by (auto simp: has_changes_since_def)
  then obtain m where n: "n = Suc m" by (cases n) auto
  have "saved \<le> kd_revision (mark_changed doc)" "has_changes_since (mark_changed doc) saved"
    using mark_changed_monotone(1) [of doc] mark_changed_dirty [of doc] saved by simp_all
  from mark_changed_stays_dirty [OF this, of m] show ?thesis by (simp add: n funpow_swap1)
qed

theorem modified_stays_modified_witness:
  "has_changes_since ((mark_changed ^^ 3)
     (\<lparr>kd_version = Kdbx4 1, kd_database = [7 :: byte], kd_revision = - 2, kd_revision_permanently_dirty = False\<rparr>)) (- 2)"
  by (rule modified_stays_modified) simp_all

text \<open>
  the decision between three generations. When \<open>merge\<close> succeeds all three have the same format
  version and are valid, and its outcome is determined by which of them are semantically equal:
  \<open>Equivalent\<close> exactly when LOCAL and REMOTE agree, a fast-forward exactly when one side still is
  BASE, and otherwise what the divergent merge says; it never fast-forwards over a side that changed.
\<close>

theorem merge_decision:
  assumes "merge api base local remote = Inr outcome"
  shows "kd_version base = kd_version local \<and> kd_version base = kd_version remote \<and>
    outcome = (if semantically_equals api local remote then Equivalent
      else if semantically_equals api remote base then FastForwardLocal
      else if semantically_equals api local base then FastForwardRemote
      else case merge_divergent api base local remote of
          Inr (MergedDoc doc) \<Rightarrow> Merged doc | Inr (ConflictedDoc conflicts) \<Rightarrow> Conflicted conflicts)"
  using assms
  by (auto simp: merge_def bindR_def map_err_def split: if_splits sum.splits divergent_outcome.splits)

definition ref_document :: "bytes \<Rightarrow> bytes KdbxDocument" where
  "ref_document db = \<lparr>kd_version = Kdbx4 1, kd_database = db, kd_revision = 0, kd_revision_permanently_dirty = False\<rparr>"

theorem merge_decision_witness:
  "merge ref_api (ref_document [1]) (ref_document [2]) (ref_document [1]) = Inr FastForwardLocal \<and>
   semantically_equals ref_api (ref_document [1]) (ref_document [1])"
proof -
  have m: "merge ref_api (ref_document [1]) (ref_document [2]) (ref_document [1]) = Inr FastForwardLocal"
    by (simp add: merge_def ref_document_def ref_api_def validate_for_sync_def semantically_equals_def)
  from merge_decision [OF m] show ?thesis
    using m by (simp add: ref_document_def ref_api_def semantically_equals_def)
qed

end
