(* ===== verification/Kdbx_Merge_Core.thy ===== *)
theory Kdbx_Merge_Core
  imports Kdbx_Document "HOL-Library.Finite_Map" "HOL-Library.Option_ord" "HOL-Library.List_Lexorder"
    "HOL-Library.Char_ord" "HOL-Library.Product_Lexorder"
begin

section \<open>Three-way merge of values\<close>

text \<open>
  Models the value level of \<open>src/crates/kdbx/src/sync.rs\<close>: how single properties, named maps, times,
  database metadata, child orders and histories of BASE, LOCAL and REMOTE are combined. The structs
  come from the third-party \<open>keepass\<close> crate; the records below have the fields that the code reads
  or writes. A property that is only compared and copied has the type parameter \<open>'v\<close>. Times that the
  code compares are optional instants. Conflicts are pushed to a list that is passed along.
\<close>

type_synonym instant = "int option"

datatype Icon = BuiltIn nat | CustomIconRef "128 word"

type_synonym Value = "bool \<times> bytes"  \<comment> \<open>whether it is protected, and the bytes\<close>

record 'v Times =
  t_creation :: 'v
  t_last_access :: 'v
  t_expiry :: 'v
  t_expires :: 'v
  t_usage_count :: 'v
  t_last_modification :: instant
  t_location_changed :: instant

text \<open>An entry. \<open>e_private\<close> stands for the fields that the crate does not expose.\<close>

record 'v HistoricalEntry =
  e_id :: "128 word"
  e_fields :: "(string, 'v) fmap"
  e_autotype :: 'v
  e_tags :: 'v
  e_custom_data :: 'v
  e_foreground_color :: 'v
  e_background_color :: 'v
  e_override_url :: 'v
  e_quality_check :: 'v
  e_times :: "'v Times"
  e_icon :: "Icon option"
  e_private :: 'v

record 'v Entry = "'v HistoricalEntry" +
  e_history :: "'v HistoricalEntry list option"

record 'v Group =
  g_id :: "128 word"
  g_name :: 'v
  g_notes :: 'v
  g_tags :: 'v
  g_custom_data :: 'v
  g_is_expanded :: 'v
  g_default_autotype_sequence :: 'v
  g_enable_autotype :: 'v
  g_enable_searching :: 'v
  g_times :: "'v Times"
  g_icon :: "Icon option"
  g_private :: 'v

record 'v EntryState =
  es_entry :: "'v Entry"
  es_parent :: "128 word"
  es_previous_parent :: "128 word option"
  es_attachments :: "(string, Value) fmap"

record 'v GroupState =
  gs_group :: "'v Group"
  gs_parent :: "128 word option"
  gs_previous_parent :: "128 word option"
  gs_child_groups :: "128 word list"
  gs_child_entries :: "128 word list"

text \<open>A historical entry as the database resolves it.\<close>

record 'v EntryRef =
  er_entry :: "'v HistoricalEntry"
  er_previous_parent :: "128 word option"
  er_attachments :: "(string, Value) fmap"

record 'v Meta =
  m_generator :: 'v
  m_database_name :: 'v
  m_database_name_changed :: 'v
  m_database_description :: 'v
  m_database_description_changed :: 'v
  m_default_username :: 'v
  m_default_username_changed :: 'v
  m_maintenance_history_days :: 'v
  m_color :: 'v
  m_master_key_changed :: 'v
  m_master_key_change_rec :: 'v
  m_master_key_change_force :: 'v
  m_memory_protection :: 'v
  m_recyclebin_enabled :: 'v
  m_recyclebin_uuid :: 'v
  m_recyclebin_changed :: 'v
  m_entry_templates_group :: 'v
  m_entry_templates_group_changed :: 'v
  m_last_selected_group :: 'v
  m_last_top_visible_group :: 'v
  m_history_max_items :: 'v
  m_history_max_size :: 'v
  m_settings_changed :: 'v
  m_custom_data :: "(string, 'v) fmap"

subsection \<open>One value\<close>

definition choose_three_way :: "'a \<Rightarrow> 'a \<Rightarrow> 'a \<Rightarrow> 'a option" where
  "choose_three_way base local remote =
     (if local = remote then Some local
      else if local = base then Some remote
      else if remote = base then Some local
      else None)"

text \<open>The macro \<open>merge_prop!\<close>, for a property read by \<open>get\<close> and written by \<open>upd\<close>.\<close>

definition merge_prop ::
    "SyncConflict \<Rightarrow> 'r \<Rightarrow> 'r \<Rightarrow> 'r \<Rightarrow> ('r \<Rightarrow> 'v) \<times> (('v \<Rightarrow> 'v) \<Rightarrow> 'r \<Rightarrow> 'r) \<Rightarrow>
     'r \<times> SyncConflict list \<Rightarrow> 'r \<times> SyncConflict list" where
  "merge_prop conflict base local remote prop st = (case (prop, st) of ((get, upd), (merged, conflicts)) \<Rightarrow>
     (case choose_three_way (get base) (get local) (get remote) of
        Some value \<Rightarrow> (upd (\<lambda>_. value) merged, conflicts)
      | None \<Rightarrow> (merged, conflicts @ [conflict])))"

subsection \<open>Named maps\<close>

definition named_keys :: "(string, 'v) fmap \<Rightarrow> (string, 'v) fmap \<Rightarrow> (string, 'v) fmap \<Rightarrow> string list" where
  "named_keys base local remote = sorted_list_of_set (fset (fmdom base |\<union>| fmdom local |\<union>| fmdom remote))"

definition merge_named ::
    "(string \<Rightarrow> SyncConflict) \<Rightarrow> (string, 'v) fmap \<Rightarrow> (string, 'v) fmap \<Rightarrow> (string, 'v) fmap \<Rightarrow> string \<Rightarrow>
     (string, 'v) fmap \<times> SyncConflict list \<Rightarrow> (string, 'v) fmap \<times> SyncConflict list" where
  "merge_named conflict base local remote key st = (case st of (result, conflicts) \<Rightarrow>
     let b = fmlookup base key; l = fmlookup local key; r = fmlookup remote key;
         (selected, conflicts) =
           (if l = r then (l, conflicts)
            else if l = b then (r, conflicts)
            else if r = b then (l, conflicts)
            else (l, conflicts @ [conflict key]))
     in (case selected of Some value \<Rightarrow> fmupd key value result | None \<Rightarrow> result, conflicts))"

definition merge_named_map ::
    "(string, 'v) fmap \<Rightarrow> (string, 'v) fmap \<Rightarrow> (string, 'v) fmap \<Rightarrow> (string \<Rightarrow> SyncConflict) \<Rightarrow>
     SyncConflict list \<Rightarrow> (string, 'v) fmap \<times> SyncConflict list" where
  "merge_named_map base local remote conflict conflicts =
     fold (merge_named conflict base local remote) (named_keys base local remote) (fmempty, conflicts)"

subsection \<open>Conflict constructors\<close>

definition entry_metadata_conflict :: "string \<Rightarrow> SyncConflict" where
  "entry_metadata_conflict i = \<lparr>sc_object = EntryObject i, sc_kind = FieldEdit,
     sc_field = Some \<lparr>scf_kind = EntryMetadata, scf_name = None\<rparr>\<rparr>"

definition group_metadata_conflict :: "string \<Rightarrow> SyncConflict" where
  "group_metadata_conflict i = \<lparr>sc_object = GroupObject i, sc_kind = Metadata,
     sc_field = Some \<lparr>scf_kind = GroupMetadata, scf_name = None\<rparr>\<rparr>"

definition database_metadata_conflict :: SyncConflict where
  "database_metadata_conflict = \<lparr>sc_object = DatabaseObject, sc_kind = Metadata,
     sc_field = Some \<lparr>scf_kind = DatabaseMetadata, scf_name = None\<rparr>\<rparr>"

definition history_conflict :: "string \<Rightarrow> SyncConflict" where
  "history_conflict i = \<lparr>sc_object = EntryObject i, sc_kind = History, sc_field = None\<rparr>"

subsection \<open>Times and metadata\<close>

definition time_props :: "(('v Times \<Rightarrow> 'v) \<times> (('v \<Rightarrow> 'v) \<Rightarrow> 'v Times \<Rightarrow> 'v Times)) list" where
  "time_props = [(t_creation, t_creation_update), (t_last_access, t_last_access_update),
     (t_expiry, t_expiry_update), (t_expires, t_expires_update), (t_usage_count, t_usage_count_update)]"

definition merge_times ::
    "SyncConflict \<Rightarrow> 'v Times \<Rightarrow> 'v Times \<Rightarrow> 'v Times \<Rightarrow> 'v Times \<times> SyncConflict list \<Rightarrow>
     'v Times \<times> SyncConflict list" where
  "merge_times conflict base local remote st =
     (case fold (merge_prop conflict base local remote) time_props st of (merged, conflicts) \<Rightarrow>
        (merged\<lparr>t_last_modification := max (t_last_modification local) (t_last_modification remote),
                t_location_changed := max (t_location_changed local) (t_location_changed remote)\<rparr>, conflicts))"

definition meta_props :: "(('v Meta \<Rightarrow> 'v) \<times> (('v \<Rightarrow> 'v) \<Rightarrow> 'v Meta \<Rightarrow> 'v Meta)) list" where
  "meta_props =
     [(m_generator, m_generator_update), (m_database_name, m_database_name_update),
      (m_database_name_changed, m_database_name_changed_update),
      (m_database_description, m_database_description_update),
      (m_database_description_changed, m_database_description_changed_update),
      (m_default_username, m_default_username_update),
      (m_default_username_changed, m_default_username_changed_update),
      (m_maintenance_history_days, m_maintenance_history_days_update), (m_color, m_color_update),
      (m_master_key_changed, m_master_key_changed_update),
      (m_master_key_change_rec, m_master_key_change_rec_update),
      (m_master_key_change_force, m_master_key_change_force_update),
      (m_memory_protection, m_memory_protection_update), (m_recyclebin_enabled, m_recyclebin_enabled_update),
      (m_recyclebin_uuid, m_recyclebin_uuid_update), (m_recyclebin_changed, m_recyclebin_changed_update),
      (m_entry_templates_group, m_entry_templates_group_update),
      (m_entry_templates_group_changed, m_entry_templates_group_changed_update),
      (m_last_selected_group, m_last_selected_group_update),
      (m_last_top_visible_group, m_last_top_visible_group_update),
      (m_history_max_items, m_history_max_items_update), (m_history_max_size, m_history_max_size_update),
      (m_settings_changed, m_settings_changed_update)]"

definition merge_meta ::
    "'v Meta \<Rightarrow> 'v Meta \<Rightarrow> 'v Meta \<Rightarrow> 'v Meta \<times> SyncConflict list \<Rightarrow> 'v Meta \<times> SyncConflict list" where
  "merge_meta base local remote st =
     (case fold (merge_prop database_metadata_conflict base local remote) meta_props st of (merged, conflicts) \<Rightarrow>
      case merge_named_map (m_custom_data base) (m_custom_data local) (m_custom_data remote)
             (\<lambda>_. database_metadata_conflict) conflicts of (custom, conflicts) \<Rightarrow>
        (merged\<lparr>m_custom_data := custom\<rparr>, conflicts))"

subsection \<open>Entries and groups\<close>

definition entry_props :: "(('v Entry \<Rightarrow> 'v) \<times> (('v \<Rightarrow> 'v) \<Rightarrow> 'v Entry \<Rightarrow> 'v Entry)) list" where
  "entry_props = [(e_autotype, e_autotype_update), (e_tags, e_tags_update), (e_custom_data, e_custom_data_update),
     (e_foreground_color, e_foreground_color_update), (e_background_color, e_background_color_update),
     (e_override_url, e_override_url_update), (e_quality_check, e_quality_check_update)]"

definition merge_entry_properties ::
    "(128 word \<Rightarrow> string) \<Rightarrow> 'v EntryState \<Rightarrow> 'v EntryState \<Rightarrow> 'v EntryState \<Rightarrow>
     'v Entry \<times> SyncConflict list \<Rightarrow> 'v Entry \<times> SyncConflict list" where
  "merge_entry_properties id_string base local remote st =
     (let i = id_string (e_id (es_entry local));
          b = es_entry base; l = es_entry local; r = es_entry remote;
          (merged, conflicts) = fold (merge_prop (entry_metadata_conflict i) b l r) entry_props st;
          (times, conflicts) = merge_times (entry_metadata_conflict i) (e_times b) (e_times l) (e_times r)
             (e_times merged, conflicts);
          merged = merged\<lparr>e_times := times\<rparr>
      in (merged, if choose_three_way (e_icon b) (e_icon l) (e_icon r) = None
           then conflicts @ [\<lparr>sc_object = EntryObject i, sc_kind = CustomIcon, sc_field = None\<rparr>]
           else conflicts))"

definition relative_order :: "'a list \<Rightarrow> 'a set \<Rightarrow> 'a list" where
  "relative_order order universe = filter (\<lambda>i. i \<in> universe) order"

definition order_changed_relative_to_base :: "'a list \<Rightarrow> 'a list \<Rightarrow> bool" where
  "order_changed_relative_to_base base branch =
     (relative_order branch (set base) \<noteq> relative_order base (set branch))"

definition remote_reorder_would_be_lost :: "'a list \<Rightarrow> 'a list \<Rightarrow> 'a list \<Rightarrow> bool" where
  "remote_reorder_would_be_lost base local remote =
     (if \<not> order_changed_relative_to_base base remote then False
      else
        let common = set (filter (\<lambda>i. i \<in> set local \<and> i \<in> set remote) base) in
        \<not> order_changed_relative_to_base base local \<or>
        relative_order local common \<noteq> relative_order remote common)"

definition group_props :: "(('v Group \<Rightarrow> 'v) \<times> (('v \<Rightarrow> 'v) \<Rightarrow> 'v Group \<Rightarrow> 'v Group)) list" where
  "group_props = [(g_name, g_name_update), (g_notes, g_notes_update), (g_tags, g_tags_update),
     (g_custom_data, g_custom_data_update), (g_is_expanded, g_is_expanded_update),
     (g_default_autotype_sequence, g_default_autotype_sequence_update),
     (g_enable_autotype, g_enable_autotype_update), (g_enable_searching, g_enable_searching_update)]"

definition merge_group_properties ::
    "(128 word \<Rightarrow> string) \<Rightarrow> 'v GroupState \<Rightarrow> 'v GroupState \<Rightarrow> 'v GroupState \<Rightarrow>
     'v Group \<times> SyncConflict list \<Rightarrow> 'v Group \<times> SyncConflict list" where
  "merge_group_properties id_string base local remote st =
     (let i = id_string (g_id (gs_group local));
          b = gs_group base; l = gs_group local; r = gs_group remote;
          (merged, conflicts) = fold (merge_prop (group_metadata_conflict i) b l r) group_props st;
          (times, conflicts) = merge_times (group_metadata_conflict i) (g_times b) (g_times l) (g_times r)
             (g_times merged, conflicts);
          merged = merged\<lparr>g_times := times\<rparr>;
          conflicts = (if choose_three_way (g_icon b) (g_icon l) (g_icon r) = None
             then conflicts @ [\<lparr>sc_object = GroupObject i, sc_kind = CustomIcon, sc_field = None\<rparr>] else conflicts);
          conflicts = (if remote_reorder_would_be_lost (gs_child_groups base) (gs_child_groups local) (gs_child_groups remote)
             then conflicts @ [group_metadata_conflict i] else conflicts);
          conflicts = (if remote_reorder_would_be_lost (gs_child_entries base) (gs_child_entries local) (gs_child_entries remote)
             then conflicts @ [group_metadata_conflict i] else conflicts)
      in (merged, conflicts))"

subsection \<open>Histories\<close>

definition history_entry_semantically_eq :: "'v EntryRef \<Rightarrow> 'v EntryRef \<Rightarrow> bool" where
  "history_entry_semantically_eq left right = (let l = er_entry left; r = er_entry right in
     e_id l = e_id r \<and> er_previous_parent left = er_previous_parent right \<and> e_fields l = e_fields r \<and>
     e_autotype l = e_autotype r \<and> e_tags l = e_tags r \<and> e_times l = e_times r \<and>
     e_custom_data l = e_custom_data r \<and> e_icon l = e_icon r \<and> e_foreground_color l = e_foreground_color r \<and>
     e_background_color l = e_background_color r \<and> e_override_url l = e_override_url r \<and>
     e_quality_check l = e_quality_check r \<and> er_attachments left = er_attachments right)"

end
