(* ===== verification/Kdbx_Three_Way.thy ===== *)
theory Kdbx_Three_Way
  imports Kdbx_Merge_Core
begin

section \<open>Three-way merge of databases\<close>

text \<open>
  Models the merge builder of \<open>src/crates/kdbx/src/sync.rs\<close>, its validity check and its semantic
  comparison, and the history policy of \<open>history_policy.rs\<close> that is applied to the result. The
  in-memory database is the third-party \<open>keepass\<close> crate: a record of the operations that the code
  calls on it. A mutation that can fail returns \<open>None\<close> where the crate returns \<open>Err\<close>. A \<open>*_mut(id)\<close>
  accessor of the crate yields an object exactly when the reading accessor does. Where the code
  iterates over a hash map in order to copy it, the model goes through it in the order of the keys.
\<close>

record IconState =
  is_name :: "string option"
  is_last_modification_time :: instant
  is_data :: bytes

record ('d, 'v) keepass =
  kp_id_string :: "128 word \<Rightarrow> string"
  kp_standard_fields :: "string list"
  kp_otp_field :: string
  kp_empty_name :: 'v
  kp_root :: "'d \<Rightarrow> 128 word"
  kp_entries :: "'d \<Rightarrow> 128 word list"
  kp_groups :: "'d \<Rightarrow> 128 word list"
  kp_icons :: "'d \<Rightarrow> 128 word list"
  kp_attachments :: "'d \<Rightarrow> Value list"
  kp_entry :: "'d \<Rightarrow> 128 word \<Rightarrow> 'v EntryState option"
  kp_group :: "'d \<Rightarrow> 128 word \<Rightarrow> 'v GroupState option"
  kp_icon :: "'d \<Rightarrow> 128 word \<Rightarrow> IconState option"
  kp_historical :: "'d \<Rightarrow> 128 word \<Rightarrow> nat \<Rightarrow> 'v EntryRef option"
  kp_config :: "'d \<Rightarrow> 'v"
  kp_set_config :: "'v \<Rightarrow> 'd \<Rightarrow> 'd"
  kp_meta :: "'d \<Rightarrow> 'v Meta"
  kp_set_meta :: "'v Meta \<Rightarrow> 'd \<Rightarrow> 'd"
  kp_history_max_items :: "'v \<Rightarrow> int option"
  kp_history_max_items_value :: "int option \<Rightarrow> 'v"
  kp_deleted :: "'d \<Rightarrow> (128 word, instant) fmap"
  kp_insert_deleted :: "128 word \<Rightarrow> instant \<Rightarrow> 'd \<Rightarrow> 'd"
  kp_set_icon :: "128 word \<Rightarrow> IconState \<Rightarrow> 'd \<Rightarrow> 'd"
  kp_remove_icon :: "128 word \<Rightarrow> 'd \<Rightarrow> 'd"
  kp_add_group :: "128 word \<Rightarrow> 128 word \<Rightarrow> 'd \<Rightarrow> 'd option"
  kp_update_group :: "128 word \<Rightarrow> ('v Group \<Rightarrow> 'v Group) \<Rightarrow> 'd \<Rightarrow> 'd"
  kp_set_group_icon :: "128 word \<Rightarrow> Icon option \<Rightarrow> 'd \<Rightarrow> 'd option"
  kp_move_group :: "128 word \<Rightarrow> 128 word \<Rightarrow> 'd \<Rightarrow> 'd option"
  kp_remove_group :: "128 word \<Rightarrow> 'd \<Rightarrow> 'd"
  kp_add_entry :: "128 word \<Rightarrow> 128 word \<Rightarrow> 'd \<Rightarrow> 'd option"
  kp_update_entry :: "128 word \<Rightarrow> ('v Entry \<Rightarrow> 'v Entry) \<Rightarrow> 'd \<Rightarrow> 'd"
  kp_set_entry_icon :: "128 word \<Rightarrow> Icon option \<Rightarrow> 'd \<Rightarrow> 'd option"
  kp_move_entry :: "128 word \<Rightarrow> 128 word \<Rightarrow> 'd \<Rightarrow> 'd option"
  kp_remove_entry :: "128 word \<Rightarrow> 'd \<Rightarrow> 'd"
  kp_remove_attachment :: "128 word \<Rightarrow> string \<Rightarrow> 'd \<Rightarrow> 'd"
  kp_add_attachment :: "128 word \<Rightarrow> string \<Rightarrow> Value \<Rightarrow> 'd \<Rightarrow> 'd"
  kp_history_add :: "'v HistoricalEntry \<Rightarrow> 'v HistoricalEntry list \<Rightarrow> 'v HistoricalEntry list"

record 'd MergeBuilder =
  mb_base :: 'd
  mb_local :: 'd
  mb_remote :: 'd
  mb_candidate :: 'd
  mb_conflicts :: "SyncConflict list"

text \<open>A loop whose body may return early with an error.\<close>

fun foldR :: "('a \<Rightarrow> 's \<Rightarrow> 'e + 's) \<Rightarrow> 'a list \<Rightarrow> 's \<Rightarrow> 'e + 's" where
  "foldR f [] s = Inr s"
| "foldR f (x # xs) s = bindR (f x s) (foldR f xs)"

subsection \<open>Conflicts\<close>

definition push_conflict :: "SyncConflict \<Rightarrow> 'd MergeBuilder \<Rightarrow> 'd MergeBuilder" where
  "push_conflict c b = b\<lparr>mb_conflicts := mb_conflicts b @ [c]\<rparr>"

definition entry_conflict_of ::
    "('d, 'v) keepass \<Rightarrow> 128 word \<Rightarrow> SyncConflictKind \<Rightarrow> SyncConflictField option \<Rightarrow> SyncConflict" where
  "entry_conflict_of kp i kind field = \<lparr>sc_object = EntryObject (kp_id_string kp i), sc_kind = kind, sc_field = field\<rparr>"

definition entry_conflict ::
    "('d, 'v) keepass \<Rightarrow> 128 word \<Rightarrow> SyncConflictKind \<Rightarrow> SyncConflictField option \<Rightarrow> 'd MergeBuilder \<Rightarrow> 'd MergeBuilder" where
  "entry_conflict kp i kind field = push_conflict (entry_conflict_of kp i kind field)"

definition group_conflict ::
    "('d, 'v) keepass \<Rightarrow> 128 word \<Rightarrow> SyncConflictKind \<Rightarrow> 'd MergeBuilder \<Rightarrow> 'd MergeBuilder" where
  "group_conflict kp i kind =
     push_conflict \<lparr>sc_object = GroupObject (kp_id_string kp i), sc_kind = kind, sc_field = None\<rparr>"

definition database_conflict :: "SyncConflictKind \<Rightarrow> 'd MergeBuilder \<Rightarrow> 'd MergeBuilder" where
  "database_conflict kind = push_conflict \<lparr>sc_object = DatabaseObject, sc_kind = kind, sc_field = None\<rparr>"

definition icon_conflict_kind :: "SyncConflictKind \<Rightarrow> 'd MergeBuilder \<Rightarrow> 'd MergeBuilder" where
  "icon_conflict_kind kind = push_conflict \<lparr>sc_object = DatabaseObject, sc_kind = kind, sc_field = None\<rparr>"

definition icon_conflict :: "'d MergeBuilder \<Rightarrow> 'd MergeBuilder" where
  "icon_conflict = icon_conflict_kind CustomIcon"

definition TOTP_FIELD_NAMES :: "('d, 'v) keepass \<Rightarrow> string list" where
  "TOTP_FIELD_NAMES kp = [kp_otp_field kp, ''TOTP Seed'', ''TOTP Settings'', ''TimeOtp-Secret'',
     ''TimeOtp-Secret-Hex'', ''TimeOtp-Secret-Base32'', ''TimeOtp-Secret-Base64'', ''TimeOtp-Algorithm'',
     ''TimeOtp-Length'', ''TimeOtp-Period'']"

definition PASSKEY_FIELD_PREFIX :: string where "PASSKEY_FIELD_PREFIX = ''KPEX_PASSKEY''"

definition entry_field_conflict :: "('d, 'v) keepass \<Rightarrow> 128 word \<Rightarrow> string \<Rightarrow> SyncConflict" where
  "entry_field_conflict kp i name =
     (let kind = (if name \<in> set (TOTP_FIELD_NAMES kp) \<or> starts_with name PASSKEY_FIELD_PREFIX then Reserved
                  else if name \<in> set (kp_standard_fields kp) then Standard
                  else Custom)
      in entry_conflict_of kp i FieldEdit (Some \<lparr>scf_kind = kind, scf_name = Some name\<rparr>))"

subsection \<open>Validity for synchronization\<close>

text \<open>The chain of parents of a group; \<open>None\<close> when it closes a cycle or leads to a missing group.\<close>

function ancestors :: "('d, 'v) keepass \<Rightarrow> 'd \<Rightarrow> 128 word list \<Rightarrow> 128 word option \<Rightarrow> 128 word list option" where
  "ancestors kp d seen None = Some seen"
| "ancestors kp d seen (Some i) =
     (if i \<in> set seen then None
      else case kp_group kp d i of None \<Rightarrow> None | Some g \<Rightarrow> ancestors kp d (i # seen) (gs_parent g))"
  by pat_completeness auto

text \<open>Every step adds an identifier that was not seen before, and there are finitely many.\<close>

lemma unseen_decreases: "i \<notin> set seen \<Longrightarrow> card (- set (i # seen)) < card (- set (seen :: 128 word list))"
  by (rule psubset_card_mono) auto

termination ancestors
  by (relation "measure (\<lambda>(kp, d, seen, cur). card (- set seen))") (use unseen_decreases in auto)

definition unavailable_icon :: "('d, 'v) keepass \<Rightarrow> 'd \<Rightarrow> Icon option \<Rightarrow> bool" where
  "unavailable_icon kp d icon = (case icon of Some (CustomIconRef i) \<Rightarrow> kp_icon kp d i = None | _ \<Rightarrow> False)"

definition live_identities :: "('d, 'v) keepass \<Rightarrow> 'd \<Rightarrow> 128 word list" where
  "live_identities kp d = kp_entries kp d @ kp_groups kp d @ kp_icons kp d"

definition identities_valid :: "('d, 'v) keepass \<Rightarrow> 'd \<Rightarrow> bool" where
  "identities_valid kp d =
     (distinct (live_identities kp d) \<and> list_all (\<lambda>i. fmlookup (kp_deleted kp d) i = None) (live_identities kp d))"

definition group_valid :: "('d, 'v) keepass \<Rightarrow> 'd \<Rightarrow> 128 word \<Rightarrow> bool" where
  "group_valid kp d i =
     ((case ancestors kp d [] (Some i) of None \<Rightarrow> False | Some seen \<Rightarrow> kp_root kp d \<in> set seen) \<and>
      (case kp_group kp d i of
         None \<Rightarrow> False
       | Some g \<Rightarrow>
           \<not> unavailable_icon kp d (g_icon (gs_group g)) \<and>
           list_all (\<lambda>c. case kp_group kp d c of None \<Rightarrow> False | Some child \<Rightarrow> gs_parent child = Some i) (gs_child_groups g) \<and>
           list_all (\<lambda>c. case kp_entry kp d c of None \<Rightarrow> False | Some child \<Rightarrow> es_parent child = i) (gs_child_entries g)))"

definition history_len :: "('d, 'v) keepass \<Rightarrow> 'd \<Rightarrow> 128 word \<Rightarrow> nat" where
  "history_len kp d i = (case kp_entry kp d i of
     None \<Rightarrow> 0
   | Some e \<Rightarrow> (case e_history (es_entry e) of None \<Rightarrow> 0 | Some h \<Rightarrow> length h))"

definition entry_valid :: "('d, 'v) keepass \<Rightarrow> 'd \<Rightarrow> 128 word \<Rightarrow> bool" where
  "entry_valid kp d i = (case kp_entry kp d i of
     None \<Rightarrow> False
   | Some e \<Rightarrow>
       \<not> unavailable_icon kp d (e_icon (es_entry e)) \<and>
       list_all (\<lambda>index. case kp_historical kp d i index of
           None \<Rightarrow> False | Some h \<Rightarrow> \<not> unavailable_icon kp d (e_icon (er_entry h))) [0..<history_len kp d i])"

definition child_groups :: "('d, 'v) keepass \<Rightarrow> 'd \<Rightarrow> 128 word list" where
  "child_groups kp d = concat (map (\<lambda>i. case kp_group kp d i of None \<Rightarrow> [] | Some g \<Rightarrow> gs_child_groups g) (kp_groups kp d))"

definition child_entries :: "('d, 'v) keepass \<Rightarrow> 'd \<Rightarrow> 128 word list" where
  "child_entries kp d = concat (map (\<lambda>i. case kp_group kp d i of None \<Rightarrow> [] | Some g \<Rightarrow> gs_child_entries g) (kp_groups kp d))"

definition database_valid_for_sync_db :: "('d, 'v) keepass \<Rightarrow> 'd \<Rightarrow> bool" where
  "database_valid_for_sync_db kp d =
     (Option.bind (kp_group kp d (kp_root kp d)) gs_parent = None \<and>
      identities_valid kp d \<and>
      list_all (group_valid kp d) (kp_groups kp d) \<and>
      distinct (child_groups kp d) \<and> distinct (child_entries kp d) \<and>
      list_all (entry_valid kp d) (kp_entries kp d) \<and>
      length (child_groups kp d) + 1 = length (kp_groups kp d) \<and>
      length (child_entries kp d) = length (kp_entries kp d))"

subsection \<open>Semantic equality\<close>

definition named_attachments :: "'v EntryState \<Rightarrow> (string, Value) fmap" where
  "named_attachments e = es_attachments e"

definition historical_entries_semantically_eq ::
    "('d, 'v) keepass \<Rightarrow> 'd \<Rightarrow> nat \<Rightarrow> 'd \<Rightarrow> nat \<Rightarrow> 128 word \<Rightarrow> bool" where
  "historical_entries_semantically_eq kp left left_index right right_index i =
     (case (kp_entry kp left i, kp_historical kp left i left_index,
            kp_entry kp right i, kp_historical kp right i right_index) of
        (Some _, Some l, Some _, Some r) \<Rightarrow> history_entry_semantically_eq l r
      | _ \<Rightarrow> False)"

definition histories_semantically_eq :: "('d, 'v) keepass \<Rightarrow> 'd \<Rightarrow> 'd \<Rightarrow> 128 word \<Rightarrow> bool" where
  "histories_semantically_eq kp left right i =
     (history_len kp left i = history_len kp right i \<and>
      list_all (\<lambda>index. historical_entries_semantically_eq kp left index right index i) [0..<history_len kp left i])"

definition entry_semantically_eq :: "('d, 'v) keepass \<Rightarrow> 'd \<Rightarrow> 'd \<Rightarrow> 128 word \<Rightarrow> bool" where
  "entry_semantically_eq kp left right i = (case (kp_entry kp left i, kp_entry kp right i) of
     (Some ls, Some rs) \<Rightarrow>
       (let l = es_entry ls; r = es_entry rs in
        e_id l = e_id r \<and> es_parent ls = es_parent rs \<and> es_previous_parent ls = es_previous_parent rs \<and>
        e_fields l = e_fields r \<and> e_autotype l = e_autotype r \<and> e_tags l = e_tags r \<and> e_times l = e_times r \<and>
        e_custom_data l = e_custom_data r \<and> e_icon l = e_icon r \<and> e_foreground_color l = e_foreground_color r \<and>
        e_background_color l = e_background_color r \<and> e_override_url l = e_override_url r \<and>
        e_quality_check l = e_quality_check r \<and> named_attachments ls = named_attachments rs \<and>
        histories_semantically_eq kp left right i)
   | _ \<Rightarrow> False)"

definition attachment_values :: "('d, 'v) keepass \<Rightarrow> 'd \<Rightarrow> Value list" where
  "attachment_values kp d = sort (kp_attachments kp d)"

definition icon_index :: "('d, 'v) keepass \<Rightarrow> 'd \<Rightarrow> 128 word \<Rightarrow> IconState option" where
  "icon_index kp d i = (if i \<in> set (kp_icons kp d) then kp_icon kp d i else None)"

definition database_semantically_eq_db :: "('d, 'v) keepass \<Rightarrow> 'd \<Rightarrow> 'd \<Rightarrow> bool" where
  "database_semantically_eq_db kp left right =
     (kp_config kp left = kp_config kp right \<and> kp_meta kp left = kp_meta kp right \<and>
      kp_deleted kp left = kp_deleted kp right \<and> kp_root kp left = kp_root kp right \<and>
      length (kp_groups kp left) = length (kp_groups kp right) \<and>
      length (kp_entries kp left) = length (kp_entries kp right) \<and>
      list_all (\<lambda>i. case (kp_group kp left i, kp_group kp right i) of
          (Some l, Some r) \<Rightarrow> gs_group l = gs_group r | _ \<Rightarrow> False) (kp_groups kp left) \<and>
      list_all (entry_semantically_eq kp left right) (kp_entries kp left) \<and>
      list_all (\<lambda>i. icon_index kp left i = icon_index kp right i) (kp_icons kp left @ kp_icons kp right) \<and>
      attachment_values kp left = attachment_values kp right)"

end
