(* ===== verification/Kdbx_Merge_Builder.thy ===== *)
theory Kdbx_Merge_Builder
  imports Kdbx_Three_Way
begin

section \<open>The merge builder\<close>

text \<open>
  Models \<open>MergeBuilder\<close> of \<open>src/crates/kdbx/src/sync.rs\<close> step by step, and \<open>history_policy.rs\<close>. The
  candidate starts as LOCAL; each step applies what REMOTE changed or pushes a conflict. A loop over
  the identifiers of all three generations goes in the order of their textual form.
\<close>

definition all_keys3 :: "('d, 'v) keepass \<Rightarrow> 128 word list \<Rightarrow> 128 word list \<Rightarrow> 128 word list \<Rightarrow> 128 word list" where
  "all_keys3 kp base local remote = sort_key (kp_id_string kp) (remdups (base @ local @ remote))"

definition entry_index :: "('d, 'v) keepass \<Rightarrow> 'd \<Rightarrow> 128 word \<Rightarrow> 'v EntryState option" where
  "entry_index kp d i = (if i \<in> set (kp_entries kp d) then kp_entry kp d i else None)"

definition group_index :: "('d, 'v) keepass \<Rightarrow> 'd \<Rightarrow> 128 word \<Rightarrow> 'v GroupState option" where
  "group_index kp d i = (if i \<in> set (kp_groups kp d) then kp_group kp d i else None)"

definition remote_deleted :: "('d, 'v) keepass \<Rightarrow> 'd \<Rightarrow> 128 word \<Rightarrow> bool" where
  "remote_deleted kp d i = (fmlookup (kp_deleted kp d) i \<noteq> None)"

definition local_deleted :: "('d, 'v) keepass \<Rightarrow> 'd \<Rightarrow> 128 word \<Rightarrow> bool" where
  "local_deleted kp d i = (fmlookup (kp_deleted kp d) i \<noteq> None)"

subsection \<open>Roots, identities, metadata, icons\<close>

definition validate_roots :: "('d, 'v) keepass \<Rightarrow> 'd MergeBuilder \<Rightarrow> 'd MergeBuilder" where
  "validate_roots kp b =
     (let base = kp_root kp (mb_base b) in
      if kp_root kp (mb_local b) \<noteq> base \<or> kp_root kp (mb_remote b) \<noteq> base
      then database_conflict HierarchyCycle b else b)"

definition validate_input_identities :: "('d, 'v) keepass \<Rightarrow> 'd MergeBuilder \<Rightarrow> 'd MergeBuilder" where
  "validate_input_identities kp b =
     fold (\<lambda>d b. if identities_valid kp d then b else database_conflict UuidCollision b)
       [mb_base b, mb_local b, mb_remote b] b"

definition merge_config_and_metadata :: "('d, 'v) keepass \<Rightarrow> 'd MergeBuilder \<Rightarrow> 'd MergeBuilder" where
  "merge_config_and_metadata kp b =
     (let b = (case choose_three_way (kp_config kp (mb_base b)) (kp_config kp (mb_local b)) (kp_config kp (mb_remote b)) of
                 Some config \<Rightarrow> b\<lparr>mb_candidate := kp_set_config kp config (mb_candidate b)\<rparr>
               | None \<Rightarrow> database_conflict Metadata b);
          (merged, conflicts) = merge_meta (kp_meta kp (mb_base b)) (kp_meta kp (mb_local b)) (kp_meta kp (mb_remote b))
             (kp_meta kp (mb_local b), mb_conflicts b)
      in b\<lparr>mb_candidate := kp_set_meta kp merged (mb_candidate b), mb_conflicts := conflicts\<rparr>)"

definition merge_custom_icon :: "('d, 'v) keepass \<Rightarrow> 128 word \<Rightarrow> 'd MergeBuilder \<Rightarrow> 'd MergeBuilder" where
  "merge_custom_icon kp i b =
     (case (icon_index kp (mb_base b) i, icon_index kp (mb_local b) i, icon_index kp (mb_remote b) i) of
        (Some base_icon, Some local_icon, Some remote_icon) \<Rightarrow>
          (case choose_three_way base_icon local_icon remote_icon of
             Some merged \<Rightarrow>
               if merged = local_icon then b
               else if kp_icon kp (mb_candidate b) i \<noteq> None
               then b\<lparr>mb_candidate := kp_set_icon kp i merged (mb_candidate b)\<rparr>
               else icon_conflict b
           | None \<Rightarrow> icon_conflict b)
      | (Some base_icon, Some local_icon, None) \<Rightarrow>
          if remote_deleted kp (mb_remote b) i
          then if local_icon = base_icon
               then if kp_icon kp (mb_candidate b) i \<noteq> None
                    then b\<lparr>mb_candidate := kp_remove_icon kp i (mb_candidate b)\<rparr> else b
               else icon_conflict_kind DeleteVsModify b
          else icon_conflict_kind UnsupportedSemantic b
      | (Some base_icon, None, Some remote_icon) \<Rightarrow>
          if local_deleted kp (mb_local b) i
          then if remote_icon \<noteq> base_icon then icon_conflict_kind DeleteVsModify b else b
          else icon_conflict_kind UnsupportedSemantic b
      | (Some _, None, None) \<Rightarrow> b
      | (None, Some local_icon, Some remote_icon) \<Rightarrow>
          if local_icon = remote_icon \<and> fmlookup (kp_deleted kp (mb_base b)) i = None then b
          else icon_conflict_kind UuidCollision b
      | (None, None, Some _) \<Rightarrow>
          if local_deleted kp (mb_local b) i then icon_conflict_kind UuidCollision b
          else icon_conflict_kind UnsupportedSemantic b
      | (None, Some _, None) \<Rightarrow>
          if remote_deleted kp (mb_remote b) i then icon_conflict_kind UuidCollision b else b
      | (None, None, None) \<Rightarrow> b)"

definition merge_custom_icons :: "('d, 'v) keepass \<Rightarrow> 'd MergeBuilder \<Rightarrow> 'd MergeBuilder" where
  "merge_custom_icons kp b =
     fold (merge_custom_icon kp)
       (all_keys3 kp (kp_icons kp (mb_base b)) (kp_icons kp (mb_local b)) (kp_icons kp (mb_remote b))) b"

subsection \<open>Groups\<close>

text \<open>The properties of a group that the crate lets the code assign.\<close>

definition assign_group :: "'v Group \<Rightarrow> 'v Group \<Rightarrow> 'v Group" where
  "assign_group source target = target\<lparr>g_name := g_name source, g_notes := g_notes source, g_tags := g_tags source,
     g_times := g_times source, g_custom_data := g_custom_data source, g_is_expanded := g_is_expanded source,
     g_default_autotype_sequence := g_default_autotype_sequence source,
     g_enable_autotype := g_enable_autotype source, g_enable_searching := g_enable_searching source\<rparr>"

text \<open>The steps of \<open>group_change_is_representable\<close>, each \<open>None\<close> where it returns \<open>false\<close>.\<close>

definition probe_parent :: "('d, 'v) keepass \<Rightarrow> 128 word \<Rightarrow> 'v GroupState \<Rightarrow> 'd \<Rightarrow> 'd option" where
  "probe_parent kp i remote probe =
     (if Option.bind (kp_group kp probe i) gs_parent = gs_parent remote then Some probe
      else Option.bind (gs_parent remote) (\<lambda>parent.
        Option.bind (if kp_group kp probe parent \<noteq> None then Some probe
          else map_option (kp_update_group kp parent (g_name_update (\<lambda>_. kp_empty_name kp)))
                 (kp_add_group kp (kp_root kp probe) parent probe)) (\<lambda>probe'.
        if kp_group kp probe' i = None \<or> i = kp_root kp probe then None
        else kp_move_group kp i parent probe')))"

definition probe_empty :: "('d, 'v) keepass \<Rightarrow> 128 word \<Rightarrow> 'd \<Rightarrow> 'd option" where
  "probe_empty kp i probe = (case kp_group kp probe i of
     None \<Rightarrow> None
   | Some target \<Rightarrow>
       Some (fold (\<lambda>c p. if kp_group kp p c \<noteq> None then kp_remove_group kp c p else p) (gs_child_groups target)
         (fold (\<lambda>c p. if kp_entry kp p c \<noteq> None then kp_remove_entry kp c p else p) (gs_child_entries target) probe)))"

definition probe_group_child :: "('d, 'v) keepass \<Rightarrow> 128 word \<Rightarrow> 128 word \<Rightarrow> 'd \<Rightarrow> 'd option" where
  "probe_group_child kp i child probe =
     (if kp_group kp probe child \<noteq> None then kp_move_group kp child i probe
      else if kp_group kp probe i = None then None
      else kp_add_group kp i child probe)"

definition probe_entry_child :: "('d, 'v) keepass \<Rightarrow> 128 word \<Rightarrow> 128 word \<Rightarrow> 'd \<Rightarrow> 'd option" where
  "probe_entry_child kp i child probe =
     (if kp_entry kp probe child \<noteq> None then kp_move_entry kp child i probe
      else if kp_group kp probe i = None then None
      else kp_add_entry kp i child probe)"

fun fold_option :: "('a \<Rightarrow> 's \<Rightarrow> 's option) \<Rightarrow> 'a list \<Rightarrow> 's \<Rightarrow> 's option" where
  "fold_option f [] s = Some s"
| "fold_option f (x # xs) s = Option.bind (f x s) (fold_option f xs)"

definition group_change_is_representable :: "('d, 'v) keepass \<Rightarrow> 'd \<Rightarrow> 128 word \<Rightarrow> 'v GroupState \<Rightarrow> bool" where
  "group_change_is_representable kp base_database i remote =
     (case
        Option.bind (probe_parent kp i remote base_database) (\<lambda>p.
        Option.bind (probe_empty kp i p) (\<lambda>p.
        Option.bind (fold_option (probe_group_child kp i) (gs_child_groups remote) p) (\<lambda>p.
        Option.bind (fold_option (probe_entry_child kp i) (gs_child_entries remote) p) (\<lambda>p.
        if kp_group kp p i = None then None
        else Option.bind (kp_set_group_icon kp i (g_icon (gs_group remote))
               (kp_update_group kp i (assign_group (gs_group remote)) p)) (\<lambda>p. kp_group kp p i)))))
      of None \<Rightarrow> False | Some target \<Rightarrow> gs_group target = gs_group remote)"

definition apply_group_icon ::
    "('d, 'v) keepass \<Rightarrow> 128 word \<Rightarrow> Icon option \<Rightarrow> 'd MergeBuilder \<Rightarrow> 'd MergeBuilder" where
  "apply_group_icon kp i icon b = (case kp_set_group_icon kp i icon (mb_candidate b) of
     Some d \<Rightarrow> b\<lparr>mb_candidate := d\<rparr>
   | None \<Rightarrow> group_conflict kp i CustomIcon b)"

definition merge_existing_group ::
    "('d, 'v) keepass \<Rightarrow> 128 word \<Rightarrow> 'v GroupState \<Rightarrow> 'v GroupState \<Rightarrow> 'v GroupState \<Rightarrow>
     'd MergeBuilder \<Rightarrow> KdbxError + 'd MergeBuilder" where
  "merge_existing_group kp i base local remote b =
     (let (merged_parent, b) = (case choose_three_way (gs_parent base) (gs_parent local) (gs_parent remote) of
            Some parent \<Rightarrow> (parent, b)
          | None \<Rightarrow> (gs_parent local, group_conflict kp i MoveVsMove b));
          b = (if gs_group remote \<noteq> gs_group base \<and> \<not> group_change_is_representable kp (mb_base b) i remote
               then group_conflict kp i UnsupportedSemantic b else b);
          merged_previous_parent = choose_three_way (gs_previous_parent base) (gs_previous_parent local)
            (gs_previous_parent remote);
          b = (if merged_previous_parent = None \<or>
                  merged_parent = gs_parent local \<and> merged_previous_parent \<noteq> Some (gs_previous_parent local)
               then group_conflict kp i UnsupportedSemantic b else b);
          merged_icon = choose_three_way (g_icon (gs_group base)) (g_icon (gs_group local)) (g_icon (gs_group remote));
          (merged, conflicts) = merge_group_properties (kp_id_string kp) base local remote (gs_group local, mb_conflicts b);
          b = b\<lparr>mb_conflicts := conflicts\<rparr>;
          b = (if kp_group kp (mb_candidate b) i \<noteq> None
               then let b = b\<lparr>mb_candidate := kp_update_group kp i (assign_group merged) (mb_candidate b)\<rparr>
                    in (case merged_icon of Some icon \<Rightarrow> apply_group_icon kp i icon b | None \<Rightarrow> b)
               else b)
      in
        if merged_parent = gs_parent local then Inr b
        else case merged_parent of
          None \<Rightarrow> Inr (group_conflict kp i HierarchyCycle b)
        | Some parent \<Rightarrow>
            if kp_group kp (mb_candidate b) i = None then Inl SyncInvariant
            else Inr (case kp_move_group kp i parent (mb_candidate b) of
                None \<Rightarrow> group_conflict kp i HierarchyCycle b
              | Some d \<Rightarrow> b\<lparr>mb_candidate := kp_update_group kp i
                  (g_times_update (t_location_changed_update (\<lambda>_. t_location_changed (g_times (gs_group remote))))) d\<rparr>))"

text \<open>One pass of \<open>retain\<close> over the pending additions: the identifiers kept, and the builder.\<close>

fun retain_additions :: "('d, 'v) keepass \<Rightarrow> 128 word list \<Rightarrow> 'd MergeBuilder \<Rightarrow> 128 word list \<times> 'd MergeBuilder" where
  "retain_additions kp [] b = ([], b)"
| "retain_additions kp (i # pending) b =
     (case kp_group kp (mb_remote b) i of
        None \<Rightarrow> retain_additions kp pending b
      | Some source \<Rightarrow> (case gs_parent source of
          None \<Rightarrow> retain_additions kp pending (group_conflict kp i HierarchyCycle b)
        | Some parent \<Rightarrow>
            if kp_group kp (mb_candidate b) parent = None
            then (case retain_additions kp pending b of (kept, b) \<Rightarrow> (i # kept, b))
            else (case kp_add_group kp parent i (mb_candidate b) of
              None \<Rightarrow> retain_additions kp pending (group_conflict kp i UuidCollision b)
            | Some d \<Rightarrow> retain_additions kp pending
                (b\<lparr>mb_candidate := kp_update_group kp i (\<lambda>_. gs_group source) d\<rparr>))))"

lemma retain_additions_length: "length (fst (retain_additions kp pending b)) \<le> length pending"
proof (induction pending arbitrary: b)
  case (Cons i pending)
  show ?case by (simp add: case_prod_beta le_SucI Cons.IH split: option.split)
qed simp

function add_remote_groups :: "('d, 'v) keepass \<Rightarrow> 128 word list \<Rightarrow> 'd MergeBuilder \<Rightarrow> 'd MergeBuilder" where
  "add_remote_groups kp pending b =
     (if pending = [] then b
      else case retain_additions kp pending b of (kept, b') \<Rightarrow>
        if length kept = length pending
        then fold (\<lambda>i. group_conflict kp i GroupDeleteVsDescendantChange) kept b'
        else add_remote_groups kp kept b')"
  by pat_completeness auto

termination add_remote_groups
proof (relation "measure (\<lambda>(kp, pending, b). length pending)", goal_cases)
  case (2 kp pending b kept b')
  from 2(2) have "retain_additions kp pending b = (kept, b')" by (rule sym)
  then show ?case using retain_additions_length [of kp pending b] 2(3) by simp
qed simp

text \<open>What the loop over all groups does with one of them; it also collects additions and deletions.\<close>

definition merge_group ::
    "('d, 'v) keepass \<Rightarrow> 128 word \<Rightarrow> 'd MergeBuilder \<times> 128 word list \<times> 128 word list \<Rightarrow>
     KdbxError + 'd MergeBuilder \<times> 128 word list \<times> 128 word list" where
  "merge_group kp i st = (case st of (b, additions, deletions) \<Rightarrow>
     (case (group_index kp (mb_base b) i, group_index kp (mb_local b) i, group_index kp (mb_remote b) i) of
        (Some base_group, Some local_group, Some remote_group) \<Rightarrow>
          bindR (merge_existing_group kp i base_group local_group remote_group b) (\<lambda>b. Inr (b, additions, deletions))
      | (Some base_group, Some local_group, None) \<Rightarrow>
          if \<not> remote_deleted kp (mb_remote b) i then Inr (group_conflict kp i UnsupportedSemantic b, additions, deletions)
          else if local_group = base_group then Inr (b, additions, deletions @ [i])
          else Inr (group_conflict kp i DeleteVsModify b, additions, deletions)
      | (Some base_group, None, Some remote_group) \<Rightarrow>
          if \<not> local_deleted kp (mb_local b) i then Inr (group_conflict kp i UnsupportedSemantic b, additions, deletions)
          else if remote_group \<noteq> base_group then Inr (group_conflict kp i DeleteVsModify b, additions, deletions)
          else Inr (b, additions, deletions)
      | (Some _, None, None) \<Rightarrow> Inr (b, additions, deletions)
      | (None, Some local_group, Some remote_group) \<Rightarrow>
          if fmlookup (kp_deleted kp (mb_base b)) i \<noteq> None \<or> local_group \<noteq> remote_group
          then Inr (group_conflict kp i UuidCollision b, additions, deletions)
          else Inr (b, additions, deletions)
      | (None, None, Some _) \<Rightarrow>
          if local_deleted kp (mb_local b) i then Inr (group_conflict kp i UuidCollision b, additions, deletions)
          else Inr (b, additions @ [i], deletions)
      | (None, Some _, None) \<Rightarrow>
          if remote_deleted kp (mb_remote b) i then Inr (group_conflict kp i UuidCollision b, additions, deletions)
          else Inr (b, additions, deletions)
      | (None, None, None) \<Rightarrow> Inr (b, additions, deletions)))"

definition delete_remote_groups :: "('d, 'v) keepass \<Rightarrow> 128 word list \<Rightarrow> 'd MergeBuilder \<Rightarrow> 'd MergeBuilder" where
  "delete_remote_groups kp deletions b =
     fold (\<lambda>i b. if kp_group kp (mb_candidate b) i \<noteq> None
        then b\<lparr>mb_candidate := kp_remove_group kp i (mb_candidate b)\<rparr> else b) (sort deletions) b"

definition merge_groups :: "('d, 'v) keepass \<Rightarrow> 'd MergeBuilder \<Rightarrow> KdbxError + 'd MergeBuilder" where
  "merge_groups kp b =
     bindR (foldR (merge_group kp)
        (all_keys3 kp (kp_groups kp (mb_base b)) (kp_groups kp (mb_local b)) (kp_groups kp (mb_remote b)))
        (b, [], [])) (\<lambda>(b, additions, deletions).
     Inr (delete_remote_groups kp deletions (add_remote_groups kp (sort additions) b)))"

subsection \<open>Entries\<close>

definition history_has_attachments :: "('d, 'v) keepass \<Rightarrow> 'd \<Rightarrow> 128 word \<Rightarrow> bool" where
  "history_has_attachments kp d i =
     list_ex (\<lambda>index. case kp_historical kp d i index of None \<Rightarrow> False | Some h \<Rightarrow> er_attachments h \<noteq> fmempty)
       [0..<history_len kp d i]"

definition history_of :: "('d, 'v) keepass \<Rightarrow> 'd \<Rightarrow> 128 word \<Rightarrow> 'v HistoricalEntry list option" where
  "history_of kp d i = Option.bind (kp_entry kp d i) (\<lambda>e. e_history (es_entry e))"

text \<open>The revisions of REMOTE that neither LOCAL nor an earlier revision of REMOTE has.\<close>

definition new_remote_revisions :: "('d, 'v) keepass \<Rightarrow> 'd \<Rightarrow> 'd \<Rightarrow> 128 word \<Rightarrow> 'v HistoricalEntry list" where
  "new_remote_revisions kp local_database remote_database i =
     (case history_of kp remote_database i of
        None \<Rightarrow> []
      | Some remote \<Rightarrow> map (\<lambda>index. remote ! index) (filter (\<lambda>remote_index.
          \<not> list_ex (\<lambda>local_index. historical_entries_semantically_eq kp local_database local_index remote_database remote_index i)
              [0..<history_len kp local_database i] \<and>
          \<not> list_ex (\<lambda>prior_index. historical_entries_semantically_eq kp remote_database prior_index remote_database remote_index i)
              [0..<remote_index]) [0..<length remote]))"

definition rebuild_history :: "('d, 'v) keepass \<Rightarrow> 'v HistoricalEntry list \<Rightarrow> 'v HistoricalEntry list" where
  "rebuild_history kp entries = fold (kp_history_add kp) (rev entries) []"

definition merge_history ::
    "('d, 'v) keepass \<Rightarrow> 'd \<Rightarrow> 'd \<Rightarrow> 'd \<Rightarrow> 128 word \<Rightarrow> SyncConflict list \<Rightarrow>
     'v HistoricalEntry list option \<times> SyncConflict list" where
  "merge_history kp base_database local_database remote_database i conflicts =
     (let local = history_of kp local_database i; remote = history_of kp remote_database i;
          conflict = history_conflict (kp_id_string kp i) in
      if histories_semantically_eq kp local_database remote_database i then (local, conflicts)
      else if histories_semantically_eq kp local_database base_database i then
        (if history_has_attachments kp remote_database i then (local, conflicts @ [conflict]) else (remote, conflicts))
      else if histories_semantically_eq kp remote_database base_database i then (local, conflicts)
      else if history_has_attachments kp local_database i \<or> history_has_attachments kp remote_database i
      then (local, conflicts @ [conflict])
      else (Some (rebuild_history kp ((case local of None \<Rightarrow> [] | Some h \<Rightarrow> h) @
              new_remote_revisions kp local_database remote_database i)), conflicts))"

definition add_remote_entry :: "('d, 'v) keepass \<Rightarrow> 128 word \<Rightarrow> 'v EntryState \<Rightarrow> 'd MergeBuilder \<Rightarrow> 'd MergeBuilder" where
  "add_remote_entry kp i source b =
     (if es_attachments source \<noteq> fmempty \<or> history_has_attachments kp (mb_remote b) i
      then entry_conflict kp i Binary None b
      else if unavailable_icon kp (mb_candidate b) (e_icon (es_entry source))
      then entry_conflict kp i CustomIcon None b
      else if kp_group kp (mb_candidate b) (es_parent source) = None
      then entry_conflict kp i GroupDeleteVsDescendantChange None b
      else case kp_add_entry kp (es_parent source) i (mb_candidate b) of
        Some d \<Rightarrow> b\<lparr>mb_candidate := kp_update_entry kp i (\<lambda>_. es_entry source) d\<rparr>
      | None \<Rightarrow> entry_conflict kp i UuidCollision None b)"

definition replace_attachments ::
    "('d, 'v) keepass \<Rightarrow> 128 word \<Rightarrow> (string, Value) fmap \<Rightarrow> 'd \<Rightarrow> 'd" where
  "replace_attachments kp i attachments d =
     (let names = (case kp_entry kp d i of None \<Rightarrow> [] | Some e \<Rightarrow> sorted_list_of_set (fset (fmdom (es_attachments e)))) in
      fold (\<lambda>name d. case fmlookup attachments name of None \<Rightarrow> d | Some value \<Rightarrow> kp_add_attachment kp i name value d)
        (sorted_list_of_set (fset (fmdom attachments)))
        (fold (kp_remove_attachment kp i) names d))"

text \<open>The writes of \<open>merge_existing_entry\<close> to the candidate, after the values are merged.\<close>

definition write_merged_entry ::
    "('d, 'v) keepass \<Rightarrow> 128 word \<Rightarrow> 'v EntryState \<Rightarrow> 'v EntryState \<Rightarrow> 128 word \<Rightarrow> 'v Entry \<Rightarrow>
     (string, Value) fmap \<Rightarrow> Icon option option \<Rightarrow> 'd MergeBuilder \<Rightarrow> KdbxError + 'd MergeBuilder" where
  "write_merged_entry kp i local remote parent merged attachments merged_icon b =
     (if kp_entry kp (mb_candidate b) i = None then Inl SyncInvariant
      else
        let b = b\<lparr>mb_candidate := kp_update_entry kp i (\<lambda>_. merged) (mb_candidate b)\<rparr> in
        bindR (case merged_icon of
            None \<Rightarrow> Inr b
          | Some icon \<Rightarrow>
              if kp_entry kp (mb_candidate b) i = None then Inl SyncInvariant
              else Inr (case kp_set_entry_icon kp i icon (mb_candidate b) of
                  Some d \<Rightarrow> b\<lparr>mb_candidate := d\<rparr> | None \<Rightarrow> entry_conflict kp i CustomIcon None b)) (\<lambda>b.
        bindR (if parent = es_parent local then Inr b
          else if kp_entry kp (mb_candidate b) i = None then Inl SyncInvariant
          else Inr (case kp_move_entry kp i parent (mb_candidate b) of
              None \<Rightarrow> entry_conflict kp i HierarchyCycle None b
            | Some d \<Rightarrow> b\<lparr>mb_candidate := kp_update_entry kp i
                (e_times_update (t_location_changed_update (\<lambda>_. t_location_changed (e_times (es_entry remote))))) d\<rparr>)) (\<lambda>b.
        if attachments = es_attachments local then Inr b
        else if kp_entry kp (mb_candidate b) i = None then Inl SyncInvariant
        else Inr (b\<lparr>mb_candidate := replace_attachments kp i attachments (mb_candidate b)\<rparr>))))"

definition merge_existing_entry ::
    "('d, 'v) keepass \<Rightarrow> 128 word \<Rightarrow> 'v EntryState \<Rightarrow> 'v EntryState \<Rightarrow> 'v EntryState \<Rightarrow>
     'd MergeBuilder \<Rightarrow> KdbxError + 'd MergeBuilder" where
  "merge_existing_entry kp i base local remote b =
     (let (parent, b) = (case choose_three_way (es_parent base) (es_parent local) (es_parent remote) of
            Some parent \<Rightarrow> (parent, b)
          | None \<Rightarrow> (es_parent local, entry_conflict kp i MoveVsMove None b));
          merged_previous_parent = choose_three_way (es_previous_parent base) (es_previous_parent local)
            (es_previous_parent remote);
          b = (if merged_previous_parent = None \<or>
                  parent = es_parent local \<and> merged_previous_parent \<noteq> Some (es_previous_parent local)
               then entry_conflict kp i UnsupportedSemantic None b else b);
          (fields, conflicts) = merge_named_map (e_fields (es_entry base)) (e_fields (es_entry local))
            (e_fields (es_entry remote)) (entry_field_conflict kp i) (mb_conflicts b);
          (merged, conflicts) = merge_entry_properties (kp_id_string kp) base local remote
            ((es_entry local)\<lparr>e_fields := fields\<rparr>, conflicts);
          (attachments, conflicts) = merge_named_map (es_attachments base) (es_attachments local)
            (es_attachments remote) (\<lambda>_. entry_conflict_of kp i Binary None) conflicts;
          (history, conflicts) = merge_history kp (mb_base b) (mb_local b) (mb_remote b) i conflicts;
          merged_icon = choose_three_way (e_icon (es_entry base)) (e_icon (es_entry local)) (e_icon (es_entry remote))
      in write_merged_entry kp i local remote parent (merged\<lparr>e_history := history\<rparr>) attachments merged_icon
           (b\<lparr>mb_conflicts := conflicts\<rparr>))"

definition merge_entry :: "('d, 'v) keepass \<Rightarrow> 128 word \<Rightarrow> 'd MergeBuilder \<Rightarrow> KdbxError + 'd MergeBuilder" where
  "merge_entry kp i b =
     (case (entry_index kp (mb_base b) i, entry_index kp (mb_local b) i, entry_index kp (mb_remote b) i) of
        (Some base_entry, Some local_entry, Some remote_entry) \<Rightarrow>
          merge_existing_entry kp i base_entry local_entry remote_entry b
      | (Some base_entry, Some local_entry, None) \<Rightarrow>
          Inr (if \<not> remote_deleted kp (mb_remote b) i then entry_conflict kp i UnsupportedSemantic None b
               else if local_entry = base_entry
               then if kp_entry kp (mb_candidate b) i \<noteq> None
                    then b\<lparr>mb_candidate := kp_remove_entry kp i (mb_candidate b)\<rparr> else b
               else entry_conflict kp i DeleteVsModify None b)
      | (Some base_entry, None, Some remote_entry) \<Rightarrow>
          Inr (if \<not> local_deleted kp (mb_local b) i then entry_conflict kp i UnsupportedSemantic None b
               else if remote_entry \<noteq> base_entry then entry_conflict kp i DeleteVsModify None b else b)
      | (Some _, None, None) \<Rightarrow> Inr b
      | (None, Some local_entry, Some remote_entry) \<Rightarrow>
          Inr (if fmlookup (kp_deleted kp (mb_base b)) i \<noteq> None \<or> local_entry \<noteq> remote_entry
               then entry_conflict kp i UuidCollision None b else b)
      | (None, None, Some remote_entry) \<Rightarrow>
          Inr (if local_deleted kp (mb_local b) i then entry_conflict kp i UuidCollision None b
               else add_remote_entry kp i remote_entry b)
      | (None, Some _, None) \<Rightarrow>
          Inr (if remote_deleted kp (mb_remote b) i then entry_conflict kp i UuidCollision None b else b)
      | (None, None, None) \<Rightarrow> Inr b)"

definition merge_entries :: "('d, 'v) keepass \<Rightarrow> 'd MergeBuilder \<Rightarrow> KdbxError + 'd MergeBuilder" where
  "merge_entries kp b = foldR (merge_entry kp)
     (all_keys3 kp (kp_entries kp (mb_base b)) (kp_entries kp (mb_local b)) (kp_entries kp (mb_remote b))) b"

subsection \<open>Tombstones and the outcome\<close>

text \<open>\<open>max\<close> over the instants that are present; a tombstone without an instant has none.\<close>

definition latest :: "instant option list \<Rightarrow> instant" where
  "latest ts = fold max (map (\<lambda>t. case t of Some x \<Rightarrow> x | None \<Rightarrow> None) ts) None"

definition merge_tombstone :: "('d, 'v) keepass \<Rightarrow> 128 word \<Rightarrow> 'd MergeBuilder \<Rightarrow> 'd MergeBuilder" where
  "merge_tombstone kp i b = b\<lparr>mb_candidate := kp_insert_deleted kp i
     (latest [fmlookup (kp_deleted kp (mb_base b)) i, fmlookup (kp_deleted kp (mb_local b)) i,
              fmlookup (kp_deleted kp (mb_remote b)) i]) (mb_candidate b)\<rparr>"

definition merge_tombstones :: "('d, 'v) keepass \<Rightarrow> 'd MergeBuilder \<Rightarrow> 'd MergeBuilder" where
  "merge_tombstones kp b = fold (merge_tombstone kp)
     (sorted_list_of_set (fset (fmdom (kp_deleted kp (mb_base b)) |\<union>| fmdom (kp_deleted kp (mb_local b)) |\<union>|
        fmdom (kp_deleted kp (mb_remote b))))) b"

text \<open>The chain of parents of a group in the candidate, which ends at a missing group.\<close>

function closes_cycle :: "('d, 'v) keepass \<Rightarrow> 'd \<Rightarrow> 128 word list \<Rightarrow> 128 word option \<Rightarrow> bool" where
  "closes_cycle kp d seen None = False"
| "closes_cycle kp d seen (Some i) =
     (if i \<in> set seen then True else closes_cycle kp d (i # seen) (Option.bind (kp_group kp d i) gs_parent))"
  by pat_completeness auto

termination closes_cycle
  by (relation "measure (\<lambda>(kp, d, seen, cur). card (- set seen))") (use unseen_decreases in auto)

definition validate_final_group :: "('d, 'v) keepass \<Rightarrow> 128 word \<Rightarrow> 'd MergeBuilder \<Rightarrow> 'd MergeBuilder" where
  "validate_final_group kp i b =
     (let b = (if closes_cycle kp (mb_candidate b) [] (Some i) then group_conflict kp i HierarchyCycle b else b) in
      if i = kp_root kp (mb_candidate b) \<and> Option.bind (kp_group kp (mb_candidate b) i) gs_parent \<noteq> None
      then group_conflict kp i HierarchyCycle b else b)"

definition validate_final_hierarchy :: "('d, 'v) keepass \<Rightarrow> 'd MergeBuilder \<Rightarrow> 'd MergeBuilder" where
  "validate_final_hierarchy kp b = fold (validate_final_group kp) (kp_groups kp (mb_candidate b)) b"

definition run_merge :: "('d, 'v) keepass \<Rightarrow> 'd MergeBuilder \<Rightarrow> KdbxError + 'd MergeBuilder" where
  "run_merge kp b =
     bindR (merge_groups kp (merge_custom_icons kp (merge_config_and_metadata kp
        (validate_input_identities kp (validate_roots kp b))))) (\<lambda>b.
     bindR (merge_entries kp b) (\<lambda>b.
     Inr (validate_final_hierarchy kp (merge_tombstones kp b))))"

subsection \<open>History policy\<close>

definition MAX_HISTORY_ITEMS :: nat where "MAX_HISTORY_ITEMS = 10000"

definition finite_history_limit :: "('d, 'v) keepass \<Rightarrow> 'd \<Rightarrow> nat option" where
  "finite_history_limit kp d = (case kp_history_max_items kp (m_history_max_items (kp_meta kp d)) of
     None \<Rightarrow> None
   | Some n \<Rightarrow> if 0 \<le> n then Some (nat n) else None)"

definition prune_entry_history :: "('d, 'v) keepass \<Rightarrow> nat \<Rightarrow> 'v Entry \<Rightarrow> 'v Entry" where
  "prune_entry_history kp limit entry = (case e_history entry of
     None \<Rightarrow> entry
   | Some h \<Rightarrow>
       if length h \<le> limit then entry
       else entry\<lparr>e_history := Some (rebuild_history kp (take limit h))\<rparr>)"

definition prune_all_entry_history :: "('d, 'v) keepass \<Rightarrow> nat option \<Rightarrow> 'd \<Rightarrow> 'd" where
  "prune_all_entry_history kp limit d = (case limit of
     None \<Rightarrow> d
   | Some limit \<Rightarrow> fold (\<lambda>i d. if kp_entry kp d i \<noteq> None
       then kp_update_entry kp i (prune_entry_history kp limit) d else d) (kp_entries kp d) d)"

text \<open>A limit that the code accepts always fits the signed type of the field.\<close>

definition set_history_max_items ::
    "('d, 'v) keepass \<Rightarrow> 'v \<Rightarrow> nat option \<Rightarrow> 'd KdbxDocument \<Rightarrow> KdbxError + 'd KdbxDocument" where
  "set_history_max_items kp now max_items doc =
     (if finite_history_limit kp (kd_database doc) = max_items then Inr doc
      else if (case max_items of Some n \<Rightarrow> n > MAX_HISTORY_ITEMS | None \<Rightarrow> False) then Inl InvalidHistoryPolicy
      else
        let candidate = kp_set_meta kp ((kp_meta kp (kd_database doc))\<lparr>
              m_history_max_items := kp_history_max_items_value kp (map_option int max_items),
              m_settings_changed := now\<rparr>) (kd_database doc)
        in Inr (mark_changed (doc\<lparr>kd_database := prune_all_entry_history kp max_items candidate\<rparr>)))"

definition enforce_history_policy_for_entry ::
    "('d, 'v) keepass \<Rightarrow> 128 word \<Rightarrow> 'd KdbxDocument \<Rightarrow> KdbxError + 'd KdbxDocument" where
  "enforce_history_policy_for_entry kp i doc = (case finite_history_limit kp (kd_database doc) of
     None \<Rightarrow> Inr doc
   | Some limit \<Rightarrow>
       if kp_entry kp (kd_database doc) i = None then Inl EntryNotFound
       else Inr (doc\<lparr>kd_database := kp_update_entry kp i (prune_entry_history kp limit) (kd_database doc)\<rparr>))"

definition enforce_history_policy_all :: "('d, 'v) keepass \<Rightarrow> 'd KdbxDocument \<Rightarrow> 'd KdbxDocument" where
  "enforce_history_policy_all kp doc =
     doc\<lparr>kd_database := prune_all_entry_history kp (finite_history_limit kp (kd_database doc)) (kd_database doc)\<rparr>"

definition into_outcome :: "('d, 'v) keepass \<Rightarrow> 'd MergeBuilder \<Rightarrow> KdbxError + 'd divergent_outcome" where
  "into_outcome kp b =
     (if mb_conflicts b \<noteq> [] then Inr (ConflictedDoc (mb_conflicts b))
      else if \<not> database_valid_for_sync_db kp (mb_candidate b) then Inl SyncInvariant
      else Inr (MergedDoc (prune_all_entry_history kp (finite_history_limit kp (mb_candidate b)) (mb_candidate b))))"

text \<open>The merge of \<open>merge_divergent\<close>, as the operation that documents of this database use.\<close>

definition merge_databases :: "('d, 'v) keepass \<Rightarrow> 'd \<Rightarrow> 'd \<Rightarrow> 'd \<Rightarrow> KdbxError + 'd divergent_outcome" where
  "merge_databases kp base local remote =
     bindR (run_merge kp \<lparr>mb_base = base, mb_local = local, mb_remote = remote, mb_candidate = local, mb_conflicts = []\<rparr>)
       (into_outcome kp)"

definition keepass_api ::
    "('d, 'v) keepass \<Rightarrow> (bytes \<Rightarrow> KdbxCredential \<Rightarrow> KdbxError + (KdbxVersion \<times> 'd)) \<Rightarrow>
     (nat \<Rightarrow> 'd \<Rightarrow> KdbxCredential \<Rightarrow> KdbxError + bytes) \<Rightarrow> 'd kdbx_api" where
  "keepass_api kp parse save = \<lparr>parse_database = parse, database_save = save,
     database_semantically_eq = database_semantically_eq_db kp,
     database_valid_for_sync = database_valid_for_sync_db kp,
     database_merge = merge_databases kp\<rparr>"

end
