(* ===== verification/Kdbx_Merge_Facts.thy ===== *)
theory Kdbx_Merge_Facts
  imports Kdbx_Merge_Builder "HOL-Library.Sublist"
begin

section \<open>Facts about the three-way merge\<close>

subsection \<open>Values\<close>

lemma choose_three_way_commute: "choose_three_way b l r = choose_three_way b r l"
  by (auto simp: choose_three_way_def)

lemma choose_three_way_unchanged [simp]:
  "choose_three_way b b r = Some r" "choose_three_way b l b = Some l" "choose_three_way b l l = Some l"
  by (auto simp: choose_three_way_def)

text \<open>What a side changed is kept: the chosen value differs from BASE as soon as one side does.\<close>

lemma choose_three_way_keeps:
  "choose_three_way b l r = Some v \<Longrightarrow> (l \<noteq> b \<longrightarrow> v = l) \<and> (r \<noteq> b \<longrightarrow> v = r) \<and> (l = b \<and> r = b \<longrightarrow> v = b)"
  by (auto simp: choose_three_way_def split: if_splits)

subsection \<open>Named maps\<close>

definition named_choice :: "'v option \<Rightarrow> 'v option \<Rightarrow> 'v option \<Rightarrow> 'v option" where
  "named_choice b l r = (case choose_three_way b l r of Some v \<Rightarrow> v | None \<Rightarrow> l)"

definition named_conflict :: "(string, 'v) fmap \<Rightarrow> (string, 'v) fmap \<Rightarrow> (string, 'v) fmap \<Rightarrow> string \<Rightarrow> bool" where
  "named_conflict base local remote k \<longleftrightarrow>
     choose_three_way (fmlookup base k) (fmlookup local k) (fmlookup remote k) = None"

lemma merge_named_step:
  "merge_named conflict base local remote k (m, cs) =
     (case named_choice (fmlookup base k) (fmlookup local k) (fmlookup remote k) of
        Some v \<Rightarrow> fmupd k v m | None \<Rightarrow> m,
      cs @ (if named_conflict base local remote k then [conflict k] else []))"
  by (auto simp: merge_named_def named_choice_def named_conflict_def choose_three_way_def Let_def)

lemma fold_merge_named_lookup:
  assumes "distinct ks" and "\<And>k. k \<in> set ks \<Longrightarrow> fmlookup m k = None"
  shows "fmlookup (fst (fold (merge_named conflict base local remote) ks (m, cs))) k =
      (if k \<in> set ks then named_choice (fmlookup base k) (fmlookup local k) (fmlookup remote k) else fmlookup m k)"
  using assms
proof (induction ks arbitrary: m cs)
  case (Cons a ks)
  let ?m = "case named_choice (fmlookup base a) (fmlookup local a) (fmlookup remote a) of Some v \<Rightarrow> fmupd a v m | None \<Rightarrow> m"
  have "fmlookup ?m k = None" if "k \<in> set ks" for k using that Cons.prems by (auto split: option.split)
  moreover have "fmlookup ?m a = named_choice (fmlookup base a) (fmlookup local a) (fmlookup remote a)"
    using Cons.prems(2) [of a] by (auto split: option.split)
  moreover have "k \<noteq> a \<Longrightarrow> fmlookup ?m k = fmlookup m k" by (simp split: option.split)
  ultimately show ?case using Cons.IH [of ?m] Cons.prems(1) by (auto simp: merge_named_step)
qed simp

lemma fold_merge_named_conflicts:
  "snd (fold (merge_named conflict base local remote) ks (m, cs)) =
     cs @ map conflict (filter (named_conflict base local remote) ks)"
  by (induction ks arbitrary: m cs) (simp_all add: merge_named_step)

lemma named_keys_set: "set (named_keys base local remote) = fset (fmdom base) \<union> fset (fmdom local) \<union> fset (fmdom remote)"
  by (simp add: named_keys_def)

lemma distinct_named_keys: "distinct (named_keys base local remote)"
  by (simp add: named_keys_def)

lemma named_keys_commute: "named_keys base local remote = named_keys base remote local"
  by (simp add: named_keys_def Un_ac)

lemma merge_named_map_lookup:
  "fmlookup (fst (merge_named_map base local remote conflict cs)) k =
     named_choice (fmlookup base k) (fmlookup local k) (fmlookup remote k)"
proof (cases "k \<in> set (named_keys base local remote)")
  case True
  then show ?thesis
    by (simp add: merge_named_map_def fold_merge_named_lookup [OF distinct_named_keys])
next
  case False
  then have "fmlookup base k = None" "fmlookup local k = None" "fmlookup remote k = None"
    by (auto simp: named_keys_set fmdom_notD)
  with False show ?thesis
    by (simp add: merge_named_map_def fold_merge_named_lookup [OF distinct_named_keys] named_choice_def)
qed

lemma merge_named_map_conflicts:
  "snd (merge_named_map base local remote conflict cs) =
     cs @ map conflict (filter (named_conflict base local remote) (named_keys base local remote))"
  by (simp add: merge_named_map_def fold_merge_named_conflicts)

lemma named_conflict_key: "named_conflict base local remote k \<Longrightarrow> k \<in> set (named_keys base local remote)"
  by (auto simp: named_conflict_def named_keys_set choose_three_way_def dest!: fmdom_notD split: if_splits)

lemma merge_named_map_clean:
  assumes "snd (merge_named_map base local remote conflict cs) = cs"
  shows "choose_three_way (fmlookup base k) (fmlookup local k) (fmlookup remote k) =
    Some (fmlookup (fst (merge_named_map base local remote conflict cs)) k)"
proof -
  have "\<not> named_conflict base local remote k"
    using assms named_conflict_key [of base local remote k] by (auto simp: merge_named_map_conflicts filter_empty_conv)
  then show ?thesis by (auto simp: merge_named_map_lookup named_choice_def named_conflict_def)
qed

subsection \<open>Records of properties\<close>

lemma merge_prop_step:
  "merge_prop c b l r (get, upd) (m, cs) = (case choose_three_way (get b) (get l) (get r) of
     Some v \<Rightarrow> (upd (\<lambda>_. v) m, cs) | None \<Rightarrow> (m, cs @ [c]))"
  by (simp add: merge_prop_def)

lemma merge_prop_conflicts_grow: "\<exists>cs'. snd (fold (merge_prop c b l r) props (m, cs)) = cs @ cs'"
proof (induction props arbitrary: m cs)
  case (Cons p props)
  obtain m' cs' where "merge_prop c b l r p (m, cs) = (m', cs @ cs')"
    by (cases p; cases "choose_three_way (fst p b) (fst p l) (fst p r)") (force simp: merge_prop_step)+
  then show ?case using Cons.IH [of m' "cs @ cs'"] by auto
qed simp

lemma fold_merge_prop_clean:
  assumes "snd (fold (merge_prop c b l r) props (m, cs)) = cs"
  shows "list_all (\<lambda>(get, upd). choose_three_way (get b) (get l) (get r) \<noteq> None) props \<and>
    fst (fold (merge_prop c b l r) props (m, cs)) =
      fold (\<lambda>(get, upd). upd (\<lambda>_. the (choose_three_way (get b) (get l) (get r)))) props m"
  using assms
proof (induction props arbitrary: m)
  case (Cons p props)
  obtain get upd where p: "p = (get, upd)" by fastforce
  show ?case
  proof (cases "choose_three_way (get b) (get l) (get r)")
    case None
    then have "snd (fold (merge_prop c b l r) props (m, cs @ [c])) = cs"
      using Cons.prems p by (simp add: merge_prop_step)
    then show ?thesis using merge_prop_conflicts_grow [of c b l r props m "cs @ [c]"] by auto
  next
    case (Some v)
    then show ?thesis using Cons.prems Cons.IH [of "upd (\<lambda>_. v) m"] p by (simp add: merge_prop_step)
  qed
qed simp

subsection \<open>Entries\<close>

lemma merge_named_map_grows: "prefix cs (snd (merge_named_map base local remote conflict cs))"
  by (simp add: merge_named_map_conflicts)

lemma merge_props_grow: "prefix cs (snd (fold (merge_prop c b l r) props (m, cs)))"
  using merge_prop_conflicts_grow [of c b l r props m cs] by auto

lemma merge_times_grows: "prefix cs (snd (merge_times c b l r (m, cs)))"
  using merge_props_grow [of cs c b l r time_props m] by (simp add: merge_times_def case_prod_beta)

lemma merge_entry_properties_grows: "prefix cs (snd (merge_entry_properties ids b l r (m, cs)))"
proof -
  obtain m1 cs1 where 1: "fold (merge_prop (entry_metadata_conflict (ids (e_id (es_entry l)))) (es_entry b) (es_entry l) (es_entry r))
      entry_props (m, cs) = (m1, cs1)" by fastforce
  obtain t cs2 where 2: "merge_times (entry_metadata_conflict (ids (e_id (es_entry l)))) (e_times (es_entry b))
      (e_times (es_entry l)) (e_times (es_entry r)) (e_times m1, cs1) = (t, cs2)" by fastforce
  have "prefix cs cs1" "prefix cs1 cs2" using merge_props_grow merge_times_grows by (metis 1 2 snd_conv)+
  then show ?thesis by (auto simp: merge_entry_properties_def 1 2 Let_def intro: prefix_order.trans)
qed

text \<open>The values of an entry merged without a conflict.\<close>

lemma merge_entry_properties_clean:
  assumes "merge_entry_properties ids b l r (m, cs) = (merged, cs)"
  shows "list_all (\<lambda>(get, upd). choose_three_way (get (es_entry b)) (get (es_entry l)) (get (es_entry r)) = Some (get merged)) entry_props"
    and "e_fields merged = e_fields m" and "choose_three_way (e_icon (es_entry b)) (e_icon (es_entry l)) (e_icon (es_entry r)) \<noteq> None"
    and "list_all (\<lambda>(get, upd). choose_three_way (get (e_times (es_entry b))) (get (e_times (es_entry l))) (get (e_times (es_entry r))) =
      Some (get (e_times merged))) time_props"
proof -
  let ?c = "entry_metadata_conflict (ids (e_id (es_entry l)))"
  obtain m1 cs1 where 1: "fold (merge_prop ?c (es_entry b) (es_entry l) (es_entry r)) entry_props (m, cs) = (m1, cs1)" by fastforce
  obtain t cs2 where 2: "merge_times ?c (e_times (es_entry b)) (e_times (es_entry l)) (e_times (es_entry r)) (e_times m1, cs1) = (t, cs2)"
    by fastforce
  have grow: "prefix cs cs1" "prefix cs1 cs2" using merge_props_grow merge_times_grows by (metis 1 2 snd_conv)+
  have final: "merged = m1\<lparr>e_times := t\<rparr>" "cs = cs2" and icon: "choose_three_way (e_icon (es_entry b)) (e_icon (es_entry l)) (e_icon (es_entry r)) \<noteq> None"
    using assms grow by (auto simp: merge_entry_properties_def 1 2 Let_def prefix_def split: if_splits)
  then have "cs1 = cs" using grow by (metis prefix_order.antisym)
  then have props: "list_all (\<lambda>(get, upd). choose_three_way (get (es_entry b)) (get (es_entry l)) (get (es_entry r)) \<noteq> None) entry_props"
    "m1 = fold (\<lambda>(get, upd). upd (\<lambda>_. the (choose_three_way (get (es_entry b)) (get (es_entry l)) (get (es_entry r))))) entry_props m"
    using fold_merge_prop_clean [of ?c "es_entry b" "es_entry l" "es_entry r" entry_props m cs] 1 by auto
  show "list_all (\<lambda>(get, upd). choose_three_way (get (es_entry b)) (get (es_entry l)) (get (es_entry r)) = Some (get merged)) entry_props"
    using props by (auto simp: final(1) entry_props_def)
  show "e_fields merged = e_fields m" using props(2) by (simp add: final(1) entry_props_def)
  show "choose_three_way (e_icon (es_entry b)) (e_icon (es_entry l)) (e_icon (es_entry r)) \<noteq> None" by (rule icon)
  obtain t1 cs' where t1: "fold (merge_prop ?c (e_times (es_entry b)) (e_times (es_entry l)) (e_times (es_entry r))) time_props
      (e_times m1, cs) = (t1, cs')" by fastforce
  then have t: "t = t1\<lparr>t_last_modification := max (t_last_modification (e_times (es_entry l))) (t_last_modification (e_times (es_entry r))),
      t_location_changed := max (t_location_changed (e_times (es_entry l))) (t_location_changed (e_times (es_entry r)))\<rparr>" "cs' = cs"
    using 2 final(2) \<open>cs1 = cs\<close> by (auto simp: merge_times_def)
  have "list_all (\<lambda>(get, upd). choose_three_way (get (e_times (es_entry b))) (get (e_times (es_entry l))) (get (e_times (es_entry r))) \<noteq> None) time_props"
    "t1 = fold (\<lambda>(get, upd). upd (\<lambda>_. the (choose_three_way (get (e_times (es_entry b))) (get (e_times (es_entry l)))
       (get (e_times (es_entry r)))))) time_props (e_times m1)"
    using fold_merge_prop_clean [of ?c "e_times (es_entry b)" "e_times (es_entry l)" "e_times (es_entry r)" time_props "e_times m1" cs] t1 t(2)
    by auto
  then show "list_all (\<lambda>(get, upd). choose_three_way (get (e_times (es_entry b))) (get (e_times (es_entry l))) (get (e_times (es_entry r))) =
      Some (get (e_times merged))) time_props"
    by (auto simp: final(1) t(1) time_props_def)
qed

text \<open>
  What the crate documents of its entry operations: assigning, setting an icon, moving and
  attachments change what they name and nothing else of the entry but its private fields and the
  time of its last move.
\<close>

definition same_content :: "'v Entry \<Rightarrow> 'v Entry \<Rightarrow> bool" where
  "same_content a b \<longleftrightarrow> e_fields a = e_fields b \<and> list_all (\<lambda>(get, upd). get a = get b) entry_props \<and>
     list_all (\<lambda>(get, upd). get (e_times a) = get (e_times b)) time_props \<and>
     e_icon a = e_icon b \<and> e_history a = e_history b"

definition keepass_entry_laws :: "('d, 'v) keepass \<Rightarrow> bool" where
  "keepass_entry_laws kp \<longleftrightarrow>
     (\<forall>d i f e. kp_entry kp d i = Some e \<longrightarrow> kp_entry kp (kp_update_entry kp i f d) i = Some (es_entry_update f e)) \<and>
     (\<forall>d d' i icon e. kp_entry kp d i = Some e \<longrightarrow> kp_set_entry_icon kp i icon d = Some d' \<longrightarrow>
        kp_entry kp d' i = Some (es_entry_update (e_icon_update (\<lambda>_. icon)) e)) \<and>
     (\<forall>d d' i p e. kp_entry kp d i = Some e \<longrightarrow> kp_move_entry kp i p d = Some d' \<longrightarrow>
        (\<exists>e'. kp_entry kp d' i = Some e' \<and> es_parent e' = p \<and> es_attachments e' = es_attachments e \<and>
           same_content (es_entry e') (es_entry e))) \<and>
     (\<forall>d i n e. kp_entry kp d i = Some e \<longrightarrow> (\<exists>e'. kp_entry kp (kp_remove_attachment kp i n d) i = Some e' \<and>
        es_parent e' = es_parent e \<and> es_attachments e' = fmdrop n (es_attachments e) \<and>
        same_content (es_entry e') (es_entry e))) \<and>
     (\<forall>d i n v e. kp_entry kp d i = Some e \<longrightarrow> (\<exists>e'. kp_entry kp (kp_add_attachment kp i n v d) i = Some e' \<and>
        es_parent e' = es_parent e \<and> es_attachments e' = fmupd n v (es_attachments e) \<and>
        same_content (es_entry e') (es_entry e)))"

lemma same_content_refl [simp]: "same_content e e"
  by (simp add: same_content_def entry_props_def time_props_def)

lemma same_content_trans: "same_content a b \<Longrightarrow> same_content b c \<Longrightarrow> same_content a c"
  by (auto simp: same_content_def entry_props_def time_props_def)

lemma updated_entry:
  "keepass_entry_laws kp \<Longrightarrow> kp_entry kp d i = Some e \<Longrightarrow>
   kp_entry kp (kp_update_entry kp i f d) i = Some (es_entry_update f e)"
  by (simp add: keepass_entry_laws_def)

lemma moved_entry:
  "keepass_entry_laws kp \<Longrightarrow> kp_entry kp d i = Some e \<Longrightarrow> kp_move_entry kp i p d = Some d' \<Longrightarrow>
   \<exists>e'. kp_entry kp d' i = Some e' \<and> es_parent e' = p \<and> es_attachments e' = es_attachments e \<and>
     same_content (es_entry e') (es_entry e)"
  unfolding keepass_entry_laws_def by blast

lemma remove_attachments:
  assumes "keepass_entry_laws kp" and "kp_entry kp d i = Some e"
  shows "\<exists>e'. kp_entry kp (fold (kp_remove_attachment kp i) names d) i = Some e' \<and> es_parent e' = es_parent e \<and>
    (\<forall>n. fmlookup (es_attachments e') n = (if n \<in> set names then None else fmlookup (es_attachments e) n)) \<and>
    same_content (es_entry e') (es_entry e)"
  using assms(2)
proof (induction names arbitrary: d e)
  case (Cons n names)
  obtain e1 where 1: "kp_entry kp (kp_remove_attachment kp i n d) i = Some e1" "es_parent e1 = es_parent e"
    "es_attachments e1 = fmdrop n (es_attachments e)" "same_content (es_entry e1) (es_entry e)"
    using assms(1) Cons.prems unfolding keepass_entry_laws_def by meson
  from Cons.IH [OF 1(1)] 1(2-4) show ?case
    by (auto intro: same_content_trans)
qed simp

lemma add_attachments:
  assumes "keepass_entry_laws kp" and "kp_entry kp d i = Some e" and "distinct names"
    and "\<And>n. n \<in> set names \<Longrightarrow> fmlookup attachments n \<noteq> None"
  shows "\<exists>e'. kp_entry kp (fold (\<lambda>n d. case fmlookup attachments n of None \<Rightarrow> d
      | Some v \<Rightarrow> kp_add_attachment kp i n v d) names d) i = Some e' \<and> es_parent e' = es_parent e \<and>
    (\<forall>n. fmlookup (es_attachments e') n = (if n \<in> set names then fmlookup attachments n else fmlookup (es_attachments e) n)) \<and>
    same_content (es_entry e') (es_entry e)"
  using assms(2-)
proof (induction names arbitrary: d e)
  case (Cons n names)
  then obtain v where v: "fmlookup attachments n = Some v" by force
  obtain e1 where 1: "kp_entry kp (kp_add_attachment kp i n v d) i = Some e1" "es_parent e1 = es_parent e"
    "es_attachments e1 = fmupd n v (es_attachments e)" "same_content (es_entry e1) (es_entry e)"
    using assms(1) Cons.prems(1) unfolding keepass_entry_laws_def by meson
  from Cons.IH [OF 1(1)] Cons.prems(2,3) 1(2-4) v show ?case
    by (auto intro: same_content_trans)
qed simp

lemma replace_attachments_entry:
  assumes "keepass_entry_laws kp" and "kp_entry kp d i = Some e"
  shows "\<exists>e'. kp_entry kp (replace_attachments kp i attachments d) i = Some e' \<and> es_parent e' = es_parent e \<and>
    es_attachments e' = attachments \<and> same_content (es_entry e') (es_entry e)"
proof -
  let ?old = "sorted_list_of_set (fset (fmdom (es_attachments e)))" and ?new = "sorted_list_of_set (fset (fmdom attachments))"
  obtain e1 where 1: "kp_entry kp (fold (kp_remove_attachment kp i) ?old d) i = Some e1" "es_parent e1 = es_parent e"
    "\<forall>n. fmlookup (es_attachments e1) n = (if n \<in> set ?old then None else fmlookup (es_attachments e) n)"
    "same_content (es_entry e1) (es_entry e)"
    using remove_attachments [OF assms, of ?old] by blast
  have new: "n \<in> set ?new \<Longrightarrow> fmlookup attachments n \<noteq> None" for n by (simp add: fmlookup_dom_iff)
  note added = add_attachments [of kp _ i _ ?new attachments, OF assms(1) 1(1) distinct_sorted_list_of_set new]
  obtain e2 where 2: "kp_entry kp (replace_attachments kp i attachments d) i = Some e2" "es_parent e2 = es_parent e1"
    "\<forall>n. fmlookup (es_attachments e2) n = (if n \<in> set ?new then fmlookup attachments n else fmlookup (es_attachments e1) n)"
    "same_content (es_entry e2) (es_entry e1)"
    using added assms(2) by (auto simp: replace_attachments_def)
  have "fmlookup (es_attachments e2) n = fmlookup attachments n" for n
    using 1(3) 2(3) by (cases "n |\<in>| fmdom attachments"; cases "n |\<in>| fmdom (es_attachments e)") (auto dest!: fmdom_notD)
  then have "es_attachments e2 = attachments" by (simp add: fmap_ext)
  with 1 2 show ?thesis by (metis same_content_trans)
qed

text \<open>The candidate's entry after the merged values are written to it without a conflict.\<close>

lemma push_conflict_neq [simp]: "mb_conflicts (push_conflict c b) \<noteq> mb_conflicts b"
  by (simp add: push_conflict_def)

lemma write_merged_entry_clean:
  assumes laws: "keepass_entry_laws kp"
    and run: "write_merged_entry kp i local remote parent merged attachments (Some icon) b = Inr b'"
    and clean: "mb_conflicts b' = mb_conflicts b"
    and start: "kp_entry kp (mb_candidate b) i = Some c" "es_parent c = es_parent local" "es_attachments c = es_attachments local"
  shows "\<exists>e. kp_entry kp (mb_candidate b') i = Some e \<and> es_parent e = parent \<and> es_attachments e = attachments \<and>
    same_content (es_entry e) (merged\<lparr>e_icon := icon\<rparr>)"
proof -
  let ?d1 = "kp_update_entry kp i (\<lambda>_. merged) (mb_candidate b)"
  have 1: "kp_entry kp ?d1 i = Some (c\<lparr>es_entry := merged\<rparr>)"
    using laws start(1) unfolding keepass_entry_laws_def by simp
  obtain d2 where d2: "kp_set_entry_icon kp i icon ?d1 = Some d2"
    using run clean start(1) 1
    by (auto simp: write_merged_entry_def Let_def entry_conflict_def push_conflict_def bindR_def
        split: option.splits if_splits sum.splits)
  have 2: "kp_entry kp d2 i = Some (c\<lparr>es_entry := merged\<lparr>e_icon := icon\<rparr>\<rparr>)"
    using laws 1 d2 unfolding keepass_entry_laws_def by fastforce
  obtain d3 e3 where d3: "kp_entry kp d3 i = Some e3" "es_parent e3 = parent" "es_attachments e3 = es_attachments local"
    "same_content (es_entry e3) (merged\<lparr>e_icon := icon\<rparr>)"
    and b': "b' = (if attachments = es_attachments local then b\<lparr>mb_candidate := d3\<rparr>
      else b\<lparr>mb_candidate := replace_attachments kp i attachments d3\<rparr>)"
  proof (cases "parent = es_parent local")
    case True
    then show thesis
      using that [of d2 "c\<lparr>es_entry := merged\<lparr>e_icon := icon\<rparr>\<rparr>"] run start 1 2 d2
      by (auto simp: write_merged_entry_def Let_def split: if_splits)
  next
    case False
    obtain d where mv: "kp_move_entry kp i parent d2 = Some d"
      using run clean start(1) 1 2 d2 False
      by (auto simp: write_merged_entry_def Let_def entry_conflict_def push_conflict_def split: option.splits if_splits)
    obtain e where e: "kp_entry kp d i = Some e" "es_parent e = parent" "es_attachments e = es_attachments local"
      "same_content (es_entry e) (merged\<lparr>e_icon := icon\<rparr>)"
      using moved_entry [OF laws 2 mv] start(3) by auto
    let ?f = "e_times_update (t_location_changed_update (\<lambda>_. t_location_changed (e_times (es_entry remote))))"
    have upd: "kp_entry kp (kp_update_entry kp i ?f d) i = Some (es_entry_update ?f e)"
      by (rule updated_entry [OF laws e(1)])
    show thesis
    proof (rule that [OF upd])
      show "same_content (es_entry (es_entry_update ?f e)) (merged\<lparr>e_icon := icon\<rparr>)"
        using e(4) by (simp add: same_content_def entry_props_def time_props_def)
      show "b' = (if attachments = es_attachments local then b\<lparr>mb_candidate := kp_update_entry kp i ?f d\<rparr>
          else b\<lparr>mb_candidate := replace_attachments kp i attachments (kp_update_entry kp i ?f d)\<rparr>)"
        using run start(1) 1 2 d2 mv False upd by (simp add: write_merged_entry_def Let_def split: if_splits)
    qed (use e in simp_all)
  qed
  show ?thesis
  proof (cases "attachments = es_attachments local")
    case True
    with b' d3 show ?thesis by auto
  next
    case False
    with b' d3 replace_attachments_entry [OF laws d3(1), of attachments] show ?thesis
      by (auto intro: same_content_trans)
  qed
qed

lemma merge_history_grows: "prefix cs (snd (merge_history kp b l r i cs))"
  by (simp add: merge_history_def Let_def)

lemma write_merged_entry_grows:
  "write_merged_entry kp i local remote parent merged attachments icon b = Inr b' \<Longrightarrow>
   prefix (mb_conflicts b) (mb_conflicts b')"
  by (auto simp: write_merged_entry_def Let_def bindR_def entry_conflict_def push_conflict_def
      split: option.splits if_splits sum.splits)

text \<open>Merging an entry that all three generations have, without a conflict.\<close>

lemma merge_existing_entry_clean:
  assumes laws: "keepass_entry_laws kp"
    and run: "merge_existing_entry kp i base local remote b = Inr b'"
    and clean: "mb_conflicts b' = mb_conflicts b"
    and start: "kp_entry kp (mb_candidate b) i = Some c" "es_parent c = es_parent local" "es_attachments c = es_attachments local"
  obtains e where "kp_entry kp (mb_candidate b') i = Some e"
    and "choose_three_way (es_parent base) (es_parent local) (es_parent remote) = Some (es_parent e)"
    and "\<And>k. choose_three_way (fmlookup (e_fields (es_entry base)) k) (fmlookup (e_fields (es_entry local)) k)
        (fmlookup (e_fields (es_entry remote)) k) = Some (fmlookup (e_fields (es_entry e)) k)"
    and "list_all (\<lambda>(get, upd). choose_three_way (get (es_entry base)) (get (es_entry local)) (get (es_entry remote)) =
        Some (get (es_entry e))) entry_props"
    and "list_all (\<lambda>(get, upd). choose_three_way (get (e_times (es_entry base))) (get (e_times (es_entry local)))
        (get (e_times (es_entry remote))) = Some (get (e_times (es_entry e)))) time_props"
    and "choose_three_way (e_icon (es_entry base)) (e_icon (es_entry local)) (e_icon (es_entry remote)) =
        Some (e_icon (es_entry e))"
    and "\<And>k. choose_three_way (fmlookup (es_attachments base) k) (fmlookup (es_attachments local) k)
        (fmlookup (es_attachments remote) k) = Some (fmlookup (es_attachments e) k)"
proof -
  obtain parent b1 where p1: "(case choose_three_way (es_parent base) (es_parent local) (es_parent remote) of
      Some parent \<Rightarrow> (parent, b) | None \<Rightarrow> (es_parent local, entry_conflict kp i MoveVsMove None b)) = (parent, b1)" by fastforce
  define b2 where "b2 = (if choose_three_way (es_previous_parent base) (es_previous_parent local) (es_previous_parent remote) = None \<or>
      parent = es_parent local \<and> choose_three_way (es_previous_parent base) (es_previous_parent local) (es_previous_parent remote) \<noteq>
        Some (es_previous_parent local) then entry_conflict kp i UnsupportedSemantic None b1 else b1)"
  obtain fields cs3 where p3: "merge_named_map (e_fields (es_entry base)) (e_fields (es_entry local))
      (e_fields (es_entry remote)) (entry_field_conflict kp i) (mb_conflicts b2) = (fields, cs3)" by fastforce
  obtain merged cs4 where p4: "merge_entry_properties (kp_id_string kp) base local remote
      ((es_entry local)\<lparr>e_fields := fields\<rparr>, cs3) = (merged, cs4)" by fastforce
  obtain attachments cs5 where p5: "merge_named_map (es_attachments base) (es_attachments local)
      (es_attachments remote) (\<lambda>_. entry_conflict_of kp i Binary None) cs4 = (attachments, cs5)" by fastforce
  obtain history cs6 where p6: "merge_history kp (mb_base b2) (mb_local b2) (mb_remote b2) i cs5 = (history, cs6)" by fastforce
  let ?icon = "choose_three_way (e_icon (es_entry base)) (e_icon (es_entry local)) (e_icon (es_entry remote))"
  have wr: "write_merged_entry kp i local remote parent (merged\<lparr>e_history := history\<rparr>) attachments ?icon
      (b2\<lparr>mb_conflicts := cs6\<rparr>) = Inr b'"
    using run unfolding merge_existing_entry_def Let_def p1 prod.case b2_def [symmetric] p3 p4 p5 p6 .
  have b1: "prefix (mb_conflicts b) (mb_conflicts b1)" "mb_candidate b1 = mb_candidate b"
    "mb_conflicts b1 = mb_conflicts b \<Longrightarrow> choose_three_way (es_parent base) (es_parent local) (es_parent remote) = Some parent"
    using p1 by (auto simp: entry_conflict_def push_conflict_def split: option.splits)
  have b2: "prefix (mb_conflicts b1) (mb_conflicts b2)" "mb_candidate b2 = mb_candidate b1"
    by (auto simp: b2_def entry_conflict_def push_conflict_def)
  have chain: "prefix (mb_conflicts b2) cs3" "prefix cs3 cs4" "prefix cs4 cs5" "prefix cs5 cs6" "prefix cs6 (mb_conflicts b')"
    using merge_named_map_grows merge_entry_properties_grows merge_history_grows write_merged_entry_grows [OF wr]
    by (metis p3 p4 p5 p6 snd_conv MergeBuilder.select_convs(5) MergeBuilder.surjective MergeBuilder.update_convs(5))+
  then have eqs: "mb_conflicts b1 = mb_conflicts b" "cs3 = mb_conflicts b2" "cs4 = cs3" "cs5 = cs4" "cs6 = cs5" "mb_conflicts b' = cs6"
    using b1(1) b2(1) unfolding clean by (meson prefix_order.trans prefix_order.antisym)+
  note m = merge_entry_properties_clean [OF p4 [unfolded eqs(3)]]
  then obtain icon where icon: "?icon = Some icon" by blast
  obtain e where e: "kp_entry kp (mb_candidate b') i = Some e" "es_parent e = parent" "es_attachments e = attachments"
    "same_content (es_entry e) (merged\<lparr>e_history := history, e_icon := icon\<rparr>)"
    using write_merged_entry_clean [OF laws wr [unfolded icon], of c] start eqs(6) b1(2) b2(2) by auto
  show thesis
  proof (rule that [OF e(1)])
    show "choose_three_way (es_parent base) (es_parent local) (es_parent remote) = Some (es_parent e)"
      using b1(3) eqs(1) e(2) by simp
    show "choose_three_way (fmlookup (e_fields (es_entry base)) k) (fmlookup (e_fields (es_entry local)) k)
        (fmlookup (e_fields (es_entry remote)) k) = Some (fmlookup (e_fields (es_entry e)) k)" for k
      using merge_named_map_clean [of "e_fields (es_entry base)" _ _ "entry_field_conflict kp i" "mb_conflicts b2"] p3 eqs(2) m(2) e(4)
      by (simp add: same_content_def)
    show "list_all (\<lambda>(get, upd). choose_three_way (get (es_entry base)) (get (es_entry local)) (get (es_entry remote)) =
        Some (get (es_entry e))) entry_props"
      using m(1) e(4) by (simp add: same_content_def entry_props_def)
    show "list_all (\<lambda>(get, upd). choose_three_way (get (e_times (es_entry base))) (get (e_times (es_entry local)))
        (get (e_times (es_entry remote))) = Some (get (e_times (es_entry e)))) time_props"
      using m(4) e(4) by (simp add: same_content_def time_props_def)
    show "?icon = Some (e_icon (es_entry e))" using icon e(4) by (simp add: same_content_def)
    show "choose_three_way (fmlookup (es_attachments base) k) (fmlookup (es_attachments local) k)
        (fmlookup (es_attachments remote) k) = Some (fmlookup (es_attachments e) k)" for k
      using merge_named_map_clean [of "es_attachments base" _ _ "\<lambda>_. entry_conflict_of kp i Binary None" cs4] p5 eqs(4) e(3) by simp
  qed
qed

subsection \<open>Histories\<close>

lemma history_eq_sym: "history_entry_semantically_eq a b \<Longrightarrow> history_entry_semantically_eq b a"
  by (auto simp: history_entry_semantically_eq_def Let_def)

lemma history_eq_trans:
  "history_entry_semantically_eq a b \<Longrightarrow> history_entry_semantically_eq b c \<Longrightarrow> history_entry_semantically_eq a c"
  by (auto simp: history_entry_semantically_eq_def Let_def)

lemma historical_eq_trans:
  "historical_entries_semantically_eq kp a x b y i \<Longrightarrow> historical_entries_semantically_eq kp b y c z i \<Longrightarrow>
   historical_entries_semantically_eq kp a x c z i"
  by (auto simp: historical_entries_semantically_eq_def intro: history_eq_trans split: option.splits)

text \<open>A revision of REMOTE that is not new is equal to one of LOCAL or to a new one of REMOTE.\<close>

definition represented :: "('d, 'v) keepass \<Rightarrow> 'd \<Rightarrow> 'd \<Rightarrow> 128 word \<Rightarrow> 'v HistoricalEntry list \<Rightarrow> nat \<Rightarrow> bool" where
  "represented kp local_db remote_db i result index \<longleftrightarrow>
     (\<exists>x < history_len kp local_db i. historical_entries_semantically_eq kp local_db x remote_db index i) \<or>
     (\<exists>y \<le> index. \<exists>remote. history_of kp remote_db i = Some remote \<and> remote ! y \<in> set result \<and>
        (y = index \<or> historical_entries_semantically_eq kp remote_db y remote_db index i))"

lemma remote_revision_represented:
  assumes "history_of kp remote_db i = Some remote" and "index < length remote"
    and "set (new_remote_revisions kp local_db remote_db i) \<subseteq> set result"
  shows "represented kp local_db remote_db i result index"
  using assms(2)
proof (induction index rule: less_induct)
  case (less index)
  let ?loc = "\<lambda>index. list_ex (\<lambda>x. historical_entries_semantically_eq kp local_db x remote_db index i) [0..<history_len kp local_db i]"
  let ?prior = "list_ex (\<lambda>y. historical_entries_semantically_eq kp remote_db y remote_db index i) [0..<index]"
  consider (local) "?loc index" | (prior) "?prior" | (new) "\<not> ?loc index" "\<not> ?prior" by blast
  then show ?case
  proof cases
    case local
    then show ?thesis by (auto simp: represented_def list_ex_iff)
  next
    case prior
    then obtain y where y: "y < index" "historical_entries_semantically_eq kp remote_db y remote_db index i"
      by (auto simp: list_ex_iff)
    with less have "represented kp local_db remote_db i result y" by simp
    with y show ?thesis
      by (auto simp: represented_def intro: historical_eq_trans)
        (meson historical_eq_trans le_trans less_imp_le_nat order.strict_implies_order)+
  next
    case new
    then have "remote ! index \<in> set (new_remote_revisions kp local_db remote_db i)"
      using assms(1) less.prems by (auto simp: new_remote_revisions_def)
    then show ?thesis using assms(1,3) by (auto simp: represented_def)
  qed
qed

lemma rebuild_history_id:
  assumes "\<And>h hs. kp_history_add kp h hs = h # hs"
  shows "rebuild_history kp entries = entries"
proof -
  have "fold (kp_history_add kp) xs acc = rev xs @ acc" for xs acc
    by (induction xs arbitrary: acc) (simp_all add: assms)
  then show ?thesis by (simp add: rebuild_history_def)
qed

subsection \<open>Added groups\<close>

text \<open>What the crate documents of groups: a group that was added is there, and adding or assigning
  removes none.\<close>

definition keepass_group_laws :: "('d, 'v) keepass \<Rightarrow> bool" where
  "keepass_group_laws kp \<longleftrightarrow>
     (\<forall>d d' p i. kp_add_group kp p i d = Some d' \<longrightarrow>
        kp_group kp d' i \<noteq> None \<and> (\<forall>j. kp_group kp d j \<noteq> None \<longrightarrow> kp_group kp d' j \<noteq> None)) \<and>
     (\<forall>d i f j. kp_group kp d j \<noteq> None \<longrightarrow> kp_group kp (kp_update_group kp i f d) j \<noteq> None)"

text \<open>The group is in the candidate, or a conflict names it.\<close>

definition settled :: "('d, 'v) keepass \<Rightarrow> 'd MergeBuilder \<Rightarrow> 128 word \<Rightarrow> bool" where
  "settled kp b i \<longleftrightarrow> kp_group kp (mb_candidate b) i \<noteq> None \<or>
     (\<exists>c \<in> set (mb_conflicts b). sc_object c = GroupObject (kp_id_string kp i))"

lemma settled_group_conflict: "settled kp b j \<Longrightarrow> settled kp (group_conflict kp i kind b) j"
  and settled_group_conflict_self: "settled kp (group_conflict kp i kind b) i"
  by (auto simp: settled_def group_conflict_def push_conflict_def)

lemma settled_added:
  assumes "keepass_group_laws kp" and "kp_add_group kp p i (mb_candidate b) = Some d"
  shows "settled kp (b\<lparr>mb_candidate := kp_update_group kp i f d\<rparr>) i"
    and "settled kp b j \<Longrightarrow> settled kp (b\<lparr>mb_candidate := kp_update_group kp i f d\<rparr>) j"
  using assms by (simp_all add: settled_def keepass_group_laws_def) blast+

lemma mb_remote_simps [simp]:
  "mb_remote (group_conflict kp i kind b) = mb_remote b" "mb_remote (push_conflict c b) = mb_remote b"
  by (simp_all add: group_conflict_def push_conflict_def)

lemma retain_additions_settled:
  assumes "keepass_group_laws kp" and "\<And>i. i \<in> set pending \<Longrightarrow> kp_group kp (mb_remote b) i \<noteq> None"
    and "retain_additions kp pending b = (kept, b')"
  shows "mb_remote b' = mb_remote b \<and> set kept \<subseteq> set pending \<and> (\<forall>i \<in> set pending. i \<in> set kept \<or> settled kp b' i) \<and>
    (\<forall>j. settled kp b j \<longrightarrow> settled kp b' j)"
  using assms(2,3)
proof (induction pending arbitrary: b kept)
  case (Cons i pending)
  obtain source where src: "kp_group kp (mb_remote b) i = Some source" using Cons.prems(1) [of i] by auto
  have rest: "j \<in> set pending \<Longrightarrow> kp_group kp (mb_remote b) j \<noteq> None" for j using Cons.prems(1) by simp
  show ?case
  proof (cases "gs_parent source")
    case None
    with src Cons.prems(2) have "retain_additions kp pending (group_conflict kp i HierarchyCycle b) = (kept, b')" by simp
    from Cons.IH [OF _ this] rest show ?thesis
      by (auto simp: settled_group_conflict settled_group_conflict_self)
  next
    case (Some parent)
    show ?thesis
    proof (cases "kp_group kp (mb_candidate b) parent")
      case None
      then obtain kept' where "retain_additions kp pending b = (kept', b')" "kept = i # kept'"
        using src Some Cons.prems(2) by (auto split: prod.splits)
      with Cons.IH [OF rest] show ?thesis by auto
    next
      case cand: (Some g)
      show ?thesis
      proof (cases "kp_add_group kp parent i (mb_candidate b)")
        case None
        with src Some cand Cons.prems(2)
        have "retain_additions kp pending (group_conflict kp i UuidCollision b) = (kept, b')" by simp
        from Cons.IH [OF _ this] rest show ?thesis
          by (auto simp: settled_group_conflict settled_group_conflict_self)
      next
        case add: (Some d)
        let ?b = "b\<lparr>mb_candidate := kp_update_group kp i (\<lambda>_. gs_group source) d\<rparr>"
        from add src Some cand Cons.prems(2) have "retain_additions kp pending ?b = (kept, b')" by simp
        from Cons.IH [OF _ this] rest settled_added [OF assms(1) add] show ?thesis by auto
      qed
    qed
  qed
qed simp

lemma add_remote_groups_settled:
  assumes "keepass_group_laws kp"
  shows "(\<And>i. i \<in> set pending \<Longrightarrow> kp_group kp (mb_remote b) i \<noteq> None) \<Longrightarrow>
    (\<forall>i \<in> set pending. settled kp (add_remote_groups kp pending b) i) \<and>
    (\<forall>j. settled kp b j \<longrightarrow> settled kp (add_remote_groups kp pending b) j)"
proof (induction "length pending" arbitrary: pending b rule: less_induct)
  case less
  have all: "settled kp (fold (\<lambda>i. group_conflict kp i k) ks b) j" if "settled kp b j \<or> j \<in> set ks" for k ks b j
    using that by (induction ks arbitrary: b) (auto intro: settled_group_conflict settled_group_conflict_self)
  show ?case
  proof (cases "pending = []")
    case False
    obtain kept b' where r: "retain_additions kp pending b = (kept, b')" by fastforce
    note s = retain_additions_settled [OF assms less.prems r]
    show ?thesis
    proof (cases "length kept = length pending")
      case True
      then have "add_remote_groups kp pending b = fold (\<lambda>i. group_conflict kp i GroupDeleteVsDescendantChange) kept b'"
        using False r by simp
      then show ?thesis using s all [of b' _ kept] by auto
    next
      case neq: False
      then have shorter: "length kept < length pending" using retain_additions_length [of kp pending b] r by simp
      have eq: "add_remote_groups kp pending b = add_remote_groups kp kept b'" using neq False r by simp
      have "kp_group kp (mb_remote b') i \<noteq> None" if "i \<in> set kept" for i using that s less.prems by auto
      note ih = less.hyps [OF shorter this]
      show ?thesis unfolding eq using ih s by blast
    qed
  qed simp
qed

subsection \<open>Hierarchies\<close>

definition parent_rel :: "('d, 'v) keepass \<Rightarrow> 'd \<Rightarrow> (128 word \<times> 128 word) set" where
  "parent_rel kp d = {(i, p). \<exists>g. kp_group kp d i = Some g \<and> gs_parent g = Some p}"

lemma ancestors_reached:
  "ancestors kp d seen cur = Some s \<Longrightarrow> x \<in> set s \<Longrightarrow> x \<in> set seen \<or> (\<exists>i. cur = Some i \<and> (i, x) \<in> (parent_rel kp d)\<^sup>*)"
proof (induction kp d seen cur rule: ancestors.induct)
  case (2 kp d seen i)
  then obtain g where g: "i \<notin> set seen" "kp_group kp d i = Some g" "ancestors kp d (i # seen) (gs_parent g) = Some s"
    by (auto split: if_splits option.splits)
  from "2.IH" [OF g(1,2,3) "2.prems"(2)] show ?case
  proof
    assume "\<exists>j. gs_parent g = Some j \<and> (j, x) \<in> (parent_rel kp d)\<^sup>*"
    then obtain j where "(i, j) \<in> parent_rel kp d" "(j, x) \<in> (parent_rel kp d)\<^sup>*" using g(2) by (auto simp: parent_rel_def)
    then show ?thesis by (blast intro: converse_rtrancl_into_rtrancl)
  qed auto
qed simp

lemma ancestors_fresh:
  "ancestors kp d seen cur = Some s \<Longrightarrow> cur = Some i \<Longrightarrow> (i, x) \<in> (parent_rel kp d)\<^sup>* \<Longrightarrow> x \<notin> set seen"
proof (induction kp d seen cur arbitrary: i rule: ancestors.induct)
  case (2 kp d seen j)
  then obtain g where g: "j \<notin> set seen" "kp_group kp d j = Some g" "ancestors kp d (j # seen) (gs_parent g) = Some s"
    by (auto split: if_splits option.splits)
  from "2.prems"(3) have "(j, x) \<in> (parent_rel kp d)\<^sup>*" using "2.prems"(2) by simp
  then show ?case
  proof (cases rule: converse_rtranclE)
    case base
    then show ?thesis using g(1) by simp
  next
    case (step p)
    then have "gs_parent g = Some p" using g(2) by (simp add: parent_rel_def)
    from "2.IH" [OF g(1,2,3) this step(2)] show ?thesis by simp
  qed
qed simp

lemma ancestors_acyclic:
  assumes "ancestors kp d [] (Some i) = Some s"
  shows "(i, i) \<notin> (parent_rel kp d)\<^sup>+"
proof
  assume "(i, i) \<in> (parent_rel kp d)\<^sup>+"
  then obtain p where p: "(i, p) \<in> parent_rel kp d" "(p, i) \<in> (parent_rel kp d)\<^sup>*" by (meson tranclD)
  then obtain g where "kp_group kp d i = Some g" "gs_parent g = Some p" by (auto simp: parent_rel_def)
  with assms have "ancestors kp d [i] (Some p) = Some s" by simp
  from ancestors_fresh [OF this refl p(2)] show False by simp
qed

subsection \<open>The history limit\<close>

text \<open>Assigning an entry leaves the other entries and the list of entries alone.\<close>

definition keepass_update_laws :: "('d, 'v) keepass \<Rightarrow> bool" where
  "keepass_update_laws kp \<longleftrightarrow>
     (\<forall>d i f. kp_entries kp (kp_update_entry kp i f d) = kp_entries kp d) \<and>
     (\<forall>d i j f. i \<noteq> j \<longrightarrow> kp_entry kp (kp_update_entry kp i f d) j = kp_entry kp d j)"

text \<open>It leaves everything outside the entries alone too; so does assigning the metadata, which reads back.\<close>

definition keepass_frame_laws :: "('d, 'v) keepass \<Rightarrow> bool" where
  "keepass_frame_laws kp \<longleftrightarrow>
     (\<forall>d i f. let d' = kp_update_entry kp i f d in kp_root kp d' = kp_root kp d \<and> kp_groups kp d' = kp_groups kp d \<and>
        kp_group kp d' = kp_group kp d \<and> kp_icons kp d' = kp_icons kp d \<and> kp_icon kp d' = kp_icon kp d \<and>
        kp_deleted kp d' = kp_deleted kp d \<and> kp_meta kp d' = kp_meta kp d) \<and>
     (\<forall>d m. kp_entries kp (kp_set_meta kp m d) = kp_entries kp d \<and> kp_entry kp (kp_set_meta kp m d) = kp_entry kp d \<and>
        kp_meta kp (kp_set_meta kp m d) = m) \<and>
     (\<forall>n. kp_history_max_items kp (kp_history_max_items_value kp (map_option int n)) = map_option int n) \<and>
     (\<forall>d i e h k. kp_entry kp d i = Some e \<longrightarrow> e_history (es_entry e) = Some h \<longrightarrow> k < length h \<longrightarrow>
        (\<exists>r. kp_historical kp d i k = Some r \<and> er_entry r = h ! k))"

text \<open>An entry with the newest revisions of its history, which is stored newest first.\<close>

definition newest :: "nat \<Rightarrow> 'v Entry \<Rightarrow> 'v Entry" where
  "newest limit e = e\<lparr>e_history := map_option (take limit) (e_history e)\<rparr>"

lemma newest_idem [simp]: "newest limit (newest limit e) = newest limit e"
  by (simp add: newest_def option.map_comp comp_def)

lemma prune_entry_history_newest:
  assumes "\<And>h hs. kp_history_add kp h hs = h # hs"
  shows "prune_entry_history kp limit = newest limit"
  by (rule ext) (auto simp: prune_entry_history_def newest_def rebuild_history_id [OF assms] split: option.split)

lemma prune_all_entry:
  assumes "keepass_entry_laws kp" "keepass_update_laws kp" "\<And>h hs. kp_history_add kp h hs = h # hs"
  shows "kp_entry kp (prune_all_entry_history kp (Some limit) d) i =
    (if i \<in> set (kp_entries kp d) then map_option (es_entry_update (newest limit)) (kp_entry kp d i) else kp_entry kp d i)"
proof -
  let ?step = "\<lambda>i d. if kp_entry kp d i \<noteq> None then kp_update_entry kp i (newest limit) d else d"
  have step: "kp_entry kp (?step j d) i = (if j = i then map_option (es_entry_update (newest limit)) (kp_entry kp d i) else kp_entry kp d i)" for j d
    using assms(2) updated_entry [OF assms(1)] by (auto simp: keepass_update_laws_def)
  have "kp_entry kp (fold ?step ks d) i =
      (if i \<in> set ks then map_option (es_entry_update (newest limit)) (kp_entry kp d i) else kp_entry kp d i)" for ks d
  proof (induction ks arbitrary: d)
    case (Cons j ks)
    have "kp_entry kp (fold ?step (j # ks) d) i = kp_entry kp (fold ?step ks (?step j d)) i" by simp
    also have "\<dots> = (if i \<in> set (j # ks) then map_option (es_entry_update (newest limit)) (kp_entry kp d i) else kp_entry kp d i)"
      unfolding Cons.IH step by (cases "kp_entry kp d i") auto
    finally show ?case .
  qed simp
  then show ?thesis
    unfolding prune_all_entry_history_def option.case prune_entry_history_newest [of kp limit, OF assms(3)] .
qed

lemma prune_all_entries: "keepass_update_laws kp \<Longrightarrow> kp_entries kp (prune_all_entry_history kp limit d) = kp_entries kp d"
proof -
  assume laws: "keepass_update_laws kp"
  have "kp_entries kp (fold (\<lambda>i d. if kp_entry kp d i \<noteq> None then kp_update_entry kp i f d else d) ks d) = kp_entries kp d" for f ks d
    using laws by (induction ks arbitrary: d) (simp_all add: keepass_update_laws_def)
  then show ?thesis by (simp add: prune_all_entry_history_def split: option.split)
qed

lemma prune_all_frame:
  assumes "keepass_frame_laws kp"
  shows "kp_root kp (prune_all_entry_history kp limit d) = kp_root kp d" "kp_groups kp (prune_all_entry_history kp limit d) = kp_groups kp d" "kp_group kp (prune_all_entry_history kp limit d) = kp_group kp d" "kp_icons kp (prune_all_entry_history kp limit d) = kp_icons kp d"
    "kp_icon kp (prune_all_entry_history kp limit d) = kp_icon kp d" "kp_deleted kp (prune_all_entry_history kp limit d) = kp_deleted kp d" "kp_meta kp (prune_all_entry_history kp limit d) = kp_meta kp d"
proof -
  have "let d' = fold (\<lambda>i d. if kp_entry kp d i \<noteq> None then kp_update_entry kp i f d else d) ks d in
      kp_root kp d' = kp_root kp d \<and> kp_groups kp d' = kp_groups kp d \<and> kp_group kp d' = kp_group kp d \<and>
      kp_icons kp d' = kp_icons kp d \<and> kp_icon kp d' = kp_icon kp d \<and> kp_deleted kp d' = kp_deleted kp d \<and> kp_meta kp d' = kp_meta kp d"
    for f ks d
    using assms(1) by (induction ks arbitrary: d) (simp_all add: keepass_frame_laws_def Let_def)
  then show "kp_root kp (prune_all_entry_history kp limit d) = kp_root kp d" "kp_groups kp (prune_all_entry_history kp limit d) = kp_groups kp d" "kp_group kp (prune_all_entry_history kp limit d) = kp_group kp d" "kp_icons kp (prune_all_entry_history kp limit d) = kp_icons kp d"
    "kp_icon kp (prune_all_entry_history kp limit d) = kp_icon kp d" "kp_deleted kp (prune_all_entry_history kp limit d) = kp_deleted kp d" "kp_meta kp (prune_all_entry_history kp limit d) = kp_meta kp d"
    unfolding prune_all_entry_history_def Let_def by (cases limit; simp)+
qed

text \<open>Pruning keeps a database valid.\<close>

lemma ancestors_cong: "kp_group kp d' = kp_group kp d \<Longrightarrow> ancestors kp d' seen i = ancestors kp d seen i"
  by (induction kp d seen i rule: ancestors.induct) (auto split: option.split)

lemma prune_all_valid:
  assumes laws: "keepass_entry_laws kp" "keepass_update_laws kp" "\<And>h hs. kp_history_add kp h hs = h # hs" "keepass_frame_laws kp"
    and valid: "database_valid_for_sync_db kp d"
  shows "database_valid_for_sync_db kp (prune_all_entry_history kp limit d)"
proof (cases limit)
  case None
  with valid show ?thesis by (simp add: prune_all_entry_history_def)
next
  case (Some n)
  let ?p = "prune_all_entry_history kp (Some n) d"
  note frame = prune_all_frame [OF laws(4), of "Some n" d] prune_all_entries [OF laws(2), of "Some n" d]
  note entry = prune_all_entry [OF laws(1-3), of n d]
  have reads_back: "\<exists>r. kp_historical kp d i k = Some r \<and> er_entry r = h ! k"
    if "kp_entry kp d i = Some e" "e_history (es_entry e) = Some h" "k < length h" for d i e h k
    using laws(4) that unfolding keepass_frame_laws_def by blast
  have icon: "unavailable_icon kp ?p x = unavailable_icon kp d x" for x by (simp add: unavailable_icon_def frame split: option.split Icon.split)
  have group: "group_valid kp ?p i = group_valid kp d i" for i
    by (simp add: group_valid_def ancestors_cong [OF frame(3)] frame icon entry option.case_eq_if cong: option.case_cong)
      (simp add: list_all_iff option.case_eq_if option.map_sel)
  have "entry_valid kp ?p i" if "entry_valid kp d i" "i \<in> set (kp_entries kp d)" for i
  proof -
    obtain e where e: "kp_entry kp d i = Some e" "\<not> unavailable_icon kp d (e_icon (es_entry e))"
      "\<And>k. k < history_len kp d i \<Longrightarrow> \<exists>r. kp_historical kp d i k = Some r \<and> \<not> unavailable_icon kp d (e_icon (er_entry r))"
    proof (cases "kp_entry kp d i")
      case (Some e)
      have "\<exists>r. kp_historical kp d i k = Some r \<and> \<not> unavailable_icon kp d (e_icon (er_entry r))" if "k < history_len kp d i" for k
        using that Some \<open>entry_valid kp d i\<close> by (auto simp: entry_valid_def list_all_iff split: option.splits dest!: bspec [where x = k])
      with Some \<open>entry_valid kp d i\<close> show thesis by (intro that) (auto simp: entry_valid_def)
    qed (use \<open>entry_valid kp d i\<close> in \<open>simp add: entry_valid_def\<close>)
    have p: "kp_entry kp ?p i = Some (es_entry_update (newest n) e)" using entry [of i] that(2) e(1) by simp
    have "\<exists>r. kp_historical kp ?p i k = Some r \<and> \<not> unavailable_icon kp d (e_icon (er_entry r))" if k: "k < history_len kp ?p i" for k
    proof -
      obtain h where h: "e_history (es_entry e) = Some h" "k < length h" "k < n"
        using k p by (auto simp: history_len_def newest_def split: option.splits)
      obtain r where "kp_historical kp d i k = Some r" "er_entry r = h ! k" "\<not> unavailable_icon kp d (e_icon (er_entry r))"
        using e(3) [of k] h e(1) reads_back [OF e(1) h(1,2)] by (auto simp: history_len_def)
      moreover obtain r' where "kp_historical kp ?p i k = Some r'" "er_entry r' = take n h ! k"
        using reads_back [OF p, of "take n h" k] h by (auto simp: newest_def)
      ultimately show ?thesis using h(3) by simp
    qed
    then have "list_all (\<lambda>k. case kp_historical kp ?p i k of None \<Rightarrow> False | Some r \<Rightarrow> \<not> unavailable_icon kp ?p (e_icon (er_entry r)))
        [0..<history_len kp ?p i]" by (force simp: list_all_iff icon)
    with p e(2) show ?thesis by (simp add: entry_valid_def icon newest_def)
  qed
  then show ?thesis
    using valid Some
    by (simp add: database_valid_for_sync_db_def frame group identities_valid_def live_identities_def child_groups_def child_entries_def list_all_iff)
qed

end
