(* ===== verification/Reference_Database.thy ===== *)
theory Reference_Database
  imports Kdbx_Merge_Facts
begin

section \<open>A concrete database\<close>

text \<open>
  An implementation of the database operations on association lists, on which the properties of the
  merge are evaluated: groups and entries with their parents, without custom icons. Removing a
  group removes everything below it, as the crate does.
\<close>

record ref_db =
  rd_config :: nat
  rd_meta :: "nat Meta"
  rd_deleted :: "(128 word, instant) fmap"
  rd_groups :: "(128 word \<times> nat GroupState) list"
  rd_entries :: "(128 word \<times> nat EntryState) list"

definition at_key :: "'k \<Rightarrow> ('v \<Rightarrow> 'v) \<Rightarrow> ('k \<times> 'v) list \<Rightarrow> ('k \<times> 'v) list" where
  "at_key k f al = map (\<lambda>(k', v). (k', if k' = k then f v else v)) al"

lemma map_of_at_key: "map_of (at_key k f al) k' = (if k' = k then map_option f (map_of al k) else map_of al k')"
  by (induction al) (auto simp: at_key_def)

definition ref_times :: "nat Times" where
  "ref_times = \<lparr>t_creation = 0, t_last_access = 0, t_expiry = 0, t_expires = 0, t_usage_count = 0,
     t_last_modification = None, t_location_changed = None\<rparr>"

definition ref_new_group :: "128 word \<Rightarrow> nat Group" where
  "ref_new_group i = \<lparr>g_id = i, g_name = 0, g_notes = 0, g_tags = 0, g_custom_data = 0, g_is_expanded = 0,
     g_default_autotype_sequence = 0, g_enable_autotype = 0, g_enable_searching = 0, g_times = ref_times,
     g_icon = None, g_private = 0\<rparr>"

definition ref_new_entry :: "128 word \<Rightarrow> nat Entry" where
  "ref_new_entry i = \<lparr>e_id = i, e_fields = fmempty, e_autotype = 0, e_tags = 0, e_custom_data = 0,
     e_foreground_color = 0, e_background_color = 0, e_override_url = 0, e_quality_check = 0,
     e_times = ref_times, e_icon = None, e_private = 0, e_history = None\<rparr>"

definition ref_meta :: "nat Meta" where
  "ref_meta = \<lparr>m_generator = 0, m_database_name = 0, m_database_name_changed = 0, m_database_description = 0,
     m_database_description_changed = 0, m_default_username = 0, m_default_username_changed = 0,
     m_maintenance_history_days = 0, m_color = 0, m_master_key_changed = 0, m_master_key_change_rec = 0,
     m_master_key_change_force = 0, m_memory_protection = 0, m_recyclebin_enabled = 0, m_recyclebin_uuid = 0,
     m_recyclebin_changed = 0, m_entry_templates_group = 0, m_entry_templates_group_changed = 0,
     m_last_selected_group = 0, m_last_top_visible_group = 0, m_history_max_items = 0, m_history_max_size = 0,
     m_settings_changed = 0, m_custom_data = fmempty\<rparr>"

definition ref_add_group :: "128 word \<Rightarrow> 128 word \<Rightarrow> ref_db \<Rightarrow> ref_db option" where
  "ref_add_group p i d =
     (if map_of (rd_groups d) p = None \<or> map_of (rd_groups d) i \<noteq> None then None
      else Some (d\<lparr>rd_groups := at_key p (gs_child_groups_update (\<lambda>cs. cs @ [i])) (rd_groups d) @
        [(i, \<lparr>gs_group = ref_new_group i, gs_parent = Some p, gs_previous_parent = None, gs_child_groups = [],
              gs_child_entries = []\<rparr>)]\<rparr>))"

definition ref_add_entry :: "128 word \<Rightarrow> 128 word \<Rightarrow> ref_db \<Rightarrow> ref_db option" where
  "ref_add_entry p i d =
     (if map_of (rd_groups d) p = None \<or> map_of (rd_entries d) i \<noteq> None then None
      else Some (d\<lparr>rd_groups := at_key p (gs_child_entries_update (\<lambda>cs. cs @ [i])) (rd_groups d),
        rd_entries := rd_entries d @ [(i, \<lparr>es_entry = ref_new_entry i, es_parent = p, es_previous_parent = None,
          es_attachments = fmempty\<rparr>)]\<rparr>))"

definition ref_move_entry :: "128 word \<Rightarrow> 128 word \<Rightarrow> ref_db \<Rightarrow> ref_db option" where
  "ref_move_entry i p d = (case map_of (rd_entries d) i of
     None \<Rightarrow> None
   | Some e \<Rightarrow>
       if map_of (rd_groups d) p = None then None
       else Some (d\<lparr>rd_groups := at_key p (gs_child_entries_update (\<lambda>cs. cs @ [i]))
              (at_key (es_parent e) (gs_child_entries_update (removeAll i)) (rd_groups d)),
            rd_entries := at_key i (es_parent_update (\<lambda>_. p) \<circ> es_previous_parent_update (\<lambda>_. Some (es_parent e))) (rd_entries d)\<rparr>))"

text \<open>All groups below a group, the group included; one round per group is enough.\<close>

definition ref_below :: "128 word \<Rightarrow> ref_db \<Rightarrow> 128 word list" where
  "ref_below i d = ((\<lambda>is. is @ map fst (filter (\<lambda>(j, g). j \<notin> set is \<and> (\<exists>p \<in> set is. gs_parent g = Some p)) (rd_groups d)))
     ^^ length (rd_groups d)) [i]"

definition ref_move_group :: "128 word \<Rightarrow> 128 word \<Rightarrow> ref_db \<Rightarrow> ref_db option" where
  "ref_move_group i p d = (case map_of (rd_groups d) i of
     None \<Rightarrow> None
   | Some g \<Rightarrow>
       if map_of (rd_groups d) p = None \<or> p \<in> set (ref_below i d) then None
       else Some (d\<lparr>rd_groups := at_key i (gs_parent_update (\<lambda>_. Some p) \<circ> gs_previous_parent_update (\<lambda>_. gs_parent g))
              (at_key p (gs_child_groups_update (\<lambda>cs. cs @ [i]))
              (map (\<lambda>(j, h). (j, gs_child_groups_update (removeAll i) h)) (rd_groups d)))\<rparr>))"

definition ref_remove_group :: "128 word \<Rightarrow> ref_db \<Rightarrow> ref_db" where
  "ref_remove_group i d = (let gone = set (ref_below i d) in
     d\<lparr>rd_groups := map (\<lambda>(j, g). (j, gs_child_groups_update (removeAll i) g)) (filter (\<lambda>(j, g). j \<notin> gone) (rd_groups d)),
       rd_entries := filter (\<lambda>(j, e). es_parent e \<notin> gone) (rd_entries d)\<rparr>)"

definition ref_remove_entry :: "128 word \<Rightarrow> ref_db \<Rightarrow> ref_db" where
  "ref_remove_entry i d =
     d\<lparr>rd_groups := map (\<lambda>(j, g). (j, gs_child_entries_update (removeAll i) g)) (rd_groups d),
       rd_entries := filter (\<lambda>(j, e). j \<noteq> i) (rd_entries d)\<rparr>"

definition ref_keepass :: "(ref_db, nat) keepass" where
  "ref_keepass = \<lparr>kp_id_string = (\<lambda>i. [char_of (unat i)]),
     kp_standard_fields = [''Title'', ''UserName'', ''Password'', ''URL'', ''Notes''], kp_otp_field = ''otp'',
     kp_empty_name = 0, kp_root = (\<lambda>d. fst (hd (rd_groups d))),
     kp_entries = (\<lambda>d. map fst (rd_entries d)), kp_groups = (\<lambda>d. map fst (rd_groups d)), kp_icons = (\<lambda>_. []),
     kp_attachments = (\<lambda>_. []),
     kp_entry = (\<lambda>d. map_of (rd_entries d)), kp_group = (\<lambda>d. map_of (rd_groups d)), kp_icon = (\<lambda>_ _. None),
     kp_historical = (\<lambda>d i index. Option.bind (map_of (rd_entries d) i) (\<lambda>e. Option.bind (e_history (es_entry e)) (\<lambda>h.
        if index < length h then Some \<lparr>er_entry = h ! index, er_previous_parent = None, er_attachments = fmempty\<rparr> else None))),
     kp_config = rd_config, kp_set_config = (\<lambda>c. rd_config_update (\<lambda>_. c)), kp_meta = rd_meta,
     kp_set_meta = (\<lambda>m. rd_meta_update (\<lambda>_. m)), kp_history_max_items = (\<lambda>v. if v = 0 then None else Some (int v - 1)),
     kp_history_max_items_value = (\<lambda>n. case n of None \<Rightarrow> 0 | Some k \<Rightarrow> nat (k + 1)),
     kp_deleted = rd_deleted, kp_insert_deleted = (\<lambda>i t. rd_deleted_update (fmupd i t)),
     kp_set_icon = (\<lambda>_ _ d. d), kp_remove_icon = (\<lambda>_ d. d),
     kp_add_group = ref_add_group, kp_update_group = (\<lambda>i f d. d\<lparr>rd_groups := at_key i (gs_group_update f) (rd_groups d)\<rparr>),
     kp_set_group_icon = (\<lambda>i icon d. case icon of Some (CustomIconRef _) \<Rightarrow> None
        | _ \<Rightarrow> Some (d\<lparr>rd_groups := at_key i (gs_group_update (g_icon_update (\<lambda>_. icon))) (rd_groups d)\<rparr>)),
     kp_move_group = ref_move_group, kp_remove_group = ref_remove_group,
     kp_add_entry = ref_add_entry, kp_update_entry = (\<lambda>i f d. d\<lparr>rd_entries := at_key i (es_entry_update f) (rd_entries d)\<rparr>),
     kp_set_entry_icon = (\<lambda>i icon d. case icon of Some (CustomIconRef _) \<Rightarrow> None
        | _ \<Rightarrow> Some (d\<lparr>rd_entries := at_key i (es_entry_update (e_icon_update (\<lambda>_. icon))) (rd_entries d)\<rparr>)),
     kp_move_entry = ref_move_entry, kp_remove_entry = ref_remove_entry,
     kp_remove_attachment = (\<lambda>i n d. d\<lparr>rd_entries := at_key i (es_attachments_update (fmdrop n)) (rd_entries d)\<rparr>),
     kp_add_attachment = (\<lambda>i n v d. d\<lparr>rd_entries := at_key i (es_attachments_update (fmupd n v)) (rd_entries d)\<rparr>),
     kp_history_add = (#)\<rparr>"

lemma ref_keepass_entry_laws: "keepass_entry_laws ref_keepass"
  unfolding keepass_entry_laws_def
  by (auto simp: ref_keepass_def map_of_at_key ref_move_entry_def split: option.splits if_splits Icon.splits)

lemma ref_keepass_update_laws: "keepass_update_laws ref_keepass"
proof -
  have "map fst (at_key i f al) = map fst al" for i :: "128 word" and f and al :: "(128 word \<times> nat EntryState) list"
    by (simp add: at_key_def comp_def case_prod_beta)
  then show ?thesis by (simp add: keepass_update_laws_def ref_keepass_def map_of_at_key)
qed

lemma ref_keepass_group_laws: "keepass_group_laws ref_keepass"
  unfolding keepass_group_laws_def
  by (auto simp: ref_keepass_def map_of_at_key ref_add_group_def map_add_def split: if_splits option.splits)

lemma ref_keepass_frame_laws: "keepass_frame_laws ref_keepass"
proof -
  have "kp_history_max_items ref_keepass (kp_history_max_items_value ref_keepass (map_option int n)) = map_option int n" for n
    by (cases n) (simp_all add: ref_keepass_def)
  then show ?thesis by (simp add: keepass_frame_laws_def ref_keepass_def Let_def)
qed

end
