(* ===== verification/Kdbx_Merge_Properties.thy ===== *)
theory Kdbx_Merge_Properties
  imports Reference_Database
begin

section \<open>Properties of the semantic merge\<close>

text \<open>
  What the three-way merge keeps of both sides, when it ends, which databases it accepts and returns, and
  the case in which it cannot merge generations that it accepts. The theorems are evaluated on the
  small databases of \<open>Reference_Database\<close>.
\<close>

subsection \<open>Concrete generations\<close>

definition ref_group :: "128 word \<Rightarrow> 128 word option \<Rightarrow> 128 word list \<Rightarrow> 128 word list \<Rightarrow> 128 word \<times> nat GroupState" where
  "ref_group i p gs es = (i, \<lparr>gs_group = ref_new_group i, gs_parent = p, gs_previous_parent = None,
     gs_child_groups = gs, gs_child_entries = es\<rparr>)"

definition ref_entry :: "128 word \<Rightarrow> 128 word \<Rightarrow> 128 word \<times> nat EntryState" where
  "ref_entry i p = (i, \<lparr>es_entry = ref_new_entry i, es_parent = p, es_previous_parent = None, es_attachments = fmempty\<rparr>)"

text \<open>A root with two groups and one entry in the first group; LOCAL renames the database.\<close>

definition ref_base_db :: ref_db where
  "ref_base_db = \<lparr>rd_config = 0, rd_meta = ref_meta, rd_deleted = fmempty,
     rd_groups = [ref_group 1 None [2, 3] [], ref_group 2 (Some 1) [] [10], ref_group 3 (Some 1) [] []],
     rd_entries = [ref_entry 10 2]\<rparr>"

definition ref_local_db :: ref_db where
  "ref_local_db = ref_base_db\<lparr>rd_meta := ref_meta\<lparr>m_database_name := 1\<rparr>\<rparr>"

text \<open>REMOTE moves the entry to the second group and deletes the first.\<close>

definition ref_remote_db :: ref_db where
  "ref_remote_db = \<lparr>rd_config = 0, rd_meta = ref_meta, rd_deleted = fmupd 2 None fmempty,
     rd_groups = [ref_group 1 None [3] [], ref_group 3 (Some 1) [] [10]], rd_entries = [ref_entry 10 3]\<rparr>"

definition ref_builder :: "ref_db MergeBuilder" where
  "ref_builder = \<lparr>mb_base = ref_base_db, mb_local = ref_base_db, mb_remote = ref_base_db, mb_candidate = ref_base_db,
     mb_conflicts = []\<rparr>"

definition ref_entry_with :: "(string \<times> nat) list \<Rightarrow> nat EntryState" where
  "ref_entry_with kvs = (snd (ref_entry 10 2))\<lparr>es_entry := (ref_new_entry 10)\<lparr>e_fields := fmap_of_list kvs\<rparr>\<rparr>"

subsection \<open>Entries\<close>

text \<open>
  C18: no edit of an entry is lost. When an entry of all three generations is merged without a
  conflict, the entry of the result has, for its group, for every field, for auto-type, tags, custom
  data, colors, URL override and quality check, for its creation, last access, expiry and usage count,
  for its icon and for every attachment, the value of the side that changed it: the value that BASE,
  LOCAL and REMOTE determine. The database operations are assumed to change what they name.
\<close>

theorem entry_merge_keeps_edits:
  assumes "keepass_entry_laws kp" and "merge_existing_entry kp i base local remote b = Inr b'"
    and "mb_conflicts b' = mb_conflicts b" and "kp_entry kp (mb_candidate b) i = Some local"
  shows "\<exists>e. kp_entry kp (mb_candidate b') i = Some e \<and>
    choose_three_way (es_parent base) (es_parent local) (es_parent remote) = Some (es_parent e) \<and>
    (\<forall>k. choose_three_way (fmlookup (e_fields (es_entry base)) k) (fmlookup (e_fields (es_entry local)) k)
       (fmlookup (e_fields (es_entry remote)) k) = Some (fmlookup (e_fields (es_entry e)) k)) \<and>
    list_all (\<lambda>(get, upd). choose_three_way (get (es_entry base)) (get (es_entry local)) (get (es_entry remote)) =
       Some (get (es_entry e))) entry_props \<and>
    list_all (\<lambda>(get, upd). choose_three_way (get (e_times (es_entry base))) (get (e_times (es_entry local)))
       (get (e_times (es_entry remote))) = Some (get (e_times (es_entry e)))) time_props \<and>
    choose_three_way (e_icon (es_entry base)) (e_icon (es_entry local)) (e_icon (es_entry remote)) = Some (e_icon (es_entry e)) \<and>
    (\<forall>k. choose_three_way (fmlookup (es_attachments base) k) (fmlookup (es_attachments local) k)
       (fmlookup (es_attachments remote) k) = Some (fmlookup (es_attachments e) k))"
  by (rule merge_existing_entry_clean [OF assms refl refl]) blast

theorem entry_merge_keeps_edits_witness:
  "\<exists>b' e. merge_existing_entry ref_keepass 10 (ref_entry_with [(''Title'', 1)])
      (ref_entry_with [(''Title'', 2)]) (ref_entry_with [(''Title'', 1), (''Password'', 3)])
      (ref_builder\<lparr>mb_candidate := ref_base_db\<lparr>rd_entries := [(10, ref_entry_with [(''Title'', 2)])]\<rparr>\<rparr>) = Inr b' \<and>
    kp_entry ref_keepass (mb_candidate b') 10 = Some e \<and>
    fmlookup (e_fields (es_entry e)) ''Title'' = Some 2 \<and> fmlookup (e_fields (es_entry e)) ''Password'' = Some 3"
proof -
  let ?base = "ref_entry_with [(''Title'', 1)]" and ?local = "ref_entry_with [(''Title'', 2)]"
  let ?remote = "ref_entry_with [(''Title'', 1), (''Password'', 3)]"
  let ?b = "ref_builder\<lparr>mb_candidate := ref_base_db\<lparr>rd_entries := [(10, ?local)]\<rparr>\<rparr>"
  have "case merge_existing_entry ref_keepass 10 ?base ?local ?remote ?b of Inr b' \<Rightarrow> mb_conflicts b' = [] | Inl _ \<Rightarrow> False"
    by code_simp
  then obtain b' where run: "merge_existing_entry ref_keepass 10 ?base ?local ?remote ?b = Inr b'" "mb_conflicts b' = mb_conflicts ?b"
    by (auto simp: ref_builder_def split: sum.splits)
  have "kp_entry ref_keepass (mb_candidate ?b) 10 = Some ?local" by (simp add: ref_keepass_def)
  from entry_merge_keeps_edits [OF ref_keepass_entry_laws run this] obtain e where
    e: "kp_entry ref_keepass (mb_candidate b') 10 = Some e" and fields:
      "\<And>k. choose_three_way (fmlookup (e_fields (es_entry ?base)) k) (fmlookup (e_fields (es_entry ?local)) k)
         (fmlookup (e_fields (es_entry ?remote)) k) = Some (fmlookup (e_fields (es_entry e)) k)" by blast
  from fields [of "''Title''"] fields [of "''Password''"] run(1) e show ?thesis
    by (auto simp: ref_entry_with_def ref_entry_def choose_three_way_def fmlookup_of_list split: if_splits)
qed

text \<open>
  Named maps (fields, attachments, custom data) are merged key by key. The result has under
  every key the value chosen from the three maps, a missing key counting as a value, and LOCAL's
  value under the keys where all three disagree; exactly these keys are reported, in order.
\<close>

theorem named_map_merge:
  "(\<forall>k. fmlookup (fst (merge_named_map base local remote conflict cs)) k =
      (case choose_three_way (fmlookup base k) (fmlookup local k) (fmlookup remote k) of
         Some v \<Rightarrow> v | None \<Rightarrow> fmlookup local k)) \<and>
   snd (merge_named_map base local remote conflict cs) = cs @ map conflict
      (filter (\<lambda>k. choose_three_way (fmlookup base k) (fmlookup local k) (fmlookup remote k) = None)
        (named_keys base local remote))"
  by (simp add: merge_named_map_lookup merge_named_map_conflicts named_choice_def named_conflict_def [abs_def])

text \<open>
  C19: the merge of named maps does not depend on which device runs it. When it finds no conflict,
  exchanging LOCAL and REMOTE gives the same map and no conflict either.
\<close>

theorem named_map_merge_symmetric:
  assumes "snd (merge_named_map base local remote conflict cs) = cs"
  shows "merge_named_map base remote local conflict cs = merge_named_map base local remote conflict cs"
proof -
  have "named_conflict base local remote = named_conflict base remote local"
    by (simp add: named_conflict_def fun_eq_iff choose_three_way_commute)
  then have same: "snd (merge_named_map base remote local conflict cs) = snd (merge_named_map base local remote conflict cs)"
    by (simp add: merge_named_map_conflicts named_keys_commute)
  moreover have "fst (merge_named_map base remote local conflict cs) = fst (merge_named_map base local remote conflict cs)"
    using merge_named_map_clean [of base local remote conflict cs] merge_named_map_clean [of base remote local conflict cs] assms same
    by (intro fmap_ext) (metis choose_three_way_commute option.inject)
  ultimately show ?thesis by (rule prod_eqI [rotated])
qed

theorem named_map_merge_symmetric_witness:
  "merge_named_map (fmap_of_list [(''a'', 1)]) (fmap_of_list [(''a'', 1), (''b'', 3)]) (fmap_of_list [(''a'', 2 :: nat)])
     (\<lambda>_. database_metadata_conflict) [] =
   merge_named_map (fmap_of_list [(''a'', 1)]) (fmap_of_list [(''a'', 2)]) (fmap_of_list [(''a'', 1), (''b'', 3)])
     (\<lambda>_. database_metadata_conflict) []"
  by (rule named_map_merge_symmetric) code_simp

subsection \<open>Histories\<close>

text \<open>
  C20: the union of two histories loses no revision. When LOCAL and REMOTE both added revisions and
  none has attachments, the merged history contains every revision of LOCAL, and every revision of
  REMOTE is there or equals, in what KDBX represents, one of LOCAL or one of REMOTE that is there.
  The crate's \<open>add_entry\<close> is assumed to put the newest revision first.
\<close>

theorem history_union_complete:
  assumes "\<And>h hs. kp_history_add kp h hs = h # hs"
    and "merge_history kp base local remote i cs = (Some merged, cs)"
    and "\<not> histories_semantically_eq kp local remote i" and "\<not> histories_semantically_eq kp local base i"
    and "\<not> histories_semantically_eq kp remote base i"
    and "history_of kp remote i = Some hr"
  shows "(\<forall>hl. history_of kp local i = Some hl \<longrightarrow> set hl \<subseteq> set merged) \<and>
    (\<forall>index < length hr. represented kp local remote i merged index)"
proof -
  have merged: "merged = (case history_of kp local i of None \<Rightarrow> [] | Some h \<Rightarrow> h) @ new_remote_revisions kp local remote i"
    using assms(2-5) by (auto simp: merge_history_def Let_def rebuild_history_id [OF assms(1)] split: if_splits)
  then have "set (new_remote_revisions kp local remote i) \<subseteq> set merged" by simp
  from remote_revision_represented [OF assms(6) _ this] merged show ?thesis by auto
qed

definition ref_history_db :: "nat list \<Rightarrow> ref_db" where
  "ref_history_db names = ref_base_db\<lparr>rd_entries := [(10, (snd (ref_entry 10 2))\<lparr>es_entry := (ref_new_entry 10)\<lparr>e_history :=
     Some (map (\<lambda>n. HistoricalEntry.truncate ((ref_new_entry 10)\<lparr>e_tags := n\<rparr>)) names)\<rparr>\<rparr>)]\<rparr>"

theorem history_union_complete_witness:
  "represented ref_keepass (ref_history_db [2, 1]) (ref_history_db [3, 1]) 10
     (map (\<lambda>n. HistoricalEntry.truncate ((ref_new_entry 10)\<lparr>e_tags := n\<rparr>)) [2, 1, 3]) 0 \<and>
   represented ref_keepass (ref_history_db [2, 1]) (ref_history_db [3, 1]) 10
     (map (\<lambda>n. HistoricalEntry.truncate ((ref_new_entry 10)\<lparr>e_tags := n\<rparr>)) [2, 1, 3]) 1"
proof -
  let ?h = "\<lambda>names. map (\<lambda>n. HistoricalEntry.truncate ((ref_new_entry 10)\<lparr>e_tags := n\<rparr>)) names"
  have add: "kp_history_add ref_keepass h hs = h # hs" for h hs by (simp add: ref_keepass_def)
  have run: "merge_history ref_keepass (ref_history_db [1]) (ref_history_db [2, 1]) (ref_history_db [3, 1]) 10 [] =
      (Some (?h [2, 1, 3]), [])" by code_simp
  have diff: "\<not> histories_semantically_eq ref_keepass (ref_history_db [2, 1]) (ref_history_db [3, 1]) 10"
    "\<not> histories_semantically_eq ref_keepass (ref_history_db [2, 1]) (ref_history_db [1]) 10"
    "\<not> histories_semantically_eq ref_keepass (ref_history_db [3, 1]) (ref_history_db [1]) 10" by code_simp+
  have "history_of ref_keepass (ref_history_db [3, 1]) 10 = Some (?h [3, 1])" by code_simp
  from history_union_complete [OF add run diff this] show ?thesis by simp
qed

subsection \<open>Groups\<close>

text \<open>
  C21: the loop that adds groups of REMOTE ends, and it loses none: afterwards every group that was
  to be added is in the candidate or named by a conflict, in whatever order parents and children
  come. The database operations are assumed to add the group and to remove none.
\<close>

theorem remote_groups_settled:
  assumes "keepass_group_laws kp" and "\<And>i. i \<in> set pending \<Longrightarrow> kp_group kp (mb_remote b) i \<noteq> None" and "i \<in> set pending"
  shows "settled kp (add_remote_groups kp pending b) i"
  using add_remote_groups_settled [OF assms(1,2)] assms(3) by blast

theorem remote_groups_settled_witness:
  "settled ref_keepass (add_remote_groups ref_keepass [5, 4]
     (ref_builder\<lparr>mb_remote := ref_base_db\<lparr>rd_groups := rd_groups ref_base_db @
        [ref_group 4 (Some 1) [5] [], ref_group 5 (Some 4) [] []]\<rparr>\<rparr>)) 5"
  by (rule remote_groups_settled [OF ref_keepass_group_laws])
    (auto simp: ref_keepass_def ref_builder_def ref_base_db_def ref_group_def)

text \<open>
  C22: a database that passes the validation for sync is a tree. From every group the chain of
  parents leads to the root, and no group is its own ancestor.
\<close>

theorem valid_database_is_tree:
  assumes "database_valid_for_sync_db kp d" and "i \<in> set (kp_groups kp d)"
  shows "(i, kp_root kp d) \<in> (parent_rel kp d)\<^sup>* \<and> (i, i) \<notin> (parent_rel kp d)\<^sup>+"
proof -
  from assms have "group_valid kp d i" by (simp add: database_valid_for_sync_db_def list_all_iff)
  then obtain seen where "ancestors kp d [] (Some i) = Some seen" "kp_root kp d \<in> set seen"
    by (auto simp: group_valid_def simp del: ancestors.simps split: option.splits)
  with ancestors_reached [of kp d "[]" "Some i"] ancestors_acyclic show ?thesis by fastforce
qed

theorem valid_database_is_tree_witness:
  "(3, 1) \<in> (parent_rel ref_keepass ref_base_db)\<^sup>* \<and> (3, 3) \<notin> (parent_rel ref_keepass ref_base_db)\<^sup>+"
proof -
  have "database_valid_for_sync_db ref_keepass ref_base_db" by code_simp
  moreover have "3 \<in> set (kp_groups ref_keepass ref_base_db)" "kp_root ref_keepass ref_base_db = 1" by code_simp+
  ultimately show ?thesis using valid_database_is_tree [of ref_keepass ref_base_db 3] by simp
qed

subsection \<open>The outcome\<close>

text \<open>
  C23: a merged document is valid. Whenever the merge returns a document, that document, with its
  histories pruned, passes the full validation of synchronization and keeps its own history limit;
  and when it returns conflicts there is at least one. The database crate is assumed to
  change only the entry that is assigned, to keep the metadata it is given, to add a revision at the
  front of a history and to read revisions back.
\<close>

theorem merge_outcome_sound:
  assumes "keepass_entry_laws kp" and "keepass_update_laws kp" and "\<And>h hs. kp_history_add kp h hs = h # hs"
    and "keepass_frame_laws kp" and "merge_databases kp base local remote = Inr outcome"
  shows "case outcome of
      MergedDoc d \<Rightarrow> database_valid_for_sync_db kp d \<and>
        (\<forall>limit i. finite_history_limit kp d = Some limit \<longrightarrow> i \<in> set (kp_entries kp d) \<longrightarrow> history_len kp d i \<le> limit)
    | ConflictedDoc conflicts \<Rightarrow> conflicts \<noteq> []"
proof -
  obtain b where "into_outcome kp b = Inr outcome" using assms(5) by (auto simp: merge_databases_def bindR_Inr_iff split: if_splits)
  then have b: "outcome = (if mb_conflicts b \<noteq> [] then ConflictedDoc (mb_conflicts b)
      else MergedDoc (prune_all_entry_history kp (finite_history_limit kp (mb_candidate b)) (mb_candidate b)))"
    "mb_conflicts b = [] \<Longrightarrow> database_valid_for_sync_db kp (mb_candidate b)"
    by (auto simp: into_outcome_def split: if_splits)
  let ?d = "mb_candidate b" let ?p = "prune_all_entry_history kp (finite_history_limit kp ?d) ?d"
  have "history_len kp ?p i \<le> limit" if "finite_history_limit kp ?p = Some limit" "i \<in> set (kp_entries kp ?p)" for limit i
  proof -
    have limit: "finite_history_limit kp ?d = Some limit"
      using that(1) prune_all_frame(7) [OF assms(4), of "finite_history_limit kp ?d" ?d] by (simp add: finite_history_limit_def)
    then show ?thesis
      using that(2) prune_all_entry [OF assms(1-3), of limit ?d i] prune_all_entries [OF assms(2), of "Some limit" ?d]
      by (auto simp: history_len_def newest_def split: option.splits)
  qed
  with b prune_all_valid [OF assms(1-4), of ?d "finite_history_limit kp ?d"] show ?thesis by auto
qed

theorem merge_outcome_sound_witness:
  "\<exists>d. merge_databases ref_keepass ref_base_db ref_local_db ref_base_db = Inr (MergedDoc d) \<and> database_valid_for_sync_db ref_keepass d"
proof -
  have add: "kp_history_add ref_keepass h hs = h # hs" for h hs by (simp add: ref_keepass_def)
  have "case merge_databases ref_keepass ref_base_db ref_local_db ref_base_db of Inr (MergedDoc d) \<Rightarrow> True | _ \<Rightarrow> False" by code_simp
  then obtain d where d: "merge_databases ref_keepass ref_base_db ref_local_db ref_base_db = Inr (MergedDoc d)"
    by (auto split: sum.splits divergent_outcome.splits)
  from merge_outcome_sound [OF ref_keepass_entry_laws ref_keepass_update_laws add ref_keepass_frame_laws d] d show ?thesis by simp
qed

text \<open>
  C24: setting a history limit enforces it at once and loses nothing else. A limit above the maximum
  is refused. If the limit is already the current one, nothing happens, even to longer histories.
  Otherwise the limit is recorded, the document counts as modified, the entries are the same, and of
  each entry exactly the newest revisions up to the limit are kept. The database crate is assumed to
  change only what is assigned and to add a revision at the front of a history.
\<close>

theorem history_limit_enforced:
  assumes "keepass_entry_laws kp" and "keepass_update_laws kp" and "\<And>h hs. kp_history_add kp h hs = h # hs"
    and "keepass_frame_laws kp" and "i \<in> set (kp_entries kp (kd_database doc))" and "kp_entry kp (kd_database doc) i = Some e"
  shows "case set_history_max_items kp now (Some limit) doc of
      Inl err \<Rightarrow> err = InvalidHistoryPolicy \<and> MAX_HISTORY_ITEMS < limit \<and> finite_history_limit kp (kd_database doc) \<noteq> Some limit
    | Inr doc' \<Rightarrow>
        if finite_history_limit kp (kd_database doc) = Some limit then doc' = doc
        else limit \<le> MAX_HISTORY_ITEMS \<and> finite_history_limit kp (kd_database doc') = Some limit \<and>
          has_changes_since doc' (kd_revision doc) \<and> kp_entries kp (kd_database doc') = kp_entries kp (kd_database doc) \<and>
          kp_entry kp (kd_database doc') i =
            Some (e\<lparr>es_entry := (es_entry e)\<lparr>e_history := map_option (take limit) (e_history (es_entry e))\<rparr>\<rparr>)"
proof (cases "finite_history_limit kp (kd_database doc) = Some limit \<or> MAX_HISTORY_ITEMS < limit")
  case True
  then show ?thesis by (auto simp: set_history_max_items_def)
next
  case False
  let ?m = "(kp_meta kp (kd_database doc))\<lparr>m_history_max_items := kp_history_max_items_value kp (map_option int (Some limit)),
      m_settings_changed := now\<rparr>"
  let ?c = "kp_set_meta kp ?m (kd_database doc)" let ?p = "prune_all_entry_history kp (Some limit) ?c"
  have c: "kp_entries kp ?c = kp_entries kp (kd_database doc)" "kp_entry kp ?c = kp_entry kp (kd_database doc)" "kp_meta kp ?c = ?m"
    using assms(4) unfolding keepass_frame_laws_def by blast+
  have limit_back: "kp_history_max_items kp (kp_history_max_items_value kp (map_option int (Some limit))) = Some (int limit)"
    using assms(4) unfolding keepass_frame_laws_def by (metis option.map(2))
  have "finite_history_limit kp ?p = Some limit"
    using limit_back prune_all_frame(7) [OF assms(4), of "Some limit" ?c] c(3) by (simp add: finite_history_limit_def)
  moreover have "kp_entry kp ?p i = Some (es_entry_update (newest limit) e)"
    using prune_all_entry [OF assms(1-3), of limit ?c i] c assms(5,6) by simp
  moreover have "kp_entries kp ?p = kp_entries kp (kd_database doc)"
    using prune_all_entries [OF assms(2), of "Some limit" ?c] c(1) by simp
  moreover have "set_history_max_items kp now (Some limit) doc = Inr (mark_changed (doc\<lparr>kd_database := ?p\<rparr>))"
    using False by (simp add: set_history_max_items_def Let_def)
  ultimately show ?thesis
    using False by (simp add: mark_changed_def has_changes_since_def newest_def)
qed

theorem history_limit_enforced_witness:
  "\<exists>doc'. set_history_max_items ref_keepass 0 (Some 1) \<lparr>kd_version = Kdbx4 1, kd_database = ref_history_db [2, 1],
      kd_revision = 0, kd_revision_permanently_dirty = False\<rparr> = Inr doc' \<and> finite_history_limit ref_keepass (kd_database doc') = Some 1"
proof -
  let ?doc = "\<lparr>kd_version = Kdbx4 1, kd_database = ref_history_db [2, 1], kd_revision = 0, kd_revision_permanently_dirty = False\<rparr>"
  have add: "kp_history_add ref_keepass h hs = h # hs" for h hs by (simp add: ref_keepass_def)
  have none: "finite_history_limit ref_keepass (kd_database ?doc) \<noteq> Some 1" by code_simp
  have i: "10 \<in> set (kp_entries ref_keepass (kd_database ?doc))" by code_simp
  have "kp_entry ref_keepass (kd_database ?doc) 10 \<noteq> None" by code_simp
  then obtain e where "kp_entry ref_keepass (kd_database ?doc) 10 = Some e" by blast
  note h = history_limit_enforced [OF ref_keepass_entry_laws ref_keepass_update_laws add ref_keepass_frame_laws i this, where now = 0 and limit = 1]
  have "case set_history_max_items ref_keepass 0 (Some 1) ?doc of Inr doc' \<Rightarrow> True | Inl _ \<Rightarrow> False" by code_simp
  then obtain doc' where "set_history_max_items ref_keepass 0 (Some 1) ?doc = Inr doc'" by (auto split: sum.splits)
  with h none show ?thesis by simp
qed

text \<open>
  Moving an entry out of a group and deleting the group cannot always be merged. In this example REMOTE
  did it and LOCAL changed the name of the database; the merge fails with an internal error although
  all three generations are valid: deleting the group removes the entry from the candidate before
  the entry's move is applied. There is no conflict to resolve.
\<close>

theorem move_out_of_deleted_group_fails:
  "database_valid_for_sync_db ref_keepass ref_base_db \<and> database_valid_for_sync_db ref_keepass ref_local_db \<and>
   database_valid_for_sync_db ref_keepass ref_remote_db \<and>
   merge_databases ref_keepass ref_base_db ref_local_db ref_remote_db = Inl SyncInvariant"
  by code_simp

end
