(* ===== verification/Sync_Liveness.thy ===== *)
theory Sync_Liveness
  imports Sync_Properties Gateway_Properties
begin

section \<open>Synchronization completes\<close>

text \<open>
  The safety properties of the engine say what a run may change. This theory says that a run gets
  done: once requests arrive, I/O succeeds and nobody edits the vault, one call of \<open>sync\<close> ends with
  BASE, REMOTE and LOCAL equal and no journal, from the first synchronization and from every state
  that an interrupted first upload leaves behind.
\<close>

subsection \<open>A system at rest\<close>

text \<open>What does not change during the run: the configuration, and a saved vault \<open>s\<close> on a desktop
  \<open>d\<close> that nobody uses.\<close>

definition configured ::
    "codec_ext \<Rightarrow> GatewayProvider \<Rightarrow> 'db kdbx_api \<Rightarrow> ('db sync_world, 'db) SyncEngine \<Rightarrow> KdbxCredential \<Rightarrow>
     'db desktop \<Rightarrow> LocalSnapshot \<Rightarrow> bool" where
  "configured gx gp api en cred d s \<longleftrightarrow> deployed gx gp api en \<and> wf_store (se_store en) \<and> has_component cred \<and>
     desktop_capture_clean (vault_ext_of gx api) d = (Inr s, d) \<and> ls_source s = st_source (se_store en) \<and>
     length (ls_ciphertext s) \<le> MAX_REMOTE_CIPHERTEXT_BYTES \<and>
     (\<exists>doc. open_document en (ls_ciphertext s) cred = Inr doc \<and> validate_for_sync (se_kdbx en) doc = Inr () \<and>
        semantically_equals (se_kdbx en) doc doc)"

text \<open>What does: the store holds \<open>b\<close> and \<open>j\<close>, and the gateway the object \<open>obj\<close>.\<close>

definition resting ::
    "codec_ext \<Rightarrow> GatewayProvider \<Rightarrow> ('db sync_world, 'db) SyncEngine \<Rightarrow> 'db desktop \<Rightarrow> BaseState option \<Rightarrow>
     LoadedJournal option \<Rightarrow> nat \<Rightarrow> bytes option \<Rightarrow> 'db sync_world engine_world \<Rightarrow> bool" where
  "resting gx gp en d b j n obj w \<longleftrightarrow> faults w = [] \<and> uuids_fresh n (se_ext en) w \<and>
     disk_is (se_ext en) (se_store en) b j w \<and> quiet_env gx gp (fst (env w)) \<and>
     remote_object gx gp (fst (env w)) = obj \<and> snd (env w) = d"

lemma configuredD:
  assumes "configured gx gp api en cred d s"
  shows "store_ext_ok (se_ext en)" and "gateway_ext_ok gx" and "wf_store (se_store en)" and "has_component cred"
    and "ls_source s = st_source (se_store en)" and "length (ls_ciphertext s) \<le> MAX_REMOTE_CIPHERTEXT_BYTES"
    and "se_provider en = remote_provider gx gp" and "se_local en = desktop_vault (vault_ext_of gx api)"
    and "desktop_capture_clean (vault_ext_of gx api) d = (Inr s, d)"
    and "CiphertextDigest_of (se_ext en) = CiphertextDigest_of gx"
  using assms by (simp_all add: configured_def deployed_def CiphertextDigest_of_def fun_eq_iff)

lemma configured_digest:
  assumes "configured gx gp api en cred d s"
  shows "ls_digest s = CiphertextDigest_of (se_ext en) (ls_ciphertext s)"
  using wpE_resultD [OF desktop_capture_law configuredD(9) [OF assms]] configuredD(10) [OF assms] by simp

lemma configured_digest_length:
  assumes "configured gx gp api en cred d s"
  shows "length (digest_as_str (ls_digest s)) = 64"
  using sha256_length [OF configuredD(1) [OF assms]] configured_digest [OF assms] by simp

lemma tag_of_valid:
  assumes "gateway_ext_ok gx"
  shows "valid_revision (tag_of gx bs)"
proof -
  have sha: "sha256_ok gx" using assms by (simp add: gateway_ext_ok_def)
  show ?thesis
    using strong_etag_object [OF sha, of bs]
    by (auto simp: tag_of_def strong_etag_def bindR_Inr_iff Let_def RemoteRevision_new_Inr valid_revision_def
        split: list.splits if_splits)
qed

subsection \<open>The steps\<close>

lemma resting_store:
  assumes "resting gx gp en d b j k obj w" and "store_post (se_ext en) (se_store en) n w b' j' t" and "faults t = []"
  shows "resting gx gp en d b' j' n obj t"
proof -
  have "env t = env w" using assms(2) by (auto simp: store_post_def store_frame_def)
  with assms show ?thesis by (simp add: resting_def store_post_def)
qed

lemma resting_fewer: "resting gx gp en d b j n obj w \<Longrightarrow> k \<le> n \<Longrightarrow> resting gx gp en d b j k obj w"
  unfolding resting_def by (blast intro: uuids_fresh_mono [of n _ w k w])

lemma resting_prepare:
  assumes c: "configured gx gp api en cred d s" and w: "resting gx gp en d b None (Suc n) obj w"
    and er: "pred_option valid_revision er"
    and Q: "\<And>m t. jr_phase m = Prepared \<Longrightarrow> jr_expected_local_sha256 m = ls_digest s \<Longrightarrow>
      jr_expected_remote_revision m = er \<Longrightarrow>
      resting gx gp en d b (Some \<lparr>lj_record = m, lj_candidate = ct\<rparr>) n obj t \<Longrightarrow> Q m t"
  shows "wpE (store (prepare_journal (se_ext en) (se_store en) s er ct)) Q R w"
proof -
  note ok = configuredD(1) [OF c] configuredD(3) [OF c] and len = configured_digest_length [OF c]
  have w': "uuids_fresh (Suc n) (se_ext en) w" "disk_is (se_ext en) (se_store en) b None w" "faults w = []"
    using w by (simp_all add: resting_def)
  let ?m = "journal_record_for (se_ext en) (se_store en) (uuid_source w (uuid_index w)) s er ct"
  have "wpE (prepare_journal (se_ext en) (se_store en) s er ct)
      (\<lambda>m t. m = ?m \<and> store_post (se_ext en) (se_store en) n w b (Some \<lparr>lj_record = ?m, lj_candidate = ct\<rparr>) t)
      (\<lambda>_ _. True) w"
    by (rule wpE_prepare_journal [OF ok w'(1,2) len er refl]) simp_all
  from wpE_conj [OF this wpE_prepare_journal_ok [OF ok w' len er configuredD(5) [OF c]]]
  show ?thesis
    unfolding store_def wpE_map_errE
    by (rule wpE_mono) (auto intro!: Q resting_store [OF w] simp: journal_record_for_def)
qed

lemma resting_mark_remote:
  assumes c: "configured gx gp api en cred d s" and w: "resting gx gp en d b (Some lj) n obj w"
    and m: "lj_record lj = m" and r: "valid_revision r"
    and Q: "\<And>m' t. m' = m\<lparr>jr_phase := RemoteCommitted, jr_committed_remote_revision := Some r\<rparr> \<Longrightarrow>
      resting gx gp en d b (Some \<lparr>lj_record = m', lj_candidate = lj_candidate lj\<rparr>) n obj t \<Longrightarrow> Q m' t"
  shows "wpE (store (mark_remote_committed (se_ext en) m r)) Q R w"
proof -
  note ok = configuredD(1) [OF c]
  have w': "disk_is (se_ext en) (se_store en) b (Some lj) w" "uuids_fresh n (se_ext en) w" "faults w = []"
    using w by (simp_all add: resting_def)
  let ?m = "m\<lparr>jr_phase := RemoteCommitted, jr_committed_remote_revision := Some r\<rparr>"
  have "wpE (mark_remote_committed (se_ext en) (lj_record lj) r)
      (\<lambda>m' t. m' = ?m \<and> store_post (se_ext en) (se_store en) n w b
        (Some \<lparr>lj_record = ?m, lj_candidate = lj_candidate lj\<rparr>) t) (\<lambda>_ _. True) w"
    by (rule wpE_mark_remote_committed [OF ok w'(1,2) r refl]) (simp_all add: m)
  from wpE_conj [OF this wpE_mark_ok(1) [OF ok w'(1,3) r]]
  show ?thesis
    unfolding store_def wpE_map_errE m by (rule wpE_mono) (auto intro!: Q resting_store [OF w])
qed

lemma resting_mark_local:
  assumes c: "configured gx gp api en cred d s" and w: "resting gx gp en d b (Some lj) n obj w"
    and m: "lj_record lj = m"
    and Q: "\<And>m' t. m' = m\<lparr>jr_phase := LocalCommitted\<rparr> \<Longrightarrow>
      resting gx gp en d b (Some \<lparr>lj_record = m', lj_candidate = lj_candidate lj\<rparr>) n obj t \<Longrightarrow> Q m' t"
  shows "wpE (store (mark_local_committed (se_ext en) m)) Q R w"
proof -
  note ok = configuredD(1) [OF c]
  have w': "disk_is (se_ext en) (se_store en) b (Some lj) w" "uuids_fresh n (se_ext en) w" "faults w = []"
    using w by (simp_all add: resting_def)
  let ?m = "m\<lparr>jr_phase := LocalCommitted\<rparr>"
  have "wpE (mark_local_committed (se_ext en) (lj_record lj))
      (\<lambda>m' t. m' = ?m \<and> store_post (se_ext en) (se_store en) n w b
        (Some \<lparr>lj_record = ?m, lj_candidate = lj_candidate lj\<rparr>) t) (\<lambda>_ _. True) w"
    by (rule wpE_mark_local_committed [OF ok w'(1,2) refl]) (simp_all add: m)
  from wpE_conj [OF this wpE_mark_ok(2) [OF ok w'(1,3)]]
  show ?thesis
    unfolding store_def wpE_map_errE m by (rule wpE_mono) (auto intro!: Q resting_store [OF w])
qed

lemma resting_write_base:
  assumes c: "configured gx gp api en cred d s" and w: "resting gx gp en d b j (Suc n) obj w"
    and r: "valid_revision r"
    and Q: "\<And>t. resting gx gp en d (Some (base_state (se_ext en) ct r)) j n obj t \<Longrightarrow> Q () t"
  shows "wpE (store (write_base (se_ext en) (se_store en) ct r)) Q R w"
proof -
  note ok = configuredD(1) [OF c] configuredD(3) [OF c] r
  have w': "uuids_fresh (Suc n) (se_ext en) w" "disk_is (se_ext en) (se_store en) b j w" "faults w = []"
    using w by (simp_all add: resting_def)
  have "wpE (write_base (se_ext en) (se_store en) ct r)
      (\<lambda>_ t. store_post (se_ext en) (se_store en) n w (Some (base_state (se_ext en) ct r)) j t) (\<lambda>_ _. True) w"
    by (rule wpE_write_base [OF ok w'(1,2)]) simp_all
  from wpE_conj [OF this wpE_write_base_ok [OF ok w']]
  show ?thesis unfolding store_def wpE_map_errE by (rule wpE_mono) (auto intro!: Q resting_store [OF w])
qed

lemma resting_remove:
  assumes c: "configured gx gp api en cred d s" and w: "resting gx gp en d b (Some lj) n obj w"
    and m: "same_operation m (lj_record lj)"
    and Q: "\<And>t. resting gx gp en d b None n obj t \<Longrightarrow> Q () t"
  shows "wpE (store (remove_journal (se_ext en) (se_store en) m)) Q R w"
proof -
  note ok = configuredD(1) [OF c]
  have w': "uuids_fresh n (se_ext en) w" "disk_is (se_ext en) (se_store en) b (Some lj) w" "faults w = []"
    using w by (simp_all add: resting_def)
  have "wpE (remove_journal (se_ext en) (se_store en) m)
      (\<lambda>_ t. store_post (se_ext en) (se_store en) n w b None t) (\<lambda>_ _. True) w"
    by (rule wpE_remove_journal [OF ok w'(1,2) m]) simp_all
  from wpE_conj [OF this wpE_remove_journal_ok [OF ok w'(2,3) m]]
  show ?thesis unfolding store_def wpE_map_errE by (rule wpE_mono) (auto intro!: Q resting_store [OF w])
qed

lemma resting_load:
  assumes "resting gx gp en d b j n obj w"
  shows "Q b w \<Longrightarrow> wpE (store (load_base (se_ext en) (se_store en))) Q R w"
    and "Q' j w \<Longrightarrow> wpE (store (load_journal (se_ext en) (se_store en))) Q' R w"
  using assms by (simp_all add: store_def wp_simps wpE_reads_ok [OF reads_load_base]
      wpE_reads_ok [OF reads_load_journal] resting_def disk_is_def)

lemma resting_env:
  assumes "resting gx gp en d b j n obj w" and "quiet_env gx gp e" and "remote_object gx gp e = obj'"
  shows "resting gx gp en d b j n obj' (w\<lparr>env := (e, d)\<rparr>)"
  using assms by (simp add: resting_def disk_is_def uuids_fresh_def)

lemma resting_read:
  assumes c: "configured gx gp api en cred d s" and w: "resting gx gp en d b j n obj w"
    and Q: "\<And>t. resting gx gp en d b j n obj t \<Longrightarrow> Q (register_read gx obj) t"
  shows "wpE (map_errE g (provider_read en)) Q R w"
proof -
  have q: "quiet_env gx gp (fst (env w))" "remote_object gx gp (fst (env w)) = obj" "snd (env w) = d"
    using w by (simp_all add: resting_def)
  obtain h where "gateway_read gx gp (fst (env w)) = (Inr (register_read gx obj), (fst (env w))\<lparr>ge_history := h\<rparr>)"
    using quiet_read [OF configuredD(2) [OF c] q(1)] q(2) by auto
  then show ?thesis
    using q by (simp add: provider_read_def wp_simps wpE_on_env wpE_at_remote configuredD(7) [OF c]
        remote_provider_def wpE_def [of "gateway_read gx gp"]) (intro Q resting_env [OF w], simp_all)
qed

lemma resting_capture:
  assumes c: "configured gx gp api en cred d s" and w: "resting gx gp en d b j n obj w" and Q: "Q s w"
  shows "wpE (capture en) Q R w"
proof -
  have d: "snd (env w) = d" using w by (simp add: resting_def)
  have "w\<lparr>env := (fst (env w), d)\<rparr> = w" by (simp flip: d)
  then show ?thesis
    using Q by (simp add: capture_def wp_simps wpE_on_env wpE_at_local configuredD(8) [OF c] desktop_vault_def d
        wpE_def [of "desktop_capture_clean _"] configuredD(9) [OF c])
qed

lemma resting_unchanged:
  assumes "configured gx gp api en cred d s" and "resting gx gp en d b j n obj w" and "Q () w"
  shows "wpE (require_local_unchanged en s) Q R w"
  unfolding require_local_unchanged_def wpE_bindE
  by (rule resting_capture [OF assms(1,2)]) (simp add: wp_simps assms(3))

lemma resting_create:
  assumes c: "configured gx gp api en cred d s" and w: "resting gx gp en d b j n None w"
    and ct: "length ct \<le> MAX_REMOTE_CIPHERTEXT_BYTES"
    and Q: "\<And>t. resting gx gp en d b j n (Some ct) t \<Longrightarrow> Q (Inr (tag_of gx ct)) t"
  shows "wpE (commit_remote en CreateObject er ct) Q R w"
proof -
  have q: "quiet_env gx gp (fst (env w))" "remote_object gx gp (fst (env w)) = None" "snd (env w) = d"
    using w by (simp_all add: resting_def)
  obtain e where e: "gateway_create gx gp ct (fst (env w)) = (Inr (tag_of gx ct), e)"
    "remote_object gx gp e = Some ct" "quiet_env gx gp e"
    using refines_create [OF configuredD(2) [OF c] ct, of gp] q
    by (cases "gateway_create gx gp ct (fst (env w))") (auto simp: refines_def register_create_def)
  show ?thesis
    using e q by (simp add: commit_remote_def wp_simps wpE_on_env wpE_at_remote configuredD(7) [OF c]
        remote_provider_def wpE_def [of "gateway_create gx gp ct"]) (intro Q resting_env [OF w], simp_all)
qed

subsection \<open>Completing a commit and a recovery\<close>

text \<open>The BASE that records the uploaded generation.\<close>

definition uploaded_base :: "codec_ext \<Rightarrow> ('v, 'db) SyncEngine \<Rightarrow> LocalSnapshot \<Rightarrow> BaseState" where
  "uploaded_base gx en s = base_state (se_ext en) (ls_ciphertext s) (tag_of gx (ls_ciphertext s))"

text \<open>The states of store and gateway between the steps of a first upload of \<open>s\<close>.\<close>

definition upload_stage ::
    "codec_ext \<Rightarrow> ('v, 'db) SyncEngine \<Rightarrow> LocalSnapshot \<Rightarrow> BaseState option \<Rightarrow> LoadedJournal option \<Rightarrow>
     bytes option \<Rightarrow> bool" where
  "upload_stage gx en s b j obj \<longleftrightarrow> (case j of
     None \<Rightarrow> b = None \<and> obj = None \<or> b = Some (uploaded_base gx en s) \<and> obj = Some (ls_ciphertext s)
   | Some lj \<Rightarrow> lj_candidate lj = ls_ciphertext s \<and> jr_expected_local_sha256 (lj_record lj) = ls_digest s \<and>
       jr_expected_remote_revision (lj_record lj) = None \<and>
       (case jr_phase (lj_record lj) of
          Prepared \<Rightarrow> b = None \<and> (obj = None \<or> obj = Some (ls_ciphertext s))
        | RemoteCommitted \<Rightarrow> b = None \<and> obj = Some (ls_ciphertext s)
        | LocalCommitted \<Rightarrow> (b = None \<or> b = Some (uploaded_base gx en s)) \<and> obj = Some (ls_ciphertext s)))"

lemma same_operation_phases [simp]:
  "same_operation m m" "same_operation (m\<lparr>jr_phase := p\<rparr>) m" "same_operation m (m\<lparr>jr_phase := p\<rparr>)"
  by (simp_all add: same_operation_def)

lemma resting_candidate:
  assumes "configured gx gp api en cred d s" and "resting gx gp en d b (Some lj) n obj w"
  shows "jr_candidate_sha256 (lj_record lj) = CiphertextDigest_of (se_ext en) (lj_candidate lj)"
    and "jr_source (lj_record lj) = st_source (se_store en)"
  using journal_ready_loaded [OF configuredD(1) [OF assms(1)], of "se_store en" b lj w] assms(2)
  by (simp_all add: resting_def journal_ready_def)

lemma resting_finish:
  assumes c: "configured gx gp api en cred d s" and w: "resting gx gp en d b (Some lj) (Suc n) obj w"
    and m: "lj_record lj = m" "lj_candidate lj = ls_ciphertext s" "jr_phase m \<noteq> Prepared"
    and cmp: "cmp = (True, u, Some (tag_of gx (ls_ciphertext s)))"
    and Q: "\<And>t. resting gx gp en d (Some (uploaded_base gx en s)) None n obj t \<Longrightarrow> Q True t"
  shows "wpE (finish_recovery en cred s (ls_ciphertext s) cmp m) Q R w"
proof -
  have digest: "ls_digest s = jr_candidate_sha256 m"
    using resting_candidate [OF c w] m configured_digest [OF c] by simp
  note r = tag_of_valid [OF configuredD(2) [OF c], of "ls_ciphertext s"]
  define completion where "completion = (\<lambda>m'. bindE (capture en) (\<lambda>refreshed.
     if ls_digest refreshed \<noteq> jr_candidate_sha256 m' \<or> \<not> fst cmp then throwE UncertainState
     else
       bindE (liftE (ok_or UncertainState (case snd (snd cmp) of
           None \<Rightarrow> jr_committed_remote_revision m' | Some r \<Rightarrow> Some r))) (\<lambda>r.
       bindE (store (write_base (se_ext en) (se_store en) (ls_ciphertext s) r)) (\<lambda>_.
       bindE (store (remove_journal (se_ext en) (se_store en) m')) (\<lambda>_.
       returnE True)))))"
  have fin: "finish_recovery en cred s (ls_ciphertext s) cmp m =
      bindE (recover_local en cred s (ls_ciphertext s) m (fst cmp)) completion"
    by (simp only: finish_recovery_def completion_def)
  have rest: "wpE (completion m') Q R t"
    if m': "jr_candidate_sha256 m' = jr_candidate_sha256 m"
      "resting gx gp en d b (Some \<lparr>lj_record = m', lj_candidate = ls_ciphertext s\<rparr>) (Suc n) obj t" for m' t
    unfolding completion_def wpE_bindE
    by (rule resting_capture [OF c m'(2)])
      (auto simp: digest m'(1) cmp wp_simps
        intro!: resting_write_base [OF c m'(2) r] resting_remove [OF c] Q simp flip: uploaded_base_def)
  have lj: "lj = \<lparr>lj_record = m, lj_candidate = ls_ciphertext s\<rparr>" using m by simp
  show ?thesis
  proof (cases "jr_phase m")
    case RemoteCommitted
    then show ?thesis
      unfolding fin recover_local_def wpE_bindE
      by (simp add: digest cmp wp_simps) (rule resting_mark_local [OF c w m(1)], rule rest, simp_all add: m(2))
  next
    case LocalCommitted
    then show ?thesis
      unfolding fin recover_local_def using rest [of m w] w lj by (simp add: wpE_returnE wpE_bindE)
  qed (use m in simp)
qed

lemma configured_document:
  assumes "configured gx gp api en cred d s"
  obtains doc where "open_document en (ls_ciphertext s) cred = Inr doc"
    and "validate_for_sync (se_kdbx en) doc = Inr ()" and "semantically_equals (se_kdbx en) doc doc"
  using assms unfolding configured_def by blast

lemma resting_recover:
  assumes c: "configured gx gp api en cred d s" and w: "resting gx gp en d b j (Suc n) obj w"
    and stage: "upload_stage gx en s b j obj"
    and T: "\<And>t. resting gx gp en d (Some (uploaded_base gx en s)) None n (Some (ls_ciphertext s)) t \<Longrightarrow> Q True t"
    and F: "\<And>t. resting gx gp en d b None (Suc n) obj t \<Longrightarrow> upload_stage gx en s b None obj \<Longrightarrow> Q False t"
  shows "wpE (recover_loaded en cred s) Q R w"
proof (cases j)
  case None
  show ?thesis
    unfolding recover_loaded_def wpE_bindE
    by (rule resting_load(2) [OF w]) (use F w stage None in \<open>simp add: wp_simps\<close>)
next
  case (Some lj)
  obtain doc where doc: "open_document en (ls_ciphertext s) cred = Inr doc" by (rule configured_document [OF c])
  have ct: "lj_candidate lj = ls_ciphertext s" using stage Some by (simp add: upload_stage_def)
  have sha: "jr_candidate_sha256 (lj_record lj) = CiphertextDigest_of (se_ext en) (ls_ciphertext s)"
    using resting_candidate [OF c w [unfolded Some]] ct by simp
  let ?cmp = "compare_remote en (lj_record lj) (register_read gx obj)"
  define conclude where "conclude = (\<lambda>next. case next of None \<Rightarrow> returnE False
    | Some record \<Rightarrow> finish_recovery en cred s (ls_ciphertext s) ?cmp record)"
  have step: "wpE (recover_prepared en s (lj_record lj) ?cmp) (\<lambda>next. wpE (conclude next) Q R) R t"
    if t: "resting gx gp en d b (Some lj) (Suc n) obj t" for t
  proof (cases obj)
    case None
    then have phase: "jr_phase (lj_record lj) = Prepared" and b: "b = None"
      using stage Some by (auto simp: upload_stage_def split: JournalPhase.splits)
    have cmp: "?cmp = (False, True, None)"
      using stage Some None by (simp add: compare_remote_def register_read_def upload_stage_def)
    have "local_matches_persisted s (lj_record lj)"
      using stage Some configuredD(5) [OF c] resting_candidate(2) [OF c t]
      by (simp add: local_matches_persisted_def upload_stage_def)
    then show ?thesis
      unfolding recover_prepared_def cmp using phase
      by (simp add: wp_simps) (rule resting_remove [OF c t],
        use F None b in \<open>simp_all add: conclude_def wp_simps upload_stage_def\<close>)
  next
    case (Some bs)
    then have bs: "obj = Some (ls_ciphertext s)"
      using stage \<open>j = Some lj\<close> by (auto simp: upload_stage_def split: JournalPhase.splits)
    then obtain u where cmp: "?cmp = (True, u, Some (tag_of gx (ls_ciphertext s)))"
      using sha by (simp add: compare_remote_def register_read_def)
    have fin: "wpE (conclude (Some m)) Q R t'"
      if "lj_record lj' = m" "lj_candidate lj' = ls_ciphertext s" "jr_phase m \<noteq> Prepared"
        "resting gx gp en d b (Some lj') (Suc n) obj t'" for m lj' t'
      unfolding conclude_def option.case
      by (rule resting_finish [OF c that(4,1-3) cmp]) (simp add: T bs)
    show ?thesis
      unfolding recover_prepared_def cmp
      by (auto simp: wp_simps bs ct intro!: fin [OF refl ct _ t] fin
          resting_mark_remote [OF c t refl tag_of_valid [OF configuredD(2) [OF c]]])
  qed
  show ?thesis
    unfolding recover_loaded_def wpE_bindE
    by (rule resting_load(2) [OF w])
      (simp only: Some option.case ct doc wpE_bindE wpE_liftE sum.case,
       rule resting_read [OF c w [unfolded Some]], simp only: Let_def wpE_bindE step [unfolded conclude_def])
qed

lemma resting_commit:
  assumes c: "configured gx gp api en cred d s" and w: "resting gx gp en d None None (Suc (Suc n)) None w"
    and plan: "plan_local_snapshot plan = s" "plan_expected_remote plan = None" "plan_remote_action plan = CreateObject"
    and Q: "\<And>t. resting gx gp en d (Some (uploaded_base gx en s)) None n (Some (ls_ciphertext s)) t \<Longrightarrow>
      Q (Done (plan_completion plan)) t"
  shows "wpE (commit_candidate en cred plan) Q R w"
proof -
  obtain doc where doc: "open_document en (ls_ciphertext s) cred = Inr doc" by (rule configured_document [OF c])
  note r = tag_of_valid [OF configuredD(2) [OF c], of "ls_ciphertext s"]
  show ?thesis
    unfolding commit_candidate_def commit_candidate_bytes_def commit_local_def
    by (simp add: plan doc wp_simps Let_def)
      (rule resting_prepare [OF c w], simp,
       rule resting_create [OF c _ configuredD(6) [OF c]], assumption,
       simp add: wp_simps, rule resting_mark_remote [OF c _ _ r], assumption, simp, simp,
       rule resting_unchanged [OF c], assumption, rule resting_mark_local [OF c], assumption, simp, simp,
       rule resting_write_base [OF c _ r], assumption, rule resting_remove [OF c], assumption,
       simp_all add: Q uploaded_base_def same_operation_def)
qed

text \<open>A synchronization that finds the three generations equal confirms the BASE.\<close>

lemma resting_equivalent:
  assumes c: "configured gx gp api en cred d s"
    and w: "resting gx gp en d (Some (uploaded_base gx en s)) None (Suc n) (Some (ls_ciphertext s)) w"
    and Q: "\<And>t. resting gx gp en d (Some (uploaded_base gx en s)) None n (Some (ls_ciphertext s)) t \<Longrightarrow>
      Q (Done EquivalentGenerations) t"
  shows "wpE (merge_existing en cred s (uploaded_base gx en s)
    \<lparr>ciphertext = ls_ciphertext s, revision = tag_of gx (ls_ciphertext s)\<rparr>) Q R w"
proof -
  obtain doc where doc: "open_document en (ls_ciphertext s) cred = Inr doc"
    "validate_for_sync (se_kdbx en) doc = Inr ()" "semantically_equals (se_kdbx en) doc doc"
    by (rule configured_document [OF c])
  then have "merge (se_kdbx en) doc doc doc = Inr Equivalent" by (simp add: merge_def)
  then show ?thesis
    unfolding merge_existing_def apply_outcome_def
    by (simp add: into_parts_def uploaded_base_def base_state_def doc wp_simps)
      (rule resting_unchanged [OF c w], rule resting_write_base [OF c w tag_of_valid [OF configuredD(2) [OF c]]],
       simp add: Q uploaded_base_def)
qed

lemma resting_decide:
  assumes c: "configured gx gp api en cred d s" and w: "resting gx gp en d b None (Suc (Suc n)) obj w"
    and stage: "upload_stage gx en s b None obj"
    and Q: "\<And>completion k t. completion \<in> {CreatedRemote, EquivalentGenerations} \<Longrightarrow> n \<le> k \<Longrightarrow>
      resting gx gp en d (Some (uploaded_base gx en s)) None k (Some (ls_ciphertext s)) t \<Longrightarrow>
      Q (Done completion) t"
  shows "wpE (sync_decide en cred s b (register_read gx obj)) Q R w"
proof (cases b)
  case None
  then have obj: "obj = None" using stage by (simp add: upload_stage_def)
  then show ?thesis
    using w by (simp add: None sync_decide_def register_read_def)
      (rule resting_commit [OF c w [unfolded None obj]], auto intro: Q)
next
  case (Some base)
  then have obj: "obj = Some (ls_ciphertext s)" and base: "base = uploaded_base gx en s"
    using stage by (simp_all add: upload_stage_def)
  show ?thesis
    unfolding Some obj base sync_decide_def register_read_def
    by (simp, rule resting_equivalent [OF c w [unfolded Some obj base]]) (auto intro: Q [where k = "Suc n"])
qed

lemma live_lock_pending: "\<not> poisoned w \<Longrightarrow> wpE lock_pending Q R w = Q () w"
  by (simp add: lock_pending_def wpE_def)

lemma sync_resting:
  assumes c: "configured gx gp api en cred d s" and w: "resting gx gp en d b j (Suc (Suc n)) obj w"
    and stage: "upload_stage gx en s b j obj" and lock: "\<not> poisoned w"
    and Q: "\<And>completion k t. n \<le> k \<Longrightarrow>
      resting gx gp en d (Some (uploaded_base gx en s)) None k (Some (ls_ciphertext s)) t \<Longrightarrow> Q (Done completion) t"
  shows "wpE (sync en cred) Q R w"
proof -
  have w0: "resting gx gp en d b j (Suc (Suc n)) obj (w\<lparr>pending := None\<rparr>)"
    using w by (simp add: resting_def disk_is_def uuids_fresh_def)
  have rest: "wpE (bindE (store (load_base (se_ext en) (se_store en))) (\<lambda>base.
       bindE (map_errE from_provider_error (provider_read en)) (\<lambda>remote. sync_decide en cred s base remote))) Q R t"
    if t: "resting gx gp en d b None (Suc (Suc n)) obj t" "upload_stage gx en s b None obj" for t
    unfolding wpE_bindE
    by (rule resting_load(1) [OF t(1)], rule resting_read [OF c t(1)], rule resting_decide [OF c _ t(2)])
      (use Q in auto)
  have "wpE (recover_loaded en cred s) (\<lambda>recovered. wpE (if recovered then returnE (Done Recovered)
      else bindE (store (load_base (se_ext en) (se_store en))) (\<lambda>base.
       bindE (map_errE from_provider_error (provider_read en)) (\<lambda>remote. sync_decide en cred s base remote))) Q R) R
      (w\<lparr>pending := None\<rparr>)"
    by (rule resting_recover [OF c w0 stage]) (auto simp: wpE_returnE intro: rest Q [where k = "Suc n"])
  then show ?thesis
    unfolding sync_def invalidate_pending_conflict_def wpE_bindE live_lock_pending [OF lock] wpE_modifyE
    by (simp only: configuredD(4) [OF c] not_True_eq_False if_False wpE_bindE) (rule resting_capture [OF c w0])
qed

subsection \<open>Completion\<close>

text \<open>
  C3: synchronization completes. From a store with neither BASE nor journal and an empty gateway, and
  from every state that a first upload leaves when it is interrupted between two of its steps (the
  journal prepared with or without the object uploaded, the upload or the local commit recorded, the
  BASE written), one call of \<open>sync\<close> in which requests arrive, I/O succeeds and nobody edits the
  vault returns a completed synchronization. Afterwards the gateway holds the local vault, BASE
  records it under the gateway's revision, there is no journal, and the vault is as it was.
\<close>

theorem sync_completes:
  assumes "configured gx gp api en cred d s" and "resting gx gp en d b j (Suc (Suc n)) obj w"
    and "upload_stage gx en s b j obj" and "\<not> poisoned w"
  shows "\<exists>completion t. sync en cred w = (Inr (Done completion), t) \<and>
    resting gx gp en d (Some (uploaded_base gx en s)) None n (Some (ls_ciphertext s)) t"
proof -
  have "wpE (sync en cred) (\<lambda>outcome t. (\<exists>completion. outcome = Done completion) \<and>
      resting gx gp en d (Some (uploaded_base gx en s)) None n (Some (ls_ciphertext s)) t) (\<lambda>_ _. False) w"
    by (rule sync_resting [OF assms]) (auto intro: resting_fewer)
  then show ?thesis by (auto simp: wpE_def split: prod.splits sum.splits)
qed

text \<open>The reference deployment, with a store bound to the vault that is open on the desktop.\<close>

definition ref_snapshot :: LocalSnapshot where
  "ref_snapshot = LocalSnapshot_new ref_gateway_ext (SourceBinding (source_binding ref_gateway_ext ''/v/a.kdbx'')) ''s'' [7]"

definition ref_bound_engine :: "(bytes sync_world, bytes) SyncEngine" where
  "ref_bound_engine = ref_engine\<lparr>se_store := ref_store\<lparr>st_source := ls_source ref_snapshot\<rparr>\<rparr>"

lemma ref_configured:
  "configured ref_gateway_ext ref_provider ref_api ref_bound_engine ref_cred ref_desktop ref_snapshot"
proof -
  have sha: "sha256_ok ref_gateway_ext" using ref_gateway_ext_ok by (simp add: gateway_ext_ok_def)
  have "length (source_binding ref_gateway_ext ''/v/a.kdbx'') = 64"
    using CiphertextDigest_of_valid [OF sha, of "as_bytes ''/v/a.kdbx''"]
    by (simp add: source_binding_def valid_digest_def CiphertextDigest_parse_Inr)
  then have wf: "wf_store (se_store ref_bound_engine)"
    using ref_store_wf by (simp add: ref_bound_engine_def wf_store_def ref_snapshot_def LocalSnapshot_new_def)
  have snapshot: "LocalSnapshot_new (vault_ext_of ref_gateway_ext ref_api)
      (SourceBinding (source_binding (vault_ext_of ref_gateway_ext ref_api) ''/v/a.kdbx'')) ''s'' [7] = ref_snapshot"
    by (simp add: ref_snapshot_def LocalSnapshot_new_def source_binding_def)
  have dep: "deployed ref_gateway_ext ref_provider ref_api ref_bound_engine"
    using ref_engine_deployed by (simp add: deployed_def ref_bound_engine_def)
  have "has_component ref_cred" by (simp add: has_component_def ref_cred_def)
  moreover have "length (ls_ciphertext ref_snapshot) \<le> MAX_REMOTE_CIPHERTEXT_BYTES"
    by (simp add: ref_snapshot_def LocalSnapshot_new_def MAX_REMOTE_CIPHERTEXT_BYTES_def)
  moreover have "\<exists>doc. open_document ref_bound_engine (ls_ciphertext ref_snapshot) ref_cred = Inr doc \<and>
      validate_for_sync (se_kdbx ref_bound_engine) doc = Inr () \<and> semantically_equals (se_kdbx ref_bound_engine) doc doc"
    by (simp add: open_document_def open_reader_with_credential_def ref_api_def ref_cred_def ref_bound_engine_def
        validate_for_sync_def semantically_equals_def)
  ultimately show ?thesis
    using dep wf ref_desktop_capture snapshot by (simp add: configured_def) (simp add: ref_bound_engine_def)
qed

lemma ref_resting:
  "resting ref_gateway_ext ref_provider ref_bound_engine ref_desktop None None 4 None ref_engine_world"
proof -
  have "disk_is ref_ext st None None ref_engine_world" for st
    by (simp add: disk_is_def disk_base_None disk_journal_None ref_engine_world_def)
  moreover have "uuids_fresh 4 ref_ext ref_engine_world"
    by (simp add: uuids_fresh_def ref_engine_world_def upt_rec)
  ultimately show ?thesis
    using ref_gateway_env_quiet ref_gateway_env_empty
    by (simp add: resting_def ref_bound_engine_def ref_engine_world_def ref_gateway_env_def)
qed

theorem sync_completes_witness:
  "\<exists>completion t. sync ref_bound_engine ref_cred ref_engine_world = (Inr (Done completion), t) \<and>
     resting ref_gateway_ext ref_provider ref_bound_engine ref_desktop
       (Some (uploaded_base ref_gateway_ext ref_bound_engine ref_snapshot)) None 2 (Some [7]) t"
proof -
  have "ls_ciphertext ref_snapshot = [7]" by (simp add: ref_snapshot_def LocalSnapshot_new_def)
  moreover have "resting ref_gateway_ext ref_provider ref_bound_engine ref_desktop None None (Suc (Suc 2)) None ref_engine_world"
    using ref_resting by (simp add: numeral_eq_Suc)
  moreover have "upload_stage ref_gateway_ext ref_bound_engine ref_snapshot None None None"
    and "\<not> poisoned ref_engine_world"
    by (simp_all add: upload_stage_def ref_engine_world_def)
  ultimately show ?thesis using sync_completes [OF ref_configured] by fastforce
qed

end
