(* ===== verification/Kdbx_Library.thy ===== *)
theory Kdbx_Library
  imports Kdbx_Merge_Builder
begin

section \<open>Reading documents\<close>

text \<open>
  Models the part of \<open>src/crates/kdbx\<close> that reads a document: the lookups and the projection of
  \<open>lib.rs\<close>, \<open>entry_reads.rs\<close> and \<open>attachments.rs\<close>, with the domain types of \<open>src/crates/vault-core\<close>.

  The database is the one of \<open>Kdbx_Three_Way\<close>. What the merge only compares and copies is an opaque
  \<open>'v\<close> there; the record \<open>kdbx_lib\<close> adds how the \<open>keepass\<close> crate reads and builds those values, the
  tree of groups that its iterators walk, and its change tracking: \<open>kl_tracked i edits d\<close> is the
  database after the calls \<open>edits\<close> on one tracker of the entry \<open>i\<close>, which records the previous state
  in the history. The clock of the crate is an argument of the operations that read it. Strings are
  their UTF-8 bytes, so \<open>length\<close> is the length that the code compares.
\<close>

subsection \<open>The database crate\<close>

datatype group_tree = GroupNode (gt_id: "128 word") (gt_groups: "group_tree list") (gt_entries: "128 word list")

datatype 'v entry_edit = SetProtected string string | SetUnprotected string string | RemoveField string
  | EditEntry "'v Entry \<Rightarrow> 'v Entry" | SetEntryIcon "Icon option" | NewCustomIcon bytes | AddAttachment string Value

datatype move_group_error = MoveNotFound | CannotMoveRoot | WouldCreateCycle | MoveOther

record memory_protection =
  protect_title :: bool
  protect_username :: bool
  protect_url :: bool
  protect_notes :: bool

record ('d, 'v) kdbx_lib =
  kl_kp :: "('d, 'v) keepass"
  kl_field :: "'v \<Rightarrow> bool \<times> string"
  kl_field_value :: "bool \<times> string \<Rightarrow> 'v"
  kl_strings :: "'v \<Rightarrow> string list"
  kl_strings_value :: "string list \<Rightarrow> 'v"
  kl_name :: "'v \<Rightarrow> string"
  kl_name_value :: "string \<Rightarrow> 'v"
  kl_text :: "'v \<Rightarrow> string option"
  kl_text_value :: "string option \<Rightarrow> 'v"
  kl_flag :: "'v \<Rightarrow> bool option"
  kl_flag_value :: "bool option \<Rightarrow> 'v"
  kl_uuid :: "'v \<Rightarrow> 128 word option"
  kl_uuid_value :: "128 word option \<Rightarrow> 'v"
  kl_time_value :: "instant \<Rightarrow> 'v"
  kl_datetime :: "'v \<Rightarrow> int"
  kl_datetime_value :: "int \<Rightarrow> 'v option"
  kl_epoch :: 'v
  kl_memory_protection :: "'v \<Rightarrow> memory_protection option"
  kl_tree :: "'d \<Rightarrow> group_tree"
  kl_tracked :: "128 word \<Rightarrow> 'v entry_edit list \<Rightarrow> 'd \<Rightarrow> 'd"
  kl_tracked_remove_entry :: "128 word \<Rightarrow> 'd \<Rightarrow> 'd"
  kl_tracked_edit_group :: "128 word \<Rightarrow> ('v Group \<Rightarrow> 'v Group) \<Rightarrow> 'd \<Rightarrow> 'd"
  kl_tracked_move_group :: "128 word \<Rightarrow> 128 word \<Rightarrow> 'd \<Rightarrow> move_group_error + 'd"
  kl_tracked_remove_group :: "128 word \<Rightarrow> 'd \<Rightarrow> 'd option"
  kl_new_entry :: "128 word \<Rightarrow> 128 word \<Rightarrow> 'd \<Rightarrow> 'd"
  kl_new_group :: "128 word \<Rightarrow> 128 word \<Rightarrow> 'd \<Rightarrow> 'd"
  kl_known_fields :: "string list"
  kl_title :: string
  kl_username :: string
  kl_password :: string
  kl_url :: string
  kl_notes :: string
  kl_new_database :: 'd
  kl_new_version :: "KdbxVersion option"

abbreviation kl_id_string :: "('d, 'v) kdbx_lib \<Rightarrow> 128 word \<Rightarrow> string" where
  "kl_id_string kl \<equiv> kp_id_string (kl_kp kl)"

abbreviation kl_entry :: "('d, 'v) kdbx_lib \<Rightarrow> 'd \<Rightarrow> 128 word \<Rightarrow> 'v EntryState option" where
  "kl_entry kl \<equiv> kp_entry (kl_kp kl)"

abbreviation kl_group :: "('d, 'v) kdbx_lib \<Rightarrow> 'd \<Rightarrow> 128 word \<Rightarrow> 'v GroupState option" where
  "kl_group kl \<equiv> kp_group (kl_kp kl)"

definition field_of :: "('d, 'v) kdbx_lib \<Rightarrow> 'v HistoricalEntry \<Rightarrow> string \<Rightarrow> (bool \<times> string) option" where
  "field_of kl e name = map_option (kl_field kl) (fmlookup (e_fields e) name)"

abbreviation state_field :: "('d, 'v) kdbx_lib \<Rightarrow> 'v EntryState \<Rightarrow> string \<Rightarrow> (bool \<times> string) option" where
  "state_field kl e \<equiv> field_of kl (HistoricalEntry.truncate (es_entry e))"

subsection \<open>Domain types\<close>

datatype FieldProtection = Protected | Unprotected

record CustomFieldSummary =
  cfs_name :: string
  cfs_protection :: FieldProtection

datatype SummaryText = MissingText | Visible string | ProtectedText

definition visible :: "SummaryText \<Rightarrow> string option" where
  "visible t = (case t of Visible value \<Rightarrow> Some value | _ \<Rightarrow> None)"

definition MAX_STANDARD_ICON_ID :: nat where "MAX_STANDARD_ICON_ID = 68"

datatype EntryIconSummary = NoIcon | BuiltInIcon nat | CustomIconSummary | NonStandard

record EntrySummary =
  sum_id :: string
  sum_title :: SummaryText
  sum_username :: SummaryText
  sum_url :: SummaryText
  sum_tags :: "string list"
  sum_has_password :: bool
  sum_has_notes :: bool
  sum_has_totp :: bool
  sum_expires_at_unix_seconds :: "int option"
  sum_icon :: EntryIconSummary

datatype VaultGroup = VaultGroup (vg_id: string) (vg_name: string) (vg_groups: "VaultGroup list")
  (vg_entries: "EntrySummary list")

primrec group_count :: "VaultGroup \<Rightarrow> nat" where
  "group_count (VaultGroup i name groups es) = 1 + sum_list (map group_count groups)"

primrec entry_count :: "VaultGroup \<Rightarrow> nat" where
  "entry_count (VaultGroup i name groups es) = length es + sum_list (map entry_count groups)"

text \<open>\<open>find_map\<close>: the first result that is present.\<close>

fun find_map :: "('a \<Rightarrow> 'b option) \<Rightarrow> 'a list \<Rightarrow> 'b option" where
  "find_map f [] = None"
| "find_map f (x # xs) = (case f x of Some y \<Rightarrow> Some y | None \<Rightarrow> find_map f xs)"

lemma find_map_cong [fundef_cong]: "xs = ys \<Longrightarrow> (\<And>x. x \<in> set ys \<Longrightarrow> f x = g x) \<Longrightarrow> find_map f xs = find_map g ys"
  by (induction ys arbitrary: xs) (auto split: option.splits)

fun find_group :: "string \<Rightarrow> VaultGroup \<Rightarrow> VaultGroup option" where
  "find_group i (VaultGroup j name groups es) =
     (if j = i then Some (VaultGroup j name groups es) else find_map (find_group i) groups)"

fun find_entry :: "string \<Rightarrow> VaultGroup \<Rightarrow> EntrySummary option" where
  "find_entry i (VaultGroup j name groups es) =
     (case find (\<lambda>e. sum_id e = i) es of Some e \<Rightarrow> Some e | None \<Rightarrow> find_map (find_entry i) groups)"

subsection \<open>Projection\<close>

definition project_summary_text :: "(bool \<times> string) option \<Rightarrow> SummaryText" where
  "project_summary_text value = (case value of
     None \<Rightarrow> MissingText
   | Some (protected, text) \<Rightarrow> if protected then ProtectedText else Visible text)"

definition project_icon :: "Icon option \<Rightarrow> EntryIconSummary" where
  "project_icon icon = (case icon of
     None \<Rightarrow> NoIcon
   | Some (BuiltIn i) \<Rightarrow> if i \<le> MAX_STANDARD_ICON_ID then BuiltInIcon i else NonStandard
   | Some (CustomIconRef _) \<Rightarrow> CustomIconSummary)"

definition has_totp_field :: "('d, 'v) kdbx_lib \<Rightarrow> 'v HistoricalEntry \<Rightarrow> bool" where
  "has_totp_field kl e = list_ex (\<lambda>name. fmlookup (e_fields e) name \<noteq> None) (TOTP_FIELD_NAMES (kl_kp kl))"

definition project_entry_summary :: "('d, 'v) kdbx_lib \<Rightarrow> 'v HistoricalEntry \<Rightarrow> EntrySummary" where
  "project_entry_summary kl e =
     \<lparr>sum_id = kl_id_string kl (e_id e), sum_title = project_summary_text (field_of kl e (kl_title kl)),
      sum_username = project_summary_text (field_of kl e (kl_username kl)),
      sum_url = project_summary_text (field_of kl e (kl_url kl)), sum_tags = kl_strings kl (e_tags e),
      sum_has_password = (fmlookup (e_fields e) (kl_password kl) \<noteq> None), sum_has_notes = (fmlookup (e_fields e) (kl_notes kl) \<noteq> None),
      sum_has_totp = has_totp_field kl e,
      sum_expires_at_unix_seconds = (if kl_flag kl (t_expires (e_times e)) = Some True
        then Some (kl_datetime kl (t_expiry (e_times e))) else None),
      sum_icon = project_icon (e_icon e)\<rparr>"

definition summaries_of :: "('d, 'v) kdbx_lib \<Rightarrow> 'd \<Rightarrow> 128 word list \<Rightarrow> EntrySummary list" where
  "summaries_of kl d is = List.map_filter (\<lambda>i. map_option (project_entry_summary kl \<circ> HistoricalEntry.truncate \<circ> es_entry)
     (kl_entry kl d i)) is"

primrec convert_group :: "('d, 'v) kdbx_lib \<Rightarrow> 'd \<Rightarrow> group_tree \<Rightarrow> VaultGroup" where
  "convert_group kl d (GroupNode i groups es) =
     VaultGroup (kl_id_string kl i)
       (case kl_group kl d i of None \<Rightarrow> [] | Some g \<Rightarrow> kl_name kl (g_name (gs_group g)))
       (map (convert_group kl d) groups) (summaries_of kl d es)"

definition projection :: "('d, 'v) kdbx_lib \<Rightarrow> 'd KdbxDocument \<Rightarrow> KdbxError + VaultGroup" where
  "projection kl doc = Inr (convert_group kl (kd_database doc) (kl_tree kl (kd_database doc)))"

subsection \<open>Lookups\<close>

definition find_entry_id :: "('d, 'v) kdbx_lib \<Rightarrow> 'd \<Rightarrow> string \<Rightarrow> KdbxError + 128 word" where
  "find_entry_id kl d i = ok_or EntryNotFound (find (\<lambda>j. kl_id_string kl j = i) (kp_entries (kl_kp kl) d))"

definition find_group_id :: "('d, 'v) kdbx_lib \<Rightarrow> 'd \<Rightarrow> string \<Rightarrow> KdbxError + 128 word" where
  "find_group_id kl d i = ok_or GroupNotFound (find (\<lambda>j. kl_id_string kl j = i) (kp_groups (kl_kp kl) d))"

text \<open>A lookup followed by the access to the entry, as almost every operation starts.\<close>

definition located_entry :: "('d, 'v) kdbx_lib \<Rightarrow> 'd \<Rightarrow> string \<Rightarrow> KdbxError + (128 word \<times> 'v EntryState)" where
  "located_entry kl d i =
     bindR (find_entry_id kl d i) (\<lambda>j.
     bindR (ok_or EntryNotFound (kl_entry kl d j)) (\<lambda>e. Inr (j, e)))"

definition entry_secret :: "('d, 'v) kdbx_lib \<Rightarrow> 'd KdbxDocument \<Rightarrow> string \<Rightarrow> string \<Rightarrow> KdbxError + string option" where
  "entry_secret kl doc i field =
     bindR (located_entry kl (kd_database doc) i) (\<lambda>(_, e).
     Inr (map_option snd (state_field kl e field)))"

definition entry_title :: "('d, 'v) kdbx_lib \<Rightarrow> 'd KdbxDocument \<Rightarrow> string \<Rightarrow> KdbxError + string option" where
  "entry_title kl doc i = entry_secret kl doc i (kl_title kl)"

definition entry_username :: "('d, 'v) kdbx_lib \<Rightarrow> 'd KdbxDocument \<Rightarrow> string \<Rightarrow> KdbxError + string option" where
  "entry_username kl doc i = entry_secret kl doc i (kl_username kl)"

definition entry_url :: "('d, 'v) kdbx_lib \<Rightarrow> 'd KdbxDocument \<Rightarrow> string \<Rightarrow> KdbxError + string option" where
  "entry_url kl doc i = entry_secret kl doc i (kl_url kl)"

definition entry_password :: "('d, 'v) kdbx_lib \<Rightarrow> 'd KdbxDocument \<Rightarrow> string \<Rightarrow> KdbxError + string option" where
  "entry_password kl doc i = entry_secret kl doc i (kl_password kl)"

definition entry_notes :: "('d, 'v) kdbx_lib \<Rightarrow> 'd KdbxDocument \<Rightarrow> string \<Rightarrow> KdbxError + string option" where
  "entry_notes kl doc i = entry_secret kl doc i (kl_notes kl)"

subsection \<open>Custom fields\<close>

definition is_reserved_field :: "('d, 'v) kdbx_lib \<Rightarrow> string \<Rightarrow> bool" where
  "is_reserved_field kl name =
     (name \<in> set (kl_known_fields kl) \<or> name \<in> set (TOTP_FIELD_NAMES (kl_kp kl)) \<or> starts_with name PASSKEY_FIELD_PREFIX)"

definition reject_reserved_field :: "('d, 'v) kdbx_lib \<Rightarrow> string \<Rightarrow> KdbxError + unit" where
  "reject_reserved_field kl name = (if is_reserved_field kl name then Inl ReservedField else Inr ())"

definition custom_fields ::
    "('d, 'v) kdbx_lib \<Rightarrow> 'd KdbxDocument \<Rightarrow> string \<Rightarrow> KdbxError + CustomFieldSummary list" where
  "custom_fields kl doc i =
     bindR (located_entry kl (kd_database doc) i) (\<lambda>(_, e).
     Inr (map (\<lambda>name. \<lparr>cfs_name = name, cfs_protection = (case state_field kl e name of
              Some (True, _) \<Rightarrow> Protected | _ \<Rightarrow> Unprotected)\<rparr>)
       (filter (\<lambda>name. \<not> is_reserved_field kl name) (sorted_list_of_set (fset (fmdom (e_fields (es_entry e))))))))"

definition entry_custom_field ::
    "('d, 'v) kdbx_lib \<Rightarrow> 'd KdbxDocument \<Rightarrow> string \<Rightarrow> string \<Rightarrow> KdbxError + string option" where
  "entry_custom_field kl doc i name = bindR (reject_reserved_field kl name) (\<lambda>_. entry_secret kl doc i name)"

subsection \<open>Attachments\<close>

record EntryAttachmentSummary =
  eas_name :: string
  eas_size_bytes :: nat
  eas_protected :: bool

definition entry_attachments ::
    "('d, 'v) kdbx_lib \<Rightarrow> 'd KdbxDocument \<Rightarrow> string \<Rightarrow> KdbxError + EntryAttachmentSummary list" where
  "entry_attachments kl doc i =
     bindR (located_entry kl (kd_database doc) i) (\<lambda>(_, e).
     Inr (List.map_filter (\<lambda>name. map_option (\<lambda>(protected, data). \<lparr>eas_name = name,
            eas_size_bytes = min (length data) (2 ^ 64 - 1), eas_protected = protected\<rparr>)
          (fmlookup (es_attachments e) name))
       (sorted_list_of_set (fset (fmdom (es_attachments e))))))"

definition entry_attachment_bytes ::
    "('d, 'v) kdbx_lib \<Rightarrow> 'd KdbxDocument \<Rightarrow> string \<Rightarrow> string \<Rightarrow> KdbxError + bytes" where
  "entry_attachment_bytes kl doc i name =
     bindR (located_entry kl (kd_database doc) i) (\<lambda>(_, e).
     bindR (ok_or AttachmentNotFound (fmlookup (es_attachments e) name)) (\<lambda>value. Inr (snd value)))"

subsection \<open>The recycle bin\<close>

definition recycle_bin_enabled :: "('d, 'v) kdbx_lib \<Rightarrow> 'd \<Rightarrow> bool" where
  "recycle_bin_enabled kl d =
     (case kl_flag kl (m_recyclebin_enabled (kp_meta (kl_kp kl) d)) of None \<Rightarrow> True | Some b \<Rightarrow> b)"

definition recycle_bin_id :: "('d, 'v) kdbx_lib \<Rightarrow> 'd \<Rightarrow> 128 word option" where
  "recycle_bin_id kl d =
     Option.bind (kl_uuid kl (m_recyclebin_uuid (kp_meta (kl_kp kl) d))) (\<lambda>i.
     map_option (\<lambda>_. i) (kl_group kl d i))"

text \<open>
  The walk from a group to the root. It ends because no group is its own ancestor; on a cycle the
  loop of the code would not return, and the model answers \<open>None\<close>.
\<close>

function in_recycle_bin_from :: "('d, 'v) kdbx_lib \<Rightarrow> 'd \<Rightarrow> 128 word list \<Rightarrow> 128 word \<Rightarrow> 128 word option \<Rightarrow> bool option" where
  "in_recycle_bin_from kl d seen recycle None = Some False"
| "in_recycle_bin_from kl d seen recycle (Some i) =
     (if i = recycle then Some True
      else if i \<in> set seen then None
      else in_recycle_bin_from kl d (i # seen) recycle (Option.bind (kl_group kl d i) gs_parent))"
  by pat_completeness auto

termination in_recycle_bin_from
  by (relation "measure (\<lambda>(kl, d, seen, recycle, cur). card (- set seen))") (use unseen_decreases in auto)

definition group_is_in_recycle_bin :: "('d, 'v) kdbx_lib \<Rightarrow> 'd \<Rightarrow> 128 word \<Rightarrow> 128 word \<Rightarrow> bool" where
  "group_is_in_recycle_bin kl d i recycle = (in_recycle_bin_from kl d [] recycle (Some i) = Some True)"

definition recycle_bin_group_id :: "('d, 'v) kdbx_lib \<Rightarrow> 'd KdbxDocument \<Rightarrow> string option" where
  "recycle_bin_group_id kl doc = map_option (kl_id_string kl) (recycle_bin_id kl (kd_database doc))"

definition entry_is_recycled :: "('d, 'v) kdbx_lib \<Rightarrow> 'd KdbxDocument \<Rightarrow> string \<Rightarrow> KdbxError + bool" where
  "entry_is_recycled kl doc i =
     bindR (find_entry_id kl (kd_database doc) i) (\<lambda>j.
     case recycle_bin_id kl (kd_database doc) of
       None \<Rightarrow> Inr False
     | Some recycle \<Rightarrow>
         bindR (ok_or EntryNotFound (kl_entry kl (kd_database doc) j)) (\<lambda>e.
         Inr (group_is_in_recycle_bin kl (kd_database doc) (es_parent e) recycle)))"

definition group_is_recycled :: "('d, 'v) kdbx_lib \<Rightarrow> 'd KdbxDocument \<Rightarrow> string \<Rightarrow> KdbxError + bool" where
  "group_is_recycled kl doc i =
     bindR (find_group_id kl (kd_database doc) i) (\<lambda>j.
     case recycle_bin_id kl (kd_database doc) of
       None \<Rightarrow> Inr False
     | Some recycle \<Rightarrow> Inr (j = recycle \<or> group_is_in_recycle_bin kl (kd_database doc) j recycle))"

end
