(* ===== verification/Kdbx_Editing.thy ===== *)
theory Kdbx_Editing
  imports Kdbx_Library
begin

section \<open>Editing documents\<close>

text \<open>
  Models the operations of \<open>src/crates/kdbx/src\<close> that change a document: fields, entries and groups of
  \<open>lib.rs\<close>, and \<open>entry_mutations.rs\<close>, \<open>attachments.rs\<close>, \<open>custom_icons.rs\<close>, \<open>history.rs\<close>,
  \<open>database_settings.rs\<close> and \<open>create.rs\<close>. An operation is a computation on the document, so that what
  an early return leaves behind is part of the model. Where the code clones the database and assigns
  the clone at the end, so does the model.
\<close>

type_synonym ('d, 'a) edit = "('d KdbxDocument, KdbxError, 'a) op"

definition database :: "('d, 'd) edit" where
  "database = getsE kd_database"

definition set_database :: "'d \<Rightarrow> ('d, unit) edit" where
  "set_database d = modifyE (\<lambda>doc. doc\<lparr>kd_database := d\<rparr>)"

definition mark_changed_op :: "('d, unit) edit" where
  "mark_changed_op = modifyE mark_changed"

text \<open>A step on the document that may fail and then leaves it alone.\<close>

definition on_document :: "('d KdbxDocument \<Rightarrow> KdbxError + 'd KdbxDocument) \<Rightarrow> ('d, unit) edit" where
  "on_document f = (\<lambda>doc. case f doc of Inl e \<Rightarrow> (Inl e, doc) | Inr doc' \<Rightarrow> (Inr (), doc'))"

text \<open>The end of every tracked mutation of an entry.\<close>

definition finish_tracked :: "('d, 'v) kdbx_lib \<Rightarrow> 128 word \<Rightarrow> 'v entry_edit list \<Rightarrow> ('d, unit) edit" where
  "finish_tracked kl i edits =
     bindE database (\<lambda>d.
     bindE (liftE (ok_or EntryNotFound (kl_entry kl d i))) (\<lambda>_.
     bindE (set_database (kl_tracked kl i edits d)) (\<lambda>_.
     bindE (on_document (enforce_history_policy_for_entry (kl_kp kl) i)) (\<lambda>_. mark_changed_op))))"

definition find_located :: "('d, 'v) kdbx_lib \<Rightarrow> string \<Rightarrow> ('d, 128 word \<times> 'v EntryState) edit" where
  "find_located kl i = bindE database (\<lambda>d. liftE (located_entry kl d i))"

subsection \<open>Fields\<close>

datatype MissingFieldProtection = DatabaseTitlePolicy | DatabaseUsernamePolicy | DatabaseUrlPolicy
  | DatabaseNotesPolicy | AlwaysProtected

definition missing_field_is_protected :: "('d, 'v) kdbx_lib \<Rightarrow> 'd \<Rightarrow> MissingFieldProtection \<Rightarrow> bool" where
  "missing_field_is_protected kl d policy =
     (let protection = kl_memory_protection kl (m_memory_protection (kp_meta (kl_kp kl) d));
          holds = (\<lambda>p. case protection of None \<Rightarrow> False | Some mp \<Rightarrow> p mp)
      in case policy of
           DatabaseTitlePolicy \<Rightarrow> holds protect_title
         | DatabaseUsernamePolicy \<Rightarrow> holds protect_username
         | DatabaseUrlPolicy \<Rightarrow> holds protect_url
         | DatabaseNotesPolicy \<Rightarrow> holds protect_notes
         | AlwaysProtected \<Rightarrow> True)"

definition set_field :: "bool \<Rightarrow> string \<Rightarrow> string \<Rightarrow> 'v entry_edit" where
  "set_field protect name value = (if protect then SetProtected name value else SetUnprotected name value)"

text \<open>The edit that a requested value asks for, if it is one.\<close>

definition field_change ::
    "('d, 'v) kdbx_lib \<Rightarrow> 'd \<Rightarrow> 'v EntryState \<Rightarrow> string \<Rightarrow> string \<Rightarrow> MissingFieldProtection \<Rightarrow> 'v entry_edit option" where
  "field_change kl d e field new_value policy =
     (let existing = state_field kl e field in
      if (case existing of Some (_, value) \<Rightarrow> value = new_value | None \<Rightarrow> new_value = []) then None
      else Some (set_field (case existing of Some (protected, _) \<Rightarrow> protected
          | None \<Rightarrow> missing_field_is_protected kl d policy) field new_value))"

definition set_standard_field ::
    "('d, 'v) kdbx_lib \<Rightarrow> string \<Rightarrow> string \<Rightarrow> string \<Rightarrow> MissingFieldProtection \<Rightarrow> ('d, unit) edit" where
  "set_standard_field kl i field new_value policy =
     bindE (find_located kl i) (\<lambda>(j, e).
     bindE database (\<lambda>d.
     case field_change kl d e field new_value policy of
       None \<Rightarrow> returnE ()
     | Some edit \<Rightarrow> finish_tracked kl j [edit]))"

definition set_entry_title :: "('d, 'v) kdbx_lib \<Rightarrow> string \<Rightarrow> string \<Rightarrow> ('d, unit) edit" where
  "set_entry_title kl i title = set_standard_field kl i (kl_title kl) title DatabaseTitlePolicy"

definition set_entry_username :: "('d, 'v) kdbx_lib \<Rightarrow> string \<Rightarrow> string \<Rightarrow> ('d, unit) edit" where
  "set_entry_username kl i username = set_standard_field kl i (kl_username kl) username DatabaseUsernamePolicy"

definition set_entry_url :: "('d, 'v) kdbx_lib \<Rightarrow> string \<Rightarrow> string \<Rightarrow> ('d, unit) edit" where
  "set_entry_url kl i url = set_standard_field kl i (kl_url kl) url DatabaseUrlPolicy"

definition set_entry_password :: "('d, 'v) kdbx_lib \<Rightarrow> string \<Rightarrow> string \<Rightarrow> ('d, unit) edit" where
  "set_entry_password kl i password = set_standard_field kl i (kl_password kl) password AlwaysProtected"

definition set_entry_notes :: "('d, 'v) kdbx_lib \<Rightarrow> string \<Rightarrow> string \<Rightarrow> ('d, unit) edit" where
  "set_entry_notes kl i notes = set_standard_field kl i (kl_notes kl) notes DatabaseNotesPolicy"

definition set_entry_custom_field ::
    "('d, 'v) kdbx_lib \<Rightarrow> string \<Rightarrow> string \<Rightarrow> string \<Rightarrow> FieldProtection \<Rightarrow> ('d, unit) edit" where
  "set_entry_custom_field kl i name value new_field_protection =
     bindE (liftE (reject_reserved_field kl name)) (\<lambda>_.
     bindE (find_located kl i) (\<lambda>(j, e).
     case state_field kl e name of
       Some (protected, current) \<Rightarrow>
         if current = value then returnE () else finish_tracked kl j [set_field protected name value]
     | None \<Rightarrow> finish_tracked kl j [set_field (new_field_protection = Protected) name value]))"

definition delete_entry_custom_field :: "('d, 'v) kdbx_lib \<Rightarrow> string \<Rightarrow> string \<Rightarrow> ('d, unit) edit" where
  "delete_entry_custom_field kl i name =
     bindE (liftE (reject_reserved_field kl name)) (\<lambda>_.
     bindE (find_located kl i) (\<lambda>(j, e).
     if fmlookup (e_fields (es_entry e)) name = None then returnE ()
     else finish_tracked kl j [RemoveField name]))"

subsection \<open>Entries\<close>

record NewEntry =
  ne_title :: string
  ne_username :: string
  ne_url :: string
  ne_password :: "string option"

definition set_new_field :: "('d, 'v) kdbx_lib \<Rightarrow> string \<Rightarrow> string \<Rightarrow> bool \<Rightarrow> 'v Entry \<Rightarrow> 'v Entry" where
  "set_new_field kl name value protected_by_policy e =
     (if value = [] then e
      else e\<lparr>e_fields := fmupd name (kl_field_value kl (protected_by_policy, value)) (e_fields e)\<rparr>)"

text \<open>\<open>fresh\<close> is the identifier that the crate draws for the new object.\<close>

definition create_entry_with_notes ::
    "('d, 'v) kdbx_lib \<Rightarrow> 128 word \<Rightarrow> string \<Rightarrow> NewEntry \<Rightarrow> string option \<Rightarrow> ('d, string) edit" where
  "create_entry_with_notes kl fresh parent input notes =
     bindE database (\<lambda>d.
     bindE (liftE (find_group_id kl d parent)) (\<lambda>g.
     bindE (liftE (ok_or GroupNotFound (kl_group kl d g))) (\<lambda>_.
     let fill = (\<lambda>e.
       let e = set_new_field kl (kl_title kl) (ne_title input) (missing_field_is_protected kl d DatabaseTitlePolicy) e;
           e = set_new_field kl (kl_username kl) (ne_username input) (missing_field_is_protected kl d DatabaseUsernamePolicy) e;
           e = set_new_field kl (kl_url kl) (ne_url input) (missing_field_is_protected kl d DatabaseUrlPolicy) e;
           e = (case ne_password input of None \<Rightarrow> e | Some password \<Rightarrow>
             e\<lparr>e_fields := fmupd (kl_password kl) (kl_field_value kl (True, password)) (e_fields e)\<rparr>)
       in case notes of None \<Rightarrow> e | Some notes \<Rightarrow> e\<lparr>e_fields := fmupd (kl_notes kl)
            (kl_field_value kl (missing_field_is_protected kl d DatabaseNotesPolicy, notes)) (e_fields e)\<rparr>)
     in bindE (set_database (kp_update_entry (kl_kp kl) fresh fill (kl_new_entry kl fresh g d))) (\<lambda>_.
        bindE mark_changed_op (\<lambda>_. returnE (kl_id_string kl fresh))))))"

definition create_entry :: "('d, 'v) kdbx_lib \<Rightarrow> 128 word \<Rightarrow> string \<Rightarrow> NewEntry \<Rightarrow> ('d, string) edit" where
  "create_entry kl fresh parent input = create_entry_with_notes kl fresh parent input None"

definition permanently_delete_entry :: "('d, 'v) kdbx_lib \<Rightarrow> string \<Rightarrow> ('d, unit) edit" where
  "permanently_delete_entry kl i =
     bindE (find_located kl i) (\<lambda>(j, _).
     bindE database (\<lambda>d.
     bindE (set_database (kl_tracked_remove_entry kl j d)) (\<lambda>_. mark_changed_op)))"

definition set_location_changed :: "instant \<Rightarrow> 'v Entry \<Rightarrow> 'v Entry" where
  "set_location_changed now e = e\<lparr>e_times := (e_times e)\<lparr>t_location_changed := now\<rparr>\<rparr>"

definition move_entry_to :: "('d, 'v) kdbx_lib \<Rightarrow> instant \<Rightarrow> 128 word \<Rightarrow> 128 word \<Rightarrow> 'd \<Rightarrow> KdbxError + 'd" where
  "move_entry_to kl now j destination candidate =
     bindR (ok_or EntryNotFound (kl_entry kl candidate j)) (\<lambda>_.
     bindR (ok_or GroupNotFound (kp_move_entry (kl_kp kl) j destination candidate)) (\<lambda>candidate.
     Inr (kp_update_entry (kl_kp kl) j (set_location_changed now) candidate)))"

definition move_entry :: "('d, 'v) kdbx_lib \<Rightarrow> instant \<Rightarrow> string \<Rightarrow> string \<Rightarrow> ('d, unit) edit" where
  "move_entry kl now entry destination =
     bindE database (\<lambda>d.
     bindE (liftE (find_entry_id kl d entry)) (\<lambda>j.
     bindE (liftE (find_group_id kl d destination)) (\<lambda>g.
     bindE (liftE (ok_or EntryNotFound (kl_entry kl d j))) (\<lambda>e.
     if es_parent e = g then returnE ()
     else
       bindE (liftE (move_entry_to kl now j g d)) (\<lambda>candidate.
       bindE (set_database candidate) (\<lambda>_. mark_changed_op))))))"

subsection \<open>Groups\<close>

definition create_group :: "('d, 'v) kdbx_lib \<Rightarrow> 128 word \<Rightarrow> string \<Rightarrow> string \<Rightarrow> ('d, string) edit" where
  "create_group kl fresh parent name =
     bindE database (\<lambda>d.
     bindE (liftE (find_group_id kl d parent)) (\<lambda>p.
     bindE (liftE (ok_or GroupNotFound (kl_group kl d p))) (\<lambda>_.
     bindE (set_database (kp_update_group (kl_kp kl) fresh (\<lambda>g. g\<lparr>g_name := kl_name_value kl name\<rparr>)
        (kl_new_group kl fresh p d))) (\<lambda>_.
     bindE mark_changed_op (\<lambda>_. returnE (kl_id_string kl fresh))))))"

definition rename_group :: "('d, 'v) kdbx_lib \<Rightarrow> string \<Rightarrow> string \<Rightarrow> ('d, unit) edit" where
  "rename_group kl i name =
     bindE database (\<lambda>d.
     bindE (liftE (find_group_id kl d i)) (\<lambda>g.
     bindE (liftE (ok_or GroupNotFound (kl_group kl d g))) (\<lambda>gs.
     if kl_name kl (g_name (gs_group gs)) = name then returnE ()
     else
       bindE (set_database (kl_tracked_edit_group kl g (\<lambda>g. g\<lparr>g_name := kl_name_value kl name\<rparr>) d)) (\<lambda>_.
       mark_changed_op))))"

definition map_group_move_error :: "move_group_error \<Rightarrow> KdbxError" where
  "map_group_move_error e = (case e of MoveNotFound \<Rightarrow> GroupNotFound | _ \<Rightarrow> InvalidGroupMove)"

definition move_group :: "('d, 'v) kdbx_lib \<Rightarrow> string \<Rightarrow> string \<Rightarrow> ('d, unit) edit" where
  "move_group kl moved destination_parent =
     bindE database (\<lambda>d.
     bindE (liftE (find_group_id kl d moved)) (\<lambda>g.
     bindE (liftE (find_group_id kl d destination_parent)) (\<lambda>p.
     bindE (liftE (ok_or GroupNotFound (kl_group kl d g))) (\<lambda>gs.
     case gs_parent gs of
       None \<Rightarrow> throwE InvalidGroupMove
     | Some current_parent \<Rightarrow>
         if current_parent = p then returnE ()
         else
           bindE (liftE (map_err map_group_move_error (kl_tracked_move_group kl g p d))) (\<lambda>candidate.
           bindE (set_database candidate) (\<lambda>_. mark_changed_op))))))"

text \<open>The groups below a group, in the order in which the work list of \<open>group_subtree_ids\<close> visits
  them: the list is a stack whose top is its last element.\<close>

lemma size_list_rev [simp]: "size_list f (rev xs) = size_list f xs"
  by (simp add: size_list_conv_sum_list flip: rev_map)

fun subtree_nodes :: "group_tree list \<Rightarrow> 128 word list" where
  "subtree_nodes [] = []"
| "subtree_nodes (GroupNode i groups es # rest) = i # subtree_nodes (rev groups @ rest)"

fun find_node :: "128 word \<Rightarrow> group_tree \<Rightarrow> group_tree option" where
  "find_node i (GroupNode j groups es) =
     (if j = i then Some (GroupNode j groups es) else find_map (find_node i) groups)"

definition group_subtree_ids :: "('d, 'v) kdbx_lib \<Rightarrow> 'd \<Rightarrow> 128 word \<Rightarrow> KdbxError + 128 word list" where
  "group_subtree_ids kl d root =
     bindR (ok_or GroupNotFound (find_node root (kl_tree kl d))) (\<lambda>node.
     Inr (subtree_nodes [node]))"

definition clear_reference :: "('d, 'v) kdbx_lib \<Rightarrow> 128 word list \<Rightarrow> 'v \<Rightarrow> 'v" where
  "clear_reference kl deleted v = (case kl_uuid kl v of
     None \<Rightarrow> v | Some i \<Rightarrow> if i \<in> set deleted then kl_uuid_value kl None else v)"

definition clear_deleted_group_metadata_references ::
    "('d, 'v) kdbx_lib \<Rightarrow> 128 word list \<Rightarrow> 'd \<Rightarrow> 'd" where
  "clear_deleted_group_metadata_references kl deleted d =
     (let m = kp_meta (kl_kp kl) d in
      kp_set_meta (kl_kp kl) (m\<lparr>
        m_recyclebin_uuid := clear_reference kl deleted (m_recyclebin_uuid m),
        m_entry_templates_group := clear_reference kl deleted (m_entry_templates_group m),
        m_last_selected_group := clear_reference kl deleted (m_last_selected_group m),
        m_last_top_visible_group := clear_reference kl deleted (m_last_top_visible_group m)\<rparr>) d)"

definition clear_group_icon :: "('d, 'v) kdbx_lib \<Rightarrow> 128 word \<Rightarrow> 'd \<Rightarrow> KdbxError + 'd" where
  "clear_group_icon kl g d =
     bindR (ok_or GroupNotFound (kl_group kl d g)) (\<lambda>_.
     Inr (case kp_set_group_icon (kl_kp kl) g None d of None \<Rightarrow> d | Some d' \<Rightarrow> d'))"

definition permanently_delete_group :: "('d, 'v) kdbx_lib \<Rightarrow> string \<Rightarrow> ('d, unit) edit" where
  "permanently_delete_group kl i =
     bindE database (\<lambda>d.
     bindE (liftE (find_group_id kl d i)) (\<lambda>g.
     if g = kp_root (kl_kp kl) d then throwE CannotDeleteRootGroup
     else
       bindE (liftE (group_subtree_ids kl d g)) (\<lambda>subtree.
       bindE (liftE (foldR (clear_group_icon kl) subtree d)) (\<lambda>candidate.
       let candidate = clear_deleted_group_metadata_references kl subtree candidate in
       bindE (liftE (ok_or GroupNotFound (kl_group kl candidate g))) (\<lambda>_.
       bindE (liftE (ok_or CannotDeleteRootGroup (kl_tracked_remove_group kl g candidate))) (\<lambda>candidate.
       bindE (set_database candidate) (\<lambda>_. mark_changed_op)))))))"

end
