(* ===== verification/Kdbx_Entry_Updates.thy ===== *)
theory Kdbx_Entry_Updates
  imports Kdbx_Editing
begin

section \<open>Compound edits of entries and settings\<close>

text \<open>
  Models \<open>entry_mutations.rs\<close>, \<open>totp.rs\<close>, \<open>history.rs\<close>, \<open>attachments.rs\<close>, \<open>custom_icons.rs\<close>,
  \<open>database_settings.rs\<close> and \<open>create.rs\<close> of \<open>src/crates/kdbx/src\<close>. Parsing a provisioning URI and
  computing a code are the crates \<open>url\<close> and \<open>keepass\<close>: the record \<open>totp_api\<close>.
\<close>

subsection \<open>One-time passwords\<close>

record totp =
  totp_period :: nat
  totp_digits :: nat
  totp_code :: "nat \<Rightarrow> string"
  totp_valid_for :: "nat \<Rightarrow> nat"

record totp_api =
  ta_scheme_host :: "string \<Rightarrow> (string \<times> string option) option"
  ta_parse :: "string \<Rightarrow> totp option"
  ta_query_url :: "string \<Rightarrow> (string \<times> string) list \<Rightarrow> string option"
  ta_form_pairs :: "string \<Rightarrow> (string \<times> string) list"

record EntryTotpCode =
  tc_code :: string
  tc_valid_for_seconds :: nat
  tc_period_seconds :: nat

definition validate_totp_uri :: "totp_api \<Rightarrow> string \<Rightarrow> KdbxError + totp" where
  "validate_totp_uri ta raw =
     bindR (ok_or InvalidTotp (ta_scheme_host ta raw)) (\<lambda>(scheme, host).
     if scheme \<noteq> ''otpauth'' \<or> host \<noteq> Some ''totp'' then Inl InvalidTotp
     else
       bindR (ok_or InvalidTotp (ta_parse ta raw)) (\<lambda>totp.
       if totp_period totp = 0 \<or> \<not> (6 \<le> totp_digits totp \<and> totp_digits totp \<le> 10) then Inl InvalidTotp
       else Inr totp))"

definition build_totp_uri ::
    "totp_api \<Rightarrow> string \<Rightarrow> string \<Rightarrow> string \<Rightarrow> string option \<Rightarrow> KdbxError + string" where
  "build_totp_uri ta secret period digits algorithm =
     (if secret = [] then Inl InvalidTotp
      else
        bindR (ok_or InvalidTotp (ta_query_url ta ''otpauth://totp/NianPass''
          ([(''secret'', secret), (''period'', period), (''digits'', digits)] @
           (case algorithm of None \<Rightarrow> [] | Some a \<Rightarrow> [(''algorithm'', a)])))) (\<lambda>raw.
        bindR (validate_totp_uri ta raw) (\<lambda>_. Inr raw)))"

definition pair_value :: "string \<Rightarrow> (string \<times> string) list \<Rightarrow> string option" where
  "pair_value key pairs = map_option snd (find (\<lambda>(k, _). k = key) pairs)"

definition normalize_otp_field :: "totp_api \<Rightarrow> string \<Rightarrow> KdbxError + string" where
  "normalize_otp_field ta raw =
     (if starts_with raw ''otpauth://'' then Inr raw
      else
        let pairs = ta_form_pairs ta raw in
        bindR (ok_or UnsupportedTotpFormat (pair_value ''key'' pairs)) (\<lambda>secret.
        build_totp_uri ta secret (case pair_value ''step'' pairs of None \<Rightarrow> ''30'' | Some p \<Rightarrow> p)
          (case pair_value ''size'' pairs of None \<Rightarrow> ''6'' | Some n \<Rightarrow> n) None))"

definition normalize_keepass2_algorithm :: "string \<Rightarrow> KdbxError + string" where
  "normalize_keepass2_algorithm raw =
     (if raw \<in> {''HMAC-SHA1'', ''SHA1''} then Inr ''SHA1''
      else if raw \<in> {''HMAC-SHA256'', ''SHA256''} then Inr ''SHA256''
      else if raw \<in> {''HMAC-SHA512'', ''SHA512''} then Inr ''SHA512''
      else Inl UnsupportedTotpFormat)"

fun split_on :: "char \<Rightarrow> string \<Rightarrow> string list" where
  "split_on c [] = [[]]"
| "split_on c (x # xs) = (if x = c then [] # split_on c xs
     else case split_on c xs of [] \<Rightarrow> [[x]] | s # ss \<Rightarrow> (x # s) # ss)"

definition nonempty_or :: "string \<Rightarrow> string list \<Rightarrow> nat \<Rightarrow> string" where
  "nonempty_or other parts n = (if n < length parts \<and> parts ! n \<noteq> [] then parts ! n else other)"

definition totp_uri_for_entry :: "('d, 'v) kdbx_lib \<Rightarrow> totp_api \<Rightarrow> 'v EntryState \<Rightarrow> KdbxError + string" where
  "totp_uri_for_entry kl ta e =
     (let text = (\<lambda>name. map_option snd (state_field kl e name)) in
      case text (kp_otp_field (kl_kp kl)) of Some raw \<Rightarrow> normalize_otp_field ta raw
      | None \<Rightarrow> (case text ''TimeOtp-Secret-Base32'' of
          Some seed \<Rightarrow>
            bindR (case text ''TimeOtp-Algorithm'' of None \<Rightarrow> Inr ''SHA1'' | Some a \<Rightarrow> normalize_keepass2_algorithm a) (\<lambda>algorithm.
            build_totp_uri ta seed (case text ''TimeOtp-Period'' of None \<Rightarrow> ''30'' | Some p \<Rightarrow> p)
              (case text ''TimeOtp-Length'' of None \<Rightarrow> ''6'' | Some n \<Rightarrow> n) (Some algorithm))
        | None \<Rightarrow> (case text ''TOTP Seed'' of
            Some seed \<Rightarrow>
              let parts = split_on (CHR '';'') (case text ''TOTP Settings'' of None \<Rightarrow> ''30;6'' | Some s \<Rightarrow> s);
                  digits = nonempty_or ''6'' parts 1
              in if digits = ''S'' then Inl UnsupportedTotpFormat
                 else build_totp_uri ta seed (nonempty_or ''30'' parts 0) digits None
          | None \<Rightarrow> Inl (if has_totp_field kl (HistoricalEntry.truncate (es_entry e)) then UnsupportedTotpFormat
              else TotpNotConfigured))))"

definition entry_totp_code_at ::
    "('d, 'v) kdbx_lib \<Rightarrow> totp_api \<Rightarrow> 'd KdbxDocument \<Rightarrow> string \<Rightarrow> nat \<Rightarrow> KdbxError + EntryTotpCode" where
  "entry_totp_code_at kl ta doc i timestamp =
     bindR (located_entry kl (kd_database doc) i) (\<lambda>(_, e).
     bindR (totp_uri_for_entry kl ta e) (\<lambda>raw.
     bindR (validate_totp_uri ta raw) (\<lambda>totp.
     Inr \<lparr>tc_code = totp_code totp timestamp, tc_valid_for_seconds = totp_valid_for totp timestamp,
          tc_period_seconds = totp_period totp\<rparr>)))"

text \<open>The fields that a new configuration replaces.\<close>

definition drop_totp_fields :: "('d, 'v) kdbx_lib \<Rightarrow> 'v entry_edit list" where
  "drop_totp_fields kl = map RemoveField (TOTP_FIELD_NAMES (kl_kp kl))"

definition has_legacy_totp :: "('d, 'v) kdbx_lib \<Rightarrow> 'v EntryState \<Rightarrow> bool" where
  "has_legacy_totp kl e = list_ex (\<lambda>name. fmlookup (e_fields (es_entry e)) name \<noteq> None)
     (filter (\<lambda>name. name \<noteq> kp_otp_field (kl_kp kl)) (TOTP_FIELD_NAMES (kl_kp kl)))"

definition same_totp_uri :: "('d, 'v) kdbx_lib \<Rightarrow> 'v EntryState \<Rightarrow> string \<Rightarrow> bool" where
  "same_totp_uri kl e uri = (case state_field kl e (kp_otp_field (kl_kp kl)) of
     Some (_, value) \<Rightarrow> value = uri | None \<Rightarrow> False)"

definition touch :: "instant \<Rightarrow> 'v entry_edit" where
  "touch now = EditEntry (\<lambda>e. e\<lparr>e_times := (e_times e)\<lparr>t_last_modification := now\<rparr>\<rparr>)"

definition set_entry_totp_uri :: "('d, 'v) kdbx_lib \<Rightarrow> totp_api \<Rightarrow> string \<Rightarrow> string \<Rightarrow> ('d, unit) edit" where
  "set_entry_totp_uri kl ta i uri =
     bindE (liftE (validate_totp_uri ta uri)) (\<lambda>_.
     bindE (find_located kl i) (\<lambda>(j, e).
     if same_totp_uri kl e uri \<and> \<not> has_legacy_totp kl e then returnE ()
     else finish_tracked kl j (drop_totp_fields kl @ [SetProtected (kp_otp_field (kl_kp kl)) uri])))"

definition clear_entry_totp :: "('d, 'v) kdbx_lib \<Rightarrow> instant \<Rightarrow> string \<Rightarrow> ('d, unit) edit" where
  "clear_entry_totp kl now i =
     bindE (find_located kl i) (\<lambda>(j, e).
     if \<not> has_totp_field kl (HistoricalEntry.truncate (es_entry e)) then returnE ()
     else finish_tracked kl j (drop_totp_fields kl @ [touch now]))"

subsection \<open>Atomic updates of several fields\<close>

datatype EntryExpiry = ExpiryDisabled | AtUnixSeconds int
datatype EntryIconUpdate = ClearIcon | UseBuiltIn nat
datatype EntryTotpUpdate = ClearTotp | SetTotp string

record EntryUpdate =
  eu_title :: "string option"
  eu_username :: "string option"
  eu_url :: "string option"
  eu_password :: "string option"
  eu_notes :: "string option"
  eu_expiry :: "EntryExpiry option"
  eu_totp :: "EntryTotpUpdate option"
  eu_icon :: "EntryIconUpdate option"

definition update_is_empty :: "EntryUpdate \<Rightarrow> bool" where
  "update_is_empty u = (eu_title u = None \<and> eu_username u = None \<and> eu_url u = None \<and> eu_password u = None \<and>
     eu_notes u = None \<and> eu_expiry u = None \<and> eu_totp u = None \<and> eu_icon u = None)"

definition field_changes :: "('d, 'v) kdbx_lib \<Rightarrow> 'd \<Rightarrow> 'v EntryState \<Rightarrow> EntryUpdate \<Rightarrow> 'v entry_edit list" where
  "field_changes kl d e u = List.map_filter (\<lambda>(field, value, policy).
       Option.bind value (\<lambda>value. field_change kl d e field value policy))
     [(kl_title kl, eu_title u, DatabaseTitlePolicy), (kl_username kl, eu_username u, DatabaseUsernamePolicy),
      (kl_url kl, eu_url u, DatabaseUrlPolicy), (kl_password kl, eu_password u, AlwaysProtected),
      (kl_notes kl, eu_notes u, DatabaseNotesPolicy)]"

definition set_expiry :: "('d, 'v) kdbx_lib \<Rightarrow> instant \<Rightarrow> bool \<Rightarrow> 'v \<Rightarrow> 'v entry_edit list" where
  "set_expiry kl now expires timestamp = [EditEntry (\<lambda>e. e\<lparr>e_times := (e_times e)\<lparr>
     t_expires := kl_flag_value kl (Some expires), t_expiry := timestamp, t_last_modification := now\<rparr>\<rparr>)]"

definition expiry_change ::
    "('d, 'v) kdbx_lib \<Rightarrow> instant \<Rightarrow> 'v EntryState \<Rightarrow> EntryExpiry option \<Rightarrow> KdbxError + 'v entry_edit list" where
  "expiry_change kl now e expiry =
     (let times = e_times (es_entry e); enabled = (kl_flag kl (t_expires times) = Some True) in
      case expiry of
        None \<Rightarrow> Inr []
      | Some ExpiryDisabled \<Rightarrow>
          Inr (if enabled \<or> t_expiry times \<noteq> kl_epoch kl then set_expiry kl now False (kl_epoch kl) else [])
      | Some (AtUnixSeconds seconds) \<Rightarrow>
          bindR (ok_or InvalidExpiry (kl_datetime_value kl seconds)) (\<lambda>timestamp.
          Inr (if enabled \<and> t_expiry times = timestamp then [] else set_expiry kl now True timestamp)))"

definition icon_change :: "'v EntryState \<Rightarrow> EntryIconUpdate option \<Rightarrow> KdbxError + 'v entry_edit list" where
  "icon_change e icon = (case icon of
     None \<Rightarrow> Inr []
   | Some ClearIcon \<Rightarrow> Inr (if e_icon (es_entry e) \<noteq> None then [SetEntryIcon None] else [])
   | Some (UseBuiltIn n) \<Rightarrow>
       if n > MAX_STANDARD_ICON_ID then Inl InvalidIcon
       else Inr (if e_icon (es_entry e) = Some (BuiltIn n) then [] else [SetEntryIcon (Some (BuiltIn n))]))"

definition totp_change ::
    "('d, 'v) kdbx_lib \<Rightarrow> totp_api \<Rightarrow> instant \<Rightarrow> 'v EntryState \<Rightarrow> EntryTotpUpdate option \<Rightarrow> KdbxError + 'v entry_edit list" where
  "totp_change kl ta now e totp = (case totp of
     None \<Rightarrow> Inr []
   | Some ClearTotp \<Rightarrow>
       Inr (if has_totp_field kl (HistoricalEntry.truncate (es_entry e)) then drop_totp_fields kl @ [touch now] else [])
   | Some (SetTotp uri) \<Rightarrow>
       bindR (validate_totp_uri ta uri) (\<lambda>_.
       Inr (if \<not> same_totp_uri kl e uri \<or> has_legacy_totp kl e
         then drop_totp_fields kl @ [SetProtected (kp_otp_field (kl_kp kl)) uri] else [])))"

text \<open>An update is decided completely before the tracked edit starts. \<open>now\<close> and \<open>now'\<close> are the two
  readings of the clock.\<close>

definition update_entry ::
    "('d, 'v) kdbx_lib \<Rightarrow> totp_api \<Rightarrow> instant \<Rightarrow> instant \<Rightarrow> string \<Rightarrow> EntryUpdate \<Rightarrow> ('d, unit) edit" where
  "update_entry kl ta now now' i u =
     bindE (find_located kl i) (\<lambda>(j, e).
     if update_is_empty u then returnE ()
     else
       bindE database (\<lambda>d.
       let changes = field_changes kl d e u in
       bindE (liftE (expiry_change kl now e (eu_expiry u))) (\<lambda>expiry.
       bindE (liftE (icon_change e (eu_icon u))) (\<lambda>icon.
       bindE (liftE (totp_change kl ta now' e (eu_totp u))) (\<lambda>totp.
       if changes = [] \<and> expiry = [] \<and> icon = [] \<and> totp = [] then returnE ()
       else finish_tracked kl j (changes @ expiry @ icon @ totp))))))"

subsection \<open>Tags\<close>

definition MAX_ENTRY_TAGS :: nat where "MAX_ENTRY_TAGS = 64"
definition MAX_ENTRY_TAG_BYTES :: nat where "MAX_ENTRY_TAG_BYTES = 256"

definition validate_entry_tags :: "string list \<Rightarrow> KdbxError + unit" where
  "validate_entry_tags tags =
     (if length tags > MAX_ENTRY_TAGS \<or>
         list_ex (\<lambda>index. tags ! index = [] \<or> length (tags ! index) > MAX_ENTRY_TAG_BYTES \<or>
            tags ! index \<in> set (take index tags)) [0..<length tags]
      then Inl InvalidEntryTags else Inr ())"

definition set_entry_tags :: "('d, 'v) kdbx_lib \<Rightarrow> instant \<Rightarrow> string \<Rightarrow> string list \<Rightarrow> ('d, unit) edit" where
  "set_entry_tags kl now i tags =
     bindE (liftE (validate_entry_tags tags)) (\<lambda>_.
     bindE (find_located kl i) (\<lambda>(j, e).
     if kl_strings kl (e_tags (es_entry e)) = tags then returnE ()
     else finish_tracked kl j [EditEntry (\<lambda>e. e\<lparr>e_tags := kl_strings_value kl tags,
       e_times := (e_times e)\<lparr>t_last_modification := now\<rparr>\<rparr>)]))"

subsection \<open>Duplication\<close>

definition copy_entry :: "'v Entry \<Rightarrow> 'v Entry \<Rightarrow> 'v Entry" where
  "copy_entry source e = e\<lparr>e_fields := e_fields source, e_autotype := e_autotype source, e_tags := e_tags source,
     e_custom_data := e_custom_data source, e_foreground_color := e_foreground_color source,
     e_background_color := e_background_color source, e_override_url := e_override_url source,
     e_quality_check := e_quality_check source,
     e_times := (e_times e)\<lparr>t_expiry := t_expiry (e_times source), t_expires := t_expires (e_times source)\<rparr>\<rparr>"

text \<open>The duplicate is built in the document itself: when its custom icon is missing, the new entry
  stays and no revision is counted.\<close>

definition duplicate_entry :: "('d, 'v) kdbx_lib \<Rightarrow> 128 word \<Rightarrow> string \<Rightarrow> ('d, string) edit" where
  "duplicate_entry kl fresh i =
     bindE (find_located kl i) (\<lambda>(_, e).
     bindE database (\<lambda>d.
     bindE (liftE (ok_or GroupNotFound (kl_group kl d (es_parent e)))) (\<lambda>_.
     bindE (set_database (kp_update_entry (kl_kp kl) fresh (copy_entry (es_entry e))
        (kl_new_entry kl fresh (es_parent e) d))) (\<lambda>_.
     bindE database (\<lambda>d.
     bindE (case e_icon (es_entry e) of
         None \<Rightarrow> returnE d
       | icon \<Rightarrow> liftE (ok_or (Conversion ''entry custom icon was missing'')
           (kp_set_entry_icon (kl_kp kl) fresh icon d))) (\<lambda>d.
     bindE (set_database (fold (\<lambda>name d. case fmlookup (es_attachments e) name of
           None \<Rightarrow> d | Some data \<Rightarrow> kp_add_attachment (kl_kp kl) fresh name data d)
         (sorted_list_of_set (fset (fmdom (es_attachments e)))) d)) (\<lambda>_.
     bindE mark_changed_op (\<lambda>_. returnE (kl_id_string kl fresh)))))))))"

subsection \<open>History\<close>

record EntryHistoryItem =
  hi_index :: nat
  hi_modified_at :: instant
  hi_summary :: EntrySummary
  hi_restorable :: bool

record EntryHistory =
  eh_document_revision :: "64 word"
  eh_items :: "EntryHistoryItem list"

text \<open>\<open>custom_icon\<close> resolves the reference: a reference to an icon that the database lacks gives none.\<close>

definition restore_shape_supported :: "('d, 'v) keepass \<Rightarrow> 'd \<Rightarrow> (string, Value) fmap \<Rightarrow> Icon option \<Rightarrow> bool" where
  "restore_shape_supported kp d attachments icon =
     (attachments = fmempty \<and> (case icon of Some (CustomIconRef i) \<Rightarrow> kp_icon kp d i = None | _ \<Rightarrow> True))"

definition current_restorable :: "('d, 'v) keepass \<Rightarrow> 'd \<Rightarrow> 'v EntryState \<Rightarrow> bool" where
  "current_restorable kp d e = restore_shape_supported kp d (es_attachments e) (e_icon (es_entry e))"

definition historical_restorable :: "('d, 'v) keepass \<Rightarrow> 'd \<Rightarrow> 'v EntryRef \<Rightarrow> bool" where
  "historical_restorable kp d h = restore_shape_supported kp d (er_attachments h) (e_icon (er_entry h))"

definition history_item ::
    "('d, 'v) kdbx_lib \<Rightarrow> 'd \<Rightarrow> 128 word \<Rightarrow> 'v EntryState \<Rightarrow> nat \<Rightarrow> EntryHistoryItem list \<Rightarrow> KdbxError + EntryHistoryItem list" where
  "history_item kl d j e index items =
     bindR (ok_or HistoryRevisionNotFound (kp_historical (kl_kp kl) d j index)) (\<lambda>h.
     Inr (items @ [\<lparr>hi_index = index, hi_modified_at = t_last_modification (e_times (er_entry h)),
       hi_summary = project_entry_summary kl (er_entry h),
       hi_restorable = (current_restorable (kl_kp kl) d e \<and> historical_restorable (kl_kp kl) d h)\<rparr>]))"

definition entry_history :: "('d, 'v) kdbx_lib \<Rightarrow> 'd KdbxDocument \<Rightarrow> string \<Rightarrow> KdbxError + EntryHistory" where
  "entry_history kl doc i =
     bindR (located_entry kl (kd_database doc) i) (\<lambda>(j, e).
     let count = (case e_history (es_entry e) of None \<Rightarrow> 0 | Some h \<Rightarrow> length h) in
     bindR (foldR (history_item kl (kd_database doc) j e) [0..<count] []) (\<lambda>items.
     Inr \<lparr>eh_document_revision = kd_revision doc, eh_items = items\<rparr>))"

definition restore_content :: "'v HistoricalEntry \<Rightarrow> instant \<Rightarrow> 'v Entry \<Rightarrow> 'v Entry" where
  "restore_content source location_changed e =
     e\<lparr>e_fields := e_fields source, e_autotype := e_autotype source, e_tags := e_tags source,
       e_times := (e_times source)\<lparr>t_location_changed := location_changed\<rparr>,
       e_custom_data := e_custom_data source, e_foreground_color := e_foreground_color source,
       e_background_color := e_background_color source, e_override_url := e_override_url source,
       e_quality_check := e_quality_check source\<rparr>"

definition restore_entry_history ::
    "('d, 'v) kdbx_lib \<Rightarrow> string \<Rightarrow> nat \<Rightarrow> 64 word \<Rightarrow> ('d, unit) edit" where
  "restore_entry_history kl i history_index expected_document_revision =
     bindE (getsE kd_revision) (\<lambda>revision.
     if revision \<noteq> expected_document_revision then throwE StaleHistory
     else
       bindE (find_located kl i) (\<lambda>(j, e).
       bindE database (\<lambda>d.
       bindE (liftE (ok_or HistoryRevisionNotFound (kp_historical (kl_kp kl) d j history_index))) (\<lambda>h.
       if \<not> current_restorable (kl_kp kl) d e \<or> \<not> historical_restorable (kl_kp kl) d h then throwE HistoryRestoreUnsupported
       else (case e_icon (er_entry h) of
           Some (CustomIconRef _) \<Rightarrow> throwE HistoryRestoreUnsupported
         | icon \<Rightarrow> finish_tracked kl j
             [EditEntry (restore_content (er_entry h) (t_location_changed (e_times (es_entry e)))),
              SetEntryIcon icon])))))"

subsection \<open>Attachments, icons and settings\<close>

definition add_entry_attachment :: "('d, 'v) kdbx_lib \<Rightarrow> string \<Rightarrow> string \<Rightarrow> bytes \<Rightarrow> ('d, unit) edit" where
  "add_entry_attachment kl i name data =
     (if name = [] then throwE InvalidAttachmentName
      else
        bindE (find_located kl i) (\<lambda>(j, e).
        if fmlookup (es_attachments e) name \<noteq> None then throwE AttachmentAlreadyExists
        else finish_tracked kl j [AddAttachment name (True, data)]))"

definition MAX_CUSTOM_ICON_BYTES :: nat where "MAX_CUSTOM_ICON_BYTES = 4 * 1024 * 1024"
definition MAX_CUSTOM_ICON_DIMENSION :: nat where "MAX_CUSTOM_ICON_DIMENSION = 4096"
definition PNG_SIGNATURE :: bytes where "PNG_SIGNATURE = [0x89, 0x50, 0x4E, 0x47, 0x0D, 0x0A, 0x1A, 0x0A]"

definition be_u32 :: "bytes \<Rightarrow> nat" where
  "be_u32 bs = foldl (\<lambda>n b. n * 256 + unat b) 0 bs"

definition slice :: "nat \<Rightarrow> nat \<Rightarrow> bytes \<Rightarrow> bytes" where
  "slice offset n bs = take n (drop offset bs)"

text \<open>One PNG chunk: its length, type, and the offset of the next chunk.\<close>

definition png_ihdr_ok :: "bytes \<Rightarrow> nat \<Rightarrow> nat \<Rightarrow> bytes \<Rightarrow> bool" where
  "png_ihdr_ok bs offset len chunk_type =
     (let width = be_u32 (slice (offset + 8) 4 bs); height = be_u32 (slice (offset + 12) 4 bs) in
      len = 13 \<and> chunk_type = as_bytes ''IHDR'' \<and> width \<noteq> 0 \<and> height \<noteq> 0 \<and>
      width \<le> MAX_CUSTOM_ICON_DIMENSION \<and> height \<le> MAX_CUSTOM_ICON_DIMENSION)"

function png_chunks :: "bytes \<Rightarrow> nat \<Rightarrow> bool \<Rightarrow> bool \<Rightarrow> KdbxError + unit" where
  "png_chunks bs offset first_chunk saw_idat =
     (if offset + 12 \<le> length bs then
        let len = be_u32 (slice offset 4 bs); chunk_type = slice (offset + 4) 4 bs;
            chunk_end = offset + 12 + len; saw_idat = (saw_idat \<or> chunk_type = as_bytes ''IDAT'')
        in if chunk_end > length bs then Inl InvalidIcon
           else if first_chunk \<and> \<not> png_ihdr_ok bs offset len chunk_type then Inl InvalidIcon
           else if \<not> first_chunk \<and> chunk_type = as_bytes ''IHDR'' then Inl InvalidIcon
           else if chunk_type = as_bytes ''IEND''
           then (if len = 0 \<and> saw_idat \<and> chunk_end = length bs then Inr () else Inl InvalidIcon)
           else png_chunks bs chunk_end False saw_idat
      else Inl InvalidIcon)"
  by pat_completeness auto

termination png_chunks
  by (relation "measure (\<lambda>(bs, offset, _). length bs - offset)") auto

definition validate_png_icon :: "bytes \<Rightarrow> KdbxError + unit" where
  "validate_png_icon bs =
     (if length bs < 45 \<or> length bs > MAX_CUSTOM_ICON_BYTES \<or> take 8 bs \<noteq> PNG_SIGNATURE then Inl InvalidIcon
      else png_chunks bs 8 True False)"

definition set_entry_custom_icon_png :: "('d, 'v) kdbx_lib \<Rightarrow> string \<Rightarrow> bytes \<Rightarrow> ('d, unit) edit" where
  "set_entry_custom_icon_png kl i data =
     bindE (liftE (validate_png_icon data)) (\<lambda>_.
     bindE (find_located kl i) (\<lambda>(j, e).
     bindE database (\<lambda>d.
     if (case e_icon (es_entry e) of
           Some (CustomIconRef k) \<Rightarrow> (case kp_icon (kl_kp kl) d k of Some icon \<Rightarrow> is_data icon = data | None \<Rightarrow> False)
         | _ \<Rightarrow> False)
     then returnE () else finish_tracked kl j [NewCustomIcon data])))"

record DatabaseMetadata =
  dm_name :: string
  dm_description :: string
  dm_default_username :: string

definition MAX_DATABASE_NAME_BYTES :: nat where "MAX_DATABASE_NAME_BYTES = 4 * 1024"
definition MAX_DATABASE_DESCRIPTION_BYTES :: nat where "MAX_DATABASE_DESCRIPTION_BYTES = 64 * 1024"
definition MAX_DEFAULT_USERNAME_BYTES :: nat where "MAX_DEFAULT_USERNAME_BYTES = 4 * 1024"

definition database_metadata :: "('d, 'v) kdbx_lib \<Rightarrow> 'd \<Rightarrow> DatabaseMetadata" where
  "database_metadata kl d =
     (let m = kp_meta (kl_kp kl) d; text = (\<lambda>v. case kl_text kl v of None \<Rightarrow> [] | Some s \<Rightarrow> s) in
      \<lparr>dm_name = text (m_database_name m), dm_description = text (m_database_description m),
       dm_default_username = text (m_default_username m)\<rparr>)"

definition optional_string :: "string \<Rightarrow> string option" where
  "optional_string value = (if value = [] then None else Some value)"

definition update_database_metadata ::
    "('d, 'v) kdbx_lib \<Rightarrow> instant \<Rightarrow> string \<Rightarrow> string \<Rightarrow> string \<Rightarrow> ('d, DatabaseMetadata) edit" where
  "update_database_metadata kl changed name description default_username =
     (if length name > MAX_DATABASE_NAME_BYTES \<or> length description > MAX_DATABASE_DESCRIPTION_BYTES \<or>
         length default_username > MAX_DEFAULT_USERNAME_BYTES then throwE InvalidDatabaseMetadata
      else
        bindE database (\<lambda>d.
        let current = database_metadata kl d; time = kl_time_value kl changed in
        if dm_name current = name \<and> dm_description current = description \<and>
           dm_default_username current = default_username then returnE current
        else
          let m = kp_meta (kl_kp kl) d;
              m = (if dm_name current \<noteq> name then m\<lparr>m_database_name := kl_text_value kl (optional_string name),
                     m_database_name_changed := time\<rparr> else m);
              m = (if dm_description current \<noteq> description then m\<lparr>
                     m_database_description := kl_text_value kl (optional_string description),
                     m_database_description_changed := time\<rparr> else m);
              m = (if dm_default_username current \<noteq> default_username then m\<lparr>
                     m_default_username := kl_text_value kl (optional_string default_username),
                     m_default_username_changed := time\<rparr> else m)
          in bindE (set_database (kp_set_meta (kl_kp kl) (m\<lparr>m_settings_changed := time\<rparr>) d)) (\<lambda>_.
             bindE mark_changed_op (\<lambda>_.
             bindE database (\<lambda>d. returnE (database_metadata kl d))))))"

definition new_document :: "('d, 'v) kdbx_lib \<Rightarrow> string \<Rightarrow> 'd KdbxDocument" where
  "new_document kl vault_name =
     (let kp = kl_kp kl; d = kl_new_database kl;
          d = kp_update_group kp (kp_root kp d) (\<lambda>g. g\<lparr>g_name := kl_name_value kl vault_name\<rparr>) d;
          d = kp_set_meta kp ((kp_meta kp d)\<lparr>m_recyclebin_enabled := kl_flag_value kl (Some True)\<rparr>) d
      in \<lparr>kd_version = (case kl_new_version kl of Some v \<Rightarrow> v | None \<Rightarrow> Kdbx4 1), kd_database = d,
          kd_revision = 0, kd_revision_permanently_dirty = False\<rparr>)"

end
