(* ===== verification/Kdbx_Recycle.thy ===== *)
theory Kdbx_Recycle
  imports Kdbx_Entry_Updates
begin

section \<open>The recycle bin and bulk edits\<close>

text \<open>
  Models \<open>recycle_bin.rs\<close> and \<open>bulk.rs\<close> of \<open>src/crates/kdbx/src\<close>. The operations work on a clone of
  the database and assign it when all of it is done.
\<close>

subsection \<open>The bin\<close>

text \<open>\<open>fresh\<close> is the identifier drawn for a new bin; \<open>now\<close> is the clock.\<close>

definition ensure_recycle_bin ::
    "('d, 'v) kdbx_lib \<Rightarrow> instant \<Rightarrow> 128 word \<Rightarrow> 'd \<Rightarrow> KdbxError + (128 word \<times> 'd)" where
  "ensure_recycle_bin kl now fresh d =
     (let kp = kl_kp kl in
      if kl_flag kl (m_recyclebin_enabled (kp_meta kp d)) = Some False then Inl RecycleBinDisabled
      else case recycle_bin_id kl d of
        Some i \<Rightarrow> Inr (i, d)
      | None \<Rightarrow>
          let d = kp_update_group kp fresh (\<lambda>g. g\<lparr>g_name := kl_name_value kl ''Recycle Bin''\<rparr>)
                (kl_new_group kl fresh (kp_root kp d) d)
          in Inr (fresh, kp_set_meta kp ((kp_meta kp d)\<lparr>
               m_recyclebin_enabled := kl_flag_value kl (Some True),
               m_recyclebin_uuid := kl_uuid_value kl (Some fresh),
               m_recyclebin_changed := kl_time_value kl now\<rparr>) d))"

definition set_recycle_bin_enabled :: "('d, 'v) kdbx_lib \<Rightarrow> instant \<Rightarrow> bool \<Rightarrow> ('d, unit) edit" where
  "set_recycle_bin_enabled kl now enabled =
     bindE database (\<lambda>d.
     if recycle_bin_enabled kl d = enabled then returnE ()
     else
       bindE (if enabled then returnE ()
         else case recycle_bin_id kl d of
           None \<Rightarrow> returnE ()
         | Some recycle \<Rightarrow>
             bindE (liftE (ok_or InvalidRecycleBinOperation (kl_group kl d recycle))) (\<lambda>g.
             if gs_child_entries g \<noteq> [] \<or> gs_child_groups g \<noteq> [] then throwE InvalidRecycleBinOperation
             else returnE ())) (\<lambda>_.
       let kp = kl_kp kl in
       bindE (set_database (kp_set_meta kp ((kp_meta kp d)\<lparr>
         m_recyclebin_enabled := kl_flag_value kl (Some enabled), m_recyclebin_changed := kl_time_value kl now,
         m_settings_changed := kl_time_value kl now\<rparr>) d)) (\<lambda>_. mark_changed_op)))"

subsection \<open>Entries\<close>

definition trash_entry :: "('d, 'v) kdbx_lib \<Rightarrow> instant \<Rightarrow> instant \<Rightarrow> 128 word \<Rightarrow> string \<Rightarrow> ('d, unit) edit" where
  "trash_entry kl now now' fresh i =
     bindE database (\<lambda>d.
     bindE (liftE (find_entry_id kl d i)) (\<lambda>j.
     bindE (liftE (ensure_recycle_bin kl now fresh d)) (\<lambda>(recycle, candidate).
     bindE (liftE (ok_or EntryNotFound (kl_entry kl candidate j))) (\<lambda>e.
     if group_is_in_recycle_bin kl candidate (es_parent e) recycle then returnE ()
     else
       bindE (liftE (move_entry_to kl now' j recycle candidate)) (\<lambda>candidate.
       bindE (set_database candidate) (\<lambda>_. mark_changed_op))))))"

text \<open>Where a recycled entry goes back to.\<close>

definition restore_destination :: "('d, 'v) kdbx_lib \<Rightarrow> 'd \<Rightarrow> 128 word \<Rightarrow> 'v EntryState \<Rightarrow> 128 word" where
  "restore_destination kl d recycle e = (case es_previous_parent e of
     Some p \<Rightarrow> if kl_group kl d p \<noteq> None \<and> \<not> group_is_in_recycle_bin kl d p recycle then p else kp_root (kl_kp kl) d
   | None \<Rightarrow> kp_root (kl_kp kl) d)"

text \<open>A recycled entry with its identifier, or the error that the code reports instead.\<close>

definition recycled_entry :: "('d, 'v) kdbx_lib \<Rightarrow> 'd \<Rightarrow> 128 word \<Rightarrow> 128 word \<Rightarrow> KdbxError + 'v EntryState" where
  "recycled_entry kl d recycle j =
     bindR (ok_or EntryNotFound (kl_entry kl d j)) (\<lambda>e.
     if group_is_in_recycle_bin kl d (es_parent e) recycle then Inr e else Inl InvalidRecycleBinOperation)"

definition restore_entry :: "('d, 'v) kdbx_lib \<Rightarrow> instant \<Rightarrow> string \<Rightarrow> ('d, string) edit" where
  "restore_entry kl now i =
     bindE database (\<lambda>d.
     bindE (liftE (find_entry_id kl d i)) (\<lambda>j.
     bindE (liftE (ok_or InvalidRecycleBinOperation (recycle_bin_id kl d))) (\<lambda>recycle.
     bindE (liftE (recycled_entry kl d recycle j)) (\<lambda>e.
     let previous = restore_destination kl d recycle e in
     bindE (liftE (move_entry_to kl now j previous d)) (\<lambda>candidate.
     bindE (set_database candidate) (\<lambda>_.
     bindE mark_changed_op (\<lambda>_. returnE (kl_id_string kl previous))))))))"

definition permanently_delete_recycled_entry :: "('d, 'v) kdbx_lib \<Rightarrow> string \<Rightarrow> ('d, unit) edit" where
  "permanently_delete_recycled_entry kl i =
     bindE database (\<lambda>d.
     bindE (liftE (find_entry_id kl d i)) (\<lambda>j.
     bindE (liftE (ok_or InvalidRecycleBinOperation (recycle_bin_id kl d))) (\<lambda>recycle.
     bindE (liftE (recycled_entry kl d recycle j)) (\<lambda>_. permanently_delete_entry kl i))))"

subsection \<open>Groups\<close>

definition move_group_to :: "('d, 'v) kdbx_lib \<Rightarrow> instant \<Rightarrow> 128 word \<Rightarrow> 128 word \<Rightarrow> 'd \<Rightarrow> KdbxError + 'd" where
  "move_group_to kl now g destination candidate =
     bindR (ok_or GroupNotFound (kl_group kl candidate g)) (\<lambda>_.
     bindR (ok_or InvalidGroupMove (kp_move_group (kl_kp kl) g destination candidate)) (\<lambda>candidate.
     Inr (kp_update_group (kl_kp kl) g (\<lambda>g. g\<lparr>g_times := (g_times g)\<lparr>t_location_changed := now\<rparr>\<rparr>) candidate)))"

definition trash_group :: "('d, 'v) kdbx_lib \<Rightarrow> instant \<Rightarrow> instant \<Rightarrow> 128 word \<Rightarrow> string \<Rightarrow> ('d, unit) edit" where
  "trash_group kl now now' fresh i =
     bindE database (\<lambda>d.
     bindE (liftE (find_group_id kl d i)) (\<lambda>g.
     if g = kp_root (kl_kp kl) d then throwE CannotDeleteRootGroup
     else
       bindE (liftE (ensure_recycle_bin kl now fresh d)) (\<lambda>(recycle, candidate).
       if g = recycle \<or> group_is_in_recycle_bin kl candidate g recycle then returnE ()
       else
         bindE (liftE (move_group_to kl now' g recycle candidate)) (\<lambda>candidate.
         bindE (set_database candidate) (\<lambda>_. mark_changed_op)))))"

text \<open>Unlike for entries, the previous parent of a group is not looked up again.\<close>

definition restore_group :: "('d, 'v) kdbx_lib \<Rightarrow> instant \<Rightarrow> string \<Rightarrow> ('d, string) edit" where
  "restore_group kl now i =
     bindE database (\<lambda>d.
     bindE (liftE (find_group_id kl d i)) (\<lambda>g.
     bindE (liftE (ok_or InvalidRecycleBinOperation (recycle_bin_id kl d))) (\<lambda>recycle.
     if g = recycle \<or> \<not> group_is_in_recycle_bin kl d g recycle then throwE InvalidRecycleBinOperation
     else
       let previous = (case Option.bind (kl_group kl d g) gs_previous_parent of
           Some p \<Rightarrow> if \<not> group_is_in_recycle_bin kl d p recycle then p else kp_root (kl_kp kl) d
         | None \<Rightarrow> kp_root (kl_kp kl) d) in
       bindE (liftE (move_group_to kl now g previous d)) (\<lambda>candidate.
       bindE (set_database candidate) (\<lambda>_.
       bindE mark_changed_op (\<lambda>_. returnE (kl_id_string kl previous)))))))"

definition permanently_delete_recycled_group :: "('d, 'v) kdbx_lib \<Rightarrow> string \<Rightarrow> ('d, unit) edit" where
  "permanently_delete_recycled_group kl i =
     bindE database (\<lambda>d.
     bindE (liftE (find_group_id kl d i)) (\<lambda>g.
     bindE (liftE (ok_or InvalidRecycleBinOperation (recycle_bin_id kl d))) (\<lambda>recycle.
     if g = recycle \<or> \<not> group_is_in_recycle_bin kl d g recycle then throwE InvalidRecycleBinOperation
     else permanently_delete_group kl i)))"

subsection \<open>Bulk edits\<close>

text \<open>A loop that collects results and stops at the first error.\<close>

fun mapR :: "('a \<Rightarrow> 'e + 'b) \<Rightarrow> 'a list \<Rightarrow> 'e + 'b list" where
  "mapR f [] = Inr []"
| "mapR f (x # xs) = bindR (f x) (\<lambda>y. bindR (mapR f xs) (\<lambda>ys. Inr (y # ys)))"

definition move_unless ::
    "('d, 'v) kdbx_lib \<Rightarrow> instant \<Rightarrow> ('d \<Rightarrow> 128 word \<Rightarrow> bool) \<Rightarrow> 128 word \<Rightarrow> 128 word \<Rightarrow> 'd \<times> bool \<Rightarrow> KdbxError + ('d \<times> bool)" where
  "move_unless kl now there destination j st = (case st of (candidate, changed) \<Rightarrow>
     bindR (ok_or EntryNotFound (kl_entry kl candidate j)) (\<lambda>e.
     if there candidate (es_parent e) then Inr (candidate, changed)
     else bindR (move_entry_to kl now j destination candidate) (\<lambda>candidate. Inr (candidate, True))))"

definition install_if :: "bool \<Rightarrow> 'd \<Rightarrow> ('d, unit) edit" where
  "install_if changed candidate = (if changed then bindE (set_database candidate) (\<lambda>_. mark_changed_op) else returnE ())"

definition move_entries :: "('d, 'v) kdbx_lib \<Rightarrow> instant \<Rightarrow> string list \<Rightarrow> string \<Rightarrow> ('d, unit) edit" where
  "move_entries kl now es destination =
     (if es = [] then returnE ()
      else
        bindE database (\<lambda>d.
        bindE (liftE (find_group_id kl d destination)) (\<lambda>g.
        bindE (liftE (mapR (find_entry_id kl d) es)) (\<lambda>ids.
        bindE (liftE (foldR (move_unless kl now (\<lambda>_ p. p = g) g) ids (d, False))) (\<lambda>(candidate, changed).
        install_if changed candidate)))))"

definition trash_entries ::
    "('d, 'v) kdbx_lib \<Rightarrow> instant \<Rightarrow> instant \<Rightarrow> 128 word \<Rightarrow> string list \<Rightarrow> ('d, unit) edit" where
  "trash_entries kl now now' fresh es =
     (if es = [] then returnE ()
      else
        bindE database (\<lambda>d.
        bindE (liftE (mapR (find_entry_id kl d) es)) (\<lambda>ids.
        bindE (liftE (ensure_recycle_bin kl now fresh d)) (\<lambda>(recycle, candidate).
        bindE (liftE (foldR (move_unless kl now' (\<lambda>candidate p. group_is_in_recycle_bin kl candidate p recycle) recycle)
          ids (candidate, False))) (\<lambda>(candidate, changed).
        install_if changed candidate)))))"

definition restore_entries :: "('d, 'v) kdbx_lib \<Rightarrow> instant \<Rightarrow> string list \<Rightarrow> ('d, unit) edit" where
  "restore_entries kl now es =
     (if es = [] then returnE ()
      else
        bindE database (\<lambda>d.
        bindE (liftE (mapR (find_entry_id kl d) es)) (\<lambda>ids.
        bindE (liftE (ok_or InvalidRecycleBinOperation (recycle_bin_id kl d))) (\<lambda>recycle.
        bindE (liftE (mapR (\<lambda>j. bindR (recycled_entry kl d recycle j) (\<lambda>e.
          Inr (j, restore_destination kl d recycle e))) ids)) (\<lambda>destinations.
        bindE (liftE (foldR (\<lambda>(j, destination). move_entry_to kl now j destination) destinations d)) (\<lambda>candidate.
        bindE (set_database candidate) (\<lambda>_. mark_changed_op)))))))"

definition remove_entry_tracked :: "('d, 'v) kdbx_lib \<Rightarrow> 128 word \<Rightarrow> 'd \<Rightarrow> KdbxError + 'd" where
  "remove_entry_tracked kl j candidate =
     bindR (ok_or EntryNotFound (kl_entry kl candidate j)) (\<lambda>_. Inr (kl_tracked_remove_entry kl j candidate))"

definition permanently_delete_recycled_entries :: "('d, 'v) kdbx_lib \<Rightarrow> string list \<Rightarrow> ('d, unit) edit" where
  "permanently_delete_recycled_entries kl es =
     (if es = [] then returnE ()
      else
        bindE database (\<lambda>d.
        bindE (liftE (mapR (find_entry_id kl d) es)) (\<lambda>ids.
        bindE (liftE (ok_or InvalidRecycleBinOperation (recycle_bin_id kl d))) (\<lambda>recycle.
        bindE (liftE (mapR (recycled_entry kl d recycle) ids)) (\<lambda>_.
        bindE (liftE (foldR (remove_entry_tracked kl) ids d)) (\<lambda>candidate.
        bindE (set_database candidate) (\<lambda>_. mark_changed_op)))))))"

end
