(* ===== verification/Session_Edits.thy ===== *)
theory Session_Edits
  imports Kdbx_Recycle Vault_Session
begin

section \<open>Edits through a session\<close>

text \<open>
  Models \<open>src/crates/vault-session/src/mutations.rs\<close> and \<open>database_settings.rs\<close> beside it, through which
  the applications edit the open document. A request is a value of \<open>session_edit\<close>; the identifiers and clock readings that the
  database crate draws are the record \<open>edit_supply\<close>.

  The lemmas show that every edit either leaves the document exactly as it was or succeeds and counts
  one revision. So no sequence of edits can change the database of a session that still looks saved.
\<close>

record edit_supply =
  sup_fresh :: "128 word"
  sup_now :: instant
  sup_later :: instant

datatype session_edit =
  UpdateEntry string EntryUpdate
| SetEntryTags string "string list"
| CreateEntry string NewEntry "string option"
| DuplicateEntry string
| RestoreEntryHistory string nat "64 word"
| AddEntryAttachment string string bytes
| SetEntryCustomIconPng string bytes
| TrashEntry string
| RestoreEntry string
| PermanentlyDeleteRecycledEntry string
| PermanentlyDeleteEntry string
| MoveEntry string string
| MoveEntries "string list" string
| TrashEntries "string list"
| RestoreEntries "string list"
| PermanentlyDeleteRecycledEntries "string list"
| TrashGroup string
| RestoreGroup string
| PermanentlyDeleteRecycledGroup string
| CreateGroup string string
| RenameGroup string string
| MoveGroup string string
| PermanentlyDeleteGroup string
| SetEntryCustomField string string string FieldProtection
| DeleteEntryCustomField string string
| UpdateDatabaseMetadata string string string
| SetHistoryMaxItems "nat option"
| SetRecycleBinEnabled bool

text \<open>An identifier that an operation returns, or nothing.\<close>

definition with_id :: "('d, string) edit \<Rightarrow> ('d, string option) edit" where
  "with_id m = bindE m (\<lambda>i. returnE (Some i))"

definition without_id :: "('d, unit) edit \<Rightarrow> ('d, string option) edit" where
  "without_id m = bindE m (\<lambda>_. returnE None)"

definition document_edit ::
    "('d, 'v) kdbx_lib \<Rightarrow> totp_api \<Rightarrow> edit_supply \<Rightarrow> session_edit \<Rightarrow> ('d, string option) edit" where
  "document_edit kl ta draws request = (let now = sup_now draws; later = sup_later draws; fresh = sup_fresh draws in
     case request of
       UpdateEntry i u \<Rightarrow> without_id (update_entry kl ta now later i u)
     | SetEntryTags i tags \<Rightarrow> without_id (set_entry_tags kl now i tags)
     | CreateEntry g input notes \<Rightarrow> with_id (create_entry_with_notes kl fresh g input notes)
     | DuplicateEntry i \<Rightarrow> with_id (duplicate_entry kl fresh i)
     | RestoreEntryHistory i index expected \<Rightarrow> without_id (restore_entry_history kl i index expected)
     | AddEntryAttachment i name data \<Rightarrow> without_id (add_entry_attachment kl i name data)
     | SetEntryCustomIconPng i data \<Rightarrow> without_id (set_entry_custom_icon_png kl i data)
     | TrashEntry i \<Rightarrow> without_id (trash_entry kl now later fresh i)
     | RestoreEntry i \<Rightarrow> with_id (restore_entry kl now i)
     | PermanentlyDeleteRecycledEntry i \<Rightarrow> without_id (permanently_delete_recycled_entry kl i)
     | PermanentlyDeleteEntry i \<Rightarrow> without_id (permanently_delete_entry kl i)
     | MoveEntry i g \<Rightarrow> without_id (move_entry kl now i g)
     | MoveEntries is g \<Rightarrow> without_id (move_entries kl now is g)
     | TrashEntries is \<Rightarrow> without_id (trash_entries kl now later fresh is)
     | RestoreEntries is \<Rightarrow> without_id (restore_entries kl now is)
     | PermanentlyDeleteRecycledEntries is \<Rightarrow> without_id (permanently_delete_recycled_entries kl is)
     | TrashGroup g \<Rightarrow> without_id (trash_group kl now later fresh g)
     | RestoreGroup g \<Rightarrow> with_id (restore_group kl now g)
     | PermanentlyDeleteRecycledGroup g \<Rightarrow> without_id (permanently_delete_recycled_group kl g)
     | CreateGroup g name \<Rightarrow> with_id (create_group kl fresh g name)
     | RenameGroup g name \<Rightarrow> without_id (rename_group kl g name)
     | MoveGroup g p \<Rightarrow> without_id (move_group kl g p)
     | PermanentlyDeleteGroup g \<Rightarrow> without_id (permanently_delete_group kl g)
     | SetEntryCustomField i name value protection \<Rightarrow> without_id (set_entry_custom_field kl i name value protection)
     | DeleteEntryCustomField i name \<Rightarrow> without_id (delete_entry_custom_field kl i name)
     | UpdateDatabaseMetadata name description user \<Rightarrow>
         bindE (update_database_metadata kl now name description user) (\<lambda>_. returnE None)
     | SetHistoryMaxItems max_items \<Rightarrow> without_id (on_document (set_history_max_items (kl_kp kl) (kl_time_value kl now) max_items))
     | SetRecycleBinEnabled enabled \<Rightarrow> without_id (set_recycle_bin_enabled kl now enabled))"

definition apply_edit ::
    "('d, 'v) kdbx_lib \<Rightarrow> totp_api \<Rightarrow> edit_supply \<Rightarrow> session_edit \<Rightarrow>
     ('d VaultSession, SessionError, string option) op" where
  "apply_edit kl ta draws request = (\<lambda>s. case document_edit kl ta draws request (vs_document s) of
     (r, doc) \<Rightarrow> (map_err Kdbx r, s\<lparr>vs_document := doc\<rparr>))"

subsection \<open>Counted edits\<close>

text \<open>
  What the database crate promises: a tracked edit keeps the entry, and a new entry can take every
  icon that is in the database.
\<close>

definition tracking_laws :: "('d, 'v) kdbx_lib \<Rightarrow> bool" where
  "tracking_laws kl \<longleftrightarrow>
     (\<forall>d i edits. kl_entry kl d i \<noteq> None \<longrightarrow> kl_entry kl (kl_tracked kl i edits d) i \<noteq> None) \<and>
     (\<forall>d icon fresh p f. \<not> unavailable_icon (kl_kp kl) d icon \<longrightarrow>
        kp_set_entry_icon (kl_kp kl) fresh icon (kp_update_entry (kl_kp kl) fresh f (kl_new_entry kl fresh p d)) \<noteq> None)"

text \<open>The custom icon of an entry to be duplicated is in the database.\<close>

definition icon_available :: "('d, 'v) kdbx_lib \<Rightarrow> 'd \<Rightarrow> session_edit \<Rightarrow> bool" where
  "icon_available kl d request = (case request of
     DuplicateEntry i \<Rightarrow> (case located_entry kl d i of
       Inr (_, e) \<Rightarrow> \<not> unavailable_icon (kl_kp kl) d (e_icon (es_entry e)) | Inl _ \<Rightarrow> True)
   | _ \<Rightarrow> True)"

definition changed_once :: "'d KdbxDocument \<Rightarrow> 'd KdbxDocument \<Rightarrow> bool" where
  "changed_once doc doc' \<longleftrightarrow> (\<exists>d. doc' = mark_changed (doc\<lparr>kd_database := d\<rparr>))"

definition counted_at :: "'d KdbxDocument \<Rightarrow> ('d, 'a) edit \<Rightarrow> bool" where
  "counted_at doc m \<longleftrightarrow> wpE m (\<lambda>_ doc'. doc' = doc \<or> changed_once doc doc') (\<lambda>_ doc'. doc' = doc) doc"

definition counted :: "('d, 'a) edit \<Rightarrow> bool" where
  "counted m \<longleftrightarrow> (\<forall>doc. wpE m (\<lambda>_ doc'. doc' = doc \<or> changed_once doc doc') (\<lambda>_ doc'. doc' = doc) doc)"

lemma countedD: "counted m \<Longrightarrow> counted_at doc m"
  by (simp add: counted_def counted_at_def)

text \<open>A part of an operation that only reads.\<close>

definition reading :: "('d, 'a) edit \<Rightarrow> bool" where
  "reading m \<longleftrightarrow> (\<forall>doc. wpE m (\<lambda>_ doc'. doc' = doc) (\<lambda>_ doc'. doc' = doc) doc)"

lemma reading_simple [simp]:
  "reading database" "reading (liftE r)" "reading (throwE e)" "reading (returnE a)" "reading (getsE f)"
  "reading (find_located kl i)"
  by (simp_all add: reading_def database_def find_located_def wp_simps split: sum.split)

lemma counted_reading: "reading m \<Longrightarrow> counted m"
  by (auto simp: reading_def counted_def intro: wpE_mono)

lemma counted_simple: "counted (returnE a)" "counted (throwE e)"
  by (simp_all add: counted_reading)

lemma wpE_on_document [wp_simps]:
  "wpE (on_document f) Q R doc = (case f doc of Inl e \<Rightarrow> R e doc | Inr doc' \<Rightarrow> Q () doc')"
  by (simp add: wpE_def on_document_def split: sum.split)

lemma counted_bind: "reading m \<Longrightarrow> (\<And>a. counted (f a)) \<Longrightarrow> counted (bindE m f)"
  unfolding reading_def counted_def wpE_bindE by (blast intro: wpE_mono)

lemma counted_return: "counted m \<Longrightarrow> counted (bindE m (\<lambda>a. returnE (f a)))"
  unfolding counted_def wpE_bindE wpE_returnE by simp

lemma counted_install: "counted (bindE (set_database d) (\<lambda>_. mark_changed_op))"
  by (auto simp: counted_def set_database_def mark_changed_op_def wp_simps changed_once_def)

lemma counted_install_return: "counted (bindE (set_database d) (\<lambda>_. bindE mark_changed_op (\<lambda>_. returnE a)))"
  by (auto simp: counted_def set_database_def mark_changed_op_def wp_simps changed_once_def)

lemma counted_install_reading:
  "reading m \<Longrightarrow> (\<And>doc. wpE m (\<lambda>_ _. True) (\<lambda>_ _. False) doc) \<Longrightarrow>
   counted (bindE (set_database d) (\<lambda>_. bindE mark_changed_op (\<lambda>_. m)))"
  unfolding counted_def reading_def set_database_def mark_changed_op_def wp_simps changed_once_def
  by (auto intro: wpE_mono [OF wpE_conj])

lemma counted_if [intro]: "(c \<Longrightarrow> counted m) \<Longrightarrow> (\<not> c \<Longrightarrow> counted m') \<Longrightarrow> counted (if c then m else m')"
  by simp

lemma counted_option [intro]:
  "(x = None \<Longrightarrow> counted m) \<Longrightarrow> (\<And>y. x = Some y \<Longrightarrow> counted (f y)) \<Longrightarrow>
   counted (case x of None \<Rightarrow> m | Some y \<Rightarrow> f y)"
  by (cases x) simp_all

lemma counted_prod: "(\<And>a b. counted (f a b)) \<Longrightarrow> counted (case x of (a, b) \<Rightarrow> f a b)"
  by (cases x) simp

lemma counted_icon:
  "(\<And>n. counted (f n)) \<Longrightarrow> (\<And>k. counted (g k)) \<Longrightarrow> counted (case i of BuiltIn n \<Rightarrow> f n | CustomIconRef k \<Rightarrow> g k)"
  by (cases i) simp_all

lemma counted_install_if: "counted (install_if changed candidate)"
  by (simp add: install_if_def counted_install counted_reading)

lemma counted_finish_tracked:
  assumes "tracking_laws kl"
  shows "counted (finish_tracked kl i edits)"
proof -
  have step: "\<exists>d. enforce_history_policy_for_entry (kl_kp kl) i (doc\<lparr>kd_database := kl_tracked kl i edits (kd_database doc)\<rparr>) =
      Inr (doc\<lparr>kd_database := d\<rparr>)"
    if "kl_entry kl (kd_database doc) i \<noteq> None" for doc
  proof -
    have "kl_entry kl (kl_tracked kl i edits (kd_database doc)) i \<noteq> None"
      using assms that unfolding tracking_laws_def by blast
    then show ?thesis by (auto simp: enforce_history_policy_for_entry_def split: option.split)
  qed
  show ?thesis
    unfolding counted_def
  proof
    fix doc :: "'a KdbxDocument"
    show "wpE (finish_tracked kl i edits) (\<lambda>_ doc'. doc' = doc \<or> changed_once doc doc') (\<lambda>_ doc'. doc' = doc) doc"
    proof (cases "kl_entry kl (kd_database doc) i")
      case None
      then show ?thesis by (simp add: finish_tracked_def database_def wp_simps)
    next
      case (Some e)
      with step [of doc] obtain d where "enforce_history_policy_for_entry (kl_kp kl) i
          (doc\<lparr>kd_database := kl_tracked kl i edits (kd_database doc)\<rparr>) = Inr (doc\<lparr>kd_database := d\<rparr>)" by auto
      with Some show ?thesis
        by (auto simp: finish_tracked_def database_def set_database_def mark_changed_op_def wp_simps changed_once_def)
    qed
  qed
qed

lemmas counted_intros = counted_bind counted_install counted_install_return counted_install_if counted_prod
  counted_if counted_option counted_icon counted_finish_tracked counted_simple

lemma counted_fields:
  assumes "tracking_laws kl"
  shows "counted (set_standard_field kl i field value policy)"
    and "counted (set_entry_custom_field kl i name value protection)"
    and "counted (delete_entry_custom_field kl i name)"
  unfolding set_standard_field_def set_entry_custom_field_def delete_entry_custom_field_def
  by (intro counted_intros assms reading_simple)+

lemma counted_entries:
  assumes "tracking_laws kl"
  shows "counted (create_entry_with_notes kl fresh p input notes)" and "counted (permanently_delete_entry kl i)"
    and "counted (move_entry kl now i g)" and "counted (update_entry kl ta now now' i u)"
    and "counted (set_entry_tags kl now i tags)" and "counted (restore_entry_history kl i index expected)"
    and "counted (add_entry_attachment kl i name data)" and "counted (set_entry_custom_icon_png kl i data)"
  unfolding create_entry_with_notes_def permanently_delete_entry_def move_entry_def update_entry_def
    set_entry_tags_def restore_entry_history_def add_entry_attachment_def set_entry_custom_icon_png_def Let_def
  by (intro counted_intros assms reading_simple)+

lemma counted_groups:
  "counted (create_group kl fresh p name)" "counted (rename_group kl i name)" "counted (move_group kl i p)"
  "counted (permanently_delete_group kl i)"
  unfolding create_group_def rename_group_def move_group_def permanently_delete_group_def Let_def
  by (intro counted_intros reading_simple)+

lemma counted_recycle:
  assumes "tracking_laws kl"
  shows "counted (trash_entry kl now now' fresh i)" and "counted (restore_entry kl now i)"
    and "counted (permanently_delete_recycled_entry kl i)" and "counted (trash_group kl now now' fresh i)"
    and "counted (restore_group kl now i)" and "counted (permanently_delete_recycled_group kl i)"
    and "counted (move_entries kl now es g)" and "counted (trash_entries kl now now' fresh es)"
    and "counted (restore_entries kl now es)" and "counted (permanently_delete_recycled_entries kl es)"
  unfolding trash_entry_def restore_entry_def permanently_delete_recycled_entry_def trash_group_def
    restore_group_def permanently_delete_recycled_group_def move_entries_def trash_entries_def
    restore_entries_def permanently_delete_recycled_entries_def Let_def
  by (intro counted_intros counted_entries counted_groups assms reading_simple)+

lemma counted_settings:
  "counted (bindE (update_database_metadata kl now name description user) (\<lambda>_. returnE r))"
  "counted (on_document (set_history_max_items kp time max_items))" "counted (set_recycle_bin_enabled kl now enabled)"
  by (auto simp: counted_def update_database_metadata_def set_history_max_items_def set_recycle_bin_enabled_def database_def
      set_database_def mark_changed_op_def changed_once_def wp_simps Let_def ok_or_def split: option.split)

lemma counted_duplicate:
  assumes "tracking_laws kl" and "icon_available kl (kd_database doc) (DuplicateEntry i)"
  shows "counted_at doc (with_id (duplicate_entry kl fresh i))"
proof (cases "located_entry kl (kd_database doc) i")
  case (Inr je)
  then obtain j e where je: "located_entry kl (kd_database doc) i = Inr (j, e)" by (cases je) simp
  with assms(2) have icon: "\<not> unavailable_icon (kl_kp kl) (kd_database doc) (e_icon (es_entry e))"
    by (simp add: icon_available_def)
  have "kp_set_entry_icon (kl_kp kl) fresh (e_icon (es_entry e)) (kp_update_entry (kl_kp kl) fresh
      (copy_entry (es_entry e)) (kl_new_entry kl fresh (es_parent e) (kd_database doc))) \<noteq> None"
    using assms(1) icon unfolding tracking_laws_def by blast
  with je show ?thesis
    unfolding counted_at_def with_id_def duplicate_entry_def
    by (auto simp: find_located_def database_def set_database_def mark_changed_op_def wp_simps changed_once_def ok_or_def
        split: option.split)
qed (simp add: counted_at_def with_id_def duplicate_entry_def find_located_def database_def wp_simps)

lemma counted_document_edit:
  assumes "tracking_laws kl" and "icon_available kl (kd_database doc) request"
  shows "counted_at doc (document_edit kl ta draws request)"
proof (cases "\<exists>i. request = DuplicateEntry i")
  case True
  with assms counted_duplicate show ?thesis by (auto simp: document_edit_def)
next
  case False
  have "counted (document_edit kl ta draws request)"
    unfolding document_edit_def Let_def with_id_def without_id_def using False
    by (cases request) (simp_all add: counted_return counted_fields counted_entries counted_groups counted_recycle counted_settings assms)
  then show ?thesis by (rule countedD)
qed

end
