(* ===== verification/Reference_Library.thy ===== *)
theory Reference_Library
  imports Session_Edits Reference_Database "HOL-Library.Countable"
begin

section \<open>A concrete library\<close>

text \<open>
  The database of \<open>Reference_Database\<close> with readings for its values: a value is a number, \<open>0\<close> the
  default of its type. A tracked edit applies its calls and puts the previous state on the history.
\<close>

definition enc :: "'a::countable \<Rightarrow> nat" where "enc x = Suc (to_nat x)"
definition dec :: "'a::countable \<Rightarrow> nat \<Rightarrow> 'a" where "dec absent v = (case v of 0 \<Rightarrow> absent | Suc n \<Rightarrow> from_nat n)"

lemma dec_enc [simp]: "dec x (enc y) = y" "dec x 0 = x"
  by (simp_all add: enc_def dec_def)

primrec ref_edit :: "nat entry_edit \<Rightarrow> nat EntryState \<Rightarrow> nat EntryState" where
  "ref_edit (SetProtected name value) e = es_entry_update (e_fields_update (fmupd name (enc (True, value)))) e"
| "ref_edit (SetUnprotected name value) e = es_entry_update (e_fields_update (fmupd name (enc (False, value)))) e"
| "ref_edit (RemoveField name) e = es_entry_update (e_fields_update (fmdrop name)) e"
| "ref_edit (EditEntry f) e = es_entry_update f e"
| "ref_edit (SetEntryIcon icon) e = es_entry_update (e_icon_update (\<lambda>_. icon)) e"
| "ref_edit (NewCustomIcon data) e = e"
| "ref_edit (AddAttachment name value) e = es_attachments_update (fmupd name value) e"

definition ref_tracked :: "128 word \<Rightarrow> nat entry_edit list \<Rightarrow> ref_db \<Rightarrow> ref_db" where
  "ref_tracked i edits d = d\<lparr>rd_entries := at_key i (\<lambda>e. es_entry_update (\<lambda>n. n\<lparr>e_history :=
     Some (HistoricalEntry.truncate (es_entry e) # (case e_history (es_entry e) of None \<Rightarrow> [] | Some h \<Rightarrow> h))\<rparr>)
     (fold ref_edit edits e)) (rd_entries d)\<rparr>"

primrec ref_tree :: "nat \<Rightarrow> ref_db \<Rightarrow> 128 word \<Rightarrow> group_tree" where
  "ref_tree 0 d i = GroupNode i [] []"
| "ref_tree (Suc n) d i = (case map_of (rd_groups d) i of
     None \<Rightarrow> GroupNode i [] []
   | Some g \<Rightarrow> GroupNode i (map (ref_tree n d) (gs_child_groups g)) (gs_child_entries g))"

definition ref_new_in :: "(128 word \<Rightarrow> 128 word \<Rightarrow> ref_db \<Rightarrow> ref_db option) \<Rightarrow> 128 word \<Rightarrow> 128 word \<Rightarrow> ref_db \<Rightarrow> ref_db" where
  "ref_new_in add fresh p d = (case add p fresh d of None \<Rightarrow> d | Some d' \<Rightarrow> d')"

definition ref_empty_db :: ref_db where
  "ref_empty_db = \<lparr>rd_config = 0, rd_meta = ref_meta, rd_deleted = fmempty,
     rd_groups = [(1, \<lparr>gs_group = ref_new_group 1, gs_parent = None, gs_previous_parent = None,
       gs_child_groups = [], gs_child_entries = []\<rparr>)], rd_entries = []\<rparr>"

definition ref_lib :: "(ref_db, nat) kdbx_lib" where
  "ref_lib = \<lparr>kl_kp = ref_keepass, kl_field = dec (False, []), kl_field_value = enc,
     kl_strings = dec [], kl_strings_value = enc, kl_name = dec [], kl_name_value = enc,
     kl_text = dec None, kl_text_value = enc, kl_flag = dec None, kl_flag_value = enc,
     kl_uuid = (\<lambda>v. map_option word_of_nat (dec None v)), kl_uuid_value = (\<lambda>u. enc (map_option unat u)),
     kl_time_value = enc, kl_datetime = dec 0, kl_datetime_value = (\<lambda>s. Some (enc s)), kl_epoch = enc (0 :: int),
     kl_memory_protection = (\<lambda>_. None), kl_tree = (\<lambda>d. ref_tree (length (rd_groups d)) d (kp_root ref_keepass d)),
     kl_tracked = ref_tracked,
     kl_tracked_remove_entry = (\<lambda>i d. kp_insert_deleted ref_keepass i (Some 0) (ref_remove_entry i d)),
     kl_tracked_edit_group = kp_update_group ref_keepass,
     kl_tracked_move_group = (\<lambda>g p d. case ref_move_group g p d of None \<Rightarrow> Inl WouldCreateCycle | Some d' \<Rightarrow> Inr d'),
     kl_tracked_remove_group = (\<lambda>g d. Some (ref_remove_group g d)),
     kl_new_entry = ref_new_in ref_add_entry, kl_new_group = ref_new_in ref_add_group,
     kl_known_fields = [''Title'', ''UserName'', ''Password'', ''URL'', ''Notes'', ''otp''],
     kl_title = ''Title'', kl_username = ''UserName'', kl_password = ''Password'', kl_url = ''URL'', kl_notes = ''Notes'',
     kl_new_database = ref_empty_db, kl_new_version = Some (Kdbx4 1)\<rparr>"

lemma ref_tracking_laws: "tracking_laws ref_lib"
  unfolding tracking_laws_def
  by (auto simp: ref_lib_def ref_tracked_def ref_keepass_def map_of_at_key unavailable_icon_def split: Icon.splits option.splits)

definition ref_totp :: totp_api where
  "ref_totp = \<lparr>ta_scheme_host = (\<lambda>_. None), ta_parse = (\<lambda>_. None), ta_query_url = (\<lambda>_ _. None), ta_form_pairs = (\<lambda>_. [])\<rparr>"

definition ref_draws :: edit_supply where
  "ref_draws = \<lparr>sup_fresh = 9, sup_now = Some 5, sup_later = Some 6\<rparr>"

end
