(* ===== verification/Recycle_Facts.thy ===== *)
theory Recycle_Facts
  imports Reference_Library
begin

section \<open>Recycling and restoring\<close>

text \<open>
  What the operations on the recycle bin do to an entry, from what the database crate promises about
  moving entries, adding groups and setting metadata.
\<close>

definition same_parents :: "('d, 'v) kdbx_lib \<Rightarrow> 'd \<Rightarrow> 'd \<Rightarrow> bool" where
  "same_parents kl d d' \<longleftrightarrow> (\<forall>g. map_option gs_parent (kl_group kl d' g) = map_option gs_parent (kl_group kl d g))"

definition move_laws :: "('d, 'v) kdbx_lib \<Rightarrow> bool" where
  "move_laws kl \<longleftrightarrow> (\<forall>d i p e. kl_entry kl d i = Some e \<longrightarrow> kl_group kl d p \<noteq> None \<longrightarrow>
     (\<exists>d' e'. kp_move_entry (kl_kp kl) i p d = Some d' \<and> kl_entry kl d' i = Some e' \<and> es_parent e' = p \<and>
        es_previous_parent e' = Some (es_parent e) \<and> es_entry e' = es_entry e \<and> es_attachments e' = es_attachments e \<and>
        same_parents kl d d' \<and> kp_meta (kl_kp kl) d' = kp_meta (kl_kp kl) d \<and> kp_entries (kl_kp kl) d' = kp_entries (kl_kp kl) d))"

definition touch_laws :: "('d, 'v) kdbx_lib \<Rightarrow> bool" where
  "touch_laws kl \<longleftrightarrow> (\<forall>d i f e. kl_entry kl d i = Some e \<longrightarrow>
     kl_entry kl (kp_update_entry (kl_kp kl) i f d) i = Some (es_entry_update f e) \<and>
     same_parents kl d (kp_update_entry (kl_kp kl) i f d) \<and>
     kp_meta (kl_kp kl) (kp_update_entry (kl_kp kl) i f d) = kp_meta (kl_kp kl) d \<and>
     kp_entries (kl_kp kl) (kp_update_entry (kl_kp kl) i f d) = kp_entries (kl_kp kl) d)"

definition bin_laws :: "('d, 'v) kdbx_lib \<Rightarrow> bool" where
  "bin_laws kl \<longleftrightarrow> (\<forall>u. kl_uuid kl (kl_uuid_value kl u) = u) \<and>
     (\<forall>d m. kp_meta (kl_kp kl) (kp_set_meta (kl_kp kl) m d) = m \<and> kl_group kl (kp_set_meta (kl_kp kl) m d) = kl_group kl d \<and>
        kl_entry kl (kp_set_meta (kl_kp kl) m d) = kl_entry kl d \<and> kp_entries (kl_kp kl) (kp_set_meta (kl_kp kl) m d) = kp_entries (kl_kp kl) d) \<and>
     (\<forall>d g f. same_parents kl d (kp_update_group (kl_kp kl) g f d) \<and> kl_entry kl (kp_update_group (kl_kp kl) g f d) = kl_entry kl d \<and>
        kp_entries (kl_kp kl) (kp_update_group (kl_kp kl) g f d) = kp_entries (kl_kp kl) d) \<and>
     (\<forall>d fresh p. kl_group kl d p \<noteq> None \<longrightarrow> kl_group kl (kl_new_group kl fresh p d) fresh \<noteq> None \<and>
        (\<forall>g. kl_group kl d g \<noteq> None \<longrightarrow> kl_group kl (kl_new_group kl fresh p d) g \<noteq> None) \<and>
        kl_entry kl (kl_new_group kl fresh p d) = kl_entry kl d \<and> kp_entries (kl_kp kl) (kl_new_group kl fresh p d) = kp_entries (kl_kp kl) d)"

lemma same_parents_group: "same_parents kl d d' \<Longrightarrow> kl_group kl d' g = None \<longleftrightarrow> kl_group kl d g = None"
  unfolding same_parents_def by (metis map_option_is_None)

lemma same_parents_trans: "same_parents kl d d' \<Longrightarrow> same_parents kl d' d'' \<Longrightarrow> same_parents kl d d''"
  by (simp add: same_parents_def)

lemma same_parents_bind: "same_parents kl d d' \<Longrightarrow> Option.bind (kl_group kl d' g) gs_parent = Option.bind (kl_group kl d g) gs_parent"
  unfolding same_parents_def by (cases "kl_group kl d g"; cases "kl_group kl d' g") (auto dest!: spec [where x = g])

text \<open>The walk to the root only reads parents.\<close>

lemma in_recycle_bin_same_parents:
  assumes "same_parents kl d d'"
  shows "in_recycle_bin_from kl d' seen recycle cur = in_recycle_bin_from kl d seen recycle cur"
  using same_parents_bind [OF assms]
  by (induction kl d seen recycle cur rule: in_recycle_bin_from.induct) (simp_all del: in_recycle_bin_from.simps(2) add: in_recycle_bin_from.simps(2))

lemma group_is_in_recycle_bin_same_parents:
  "same_parents kl d d' \<Longrightarrow> group_is_in_recycle_bin kl d' g recycle = group_is_in_recycle_bin kl d g recycle"
  unfolding group_is_in_recycle_bin_def by (simp only: in_recycle_bin_same_parents)

lemma group_is_in_recycle_bin_self [simp]: "group_is_in_recycle_bin kl d recycle recycle"
  by (simp add: group_is_in_recycle_bin_def)

lemma recycle_bin_id_group: "recycle_bin_id kl d = Some r \<Longrightarrow> kl_group kl d r \<noteq> None"
  by (auto simp: recycle_bin_id_def bind_eq_Some_conv)

lemma recycle_bin_id_same:
  assumes "same_parents kl d d'" and "kp_meta (kl_kp kl) d' = kp_meta (kl_kp kl) d"
  shows "recycle_bin_id kl d' = recycle_bin_id kl d"
proof -
  have "map_option (\<lambda>_. i) (kl_group kl d' i) = map_option (\<lambda>_. i) (kl_group kl d i)" for i
    using same_parents_group [OF assms(1), of i] by (cases "kl_group kl d i"; cases "kl_group kl d' i") simp_all
  then show ?thesis unfolding recycle_bin_id_def assms(2) by simp
qed

text \<open>The bin that \<open>ensure_recycle_bin\<close> returns is the bin of the database it returns.\<close>

lemma ensure_recycle_bin_spec:
  assumes laws: "bin_laws kl" and root: "kl_group kl d (kp_root (kl_kp kl) d) \<noteq> None"
    and run: "ensure_recycle_bin kl now fresh d = Inr (r, d')"
  shows "recycle_bin_id kl d' = Some r" and "kl_entry kl d' = kl_entry kl d"
    and "kp_entries (kl_kp kl) d' = kp_entries (kl_kp kl) d"
    and "kl_group kl d g \<noteq> None \<Longrightarrow> kl_group kl d' g \<noteq> None"
proof -
  let ?n = "kl_new_group kl fresh (kp_root (kl_kp kl) d) d"
  let ?u = "kp_update_group (kl_kp kl) fresh (\<lambda>g. g\<lparr>g_name := kl_name_value kl ''Recycle Bin''\<rparr>) ?n"
  have u: "same_parents kl ?n ?u" "kl_entry kl ?u = kl_entry kl ?n" "kp_entries (kl_kp kl) ?u = kp_entries (kl_kp kl) ?n"
    using laws unfolding bin_laws_def by blast+
  have n: "kl_group kl ?n fresh \<noteq> None" "kl_entry kl ?n = kl_entry kl d" "kp_entries (kl_kp kl) ?n = kp_entries (kl_kp kl) d"
    "\<And>g. kl_group kl d g \<noteq> None \<Longrightarrow> kl_group kl ?n g \<noteq> None"
    using laws root unfolding bin_laws_def by blast+
  have meta: "kp_meta (kl_kp kl) (kp_set_meta (kl_kp kl) m e) = m" "kl_group kl (kp_set_meta (kl_kp kl) m e) = kl_group kl e"
    "kl_entry kl (kp_set_meta (kl_kp kl) m e) = kl_entry kl e"
    "kp_entries (kl_kp kl) (kp_set_meta (kl_kp kl) m e) = kp_entries (kl_kp kl) e" "kl_uuid kl (kl_uuid_value kl v) = v" for m e v
    using laws unfolding bin_laws_def by blast+
  have "recycle_bin_id kl d' = Some r \<and> kl_entry kl d' = kl_entry kl d \<and> kp_entries (kl_kp kl) d' = kp_entries (kl_kp kl) d \<and>
      (kl_group kl d g \<noteq> None \<longrightarrow> kl_group kl d' g \<noteq> None)"
  proof (cases "recycle_bin_id kl d")
    case None
    with run have "r = fresh" "d' = kp_set_meta (kl_kp kl) ((kp_meta (kl_kp kl) ?u)\<lparr>
        m_recyclebin_enabled := kl_flag_value kl (Some True), m_recyclebin_uuid := kl_uuid_value kl (Some fresh),
        m_recyclebin_changed := kl_time_value kl now\<rparr>) ?u"
      by (auto simp: ensure_recycle_bin_def Let_def split: if_splits)
    moreover have "kl_group kl ?u g \<noteq> None" if "kl_group kl ?n g \<noteq> None" for g
      using same_parents_group [OF u(1)] that by simp
    ultimately show ?thesis
      using u(2,3) n meta n(1) n(4) by (fastforce simp: recycle_bin_id_def)
  next
    case (Some i)
    with run show ?thesis by (auto simp: ensure_recycle_bin_def Let_def split: if_splits)
  qed
  then show "recycle_bin_id kl d' = Some r" "kl_entry kl d' = kl_entry kl d" "kp_entries (kl_kp kl) d' = kp_entries (kl_kp kl) d"
    "kl_group kl d g \<noteq> None \<Longrightarrow> kl_group kl d' g \<noteq> None" by simp_all
qed

text \<open>A move of an entry, as all these operations make it.\<close>

lemma move_entry_to_spec:
  assumes laws: "move_laws kl" "touch_laws kl" and e: "kl_entry kl d j = Some e" and p: "kl_group kl d p \<noteq> None"
  obtains d' where "move_entry_to kl now j p d = Inr d'" and "same_parents kl d d'"
    and "kp_meta (kl_kp kl) d' = kp_meta (kl_kp kl) d" and "kp_entries (kl_kp kl) d' = kp_entries (kl_kp kl) d"
    and "\<exists>e'. kl_entry kl d' j = Some e' \<and> es_parent e' = p \<and> es_previous_parent e' = Some (es_parent e) \<and>
      es_entry e' = set_location_changed now (es_entry e) \<and> es_attachments e' = es_attachments e"
proof -
  obtain d1 e1 where 1: "kp_move_entry (kl_kp kl) j p d = Some d1" "kl_entry kl d1 j = Some e1" "es_parent e1 = p"
    "es_previous_parent e1 = Some (es_parent e)" "es_entry e1 = es_entry e" "es_attachments e1 = es_attachments e"
    "same_parents kl d d1" "kp_meta (kl_kp kl) d1 = kp_meta (kl_kp kl) d" "kp_entries (kl_kp kl) d1 = kp_entries (kl_kp kl) d"
    using laws(1) e p unfolding move_laws_def by blast
  let ?d = "kp_update_entry (kl_kp kl) j (set_location_changed now) d1"
  have 2: "kl_entry kl ?d j = Some (es_entry_update (set_location_changed now) e1)" "same_parents kl d1 ?d"
    "kp_meta (kl_kp kl) ?d = kp_meta (kl_kp kl) d1" "kp_entries (kl_kp kl) ?d = kp_entries (kl_kp kl) d1"
    using laws(2) 1(2) unfolding touch_laws_def by blast+
  have "move_entry_to kl now j p d = Inr ?d" using e 1(1) by (simp add: move_entry_to_def)
  with that [of ?d] 1 2 show thesis by (simp add: same_parents_trans [OF 1(7) 2(2)])
qed

end
