(* ===== verification/Editing_Properties.thy ===== *)
theory Editing_Properties
  imports Recycle_Facts
begin

section \<open>Properties of editing\<close>

text \<open>
  Sequences of edits on a session, which never make a changed document look saved, and the way into the
  recycle bin and back.
\<close>

subsection \<open>Sequences of edits\<close>

fun run_edits ::
    "('d, 'v) kdbx_lib \<Rightarrow> totp_api \<Rightarrow> (edit_supply \<times> session_edit) list \<Rightarrow> 'd VaultSession \<Rightarrow> 'd VaultSession" where
  "run_edits kl ta [] s = s"
| "run_edits kl ta ((draws, request) # rest) s = run_edits kl ta rest (snd (apply_edit kl ta draws request s))"

fun icons_available_along ::
    "('d, 'v) kdbx_lib \<Rightarrow> totp_api \<Rightarrow> (edit_supply \<times> session_edit) list \<Rightarrow> 'd VaultSession \<Rightarrow> bool" where
  "icons_available_along kl ta [] s = True"
| "icons_available_along kl ta ((draws, request) # rest) s =
     (icon_available kl (kd_database (vs_document s)) request \<and>
      icons_available_along kl ta rest (snd (apply_edit kl ta draws request s)))"

lemma apply_edit_counted:
  assumes "tracking_laws kl" and "icon_available kl (kd_database (vs_document s)) request"
  shows "\<exists>doc. snd (apply_edit kl ta draws request s) = s\<lparr>vs_document := doc\<rparr> \<and>
    (doc = vs_document s \<or> changed_once (vs_document s) doc)"
proof -
  let ?m = "document_edit kl ta draws request" and ?doc = "vs_document s"
  have "counted_at ?doc ?m" by (rule counted_document_edit [OF assms])
  then have "snd (?m ?doc) = ?doc \<or> changed_once ?doc (snd (?m ?doc))"
    by (auto simp: counted_at_def wpE_def split: prod.splits sum.splits)
  then show ?thesis by (auto simp: apply_edit_def split: prod.split)
qed

text \<open>Dirty against a saved revision that the counter has reached.\<close>

definition ahead :: "64 word \<Rightarrow> 'd KdbxDocument \<Rightarrow> bool" where
  "ahead saved doc \<longleftrightarrow> saved \<le> kd_revision doc \<and> has_changes_since doc saved"

lemma ahead_database [simp]: "ahead saved (doc\<lparr>kd_database := d\<rparr>) = ahead saved doc"
  by (simp add: ahead_def has_changes_since_def)

lemma ahead_changed_once:
  assumes "changed_once doc doc'" and "saved \<le> kd_revision doc"
    and "ahead saved doc \<or> kd_revision doc = saved"
  shows "ahead saved doc'"
proof -
  obtain d where d: "doc' = mark_changed (doc\<lparr>kd_database := d\<rparr>)" using assms(1) by (auto simp: changed_once_def)
  let ?doc = "doc\<lparr>kd_database := d\<rparr>"
  show ?thesis
  proof (cases "ahead saved doc")
    case True
    then show ?thesis
      using mark_changed_stays_dirty [of saved ?doc 1] by (simp add: d ahead_def has_changes_since_def)
  next
    case False
    with assms(3) have "kd_revision ?doc = saved" by simp
    then show ?thesis
      using mark_changed_monotone(1) [of ?doc] by (auto simp: d ahead_def has_changes_since_def mark_changed_def)
  qed
qed

lemma run_edits_ahead:
  assumes "tracking_laws kl" and "icons_available_along kl ta steps s" and "ahead (vs_saved_revision s) (vs_document s)"
  shows "ahead (vs_saved_revision s) (vs_document (run_edits kl ta steps s)) \<and>
    vs_saved_revision (run_edits kl ta steps s) = vs_saved_revision s"
  using assms(2,3)
proof (induction steps arbitrary: s)
  case (Cons step steps)
  obtain draws request where step: "step = (draws, request)" by fastforce
  let ?t = "snd (apply_edit kl ta draws request s)"
  obtain doc where t: "?t = s\<lparr>vs_document := doc\<rparr>" "doc = vs_document s \<or> changed_once (vs_document s) doc"
    using apply_edit_counted [OF assms(1), of s request ta draws] Cons.prems(1) step by auto
  then have "ahead (vs_saved_revision ?t) (vs_document ?t)"
    using Cons.prems(2) ahead_changed_once [of "vs_document s" doc "vs_saved_revision s"] by (auto simp: ahead_def)
  with Cons.IH [of ?t] Cons.prems(1) t(1) show ?case by (simp add: step)
qed simp

lemma run_edits_cases:
  assumes "tracking_laws kl" and "icons_available_along kl ta steps s" and "kd_revision (vs_document s) = vs_saved_revision s"
  shows "vs_saved_revision (run_edits kl ta steps s) = vs_saved_revision s \<and>
    (ahead (vs_saved_revision s) (vs_document (run_edits kl ta steps s)) \<or> run_edits kl ta steps s = s)"
  using assms(2,3)
proof (induction steps arbitrary: s)
  case (Cons step steps)
  obtain draws request where step: "step = (draws, request)" by fastforce
  let ?t = "snd (apply_edit kl ta draws request s)"
  obtain doc where t: "?t = s\<lparr>vs_document := doc\<rparr>" "doc = vs_document s \<or> changed_once (vs_document s) doc"
    using apply_edit_counted [OF assms(1), of s request ta draws] Cons.prems(1) step by auto
  show ?case
  proof (cases "doc = vs_document s")
    case True
    with t(1) have "?t = s" by simp
    with Cons.IH [of s] Cons.prems step show ?thesis by simp
  next
    case False
    then have "ahead (vs_saved_revision ?t) (vs_document ?t)"
      using t ahead_changed_once [of "vs_document s" doc "vs_saved_revision s"] Cons.prems(2) by simp
    with run_edits_ahead [OF assms(1), of ta steps ?t] Cons.prems(1) t(1) show ?thesis by (simp add: step)
  qed
qed simp

text \<open>
  C10: an edit is never lost to a session that looks saved. Whatever sequence of edits of entries, groups
  and settings runs on a saved session, with whatever errors, either the session is modified afterwards,
  so that it can only be locked or synchronized after a save, or the document is exactly the one that was
  saved. One kind of request is excluded: duplicating an entry whose custom icon is missing from the
  database at that moment (see the next theorem). The database crate is assumed to keep an entry
  that it edits and to accept an icon that it has.
\<close>

theorem edits_never_look_saved:
  assumes "tracking_laws kl" and "icons_available_along kl ta steps s" and "\<not> is_dirty s"
  shows "is_dirty (run_edits kl ta steps s) \<or> vs_document (run_edits kl ta steps s) = vs_document s"
proof -
  have "kd_revision (vs_document s) = vs_saved_revision s"
    using assms(3) by (simp add: is_dirty_def has_changes_since_def)
  from run_edits_cases [OF assms(1,2) this] show ?thesis by (auto simp: is_dirty_def ahead_def)
qed

definition ref_edit_session :: "ref_db VaultSession" where
  "ref_edit_session = \<lparr>vs_path = ''/v'', vs_document = new_document ref_lib ''vault'',
     vs_source_fingerprint = \<lparr>fp_size = 0, fp_sha256 = []\<rparr>, vs_saved_revision = 0\<rparr>"

theorem edits_never_look_saved_witness:
  "is_dirty (run_edits ref_lib ref_totp [(ref_draws, CreateGroup (kl_id_string ref_lib 1) ''g'')] ref_edit_session)"
proof -
  let ?steps = "[(ref_draws, CreateGroup (kl_id_string ref_lib 1) ''g'')]"
  have "\<not> is_dirty ref_edit_session"
    by (simp add: is_dirty_def has_changes_since_def ref_edit_session_def new_document_def Let_def)
  moreover have "icons_available_along ref_lib ref_totp ?steps ref_edit_session"
    by (simp add: icon_available_def)
  ultimately have "is_dirty (run_edits ref_lib ref_totp ?steps ref_edit_session) \<or>
      vs_document (run_edits ref_lib ref_totp ?steps ref_edit_session) = vs_document ref_edit_session"
    by (intro edits_never_look_saved ref_tracking_laws)
  moreover have "kd_revision (vs_document (run_edits ref_lib ref_totp ?steps ref_edit_session)) = 1"
  proof -
    have "find_group_id ref_lib (kd_database (vs_document ref_edit_session)) (kl_id_string ref_lib 1) = Inr 1"
      by (simp add: find_group_id_def ref_edit_session_def new_document_def ref_lib_def ref_keepass_def ref_empty_db_def
          at_key_def Let_def)
    moreover have "kl_group ref_lib (kd_database (vs_document ref_edit_session)) 1 \<noteq> None"
      by (simp add: ref_edit_session_def new_document_def ref_lib_def ref_keepass_def ref_empty_db_def at_key_def Let_def)
    ultimately have "kd_revision (vs_document (snd (apply_edit ref_lib ref_totp ref_draws
        (CreateGroup (kl_id_string ref_lib 1) ''g'') ref_edit_session))) = 1"
      by (auto simp: apply_edit_def document_edit_def with_id_def create_group_def op_defs database_def
        set_database_def mark_changed_op_def mark_changed_def) (simp_all add: ref_edit_session_def new_document_def Let_def)
    then show ?thesis by simp
  qed
  moreover have "kd_revision (vs_document ref_edit_session) = 0"
    by (simp add: ref_edit_session_def new_document_def Let_def)
  ultimately show ?thesis by auto
qed

text \<open>
  What the database crate does with a new entry: the entry is there at once, icons stay as they are, and
  an icon that the database lacks cannot be assigned.
\<close>

definition duplication_laws :: "('d, 'v) kdbx_lib \<Rightarrow> bool" where
  "duplication_laws kl \<longleftrightarrow>
     (\<forall>d fresh p. kl_group kl d p \<noteq> None \<longrightarrow> kl_entry kl d fresh = None \<longrightarrow> kl_entry kl (kl_new_entry kl fresh p d) fresh \<noteq> None) \<and>
     (\<forall>d i f e. kl_entry kl d i = Some e \<longrightarrow> kl_entry kl (kp_update_entry (kl_kp kl) i f d) i = Some (es_entry_update f e)) \<and>
     (\<forall>d fresh p f k. kp_icon (kl_kp kl) (kp_update_entry (kl_kp kl) fresh f (kl_new_entry kl fresh p d)) k = kp_icon (kl_kp kl) d k) \<and>
     (\<forall>d i k. kp_icon (kl_kp kl) d k = None \<longrightarrow> kp_set_entry_icon (kl_kp kl) i (Some (CustomIconRef k)) d = None)"

text \<open>
  C39: duplicating an entry whose custom icon is missing leaves a copy behind that looks saved. The
  request fails with an error, but the copy, with all fields of the entry, is in the document, and the
  session counts as modified exactly if it did before: after a save, the copy is dropped silently by a
  lock, and written by the next save of anything else.
\<close>

theorem duplicate_with_missing_icon_looks_saved:
  assumes "duplication_laws kl" and "located_entry kl (kd_database (vs_document s)) i = Inr (j, e)"
    and "kl_group kl (kd_database (vs_document s)) (es_parent e) \<noteq> None" and "e_icon (es_entry e) = Some (CustomIconRef k)"
    and "kp_icon (kl_kp kl) (kd_database (vs_document s)) k = None"
    and "kl_entry kl (kd_database (vs_document s)) (sup_fresh draws) = None"
  shows "\<exists>doc e'. apply_edit kl ta draws (DuplicateEntry i) s =
      (Inl (Kdbx (Conversion ''entry custom icon was missing'')), s\<lparr>vs_document := doc\<rparr>) \<and>
    is_dirty (s\<lparr>vs_document := doc\<rparr>) = is_dirty s \<and>
    kl_entry kl (kd_database doc) (sup_fresh draws) = Some e' \<and> e_fields (es_entry e') = e_fields (es_entry e)"
proof -
  let ?d = "kd_database (vs_document s)" and ?fresh = "sup_fresh draws"
  let ?d' = "kp_update_entry (kl_kp kl) ?fresh (copy_entry (es_entry e)) (kl_new_entry kl ?fresh (es_parent e) ?d)"
  from assms(1,3,6) obtain n where "kl_entry kl (kl_new_entry kl ?fresh (es_parent e) ?d) ?fresh = Some n"
    unfolding duplication_laws_def by blast
  with assms(1) have copy: "kl_entry kl ?d' ?fresh = Some (es_entry_update (copy_entry (es_entry e)) n)"
    unfolding duplication_laws_def by blast
  have "kp_set_entry_icon (kl_kp kl) ?fresh (Some (CustomIconRef k)) ?d' = None"
    using assms(1,5) unfolding duplication_laws_def by simp
  with assms(2-4) have "apply_edit kl ta draws (DuplicateEntry i) s =
      (Inl (Kdbx (Conversion ''entry custom icon was missing'')), s\<lparr>vs_document := (vs_document s)\<lparr>kd_database := ?d'\<rparr>\<rparr>)"
    by (auto simp: apply_edit_def document_edit_def Let_def with_id_def duplicate_entry_def find_located_def database_def
        set_database_def op_defs ok_or_def map_err_def)
  with copy show ?thesis
    by (intro exI [of _ "(vs_document s)\<lparr>kd_database := ?d'\<rparr>"] exI [of _ "es_entry_update (copy_entry (es_entry e)) n"])
      (simp add: is_dirty_def has_changes_since_def copy_entry_def)
qed

lemma ref_duplication_laws: "duplication_laws ref_lib"
  unfolding duplication_laws_def
  by (auto simp: ref_lib_def ref_keepass_def ref_new_in_def ref_add_entry_def map_of_at_key map_add_def split: option.splits)

definition ref_icon_session :: "ref_db VaultSession" where
  "ref_icon_session = ref_edit_session\<lparr>vs_document := (vs_document ref_edit_session)\<lparr>kd_database :=
     ref_empty_db\<lparr>rd_entries := [(10, \<lparr>es_entry = (ref_new_entry 10)\<lparr>e_icon := Some (CustomIconRef 77)\<rparr>, es_parent = 1,
       es_previous_parent = None, es_attachments = fmempty\<rparr>)]\<rparr>\<rparr>\<rparr>"

theorem duplicate_with_missing_icon_looks_saved_witness:
  "\<exists>doc e'. apply_edit ref_lib ref_totp ref_draws (DuplicateEntry (kl_id_string ref_lib 10)) ref_icon_session =
      (Inl (Kdbx (Conversion ''entry custom icon was missing'')), ref_icon_session\<lparr>vs_document := doc\<rparr>) \<and>
    is_dirty (ref_icon_session\<lparr>vs_document := doc\<rparr>) = is_dirty ref_icon_session \<and> kl_entry ref_lib (kd_database doc) 9 = Some e'"
proof -
  let ?e = "\<lparr>es_entry = (ref_new_entry 10)\<lparr>e_icon := Some (CustomIconRef 77)\<rparr>, es_parent = 1,
       es_previous_parent = None, es_attachments = fmempty\<rparr> :: nat EntryState"
  have "located_entry ref_lib (kd_database (vs_document ref_icon_session)) (kl_id_string ref_lib 10) = Inr (10, ?e)"
    by (simp add: located_entry_def find_entry_id_def ok_or_def ref_icon_session_def ref_lib_def ref_keepass_def)
  from duplicate_with_missing_icon_looks_saved [OF ref_duplication_laws this, of 77 ref_draws ref_totp] show ?thesis
    by (simp add: ref_icon_session_def ref_lib_def ref_keepass_def ref_empty_db_def ref_draws_def) blast
qed

subsection \<open>The recycle bin\<close>

lemma trash_entry_moved:
  assumes "trash_entry kl now now' fresh i doc = (Inr (), doc')" and "doc' \<noteq> doc"
  obtains j r candidate e d' where "find_entry_id kl (kd_database doc) i = Inr j"
    and "ensure_recycle_bin kl now fresh (kd_database doc) = Inr (r, candidate)" and "kl_entry kl candidate j = Some e"
    and "\<not> group_is_in_recycle_bin kl candidate (es_parent e) r"
    and "move_entry_to kl now' j r candidate = Inr d'" and "doc' = mark_changed (doc\<lparr>kd_database := d'\<rparr>)"
  using assms
  by (auto simp: trash_entry_def database_def set_database_def mark_changed_op_def op_defs ok_or_def
      split: sum.splits option.splits prod.splits if_splits)

lemma mark_changed_database [simp]: "kd_database (mark_changed doc) = kd_database doc"
  by (simp add: mark_changed_def)

text \<open>
  C33: the recycle bin gives back what it takes. An entry that \<open>trash_entry\<close> moved into the bin, which
  it may have created, goes back to the group it came from with \<open>restore_entry\<close>, with the content and
  the attachments it had, except for the time of its last relocation.
\<close>

theorem restore_undoes_trash:
  assumes "move_laws kl" and "touch_laws kl" and "bin_laws kl"
    and "trash_entry kl now now' fresh i doc = (Inr (), doc')" and "doc' \<noteq> doc"
    and "located_entry kl (kd_database doc) i = Inr (j, e)"
    and "kl_group kl (kd_database doc) (es_parent e) \<noteq> None"
    and "kl_group kl (kd_database doc) (kp_root (kl_kp kl) (kd_database doc)) \<noteq> None"
  shows "\<exists>doc'' e''. restore_entry kl later i doc' = (Inr (kl_id_string kl (es_parent e)), doc'') \<and>
    kl_entry kl (kd_database doc'') j = Some e'' \<and> es_parent e'' = es_parent e \<and>
    es_entry e'' = set_location_changed later (es_entry e) \<and> es_attachments e'' = es_attachments e"
proof -
  obtain r c d' where run: "find_entry_id kl (kd_database doc) i = Inr j"
      "ensure_recycle_bin kl now fresh (kd_database doc) = Inr (r, c)" "kl_entry kl c j = Some e"
      "\<not> group_is_in_recycle_bin kl c (es_parent e) r" "move_entry_to kl now' j r c = Inr d'"
      "doc' = mark_changed (doc\<lparr>kd_database := d'\<rparr>)"
  proof (rule trash_entry_moved [OF assms(4,5)])
    fix j' r c e' d'
    assume run: "find_entry_id kl (kd_database doc) i = Inr j'" "ensure_recycle_bin kl now fresh (kd_database doc) = Inr (r, c)"
      "kl_entry kl c j' = Some e'" "\<not> group_is_in_recycle_bin kl c (es_parent e') r" "move_entry_to kl now' j' r c = Inr d'"
      "doc' = mark_changed (doc\<lparr>kd_database := d'\<rparr>)"
    moreover have "j' = j" "e' = e"
      using assms(6) run(1,3) ensure_recycle_bin_spec(2) [OF assms(3,8) run(2)] by (auto simp: located_entry_def bindR_Inr_iff)
    ultimately show thesis using that by blast
  qed
  note bin = ensure_recycle_bin_spec [OF assms(3,8) run(2)]
  have p: "kl_group kl c (es_parent e) \<noteq> None" by (rule bin(4) [OF assms(7)])
  obtain e' where d': "same_parents kl c d'" "kp_meta (kl_kp kl) d' = kp_meta (kl_kp kl) c"
      "kp_entries (kl_kp kl) d' = kp_entries (kl_kp kl) c" "kl_entry kl d' j = Some e'" "es_parent e' = r"
      "es_previous_parent e' = Some (es_parent e)" "es_entry e' = set_location_changed now' (es_entry e)"
      "es_attachments e' = es_attachments e"
    using move_entry_to_spec [OF assms(1,2) run(3) recycle_bin_id_group [OF bin(1)], of now'] run(5) by (metis sum.inject(2))
  have p': "kl_group kl d' (es_parent e) \<noteq> None" using same_parents_group [OF d'(1)] p by simp
  obtain d'' where d'': "move_entry_to kl later j (es_parent e) d' = Inr d''"
      "\<exists>e''. kl_entry kl d'' j = Some e'' \<and> es_parent e'' = es_parent e \<and> es_previous_parent e'' = Some r \<and>
        es_entry e'' = set_location_changed later (es_entry e') \<and> es_attachments e'' = es_attachments e'"
    using move_entry_to_spec [OF assms(1,2) d'(4) p', of later] d'(5) by metis
  have dest: "restore_destination kl d' r e' = es_parent e"
    using p' run(4) d'(6) group_is_in_recycle_bin_same_parents [OF d'(1)] by (simp add: restore_destination_def)
  have find: "find_entry_id kl d' i = Inr j" using run(1) bin(3) d'(3) by (simp add: find_entry_id_def)
  have bin': "recycle_bin_id kl d' = Some r" using recycle_bin_id_same [OF d'(1,2)] bin(1) by simp
  have "recycled_entry kl d' r j = Inr e'" using d'(4,5) by (simp add: recycled_entry_def)
  then have "restore_entry kl later i doc' = (Inr (kl_id_string kl (es_parent e)), mark_changed (doc'\<lparr>kd_database := d''\<rparr>))"
    using find bin' dest d''(1)
    by (simp add: restore_entry_def database_def set_database_def mark_changed_op_def op_defs run(6) Let_def)
  with d''(2) d'(7,8) show ?thesis by (auto simp: set_location_changed_def)
qed

text \<open>A vault with one entry in its root group and no bin yet.\<close>

definition ref_entry_state :: "nat EntryState" where
  "ref_entry_state = \<lparr>es_entry = ref_new_entry 2, es_parent = 1, es_previous_parent = None, es_attachments = fmempty\<rparr>"

definition ref_recycle_db :: ref_db where
  "ref_recycle_db = ref_empty_db\<lparr>rd_entries := [(2, ref_entry_state)],
     rd_groups := at_key 1 (gs_child_entries_update (\<lambda>_. [2])) (rd_groups ref_empty_db)\<rparr>"

definition ref_recycle_doc :: "ref_db KdbxDocument" where
  "ref_recycle_doc = \<lparr>kd_version = Kdbx4 1, kd_database = ref_recycle_db, kd_revision = 0, kd_revision_permanently_dirty = False\<rparr>"

lemma ref_same_parents:
  "same_parents ref_lib d d' \<longleftrightarrow> (\<forall>g. map_option gs_parent (map_of (rd_groups d') g) = map_option gs_parent (map_of (rd_groups d) g))"
  by (simp add: same_parents_def ref_lib_def ref_keepass_def)

lemma map_fst_at_key [simp]: "map fst (at_key k f al) = map fst al"
  by (simp add: at_key_def comp_def case_prod_beta)

lemma ref_move_laws: "move_laws ref_lib"
  unfolding move_laws_def ref_same_parents
  by (auto simp: ref_lib_def ref_keepass_def ref_move_entry_def map_of_at_key option.map_comp comp_def split: option.splits)

lemma ref_touch_laws: "touch_laws ref_lib"
  unfolding touch_laws_def ref_same_parents
  by (auto simp: ref_lib_def ref_keepass_def map_of_at_key)

lemma ref_bin_laws: "bin_laws ref_lib"
proof -
  have group_parents: "map_option gs_parent (map_option (gs_group_update f) g) = map_option gs_parent g" for f and g :: "nat GroupState option"
    by (cases g) simp_all
  have "map_of (rd_groups (ref_new_in ref_add_group fresh p d)) g \<noteq> None"
    if "map_of (rd_groups d) p \<noteq> None" and "g = fresh \<or> map_of (rd_groups d) g \<noteq> None" for fresh p d g
    using that by (auto simp: ref_new_in_def ref_add_group_def map_of_at_key map_add_def split: option.splits if_splits)
  moreover have "rd_entries (ref_new_in ref_add_group fresh p d) = rd_entries d" for fresh p d
    by (simp add: ref_new_in_def ref_add_group_def)
  ultimately show ?thesis
    unfolding bin_laws_def ref_same_parents
    by (auto simp: ref_lib_def ref_keepass_def map_of_at_key group_parents option.map_comp comp_def option.map_ident)
qed

lemma ref_trash:
  "\<exists>doc'. trash_entry ref_lib None None 9 (kl_id_string ref_lib 2) ref_recycle_doc = (Inr (), doc') \<and> doc' \<noteq> ref_recycle_doc"
proof -
  have find: "find_entry_id ref_lib ref_recycle_db (kl_id_string ref_lib 2) = Inr 2"
    by (simp add: find_entry_id_def ref_lib_def ref_keepass_def ref_recycle_db_def)
  have root: "kl_group ref_lib ref_recycle_db (kp_root (kl_kp ref_lib) ref_recycle_db) \<noteq> None"
    by (simp add: ref_lib_def ref_keepass_def ref_recycle_db_def ref_empty_db_def at_key_def)
  obtain c where c: "ensure_recycle_bin ref_lib None 9 ref_recycle_db = Inr (9, c)"
      "map_of (rd_groups c) 1 \<noteq> None" "Option.bind (map_of (rd_groups c) 1) gs_parent = None"
    by (auto simp: ensure_recycle_bin_def recycle_bin_id_def ref_lib_def ref_keepass_def ref_recycle_db_def ref_empty_db_def
        ref_meta_def at_key_def ref_new_in_def ref_add_group_def Let_def)
  note bin = ensure_recycle_bin_spec [OF ref_bin_laws root c(1)]
  have e: "kl_entry ref_lib c 2 = Some ref_entry_state"
    by (simp add: bin(2)) (simp add: ref_lib_def ref_keepass_def ref_recycle_db_def)
  have group: "kl_group ref_lib c 1 = map_of (rd_groups c) 1" by (simp add: ref_lib_def ref_keepass_def)
  have out: "\<not> group_is_in_recycle_bin ref_lib c (es_parent ref_entry_state) 9"
    using c(3) by (simp add: group_is_in_recycle_bin_def ref_entry_state_def group)
  obtain d' where "move_entry_to ref_lib None 2 9 c = Inr d'"
    using move_entry_to_spec [OF ref_move_laws ref_touch_laws e recycle_bin_id_group [OF bin(1)], of None] by metis
  with find c(1) e out have "trash_entry ref_lib None None 9 (kl_id_string ref_lib 2) ref_recycle_doc =
      (Inr (), mark_changed (ref_recycle_doc\<lparr>kd_database := d'\<rparr>))"
    by (simp add: trash_entry_def database_def set_database_def mark_changed_op_def op_defs ref_recycle_doc_def)
  moreover have "mark_changed (ref_recycle_doc\<lparr>kd_database := d'\<rparr>) \<noteq> ref_recycle_doc"
    by (simp add: mark_changed_def ref_recycle_doc_def)
  ultimately show ?thesis by blast
qed

theorem restore_undoes_trash_witness:
  "\<exists>doc' doc'' e''. trash_entry ref_lib None None 9 (kl_id_string ref_lib 2) ref_recycle_doc = (Inr (), doc') \<and>
     restore_entry ref_lib (Some 7) (kl_id_string ref_lib 2) doc' = (Inr (kl_id_string ref_lib 1), doc'') \<and>
     kl_entry ref_lib (kd_database doc'') 2 = Some e'' \<and> es_entry e'' = set_location_changed (Some 7) (ref_new_entry 2)"
proof -
  obtain doc' where doc': "trash_entry ref_lib None None 9 (kl_id_string ref_lib 2) ref_recycle_doc = (Inr (), doc')"
    "doc' \<noteq> ref_recycle_doc" using ref_trash by blast
  have "located_entry ref_lib (kd_database ref_recycle_doc) (kl_id_string ref_lib 2) = Inr (2, ref_entry_state)"
    by (simp add: located_entry_def find_entry_id_def ref_lib_def ref_keepass_def ref_recycle_db_def ref_recycle_doc_def)
  moreover have "kl_group ref_lib (kd_database ref_recycle_doc) (es_parent ref_entry_state) \<noteq> None"
    "kl_group ref_lib (kd_database ref_recycle_doc) (kp_root (kl_kp ref_lib) (kd_database ref_recycle_doc)) \<noteq> None"
    by (simp_all add: ref_lib_def ref_keepass_def ref_recycle_db_def ref_empty_db_def at_key_def ref_recycle_doc_def ref_entry_state_def)
  ultimately obtain doc'' e'' where "restore_entry ref_lib (Some 7) (kl_id_string ref_lib 2) doc' =
      (Inr (kl_id_string ref_lib (es_parent ref_entry_state)), doc'')" "kl_entry ref_lib (kd_database doc'') 2 = Some e''"
      "es_entry e'' = set_location_changed (Some 7) (es_entry ref_entry_state)"
    using restore_undoes_trash [OF ref_move_laws ref_touch_laws ref_bin_laws doc'] by blast
  with doc'(1) show ?thesis by (auto simp: ref_entry_state_def)
qed

end
