(* ===== verification/Browser_Protocol.thy ===== *)
theory Browser_Protocol
  imports Prelude
begin

section \<open>The browser protocol\<close>

text \<open>
  Models \<open>src/crates/browser-native-protocol/src\<close>: the messages of \<open>lib.rs\<close> with their validation,
  and the length-prefixed frames of \<open>framing.rs\<close>.

  A channel is one duplex connection. Its input is what the peer will have sent; \<open>ch_broken\<close> says that
  reading past it fails instead of finding the end. Each \<open>write_all\<close> and each \<open>flush\<close> consumes one
  entry of \<open>ch_faults\<close>, where \<open>Some n\<close> makes the call fail after \<open>n\<close> bytes. The length prefix is in the
  byte order of the machine, an argument here. JSON (\<open>serde_json\<close>) is a parameter.
\<close>

definition PROTOCOL_VERSION :: "16 word" where "PROTOCOL_VERSION = 1"
definition MAX_FRAME_BYTES :: nat where "MAX_FRAME_BYTES = 256 * 1024"
definition MAX_CANDIDATES :: nat where "MAX_CANDIDATES = 100"
definition MAX_CANDIDATE_SUMMARY_BYTES :: nat where "MAX_CANDIDATE_SUMMARY_BYTES = 128"
definition MAX_CREDENTIAL_FIELD_BYTES :: nat where "MAX_CREDENTIAL_FIELD_BYTES = 16 * 1024"
definition REQUEST_ID_LENGTH :: nat where "REQUEST_ID_LENGTH = 32"
definition MAX_ORIGIN_LENGTH :: nat where "MAX_ORIGIN_LENGTH = 2048"
definition MAX_IDENTIFIER_LENGTH :: nat where "MAX_IDENTIFIER_LENGTH = 256"

lemmas protocol_limits = PROTOCOL_VERSION_def MAX_FRAME_BYTES_def MAX_CANDIDATES_def MAX_CANDIDATE_SUMMARY_BYTES_def
  MAX_CREDENTIAL_FIELD_BYTES_def REQUEST_ID_LENGTH_def MAX_ORIGIN_LENGTH_def MAX_IDENTIFIER_LENGTH_def

subsection \<open>Messages\<close>

datatype BrowserRequest =
  Connect "16 word" string
| CandidatesRequest "16 word" string (rq_origin: string)
| CredentialRequest "16 word" string (rq_origin: string) string string

datatype CandidateText = VisibleText string | ProtectedMarker

record Candidate =
  cand_entry_id :: string
  cand_title :: CandidateText
  cand_username :: CandidateText

datatype VaultState = VaultLocked | VaultReady

datatype ErrorCode = DesktopUnavailable | ApprovalRequired | Denied | LockedCode | NoMatches
  | UnsupportedTarget | InvalidRequestCode | InternalCode

datatype BrowserResponse =
  ApprovalPending "16 word" string
| Connected "16 word" string VaultState
| CandidatesResponse "16 word" string string "Candidate list" bool
| CredentialResponse "16 word" string string string
| ErrorResponse "16 word" string ErrorCode

datatype ProtocolError = UnsupportedVersion | InvalidRequestId | InvalidField

primrec request_id_of :: "BrowserRequest \<Rightarrow> string" where
  "request_id_of (Connect v i) = i"
| "request_id_of (CandidatesRequest v i origin) = i"
| "request_id_of (CredentialRequest v i origin session entry) = i"

primrec response_request_id :: "BrowserResponse \<Rightarrow> string" where
  "response_request_id (ApprovalPending v i) = i"
| "response_request_id (Connected v i state) = i"
| "response_request_id (CandidatesResponse v i session cs truncated) = i"
| "response_request_id (CredentialResponse v i username password) = i"
| "response_request_id (ErrorResponse v i code) = i"

primrec response_version :: "BrowserResponse \<Rightarrow> 16 word" where
  "response_version (ApprovalPending v i) = v"
| "response_version (Connected v i state) = v"
| "response_version (CandidatesResponse v i session cs truncated) = v"
| "response_version (CredentialResponse v i username password) = v"
| "response_version (ErrorResponse v i code) = v"

subsection \<open>Validation\<close>

definition validate_token :: "string \<Rightarrow> ProtocolError + unit" where
  "validate_token value =
     (if length value \<noteq> REQUEST_ID_LENGTH \<or> \<not> list_all is_lower_hex value then Inl InvalidField else Inr ())"

definition validate_common :: "16 word \<Rightarrow> string \<Rightarrow> ProtocolError + unit" where
  "validate_common version i =
     (if version \<noteq> PROTOCOL_VERSION then Inl UnsupportedVersion
      else map_err (\<lambda>_. InvalidRequestId) (validate_token i))"

definition validate_bounded :: "string \<Rightarrow> nat \<Rightarrow> ProtocolError + unit" where
  "validate_bounded value maximum =
     (if value = [] \<or> maximum < length value \<or> CHR 0x00 \<in> set value then Inl InvalidField else Inr ())"

primrec validate_request :: "BrowserRequest \<Rightarrow> ProtocolError + unit" where
  "validate_request (Connect version i) = validate_common version i"
| "validate_request (CandidatesRequest version i origin) =
     bindR (validate_common version i) (\<lambda>_. validate_bounded origin MAX_ORIGIN_LENGTH)"
| "validate_request (CredentialRequest version i origin session entry) =
     bindR (validate_common version i) (\<lambda>_.
     bindR (validate_bounded origin MAX_ORIGIN_LENGTH) (\<lambda>_.
     bindR (validate_token session) (\<lambda>_.
     validate_bounded entry MAX_IDENTIFIER_LENGTH)))"

definition validate_candidate_text :: "CandidateText \<Rightarrow> ProtocolError + unit" where
  "validate_candidate_text t = (case t of
     VisibleText value \<Rightarrow> validate_bounded value MAX_CANDIDATE_SUMMARY_BYTES
   | ProtectedMarker \<Rightarrow> Inr ())"

definition validate_candidate :: "Candidate \<Rightarrow> ProtocolError + unit" where
  "validate_candidate c =
     bindR (validate_bounded (cand_entry_id c) MAX_IDENTIFIER_LENGTH) (\<lambda>_.
     bindR (validate_candidate_text (cand_title c)) (\<lambda>_.
     validate_candidate_text (cand_username c)))"

text \<open>\<open>Iterator::try_for_each\<close>.\<close>

primrec try_for_each :: "('a \<Rightarrow> 'e + unit) \<Rightarrow> 'a list \<Rightarrow> 'e + unit" where
  "try_for_each f [] = Inr ()"
| "try_for_each f (x # xs) = bindR (f x) (\<lambda>_. try_for_each f xs)"

definition validate_response :: "BrowserResponse \<Rightarrow> ProtocolError + unit" where
  "validate_response r =
     bindR (validate_common (response_version r) (response_request_id r)) (\<lambda>_.
     case r of
       CandidatesResponse _ _ session candidates _ \<Rightarrow>
         bindR (validate_token session) (\<lambda>_.
         if MAX_CANDIDATES < length candidates then Inl InvalidField
         else try_for_each validate_candidate candidates)
     | CredentialResponse _ _ username password \<Rightarrow>
         bindR (validate_bounded username MAX_CREDENTIAL_FIELD_BYTES) (\<lambda>_.
         validate_bounded password MAX_CREDENTIAL_FIELD_BYTES)
     | _ \<Rightarrow> Inr ())"

subsection \<open>Channels\<close>

datatype FrameError = FrameIo | EmptyFrame | OversizedFrame | InvalidJson | InvalidProtocol

record channel =
  ch_input :: bytes
  ch_broken :: bool
  ch_output :: bytes
  ch_faults :: "nat option list"

type_synonym 'a channel_op = "(channel, FrameError, 'a) op"

text \<open>\<open>read\<close> into a buffer of one byte, and \<open>read_exact\<close>.\<close>

definition read_one :: "byte option channel_op" where
  "read_one = (\<lambda>c. case ch_input c of
     [] \<Rightarrow> (if ch_broken c then Inl FrameIo else Inr None, c)
   | b # rest \<Rightarrow> (Inr (Some b), c\<lparr>ch_input := rest\<rparr>))"

definition read_exact :: "nat \<Rightarrow> bytes channel_op" where
  "read_exact n = (\<lambda>c. if n \<le> length (ch_input c)
     then (Inr (take n (ch_input c)), c\<lparr>ch_input := drop n (ch_input c)\<rparr>)
     else (Inl FrameIo, c\<lparr>ch_input := []\<rparr>))"

definition write_all :: "bytes \<Rightarrow> unit channel_op" where
  "write_all bs = (\<lambda>c. case ch_faults c of
     Some n # rest \<Rightarrow> (Inl FrameIo, c\<lparr>ch_output := ch_output c @ take n bs, ch_faults := rest\<rparr>)
   | faults \<Rightarrow> (Inr (), c\<lparr>ch_output := ch_output c @ bs, ch_faults := tl faults\<rparr>))"

subsection \<open>Frames\<close>

definition to_ne_bytes :: "bool \<Rightarrow> nat \<Rightarrow> bytes" where
  "to_ne_bytes little n =
     (let bs = [of_nat n, of_nat (n div 256), of_nat (n div 65536), of_nat (n div 16777216)] in
      if little then bs else rev bs)"

definition from_ne_bytes :: "bool \<Rightarrow> bytes \<Rightarrow> nat" where
  "from_ne_bytes little bs = foldr (\<lambda>b n. unat b + 256 * n) (if little then bs else rev bs) 0"

definition read_frame :: "bool \<Rightarrow> bytes option channel_op" where
  "read_frame little =
     bindE read_one (\<lambda>first. case first of
       None \<Rightarrow> returnE None
     | Some b \<Rightarrow>
         bindE (read_exact 3) (\<lambda>rest.
         let declared = from_ne_bytes little (b # rest) in
         if declared = 0 then throwE EmptyFrame
         else if MAX_FRAME_BYTES < declared then throwE OversizedFrame
         else bindE (read_exact declared) (\<lambda>payload. returnE (Some payload))))"

text \<open>A codec: \<open>to_vec\<close> and \<open>from_slice\<close> at one message type, and the validation of that type.\<close>

record 'm codec =
  to_vec :: "'m \<Rightarrow> bytes option"
  from_slice :: "bytes \<Rightarrow> 'm option"
  check :: "'m \<Rightarrow> ProtocolError + unit"

definition read_message :: "bool \<Rightarrow> 'm codec \<Rightarrow> 'm option channel_op" where
  "read_message little cd =
     bindE (read_frame little) (\<lambda>frame. case frame of
       None \<Rightarrow> returnE None
     | Some payload \<Rightarrow>
         bindE (liftE (ok_or InvalidJson (from_slice cd payload))) (\<lambda>message.
         bindE (liftE (map_err (\<lambda>_. InvalidProtocol) (check cd message))) (\<lambda>_.
         returnE (Some message))))"

definition write_message :: "bool \<Rightarrow> 'm codec \<Rightarrow> 'm \<Rightarrow> unit channel_op" where
  "write_message little cd message =
     bindE (liftE (ok_or InvalidJson (to_vec cd message))) (\<lambda>payload.
     if payload = [] then throwE EmptyFrame
     else if MAX_FRAME_BYTES < length payload then throwE OversizedFrame
     else if 2 ^ 32 \<le> length payload then throwE OversizedFrame
     else
       bindE (write_all (to_ne_bytes little (length payload))) (\<lambda>_.
       bindE (write_all payload) (\<lambda>_.
       write_all [])))"

text \<open>The two message types of the protocol over one JSON library.\<close>

record json_api =
  request_json :: "(BrowserRequest \<Rightarrow> bytes option) \<times> (bytes \<Rightarrow> BrowserRequest option)"
  response_json :: "(BrowserResponse \<Rightarrow> bytes option) \<times> (bytes \<Rightarrow> BrowserResponse option)"

definition requests :: "json_api \<Rightarrow> BrowserRequest codec" where
  "requests js = \<lparr>to_vec = fst (request_json js), from_slice = snd (request_json js), check = validate_request\<rparr>"

definition responses :: "json_api \<Rightarrow> BrowserResponse codec" where
  "responses js = \<lparr>to_vec = fst (response_json js), from_slice = snd (response_json js), check = validate_response\<rparr>"

definition read_request :: "bool \<Rightarrow> json_api \<Rightarrow> BrowserRequest option channel_op" where
  "read_request little js = read_message little (requests js)"

definition read_response :: "bool \<Rightarrow> json_api \<Rightarrow> BrowserResponse option channel_op" where
  "read_response little js = read_message little (responses js)"

subsection \<open>Length prefixes\<close>

lemma length_to_ne_bytes [simp]: "length (to_ne_bytes little n) = 4"
  by (simp add: to_ne_bytes_def Let_def)

lemma from_to_ne_bytes:
  assumes "n < 2 ^ 32"
  shows "from_ne_bytes little (to_ne_bytes little n) = n"
proof -
  have "from_ne_bytes little (to_ne_bytes little n) =
      n mod 256 + 256 * (n div 256 mod 256 + 256 * (n div 65536 mod 256 + 256 * (n div 16777216 mod 256)))"
    by (simp add: to_ne_bytes_def from_ne_bytes_def Let_def unat_of_nat)
  moreover have "n div 16777216 mod 256 = n div 65536 div 256"
    using assms by (simp add: div_mult2_eq [symmetric] less_mult_imp_div_less)
  moreover have "n div 65536 mod 256 + 256 * (n div 65536 div 256) = n div 65536"
    by (rule mod_mult_div_eq)
  moreover have "n div 256 mod 256 + 256 * (n div 65536) = n div 256"
    using mod_mult_div_eq [of "n div 256" 256] by (simp add: div_mult2_eq [symmetric])
  ultimately show ?thesis by (simp add: mod_mult_div_eq)
qed

subsection \<open>Reading\<close>

text \<open>Reading a message touches neither the output nor the pending faults, and a message takes input.\<close>

definition reads_input :: "channel \<Rightarrow> 'a option channel_op \<Rightarrow> bool" where
  "reads_input c m \<longleftrightarrow> wpE m
     (\<lambda>x t. t = c\<lparr>ch_input := ch_input t\<rparr> \<and> (if x = None then ch_input t = ch_input c else length (ch_input t) < length (ch_input c)))
     (\<lambda>_ t. t = c\<lparr>ch_input := ch_input t\<rparr> \<and> length (ch_input t) \<le> length (ch_input c)) c"

lemma read_frame_reads: "reads_input c (read_frame little)"
  by (cases "ch_input c") (auto simp: reads_input_def read_frame_def wp_simps wpE_def read_one_def read_exact_def Let_def bindE_def
      returnE_def throwE_def)

lemma read_message_reads: "reads_input c (read_message little cd)"
proof -
  have "wpE (read_frame little)
     (\<lambda>x t. t = c\<lparr>ch_input := ch_input t\<rparr> \<and> (if x = None then ch_input t = ch_input c else length (ch_input t) < length (ch_input c)))
     (\<lambda>_ t. t = c\<lparr>ch_input := ch_input t\<rparr> \<and> length (ch_input t) \<le> length (ch_input c)) c"
    using read_frame_reads by (simp add: reads_input_def)
  then show ?thesis
    unfolding reads_input_def read_message_def wpE_bindE
    by (rule wpE_mono) (auto simp: wp_simps split: option.split sum.split)
qed

lemma read_messageD:
  assumes "read_message little cd c = (Inr (Some m), t)"
  shows "t = c\<lparr>ch_input := ch_input t\<rparr>" and "length (ch_input t) < length (ch_input c)"
    and "check cd m = Inr ()"
proof -
  show "t = c\<lparr>ch_input := ch_input t\<rparr>" "length (ch_input t) < length (ch_input c)"
    using wpE_resultD [OF read_message_reads [unfolded reads_input_def] assms] by simp_all
  have "wpE (read_message little cd) (\<lambda>x _. pred_option (\<lambda>m. check cd m = Inr ()) x) (\<lambda>_ _. True) c"
    unfolding read_message_def wpE_bindE
    by (rule wpE_mono [OF wpE_trivial_intro]) (auto simp: wp_simps split: option.split sum.split)
  from wpE_resultD [OF this assms] show "check cd m = Inr ()" by simp
qed

text \<open>A frame that arrives is read back whole, and nothing behind it is touched.\<close>

lemma read_frame_whole:
  assumes "payload \<noteq> []" and "length payload \<le> MAX_FRAME_BYTES"
  shows "read_frame little (c\<lparr>ch_input := to_ne_bytes little (length payload) @ payload @ rest\<rparr>)
    = (Inr (Some payload), c\<lparr>ch_input := rest\<rparr>)"
proof -
  obtain b bs where prefix_bytes: "to_ne_bytes little (length payload) = b # bs" and "length bs = 3"
    using length_to_ne_bytes [of little "length payload"] by (cases "to_ne_bytes little (length payload)") auto
  moreover have "from_ne_bytes little (b # bs) = length payload"
    using assms from_to_ne_bytes [of "length payload" little] prefix_bytes by (simp add: MAX_FRAME_BYTES_def)
  ultimately show ?thesis
    using assms by (simp add: read_frame_def bindE_def read_one_def read_exact_def returnE_def Let_def)
qed

lemma read_message_whole:
  assumes "payload \<noteq> []" "length payload \<le> MAX_FRAME_BYTES" "from_slice cd payload = Some m"
  shows "read_message little cd (c\<lparr>ch_input := to_ne_bytes little (length payload) @ payload @ rest\<rparr>) =
    (case check cd m of Inl _ \<Rightarrow> Inl InvalidProtocol | Inr _ \<Rightarrow> Inr (Some m), c\<lparr>ch_input := rest\<rparr>)"
  using assms
  by (simp add: read_message_def bindE_def read_frame_whole liftE_def returnE_def split: sum.split)

text \<open>The bounds that a reader enforces before it reserves memory for a payload.\<close>

lemma read_frame_bounds:
  "read_frame little c = (Inr (Some payload), t) \<Longrightarrow>
     0 < length payload \<and> length payload \<le> MAX_FRAME_BYTES \<and>
     length (ch_input c) = 4 + length payload + length (ch_input t)"
  by (cases "ch_input c")
    (auto simp: read_frame_def bindE_def read_one_def read_exact_def returnE_def throwE_def Let_def split: if_splits)

subsection \<open>Writing\<close>

lemma write_all_keeps: "preserves (\<lambda>c. ch_input c = i \<and> ch_broken c = b) (write_all bs)"
  by (auto simp: preserves_def write_all_def split: list.split option.split)

lemma write_message_preserves: "preserves (\<lambda>c. ch_input c = i \<and> ch_broken c = b) (write_message little cd m)"
  unfolding write_message_def
  by (intro preserves_bindE preserves_simple) (auto intro!: preserves_bindE write_all_keeps)

lemma write_message_keeps:
  "write_message little cd m c = (r, t) \<Longrightarrow> ch_input t = ch_input c \<and> ch_broken t = ch_broken c"
  using write_message_preserves [of "ch_input c" "ch_broken c" little cd m] by (simp add: preserves_def) (metis snd_conv)

lemma write_message_ok:
  assumes "to_vec cd m = Some payload" "payload \<noteq> []" "length payload \<le> MAX_FRAME_BYTES" "ch_faults c = []"
  shows "write_message little cd m c =
    (Inr (), c\<lparr>ch_output := ch_output c @ to_ne_bytes little (length payload) @ payload\<rparr>)"
  using assms by (simp add: write_message_def bindE_def liftE_def write_all_def MAX_FRAME_BYTES_def)

end
