(* ===== verification/Credential_Provider.thy ===== *)
theory Credential_Provider
  imports Kdbx_Library
begin

section \<open>Credential provider policy\<close>

text \<open>
  Models \<open>src/crates/credential-provider-core/src/lib.rs\<close>: which entries of the open document match an
  application or a web origin, and the final check before a username and a password are handed out.

  The \<open>url\<close> crate is a parameter: \<open>url_api\<close> parses a text into the parts that the code reads. The
  textual form of IP addresses is the one of the standard library. An Android signing identity, an
  iOS service and a browser tab are authenticated before this code runs and are not part of it.
\<close>

subsection \<open>URLs\<close>

datatype Host = Domain string | Ipv4 "8 word list" | Ipv6 "16 word list"

record Url =
  u_as_str :: string
  u_cannot_be_a_base :: bool
  u_scheme :: string
  u_username :: string
  u_password :: "string option"
  u_host :: "Host option"
  u_port_or_known_default :: "nat option"
  u_path :: string
  u_query :: "string option"
  u_fragment :: "string option"

type_synonym url_api = "string \<Rightarrow> Url option"

text \<open>\<open>trim_end_matches\<close> at one character, and the decimal and hexadecimal forms of numbers.\<close>

definition trim_end_matches :: "char \<Rightarrow> string \<Rightarrow> string" where
  "trim_end_matches c s = rev (dropWhile (\<lambda>d. d = c) (rev s))"

fun to_decimal :: "nat \<Rightarrow> string" where
  "to_decimal n = (if n < 10 then [hex_digit n] else to_decimal (n div 10) @ [hex_digit (n mod 10)])"

fun to_hex :: "nat \<Rightarrow> string" where
  "to_hex n = (if n < 16 then [hex_digit n] else to_hex (n div 16) @ [hex_digit (n mod 16)])"

declare to_decimal.simps [simp del] to_hex.simps [simp del]

definition join :: "string \<Rightarrow> string list \<Rightarrow> string" where
  "join separator parts = concat (case parts of [] \<Rightarrow> [] | p # ps \<Rightarrow> p # map (\<lambda>q. separator @ q) ps)"

definition ipv4_to_string :: "8 word list \<Rightarrow> string" where
  "ipv4_to_string octets = join ''.'' (map (to_decimal \<circ> unat) octets)"

text \<open>The longest run of zero segments, the first one among equals.\<close>

fun longest_zeroes :: "nat \<Rightarrow> nat \<times> nat \<Rightarrow> nat \<times> nat \<Rightarrow> 16 word list \<Rightarrow> nat \<times> nat" where
  "longest_zeroes i longest current [] = longest"
| "longest_zeroes i longest current (segment # segments) =
     (if segment = 0 then
        let current = (if snd current = 0 then i else fst current, Suc (snd current)) in
        longest_zeroes (Suc i) (if snd longest < snd current then current else longest) current segments
      else longest_zeroes (Suc i) longest (0, 0) segments)"

definition fmt_subslice :: "16 word list \<Rightarrow> string" where
  "fmt_subslice segments = join '':'' (map (to_hex \<circ> unat) segments)"

definition ipv6_to_string :: "16 word list \<Rightarrow> string" where
  "ipv6_to_string segments =
     (if take 6 segments = [0, 0, 0, 0, 0, 0xFFFF]
      then ''::ffff:'' @ ipv4_to_string (concat (map (\<lambda>w. [ucast (drop_bit 8 w), ucast w]) (drop 6 segments)))
      else case longest_zeroes 0 (0, 0) (0, 0) segments of (start, count) \<Rightarrow>
        if 1 < count then fmt_subslice (take start segments) @ ''::'' @ fmt_subslice (drop (start + count) segments)
        else fmt_subslice segments)"

definition is_loopback_host :: "Host \<Rightarrow> bool" where
  "is_loopback_host h = (case h of
     Domain domain \<Rightarrow> eq_ignore_ascii_case (trim_end_matches CHR ''.'' domain) ''localhost''
   | Ipv4 address \<Rightarrow> address = [127, 0, 0, 1]
   | Ipv6 address \<Rightarrow> address = [0, 0, 0, 0, 0, 0, 0, 1])"

subsection \<open>Targets\<close>

definition ANDROID_APP_FIELD :: string where "ANDROID_APP_FIELD = ''AndroidApp''"

datatype CredentialTarget = AndroidApp string | WebHost string | WebOrigin string

datatype CredentialProviderError = InvalidTarget | CredentialUnavailable | ProviderInternal

definition canonical_url_host :: "url_api \<Rightarrow> string \<Rightarrow> string option" where
  "canonical_url_host parse value =
     Option.bind (parse value) (\<lambda>parsed.
     Option.bind (u_host parsed) (\<lambda>host. Some (case host of
       Domain domain \<Rightarrow> map to_ascii_lowercase (trim_end_matches CHR ''.'' domain)
     | Ipv4 address \<Rightarrow> ipv4_to_string address
     | Ipv6 address \<Rightarrow> ipv6_to_string address)))"

definition canonical_domain :: "url_api \<Rightarrow> string \<Rightarrow> CredentialProviderError + string" where
  "canonical_domain parse value =
     (if value = [] \<or> CHR ''/'' \<in> set value \<or> CHR ''@'' \<in> set value \<or> CHR '':'' \<in> set value then Inl InvalidTarget
      else
        bindR (ok_or InvalidTarget (parse (''https://'' @ value))) (\<lambda>parsed.
        ok_or InvalidTarget (canonical_url_host parse (u_as_str parsed))))"

definition canonical_browser_origin :: "url_api \<Rightarrow> string \<Rightarrow> bool \<Rightarrow> string option" where
  "canonical_browser_origin parse value origin_only =
     Option.bind (parse value) (\<lambda>parsed.
     if u_cannot_be_a_base parsed \<or> u_username parsed \<noteq> [] \<or> u_password parsed \<noteq> None \<or>
        origin_only \<and> (u_path parsed \<noteq> ''/'' \<or> u_query parsed \<noteq> None \<or> u_fragment parsed \<noteq> None)
     then None
     else
       let scheme = u_scheme parsed in
       Option.bind (u_host parsed) (\<lambda>host.
       if scheme \<noteq> ''https'' \<and> \<not> (scheme = ''http'' \<and> is_loopback_host host) then None
       else
         let host_text = (case host of
               Domain domain \<Rightarrow> map to_ascii_lowercase (trim_end_matches CHR ''.'' domain)
             | Ipv4 address \<Rightarrow> ipv4_to_string address
             | Ipv6 address \<Rightarrow> ''['' @ ipv6_to_string address @ '']'') in
         Option.bind (u_port_or_known_default parsed) (\<lambda>port.
         let default_port = (if scheme = ''https'' then 443 else 80) in
         if port = default_port then Some (scheme @ ''://'' @ host_text)
         else Some (scheme @ ''://'' @ host_text @ '':'' @ to_decimal port))))"

definition android_app :: "string \<Rightarrow> CredentialProviderError + CredentialTarget" where
  "android_app package = (if package = [] then Inl InvalidTarget else Inr (AndroidApp package))"

definition web_domain :: "url_api \<Rightarrow> string \<Rightarrow> CredentialProviderError + CredentialTarget" where
  "web_domain parse domain = bindR (canonical_domain parse domain) (\<lambda>host. Inr (WebHost host))"

definition ios_url :: "url_api \<Rightarrow> string \<Rightarrow> CredentialProviderError + CredentialTarget" where
  "ios_url parse url = ok_or InvalidTarget (map_option WebHost (canonical_url_host parse url))"

definition browser_origin :: "url_api \<Rightarrow> string \<Rightarrow> CredentialProviderError + CredentialTarget" where
  "browser_origin parse origin =
     ok_or InvalidTarget (map_option WebOrigin (canonical_browser_origin parse origin True))"

primrec display :: "CredentialTarget \<Rightarrow> string" where
  "display (AndroidApp package) = package"
| "display (WebHost host) = host"
| "display (WebOrigin origin) = origin"

subsection \<open>Matching entries\<close>

record CredentialCandidate =
  cc_entry_id :: string
  cc_title :: SummaryText
  cc_username :: SummaryText

record PasswordIdentity =
  pi_record_identifier :: string
  pi_service_identifier :: string
  pi_username :: string

record Credential =
  cr_username :: string
  cr_password :: string

primrec collect_entries :: "VaultGroup \<Rightarrow> EntrySummary list" where
  "collect_entries (VaultGroup i name groups es) = es @ concat (map collect_entries groups)"

definition entry_matches_target ::
    "('d, 'v) kdbx_lib \<Rightarrow> url_api \<Rightarrow> 'd KdbxDocument \<Rightarrow> string \<Rightarrow> CredentialTarget \<Rightarrow> CredentialProviderError + bool" where
  "entry_matches_target kl parse doc i target = (case target of
     AndroidApp package \<Rightarrow>
       bindR (map_err (\<lambda>_. ProviderInternal) (entry_custom_field kl doc i ANDROID_APP_FIELD)) (\<lambda>value.
       Inr (value = Some package))
   | WebHost web_host \<Rightarrow>
       bindR (map_err (\<lambda>_. ProviderInternal) (entry_url kl doc i)) (\<lambda>value.
       Inr (case value of None \<Rightarrow> False | Some url \<Rightarrow> canonical_url_host parse url = Some web_host))
   | WebOrigin web_origin \<Rightarrow>
       bindR (map_err (\<lambda>_. ProviderInternal) (entry_url kl doc i)) (\<lambda>value.
       Inr (case value of None \<Rightarrow> False | Some url \<Rightarrow> canonical_browser_origin parse url False = Some web_origin)))"

text \<open>A loop over the summaries that skips recycled entries and stops at the first failure.\<close>

fun select_entries ::
    "('d, 'v) kdbx_lib \<Rightarrow> 'd KdbxDocument \<Rightarrow> (EntrySummary \<Rightarrow> CredentialProviderError + 'a option) \<Rightarrow>
     EntrySummary list \<Rightarrow> CredentialProviderError + 'a list" where
  "select_entries kl doc pick [] = Inr []"
| "select_entries kl doc pick (entry # rest) =
     bindR (map_err (\<lambda>_. ProviderInternal) (entry_is_recycled kl doc (sum_id entry))) (\<lambda>recycled.
     if recycled then select_entries kl doc pick rest
     else
       bindR (pick entry) (\<lambda>picked.
       bindR (select_entries kl doc pick rest) (\<lambda>others.
       Inr ((case picked of None \<Rightarrow> [] | Some x \<Rightarrow> [x]) @ others))))"

definition candidates ::
    "('d, 'v) kdbx_lib \<Rightarrow> url_api \<Rightarrow> 'd KdbxDocument \<Rightarrow> CredentialTarget \<Rightarrow>
     CredentialProviderError + CredentialCandidate list" where
  "candidates kl parse doc target =
     bindR (map_err (\<lambda>_. ProviderInternal) (projection kl doc)) (\<lambda>root.
     select_entries kl doc (\<lambda>entry.
       bindR (entry_matches_target kl parse doc (sum_id entry) target) (\<lambda>matches.
       Inr (if matches then Some \<lparr>cc_entry_id = sum_id entry, cc_title = sum_title entry,
              cc_username = sum_username entry\<rparr> else None)))
       (collect_entries root))"

definition password_identity :: "url_api \<Rightarrow> EntrySummary \<Rightarrow> PasswordIdentity option" where
  "password_identity parse entry =
     (if \<not> sum_has_password entry then None
      else
        Option.bind (visible (sum_username entry)) (\<lambda>username.
        if username = [] then None
        else
          Option.bind (visible (sum_url entry)) (\<lambda>url.
          Option.bind (canonical_url_host parse url) (\<lambda>service.
          Some \<lparr>pi_record_identifier = sum_id entry, pi_service_identifier = service, pi_username = username\<rparr>))))"

definition password_identities ::
    "('d, 'v) kdbx_lib \<Rightarrow> url_api \<Rightarrow> 'd KdbxDocument \<Rightarrow> CredentialProviderError + PasswordIdentity list" where
  "password_identities kl parse doc =
     bindR (map_err (\<lambda>_. ProviderInternal) (projection kl doc)) (\<lambda>root.
     select_entries kl doc (\<lambda>entry. Inr (password_identity parse entry)) (collect_entries root))"

subsection \<open>Handing out a credential\<close>

definition credential ::
    "('d, 'v) kdbx_lib \<Rightarrow> url_api \<Rightarrow> 'd KdbxDocument \<Rightarrow> string \<Rightarrow> CredentialTarget \<Rightarrow>
     CredentialProviderError + Credential" where
  "credential kl parse doc entry_id target =
     (if entry_id = [] then Inl CredentialUnavailable
      else if (case entry_is_recycled kl doc entry_id of Inl _ \<Rightarrow> True | Inr recycled \<Rightarrow> recycled)
      then Inl CredentialUnavailable
      else
        bindR (map_err (\<lambda>_. CredentialUnavailable) (projection kl doc)) (\<lambda>root.
        bindR (case find_entry entry_id root of
            None \<Rightarrow> Inl CredentialUnavailable
          | Some _ \<Rightarrow> bindR (entry_matches_target kl parse doc entry_id target) (\<lambda>matches.
              if matches then Inr () else Inl CredentialUnavailable)) (\<lambda>_.
        bindR (map_err (\<lambda>_. CredentialUnavailable) (entry_username kl doc entry_id)) (\<lambda>username.
        bindR (ok_or CredentialUnavailable username) (\<lambda>username.
        bindR (map_err (\<lambda>_. CredentialUnavailable) (entry_password kl doc entry_id)) (\<lambda>password.
        bindR (ok_or CredentialUnavailable password) (\<lambda>password.
        Inr \<lparr>cr_username = username, cr_password = password\<rparr>)))))))"

subsection \<open>What the policy guarantees\<close>

text \<open>
  The specification: an entry that is in the tree and not in the recycle bin, whose own fields name the
  target, and whose username and password are the ones handed out.
\<close>

definition names_target :: "('d, 'v) kdbx_lib \<Rightarrow> url_api \<Rightarrow> 'd KdbxDocument \<Rightarrow> string \<Rightarrow> CredentialTarget \<Rightarrow> bool" where
  "names_target kl parse doc i target \<longleftrightarrow> (case target of
     AndroidApp package \<Rightarrow> entry_custom_field kl doc i ANDROID_APP_FIELD = Inr (Some package)
   | WebHost host \<Rightarrow> (\<exists>url. entry_url kl doc i = Inr (Some url) \<and> canonical_url_host parse url = Some host)
   | WebOrigin origin \<Rightarrow> (\<exists>url. entry_url kl doc i = Inr (Some url) \<and> canonical_browser_origin parse url False = Some origin))"

lemma entry_matches_target_iff:
  "entry_matches_target kl parse doc i target = Inr True \<longleftrightarrow> names_target kl parse doc i target"
  by (cases target; cases "entry_url kl doc i"; cases "entry_custom_field kl doc i ANDROID_APP_FIELD")
    (auto simp: entry_matches_target_def names_target_def bindR_Inr_iff split: option.split)

definition may_release ::
    "('d, 'v) kdbx_lib \<Rightarrow> url_api \<Rightarrow> 'd KdbxDocument \<Rightarrow> string \<Rightarrow> CredentialTarget \<Rightarrow> Credential \<Rightarrow> bool" where
  "may_release kl parse doc i target cred \<longleftrightarrow>
     i \<noteq> [] \<and> entry_is_recycled kl doc i = Inr False \<and>
     (\<exists>root entry. projection kl doc = Inr root \<and> find_entry i root = Some entry) \<and>
     names_target kl parse doc i target \<and>
     entry_username kl doc i = Inr (Some (cr_username cred)) \<and>
     entry_password kl doc i = Inr (Some (cr_password cred))"

lemma credential_iff: "credential kl parse doc i target = Inr cred \<longleftrightarrow> may_release kl parse doc i target cred"
proof -
  have "names_target kl parse doc i target \<longleftrightarrow> entry_matches_target kl parse doc i target = Inr True"
    by (simp add: entry_matches_target_iff)
  then show ?thesis
    by (cases "entry_is_recycled kl doc i"; cases "entry_matches_target kl parse doc i target"; cases cred)
      (auto simp: credential_def may_release_def bindR_Inr_iff split: if_splits option.splits)
qed

text \<open>A web origin determines scheme, host and port: plain \<open>http\<close> is limited to the machine itself.\<close>

lemma canonical_browser_origin_secure:
  assumes "canonical_browser_origin parse value only = Some origin"
  obtains parsed host where "parse value = Some parsed" and "u_host parsed = Some host"
    and "u_username parsed = []" and "u_password parsed = None"
    and "u_scheme parsed = ''https'' \<or> u_scheme parsed = ''http'' \<and> is_loopback_host host"
  using assms
  by (auto simp: canonical_browser_origin_def Let_def bind_eq_Some_conv split: if_splits)

lemma select_entries_mem:
  assumes "select_entries kl doc pick es = Inr xs"
  shows "x \<in> set xs \<longleftrightarrow> (\<exists>e \<in> set es. entry_is_recycled kl doc (sum_id e) = Inr False \<and> pick e = Inr (Some x))"
  using assms
proof (induction es arbitrary: xs)
  case (Cons e es)
  then obtain recycled where "entry_is_recycled kl doc (sum_id e) = Inr recycled"
    by (cases "entry_is_recycled kl doc (sum_id e)") auto
  with Cons show ?case
    by (cases recycled) (auto simp: bindR_Inr_iff split: option.splits)
qed simp

end
