(* ===== verification/Browser_Bridge.thy ===== *)
theory Browser_Bridge
  imports Desktop_Local Browser_Protocol Credential_Provider
begin

section \<open>The browser bridge\<close>

text \<open>
  Models the desktop side of the browser integration, \<open>src/apps/desktop/src-tauri/src/browser_bridge.rs\<close>
  with \<open>state/browser.rs\<close>, and the native host that stands between the browser and the desktop,
  \<open>src/apps/browser-native-host/src/proxy.rs\<close>.

  The approval broker holds the senders of the connections that wait for the user. While the \<open>n\<close>-th
  request waits, the calls \<open>bk_calls n\<close> of \<open>resolve\<close> arrive, whatever connection they name; the ones
  after the timeout are not among them. The window of the application is a parameter.

  The vault is the one of \<open>Desktop_Local\<close>: taking the mutex lets other users of the service go first.
  \<open>br_sent\<close> records each response handed to \<open>write_message\<close> with the request it answers and the state
  of the service in which it was made; no operation reads it.
\<close>

subsection \<open>Approval\<close>

record approval_window =
  aw_visible :: "bool option"
  aw_minimized :: "bool option"
  aw_unminimize :: bool
  aw_emit :: bool
  aw_focus :: bool

definition notify :: "approval_window option \<Rightarrow> bool" where
  "notify window = (case window of
     None \<Rightarrow> False
   | Some w \<Rightarrow>
       if aw_visible w \<noteq> Some True then False
       else if aw_minimized w \<noteq> Some False \<and> \<not> aw_unminimize w then False
       else aw_emit w \<and> aw_focus w)"

record approval_broker =
  bk_pending :: "(string \<times> nat) list"
  bk_values :: "(nat \<times> bool) list"
  bk_next :: nat
  bk_poisoned :: bool
  bk_random :: "nat \<Rightarrow> bytes option"
  bk_window :: "nat \<Rightarrow> approval_window option"
  bk_calls :: "nat \<Rightarrow> (string \<times> bool) list"

definition broker_remove :: "string \<Rightarrow> approval_broker \<Rightarrow> approval_broker" where
  "broker_remove i bk = (if bk_poisoned bk then bk else bk\<lparr>bk_pending := AList.delete i (bk_pending bk)\<rparr>)"

text \<open>The channel of a waiting connection has room for one value.\<close>

definition resolve_approval :: "string \<Rightarrow> bool \<Rightarrow> approval_broker \<Rightarrow> bool \<times> approval_broker" where
  "resolve_approval i allow bk = (if bk_poisoned bk then (False, bk)
     else case map_of (bk_pending bk) i of
       None \<Rightarrow> (False, bk)
     | Some sender \<Rightarrow>
         let bk = broker_remove i bk in
         if map_of (bk_values bk) sender = None
         then (True, bk\<lparr>bk_values := (sender, allow) # bk_values bk\<rparr>)
         else (False, bk))"

text \<open>\<open>random_token\<close> writes the bytes as lower-case hexadecimal digits.\<close>

definition random_token :: "approval_broker \<Rightarrow> string option" where
  "random_token bk = map_option hex_encode (bk_random bk (bk_next bk))"

definition broker_request :: "approval_broker \<Rightarrow> bool \<times> approval_broker" where
  "broker_request bk = (let n = bk_next bk; taken = bk\<lparr>bk_next := Suc n\<rparr> in
     case random_token bk of
       None \<Rightarrow> (False, taken)
     | Some i \<Rightarrow>
         let inserted = \<not> bk_poisoned bk \<and> map_of (bk_pending bk) i = None;
             waiting = (if bk_poisoned bk then taken else taken\<lparr>bk_pending := AList.update i n (bk_pending bk)\<rparr>) in
         if \<not> inserted \<or> \<not> notify (bk_window bk n) then (False, broker_remove i waiting)
         else
           let answered = fold (\<lambda>(j, allow) b. snd (resolve_approval j allow b)) (bk_calls bk n) waiting in
           (map_of (bk_values answered) n = Some True, broker_remove i answered))"

definition bridge_state_resolve :: "approval_broker option \<Rightarrow> string \<Rightarrow> bool \<Rightarrow> bool \<times> approval_broker option" where
  "bridge_state_resolve availability i allow = (case availability of
     Some broker \<Rightarrow> map_prod id Some (resolve_approval i allow broker)
   | None \<Rightarrow> (False, None))"

subsection \<open>The service\<close>

record 'db app_state =
  as_service :: "'db desktop"
  as_gate_poisoned :: bool

record ('d, 'v) bridge_env =
  be_ext :: "'d vault_ext"
  be_kl :: "('d, 'v) kdbx_lib"
  be_parse :: url_api
  be_json :: json_api
  be_little :: bool

definition map_credential_error :: "CredentialProviderError \<Rightarrow> DesktopError" where
  "map_credential_error e = (case e of
     InvalidTarget \<Rightarrow> DesktopError.InvalidRequest
   | CredentialUnavailable \<Rightarrow> SecretUnavailable
   | ProviderInternal \<Rightarrow> DesktopError.Internal)"

abbreviation vault_document :: "'d desktop \<Rightarrow> 'd KdbxDocument" where
  "vault_document d \<equiv> vs_document (v_session (dk_world d))"

definition browser_candidates ::
    "('d, 'v) bridge_env \<Rightarrow> 'd desktop \<Rightarrow> CredentialTarget \<Rightarrow> DesktopError + (string \<times> CredentialCandidate list)" where
  "browser_candidates be d target =
     (if \<not> dk_unlocked d then Inl DesktopError.Locked
      else
        bindR (ok_or DesktopError.Locked (dk_browser_session_id d)) (\<lambda>session.
        bindR (map_err map_credential_error (candidates (be_kl be) (be_parse be) (vault_document d) target)) (\<lambda>cs.
        Inr (session, cs))))"

definition browser_credential ::
    "('d, 'v) bridge_env \<Rightarrow> 'd desktop \<Rightarrow> string \<Rightarrow> string \<Rightarrow> CredentialTarget \<Rightarrow> DesktopError + Credential" where
  "browser_credential be d expected entry_id target =
     (if \<not> dk_unlocked d then Inl DesktopError.Locked
      else if dk_browser_session_id d \<noteq> Some expected then Inl SecretUnavailable
      else map_err map_credential_error (credential (be_kl be) (be_parse be) (vault_document d) entry_id target))"

definition browser_vault_is_unlocked :: "'d desktop \<Rightarrow> bool" where
  "browser_vault_is_unlocked d = (dk_unlocked d \<and> dk_browser_session_id d \<noteq> None)"

definition service_mutex :: "('d, 'v) bridge_env \<Rightarrow> ('d app_state, DesktopError, 'd desktop) op" where
  "service_mutex be = (\<lambda>a. case lock_service (be_ext be) (as_service a) of
     (r, d) \<Rightarrow> (case r of Inl _ \<Rightarrow> Inl DesktopError.Internal | Inr _ \<Rightarrow> Inr d, a\<lparr>as_service := d\<rparr>))"

definition app_browser_credential ::
    "('d, 'v) bridge_env \<Rightarrow> string \<Rightarrow> string \<Rightarrow> CredentialTarget \<Rightarrow> ('d app_state, DesktopError, Credential) op" where
  "app_browser_credential be expected entry_id target =
     bindE (getsE as_gate_poisoned) (\<lambda>poisoned.
     if poisoned then throwE DesktopError.Internal
     else
       bindE (service_mutex be) (\<lambda>d.
       liftE (browser_credential be d expected entry_id target)))"

subsection \<open>Answering requests\<close>

definition is_char_boundary :: "string \<Rightarrow> nat \<Rightarrow> bool" where
  "is_char_boundary s n = (n = 0 \<or> n = length s \<or>
     n < length s \<and> \<not> (128 \<le> (of_char (s ! n) :: nat) \<and> (of_char (s ! n) :: nat) < 192))"

primrec floor_boundary :: "string \<Rightarrow> nat \<Rightarrow> nat" where
  "floor_boundary s 0 = 0"
| "floor_boundary s (Suc n) = (if is_char_boundary s (Suc n) then Suc n else floor_boundary s n)"

definition bounded_summary :: "string \<Rightarrow> string" where
  "bounded_summary value =
     (if length value \<le> MAX_CANDIDATE_SUMMARY_BYTES then value
      else take (floor_boundary value MAX_CANDIDATE_SUMMARY_BYTES) value)"

definition summary :: "SummaryText \<Rightarrow> CandidateText" where
  "summary value = (case visible value of
     None \<Rightarrow> ProtectedMarker
   | Some text \<Rightarrow> VisibleText (bounded_summary text))"

definition error_response :: "string \<Rightarrow> ErrorCode \<Rightarrow> BrowserResponse" where
  "error_response i code = ErrorResponse PROTOCOL_VERSION i code"

definition browser_candidate :: "CredentialCandidate \<Rightarrow> Candidate" where
  "browser_candidate c = \<lparr>cand_entry_id = cc_entry_id c, cand_title = summary (cc_title c),
     cand_username = summary (cc_username c)\<rparr>"

definition candidate_response ::
    "('d, 'v) bridge_env \<Rightarrow> string \<Rightarrow> string \<Rightarrow> 'd app_state \<Rightarrow> BrowserResponse \<times> 'd app_state" where
  "candidate_response be i origin a = (case browser_origin (be_parse be) origin of
     Inl _ \<Rightarrow> (error_response i UnsupportedTarget, a)
   | Inr target \<Rightarrow> (case service_mutex be a of
       (Inl _, a) \<Rightarrow> (error_response i InternalCode, a)
     | (Inr d, a) \<Rightarrow> (case browser_candidates be d target of
         Inl e \<Rightarrow> (error_response i (if e = DesktopError.Locked then LockedCode else InternalCode), a)
       | Inr (session, source) \<Rightarrow>
           (CandidatesResponse PROTOCOL_VERSION i session
              (map browser_candidate (take MAX_CANDIDATES source)) (MAX_CANDIDATES < length source), a))))"

definition credential_response ::
    "('d, 'v) bridge_env \<Rightarrow> string \<Rightarrow> string \<Rightarrow> string \<Rightarrow> string \<Rightarrow> 'd app_state \<Rightarrow> BrowserResponse \<times> 'd app_state" where
  "credential_response be i origin session entry_id a = (case browser_origin (be_parse be) origin of
     Inl _ \<Rightarrow> (error_response i UnsupportedTarget, a)
   | Inr target \<Rightarrow> (case app_browser_credential be session entry_id target a of
       (Inl e, a) \<Rightarrow> (error_response i
          (if e = DesktopError.Locked then LockedCode
           else if e = SecretUnavailable \<or> e = DesktopError.EntryNotFound then NoMatches else InternalCode), a)
     | (Inr cred, a) \<Rightarrow>
         (if MAX_CREDENTIAL_FIELD_BYTES < length (cr_username cred) \<or> MAX_CREDENTIAL_FIELD_BYTES < length (cr_password cred)
          then error_response i InternalCode
          else CredentialResponse PROTOCOL_VERSION i (cr_username cred) (cr_password cred), a)))"

primrec handle_authorized_request ::
    "('d, 'v) bridge_env \<Rightarrow> BrowserRequest \<Rightarrow> 'd app_state \<Rightarrow> BrowserResponse \<times> 'd app_state" where
  "handle_authorized_request be (Connect v i) a = (error_response i InvalidRequestCode, a)"
| "handle_authorized_request be (CandidatesRequest v i origin) a = candidate_response be i origin a"
| "handle_authorized_request be (CredentialRequest v i origin session entry_id) a =
     credential_response be i origin session entry_id a"

subsection \<open>A connection\<close>

record 'd bridge =
  br_channel :: channel
  br_app :: "'d app_state"
  br_broker :: approval_broker
  br_sent :: "(BrowserRequest \<times> 'd desktop \<times> BrowserResponse) list"

type_synonym ('d, 'a) bridge_op = "('d bridge, unit, 'a) op"

definition receive :: "('d, 'v) bridge_env \<Rightarrow> ('d, BrowserRequest option) bridge_op" where
  "receive be = (\<lambda>b. case read_request (be_little be) (be_json be) (br_channel b) of
     (r, c) \<Rightarrow> (map_err (\<lambda>_. ()) r, b\<lparr>br_channel := c\<rparr>))"

definition send_response :: "('d, 'v) bridge_env \<Rightarrow> BrowserRequest \<Rightarrow> BrowserResponse \<Rightarrow> ('d, unit) bridge_op" where
  "send_response be request response = (\<lambda>b. case write_message (be_little be) (responses (be_json be)) response (br_channel b) of
     (r, c) \<Rightarrow> (map_err (\<lambda>_. ()) r,
       b\<lparr>br_channel := c, br_sent := br_sent b @ [(request, as_service (br_app b), response)]\<rparr>))"

definition approve :: "('d, bool) bridge_op" where
  "approve = (\<lambda>b. case broker_request (br_broker b) of (allowed, bk) \<Rightarrow> (Inr allowed, b\<lparr>br_broker := bk\<rparr>))"

definition vault_state :: "('d, 'v) bridge_env \<Rightarrow> ('d, VaultState) bridge_op" where
  "vault_state be = (\<lambda>b. case service_mutex be (br_app b) of
     (r, a) \<Rightarrow> (Inr (case r of Inr d \<Rightarrow> if browser_vault_is_unlocked d then VaultReady else VaultLocked
                            | Inl _ \<Rightarrow> VaultLocked), b\<lparr>br_app := a\<rparr>))"

definition answer :: "('d, 'v) bridge_env \<Rightarrow> BrowserRequest \<Rightarrow> ('d, BrowserResponse) bridge_op" where
  "answer be request = (\<lambda>b. case handle_authorized_request be request (br_app b) of
     (response, a) \<Rightarrow> (Inr response, b\<lparr>br_app := a\<rparr>))"

text \<open>The loop of a connection. Each round takes input, so it ends when the peer stops sending.\<close>

function serve :: "('d, 'v) bridge_env \<Rightarrow> ('d, unit) bridge_op" where
  "serve be b = (case receive be b of
     (Inl e, b) \<Rightarrow> (Inl e, b)
   | (Inr None, b) \<Rightarrow> (Inr (), b)
   | (Inr (Some request), b) \<Rightarrow>
       (case bindE (answer be request) (send_response be request) b of
          (Inl e, b) \<Rightarrow> (Inl e, b)
        | (Inr _, b) \<Rightarrow> serve be b))"
  by pat_completeness auto

lemma receive_channel:
  assumes "receive be b = (Inr (Some request), b')"
  shows "length (ch_input (br_channel b')) < length (ch_input (br_channel b))"
    and "b' = b\<lparr>br_channel := br_channel b'\<rparr>" and "validate_request request = Inr ()"
proof -
  obtain c where read: "read_message (be_little be) (requests (be_json be)) (br_channel b) = (Inr (Some request), c)"
    and b': "b' = b\<lparr>br_channel := c\<rparr>"
    using assms by (auto simp: receive_def read_request_def map_err_def split: prod.splits sum.splits)
  show "length (ch_input (br_channel b')) < length (ch_input (br_channel b))"
    and "b' = b\<lparr>br_channel := br_channel b'\<rparr>"
    using read_messageD(2) [OF read] b' by simp_all
  show "validate_request request = Inr ()"
    using read_messageD(3) [OF read] by (simp add: requests_def)
qed

lemma send_input: "send_response be request response b = (r, b') \<Longrightarrow> ch_input (br_channel b') = ch_input (br_channel b)"
  by (auto simp: send_response_def split: prod.splits dest: write_message_keeps)

lemma answer_input: "answer be request b = (r, b') \<Longrightarrow> ch_input (br_channel b') = ch_input (br_channel b)"
  by (auto simp: answer_def split: prod.splits)

lemma respond_input:
  "bindE (answer be request) (send_response be request) b = (r, b') \<Longrightarrow> ch_input (br_channel b') = ch_input (br_channel b)"
  by (auto simp: bindE_def split: prod.splits sum.splits dest!: send_input answer_input)

termination serve
  by (relation "measure (\<lambda>(be, b). length (ch_input (br_channel b)))")
    (auto dest!: respond_input [OF sym] receive_channel(1) [OF sym])

declare serve.simps [simp del]

definition handle_connection :: "('d, 'v) bridge_env \<Rightarrow> ('d, unit) bridge_op" where
  "handle_connection be =
     bindE (receive be) (\<lambda>first. case first of
       None \<Rightarrow> returnE ()
     | Some (Connect v i) \<Rightarrow>
         bindE (send_response be (Connect v i) (ApprovalPending PROTOCOL_VERSION i)) (\<lambda>_.
         bindE approve (\<lambda>allowed.
         if \<not> allowed then
           bindE (send_response be (Connect v i) (ErrorResponse PROTOCOL_VERSION i Denied)) (\<lambda>_. throwE ())
         else
           bindE (vault_state be) (\<lambda>state.
           bindE (send_response be (Connect v i) (Connected PROTOCOL_VERSION i state)) (\<lambda>_.
           serve be))))
     | Some request \<Rightarrow>
         bindE (send_response be request (ErrorResponse PROTOCOL_VERSION (request_id_of request) ApprovalRequired)) (\<lambda>_.
         throwE ()))"

subsection \<open>The native host\<close>

text \<open>
  The host owns the two pipes of the browser and one connection to the desktop; \<open>ho_desktop\<close> is absent
  when \<open>connect_desktop\<close> fails. What it writes to the browser is recorded in \<open>ho_forwarded\<close>.
\<close>

record host =
  ho_browser :: channel
  ho_desktop :: "channel option"
  ho_forwarded :: "BrowserResponse list"

type_synonym 'a host_op = "(host, string, 'a) op"

record host_env =
  he_json :: json_api
  he_little :: bool

definition from_browser :: "host_env \<Rightarrow> BrowserRequest option host_op" where
  "from_browser he = (\<lambda>h. case read_request (he_little he) (he_json he) (ho_browser h) of
     (r, c) \<Rightarrow> (map_err (\<lambda>_. ''invalid browser frame'') r, h\<lparr>ho_browser := c\<rparr>))"

definition to_browser :: "host_env \<Rightarrow> string \<Rightarrow> BrowserResponse \<Rightarrow> unit host_op" where
  "to_browser he message response =
     (\<lambda>h. case write_message (he_little he) (responses (he_json he)) response (ho_browser h) of
     (r, c) \<Rightarrow> (map_err (\<lambda>_. message) r, h\<lparr>ho_browser := c, ho_forwarded := ho_forwarded h @ [response]\<rparr>))"

definition to_desktop :: "host_env \<Rightarrow> BrowserRequest \<Rightarrow> unit host_op" where
  "to_desktop he request = (\<lambda>h. case ho_desktop h of
     None \<Rightarrow> (Inl ''desktop write failed'', h)
   | Some c \<Rightarrow> (case write_message (he_little he) (requests (he_json he)) request c of
       (r, c) \<Rightarrow> (map_err (\<lambda>_. ''desktop write failed'') r, h\<lparr>ho_desktop := Some c\<rparr>)))"

definition from_desktop :: "host_env \<Rightarrow> BrowserResponse option host_op" where
  "from_desktop he = (\<lambda>h. case ho_desktop h of
     None \<Rightarrow> (Inl ''desktop response failed'', h)
   | Some c \<Rightarrow> (case read_response (he_little he) (he_json he) c of
       (r, c) \<Rightarrow> (map_err (\<lambda>_. ''desktop response failed'') r, h\<lparr>ho_desktop := Some c\<rparr>)))"

definition ensure_correlation :: "BrowserResponse \<Rightarrow> string \<Rightarrow> string + unit" where
  "ensure_correlation response i =
     (if response_request_id response \<noteq> i then Inl ''response correlation failed'' else Inr ())"

text \<open>One round of the loop, from a request to the response that the browser gets.\<close>

definition relay :: "host_env \<Rightarrow> BrowserRequest \<Rightarrow> unit host_op" where
  "relay he request = (case request of
     Connect _ _ \<Rightarrow> throwE ''duplicate connect request''
   | _ \<Rightarrow>
     bindE (to_desktop he request) (\<lambda>_.
     bindE (from_desktop he) (\<lambda>response. case response of
       None \<Rightarrow> throwE ''desktop disconnected''
     | Some response \<Rightarrow>
         bindE (liftE (ensure_correlation response (request_id_of request))) (\<lambda>_.
         to_browser he ''browser write failed'' response))))"

function relay_loop :: "host_env \<Rightarrow> unit host_op" where
  "relay_loop he h = (case from_browser he h of
     (Inl e, h) \<Rightarrow> (Inl e, h)
   | (Inr None, h) \<Rightarrow> (Inr (), h)
   | (Inr (Some request), h) \<Rightarrow>
       (case relay he request h of
          (Inl e, h) \<Rightarrow> (Inl e, h)
        | (Inr _, h) \<Rightarrow> relay_loop he h))"
  by pat_completeness auto

lemma from_browser_input:
  assumes "from_browser he h = (Inr (Some request), h')"
  shows "length (ch_input (ho_browser h')) < length (ch_input (ho_browser h))"
proof -
  obtain c where read: "read_message (he_little he) (requests (he_json he)) (ho_browser h) = (Inr (Some request), c)"
    and "h' = h\<lparr>ho_browser := c\<rparr>"
    using assms by (auto simp: from_browser_def read_request_def map_err_def split: prod.splits sum.splits)
  with read_messageD(2) [OF read] show ?thesis by simp
qed

lemma relay_preserves: "preserves (\<lambda>h. ch_input (ho_browser h) = i) (relay he request)"
proof -
  have "preserves (\<lambda>h. ch_input (ho_browser h) = i) (to_desktop he request)"
    and "preserves (\<lambda>h. ch_input (ho_browser h) = i) (from_desktop he)"
    by (auto simp: preserves_def to_desktop_def from_desktop_def split: option.split prod.split)
  moreover have "preserves (\<lambda>h. ch_input (ho_browser h) = i) (to_browser he message response)" for message response
    by (auto simp: preserves_def to_browser_def split: prod.splits dest: write_message_keeps)
  ultimately show ?thesis
    unfolding relay_def by (auto intro!: preserves_bindE split: BrowserRequest.split option.split)
qed

termination relay_loop
proof (relation "measure (\<lambda>(he, h). length (ch_input (ho_browser h)))", goal_cases)
  case (2 he h r h1 x request r2 h2 u)
  then have "from_browser he h = (Inr (Some request), h1)" by simp
  moreover have "ch_input (ho_browser h2) = ch_input (ho_browser h1)"
    using relay_preserves [of "ch_input (ho_browser h1)" he request] 2 unfolding preserves_def by (metis snd_conv)
  ultimately show ?case by (simp add: from_browser_input)
qed simp

declare relay_loop.simps [simp del]

definition run :: "host_env \<Rightarrow> unit host_op" where
  "run he =
     bindE (from_browser he) (\<lambda>first. case first of
       None \<Rightarrow> returnE ()
     | Some (Connect v i) \<Rightarrow>
         bindE (getsE ho_desktop) (\<lambda>desktop. case desktop of
           None \<Rightarrow> to_browser he ''could not frame response'' (ErrorResponse PROTOCOL_VERSION i DesktopUnavailable)
         | Some _ \<Rightarrow>
             bindE (to_desktop he (Connect v i)) (\<lambda>_.
             bindE (from_desktop he) (\<lambda>reply. case reply of
               None \<Rightarrow> throwE ''desktop closed during approval''
             | Some reply \<Rightarrow>
                 bindE (liftE (ensure_correlation reply i)) (\<lambda>_.
                 case reply of
                   ApprovalPending _ _ \<Rightarrow>
                     bindE (to_browser he ''browser write failed'' reply) (\<lambda>_.
                     bindE (from_desktop he) (\<lambda>decision. case decision of
                       None \<Rightarrow> throwE ''desktop closed during approval''
                     | Some decision \<Rightarrow>
                         bindE (liftE (ensure_correlation decision i)) (\<lambda>_.
                         bindE (to_browser he ''browser write failed'' decision) (\<lambda>_.
                         case decision of Connected _ _ _ \<Rightarrow> relay_loop he | _ \<Rightarrow> returnE ()))))
                 | _ \<Rightarrow> throwE ''desktop skipped explicit approval''))))
     | Some _ \<Rightarrow> throwE ''first request must connect'')"

end
