(* ===== verification/Browser_Properties.thy ===== *)
theory Browser_Properties
  imports Browser_Bridge Reference_Library
begin

section \<open>What the browser learns\<close>

text \<open>
  Properties of the browser integration: frames are read back as they were written, nothing about the
  vault leaves before the user approved the connection, and what leaves then answers exactly the
  origin that asked. The last part shows where the desktop and the native host disagree on what a
  valid response is.
\<close>

subsection \<open>Frames\<close>

text \<open>What is relied on of the JSON library: a value is written as a non-empty text that reads back.\<close>

definition json_laws :: "'m codec \<Rightarrow> bool" where
  "json_laws cd \<longleftrightarrow> (\<forall>m payload. to_vec cd m = Some payload \<longrightarrow> payload \<noteq> [] \<and> from_slice cd payload = Some m)"

text \<open>
  C36: A valid message that the sender manages to write arrives as that message, and the reader
  stops exactly at its end, on machines of either byte order. A message whose text exceeds
  \<open>MAX_FRAME_BYTES\<close> is refused before anything is written.
\<close>

theorem message_roundtrip:
  assumes "json_laws cd" and "to_vec cd m = Some payload" and "check cd m = Inr ()" and "ch_faults c = []"
  shows "if length payload \<le> MAX_FRAME_BYTES
    then \<exists>frame. write_message little cd m c = (Inr (), c\<lparr>ch_output := ch_output c @ frame\<rparr>) \<and>
      length frame = 4 + length payload \<and>
      (\<forall>peer rest. read_message little cd (peer\<lparr>ch_input := frame @ rest\<rparr>) = (Inr (Some m), peer\<lparr>ch_input := rest\<rparr>))
    else write_message little cd m c = (Inl OversizedFrame, c)"
proof (cases "length payload \<le> MAX_FRAME_BYTES")
  case True
  have "payload \<noteq> []" "from_slice cd payload = Some m"
    using assms(1,2) by (auto simp: json_laws_def)
  with True assms have "write_message little cd m c =
      (Inr (), c\<lparr>ch_output := ch_output c @ (to_ne_bytes little (length payload) @ payload)\<rparr>) \<and>
      (\<forall>peer rest. read_message little cd (peer\<lparr>ch_input := (to_ne_bytes little (length payload) @ payload) @ rest\<rparr>) =
        (Inr (Some m), peer\<lparr>ch_input := rest\<rparr>))"
    by (simp add: write_message_ok read_message_whole)
  with True show ?thesis
    by (metis length_append length_to_ne_bytes)
next
  case False
  with assms show ?thesis
    by (auto simp: write_message_def bindE_def liftE_def throwE_def MAX_FRAME_BYTES_def)
qed

subsection \<open>Approval\<close>

text \<open>Senders and answers belong to connections that have been numbered.\<close>

definition broker_wf :: "approval_broker \<Rightarrow> bool" where
  "broker_wf bk \<longleftrightarrow> (\<forall>m \<in> ran (map_of (bk_pending bk)). m < bk_next bk) \<and> (\<forall>m \<in> dom (map_of (bk_values bk)). m < bk_next bk)"

definition user_allowed :: "approval_broker \<Rightarrow> bool" where
  "user_allowed bk \<longleftrightarrow> (\<exists>i. random_token bk = Some i \<and> (i, True) \<in> set (bk_calls bk (bk_next bk)))"

text \<open>Only the token \<open>i\<close> reaches the channel \<open>n\<close>, and an answer in it is one of the calls so far.\<close>

definition awaiting :: "string \<Rightarrow> nat \<Rightarrow> (string \<times> bool) list \<Rightarrow> approval_broker \<Rightarrow> bool" where
  "awaiting i n calls bk \<longleftrightarrow>
     (\<forall>j. map_of (bk_pending bk) j = Some n \<longrightarrow> j = i) \<and>
     (\<forall>allow. map_of (bk_values bk) n = Some allow \<longrightarrow> (i, allow) \<in> set calls)"

lemma awaiting_resolve:
  "awaiting i n calls bk \<Longrightarrow> (j, allow) \<in> set calls \<Longrightarrow> awaiting i n calls (snd (resolve_approval j allow bk))"
  by (auto simp: awaiting_def resolve_approval_def broker_remove_def delete_conv Let_def split: option.split if_splits)

lemma awaiting_fold:
  "awaiting i n calls bk \<Longrightarrow> set seen \<subseteq> set calls \<Longrightarrow>
     awaiting i n calls (fold (\<lambda>(j, allow) b. snd (resolve_approval j allow b)) seen bk)"
proof (induction seen arbitrary: bk)
  case (Cons x xs)
  then show ?case using awaiting_resolve [of i n calls bk "fst x" "snd x"] by (simp add: case_prod_beta)
qed simp

lemma broker_request_allowed:
  assumes "broker_wf bk" and "broker_request bk = (True, bk')"
  shows "user_allowed bk"
proof -
  obtain i where token: "random_token bk = Some i"
    using assms(2) by (cases "random_token bk") (simp_all add: broker_request_def Let_def)
  define waiting where "waiting = bk\<lparr>bk_next := Suc (bk_next bk), bk_pending := AList.update i (bk_next bk) (bk_pending bk)\<rparr>"
  have "awaiting i (bk_next bk) (bk_calls bk (bk_next bk)) waiting"
    using assms(1) by (auto simp: awaiting_def waiting_def broker_wf_def update_conv' ran_def dom_def split: if_splits)
  then have "awaiting i (bk_next bk) (bk_calls bk (bk_next bk))
      (fold (\<lambda>(j, allow) b. snd (resolve_approval j allow b)) (bk_calls bk (bk_next bk)) waiting)"
    by (rule awaiting_fold) simp
  moreover have "map_of (bk_values (fold (\<lambda>(j, allow) b. snd (resolve_approval j allow b)) (bk_calls bk (bk_next bk)) waiting)) (bk_next bk) = Some True"
    using assms(2) token by (auto simp: broker_request_def waiting_def Let_def split: if_splits)
  ultimately show ?thesis
    using token by (auto simp: user_allowed_def awaiting_def)
qed

subsection \<open>Disclosures\<close>

text \<open>
  The specification of an answer: a credential answers a request for it, over the session that is
  open, for an entry that the policy may release to that origin; candidates are entries of the open
  session that match the origin, and at most \<open>MAX_CANDIDATES\<close> of them.
\<close>

definition discloses :: "BrowserResponse \<Rightarrow> bool" where
  "discloses response = (case response of
     CandidatesResponse _ _ _ _ _ \<Rightarrow> True | CredentialResponse _ _ _ _ \<Rightarrow> True | _ \<Rightarrow> False)"

definition open_session :: "'d desktop \<Rightarrow> string \<Rightarrow> bool" where
  "open_session d session \<longleftrightarrow> dk_unlocked d \<and> dk_browser_session_id d = Some session"

definition justified :: "('d, 'v) bridge_env \<Rightarrow> BrowserRequest \<Rightarrow> 'd desktop \<Rightarrow> BrowserResponse \<Rightarrow> bool" where
  "justified be request d response \<longleftrightarrow> (case response of
     CredentialResponse version i username password \<Rightarrow>
       (\<exists>origin session entry_id target.
          request = CredentialRequest version i origin session entry_id \<and>
          browser_origin (be_parse be) origin = Inr target \<and> open_session d session \<and>
          may_release (be_kl be) (be_parse be) (vault_document d) entry_id target \<lparr>cr_username = username, cr_password = password\<rparr>)
   | CandidatesResponse version i session cs _ \<Rightarrow>
       (\<exists>origin target.
          request = CandidatesRequest version i origin \<and>
          browser_origin (be_parse be) origin = Inr target \<and> open_session d session \<and> length cs \<le> MAX_CANDIDATES \<and>
          (\<forall>c \<in> set cs. entry_is_recycled (be_kl be) (vault_document d) (cand_entry_id c) = Inr False \<and>
             names_target (be_kl be) (be_parse be) (vault_document d) (cand_entry_id c) target))
   | _ \<Rightarrow> True)"

lemma browser_credential_iff:
  "browser_credential be d session entry_id target = Inr cred \<longleftrightarrow>
     open_session d session \<and> may_release (be_kl be) (be_parse be) (vault_document d) entry_id target cred"
  by (auto simp: browser_credential_def open_session_def credential_iff)

lemma candidates_sound:
  assumes "candidates kl parse doc target = Inr cs" and "c \<in> set (take n cs)"
  shows "entry_is_recycled kl doc (cc_entry_id c) = Inr False \<and> names_target kl parse doc (cc_entry_id c) target"
proof -
  obtain root where root: "projection kl doc = Inr root" by (simp add: projection_def)
  with assms(1) have selected: "select_entries kl doc (\<lambda>entry.
       bindR (entry_matches_target kl parse doc (sum_id entry) target) (\<lambda>matches.
       Inr (if matches then Some \<lparr>cc_entry_id = sum_id entry, cc_title = sum_title entry,
              cc_username = sum_username entry\<rparr> else None))) (collect_entries root) = Inr cs"
    by (simp add: candidates_def)
  from in_set_takeD [OF assms(2)] show ?thesis
    unfolding select_entries_mem [OF selected] entry_matches_target_iff [symmetric]
    by (auto simp: bindR_Inr_iff split: if_splits)
qed

lemma service_mutex_state: "service_mutex be a = (Inr d, a') \<Longrightarrow> as_service a' = d"
  by (auto simp: service_mutex_def split: prod.splits sum.splits)

lemma candidate_response_justified:
  assumes "candidate_response be i origin a = (response, a')"
  shows "justified be (CandidatesRequest PROTOCOL_VERSION i origin) (as_service a') response"
  using assms
  by (auto simp: candidate_response_def justified_def error_response_def browser_candidates_def open_session_def
      browser_candidate_def bindR_Inr_iff
      split: sum.splits prod.splits if_splits dest!: service_mutex_state dest: candidates_sound)

lemma app_browser_credential_state:
  "app_browser_credential be session entry_id target a = (Inr cred, a') \<Longrightarrow>
     browser_credential be (as_service a') session entry_id target = Inr cred"
  by (auto simp: app_browser_credential_def bindE_def getsE_def throwE_def liftE_def
      split: prod.splits sum.splits if_splits dest!: service_mutex_state)

lemma credential_response_justified:
  assumes "credential_response be i origin session entry_id a = (response, a')"
  shows "justified be (CredentialRequest PROTOCOL_VERSION i origin session entry_id) (as_service a') response"
  using assms
  by (auto simp: credential_response_def justified_def error_response_def browser_credential_iff may_release_def
      split: sum.splits prod.splits if_splits dest!: app_browser_credential_state)

lemma handle_authorized_request_justified:
  assumes "validate_request request = Inr ()" and "handle_authorized_request be request a = (response, a')"
  shows "justified be request (as_service a') response"
proof (cases request)
  case (Connect v i)
  with assms show ?thesis by (auto simp: justified_def error_response_def)
next
  case (CandidatesRequest v i origin)
  with assms candidate_response_justified [of be i origin a response a'] show ?thesis
    by (auto simp: bindR_Inr_iff validate_common_def split: if_splits)
next
  case (CredentialRequest v i origin session entry_id)
  with assms credential_response_justified [of be i origin session entry_id a response a'] show ?thesis
    by (auto simp: bindR_Inr_iff validate_common_def split: if_splits)
qed

definition all_justified :: "('d, 'v) bridge_env \<Rightarrow> 'd bridge \<Rightarrow> bool" where
  "all_justified be b \<longleftrightarrow> (\<forall>(request, d, response) \<in> set (br_sent b). justified be request d response)"

lemma respond_justified:
  assumes "all_justified be b" and "validate_request request = Inr ()"
    and "bindE (answer be request) (send_response be request) b = (r, b')"
  shows "all_justified be b'"
  using assms(1,3) handle_authorized_request_justified [OF assms(2)]
  by (auto simp: bindE_def answer_def send_response_def all_justified_def split: prod.splits)

lemma serve_justified: "all_justified be b \<Longrightarrow> serve be b = (r, b') \<Longrightarrow> all_justified be b'"
proof (induction be b arbitrary: r b' rule: serve.induct)
  case (1 be b)
  obtain first b1 where receive: "receive be b = (first, b1)" by (cases "receive be b")
  have kept: "br_sent b1 = br_sent b"
    using receive by (auto simp: receive_def split: prod.splits)
  show ?case
  proof (cases "\<exists>request. first = Inr (Some request)")
    case True
    then obtain request where first: "first = Inr (Some request)" ..
    obtain reply b2 where respond: "bindE (answer be request) (send_response be request) b1 = (reply, b2)"
      by (cases "bindE (answer be request) (send_response be request) b1")
    have "all_justified be b2"
      using respond_justified [OF _ _ respond] receive_channel(3) [OF receive [unfolded first]] "1.prems"(1) kept
      by (simp add: all_justified_def)
    with "1.IH" [OF receive [symmetric] first refl respond [symmetric]] "1.prems"(2) receive first respond
    show ?thesis by (auto simp: serve.simps [of be b] split: sum.splits)
  next
    case False
    with "1.prems" receive kept show ?thesis
      by (auto simp: serve.simps [of be b] all_justified_def split: sum.splits option.splits)
  qed
qed

text \<open>Nothing has been disclosed so far.\<close>

definition nothing_disclosed :: "'d bridge \<Rightarrow> bool" where
  "nothing_disclosed b \<longleftrightarrow> (\<forall>x \<in> set (br_sent b). \<not> discloses (snd (snd x)))"

lemma nothing_disclosed_justified: "nothing_disclosed b \<Longrightarrow> all_justified be b"
  by (fastforce simp: nothing_disclosed_def all_justified_def justified_def discloses_def split: BrowserResponse.splits)

lemma preserves_opening:
  "preserves (\<lambda>b. nothing_disclosed b \<and> br_broker b = bk) (receive be)"
  "\<not> discloses response \<Longrightarrow> preserves (\<lambda>b. nothing_disclosed b \<and> br_broker b = bk) (send_response be request response)"
  "preserves (\<lambda>b. nothing_disclosed b) (receive be)"
  "\<not> discloses response \<Longrightarrow> preserves (\<lambda>b. nothing_disclosed b) (send_response be request response)"
  "preserves (\<lambda>b. nothing_disclosed b) (vault_state be)"
  "preserves (\<lambda>b. nothing_disclosed b) approve"
  by (auto simp: preserves_def receive_def send_response_def vault_state_def approve_def nothing_disclosed_def split: prod.splits)

definition disclosed_with :: "('d, 'v) bridge_env \<Rightarrow> bool \<Rightarrow> 'd bridge \<Rightarrow> bool" where
  "disclosed_with be allowed b \<longleftrightarrow> all_justified be b \<and> (nothing_disclosed b \<or> allowed)"

lemma disclosed_with_quiet: "nothing_disclosed b \<Longrightarrow> disclosed_with be allowed b"
  by (simp add: disclosed_with_def nothing_disclosed_justified)

lemma wpE_disclosed_preserves:
  "preserves nothing_disclosed m \<Longrightarrow> nothing_disclosed b \<Longrightarrow>
     wpE m (\<lambda>_. disclosed_with be allowed) (\<lambda>_. disclosed_with be allowed) b"
  by (rule wpE_mono [OF preservesD [of nothing_disclosed]]) (auto intro: disclosed_with_quiet)

lemma wpE_serve_disclosed:
  "nothing_disclosed b \<Longrightarrow> wpE (serve be) (\<lambda>_. disclosed_with be True) (\<lambda>_. disclosed_with be True) b"
  unfolding wpE_def disclosed_with_def
  using serve_justified [OF nothing_disclosed_justified] by (fastforce split: prod.split sum.split)

text \<open>What follows the answer of the user.\<close>

lemma wpE_connected_disclosed:
  "nothing_disclosed b \<Longrightarrow>
     wpE (bindE (vault_state be) (\<lambda>state. bindE (send_response be request (Connected v i state)) (\<lambda>_. serve be)))
       (\<lambda>_. disclosed_with be True) (\<lambda>_. disclosed_with be True) b"
  unfolding wpE_bindE
  by (rule wpE_mono [OF preservesD [OF preserves_opening(5)]], assumption)
    (auto intro!: wpE_mono [OF preservesD [OF preserves_opening(4)]] wpE_serve_disclosed disclosed_with_quiet simp: discloses_def)

lemma wpE_decision_disclosed:
  assumes "broker_wf (br_broker b)" "nothing_disclosed b"
  shows "wpE (bindE approve (\<lambda>allowed.
       if \<not> allowed then bindE (send_response be request (ErrorResponse v i Denied)) (\<lambda>_. throwE ())
       else bindE (vault_state be) (\<lambda>state. bindE (send_response be request (Connected v i state)) (\<lambda>_. serve be))))
     (\<lambda>_. disclosed_with be (user_allowed (br_broker b))) (\<lambda>_. disclosed_with be (user_allowed (br_broker b))) b"
proof -
  obtain allowed bk where decision: "broker_request (br_broker b) = (allowed, bk)"
    by (cases "broker_request (br_broker b)")
  define b1 where "b1 = b\<lparr>br_broker := bk\<rparr>"
  have quiet: "nothing_disclosed b1" using assms(2) by (simp add: b1_def nothing_disclosed_def)
  show ?thesis
  proof (cases allowed)
    case True
    then have "user_allowed (br_broker b)" using broker_request_allowed [OF assms(1)] decision by simp
    with True wpE_connected_disclosed [OF quiet] show ?thesis
      by (simp add: wpE_def bindE_def approve_def decision b1_def)
  next
    case False
    have "wpE (bindE (send_response be request (ErrorResponse v i Denied)) (\<lambda>_. throwE ())) (\<lambda>_. disclosed_with be (user_allowed (br_broker b)))
        (\<lambda>_. disclosed_with be (user_allowed (br_broker b))) b1"
      by (rule wpE_disclosed_preserves) (auto intro!: preserves_bindE preserves_opening quiet simp: discloses_def)
    with False show ?thesis
      by (simp add: wpE_def bindE_def approve_def decision b1_def)
  qed
qed

lemma wpE_handle_connection_disclosed:
  assumes "broker_wf (br_broker b)" "nothing_disclosed b"
  shows "wpE (handle_connection be) (\<lambda>_. disclosed_with be (user_allowed (br_broker b)))
     (\<lambda>_. disclosed_with be (user_allowed (br_broker b))) b"
proof -
  let ?opening = "\<lambda>t. nothing_disclosed t \<and> br_broker t = br_broker b"
  have connect: "wpE (bindE (send_response be request (ApprovalPending v i)) (\<lambda>_. bindE approve (\<lambda>allowed.
       if \<not> allowed then bindE (send_response be request (ErrorResponse v i Denied)) (\<lambda>_. throwE ())
       else bindE (vault_state be) (\<lambda>state. bindE (send_response be request (Connected v i state)) (\<lambda>_. serve be)))))
     (\<lambda>_. disclosed_with be (user_allowed (br_broker b))) (\<lambda>_. disclosed_with be (user_allowed (br_broker b))) t"
    if "?opening t" for t request v i
    unfolding wpE_bindE [of "send_response be request (ApprovalPending v i)"]
    by (rule wpE_mono [OF preservesD [OF preserves_opening(2) [where bk = "br_broker b"]]])
      (use that assms(1) wpE_decision_disclosed [where be = be] in \<open>auto simp: discloses_def intro: disclosed_with_quiet\<close>, metis)
  have refuse: "wpE (bindE (send_response be request (ErrorResponse v i code)) (\<lambda>_. throwE ()))
     (\<lambda>_. disclosed_with be (user_allowed (br_broker b))) (\<lambda>_. disclosed_with be (user_allowed (br_broker b))) t"
    if "?opening t" for t request v i code
    by (rule wpE_disclosed_preserves) (use that in \<open>auto intro!: preserves_bindE preserves_opening simp: discloses_def\<close>)
  have "?opening b" using assms by simp
  then show ?thesis
    unfolding handle_connection_def wpE_bindE [of "receive be"]
    by (rule wpE_mono [OF preservesD [OF preserves_opening(1)]])
      (auto simp: wpE_returnE disclosed_with_quiet split: option.split BrowserRequest.split intro!: connect refuse [simplified])
qed

text \<open>
  C11: Whatever arrives on a connection and whatever other users of the vault do meanwhile, a response
  that carries candidates or a credential is only written after the user allowed this very
  connection, and it answers the origin that asked: the session is the one open at that moment, each
  entry is outside the recycle bin and its own address has the origin of the request, and a released
  username and password are those of the requested entry.
\<close>

theorem browser_learns_only_approved_matches:
  assumes "broker_wf (br_broker b)" and "br_sent b = []" and "handle_connection be b = (r, b')"
    and "(request, d, response) \<in> set (br_sent b')"
  shows "justified be request d response \<and> (discloses response \<longrightarrow> user_allowed (br_broker b))"
proof -
  have "nothing_disclosed b" using assms(2) by (simp add: nothing_disclosed_def)
  with assms(1,3) have "disclosed_with be (user_allowed (br_broker b)) b'"
    using wpE_handle_connection_disclosed [of b be] by (cases r) (simp_all add: wpE_def)
  with assms(4) show ?thesis
    by (fastforce simp: disclosed_with_def all_justified_def nothing_disclosed_def)
qed

subsection \<open>A concrete connection\<close>

text \<open>
  A vault with one entry for \<open>https://a.b\<close>, an open session, a browser that asks for its credential,
  and a user who allows the connection. JSON texts are single bytes.
\<close>

definition ref_site_entry :: "string \<Rightarrow> nat EntryState" where
  "ref_site_entry u = \<lparr>es_entry = (ref_new_entry 65)\<lparr>e_fields := fmap_of_list
       [(''UserName'', enc (False, u)), (''Password'', enc (True, ''p'')), (''URL'', enc (False, ''U''))]\<rparr>,
     es_parent = 1, es_previous_parent = None, es_attachments = fmempty\<rparr>"

definition ref_browser_db :: "string \<Rightarrow> ref_db" where
  "ref_browser_db u = ref_empty_db\<lparr>rd_entries := [(65, ref_site_entry u)],
     rd_groups := [(1, \<lparr>gs_group = ref_new_group 1, gs_parent = None, gs_previous_parent = None,
       gs_child_groups = [], gs_child_entries = [65]\<rparr>)]\<rparr>"

definition ref_parse :: url_api where
  "ref_parse value = (if value \<noteq> ''U'' then None
     else Some \<lparr>u_as_str = ''https://a.b/'', u_cannot_be_a_base = False, u_scheme = ''https'', u_username = [], u_password = None,
       u_host = Some (Domain ''a.b.''), u_port_or_known_default = Some 443, u_path = ''/'', u_query = None, u_fragment = None\<rparr>)"

definition ref_request_id :: string where "ref_request_id = replicate 32 (CHR ''a'')"

abbreviation "ref_connect \<equiv> Connect PROTOCOL_VERSION ref_request_id"
abbreviation "ref_ask \<equiv> CredentialRequest PROTOCOL_VERSION ref_request_id ''U'' ref_request_id ''A''"

definition ref_json :: json_api where
  "ref_json = \<lparr>request_json = (\<lambda>r. if r = ref_connect then Some [1] else if r = ref_ask then Some [2] else None,
       \<lambda>bs. if bs = [1] then Some ref_connect else if bs = [2] then Some ref_ask else None),
     response_json = (\<lambda>_. Some [3], \<lambda>_. None)\<rparr>"

definition ref_browser_ext :: "ref_db vault_ext" where
  "ref_browser_ext = \<lparr>sha256 = (\<lambda>_. replicate 32 0), vx_kdbx = \<lparr>parse_database = (\<lambda>_ _. Inl InvalidCredentials),
     database_save = (\<lambda>_ _ _. Inl KdbxError.Io), database_semantically_eq = (=), database_valid_for_sync = (\<lambda>_. True),
     database_merge = (\<lambda>_ _ _. Inl KdbxError.Io)\<rparr>\<rparr>"

definition ref_bridge_env :: "(ref_db, nat) bridge_env" where
  "ref_bridge_env = \<lparr>be_ext = ref_browser_ext, be_kl = ref_lib, be_parse = ref_parse, be_json = ref_json, be_little = True\<rparr>"

definition ref_browser_desktop :: "string \<Rightarrow> ref_db desktop" where
  "ref_browser_desktop u = \<lparr>dk_world = \<lparr>v_session = \<lparr>vs_path = ''/v'',
       vs_document = \<lparr>kd_version = Kdbx4 1, kd_database = ref_browser_db u, kd_revision = 0, kd_revision_permanently_dirty = False\<rparr>,
       vs_source_fingerprint = fingerprint ref_browser_ext [], vs_saved_revision = 0\<rparr>,
       v_files = [], v_script = [], v_random = (\<lambda>n. [word_of_nat n]), v_random_index = 0, v_armed = [], v_seed = 0, v_history = [], v_checks = []\<rparr>,
     dk_unlocked = True, dk_save_credential = None, dk_browser_session_id = Some ref_request_id, dk_poisoned = False,
     dk_users = [], dk_history = []\<rparr>"

definition ref_broker :: approval_broker where
  "ref_broker = \<lparr>bk_pending = [], bk_values = [], bk_next = 0, bk_poisoned = False, bk_random = (\<lambda>_. Some [0]),
     bk_window = (\<lambda>_. Some \<lparr>aw_visible = Some True, aw_minimized = Some False, aw_unminimize = True, aw_emit = True, aw_focus = True\<rparr>),
     bk_calls = (\<lambda>_. [(''00'', True)])\<rparr>"

abbreviation "ref_channel input \<equiv> \<lparr>ch_input = input, ch_broken = False, ch_output = [], ch_faults = []\<rparr>"

definition ref_bridge :: "ref_db bridge" where
  "ref_bridge = \<lparr>br_channel = ref_channel (to_ne_bytes True 1 @ [1] @ to_ne_bytes True 1 @ [2]),
     br_app = \<lparr>as_service = ref_browser_desktop ''u'', as_gate_poisoned = False\<rparr>, br_broker = ref_broker, br_sent = []\<rparr>"

lemma ref_char: "char_of (65 :: nat) = CHR ''A''"
  by code_simp

lemma ref_requests_valid: "validate_request ref_connect = Inr ()" "validate_request ref_ask = Inr ()"
  by (simp_all add: validate_common_def validate_token_def validate_bounded_def ref_request_id_def protocol_limits
      is_lower_hex_def is_ascii_digit_def list_all_iff)

lemma ref_receive:
  assumes "x = 1 \<and> request = ref_connect \<or> x = 2 \<and> request = ref_ask" "ch_input (br_channel b) = to_ne_bytes True 1 @ [x] @ rest"
  shows "receive ref_bridge_env b = (Inr (Some request), b\<lparr>br_channel := (br_channel b)\<lparr>ch_input := rest\<rparr>\<rparr>)"
proof -
  have "read_message True (requests ref_json) ((br_channel b)\<lparr>ch_input := to_ne_bytes True (length [x]) @ [x] @ rest\<rparr>) =
      (Inr (Some request), (br_channel b)\<lparr>ch_input := rest\<rparr>)"
    using assms(1) ref_requests_valid by (subst read_message_whole [where m = request]) (auto simp: requests_def ref_json_def MAX_FRAME_BYTES_def)
  moreover have "(br_channel b)\<lparr>ch_input := to_ne_bytes True (length [x]) @ [x] @ rest\<rparr> = br_channel b"
    using assms(2) by simp
  ultimately show ?thesis
    by (simp add: receive_def read_request_def ref_bridge_env_def)
qed

lemma ref_send:
  assumes "ch_faults (br_channel b) = []"
  shows "send_response ref_bridge_env request response b = (Inr (), b\<lparr>br_channel := (br_channel b)\<lparr>ch_output := ch_output (br_channel b) @ to_ne_bytes True 1 @ [3]\<rparr>,
    br_sent := br_sent b @ [(request, as_service (br_app b), response)]\<rparr>)"
  using assms write_message_ok [of "responses ref_json" response "[3]" "br_channel b" True]
  by (simp add: send_response_def ref_bridge_env_def responses_def ref_json_def MAX_FRAME_BYTES_def)

lemma ref_origin: "canonical_browser_origin ref_parse ''U'' only = Some ''https://a.b''"
  by (simp add: canonical_browser_origin_def ref_parse_def Let_def trim_end_matches_def to_ascii_lowercase_def is_ascii_upper_def)

lemma ref_target: "browser_origin ref_parse ''U'' = Inr (WebOrigin ''https://a.b'')"
  by (simp add: browser_origin_def ref_origin)

lemma ref_lock: "lock_service ext (ref_browser_desktop u) = (Inr (), ref_browser_desktop u)"
  by (simp add: lock_service_def ref_browser_desktop_def)

lemma ref_names: "kl_username ref_lib = ''UserName''" "kl_password ref_lib = ''Password''" "kl_url ref_lib = ''URL''"
  "kl_title ref_lib = ''Title''" "kl_id_string ref_lib 65 = ''A''"
  by (simp_all add: ref_lib_def ref_keepass_def ref_char)

lemma ref_contents:
  "state_field ref_lib (ref_site_entry u) ''UserName'' = Some (False, u)" "state_field ref_lib (ref_site_entry u) ''Title'' = None"
  "state_field ref_lib (ref_site_entry u) ''Password'' = Some (True, ''p'')" "state_field ref_lib (ref_site_entry u) ''URL'' = Some (False, ''U'')"
  by (simp_all add: field_of_def ref_site_entry_def ref_new_entry_def ref_lib_def HistoricalEntry.defs fmlookup_of_list)

lemma ref_database [simp]: "kd_database (vault_document (ref_browser_desktop u)) = ref_browser_db u"
  by (simp add: ref_browser_desktop_def)

lemma ref_found: "find_entry_id ref_lib (ref_browser_db u) ''A'' = Inr 65" "kl_entry ref_lib (ref_browser_db u) 65 = Some (ref_site_entry u)"
  "kl_tree ref_lib (ref_browser_db u) = GroupNode 1 [] [65]"
  by (simp_all add: find_entry_id_def ref_lib_def ref_keepass_def ref_browser_db_def ref_empty_db_def ref_char)

lemma ref_fields:
  "entry_secret ref_lib (vault_document (ref_browser_desktop u)) ''A'' name = Inr (map_option snd (state_field ref_lib (ref_site_entry u) name))"
  by (simp add: entry_secret_def located_entry_def ref_found)

lemma ref_not_recycled: "entry_is_recycled ref_lib (vault_document (ref_browser_desktop u)) ''A'' = Inr False"
proof -
  have "recycle_bin_id ref_lib (ref_browser_db u) = None"
    by (simp add: recycle_bin_id_def ref_lib_def ref_keepass_def ref_browser_db_def ref_empty_db_def ref_meta_def)
  then show ?thesis by (simp add: entry_is_recycled_def ref_found)
qed

lemma ref_matches: "names_target ref_lib ref_parse (vault_document (ref_browser_desktop u)) ''A'' (WebOrigin ''https://a.b'')"
  by (simp add: names_target_def entry_url_def ref_fields ref_names ref_contents ref_origin)

lemma ref_projection: "\<exists>i name entry. projection ref_lib (vault_document (ref_browser_desktop u)) = Inr (VaultGroup i name [] [entry]) \<and>
    sum_id entry = ''A'' \<and> sum_title entry = MissingText \<and> sum_username entry = Visible u"
proof -
  have "e_id (es_entry (ref_site_entry u)) = 65" by (simp add: ref_site_entry_def ref_new_entry_def)
  then show ?thesis
    using ref_contents [of u]
    by (simp add: projection_def summaries_of_def ref_found project_entry_summary_def List.map_filter_def ref_names
      project_summary_text_def HistoricalEntry.defs)
qed

lemma ref_answer:
  assumes "br_app b = \<lparr>as_service = ref_browser_desktop ''u'', as_gate_poisoned = False\<rparr>"
  shows "answer ref_bridge_env ref_ask b = (Inr (CredentialResponse PROTOCOL_VERSION ref_request_id ''u'' ''p''), b)"
proof -
  have "may_release ref_lib ref_parse (vault_document (ref_browser_desktop ''u'')) ''A'' (WebOrigin ''https://a.b'')
      \<lparr>cr_username = ''u'', cr_password = ''p''\<rparr>"
    using ref_projection [of "''u''"]
    by (auto simp: may_release_def entry_username_def entry_password_def ref_fields ref_names ref_contents ref_matches ref_not_recycled)
  then have "browser_credential ref_bridge_env (ref_browser_desktop ''u'') ref_request_id ''A'' (WebOrigin ''https://a.b'') =
      Inr \<lparr>cr_username = ''u'', cr_password = ''p''\<rparr>"
    by (simp add: browser_credential_iff open_session_def ref_bridge_env_def) (simp add: ref_browser_desktop_def)
  moreover have "be_parse ref_bridge_env = ref_parse" by (simp add: ref_bridge_env_def)
  ultimately show ?thesis
    using assms by (simp add: ref_target ref_lock answer_def credential_response_def app_browser_credential_def service_mutex_def
        bindE_def getsE_def liftE_def MAX_CREDENTIAL_FIELD_BYTES_def)
qed

lemma ref_token: "hex_encode [0] = ''00''"
  by code_simp

lemma ref_approve: "broker_request ref_broker = (True, ref_broker\<lparr>bk_next := 1, bk_values := [(0, True)]\<rparr>)"
  by (simp add: broker_request_def random_token_def ref_broker_def ref_token notify_def resolve_approval_def broker_remove_def Let_def)

abbreviation "ref_released \<equiv> (ref_ask, (ref_browser_desktop ''u''), CredentialResponse PROTOCOL_VERSION ref_request_id ''u'' ''p'')"

lemma ref_serve:
  assumes "br_app b = \<lparr>as_service = (ref_browser_desktop ''u''), as_gate_poisoned = False\<rparr>" "ch_faults (br_channel b) = []"
    and "ch_input (br_channel b) = to_ne_bytes True 1 @ [2]" and "\<not> ch_broken (br_channel b)"
  shows "ref_released \<in> set (br_sent (snd (serve ref_bridge_env b)))"
proof -
  define b1 where "b1 = b\<lparr>br_channel := (br_channel b)\<lparr>ch_input := []\<rparr>\<rparr>"
  have first: "receive ref_bridge_env b = (Inr (Some ref_ask), b1)"
    unfolding b1_def by (rule ref_receive [where x = 2]) (use assms(3) in simp_all)
  have app: "br_app b1 = \<lparr>as_service = (ref_browser_desktop ''u''), as_gate_poisoned = False\<rparr>" and ok: "ch_faults (br_channel b1) = []"
    using assms by (simp_all add: b1_def)
  obtain b2 where respond: "bindE (answer ref_bridge_env ref_ask) (send_response ref_bridge_env ref_ask) b1 = (Inr (), b2)"
    and sent: "ref_released \<in> set (br_sent b2)" and rest: "ch_input (br_channel b2) = []" "\<not> ch_broken (br_channel b2)"
    using ref_answer [OF app] ref_send [OF ok] app assms(4) by (simp add: bindE_def b1_def)
  have "receive ref_bridge_env b2 = (Inr None, b2)"
    using rest by (simp add: receive_def read_request_def read_message_def read_frame_def bindE_def read_one_def returnE_def)
  then have "serve ref_bridge_env b2 = (Inr (), b2)"
    by (simp add: serve.simps)
  with first respond sent show ?thesis
    by (simp add: serve.simps [of ref_bridge_env b])
qed

lemma ref_connection: "ref_released \<in> set (br_sent (snd (handle_connection ref_bridge_env ref_bridge)))"
proof -
  define b1 where "b1 = ref_bridge\<lparr>br_channel := ref_channel (to_ne_bytes True 1 @ [2])\<rparr>"
  have "receive ref_bridge_env ref_bridge = (Inr (Some ref_connect),
      ref_bridge\<lparr>br_channel := (br_channel ref_bridge)\<lparr>ch_input := to_ne_bytes True 1 @ [2]\<rparr>\<rparr>)"
    by (rule ref_receive [where x = 1]) (simp_all add: ref_bridge_def)
  then have first: "receive ref_bridge_env ref_bridge = (Inr (Some ref_connect), b1)"
    by (simp add: b1_def ref_bridge_def)
  have "br_broker b1 = ref_broker" "br_app b1 = \<lparr>as_service = (ref_browser_desktop ''u''), as_gate_poisoned = False\<rparr>"
    "br_channel b1 = ref_channel (to_ne_bytes True 1 @ [2])"
    by (simp_all add: b1_def ref_bridge_def)
  then show ?thesis
    by (simp add: handle_connection_def bindE_def first ref_lock ref_send approve_def ref_approve vault_state_def service_mutex_def)
      (auto intro!: ref_serve)
qed

theorem browser_learns_only_approved_matches_witness:
  "broker_wf (br_broker ref_bridge) \<and> br_sent ref_bridge = [] \<and> user_allowed (br_broker ref_bridge) \<and>
   justified ref_bridge_env ref_ask (ref_browser_desktop ''u'') (CredentialResponse PROTOCOL_VERSION ref_request_id ''u'' ''p'')"
proof -
  have initial: "broker_wf (br_broker ref_bridge)" "br_sent ref_bridge = []"
    by (simp_all add: ref_bridge_def ref_broker_def broker_wf_def)
  show ?thesis
    using initial browser_learns_only_approved_matches [OF initial, of ref_bridge_env
        "fst (handle_connection ref_bridge_env ref_bridge)" "snd (handle_connection ref_bridge_env ref_bridge)"] ref_connection
    by (simp add: discloses_def)
qed

theorem message_roundtrip_witness:
  "\<exists>frame. write_message True (requests ref_json) ref_connect (ref_channel []) =
      (Inr (), (ref_channel [])\<lparr>ch_output := frame\<rparr>) \<and> length frame = 5 \<and>
      (\<forall>rest. read_message True (requests ref_json) (ref_channel (frame @ rest)) = (Inr (Some ref_connect), ref_channel rest))"
proof -
  have "json_laws (requests ref_json)"
    by (auto simp: json_laws_def requests_def ref_json_def split: if_splits)
  moreover have "to_vec (requests ref_json) ref_connect = Some [1]" "check (requests ref_json) ref_connect = Inr ()"
    using ref_requests_valid by (simp_all add: requests_def ref_json_def)
  ultimately obtain frame where written: "write_message True (requests ref_json) ref_connect (ref_channel []) =
      (Inr (), (ref_channel [])\<lparr>ch_output := frame\<rparr>)" "length frame = 5"
    and reads: "\<forall>peer rest. read_message True (requests ref_json) (peer\<lparr>ch_input := frame @ rest\<rparr>) = (Inr (Some ref_connect), peer\<lparr>ch_input := rest\<rparr>)"
    using message_roundtrip [of "requests ref_json" ref_connect "[1]" "ref_channel []" True]
    by (auto simp: MAX_FRAME_BYTES_def)
  from written spec [OF reads, of "ref_channel []"] show ?thesis by auto
qed

subsection \<open>Blank names\<close>

text \<open>
  A field that is present and empty is visible text of length zero. The desktop passes it on, and the
  protocol forbids empty text, so the host rejects the whole response.
\<close>

lemma write_message_frame:
  assumes "write_message little cd m c = (Inr (), c')"
  obtains payload where "to_vec cd m = Some payload" "payload \<noteq> []" "length payload \<le> MAX_FRAME_BYTES"
    "ch_output c' = ch_output c @ to_ne_bytes little (length payload) @ payload"
  using assms
  by (cases "to_vec cd m") (auto simp: write_message_def bindE_def liftE_def throwE_def write_all_def split: if_splits list.splits option.splits)

lemma try_for_each_Inr: "try_for_each f xs = Inr () \<longleftrightarrow> (\<forall>x \<in> set xs. f x = Inr ())"
  by (induction xs) (auto simp: bindR_Inr_iff)

lemma blank_response_invalid:
  assumes "c \<in> set (take MAX_CANDIDATES cs)" and "cc_title c = Visible [] \<or> cc_username c = Visible []"
  shows "validate_response (CandidatesResponse v i session (map browser_candidate (take MAX_CANDIDATES cs)) truncated) \<noteq> Inr ()"
proof -
  have "validate_candidate (browser_candidate c) \<noteq> Inr ()"
    using assms(2)
    by (auto simp: validate_candidate_def browser_candidate_def bindR_Inr_iff validate_candidate_text_def summary_def
        visible_def bounded_summary_def validate_bounded_def)
  with assms(1) show ?thesis
    by (auto simp: validate_response_def bindR_Inr_iff try_for_each_Inr)
qed

lemma relay_rejects:
  assumes "json_laws (responses (he_json he))" and "validate_response response \<noteq> Inr ()"
    and "to_vec (responses (he_json he)) response = Some payload" and "length payload \<le> MAX_FRAME_BYTES"
    and "ho_desktop h = Some (peer\<lparr>ch_input := to_ne_bytes (he_little he) (length payload) @ payload @ rest\<rparr>)"
  shows "\<exists>e h'. relay he (CandidatesRequest v i origin) h = (Inl e, h') \<and> ho_forwarded h' = ho_forwarded h"
proof -
  obtain e where invalid: "validate_response response = Inl e" using assms(2) by (cases "validate_response response") auto
  have read: "read_response (he_little he) (he_json he) (c\<lparr>ch_input := to_ne_bytes (he_little he) (length payload) @ payload @ rest\<rparr>)
      = (Inl InvalidProtocol, c\<lparr>ch_input := rest\<rparr>)" for c
    using assms(1,3,4) invalid read_message_whole [where payload = payload and cd = "responses (he_json he)" and m = response]
    by (simp add: read_response_def json_laws_def responses_def)
  let ?request = "CandidatesRequest v i origin"
  obtain r c where written: "write_message (he_little he) (requests (he_json he)) ?request
      (peer\<lparr>ch_input := to_ne_bytes (he_little he) (length payload) @ payload @ rest\<rparr>) = (r, c)"
    by (cases "write_message (he_little he) (requests (he_json he)) ?request
      (peer\<lparr>ch_input := to_ne_bytes (he_little he) (length payload) @ payload @ rest\<rparr>)")
  then have "ch_input c = to_ne_bytes (he_little he) (length payload) @ payload @ rest"
    using write_message_keeps by fastforce
  then have "read_response (he_little he) (he_json he) c = (Inl InvalidProtocol, c\<lparr>ch_input := rest\<rparr>)"
    using read [of c] by (metis channel.surjective channel.update_convs(1))
  with assms(5) written show ?thesis
    by (cases r) (simp_all add: relay_def to_desktop_def from_desktop_def bindE_def)
qed

text \<open>
  C37: One matching entry whose title or username is present but empty makes the native host give up.
  The desktop answers the request for candidates with that entry in the list, and the host that reads
  this answer ends the connection with an error and forwards nothing to the browser.
\<close>

theorem blank_candidate_ends_the_connection:
  assumes "browser_origin (be_parse be) origin = Inr target" and "service_mutex be a = (Inr d, a')"
    and "browser_candidates be d target = Inr (session, cs)"
    and "c \<in> set (take MAX_CANDIDATES cs)" and "cc_title c = Visible [] \<or> cc_username c = Visible []"
    and "json_laws (responses (be_json be))" and "he_json he = be_json be" and "he_little he = be_little be"
    and "write_message (be_little be) (responses (be_json be)) (fst (candidate_response be i origin a)) ch =
      (Inr (), ch\<lparr>ch_output := ch_output ch @ frame\<rparr>)"
    and "ho_desktop h = Some (peer\<lparr>ch_input := frame @ rest\<rparr>)"
  shows "\<exists>e h'. relay he (CandidatesRequest v i origin) h = (Inl e, h') \<and> ho_forwarded h' = ho_forwarded h"
proof -
  have response: "fst (candidate_response be i origin a) =
      CandidatesResponse PROTOCOL_VERSION i session (map browser_candidate (take MAX_CANDIDATES cs)) (MAX_CANDIDATES < length cs)"
    using assms(1-3) by (simp add: candidate_response_def)
  obtain payload where "to_vec (responses (be_json be)) (fst (candidate_response be i origin a)) = Some payload"
    "length payload \<le> MAX_FRAME_BYTES" "frame = to_ne_bytes (be_little be) (length payload) @ payload"
    using write_message_frame [OF assms(9)] by auto
  moreover have "validate_response (fst (candidate_response be i origin a)) \<noteq> Inr ()"
    unfolding response using assms(4,5) by (rule blank_response_invalid)
  ultimately show ?thesis
    using assms(6-8,10) by (intro relay_rejects [where response = "fst (candidate_response be i origin a)"]) auto
qed

abbreviation "ref_blank_response \<equiv> CandidatesResponse PROTOCOL_VERSION ref_request_id ref_request_id
  [\<lparr>cand_entry_id = ''A'', cand_title = ProtectedMarker, cand_username = VisibleText []\<rparr>] False"

definition ref_blank_json :: json_api where
  "ref_blank_json = \<lparr>request_json = (\<lambda>_. Some [2], \<lambda>_. None),
     response_json = (\<lambda>r. if r = ref_blank_response then Some [4] else None, \<lambda>bs. if bs = [4] then Some ref_blank_response else None)\<rparr>"

lemma ref_candidates:
  "candidates ref_lib ref_parse (vault_document (ref_browser_desktop u)) (WebOrigin ''https://a.b'') =
     Inr [\<lparr>cc_entry_id = ''A'', cc_title = MissingText, cc_username = Visible u\<rparr>]"
proof -
  obtain i name entry where "projection ref_lib (vault_document (ref_browser_desktop u)) = Inr (VaultGroup i name [] [entry])"
    "sum_id entry = ''A''" "sum_title entry = MissingText" "sum_username entry = Visible u"
    using ref_projection [of u] by auto
  moreover have "entry_matches_target ref_lib ref_parse (vault_document (ref_browser_desktop u)) ''A'' (WebOrigin ''https://a.b'') = Inr True"
    using ref_matches by (simp add: entry_matches_target_iff)
  ultimately show ?thesis
    by (simp add: candidates_def ref_not_recycled)
qed

abbreviation "ref_blank_env \<equiv> ref_bridge_env\<lparr>be_json := ref_blank_json\<rparr>"
abbreviation "ref_blank_app \<equiv> \<lparr>as_service = ref_browser_desktop [], as_gate_poisoned = False\<rparr>"
abbreviation "ref_host frame \<equiv> \<lparr>ho_browser = ref_channel [], ho_desktop = Some (ref_channel frame), ho_forwarded = []\<rparr>"

theorem blank_candidate_ends_the_connection_witness:
  "\<exists>e h'. relay \<lparr>he_json = ref_blank_json, he_little = True\<rparr> (CandidatesRequest PROTOCOL_VERSION ref_request_id ''U'')
     (ref_host (to_ne_bytes True 1 @ [4])) = (Inl e, h') \<and> ho_forwarded h' = []"
proof -
  have env: "be_parse ref_blank_env = ref_parse" "be_kl ref_blank_env = ref_lib" "be_json ref_blank_env = ref_blank_json" "be_little ref_blank_env = True"
    by (simp_all add: ref_bridge_env_def)
  have mutex: "service_mutex ref_blank_env ref_blank_app = (Inr (ref_browser_desktop []), ref_blank_app)"
    by (simp add: service_mutex_def ref_lock)
  have found: "browser_candidates ref_blank_env (ref_browser_desktop []) (WebOrigin ''https://a.b'') =
      Inr (ref_request_id, [\<lparr>cc_entry_id = ''A'', cc_title = MissingText, cc_username = Visible []\<rparr>])"
    using ref_candidates [of "[]"] by (simp add: browser_candidates_def env) (simp add: ref_browser_desktop_def)
  have response: "fst (candidate_response ref_blank_env ref_request_id ''U'' ref_blank_app) = ref_blank_response"
    by (simp add: candidate_response_def env ref_target mutex found browser_candidate_def summary_def visible_def
        bounded_summary_def MAX_CANDIDATES_def)
  have written: "write_message True (responses ref_blank_json) ref_blank_response (ref_channel []) =
      (Inr (), (ref_channel [])\<lparr>ch_output := ch_output (ref_channel []) @ (to_ne_bytes True 1 @ [4])\<rparr>)"
    by (subst write_message_ok [where payload = "[4]"]) (simp_all add: responses_def ref_blank_json_def MAX_FRAME_BYTES_def)
  have laws: "json_laws (responses ref_blank_json)"
    by (auto simp: json_laws_def responses_def ref_blank_json_def split: if_splits)
  show ?thesis
    using blank_candidate_ends_the_connection [of ref_blank_env "''U''" "WebOrigin ''https://a.b''" ref_blank_app
        "ref_browser_desktop []" ref_blank_app ref_request_id "[\<lparr>cc_entry_id = ''A'', cc_title = MissingText, cc_username = Visible []\<rparr>]"
        "\<lparr>cc_entry_id = ''A'', cc_title = MissingText, cc_username = Visible []\<rparr>" "\<lparr>he_json = ref_blank_json, he_little = True\<rparr>"
        ref_request_id "ref_channel []" "to_ne_bytes True 1 @ [4]" "ref_host (to_ne_bytes True 1 @ [4])" "[]" "ref_channel []"]
      mutex found written laws
    by (simp add: env ref_target response MAX_CANDIDATES_def)
qed

end
