(* ===== verification/Remote_Providers.thy ===== *)
theory Remote_Providers
  imports Gateway_Client Credential_Provider
begin

section \<open>WebDAV and S3 providers\<close>

text \<open>
  Models \<open>src/crates/sync-provider-webdav/src/lib.rs\<close> and \<open>src/crates/sync-provider-s3/src/lib.rs\<close>, the
  other two implementations of the provider contract.

  The servers and the clients that talk to them (\<open>reqwest\<close>, the AWS SDK) are parameters. Sending a
  request is an operation on the state \<open>'s\<close> of everything behind it, other clients included;
  \<open>reqwest\<close> returns a response or fails, and the SDK reports a failed call with the status of the
  response when there was one. Building the clients (TLS, timeouts, no redirects, no retries) is
  configuration and has no counterpart here. URLs are parsed by the parameter \<open>url_api\<close>.
\<close>

subsection \<open>Remote addresses\<close>

text \<open>\<open>IpAddr::from_str\<close> on a host that is a domain: a domain has no colon, so only the dotted form remains.\<close>

fun split_char :: "char \<Rightarrow> string \<Rightarrow> string list" where
  "split_char c [] = [[]]"
| "split_char c (d # s) = (if d = c then [] # split_char c s
     else case split_char c s of [] \<Rightarrow> [] | p # ps \<Rightarrow> (d # p) # ps)"

definition parse_octet :: "string \<Rightarrow> nat option" where
  "parse_octet s =
     (if s = [] \<or> 3 < length s \<or> \<not> list_all is_ascii_digit s \<or> 1 < length s \<and> hd s = CHR ''0'' \<or> 255 < decimal_value s
      then None else Some (decimal_value s))"

definition parse_ipv4 :: "string \<Rightarrow> nat list option" where
  "parse_ipv4 s = (let parts = split_char CHR ''.'' s in
     if length parts = 4 \<and> list_all (\<lambda>p. parse_octet p \<noteq> None) parts
     then Some (map (\<lambda>p. the (parse_octet p)) parts) else None)"

text \<open>\<open>is_loopback\<close> of the address in the text of the host.\<close>

definition host_is_loopback :: "Host \<Rightarrow> bool" where
  "host_is_loopback h = (case h of
     Domain d \<Rightarrow> (case parse_ipv4 d of Some (a # _) \<Rightarrow> a = 127 | _ \<Rightarrow> False)
   | Ipv4 address \<Rightarrow> (case address of a # _ \<Rightarrow> a = 127 | [] \<Rightarrow> False)
   | Ipv6 address \<Rightarrow> address = [0, 0, 0, 0, 0, 0, 0, 1])"

definition host_is_localhost :: "Host \<Rightarrow> bool" where
  "host_is_localhost h = (case h of Domain d \<Rightarrow> eq_ignore_ascii_case d ''localhost'' | _ \<Rightarrow> False)"

definition validate_remote_url :: "Url \<Rightarrow> ProviderError + unit" where
  "validate_remote_url url =
     (if u_scheme url = ''https'' then Inr ()
      else if u_scheme url \<noteq> ''http'' then Inl InvalidConfiguration
      else
        bindR (ok_or InvalidConfiguration (u_host url)) (\<lambda>host.
        if host_is_localhost host \<or> host_is_loopback host then Inr () else Inl InvalidConfiguration))"

subsection \<open>The configuration of a gateway\<close>

text \<open>Of the base URL only the path takes part in the requests of \<open>Gateway_Client\<close>.\<close>

record GatewayConfig =
  gc_base_path :: string
  gc_vault_id :: uuid

definition GatewayConfig_new :: "'x codec_ext_scheme \<Rightarrow> url_api \<Rightarrow> string \<Rightarrow> string \<Rightarrow> ProviderError + GatewayConfig" where
  "GatewayConfig_new ext parse base_url vault_id_text =
     bindR (ok_or InvalidConfiguration (parse base_url)) (\<lambda>url.
     bindR (validate_remote_url url) (\<lambda>_.
     if u_username url \<noteq> [] \<or> u_password url \<noteq> None \<or> u_query url \<noteq> None \<or> u_fragment url \<noteq> None \<or> u_cannot_be_a_base url
     then Inl InvalidConfiguration
     else
       let path = trim_end_matches CHR ''/'' (u_path url) @ ''/'' in
       bindR (ok_or InvalidConfiguration (parse_uuid ext vault_id_text)) (\<lambda>vault_id.
       if \<not> uuid_is_v4 ext vault_id \<or> vault_id_text \<noteq> hyphenated ext vault_id then Inl InvalidConfiguration
       else Inr \<lparr>gc_base_path = path, gc_vault_id = vault_id\<rparr>)))"

definition GatewayProvider_new :: "GatewayConfig \<Rightarrow> string \<Rightarrow> ProviderError + GatewayProvider" where
  "GatewayProvider_new config token =
     (if \<not> valid_gateway_token token then Inl AuthenticationFailed
      else Inr \<lparr>gp_base_path = gc_base_path config, gp_vault_id = gc_vault_id config, gp_token = token\<rparr>)"

subsection \<open>WebDAV\<close>

record WebDavConfig =
  wd_resource_url :: Url
  wd_username :: string

definition WebDavConfig_new :: "url_api \<Rightarrow> string \<Rightarrow> string \<Rightarrow> ProviderError + WebDavConfig" where
  "WebDavConfig_new parse resource_url username =
     bindR (ok_or InvalidConfiguration (parse resource_url)) (\<lambda>url.
     bindR (validate_remote_url url) (\<lambda>_.
     if u_username url \<noteq> [] \<or> u_password url \<noteq> None then Inl InvalidConfiguration
     else if u_fragment url \<noteq> None then Inl InvalidConfiguration
     else Inr \<lparr>wd_resource_url = url, wd_username = username\<rparr>))"

record 's dav_transport =
  dav_send :: "Request \<Rightarrow> ('s, unit, ClientResponse) op"
  dav_basic_auth :: "string \<Rightarrow> string \<Rightarrow> string"

record 's WebDavProvider =
  wp_transport :: "'s dav_transport"
  wp_config :: WebDavConfig
  wp_password :: string

definition authenticated :: "'s WebDavProvider \<Rightarrow> Request \<Rightarrow> Request" where
  "authenticated wp rq = rq\<lparr>rq_headers := rq_headers rq @
     [(''authorization'', dav_basic_auth (wp_transport wp) (wd_username (wp_config wp)) (wp_password wp))]\<rparr>"

definition dav_request :: "'s WebDavProvider \<Rightarrow> Method \<Rightarrow> (string \<times> string) list \<Rightarrow> bytes \<Rightarrow> Request" where
  "dav_request wp method headers body =
     authenticated wp \<lparr>rq_method = method, rq_path = u_as_str (wd_resource_url (wp_config wp)), rq_query = None,
       rq_headers = headers, rq_body = Collected body\<rparr>"

definition webdav_read :: "'s WebDavProvider \<Rightarrow> ('s, ProviderError, RemoteRead) op" where
  "webdav_read wp =
     bindE (map_errE (\<lambda>_. Transport) (dav_send (wp_transport wp) (dav_request wp GET [] []))) (\<lambda>response.
     let status = cr_status response in
     if status = 404 then returnE Missing
     else if is_success status then liftE (read_success response)
     else if status = 401 \<or> status = 403 then throwE AuthenticationFailed
     else if is_redirection status then throwE UnsafeProvider
     else throwE Transport)"

text \<open>The read-back after a write that was accepted, the same in both crates.\<close>

definition confirm_read :: "('s, ProviderError, RemoteRead) op \<Rightarrow> bytes \<Rightarrow> ('s, ProviderError, RemoteRevision) op" where
  "confirm_read m expected_ciphertext =
     bindE (tryE m) (\<lambda>r. case r of
       Inr (Present remote) \<Rightarrow>
         if ciphertext remote = expected_ciphertext then returnE (revision remote) else throwE RemoteChanged
     | Inr Missing \<Rightarrow> throwE RemoteChanged
     | Inl _ \<Rightarrow> throwE WriteResultUncertain)"

definition webdav_conditional_put ::
    "'s WebDavProvider \<Rightarrow> string \<Rightarrow> string \<Rightarrow> bytes \<Rightarrow> ('s, ProviderError, RemoteRevision) op" where
  "webdav_conditional_put wp condition_name condition_value ct =
     (if length ct > MAX_REMOTE_CIPHERTEXT_BYTES then throwE ObjectTooLarge
      else
        bindE (map_errE (\<lambda>_. WriteResultUncertain)
          (dav_send (wp_transport wp) (dav_request wp PUT [(condition_name, condition_value)] ct))) (\<lambda>response.
        let status = cr_status response in
        if is_success status then confirm_read (webdav_read wp) ct
        else if status = 412 \<or> status = 409 then throwE RemoteChanged
        else if status = 404 \<and> condition_value \<noteq> ''*'' then throwE RemoteChanged
        else if status = 401 \<or> status = 403 then throwE AuthenticationFailed
        else if is_redirection status then throwE UnsafeProvider
        else throwE Transport))"

definition webdav_provider :: "'s WebDavProvider \<Rightarrow> 's provider" where
  "webdav_provider wp = \<lparr>p_read = webdav_read wp,
     p_create_if_absent = webdav_conditional_put wp ''if-none-match'' ''*'',
     p_replace_if_revision = (\<lambda>expected. webdav_conditional_put wp ''if-match'' (as_provider_token expected))\<rparr>"

subsection \<open>S3\<close>

text \<open>\<open>trim().is_empty()\<close>: nothing but white space, which Unicode also has outside of ASCII.\<close>

fun is_blank :: "string \<Rightarrow> bool" where
  "is_blank [] = True"
| "is_blank (a # s) =
     (if is_whitespace a then is_blank s
      else case s of
        b # t \<Rightarrow>
          if a = CHR 0xC2 then b \<in> {CHR 0x85, CHR 0xA0} \<and> is_blank t
          else (case t of
            c # r \<Rightarrow> [a, b, c] \<in> {[CHR 0xE1, CHR 0x9A, CHR 0x80], [CHR 0xE2, CHR 0x80, CHR 0xA8], [CHR 0xE2, CHR 0x80, CHR 0xA9],
                [CHR 0xE2, CHR 0x80, CHR 0xAF], [CHR 0xE2, CHR 0x81, CHR 0x9F], [CHR 0xE3, CHR 0x80, CHR 0x80]} \<union>
                (\<lambda>n. [CHR 0xE2, CHR 0x80, char_of (128 + n)]) ` set [0 ..< (11 :: nat)] \<and> is_blank r
          | [] \<Rightarrow> False)
      | [] \<Rightarrow> False)"

record S3Config =
  s3_endpoint :: "Url option"
  s3_region :: string
  s3_bucket :: string
  s3_object_key :: string
  s3_path_style :: bool

definition validate_endpoint :: "Url \<Rightarrow> ProviderError + unit" where
  "validate_endpoint url =
     (if u_username url \<noteq> [] \<or> u_password url \<noteq> None \<or> u_query url \<noteq> None \<or> u_fragment url \<noteq> None
      then Inl InvalidConfiguration else validate_remote_url url)"

definition S3Config_new ::
    "url_api \<Rightarrow> string option \<Rightarrow> string \<Rightarrow> string \<Rightarrow> string \<Rightarrow> bool \<Rightarrow> ProviderError + S3Config" where
  "S3Config_new parse endpoint region bucket object_key path_style =
     (if is_blank region \<or> is_blank bucket \<or> object_key = [] then Inl InvalidConfiguration
      else
        bindR (case endpoint of
            None \<Rightarrow> Inr None
          | Some value \<Rightarrow> if is_blank value then Inr None else
              bindR (ok_or InvalidConfiguration (parse value)) (\<lambda>url. Inr (Some url))) (\<lambda>url.
        bindR (case url of None \<Rightarrow> Inr () | Some u \<Rightarrow> validate_endpoint u) (\<lambda>_.
        Inr \<lparr>s3_endpoint = url, s3_region = region, s3_bucket = bucket, s3_object_key = object_key, s3_path_style = path_style\<rparr>)))"

record S3Credentials =
  s3_access_key_id :: string
  s3_secret_access_key :: string
  s3_session_token :: "string option"

definition S3Credentials_new :: "string \<Rightarrow> string \<Rightarrow> string option \<Rightarrow> ProviderError + S3Credentials" where
  "S3Credentials_new access_key_id secret session_token =
     (if is_blank access_key_id \<or> secret = [] then Inl InvalidConfiguration
      else Inr \<lparr>s3_access_key_id = access_key_id, s3_secret_access_key = secret, s3_session_token = session_token\<rparr>)"

text \<open>
  What a call of the SDK returns. The body is the sequence of what \<open>read\<close> into the buffer of 64 KiB
  yields, where \<open>None\<close> is a failure; the end of the list is the end of the body.
\<close>

record GetObjectOutput =
  go_content_length :: "int option"
  go_e_tag :: "string option"
  go_body :: "bytes option list"

datatype s3_condition = IfMatch string | IfNoneMatch string

record 's s3_client =
  s3_get_object :: "string \<Rightarrow> string \<Rightarrow> ('s, nat option, GetObjectOutput) op"
  s3_put_object :: "string \<Rightarrow> string \<Rightarrow> s3_condition \<Rightarrow> bytes \<Rightarrow> ('s, nat option, unit) op"

record 's S3Provider =
  sp_client :: "'s s3_client"
  sp_config :: S3Config

fun read_body :: "bytes \<Rightarrow> bytes option list \<Rightarrow> ProviderError + bytes" where
  "read_body ct [] = Inr ct"
| "read_body ct (None # rest) = Inl Transport"
| "read_body ct (Some chunk # rest) =
     (if chunk = [] then Inr ct
      else if length ct + length chunk > MAX_REMOTE_CIPHERTEXT_BYTES then Inl ObjectTooLarge
      else read_body (ct @ chunk) rest)"

definition read_output :: "GetObjectOutput \<Rightarrow> ProviderError + RemoteRead" where
  "read_output output =
     (if (case go_content_length output of None \<Rightarrow> False | Some len \<Rightarrow> len < 0 \<or> len > int MAX_REMOTE_CIPHERTEXT_BYTES)
      then Inl ObjectTooLarge
      else
        bindR (bindR (ok_or UnsupportedProvider (go_e_tag output)) RemoteRevision_new) (\<lambda>r.
        bindR (read_body [] (go_body output)) (\<lambda>ct.
        bindR (RemoteObject_new ct r) (\<lambda>obj. Inr (Present obj)))))"

definition s3_read :: "'s S3Provider \<Rightarrow> ('s, ProviderError, RemoteRead) op" where
  "s3_read sp =
     bindE (tryE (s3_get_object (sp_client sp) (s3_bucket (sp_config sp)) (s3_object_key (sp_config sp)))) (\<lambda>r. case r of
       Inr output \<Rightarrow> liftE (read_output output)
     | Inl (Some status) \<Rightarrow>
         if status = 404 then returnE Missing
         else if status = 401 \<or> status = 403 then throwE AuthenticationFailed
         else throwE Transport
     | Inl None \<Rightarrow> throwE Transport)"

definition s3_put :: "'s S3Provider \<Rightarrow> RemoteRevision option \<Rightarrow> bytes \<Rightarrow> ('s, ProviderError, RemoteRevision) op" where
  "s3_put sp expected ct =
     (if length ct > MAX_REMOTE_CIPHERTEXT_BYTES then throwE ObjectTooLarge
      else
        bindE (tryE (s3_put_object (sp_client sp) (s3_bucket (sp_config sp)) (s3_object_key (sp_config sp))
           (case expected of Some r \<Rightarrow> IfMatch (as_provider_token r) | None \<Rightarrow> IfNoneMatch ''*'') ct)) (\<lambda>r. case r of
          Inr _ \<Rightarrow> confirm_read (s3_read sp) ct
        | Inl (Some status) \<Rightarrow>
            if status = 409 \<or> status = 412 then throwE RemoteChanged
            else if status = 404 \<and> expected \<noteq> None then throwE RemoteChanged
            else if status = 401 \<or> status = 403 then throwE AuthenticationFailed
            else throwE Transport
        | Inl None \<Rightarrow> throwE WriteResultUncertain))"

definition s3_provider :: "'s S3Provider \<Rightarrow> 's provider" where
  "s3_provider sp = \<lparr>p_read = s3_read sp, p_create_if_absent = s3_put sp None,
     p_replace_if_revision = (\<lambda>expected. s3_put sp (Some expected))\<rparr>"

end
