(* ===== verification/Remote_Properties.thy ===== *)
theory Remote_Properties
  imports Remote_Providers Gateway_Contract
begin

section \<open>WebDAV and S3 keep the conditional contract\<close>

text \<open>
  The two providers keep the contract of \<open>Remote_Contract\<close> when the server honours conditional
  requests.
\<close>

text \<open>
  A server that honours HTTP preconditions: a request to read changes nothing and its entity tag names
  the body, a conditional write changes the resource only if its condition held.
\<close>

definition dav_honours_conditions ::
    "'s WebDavProvider \<Rightarrow> (RemoteRevision \<Rightarrow> bytes \<Rightarrow> bool) \<Rightarrow> ('s \<Rightarrow> (bytes option \<times> bytes) list) \<Rightarrow> bool" where
  "dav_honours_conditions wp names hist \<longleftrightarrow> (\<forall>s ct.
     wpE (dav_send (wp_transport wp) (dav_request wp GET [] []))
       (\<lambda>rs t. hist t = hist s \<and> (is_success (cr_status rs) \<longrightarrow>
          (\<forall>r. strong_etag (cr_headers rs) = Inr r \<longrightarrow> names r (concat (cr_chunks rs)))))
       (\<lambda>_ t. hist t = hist s) s \<and>
     wpE (dav_send (wp_transport wp) (dav_request wp PUT [(''if-none-match'', ''*'')] ct))
       (\<lambda>_ t. extends_by (hist s) (overwrites names None ct) (hist t))
       (\<lambda>_ t. extends_by (hist s) (overwrites names None ct) (hist t)) s \<and>
     (\<forall>r. wpE (dav_send (wp_transport wp) (dav_request wp PUT [(''if-match'', as_provider_token r)] ct))
       (\<lambda>_ t. extends_by (hist s) (overwrites names (Some r) ct) (hist t))
       (\<lambda>_ t. extends_by (hist s) (overwrites names (Some r) ct) (hist t)) s))"

text \<open>The bytes that reading the body to its end delivers.\<close>

fun body_bytes :: "bytes option list \<Rightarrow> bytes" where
  "body_bytes (Some (b # bs) # rest) = (b # bs) @ body_bytes rest"
| "body_bytes _ = []"

definition s3_honours_conditions ::
    "'s S3Provider \<Rightarrow> (RemoteRevision \<Rightarrow> bytes \<Rightarrow> bool) \<Rightarrow> ('s \<Rightarrow> (bytes option \<times> bytes) list) \<Rightarrow> bool" where
  "s3_honours_conditions sp names hist \<longleftrightarrow> (let bucket = s3_bucket (sp_config sp); key = s3_object_key (sp_config sp) in
     \<forall>s ct.
     wpE (s3_get_object (sp_client sp) bucket key)
       (\<lambda>output t. hist t = hist s \<and> (\<forall>tag. go_e_tag output = Some tag \<longrightarrow> names (RemoteRevision tag) (body_bytes (go_body output))))
       (\<lambda>_ t. hist t = hist s) s \<and>
     wpE (s3_put_object (sp_client sp) bucket key (IfNoneMatch ''*'') ct)
       (\<lambda>_ t. extends_by (hist s) (overwrites names None ct) (hist t))
       (\<lambda>_ t. extends_by (hist s) (overwrites names None ct) (hist t)) s \<and>
     (\<forall>r. wpE (s3_put_object (sp_client sp) bucket key (IfMatch (as_provider_token r)) ct)
       (\<lambda>_ t. extends_by (hist s) (overwrites names (Some r) ct) (hist t))
       (\<lambda>_ t. extends_by (hist s) (overwrites names (Some r) ct) (hist t)) s))"

subsection \<open>Reading\<close>

lemma read_chunks_Inr: "read_chunks ct chunks complete = Inr bs \<Longrightarrow> bs = ct @ concat chunks"
  by (induction chunks arbitrary: ct) (fastforce split: if_splits)+

lemma read_success_Present:
  "read_success response = Inr r \<Longrightarrow>
     \<exists>v. strong_etag (cr_headers response) = Inr v \<and> r = Present \<lparr>ciphertext = concat (cr_chunks response), revision = v\<rparr> \<and>
       length (concat (cr_chunks response)) \<le> MAX_REMOTE_CIPHERTEXT_BYTES"
  by (auto simp: read_success_def bindR_Inr_iff RemoteObject_new_Inr split: if_splits dest!: read_chunks_Inr)

lemma strong_etag_valid: "strong_etag headers = Inr r \<Longrightarrow> valid_revision r"
  by (auto simp: strong_etag_def bindR_Inr_iff Let_def split: list.splits if_splits intro: RemoteRevision_new_valid)

lemma webdav_reads_named:
  assumes "dav_honours_conditions wp names hist"
  shows "reads_named names hist (webdav_read wp)"
  unfolding reads_named_def webdav_read_def wpE_bindE wpE_map_errE Let_def
proof (rule allI, rule wpE_mono)
  fix s
  show "wpE (dav_send (wp_transport wp) (dav_request wp GET [] []))
       (\<lambda>rs t. hist t = hist s \<and> (is_success (cr_status rs) \<longrightarrow>
          (\<forall>r. strong_etag (cr_headers rs) = Inr r \<longrightarrow> names r (concat (cr_chunks rs)))))
       (\<lambda>_ t. hist t = hist s) s"
    using assms by (simp add: dav_honours_conditions_def)
qed (auto simp: wp_simps split: sum.split dest!: read_success_Present intro: strong_etag_valid)

lemma read_body_Inr: "read_body ct chunks = Inr bs \<Longrightarrow> bs = ct @ body_bytes chunks"
  by (induction ct chunks rule: read_body.induct) (auto simp: neq_Nil_conv split: if_splits)

lemma read_output_Present:
  "read_output output = Inr r \<Longrightarrow>
     \<exists>tag. go_e_tag output = Some tag \<and> valid_revision (RemoteRevision tag) \<and>
       r = Present \<lparr>ciphertext = body_bytes (go_body output), revision = RemoteRevision tag\<rparr> \<and>
       length (body_bytes (go_body output)) \<le> MAX_REMOTE_CIPHERTEXT_BYTES"
  by (auto simp: read_output_def bindR_Inr_iff RemoteObject_new_Inr RemoteRevision_new_Inr valid_revision_def
      split: if_splits dest!: read_body_Inr)

lemma s3_reads_named:
  assumes "s3_honours_conditions sp names hist"
  shows "reads_named names hist (s3_read sp)"
  unfolding reads_named_def s3_read_def wpE_bindE wpE_tryE
proof (rule allI, rule wpE_mono)
  fix s
  show "wpE (s3_get_object (sp_client sp) (s3_bucket (sp_config sp)) (s3_object_key (sp_config sp)))
       (\<lambda>output t. hist t = hist s \<and> (\<forall>tag. go_e_tag output = Some tag \<longrightarrow> names (RemoteRevision tag) (body_bytes (go_body output))))
       (\<lambda>_ t. hist t = hist s) s"
    using assms by (simp add: s3_honours_conditions_def Let_def)
qed (auto simp: wp_simps split: sum.split option.split dest!: read_output_Present)

subsection \<open>Writing\<close>

lemma confirm_read_named:
  assumes "reads_named names hist m" and "extends_by (hist s) P (hist t)"
  shows "wpE (confirm_read m ct)
    (\<lambda>r u. extends_by (hist s) P (hist u) \<and> names r ct \<and> valid_revision r) (\<lambda>_ u. extends_by (hist s) P (hist u)) t"
  unfolding confirm_read_def wpE_bindE wpE_tryE
  by (rule wpE_mono [OF assms(1) [unfolded reads_named_def, rule_format, of t]])
    (use assms(2) in \<open>auto simp: wp_simps split: RemoteRead.split\<close>)

lemma webdav_writes_named:
  assumes "reads_named names hist (webdav_read wp)"
    and "\<And>s. wpE (dav_send (wp_transport wp) (dav_request wp PUT [(name, value)] ct))
       (\<lambda>_ t. extends_by (hist s) (overwrites names expected ct) (hist t))
       (\<lambda>_ t. extends_by (hist s) (overwrites names expected ct) (hist t)) s"
  shows "writes_named names hist expected ct (webdav_conditional_put wp name value ct)"
  unfolding writes_named_def webdav_conditional_put_def Let_def
  by (auto simp: wp_simps intro!: wpE_mono [OF assms(2)] confirm_read_named [OF assms(1)])

lemma s3_writes_named:
  assumes "reads_named names hist (s3_read sp)"
    and "\<And>s. wpE (s3_put_object (sp_client sp) (s3_bucket (sp_config sp)) (s3_object_key (sp_config sp))
         (case expected of Some r \<Rightarrow> IfMatch (as_provider_token r) | None \<Rightarrow> IfNoneMatch ''*'') ct)
       (\<lambda>_ t. extends_by (hist s) (overwrites names expected ct) (hist t))
       (\<lambda>_ t. extends_by (hist s) (overwrites names expected ct) (hist t)) s"
  shows "writes_named names hist expected ct (s3_put sp expected ct)"
proof (cases "length ct > MAX_REMOTE_CIPHERTEXT_BYTES")
  case False
  show ?thesis
    unfolding writes_named_def s3_put_def if_not_P [OF False] wpE_bindE wpE_tryE
    by (intro allI wpE_mono [OF assms(2)])
      (auto simp: wp_simps split: option.split intro!: confirm_read_named [OF assms(1)])
qed (simp add: writes_named_def s3_put_def wp_simps)

lemma webdav_conditional:
  "dav_honours_conditions wp names hist \<Longrightarrow> conditional_provider names hist (webdav_provider wp)"
  using webdav_reads_named [of wp names hist]
  by (auto simp: conditional_provider_def webdav_provider_def dav_honours_conditions_def intro!: webdav_writes_named)

lemma s3_conditional:
  "s3_honours_conditions sp names hist \<Longrightarrow> conditional_provider names hist (s3_provider sp)"
  using s3_reads_named [of sp names hist]
  by (auto simp: conditional_provider_def s3_provider_def s3_honours_conditions_def Let_def intro!: s3_writes_named)

subsection \<open>Concrete servers\<close>

text \<open>One object, tagged with its quoted hexadecimal text, and the history of its changes.\<close>

type_synonym ref_store = "bytes option \<times> (bytes option \<times> bytes) list"

definition ref_tag :: "bytes \<Rightarrow> string" where
  "ref_tag bs = [CHR 0x22] @ hex_encode bs @ [CHR 0x22]"

definition ref_named :: "RemoteRevision \<Rightarrow> bytes \<Rightarrow> bool" where
  "ref_named r bs \<longleftrightarrow> as_provider_token r = ref_tag bs"

definition ref_write :: "s3_condition \<Rightarrow> bytes \<Rightarrow> ref_store \<Rightarrow> bool \<times> ref_store" where
  "ref_write condition ct s =
     (if (case condition of IfNoneMatch _ \<Rightarrow> fst s = None | IfMatch tag \<Rightarrow> map_option ref_tag (fst s) = Some tag)
      then (True, Some ct, snd s @ [(fst s, ct)]) else (False, s))"

definition ref_reply :: "nat \<Rightarrow> bytes option \<Rightarrow> ClientResponse" where
  "ref_reply status body = \<lparr>cr_status = status, cr_headers = (case body of None \<Rightarrow> [] | Some bs \<Rightarrow> [(''etag'', ref_tag bs)]),
     cr_chunks = (case body of None \<Rightarrow> [] | Some bs \<Rightarrow> [bs]), cr_complete = True\<rparr>"

definition ref_condition :: "Request \<Rightarrow> s3_condition option" where
  "ref_condition rq = (case map_of (rq_headers rq) ''if-none-match'' of
     Some v \<Rightarrow> Some (IfNoneMatch v)
   | None \<Rightarrow> map_option IfMatch (map_of (rq_headers rq) ''if-match''))"

definition ref_dav_send :: "Request \<Rightarrow> (ref_store, unit, ClientResponse) op" where
  "ref_dav_send rq = (\<lambda>s. case (rq_method rq, rq_body rq, ref_condition rq) of
     (PUT, Collected ct, Some condition) \<Rightarrow>
       (case ref_write condition ct s of (ok, t) \<Rightarrow> (Inr (ref_reply (if ok then 204 else 412) None), t))
   | (GET, _, _) \<Rightarrow> (Inr (ref_reply (if fst s = None then 404 else 200) (fst s)), s)
   | _ \<Rightarrow> (Inr (ref_reply 400 None), s))"

definition ref_dav :: "ref_store WebDavProvider" where
  "ref_dav = \<lparr>wp_transport = \<lparr>dav_send = ref_dav_send, dav_basic_auth = (\<lambda>u p. ''Basic '' @ u @ p)\<rparr>,
     wp_config = \<lparr>wd_resource_url = \<lparr>u_as_str = ''https://d/v'', u_cannot_be_a_base = False, u_scheme = ''https'', u_username = [],
         u_password = None, u_host = Some (Domain ''d''), u_port_or_known_default = Some 443, u_path = ''/v'', u_query = None,
         u_fragment = None\<rparr>, wd_username = ''u''\<rparr>, wp_password = ''p''\<rparr>"

definition ref_s3 :: "ref_store S3Provider" where
  "ref_s3 = \<lparr>sp_client = \<lparr>s3_get_object = (\<lambda>_ _ s. case fst s of
         None \<Rightarrow> (Inl (Some 404), s)
       | Some bs \<Rightarrow> (Inr \<lparr>go_content_length = None, go_e_tag = Some (ref_tag bs), go_body = [Some bs]\<rparr>, s)),
       s3_put_object = (\<lambda>_ _ condition ct s. case ref_write condition ct s of (ok, t) \<Rightarrow> (if ok then Inr () else Inl (Some 412), t))\<rparr>,
     sp_config = \<lparr>s3_endpoint = None, s3_region = ''r'', s3_bucket = ''b'', s3_object_key = ''k'', s3_path_style = False\<rparr>\<rparr>"

lemma ref_write_history:
  "extends_by (snd s) (overwrites ref_named None ct) (snd (snd (ref_write (IfNoneMatch v) ct s)))"
  "extends_by (snd s) (overwrites ref_named (Some r) ct) (snd (snd (ref_write (IfMatch (as_provider_token r)) ct s)))"
  by (auto simp: ref_write_def extends_by_def overwrites_def ref_named_def)

lemma ref_etag: "strong_etag [(''etag'', ref_tag bs)] = Inr r \<Longrightarrow> ref_named r bs"
  unfolding strong_etag_def
  by (auto simp: get_all_def bindR_Inr_iff Let_def to_str_def RemoteRevision_new_Inr ref_named_def ref_tag_def
      trim_quoted [simplified] split: if_splits)

lemma ref_dav_honours: "dav_honours_conditions ref_dav ref_named snd"
  unfolding dav_honours_conditions_def
  by (auto simp: wpE_def ref_dav_def ref_dav_send_def dav_request_def authenticated_def ref_condition_def ref_reply_def is_success_def
      split: option.splits prod.splits dest: ref_etag)
    (metis ref_write_history snd_conv)+

lemma body_bytes_single: "body_bytes [Some bs] = bs"
  by (cases bs) simp_all

lemma ref_s3_honours: "s3_honours_conditions ref_s3 ref_named snd"
  unfolding s3_honours_conditions_def Let_def
  by (auto simp: wpE_def ref_s3_def body_bytes_single ref_named_def [of "RemoteRevision t" for t] split: option.splits prod.splits)
    (metis ref_write_history snd_conv)+

end
