(* ===== verification/Sync_Providers.thy ===== *)
theory Sync_Providers
  imports Remote_Properties Reference_World
begin

section \<open>Synchronization over every provider\<close>

text \<open>
  The engine and the desktop vault over the other two providers. All that the engine needs of them is
  the contract of \<open>Remote_Contract\<close>, so what holds over the gateway holds over WebDAV and S3 servers
  that honour conditional requests.
\<close>

text \<open>
  C35: All three providers are conditional: the gateway client over any network and any other clients,
  WebDAV and S3 over servers that honour conditional requests. They never overwrite bytes other than
  the ones their condition names, even when the outcome of a write is an error; what they read is
  bounded and carries a revision that names it; and a write that reports success returns a revision
  that names exactly the bytes written, as read back.
\<close>

theorem providers_are_conditional:
  assumes "gateway_ext_ok gx" and "dav_honours_conditions wp names hist" and "s3_honours_conditions sp names' hist'"
  shows "conditional_provider (gateway_names gx) ge_history (gateway_provider gx gp) \<and>
    conditional_provider names hist (webdav_provider wp) \<and> conditional_provider names' hist' (s3_provider sp)"
  using gateway_conditional [OF assms(1)] webdav_conditional [OF assms(2)] s3_conditional [OF assms(3)] by blast

theorem providers_are_conditional_witness:
  "conditional_provider (gateway_names ref_gateway_ext) ge_history (gateway_provider ref_gateway_ext ref_provider) \<and>
   conditional_provider ref_named snd (webdav_provider ref_dav) \<and> conditional_provider ref_named snd (s3_provider ref_s3)"
  using providers_are_conditional [OF ref_gateway_ext_ok ref_dav_honours ref_s3_honours] .

definition runs_over :: "'r provider \<Rightarrow> 'db vault_ext \<Rightarrow> ('r \<times> 'db desktop, 'db) SyncEngine \<Rightarrow> bool" where
  "runs_over p vx en \<longleftrightarrow> store_ext_ok (se_ext en) \<and> sha256 (se_ext en) = sha256 vx \<and>
     se_provider en = remote_side p \<and> se_local en = local_side (desktop_local vx)"

lemma digest_of_sha256: "sha256 ext = sha256 ext' \<Longrightarrow> CiphertextDigest_of ext = CiphertextDigest_of ext'"
  by (simp add: fun_eq_iff CiphertextDigest_of_def)

lemma conditional_sync_history:
  assumes "conditional_provider names remote_changes p" and en: "runs_over p vx en"
    and "disk_is (se_ext en) (se_store en) b j w"
  shows "extends_by (remote_changes (fst (env w)))
    (\<lambda>(old, new). \<exists>s v. capture_clean (se_local en) (env w) = (Inr s, v) \<and> upload_justified en cred names b s old new)
    (remote_changes (fst (env (snd (sync en cred w)))))"
proof -
  let ?d = "CiphertextDigest_of (se_ext en)"
  have ext: "store_ext_ok (se_ext en)" and digest: "CiphertextDigest_of vx = ?d"
    using en by (auto simp: runs_over_def intro: digest_of_sha256)
  have env: "sync_env (remote_side p) (local_side (desktop_local vx)) ?d names (remote_changes \<circ> fst) (dk_history \<circ> snd)"
    by (rule deployment.is_sync_env [OF desktop_deployment [OF assms(1) digest]])
  have "sync_env.uses (remote_side p) (local_side (desktop_local vx)) ?d en"
    using en by (simp add: sync_env.uses_def [OF env] runs_over_def)
  moreover have "uuids_fresh 0 (se_ext en) w" by (simp add: uuids_fresh_def)
  ultimately show ?thesis
    using sync_env.sync_history [OF env _ ext assms(3), of 0 cred] en by (simp add: runs_over_def)
qed

text \<open>
  C4: Synchronization over WebDAV and S3 loses no update either. Over a server that honours conditional
  requests, whatever other clients, the network, the disk and the user of the desktop do, one sync
  changes the remote object at most once, and only by creating an absent object or by replacing a
  generation that was read, opened and merged into what is uploaded.
\<close>

theorem sync_no_lost_update_over_webdav_and_s3:
  assumes "dav_honours_conditions wp names hist \<and> p = webdav_provider wp \<or> s3_honours_conditions sp names hist \<and> p = s3_provider sp"
    and "runs_over p vx en" and "disk_is (se_ext en) (se_store en) b j w"
  shows "extends_by (hist (fst (env w)))
    (\<lambda>(old, new). \<exists>s v. capture_clean (se_local en) (env w) = (Inr s, v) \<and> upload_justified en cred names b s old new)
    (hist (fst (env (snd (sync en cred w)))))"
proof -
  have "conditional_provider names hist p" using assms(1) by (auto intro: webdav_conditional s3_conditional)
  then show ?thesis using assms(2,3) by (rule conditional_sync_history)
qed

definition ref_dav_engine :: "(ref_store \<times> bytes desktop, bytes) SyncEngine" where
  "ref_dav_engine = \<lparr>se_ext = ref_ext, se_store = ref_store, se_kdbx = ref_api, se_provider = remote_side (webdav_provider ref_dav),
     se_local = local_side (desktop_local (vault_ext_of ref_gateway_ext ref_api))\<rparr>"

definition ref_dav_world :: "(ref_store \<times> bytes desktop) engine_world" where
  "ref_dav_world = \<lparr>dir_modes = [], entries = [], faults = [], uuid_source = word_of_nat, uuid_index = 0,
     pending = None, poisoned = False, save_seed = 0, env = ((None, []), ref_desktop)\<rparr>"

theorem sync_no_lost_update_over_webdav_and_s3_witness:
  "extends_by []
    (\<lambda>(old, new). \<exists>s v. capture_clean (se_local ref_dav_engine) ((None, []), ref_desktop) = (Inr s, v) \<and>
       upload_justified ref_dav_engine ref_cred ref_named None s old new)
    (snd (fst (env (snd (sync ref_dav_engine ref_cred ref_dav_world)))))"
proof -
  have "runs_over (webdav_provider ref_dav) (vault_ext_of ref_gateway_ext ref_api) ref_dav_engine"
    using ref_ext_ok by (simp add: runs_over_def ref_dav_engine_def vault_ext_of_def ref_gateway_ext_def)
  moreover have "disk_is (se_ext ref_dav_engine) (se_store ref_dav_engine) None None ref_dav_world"
    by (simp add: disk_is_def disk_base_None disk_journal_None ref_dav_world_def ref_dav_engine_def)
  ultimately show ?thesis
    using sync_no_lost_update_over_webdav_and_s3 [where wp = ref_dav and names = ref_named and hist = snd and
        vx = "vault_ext_of ref_gateway_ext ref_api" and en = ref_dav_engine and w = ref_dav_world and cred = ref_cred
        and p = "webdav_provider ref_dav" and b = None and j = None] ref_dav_honours
    by (simp add: ref_dav_world_def)
qed

end
