(* ===== verification/Vault_Lifecycle.thy ===== *)
theory Vault_Lifecycle
  imports Vault_Safety
begin

section \<open>Opening and exporting a vault\<close>

text \<open>
  Models \<open>open.rs\<close>, \<open>policy.rs\<close> and \<open>export.rs\<close> of \<open>src/crates/vault-session/src\<close> and
  \<open>canonical_regular_file\<close> of \<open>lib.rs\<close>, in the world of \<open>Vault_Session\<close>. Paths are the canonical ones,
  so resolving a path is a system call that returns the path. A hard link gives a second name to a
  file; the model gives the second name a file with the same content, and the first one is removed
  when its guard is dropped.
\<close>

subsection \<open>Opening\<close>

definition canonical_regular_file :: "string \<Rightarrow> ('db, string) vault_op" where
  "canonical_regular_file p =
     bindE (validate_current_target p) (\<lambda>_.
     bindE (sys ReadSource) (\<lambda>_.
     bindE (validate_current_target p) (\<lambda>_.
     returnE p)))"

definition open_with_credential :: "'db vault_ext \<Rightarrow> string \<Rightarrow> KdbxCredential \<Rightarrow> ('db, 'db VaultSession) vault_op" where
  "open_with_credential ext p cred =
     bindE (canonical_regular_file p) (\<lambda>p.
     bindE (open_stable_document_with_credential ext p cred) (\<lambda>(document, source_fingerprint).
     returnE \<lparr>vs_path = p, vs_document = document, vs_source_fingerprint = source_fingerprint,
       vs_saved_revision = kd_revision document\<rparr>))"

definition is_open_credential_rejected :: "SessionError \<Rightarrow> bool" where
  "is_open_credential_rejected e = (e = Kdbx InvalidCredentials)"

definition is_unsupported_open_target :: "SessionError \<Rightarrow> bool" where
  "is_unsupported_open_target e =
     (e \<in> {UnsupportedPath, ReadSource, Kdbx InvalidKdbx, Kdbx UnsupportedFormat})"

subsection \<open>Write policy\<close>

datatype WriteRestriction = UnsupportedWriteFormatRestriction | UnsupportedPersistencePlatformRestriction | ReadOnlySourceRestriction

text \<open>
  \<open>save_supported\<close> is \<open>platform::SAVE_SUPPORTED\<close>, true on Unix and false on Windows; \<open>read_only\<close> is what
  the metadata of the file says, false when it cannot be read.
\<close>

definition write_restriction :: "bool \<Rightarrow> (string \<Rightarrow> bool) \<Rightarrow> 'db VaultSession \<Rightarrow> WriteRestriction option" where
  "write_restriction save_supported read_only s =
     (if kd_version (vs_document s) \<noteq> Kdbx4 1 then Some UnsupportedWriteFormatRestriction
      else if \<not> save_supported then Some UnsupportedPersistencePlatformRestriction
      else if read_only (vs_path s) then Some ReadOnlySourceRestriction
      else None)"

subsection \<open>Export\<close>

definition EXPORT_TEMP_PREFIX :: string where "EXPORT_TEMP_PREFIX = ''.nian-pass-export-''"

text \<open>\<open>Path::exists\<close>: a failure to look is an absent file. A link counts as present here; if its target is missing the hard link below fails with the same error.\<close>

definition path_exists :: "string \<Rightarrow> ('db vault_world, 'e, bool) op" where
  "path_exists p = (\<lambda>w. case sys ReadSource w of
     (Inl _, t) \<Rightarrow> (Inr False, t)
   | (Inr _, t) \<Rightarrow> (Inr (map_of (v_files t) p \<noteq> None), t))"

definition hard_link :: "SessionError \<Rightarrow> string \<Rightarrow> string \<Rightarrow> ('db, unit) vault_op" where
  "hard_link e from to =
     bindE (sys e) (\<lambda>_. bindE (getsE (\<lambda>w. (map_of (v_files w) from, map_of (v_files w) to))) (\<lambda>(src, dst).
     case (src, dst) of
       (Some nd, None) \<Rightarrow> modifyE (\<lambda>w. w\<lparr>v_files := AList.update to nd (v_files w)\<rparr>)
     | _ \<Rightarrow> throwE e))"

text \<open>\<open>remove_file\<close> and \<open>sync_parent\<close> whose results are ignored.\<close>

definition remove_file_ignoring :: "string \<Rightarrow> ('db vault_world, 'e, unit) op" where
  "remove_file_ignoring p = (\<lambda>w. case sys ReadSource w of
     (Inl _, t) \<Rightarrow> (Inr (), t)
   | (Inr _, t) \<Rightarrow> (Inr (), if map_of (v_files t) p = Some Directory then t else t\<lparr>v_files := AList.delete p (v_files t)\<rparr>))"

definition check_export :: "'db vault_ext \<Rightarrow> 'db KdbxDocument \<Rightarrow> string \<Rightarrow> KdbxCredential \<Rightarrow> ('db, unit) vault_op" where
  "check_export ext document p cred =
     bindE (map_errE ExportVerificationFailed (open_document_with_credential ext p cred)) (\<lambda>reopened.
     liftE (map_err ExportVerificationFailed (verify_semantic_equivalence (vx_kdbx ext) document reopened)))"

text \<open>What follows the hard link: the published name is checked, and taken back when that fails.\<close>

definition finish_export ::
    "'db vault_ext \<Rightarrow> 'db KdbxDocument \<Rightarrow> string \<Rightarrow> KdbxCredential \<Rightarrow> ('db, unit) vault_op" where
  "finish_export ext document destination cred =
     bindE (tryE (bindE (check_export ext document destination cred) (\<lambda>_.
       bindE (sys ExportTarget) (\<lambda>_. sys ExportTarget)))) (\<lambda>published. case published of
       Inr _ \<Rightarrow> returnE ()
     | Inl e \<Rightarrow>
         bindE (remove_file_ignoring destination) (\<lambda>_.
         bindE sync_parent (\<lambda>_.
         throwE e)))"

definition export_body ::
    "'db vault_ext \<Rightarrow> string \<Rightarrow> KdbxCredential \<Rightarrow> string \<Rightarrow> ('db, unit) vault_op" where
  "export_body ext destination cred p =
     bindE (getsE (\<lambda>w. (vs_document (v_session w), v_seed w))) (\<lambda>(document, seed).
     bindE (modifyE (\<lambda>w. w\<lparr>v_seed := Suc seed\<rparr>)) (\<lambda>_.
     bindE (liftE (map_err Kdbx (save_to_writer_with_credential (vx_kdbx ext) seed document cred))) (\<lambda>bs.
     bindE (write_temp (Kdbx WriteIo) p bs) (\<lambda>_.
     bindE (sys WriteTemp) (\<lambda>_.  \<comment> \<open>flush\<close>
     bindE (sys SyncTemp) (\<lambda>_.   \<comment> \<open>sync_all\<close>
     bindE (check_export ext document p cred) (\<lambda>_.
     bindE (hard_link ExportTarget p destination) (\<lambda>_.
     finish_export ext document destination cred))))))))"

definition export_copy_with_credential :: "'db vault_ext \<Rightarrow> string \<Rightarrow> KdbxCredential \<Rightarrow> ('db, unit) vault_op" where
  "export_copy_with_credential ext destination cred =
     (if list_all (\<lambda>c. c = CHR ''/'') destination then throwE UnsupportedPath
      else
        bindE (path_exists destination) (\<lambda>present.
        if present then throwE ExportTarget
        else with_temp (temp_create TEMP_CREATE_ATTEMPTS (parent_of destination) EXPORT_TEMP_PREFIX)
          (export_body ext destination cred)))"

subsection \<open>What opening and exporting leave alone\<close>

text \<open>\<open>m\<close> changes neither the session nor the vault file by itself.\<close>

lemma quiet_open [simp]: "quiet (canonical_regular_file p)" "quiet (open_with_credential ext p cred)"
  unfolding canonical_regular_file_def open_with_credential_def
  by (auto intro!: quiet_intros split: prod.split)

lemma same_session_open [simp]:
  "same_session (canonical_regular_file p)" "same_session (open_stable_document_with_credential ext p cred)"
  "same_session (open_with_credential ext p cred)"
  unfolding canonical_regular_file_def open_with_credential_def open_stable_document_with_credential_def
  by (auto intro!: same_session_intros split: prod.split)


end
