(* ===== verification/Export_Properties.thy ===== *)
theory Export_Properties
  imports Vault_Lifecycle Reference_World
begin

section \<open>Exporting a copy\<close>

text \<open>
  What an export does to the directory. Without other writers it only adds the copy, and the copy was
  read back; with another writer it can remove a file that is not its own.
\<close>

definition no_writers :: "fs_event list \<Rightarrow> bool" where
  "no_writers script \<longleftrightarrow> (\<forall>e \<in> set script. e = Proceed \<or> e = Fault)"

text \<open>Every file of \<open>w\<close> is still there, and nothing else that matters has changed.\<close>

definition keeps_files :: "'db vault_world \<Rightarrow> 'db vault_world \<Rightarrow> bool" where
  "keeps_files w t \<longleftrightarrow> no_writers (v_script t) \<and> v_session t = v_session w \<and> v_history t = v_history w \<and>
     (\<forall>q nd. map_of (v_files w) q = Some nd \<longrightarrow> map_of (v_files t) q = Some nd)"

lemma sys_keeps:
  assumes "no_writers (v_script w)"
  shows "\<exists>r s. sys e w = (r, w\<lparr>v_script := s\<rparr>) \<and> no_writers s"
proof (cases "v_script w")
  case Nil
  then have "sys e w = (Inr (), w\<lparr>v_script := []\<rparr>)" by (simp add: sys_def)
  then show ?thesis by (intro exI conjI) (auto simp: no_writers_def)
next
  case (Cons x xs)
  with assms show ?thesis by (auto simp: no_writers_def sys_def split: fs_event.split)
qed

lemma keeps_script: "keeps_files w t \<Longrightarrow> no_writers s \<Longrightarrow> keeps_files w (t\<lparr>v_script := s\<rparr>)"
  by (simp add: keeps_files_def)

lemma keeps_sys [simp]: "preserves (keeps_files w) (sys e)"
  unfolding preserves_def
  by (metis keeps_files_def keeps_script snd_conv sys_keeps)

lemma keeps_sysD: "sys e t = (r, u) \<Longrightarrow> keeps_files w t \<Longrightarrow> keeps_files w u"
  using keeps_sys [of w e] by (auto simp: preserves_def dest!: spec [where x = t])

lemma keeps_delete:
  "map_of (v_files w) p = None \<Longrightarrow> keeps_files w t \<Longrightarrow> keeps_files w (t\<lparr>v_files := AList.delete p (v_files t)\<rparr>)"
  by (auto simp: keeps_files_def delete_conv' restrict_map_def)

lemma keeps_reads [simp]:
  "preserves (keeps_files w) (read_file e p)" "preserves (keeps_files w) (open_document_with_credential ext p cred)"
  "preserves (keeps_files w) sync_parent" "preserves (keeps_files w) (path_exists p)"
proof -
  show "preserves (keeps_files w) (path_exists p)"
    by (auto simp: preserves_def path_exists_def split: prod.split sum.split dest: keeps_sysD)
qed (auto simp: read_file_def open_document_with_credential_def sync_parent_def intro!: preserves_intros split: option.split node.split)

lemma keeps_write [simp]: "map_of (v_files w) p = None \<Longrightarrow> preserves (keeps_files w) (write_temp e p bs)"
  unfolding write_temp_def
  by (auto intro!: preserves_intros) (auto simp: keeps_files_def update_conv')

lemma keeps_hard_link [simp]: "preserves (keeps_files w) (hard_link e from to)"
proof (rule preservesI)
  fix t assume "keeps_files w t"
  then show "wpE (hard_link e from to) (\<lambda>_. keeps_files w) (\<lambda>_. keeps_files w) t"
    unfolding hard_link_def wpE_bindE
    by (rule wpE_mono [OF preservesD [OF keeps_sys]])
      (auto simp: wp_simps keeps_files_def update_conv' split: option.split)
qed

lemma keeps_remove [simp]: "map_of (v_files w) p = None \<Longrightarrow> preserves (keeps_files w) (remove_file_ignoring p)"
  by (auto simp: preserves_def remove_file_ignoring_def split: prod.split sum.split dest: keeps_sysD intro: keeps_delete)

lemma keeps_drop_temp: "map_of (v_files w) p = None \<Longrightarrow> keeps_files w t \<Longrightarrow> keeps_files w (drop_temp p t)"
  using keeps_delete [of w p "t\<lparr>v_armed := a\<rparr>" for a t]
  by (auto simp: drop_temp_def keeps_files_def delete_conv' restrict_map_def split: prod.split dest!: keeps_sysD [of _ t _ _ w])

subsection \<open>Without other writers\<close>

lemma keeps_absent: "keeps_files w t \<Longrightarrow> map_of (v_files t) q = None \<Longrightarrow> map_of (v_files w) q = None"
  by (cases "map_of (v_files w) q") (auto simp: keeps_files_def)

lemma keeps_random_temp_name [simp]: "preserves (keeps_files w) (random_temp_name pre)"
  unfolding random_temp_name_def
  by (rule preserves_bindE, rule keeps_sys) (simp add: preserves_def keeps_files_def)

lemma keeps_new: "map_of (v_files w) p = None \<Longrightarrow> keeps_files w t \<Longrightarrow>
    keeps_files w (t\<lparr>v_files := AList.update p nd (v_files t), v_armed := a\<rparr>)"
  by (auto simp: keeps_files_def update_conv')

lemma keeps_temp_create:
  "keeps_files w t \<Longrightarrow> wpE (temp_create n parent pre) (\<lambda>p u. keeps_files w u \<and> map_of (v_files w) p = None) (\<lambda>_. keeps_files w) t"
proof (induction n arbitrary: t)
  case (Suc n)
  have create: "wpE (bindE (modifyE (\<lambda>w. w\<lparr>v_files := AList.update p (Regular []) (v_files w), v_armed := p # v_armed w\<rparr>)) (\<lambda>_.
      bindE (tryE (sys TempCreateFailed)) (\<lambda>identity. case identity of
        Inr _ \<Rightarrow> returnE p | Inl e \<Rightarrow> bindE (disarm p) (\<lambda>_. throwE e))))
      (\<lambda>p u. keeps_files w u \<and> map_of (v_files w) p = None) (\<lambda>_. keeps_files w) u"
    if "keeps_files w u" "map_of (v_files u) p = None" for p u
    unfolding wpE_bindE wpE_modifyE wpE_tryE
    by (rule wpE_mono [OF preservesD [OF keeps_sys keeps_new]])
      (use that keeps_absent [OF that] in \<open>auto simp: wp_simps disarm_def keeps_files_def\<close>)
  show ?case
    unfolding temp_create.simps Let_def wpE_bindE [of "random_temp_name pre"] wpE_bindE [of "sys _"] wpE_bindE [of "getsE _"]
    by (rule wpE_mono [OF preservesD [OF keeps_random_temp_name Suc.prems]],
        rule wpE_mono [OF preservesD [OF keeps_sys]])
      (auto simp: wpE_getsE intro: create Suc.IH)
qed (simp add: wp_simps)

text \<open>A file that passed the check holds the document.\<close>

lemma wpE_check_export:
  assumes "keeps_files w t"
  shows "wpE (check_export ext document p cred)
    (\<lambda>_ u. keeps_files w u \<and> (\<exists>bs. map_of (v_files u) p = Some (Regular bs) \<and> verified_bytes ext cred document bs))
    (\<lambda>_. keeps_files w) t"
  unfolding check_export_def open_document_with_credential_def read_file_def wpE_bindE wpE_map_errE
  by (rule wpE_mono [OF preservesD [OF keeps_sys assms]])
    (auto simp: wp_simps verified_bytes_def map_err_def split: option.split node.split sum.split)

definition exported :: "'db vault_ext \<Rightarrow> KdbxCredential \<Rightarrow> string \<Rightarrow> 'db vault_world \<Rightarrow> 'db vault_world \<Rightarrow> bool" where
  "exported ext cred destination w t \<longleftrightarrow> map_of (v_files w) destination = None \<and>
     (\<exists>bs. map_of (v_files t) destination = Some (Regular bs) \<and> verified_bytes ext cred (vs_document (v_session w)) bs)"

lemma exportedI:
  "map_of (v_files w) destination = None \<Longrightarrow> map_of (v_files t) destination = Some (Regular bs) \<Longrightarrow>
     verified_bytes ext cred (vs_document (v_session w)) bs \<Longrightarrow> exported ext cred destination w t"
  by (auto simp: exported_def)

lemma exported_sys:
  assumes "keeps_files w t" "exported ext cred destination w t"
  shows "wpE (sys e) (\<lambda>_ u. keeps_files w u \<and> exported ext cred destination w u)
    (\<lambda>_ u. keeps_files w u) t"
proof -
  have "no_writers (v_script t)" using assms(1) by (simp add: keeps_files_def)
  from sys_keeps [OF this, of e] obtain r s where "sys e t = (r, t\<lparr>v_script := s\<rparr>)" "no_writers s" by blast
  with assms show ?thesis
    by (cases r) (simp_all add: wpE_def keeps_script exported_def)
qed

text \<open>From the published name to the end.\<close>

lemma wpE_publish:
  assumes "keeps_files w t" "map_of (v_files w) destination = None" "document = vs_document (v_session w)"
  shows "wpE (finish_export ext document destination cred)
    (\<lambda>_ u. keeps_files w u \<and> exported ext cred destination w u) (\<lambda>_. keeps_files w) t"
proof -
  have undo: "wpE (bindE (remove_file_ignoring destination) (\<lambda>_. bindE sync_parent (\<lambda>_. throwE e)))
      (\<lambda>_ u. keeps_files w u \<and> exported ext cred destination w u) (\<lambda>_. keeps_files w) u" if "keeps_files w u" for e u
    unfolding wpE_bindE wpE_throwE
    by (rule wpE_mono [OF preservesD [OF keeps_remove [OF assms(2)] that]])
      (auto intro!: wpE_mono [OF preservesD [OF keeps_reads(3)]])
  have synced: "wpE (bindE (sys ExportTarget) (\<lambda>_. sys ExportTarget))
      (\<lambda>_ u. keeps_files w u \<and> exported ext cred destination w u) (\<lambda>_ u. keeps_files w u) u"
    if "keeps_files w u" "exported ext cred destination w u" for u
    unfolding wpE_bindE
    by (rule wpE_mono [OF exported_sys [OF that]]) (auto intro: exported_sys)
  show ?thesis
    unfolding finish_export_def wpE_bindE [of "tryE _"] wpE_tryE wpE_bindE [of "check_export _ _ _ _"]
    by (rule wpE_mono [OF wpE_check_export [OF assms(1)]])
      (auto simp: wpE_returnE assms(3) intro!: undo wpE_mono [OF synced] exportedI [OF assms(2)])
qed

lemma wpE_hard_link:
  assumes "keeps_files w t"
  shows "wpE (hard_link e p destination)
    (\<lambda>_ u. keeps_files w u \<and> map_of (v_files w) destination = None \<and> p \<noteq> destination) (\<lambda>_. keeps_files w) t"
proof -
  have "wpE (hard_link e p destination) (\<lambda>_ u. map_of (v_files w) destination = None \<and> p \<noteq> destination) (\<lambda>_ _. True) t"
    unfolding hard_link_def wpE_bindE
    by (rule wpE_mono [OF preservesD [OF keeps_sys assms]])
      (auto simp: wp_simps split: option.split dest: keeps_absent)
  from wpE_conj [OF preservesD [OF keeps_hard_link assms] this] show ?thesis
    by (rule wpE_mono) auto
qed

lemma keeps_seed: "keeps_files w t \<Longrightarrow> keeps_files w (t\<lparr>v_seed := n\<rparr>)"
  by (simp add: keeps_files_def)

lemma wpE_export_body:
  assumes "keeps_files w t" "map_of (v_files w) p = None"
  shows "wpE (export_body ext destination cred p)
    (\<lambda>_ u. keeps_files w u \<and> exported ext cred destination w u \<and> p \<noteq> destination) (\<lambda>_. keeps_files w) t"
proof -
  have doc: "vs_document (v_session t) = vs_document (v_session w)" using assms(1) by (simp add: keeps_files_def)
  have published: "wpE (bindE (hard_link ExportTarget p destination) (\<lambda>_. finish_export ext (vs_document (v_session w)) destination cred))
    (\<lambda>_ u. keeps_files w u \<and> exported ext cred destination w u \<and> p \<noteq> destination) (\<lambda>_. keeps_files w) u"
    if "keeps_files w u" for u
    unfolding wpE_bindE
    by (rule wpE_mono [OF wpE_hard_link [OF that]]) (auto intro!: wpE_mono [OF wpE_publish])
  have checked: "wpE (bindE (check_export ext (vs_document (v_session w)) p cred) (\<lambda>_. m)) Q (\<lambda>_. keeps_files w) u"
    if "keeps_files w u" "\<And>u. keeps_files w u \<Longrightarrow> wpE m Q (\<lambda>_. keeps_files w) u" for m u and Q :: "'b \<Rightarrow> _"
    unfolding wpE_bindE by (rule wpE_mono [OF wpE_check_export [OF that(1)]]) (auto intro: that(2))
  show ?thesis
    unfolding export_body_def wpE_bindE [of "getsE _"] wpE_getsE prod.case wpE_bindE [of "modifyE _"] wpE_modifyE
      wpE_bindE [of "liftE _"] wpE_liftE wpE_bindE [of "write_temp _ _ _"] wpE_bindE [of "sys _"] doc
    by (auto simp: map_err_def intro!: wpE_mono [OF preservesD [OF keeps_write [OF assms(2)] keeps_seed [OF assms(1)]]]
        wpE_mono [OF preservesD [OF keeps_sys]] checked published keeps_seed [OF assms(1)] split: sum.splits)
qed

lemma exported_drop_temp: "p \<noteq> destination \<Longrightarrow> keeps_files w t \<Longrightarrow> exported ext cred destination w t \<Longrightarrow>
    exported ext cred destination w (drop_temp p t)"
  using sys_keeps [of t TempCreateFailed]
  by (auto simp: drop_temp_def exported_def keeps_files_def delete_conv' restrict_map_def split: prod.split)

text \<open>
  C17: An export that no other process disturbs, whichever of its system calls fail, leaves the open
  session, the vault file and every file that existed as they were; in particular it never
  overwrites its destination. When it reports success the destination is a new file that was read
  back with the credential and holds the document of the session, unsaved edits included.
\<close>

theorem export_only_adds_a_verified_copy:
  assumes "no_writers (v_script w)" and "export_copy_with_credential ext destination cred w = (r, t)"
  shows "v_session t = v_session w \<and> v_history t = v_history w \<and>
    (\<forall>q. map_of (v_files w) q \<noteq> None \<longrightarrow> map_of (v_files t) q = map_of (v_files w) q) \<and>
    (r = Inr () \<longrightarrow> exported ext cred destination w t)"
proof -
  have start: "keeps_files w w" using assms(1) by (simp add: keeps_files_def)
  have "wpE (with_temp (temp_create n parent pre) (export_body ext destination cred))
      (\<lambda>_ u. keeps_files w u \<and> exported ext cred destination w u) (\<lambda>_. keeps_files w) u"
    if "keeps_files w u" for n parent pre u
    unfolding with_temp_def wpE_bindE
  proof (rule wpE_mono [OF keeps_temp_create [OF that]])
    fix p v assume created: "keeps_files w v \<and> map_of (v_files w) p = None"
    obtain r' x where run: "export_body ext destination cred p v = (r', x)" by (cases "export_body ext destination cred p v")
    have "wpE (export_body ext destination cred p)
      (\<lambda>_ u. keeps_files w u \<and> exported ext cred destination w u \<and> p \<noteq> destination) (\<lambda>_. keeps_files w) v"
      using created by (intro wpE_export_body) simp_all
    with run created show "wpE (\<lambda>w. case export_body ext destination cred p w of (r, t) \<Rightarrow> (r, drop_temp p t))
      (\<lambda>_ u. keeps_files w u \<and> exported ext cred destination w u) (\<lambda>_. keeps_files w) v"
      by (cases r') (auto simp: wpE_def keeps_drop_temp exported_drop_temp)
  qed
  then have "wpE (export_copy_with_credential ext destination cred)
      (\<lambda>_ u. keeps_files w u \<and> exported ext cred destination w u) (\<lambda>_. keeps_files w) w"
    unfolding export_copy_with_credential_def
    by (auto simp: wpE_throwE wpE_if wpE_bindE [of "path_exists _"] start intro!: wpE_mono [OF preservesD [OF keeps_reads(4) start]])
  with assms(2) show ?thesis
    by (cases r) (auto simp: wpE_def keeps_files_def)
qed

subsection \<open>With another writer\<close>

text \<open>
  C38: When another process replaces the destination between its publication and the check, the check
  fails and the export removes the file of the other process. Creating a vault goes out of its way
  not to do this: it never removes the path that the user selected.
\<close>

theorem export_removes_a_foreign_file:
  assumes "v_script w = [External destination (Some (Regular foreign))]" and "destination \<notin> set (v_armed w)"
    and "\<not> verified_bytes ext cred document foreign"
  shows "\<exists>e t. finish_export ext document destination cred w = (Inl e, t) \<and> map_of (v_files t) destination = None"
proof -
  have "\<exists>e. check_export ext document destination cred w =
      (Inl e, w\<lparr>v_script := [], v_files := AList.update destination (Regular foreign) (v_files w)\<rparr>)"
    using assms
    by (cases "open_reader_with_credential (vx_kdbx ext) foreign cred")
      (auto simp: check_export_def open_document_with_credential_def read_file_def sys_def op_defs map_err_def update_conv'
        verified_bytes_def verify_semantic_equivalence_def split: sum.split)
  then show ?thesis
    by (auto simp: finish_export_def bindE_def tryE_def remove_file_ignoring_def sync_parent_def sys_def throwE_def
        update_conv' delete_conv')
qed

subsection \<open>Concrete runs\<close>

lemma sys_quiet: "v_script w = [] \<Longrightarrow> sys e w = (Inr (), w)"
  by (simp add: sys_def)

lemma ref_temp_create:
  "temp_create TEMP_CREATE_ATTEMPTS ''/v/'' EXPORT_TEMP_PREFIX ref_vault_world =
     (let p = ''/v/'' @ EXPORT_TEMP_PREFIX @ hex_encode [0] @ ''.tmp'' in
      (Inr p, ref_vault_world\<lparr>v_random_index := 1, v_files := AList.update p (Regular []) (v_files ref_vault_world), v_armed := [p]\<rparr>))"
proof -
  have "temp_create (Suc n) ''/v/'' EXPORT_TEMP_PREFIX ref_vault_world =
     (let p = ''/v/'' @ EXPORT_TEMP_PREFIX @ hex_encode [0] @ ''.tmp'' in
      (Inr p, ref_vault_world\<lparr>v_random_index := 1, v_files := AList.update p (Regular []) (v_files ref_vault_world), v_armed := [p]\<rparr>))" for n
    by (simp add: random_temp_name_def op_defs sys_quiet EXPORT_TEMP_PREFIX_def ref_vault_world_def Let_def)
  from this [of 127] show ?thesis by (simp only: TEMP_CREATE_ATTEMPTS_def) simp
qed

lemma ref_export: "fst (export_copy_with_credential (vault_ext_of ref_gateway_ext ref_api) ''/v/c'' ref_cred ref_vault_world) = Inr ()"
proof -
  have "parent_of ''/v/c'' = ''/v/''" by (simp add: parent_of_def)
  moreover have "path_exists ''/v/c'' ref_vault_world = (Inr False :: SessionError + bool, ref_vault_world)"
    by (simp add: path_exists_def sys_quiet ref_vault_world_def)
  ultimately show ?thesis
    by (simp add: export_copy_with_credential_def with_temp_def bindE_def ref_temp_create Let_def)
      (simp add: export_body_def finish_export_def check_export_def hard_link_def open_document_with_credential_def read_file_def
        write_temp_def op_defs sys_quiet ref_vault_world_def ref_session_def save_to_writer_with_credential_def
        ensure_writable_format_def has_component_def ref_cred_def open_reader_with_credential_def verify_semantic_equivalence_def
        vault_ext_of_def ref_api_def update_conv' EXPORT_TEMP_PREFIX_def)
qed

theorem export_only_adds_a_verified_copy_witness:
  "exported (vault_ext_of ref_gateway_ext ref_api) ref_cred ''/v/c'' ref_vault_world
     (snd (export_copy_with_credential (vault_ext_of ref_gateway_ext ref_api) ''/v/c'' ref_cred ref_vault_world))"
proof -
  have "no_writers (v_script ref_vault_world)" by (simp add: no_writers_def ref_vault_world_def)
  from export_only_adds_a_verified_copy [OF this prod.collapse [symmetric]] ref_export show ?thesis by blast
qed

theorem export_removes_a_foreign_file_witness:
  "\<exists>e t. finish_export (vault_ext_of ref_gateway_ext ref_api) (vs_document ref_session) ''/v/c.kdbx'' ref_cred
     (ref_vault_world\<lparr>v_script := [External ''/v/c.kdbx'' (Some (Regular [9]))]\<rparr>) = (Inl e, t) \<and>
     map_of (v_files t) ''/v/c.kdbx'' = None"
proof (rule export_removes_a_foreign_file)
  show "\<not> verified_bytes (vault_ext_of ref_gateway_ext ref_api) ref_cred (vs_document ref_session) [9]"
    by (auto simp: verified_bytes_def open_reader_with_credential_def verify_semantic_equivalence_def vault_ext_of_def
        ref_api_def ref_session_def bindR_Inr_iff split: if_splits)
qed (simp_all add: ref_vault_world_def)

end
