(* ===== verification/Desktop_Service.thy ===== *)
theory Desktop_Service
  imports Desktop_Local Vault_Lifecycle Session_Edits Remote_Providers
begin

section \<open>The vault service of the desktop application\<close>

text \<open>
  Models \<open>DesktopVaultService\<close> of \<open>src/apps/desktop/src-tauri/src\<close>: \<open>state.rs\<close>, \<open>mutations.rs\<close>,
  \<open>mutations/bulk.rs\<close>, the files of \<open>state/\<close> and the snapshot of \<open>dto.rs\<close>.

  The service keeps at most one open session. \<open>Desktop_Local\<close> already has the part that
  synchronization sees, with the session in the vault world; the record \<open>service\<close> adds the selected
  path and the keyfile that waits for an unlock. What the code reads from its surroundings is the
  record \<open>service_env\<close>: the vault and database crates, whether the platform supports saving, and
  which paths the file system marks read-only. Paths are text.
\<close>

record ('d, 'v) service_env =
  sv_vault :: "'d vault_ext"
  sv_lib :: "('d, 'v) kdbx_lib"
  sv_totp :: totp_api
  sv_save_supported :: bool
  sv_read_only :: "string \<Rightarrow> bool"

record 'd service =
  sv_desktop :: "'d desktop"
  sv_selected_path :: "string option"
  sv_pending_keyfile :: "bytes option"

type_synonym ('d, 'a) service_op = "('d service, DesktopError, 'a) op"

definition at_desktop :: "('d desktop, 'e, 'a) op \<Rightarrow> ('d service, 'e, 'a) op" where
  "at_desktop m = (\<lambda>s. case m (sv_desktop s) of (r, d) \<Rightarrow> (r, s\<lparr>sv_desktop := d\<rparr>))"

definition session_of :: "'d service \<Rightarrow> 'd VaultSession" where
  "session_of s = v_session (dk_world (sv_desktop s))"

definition is_unlocked :: "'d service \<Rightarrow> bool" where
  "is_unlocked s = dk_unlocked (sv_desktop s)"

text \<open>\<open>self.session.as_ref().ok_or(DesktopError::Locked)?\<close>\<close>

definition open_session :: "('d, 'd VaultSession) service_op" where
  "open_session = bindE (at_desktop require_session) (\<lambda>_. getsE session_of)"

definition retained_credential :: "('d, KdbxCredential) service_op" where
  "retained_credential =
     bindE (getsE (dk_save_credential \<circ> sv_desktop)) (\<lambda>cred. liftE (ok_or Locked cred))"

subsection \<open>What the user is told\<close>

definition map_mutation_error :: "SessionError \<Rightarrow> DesktopError" where
  "map_mutation_error e = (case e of
     Kdbx k \<Rightarrow>
       if k = KdbxError.EntryNotFound then DesktopError.EntryNotFound
       else if k = KdbxError.GroupNotFound then DesktopError.GroupNotFound
       else if k \<in> {CannotDeleteRootGroup, InvalidGroupMove} then InvalidMove
       else if k = KdbxError.ReservedField then DesktopError.ReservedField
       else if k = KdbxError.AttachmentNotFound then DesktopError.AttachmentNotFound
       else if k = KdbxError.AttachmentAlreadyExists then DesktopError.AttachmentAlreadyExists
       else if k \<in> {InvalidAttachmentName, InvalidEntryTags, InvalidExpiry, InvalidIcon, InvalidDatabaseMetadata,
           InvalidHistoryPolicy, RecycleBinDisabled, InvalidRecycleBinOperation, TotpNotConfigured, InvalidTotp,
           UnsupportedTotpFormat} then InvalidRequest
       else Internal
   | _ \<Rightarrow> Internal)"

definition map_save_error :: "SessionError \<Rightarrow> DesktopError" where
  "map_save_error e = (case e of
     ExternalModificationDetected \<Rightarrow> ExternalChange
   | FinalExternalModificationDetected \<Rightarrow> ExternalChange
   | UnsupportedPath \<Rightarrow> ExternalChange
   | ReadSource \<Rightarrow> ExternalChange
   | CredentialMismatch \<Rightarrow> SaveAuthenticationFailed
   | SessionError.UnsupportedPersistencePlatform \<Rightarrow> DesktopError.UnsupportedPersistencePlatform
   | Kdbx k \<Rightarrow> if k = KdbxError.UnsupportedWriteFormat then DesktopError.UnsupportedWriteFormat else SaveFailed
   | FinalVerificationFailed _ \<Rightarrow> SaveUncertain
   | FinalReadFailed \<Rightarrow> SaveUncertain
   | SavedButBackupUpdateFailed \<Rightarrow> SaveUncertain
   | SavedButBackupDurabilityUncertain \<Rightarrow> SaveUncertain
   | DurabilityUncertain \<Rightarrow> SaveUncertain
   | _ \<Rightarrow> SaveFailed)"

definition map_open_error :: "SessionError \<Rightarrow> DesktopError" where
  "map_open_error e =
     (if is_open_credential_rejected e then UnlockFailed
      else if is_unsupported_open_target e then UnsupportedVault
      else Internal)"

definition map_history_error :: "SessionError \<Rightarrow> DesktopError" where
  "map_history_error e =
     (if e = Kdbx StaleHistory then HistoryChanged
      else if e = Kdbx KdbxError.HistoryRestoreUnsupported then DesktopError.HistoryRestoreUnsupported
      else if e = Kdbx HistoryRevisionNotFound then InvalidRequest
      else map_mutation_error e)"

definition write_restriction_error :: "WriteRestriction \<Rightarrow> DesktopError" where
  "write_restriction_error r = (case r of
     UnsupportedWriteFormatRestriction \<Rightarrow> DesktopError.UnsupportedWriteFormat
   | UnsupportedPersistencePlatformRestriction \<Rightarrow> DesktopError.UnsupportedPersistencePlatform
   | ReadOnlySourceRestriction \<Rightarrow> ReadOnlySource)"

subsection \<open>Snapshots\<close>

text \<open>\<open>Path::file_name\<close>: the last component, unless it is a parent reference.\<close>

definition display_file_name :: "string \<Rightarrow> string option" where
  "display_file_name p =
     (let segments = filter (\<lambda>c. c \<noteq> [] \<and> c \<noteq> ''.'') (path_segments p) in
      if segments = [] \<or> last segments = ''..'' then None else Some (last segments))"

record GroupDto =
  gd_id :: string
  gd_name :: string
  gd_child_group_ids :: "string list"
  gd_entry_ids :: "string list"

record EntrySummaryDto =
  ed_group_id :: string
  ed_summary :: EntrySummary

primrec collect_group :: "VaultGroup \<Rightarrow> GroupDto list \<times> EntrySummaryDto list" where
  "collect_group (VaultGroup i name groups es) =
     (let below = map collect_group groups in
      (\<lparr>gd_id = i, gd_name = name, gd_child_group_ids = map vg_id groups, gd_entry_ids = map sum_id es\<rparr> #
         concat (map fst below),
       map (\<lambda>e. \<lparr>ed_group_id = i, ed_summary = e\<rparr>) es @ concat (map snd below)))"

record VaultSnapshotDto =
  sn_dirty :: bool
  sn_file_name :: string
  sn_version :: KdbxVersion
  sn_write_restriction :: "WriteRestriction option"
  sn_recycle_bin_enabled :: bool
  sn_recycle_bin_group_id :: "string option"
  sn_root_group_id :: string
  sn_groups :: "GroupDto list"
  sn_entries :: "EntrySummaryDto list"

definition session_restriction :: "('d, 'v) service_env \<Rightarrow> 'd VaultSession \<Rightarrow> WriteRestriction option" where
  "session_restriction ev s = write_restriction (sv_save_supported ev) (sv_read_only ev) s"

definition snapshot_from_session ::
    "('d, 'v) service_env \<Rightarrow> 'd VaultSession \<Rightarrow> SessionError + VaultSnapshotDto" where
  "snapshot_from_session ev s =
     bindR (map_err Kdbx (projection (sv_lib ev) (vs_document s))) (\<lambda>root.
     Inr \<lparr>sn_dirty = is_dirty s,
          sn_file_name = (case display_file_name (vs_path s) of Some name \<Rightarrow> name | None \<Rightarrow> ''vault.kdbx''),
          sn_version = kd_version (vs_document s), sn_write_restriction = session_restriction ev s,
          sn_recycle_bin_enabled = recycle_bin_enabled (sv_lib ev) (kd_database (vs_document s)),
          sn_recycle_bin_group_id = recycle_bin_group_id (sv_lib ev) (vs_document s),
          sn_root_group_id = vg_id root, sn_groups = fst (collect_group root), sn_entries = snd (collect_group root)\<rparr>)"

definition service_snapshot :: "('d, 'v) service_env \<Rightarrow> ('d, VaultSnapshotDto) service_op" where
  "service_snapshot ev =
     bindE open_session (\<lambda>session. liftE (map_err (\<lambda>_. Internal) (snapshot_from_session ev session)))"

subsection \<open>Selecting, unlocking, locking\<close>

definition require_locked :: "('d, unit) service_op" where
  "require_locked = bindE (getsE is_unlocked) (\<lambda>u. if u then throwE AlreadyUnlocked else returnE ())"

definition select_path :: "string \<Rightarrow> ('d, string) service_op" where
  "select_path p =
     bindE require_locked (\<lambda>_.
     bindE (liftE (ok_or UnsupportedVault (display_file_name p))) (\<lambda>file_name.
     bindE (modifyE (\<lambda>s. s\<lparr>sv_selected_path := Some p, sv_pending_keyfile := None\<rparr>)) (\<lambda>_.
     returnE file_name)))"

definition set_pending_keyfile :: "bytes \<Rightarrow> ('d, unit) service_op" where
  "set_pending_keyfile keyfile =
     bindE require_locked (\<lambda>_.
     bindE (getsE sv_selected_path) (\<lambda>selected.
     if selected = None then throwE NoVaultSelected
     else modifyE (\<lambda>s. s\<lparr>sv_pending_keyfile := Some keyfile\<rparr>)))"

definition clear_pending_keyfile :: "('d, unit) service_op" where
  "clear_pending_keyfile =
     bindE require_locked (\<lambda>_. modifyE (\<lambda>s. s\<lparr>sv_pending_keyfile := None\<rparr>))"

text \<open>The assignments at the end of an unlock and of a reload.\<close>

definition install_session :: "'d VaultSession \<Rightarrow> KdbxCredential \<Rightarrow> string \<Rightarrow> ('d, unit) service_op" where
  "install_session session cred token =
     at_desktop (modifyE (\<lambda>d. d\<lparr>dk_world := (dk_world d)\<lparr>v_session := session\<rparr>, dk_unlocked := True,
       dk_save_credential := Some cred, dk_browser_session_id := Some token\<rparr>))"

definition unlock_with_components ::
    "('d, 'v) service_env \<Rightarrow> string option \<Rightarrow> ('d, VaultSnapshotDto) service_op" where
  "unlock_with_components ev password =
     bindE require_locked (\<lambda>_.
     bindE (getsE sv_selected_path) (\<lambda>selected.
     bindE (liftE (ok_or NoVaultSelected selected)) (\<lambda>path.
     bindE (getsE sv_pending_keyfile) (\<lambda>keyfile.
     let cred = \<lparr>cred_password = password, cred_keyfile = keyfile\<rparr> in
     if \<not> has_component cred then throwE InvalidRequest
     else
       bindE (map_errE map_open_error (at_desktop (on_session (open_with_credential (sv_vault ev) path cred)))) (\<lambda>session.
       bindE (liftE (map_err map_open_error (snapshot_from_session ev session))) (\<lambda>snapshot.
       bindE (at_desktop random_process_token) (\<lambda>token.
       bindE (modifyE (\<lambda>s. s\<lparr>sv_pending_keyfile := None\<rparr>)) (\<lambda>_.
       bindE (install_session session cred token) (\<lambda>_.
       returnE snapshot)))))))))"

definition reload_with_components ::
    "('d, 'v) service_env \<Rightarrow> string option \<Rightarrow> ('d, VaultSnapshotDto) service_op" where
  "reload_with_components ev password =
     bindE open_session (\<lambda>open_one.
     bindE retained_credential (\<lambda>current.
     let cred = \<lparr>cred_password = password, cred_keyfile = cred_keyfile current\<rparr> in
     if \<not> has_component cred then throwE InvalidRequest
     else
       bindE (map_errE (\<lambda>_. ReloadFailed)
         (at_desktop (on_session (open_with_credential (sv_vault ev) (vs_path open_one) cred)))) (\<lambda>candidate.
       bindE (liftE (map_err (\<lambda>_. ReloadFailed) (snapshot_from_session ev candidate))) (\<lambda>snapshot.
       bindE (at_desktop random_process_token) (\<lambda>token.
       bindE (install_session candidate cred token) (\<lambda>_.
       returnE snapshot))))))"

definition service_discard_and_lock :: "('d, unit) service_op" where
  "service_discard_and_lock =
     bindE (at_desktop discard_and_lock) (\<lambda>_.
     modifyE (\<lambda>s. s\<lparr>sv_pending_keyfile := None, sv_selected_path := None\<rparr>))"

definition service_lock_clean :: "('d, unit) service_op" where
  "service_lock_clean =
     bindE open_session (\<lambda>session.
     if is_dirty session then throwE UnsavedChanges else service_discard_and_lock)"

datatype ClosePolicyDto = AllowClose | ConfirmDiscard

definition close_policy :: "'d service \<Rightarrow> ClosePolicyDto" where
  "close_policy s = (if is_unlocked s \<and> is_dirty (session_of s) then ConfirmDiscard else AllowClose)"

subsection \<open>Saving and changing the credential\<close>

definition require_writable :: "('d, 'v) service_env \<Rightarrow> ('d, unit) service_op" where
  "require_writable ev =
     bindE open_session (\<lambda>session. case session_restriction ev session of
       None \<Rightarrow> returnE () | Some r \<Rightarrow> throwE (write_restriction_error r))"

definition service_save :: "('d, 'v) service_env \<Rightarrow> ('d, VaultSnapshotDto) service_op" where
  "service_save ev =
     bindE (require_writable ev) (\<lambda>_.
     bindE retained_credential (\<lambda>cred.
     bindE (map_errE map_save_error (at_desktop (on_session (save_with_credential (sv_vault ev) cred)))) (\<lambda>_.
     service_snapshot ev)))"

definition rotation_replacement_may_be_installed :: "SessionError \<Rightarrow> bool" where
  "rotation_replacement_may_be_installed e = (case e of
     FinalVerificationFailed _ \<Rightarrow> True | FinalReadFailed \<Rightarrow> True | SavedButBackupUpdateFailed \<Rightarrow> True
   | SavedButBackupDurabilityUncertain \<Rightarrow> True | DurabilityUncertain \<Rightarrow> True | _ \<Rightarrow> False)"

definition retain :: "KdbxCredential \<Rightarrow> ('d, unit) service_op" where
  "retain cred =
     bindE retained_credential (\<lambda>_. at_desktop (modifyE (\<lambda>d. d\<lparr>dk_save_credential := Some cred\<rparr>)))"

text \<open>
  Reconciliation after a rotation with an uncertain end: the session and the credential are replaced
  when the file opens with the new credential and no longer with the old one. \<open>replace\<close> gives the new
  credential from the retained one: another password or another keyfile.
\<close>

definition reconcile_authority ::
    "('d, 'v) service_env \<Rightarrow> (KdbxCredential \<Rightarrow> KdbxCredential) \<Rightarrow> ('d, unit) service_op" where
  "reconcile_authority ev replace =
     bindE open_session (\<lambda>session.
     bindE retained_credential (\<lambda>current.
     bindE (tryE (at_desktop (on_session (open_with_credential (sv_vault ev) (vs_path session) (replace current))))) (\<lambda>opened.
     case opened of
       Inl _ \<Rightarrow> returnE ()
     | Inr candidate \<Rightarrow>
         bindE (tryE (at_desktop (on_session (open_with_credential (sv_vault ev) (vs_path session) current)))) (\<lambda>still.
         case still of
           Inr _ \<Rightarrow> returnE ()
         | Inl _ \<Rightarrow>
             bindE (at_desktop (modifyE (\<lambda>d. d\<lparr>dk_world := (dk_world d)\<lparr>v_session := candidate\<rparr>\<rparr>))) (\<lambda>_.
             retain (replace current))))))"

definition with_password :: "string option \<Rightarrow> KdbxCredential \<Rightarrow> KdbxCredential" where
  "with_password password current = current\<lparr>cred_password := password\<rparr>"

definition with_keyfile :: "bytes option \<Rightarrow> KdbxCredential \<Rightarrow> KdbxCredential" where
  "with_keyfile keyfile current = current\<lparr>cred_keyfile := keyfile\<rparr>"

definition reconcile_rotation_authority ::
    "('d, 'v) service_env \<Rightarrow> string option \<Rightarrow> ('d, unit) service_op" where
  "reconcile_rotation_authority ev password = reconcile_authority ev (with_password password)"

definition reconcile_keyfile_authority ::
    "('d, 'v) service_env \<Rightarrow> bytes option \<Rightarrow> ('d, unit) service_op" where
  "reconcile_keyfile_authority ev keyfile = reconcile_authority ev (with_keyfile keyfile)"

text \<open>The rotation itself, and what follows its failure.\<close>

definition rotate_or_reconcile ::
    "('d, 'v) service_env \<Rightarrow> KdbxCredential \<Rightarrow> KdbxCredential \<Rightarrow> ('d, unit) service_op \<Rightarrow> ('d, unit) service_op" where
  "rotate_or_reconcile ev current replacement reconcile =
     bindE (tryE (at_desktop (on_session (rotate_credential (sv_vault ev) current replacement)))) (\<lambda>rotated.
     case rotated of
       Inr _ \<Rightarrow> returnE ()
     | Inl e \<Rightarrow>
         bindE (if rotation_replacement_may_be_installed e then reconcile else returnE ()) (\<lambda>_.
         throwE (map_save_error e)))"

text \<open>A writable session without unsaved changes, and the credential that it was opened with.\<close>

definition rotation_authority :: "('d, 'v) service_env \<Rightarrow> ('d, KdbxCredential) service_op" where
  "rotation_authority ev =
     bindE (require_writable ev) (\<lambda>_.
     bindE open_session (\<lambda>session.
     if is_dirty session then throwE UnsavedChanges else retained_credential))"

definition change_master_password ::
    "('d, 'v) service_env \<Rightarrow> string \<Rightarrow> ('d, VaultSnapshotDto) service_op" where
  "change_master_password ev new_password =
     bindE (require_writable ev) (\<lambda>_.
     bindE open_session (\<lambda>session.
     if is_dirty session then throwE UnsavedChanges
     else if new_password = [] then throwE InvalidRequest
     else
       bindE retained_credential (\<lambda>current.
       bindE (rotate_or_reconcile ev current (with_password (Some new_password) current)
         (reconcile_rotation_authority ev (Some new_password))) (\<lambda>_.
       bindE (retain (with_password (Some new_password) current)) (\<lambda>_.
       service_snapshot ev)))))"

definition remove_master_password :: "('d, 'v) service_env \<Rightarrow> ('d, VaultSnapshotDto) service_op" where
  "remove_master_password ev =
     bindE (rotation_authority ev) (\<lambda>current.
     if cred_password current = None then throwE InvalidRequest
     else
       bindE (liftE (ok_or InvalidRequest (cred_keyfile current))) (\<lambda>keyfile.
       bindE (rotate_or_reconcile ev current (with_password None current) (reconcile_rotation_authority ev None)) (\<lambda>_.
       bindE (retain (with_password None current)) (\<lambda>_.
       service_snapshot ev))))"

definition replace_keyfile :: "('d, 'v) service_env \<Rightarrow> bytes \<Rightarrow> ('d, unit) service_op" where
  "replace_keyfile ev new_keyfile =
     bindE (rotation_authority ev) (\<lambda>current.
     if cred_keyfile current = Some new_keyfile then returnE ()
     else
       bindE (rotate_or_reconcile ev current (with_keyfile (Some new_keyfile) current)
         (reconcile_keyfile_authority ev (Some new_keyfile))) (\<lambda>_.
       retain (with_keyfile (Some new_keyfile) current)))"

definition remove_keyfile :: "('d, 'v) service_env \<Rightarrow> ('d, unit) service_op" where
  "remove_keyfile ev =
     bindE (rotation_authority ev) (\<lambda>current.
     if cred_keyfile current = None then returnE ()
     else
       bindE (liftE (ok_or InvalidRequest (cred_password current))) (\<lambda>password.
       if password = [] then throwE InvalidRequest
       else
         bindE (rotate_or_reconcile ev current (with_keyfile None current) (reconcile_keyfile_authority ev None)) (\<lambda>_.
         retain (with_keyfile None current))))"

definition credential_has_keyfile :: "('d, bool) service_op" where
  "credential_has_keyfile =
     bindE (at_desktop require_session) (\<lambda>_.
     bindE retained_credential (\<lambda>cred. returnE (cred_keyfile cred \<noteq> None)))"

definition credential_has_password :: "('d, bool) service_op" where
  "credential_has_password =
     bindE (at_desktop require_session) (\<lambda>_.
     bindE retained_credential (\<lambda>cred. returnE (cred_password cred \<noteq> None)))"

end
