(* ===== verification/Desktop_Mutations.thy ===== *)
theory Desktop_Mutations
  imports Desktop_Service
begin

section \<open>Edits and reads through the desktop service\<close>

text \<open>
  Models \<open>mutations.rs\<close>, \<open>mutations/bulk.rs\<close>, \<open>state/history.rs\<close>, \<open>state/database_settings.rs\<close>,
  \<open>state/attachments.rs\<close>, \<open>state/custom_icons.rs\<close>, \<open>state/totp.rs\<close> and the reads of \<open>state.rs\<close> under
  \<open>src/apps/desktop/src-tauri/src\<close>. An edit checks its request, then that the session may be
  written, then hands the request to the session; every one ends with a fresh snapshot. Files that
  are imported or exported are in the directory of the vault world, with one event per system call.
\<close>

definition at_session :: "('d VaultSession, 'e, 'a) op \<Rightarrow> ('d service, 'e, 'a) op" where
  "at_session m = at_desktop (on_session (\<lambda>w. case m (v_session w) of (r, session) \<Rightarrow> (r, w\<lparr>v_session := session\<rparr>)))"

definition at_document :: "('d, 'a) edit \<Rightarrow> ('d VaultSession, SessionError, 'a) op" where
  "at_document m = (\<lambda>session. case m (vs_document session) of
     (r, doc) \<Rightarrow> (map_err Kdbx r, session\<lparr>vs_document := doc\<rparr>))"

text \<open>\<open>self.session_mut()?\<close> followed by one call on the session.\<close>

definition edit_with ::
    "('d, 'v) service_env \<Rightarrow> (SessionError \<Rightarrow> DesktopError) \<Rightarrow> ('d VaultSession, SessionError, 'a) op \<Rightarrow> ('d, 'a) service_op" where
  "edit_with ev to_error m = bindE (require_writable ev) (\<lambda>_. map_errE to_error (at_session m))"

definition edit_session ::
    "('d, 'v) service_env \<Rightarrow> edit_supply \<Rightarrow> session_edit \<Rightarrow> ('d, string option) service_op" where
  "edit_session ev draws request = edit_with ev map_mutation_error (apply_edit (sv_lib ev) (sv_totp ev) draws request)"

definition then_snapshot ::
    "('d, 'v) service_env \<Rightarrow> ('d, 'a) service_op \<Rightarrow> ('d, 'a \<times> VaultSnapshotDto) service_op" where
  "then_snapshot ev m = bindE m (\<lambda>a. bindE (service_snapshot ev) (\<lambda>snapshot. returnE (a, snapshot)))"

type_synonym ('d, 'a) answered_op = "('d, 'a \<times> VaultSnapshotDto) service_op"

subsection \<open>Requests\<close>

definition require_id :: "string \<Rightarrow> DesktopError + unit" where
  "require_id value = (if value = [] then Inl InvalidRequest else Inr ())"

definition require_name :: "string \<Rightarrow> DesktopError + unit" where
  "require_name value = (if is_blank value then Inl InvalidRequest else Inr ())"

definition expiry_from_request :: "bool option \<Rightarrow> int option \<Rightarrow> DesktopError + EntryExpiry option" where
  "expiry_from_request expires seconds = (case (expires, seconds) of
     (None, None) \<Rightarrow> Inr None
   | (Some False, None) \<Rightarrow> Inr (Some ExpiryDisabled)
   | (Some True, Some seconds) \<Rightarrow> Inr (Some (AtUnixSeconds seconds))
   | _ \<Rightarrow> Inl InvalidRequest)"

definition totp_from_request :: "bool option \<Rightarrow> string option \<Rightarrow> DesktopError + EntryTotpUpdate option" where
  "totp_from_request enabled uri = (case (enabled, uri) of
     (None, None) \<Rightarrow> Inr None
   | (Some False, None) \<Rightarrow> Inr (Some ClearTotp)
   | (Some True, Some uri) \<Rightarrow> if is_blank uri then Inl InvalidRequest else Inr (Some (SetTotp uri))
   | _ \<Rightarrow> Inl InvalidRequest)"

datatype EntryIconRequestDto = NoIconRequest | BuiltInRequest nat

definition icon_from_request :: "EntryIconRequestDto option \<Rightarrow> DesktopError + EntryIconUpdate option" where
  "icon_from_request icon = (case icon of
     None \<Rightarrow> Inr None
   | Some NoIconRequest \<Rightarrow> Inr (Some ClearIcon)
   | Some (BuiltInRequest i) \<Rightarrow> if i \<le> MAX_STANDARD_ICON_ID then Inr (Some (UseBuiltIn i)) else Inl InvalidRequest)"

record UpdateEntryRequestDto =
  uq_entry_id :: string
  uq_title :: "string option"
  uq_username :: "string option"
  uq_url :: "string option"
  uq_password :: "string option"
  uq_notes :: "string option"
  uq_expires :: "bool option"
  uq_expiry_unix_seconds :: "int option"
  uq_totp_enabled :: "bool option"
  uq_totp_uri :: "string option"
  uq_icon :: "EntryIconRequestDto option"

definition MAX_BULK_ENTRY_COUNT :: nat where "MAX_BULK_ENTRY_COUNT = 1024"

fun parse_ids :: "string list \<Rightarrow> string list \<Rightarrow> DesktopError + string list" where
  "parse_ids seen [] = Inr []"
| "parse_ids seen (value # rest) =
     bindR (require_id value) (\<lambda>_.
     if value \<in> set seen then Inl InvalidRequest
     else bindR (parse_ids (value # seen) rest) (\<lambda>entries. Inr (value # entries)))"

definition parse_entry_ids :: "string list \<Rightarrow> DesktopError + string list" where
  "parse_entry_ids ids =
     (if ids = [] \<or> length ids > MAX_BULK_ENTRY_COUNT then Inl InvalidRequest else parse_ids [] ids)"

subsection \<open>Entries\<close>

definition service_update_entry ::
    "('d, 'v) service_env \<Rightarrow> edit_supply \<Rightarrow> UpdateEntryRequestDto \<Rightarrow> ('d, string option) answered_op" where
  "service_update_entry ev draws q =
     bindE (liftE (require_id (uq_entry_id q))) (\<lambda>_.
     bindE (liftE (expiry_from_request (uq_expires q) (uq_expiry_unix_seconds q))) (\<lambda>expiry.
     bindE (liftE (totp_from_request (uq_totp_enabled q) (uq_totp_uri q))) (\<lambda>totp.
     bindE (liftE (icon_from_request (uq_icon q))) (\<lambda>icon.
     then_snapshot ev (edit_session ev draws (UpdateEntry (uq_entry_id q)
       \<lparr>eu_title = uq_title q, eu_username = uq_username q, eu_url = uq_url q, eu_password = uq_password q,
        eu_notes = uq_notes q, eu_expiry = expiry, eu_totp = totp, eu_icon = icon\<rparr>))))))"

definition service_set_entry_tags ::
    "('d, 'v) service_env \<Rightarrow> edit_supply \<Rightarrow> string \<Rightarrow> string list \<Rightarrow> ('d, string option) answered_op" where
  "service_set_entry_tags ev draws i tags =
     bindE (liftE (require_id i)) (\<lambda>_. then_snapshot ev (edit_session ev draws (SetEntryTags i tags)))"

definition service_create_entry ::
    "('d, 'v) service_env \<Rightarrow> edit_supply \<Rightarrow> string \<Rightarrow> NewEntry \<Rightarrow> string option \<Rightarrow> ('d, string option) answered_op" where
  "service_create_entry ev draws g input notes =
     bindE (liftE (require_id g)) (\<lambda>_. then_snapshot ev (edit_session ev draws (CreateEntry g input notes)))"

text \<open>The operations that only name one entry: they duplicate it, move it to the bin, restore or delete it.\<close>

definition service_entry_edit ::
    "('d, 'v) service_env \<Rightarrow> edit_supply \<Rightarrow> (string \<Rightarrow> session_edit) \<Rightarrow> string \<Rightarrow> ('d, string option) answered_op" where
  "service_entry_edit ev draws request i =
     bindE (liftE (require_id i)) (\<lambda>_. then_snapshot ev (edit_session ev draws (request i)))"

definition service_duplicate_entry :: "('d, 'v) service_env \<Rightarrow> edit_supply \<Rightarrow> string \<Rightarrow> ('d, string option) answered_op" where
  "service_duplicate_entry ev draws i = service_entry_edit ev draws DuplicateEntry i"

definition service_delete_entry :: "('d, 'v) service_env \<Rightarrow> edit_supply \<Rightarrow> string \<Rightarrow> ('d, string option) answered_op" where
  "service_delete_entry ev draws i = service_entry_edit ev draws TrashEntry i"

definition service_restore_entry :: "('d, 'v) service_env \<Rightarrow> edit_supply \<Rightarrow> string \<Rightarrow> ('d, string option) answered_op" where
  "service_restore_entry ev draws i = service_entry_edit ev draws RestoreEntry i"

definition service_permanently_delete_entry ::
    "('d, 'v) service_env \<Rightarrow> edit_supply \<Rightarrow> string \<Rightarrow> ('d, string option) answered_op" where
  "service_permanently_delete_entry ev draws i = service_entry_edit ev draws PermanentlyDeleteRecycledEntry i"

definition service_move_entry ::
    "('d, 'v) service_env \<Rightarrow> edit_supply \<Rightarrow> string \<Rightarrow> string \<Rightarrow> ('d, string option) answered_op" where
  "service_move_entry ev draws i g =
     bindE (liftE (require_id i)) (\<lambda>_.
     bindE (liftE (require_id g)) (\<lambda>_. then_snapshot ev (edit_session ev draws (MoveEntry i g))))"

definition has_entry_custom_field ::
    "('d, 'v) service_env \<Rightarrow> string \<Rightarrow> string \<Rightarrow> ('d VaultSession, SessionError, bool) op" where
  "has_entry_custom_field ev i name = (\<lambda>session.
     (map_err Kdbx (bindR (custom_fields (sv_lib ev) (vs_document session) i)
        (\<lambda>fields. Inr (list_ex (\<lambda>f. cfs_name f = name) fields))), session))"

definition service_set_custom_field ::
    "('d, 'v) service_env \<Rightarrow> edit_supply \<Rightarrow> string \<Rightarrow> string \<Rightarrow> string \<Rightarrow> FieldProtection \<Rightarrow>
     ('d, string option) answered_op" where
  "service_set_custom_field ev draws i name value protection =
     bindE (liftE (require_id i)) (\<lambda>_.
     bindE (edit_with ev map_mutation_error (has_entry_custom_field ev i name)) (\<lambda>exists.
     bindE (if exists then returnE () else liftE (require_name name)) (\<lambda>_.
     then_snapshot ev (edit_session ev draws (SetEntryCustomField i name value protection)))))"

definition service_delete_custom_field ::
    "('d, 'v) service_env \<Rightarrow> edit_supply \<Rightarrow> string \<Rightarrow> string \<Rightarrow> ('d, string option) answered_op" where
  "service_delete_custom_field ev draws i name =
     bindE (liftE (require_id i)) (\<lambda>_. then_snapshot ev (edit_session ev draws (DeleteEntryCustomField i name)))"

definition service_set_entry_custom_icon_png ::
    "('d, 'v) service_env \<Rightarrow> edit_supply \<Rightarrow> string \<Rightarrow> bytes \<Rightarrow> ('d, string option) answered_op" where
  "service_set_entry_custom_icon_png ev draws i data =
     bindE (liftE (require_id i)) (\<lambda>_.
     then_snapshot ev (edit_session ev draws (SetEntryCustomIconPng i data)))"

definition service_restore_entry_history ::
    "('d, 'v) service_env \<Rightarrow> edit_supply \<Rightarrow> string \<Rightarrow> nat \<Rightarrow> 64 word \<Rightarrow> ('d, string option) answered_op" where
  "service_restore_entry_history ev draws i index expected =
     then_snapshot ev (edit_with ev map_history_error
       (apply_edit (sv_lib ev) (sv_totp ev) draws (RestoreEntryHistory i index expected)))"

subsection \<open>Groups\<close>

definition service_create_group ::
    "('d, 'v) service_env \<Rightarrow> edit_supply \<Rightarrow> string \<Rightarrow> string \<Rightarrow> ('d, string option) answered_op" where
  "service_create_group ev draws g name =
     bindE (liftE (require_id g)) (\<lambda>_.
     bindE (liftE (require_name name)) (\<lambda>_. then_snapshot ev (edit_session ev draws (CreateGroup g name))))"

definition service_rename_group ::
    "('d, 'v) service_env \<Rightarrow> edit_supply \<Rightarrow> string \<Rightarrow> string \<Rightarrow> ('d, string option) answered_op" where
  "service_rename_group ev draws g name =
     bindE (liftE (require_id g)) (\<lambda>_.
     bindE (liftE (require_name name)) (\<lambda>_. then_snapshot ev (edit_session ev draws (RenameGroup g name))))"

definition service_move_group ::
    "('d, 'v) service_env \<Rightarrow> edit_supply \<Rightarrow> string \<Rightarrow> string \<Rightarrow> ('d, string option) answered_op" where
  "service_move_group ev draws g p =
     bindE (liftE (require_id g)) (\<lambda>_.
     bindE (liftE (require_id p)) (\<lambda>_. then_snapshot ev (edit_session ev draws (MoveGroup g p))))"

definition service_delete_group :: "('d, 'v) service_env \<Rightarrow> edit_supply \<Rightarrow> string \<Rightarrow> ('d, string option) answered_op" where
  "service_delete_group ev draws g = service_entry_edit ev draws TrashGroup g"

definition service_restore_group :: "('d, 'v) service_env \<Rightarrow> edit_supply \<Rightarrow> string \<Rightarrow> ('d, string option) answered_op" where
  "service_restore_group ev draws g = service_entry_edit ev draws RestoreGroup g"

definition service_permanently_delete_group ::
    "('d, 'v) service_env \<Rightarrow> edit_supply \<Rightarrow> string \<Rightarrow> ('d, string option) answered_op" where
  "service_permanently_delete_group ev draws g = service_entry_edit ev draws PermanentlyDeleteRecycledGroup g"

subsection \<open>Several entries at once\<close>

definition session_reads :: "('d VaultSession \<Rightarrow> DesktopError + 'a) \<Rightarrow> ('d, 'a) service_op" where
  "session_reads f = bindE (getsE session_of) (\<lambda>session. liftE (f session))"

fun none_recycled :: "('d, 'v) kdbx_lib \<Rightarrow> 'd KdbxDocument \<Rightarrow> string list \<Rightarrow> DesktopError + unit" where
  "none_recycled kl doc [] = Inr ()"
| "none_recycled kl doc (i # is) =
     bindR (map_err (\<lambda>_. InvalidRequest) (entry_is_recycled kl doc i)) (\<lambda>recycled.
     if recycled then Inl InvalidRequest else none_recycled kl doc is)"

definition move_entries_bulk ::
    "('d, 'v) service_env \<Rightarrow> edit_supply \<Rightarrow> string list \<Rightarrow> string \<Rightarrow> ('d, string option) answered_op" where
  "move_entries_bulk ev draws ids g =
     bindE (liftE (parse_entry_ids ids)) (\<lambda>entries.
     bindE (liftE (require_id g)) (\<lambda>_.
     bindE (require_writable ev) (\<lambda>_.
     bindE (session_reads (\<lambda>s. map_err (map_mutation_error \<circ> Kdbx) (group_is_recycled (sv_lib ev) (vs_document s) g))) (\<lambda>recycled.
     if recycled then throwE InvalidRequest
     else
       bindE (session_reads (\<lambda>s. none_recycled (sv_lib ev) (vs_document s) entries)) (\<lambda>_.
       then_snapshot ev (map_errE map_mutation_error
         (at_session (apply_edit (sv_lib ev) (sv_totp ev) draws (MoveEntries entries g)))))))))"

definition bulk_edit ::
    "('d, 'v) service_env \<Rightarrow> edit_supply \<Rightarrow> (string list \<Rightarrow> session_edit) \<Rightarrow> string list \<Rightarrow> ('d, string option) answered_op" where
  "bulk_edit ev draws request ids =
     bindE (liftE (parse_entry_ids ids)) (\<lambda>entries. then_snapshot ev (edit_session ev draws (request entries)))"

definition trash_entries_bulk ::
    "('d, 'v) service_env \<Rightarrow> edit_supply \<Rightarrow> string list \<Rightarrow> ('d, string option) answered_op" where
  "trash_entries_bulk ev draws ids = bulk_edit ev draws TrashEntries ids"

definition restore_entries_bulk ::
    "('d, 'v) service_env \<Rightarrow> edit_supply \<Rightarrow> string list \<Rightarrow> ('d, string option) answered_op" where
  "restore_entries_bulk ev draws ids = bulk_edit ev draws RestoreEntries ids"

definition permanently_delete_entries_bulk ::
    "('d, 'v) service_env \<Rightarrow> edit_supply \<Rightarrow> string list \<Rightarrow> ('d, string option) answered_op" where
  "permanently_delete_entries_bulk ev draws ids = bulk_edit ev draws PermanentlyDeleteRecycledEntries ids"

subsection \<open>Settings of the database\<close>

definition service_update_database_metadata ::
    "('d, 'v) service_env \<Rightarrow> edit_supply \<Rightarrow> string \<Rightarrow> string \<Rightarrow> string \<Rightarrow> ('d, DatabaseMetadata) answered_op" where
  "service_update_database_metadata ev draws name description default_username =
     then_snapshot ev (edit_with ev map_mutation_error
       (at_document (update_database_metadata (sv_lib ev) (sup_now draws) name description default_username)))"

record HistoryPolicyDto =
  hp_max_items :: "nat option"
  hp_maximum_editable_items :: nat

definition session_history_policy :: "('d, 'v) service_env \<Rightarrow> 'd VaultSession \<Rightarrow> HistoryPolicyDto" where
  "session_history_policy ev session =
     \<lparr>hp_max_items = finite_history_limit (kl_kp (sv_lib ev)) (kd_database (vs_document session)),
      hp_maximum_editable_items = MAX_HISTORY_ITEMS\<rparr>"

definition service_set_history_max_items ::
    "('d, 'v) service_env \<Rightarrow> 'v \<Rightarrow> nat option \<Rightarrow> ('d, HistoryPolicyDto) answered_op" where
  "service_set_history_max_items ev changed max_items =
     bindE (edit_with ev map_mutation_error (at_document (\<lambda>doc.
       case set_history_max_items (kl_kp (sv_lib ev)) changed max_items doc of
         Inl e \<Rightarrow> (Inl e, doc) | Inr doc' \<Rightarrow> (Inr (), doc')))) (\<lambda>_.
     bindE open_session (\<lambda>session.
     bindE (service_snapshot ev) (\<lambda>snapshot.
     returnE (session_history_policy ev session, snapshot))))"

definition service_set_recycle_bin_enabled ::
    "('d, 'v) service_env \<Rightarrow> edit_supply \<Rightarrow> bool \<Rightarrow> ('d, unit) answered_op" where
  "service_set_recycle_bin_enabled ev draws enabled =
     then_snapshot ev (edit_with ev map_mutation_error
       (at_document (set_recycle_bin_enabled (sv_lib ev) (sup_now draws) enabled)))"

subsection \<open>Attachments as files\<close>

definition MAX_ATTACHMENT_IMPORT_BYTES :: nat where "MAX_ATTACHMENT_IMPORT_BYTES = 64 * 1024 * 1024"

definition file_call :: "(('d, 'a) vault_op) \<Rightarrow> ('d, 'a) service_op" where
  "file_call m = map_errE (\<lambda>_. AttachmentIoFailed) (at_desktop (on_session m))"

definition file_at :: "string \<Rightarrow> ('d, node option) vault_op" where
  "file_at p = bindE (sys ReadSource) (\<lambda>_. getsE (\<lambda>w. map_of (v_files w) p))"

definition read_import_file :: "string \<Rightarrow> ('d, bytes) service_op" where
  "read_import_file p =
     bindE (file_call (file_at p)) (\<lambda>metadata. case metadata of
       Some (Regular bs) \<Rightarrow>
         if length bs > MAX_ATTACHMENT_IMPORT_BYTES then throwE AttachmentTooLarge
         else
           bindE (file_call (read_file ReadSource p)) (\<lambda>bs.
           if length bs > MAX_ATTACHMENT_IMPORT_BYTES then throwE AttachmentTooLarge else returnE bs)
     | _ \<Rightarrow> throwE AttachmentIoFailed)"

text \<open>Paths are canonical, so two paths name one file exactly when they are equal.\<close>

definition paths_refer_to_same_file :: "string \<Rightarrow> string \<Rightarrow> ('d, bool) service_op" where
  "paths_refer_to_same_file left right =
     bindE (file_call (file_at right)) (\<lambda>present.
     if present = None then throwE AttachmentIoFailed
     else
       bindE (at_desktop (on_session (path_exists left))) (\<lambda>exists.
       if \<not> exists \<and> display_file_name left = None then throwE AttachmentIoFailed
       else bindE (file_call (sys ReadSource)) (\<lambda>_. returnE (left = right))))"

definition import_entry_attachment ::
    "('d, 'v) service_env \<Rightarrow> edit_supply \<Rightarrow> string \<Rightarrow> string \<Rightarrow> ('d, string option) answered_op" where
  "import_entry_attachment ev draws i source =
     bindE (require_writable ev) (\<lambda>_.
     bindE open_session (\<lambda>session.
     bindE (paths_refer_to_same_file source (vs_path session)) (\<lambda>same.
     if same then throwE InvalidRequest
     else
       bindE (liftE (ok_or InvalidRequest (display_file_name source))) (\<lambda>name.
       bindE (read_import_file source) (\<lambda>bs.
       then_snapshot ev (map_errE map_mutation_error
         (at_session (apply_edit (sv_lib ev) (sv_totp ev) draws (AddEntryAttachment i name bs)))))))))"

text \<open>The file is created or truncated, its permissions are set, then it is written and synchronized.\<close>

definition write_export_file :: "string \<Rightarrow> bytes \<Rightarrow> ('d, unit) service_op" where
  "write_export_file p bs =
     bindE (file_call (file_at p)) (\<lambda>existing.
     if existing \<noteq> None \<and> \<not> pred_option is_regular existing then throwE AttachmentIoFailed
     else
       file_call
        (bindE (modifyE (\<lambda>w. w\<lparr>v_files := AList.update p (Regular []) (v_files w)\<rparr>)) (\<lambda>_.
         bindE (sys WriteTemp) (\<lambda>_.  \<comment> \<open>metadata\<close>
         bindE (sys WriteTemp) (\<lambda>_.  \<comment> \<open>set_permissions\<close>
         bindE (write_temp WriteTemp p bs) (\<lambda>_.
         sys SyncTemp))))))"

definition export_entry_attachment ::
    "('d, 'v) service_env \<Rightarrow> string \<Rightarrow> string \<Rightarrow> string \<Rightarrow> ('d, unit) service_op" where
  "export_entry_attachment ev i name target =
     bindE open_session (\<lambda>session.
     bindE (paths_refer_to_same_file target (vs_path session)) (\<lambda>same.
     if same then throwE InvalidRequest
     else
       bindE (liftE (map_err (map_mutation_error \<circ> Kdbx)
         (entry_attachment_bytes (sv_lib ev) (vs_document session) i name))) (\<lambda>bs.
       write_export_file target bs)))"

subsection \<open>Reads\<close>

text \<open>
  Reads do not change the service, so they are functions of its state. The entry must be in the
  projection before any of its fields is read.
\<close>

definition require_entry :: "('d, 'v) service_env \<Rightarrow> 'd service \<Rightarrow> string \<Rightarrow> DesktopError + 'd VaultSession" where
  "require_entry ev s i =
     (if \<not> is_unlocked s then Inl Locked
      else
        bindR (map_err (\<lambda>_. Internal) (projection (sv_lib ev) (vs_document (session_of s)))) (\<lambda>root.
        if find_entry i root = None then Inl DesktopError.EntryNotFound else Inr (session_of s)))"

definition read_secret ::
    "('d, 'v) service_env \<Rightarrow> ('d KdbxDocument \<Rightarrow> string \<Rightarrow> KdbxError + string option) \<Rightarrow> 'd service \<Rightarrow> string \<Rightarrow> DesktopError + string" where
  "read_secret ev field s i =
     bindR (require_entry ev s i) (\<lambda>session.
     bindR (map_err (\<lambda>_. Internal) (field (vs_document session) i)) (\<lambda>value.
     ok_or SecretUnavailable value))"

definition service_entry_password :: "('d, 'v) service_env \<Rightarrow> 'd service \<Rightarrow> string \<Rightarrow> DesktopError + string" where
  "service_entry_password ev s i = read_secret ev (entry_password (sv_lib ev)) s i"

definition service_entry_title :: "('d, 'v) service_env \<Rightarrow> 'd service \<Rightarrow> string \<Rightarrow> DesktopError + string" where
  "service_entry_title ev s i = read_secret ev (entry_title (sv_lib ev)) s i"

definition service_entry_url :: "('d, 'v) service_env \<Rightarrow> 'd service \<Rightarrow> string \<Rightarrow> DesktopError + string" where
  "service_entry_url ev s i = read_secret ev (entry_url (sv_lib ev)) s i"

definition service_entry_notes :: "('d, 'v) service_env \<Rightarrow> 'd service \<Rightarrow> string \<Rightarrow> DesktopError + string" where
  "service_entry_notes ev s i = read_secret ev (entry_notes (sv_lib ev)) s i"

definition service_entry_username :: "('d, 'v) service_env \<Rightarrow> 'd service \<Rightarrow> string \<Rightarrow> DesktopError + string" where
  "service_entry_username ev s i = read_secret ev (entry_username (sv_lib ev)) s i"

definition service_entry_custom_field ::
    "('d, 'v) service_env \<Rightarrow> string \<Rightarrow> 'd service \<Rightarrow> string \<Rightarrow> DesktopError + string" where
  "service_entry_custom_field ev name s i =
     bindR (require_entry ev s i) (\<lambda>session.
     bindR (map_err (map_mutation_error \<circ> Kdbx) (entry_custom_field (sv_lib ev) (vs_document session) i name)) (\<lambda>value.
     ok_or SecretUnavailable value))"

definition service_entry_totp_code ::
    "('d, 'v) service_env \<Rightarrow> nat \<Rightarrow> 'd service \<Rightarrow> string \<Rightarrow> DesktopError + EntryTotpCode" where
  "service_entry_totp_code ev now s i =
     bindR (require_entry ev s i) (\<lambda>session.
     map_err (map_mutation_error \<circ> Kdbx) (entry_totp_code_at (sv_lib ev) (sv_totp ev) (vs_document session) i now))"

definition service_entry_totp_secret ::
    "('d, 'v) service_env \<Rightarrow> nat \<Rightarrow> 'd service \<Rightarrow> string \<Rightarrow> DesktopError + string" where
  "service_entry_totp_secret ev now s i = bindR (service_entry_totp_code ev now s i) (\<lambda>code. Inr (tc_code code))"

record EntryDetailDto =
  dt_summary :: EntrySummary
  dt_custom_fields :: "CustomFieldSummary list"

definition entry_detail :: "('d, 'v) service_env \<Rightarrow> 'd service \<Rightarrow> string \<Rightarrow> DesktopError + EntryDetailDto" where
  "entry_detail ev s i =
     (if \<not> is_unlocked s then Inl Locked
      else
        bindR (map_err (\<lambda>_. Internal) (projection (sv_lib ev) (vs_document (session_of s)))) (\<lambda>root.
        bindR (ok_or DesktopError.EntryNotFound (find_entry i root)) (\<lambda>summary.
        bindR (map_err (\<lambda>_. Internal) (custom_fields (sv_lib ev) (vs_document (session_of s)) i)) (\<lambda>fields.
        Inr \<lparr>dt_summary = summary, dt_custom_fields = fields\<rparr>))))"

text \<open>The lists and settings of an open vault that hold no secret.\<close>

definition when_unlocked :: "('d VaultSession \<Rightarrow> DesktopError + 'a) \<Rightarrow> 'd service \<Rightarrow> DesktopError + 'a" where
  "when_unlocked read s = (if is_unlocked s then read (session_of s) else Inl Locked)"

definition service_entry_attachments ::
    "('d, 'v) service_env \<Rightarrow> 'd service \<Rightarrow> string \<Rightarrow> DesktopError + EntryAttachmentSummary list" where
  "service_entry_attachments ev s i =
     when_unlocked (\<lambda>session. map_err (map_mutation_error \<circ> Kdbx) (entry_attachments (sv_lib ev) (vs_document session) i)) s"

definition service_entry_history :: "('d, 'v) service_env \<Rightarrow> 'd service \<Rightarrow> string \<Rightarrow> DesktopError + EntryHistory" where
  "service_entry_history ev s i =
     when_unlocked (\<lambda>session. map_err (map_history_error \<circ> Kdbx) (entry_history (sv_lib ev) (vs_document session) i)) s"

definition service_database_metadata :: "('d, 'v) service_env \<Rightarrow> 'd service \<Rightarrow> DesktopError + DatabaseMetadata" where
  "service_database_metadata ev s =
     when_unlocked (\<lambda>session. Inr (database_metadata (sv_lib ev) (kd_database (vs_document session)))) s"

definition service_history_policy :: "('d, 'v) service_env \<Rightarrow> 'd service \<Rightarrow> DesktopError + HistoryPolicyDto" where
  "service_history_policy ev s = when_unlocked (\<lambda>session. Inr (session_history_policy ev session)) s"

end
