(* ===== verification/Desktop_Properties.thy ===== *)
theory Desktop_Properties
  imports Desktop_Mutations Reference_World Reference_Library
begin

section \<open>The life of a desktop session\<close>

text \<open>
  Every operation of the service is a value of \<open>service_request\<close>, and the service moves from state to
  state by performing them in any order, with any results. The properties say what such a service
  retains, when it writes, and what a change of the credential leaves behind.
\<close>

subsection \<open>Requests\<close>

datatype 'v edit_request =
  EditEntry UpdateEntryRequestDto
| TagEntry string "string list"
| AddEntry string NewEntry "string option"
| CopyEntry string
| DeleteEntry string
| RestoreTrashedEntry string
| DeleteEntryForever string
| RelocateEntry string string
| AddGroup string string
| NameGroup string string
| RelocateGroup string string
| DeleteGroup string
| RestoreTrashedGroup string
| DeleteGroupForever string
| SetField string string string FieldProtection
| DropField string string
| RelocateEntries "string list" string
| DeleteEntries "string list"
| RestoreTrashedEntries "string list"
| DeleteEntriesForever "string list"
| RestoreRevision string nat "64 word"
| UseIcon string bytes
| ImportAttachment string string
| DescribeDatabase string string string
| LimitHistory 'v "nat option"
| EnableRecycleBin bool

definition forget :: "('d, 'a) service_op \<Rightarrow> ('d, unit) service_op" where
  "forget m = bindE m (\<lambda>_. returnE ())"

definition perform_edit ::
    "('d, 'v) service_env \<Rightarrow> edit_supply \<Rightarrow> 'v edit_request \<Rightarrow> ('d, unit) service_op" where
  "perform_edit ev draws request = (case request of
     EditEntry q \<Rightarrow> forget (service_update_entry ev draws q)
   | TagEntry i tags \<Rightarrow> forget (service_set_entry_tags ev draws i tags)
   | AddEntry g input notes \<Rightarrow> forget (service_create_entry ev draws g input notes)
   | CopyEntry i \<Rightarrow> forget (service_duplicate_entry ev draws i)
   | DeleteEntry i \<Rightarrow> forget (service_delete_entry ev draws i)
   | RestoreTrashedEntry i \<Rightarrow> forget (service_restore_entry ev draws i)
   | DeleteEntryForever i \<Rightarrow> forget (service_permanently_delete_entry ev draws i)
   | RelocateEntry i g \<Rightarrow> forget (service_move_entry ev draws i g)
   | AddGroup g name \<Rightarrow> forget (service_create_group ev draws g name)
   | NameGroup g name \<Rightarrow> forget (service_rename_group ev draws g name)
   | RelocateGroup g p \<Rightarrow> forget (service_move_group ev draws g p)
   | DeleteGroup g \<Rightarrow> forget (service_delete_group ev draws g)
   | RestoreTrashedGroup g \<Rightarrow> forget (service_restore_group ev draws g)
   | DeleteGroupForever g \<Rightarrow> forget (service_permanently_delete_group ev draws g)
   | SetField i name value protection \<Rightarrow> forget (service_set_custom_field ev draws i name value protection)
   | DropField i name \<Rightarrow> forget (service_delete_custom_field ev draws i name)
   | RelocateEntries ids g \<Rightarrow> forget (move_entries_bulk ev draws ids g)
   | DeleteEntries ids \<Rightarrow> forget (trash_entries_bulk ev draws ids)
   | RestoreTrashedEntries ids \<Rightarrow> forget (restore_entries_bulk ev draws ids)
   | DeleteEntriesForever ids \<Rightarrow> forget (permanently_delete_entries_bulk ev draws ids)
   | RestoreRevision i index expected \<Rightarrow> forget (service_restore_entry_history ev draws i index expected)
   | UseIcon i data \<Rightarrow> forget (service_set_entry_custom_icon_png ev draws i data)
   | ImportAttachment i source \<Rightarrow> forget (import_entry_attachment ev draws i source)
   | DescribeDatabase name description user \<Rightarrow> forget (service_update_database_metadata ev draws name description user)
   | LimitHistory changed max_items \<Rightarrow> forget (service_set_history_max_items ev changed max_items)
   | EnableRecycleBin enabled \<Rightarrow> forget (service_set_recycle_bin_enabled ev draws enabled))"

datatype 'v write_request = Edit edit_supply "'v edit_request" | Save | ChangePassword string
  | RemovePassword | ReplaceKeyfile bytes | RemoveKeyfile

definition perform_write :: "('d, 'v) service_env \<Rightarrow> 'v write_request \<Rightarrow> ('d, unit) service_op" where
  "perform_write ev request = (case request of
     Edit draws q \<Rightarrow> perform_edit ev draws q
   | Save \<Rightarrow> forget (service_save ev)
   | ChangePassword password \<Rightarrow> forget (change_master_password ev password)
   | RemovePassword \<Rightarrow> forget (remove_master_password ev)
   | ReplaceKeyfile keyfile \<Rightarrow> replace_keyfile ev keyfile
   | RemoveKeyfile \<Rightarrow> remove_keyfile ev)"

datatype 'v service_request = Select string | Attach bytes | Detach | Unlock "string option" | Reload "string option"
  | Write "'v write_request" | ExportAttachment string string string | Lock | Discard
  | SyncReplace string string string bytes KdbxCredential

definition perform :: "('d, 'v) service_env \<Rightarrow> 'v service_request \<Rightarrow> ('d, unit) service_op" where
  "perform ev request = (case request of
     Select p \<Rightarrow> forget (select_path p)
   | Attach keyfile \<Rightarrow> set_pending_keyfile keyfile
   | Detach \<Rightarrow> clear_pending_keyfile
   | Unlock password \<Rightarrow> forget (unlock_with_components ev password)
   | Reload password \<Rightarrow> forget (reload_with_components ev password)
   | Write q \<Rightarrow> perform_write ev q
   | ExportAttachment i name target \<Rightarrow> export_entry_attachment ev i name target
   | Lock \<Rightarrow> service_lock_clean
   | Discard \<Rightarrow> service_discard_and_lock
   | SyncReplace source authority digest ct cred \<Rightarrow>
       at_desktop (sync_replace (sv_vault ev) source authority digest ct cred))"

text \<open>A new service, and the states it reaches; the directory is arbitrary.\<close>

definition new_service :: "'d desktop \<Rightarrow> 'd service" where
  "new_service d = \<lparr>sv_desktop = d\<lparr>dk_unlocked := False, dk_save_credential := None, dk_browser_session_id := None\<rparr>,
     sv_selected_path = None, sv_pending_keyfile = None\<rparr>"

inductive service_reachable :: "('d, 'v) service_env \<Rightarrow> 'd service \<Rightarrow> bool" for ev :: "('d, 'v) service_env" where
  started: "service_reachable ev (new_service d)"
| performed: "service_reachable ev s \<Longrightarrow> service_reachable ev (snd (perform ev request s))"

subsection \<open>Operations that leave the authority alone\<close>

definition authority :: "'d service \<Rightarrow> bool \<times> KdbxCredential option \<times> string option \<times> string option \<times> bytes option" where
  "authority s = (dk_unlocked (sv_desktop s), dk_save_credential (sv_desktop s), dk_browser_session_id (sv_desktop s),
     sv_selected_path s, sv_pending_keyfile s)"

definition keeps_authority :: "('d service, 'e, 'a) op \<Rightarrow> bool" where
  "keeps_authority m \<longleftrightarrow> (\<forall>s. authority (snd (m s)) = authority s)"

lemma keeps_authority_preserves: "keeps_authority m \<Longrightarrow> preserves (\<lambda>s. P (authority s)) m"
  by (simp add: keeps_authority_def preserves_def)

lemma keeps_authorityI: "(\<And>a. preserves (\<lambda>s. authority s = a) m) \<Longrightarrow> keeps_authority m"
  by (auto simp: keeps_authority_def preserves_def)

lemma keeps_authorityD: "keeps_authority m \<Longrightarrow> preserves (\<lambda>s. authority s = a) m"
  by (simp add: keeps_authority_def preserves_def)

lemma keeps_authority_bindE: "keeps_authority m \<Longrightarrow> (\<And>a. keeps_authority (f a)) \<Longrightarrow> keeps_authority (bindE m f)"
  by (rule keeps_authorityI, rule preserves_bindE) (simp_all add: keeps_authorityD)

lemma keeps_authority_map_errE: "keeps_authority m \<Longrightarrow> keeps_authority (map_errE g m)"
  by (rule keeps_authorityI, rule preserves_map_errE) (simp add: keeps_authorityD)

lemma keeps_authority_tryE: "keeps_authority m \<Longrightarrow> keeps_authority (tryE m)"
  by (rule keeps_authorityI, rule preserves_tryE) (simp add: keeps_authorityD)

lemma keeps_authority_simple [simp]:
  "keeps_authority (returnE a)" "keeps_authority (throwE e)" "keeps_authority (liftE r)" "keeps_authority (getsE f)"
  by (simp_all add: keeps_authority_def returnE_def throwE_def liftE_def getsE_def)

lemma keeps_authority_on_session [simp]: "keeps_authority (at_desktop (on_session m))"
  by (simp add: keeps_authority_def at_desktop_def on_session_def authority_def split: prod.split)

lemma keeps_authority_session [simp]: "keeps_authority (at_session m)" "keeps_authority (file_call n)"
  by (simp_all add: at_session_def file_call_def keeps_authority_map_errE)

lemmas keeps_authority_intros = keeps_authority_bindE keeps_authority_map_errE keeps_authority_tryE

lemma keeps_authority_require [simp]: "keeps_authority (at_desktop require_session)"
  by (simp add: keeps_authority_def at_desktop_def require_session_def op_defs authority_def)

lemma keeps_authority_token [simp]: "keeps_authority (at_desktop random_process_token)"
  by (auto simp: keeps_authority_def at_desktop_def random_process_token_def op_defs on_session_def authority_def
      split: prod.split sum.split)

lemma keeps_authority_reads [simp]:
  "keeps_authority open_session" "keeps_authority retained_credential" "keeps_authority (service_snapshot ev)"
  "keeps_authority (require_writable ev)" "keeps_authority require_locked" "keeps_authority (session_reads f)"
  "keeps_authority (rotation_authority ev)"
  unfolding open_session_def retained_credential_def service_snapshot_def require_writable_def require_locked_def
    session_reads_def rotation_authority_def
  by (auto intro!: keeps_authority_intros split: option.split)

lemma keeps_authority_edits [simp]: "keeps_authority (edit_with ev f m)" "keeps_authority (edit_session ev draws q)"
  unfolding edit_with_def edit_session_def
  by (auto intro!: keeps_authority_intros)

lemma keeps_authority_answers:
  "keeps_authority n \<Longrightarrow> keeps_authority (then_snapshot ev n)" "keeps_authority n \<Longrightarrow> keeps_authority (forget n)"
  unfolding then_snapshot_def forget_def
  by (auto intro!: keeps_authority_intros)

lemma keeps_authority_files [simp]:
  "keeps_authority (read_import_file p)" "keeps_authority (paths_refer_to_same_file p q)"
  "keeps_authority (write_export_file p bs)" "keeps_authority (import_entry_attachment ev draws i p)"
  "keeps_authority (export_entry_attachment ev i name p)"
  unfolding read_import_file_def paths_refer_to_same_file_def write_export_file_def import_entry_attachment_def
    export_entry_attachment_def
  by (auto intro!: keeps_authority_intros keeps_authority_answers split: option.split node.split)

lemma keeps_authority_perform_edit [simp]: "keeps_authority (perform_edit ev draws request)"
  by (cases request)
    (auto simp: perform_edit_def service_update_entry_def service_set_entry_tags_def service_create_entry_def
      service_entry_edit_def service_duplicate_entry_def service_delete_entry_def service_restore_entry_def
      service_permanently_delete_entry_def service_move_entry_def service_set_custom_field_def
      service_delete_custom_field_def service_set_entry_custom_icon_png_def service_restore_entry_history_def
      service_create_group_def service_rename_group_def service_move_group_def service_delete_group_def
      service_restore_group_def service_permanently_delete_group_def move_entries_bulk_def bulk_edit_def
      trash_entries_bulk_def restore_entries_bulk_def permanently_delete_entries_bulk_def
      service_update_database_metadata_def service_set_history_max_items_def service_set_recycle_bin_enabled_def
      intro!: keeps_authority_intros keeps_authority_answers)

lemma keeps_authority_save [simp]: "keeps_authority (service_save ev)"
  unfolding service_save_def by (auto intro!: keeps_authority_intros)

subsection \<open>What the service retains\<close>

definition authority_ok :: "'d service \<Rightarrow> bool" where
  "authority_ok s = (case authority s of (unlocked, cred, token, selected, keyfile) \<Rightarrow>
     (unlocked \<longleftrightarrow> cred \<noteq> None) \<and> (unlocked \<longleftrightarrow> token \<noteq> None) \<and> pred_option has_component cred \<and>
     (unlocked \<longrightarrow> selected \<noteq> None \<and> keyfile = None) \<and> (keyfile \<noteq> None \<longrightarrow> selected \<noteq> None))"

definition holding :: "KdbxCredential \<Rightarrow> 'd service \<Rightarrow> bool" where
  "holding c s \<longleftrightarrow> authority_ok s \<and> dk_save_credential (sv_desktop s) = Some c"

lemma authority_of_holding: "holding c s \<longleftrightarrow> authority_ok s \<and> fst (snd (authority s)) = Some c"
  by (simp add: holding_def authority_def)

lemma keeps_authority_ok: "keeps_authority m \<Longrightarrow> preserves authority_ok m"
  by (auto simp: keeps_authority_def preserves_def authority_ok_def)

lemma keeps_authority_holding: "keeps_authority m \<Longrightarrow> preserves (holding c) m"
  by (auto simp: keeps_authority_def preserves_def authority_ok_def authority_of_holding)

lemma holding_ok: "holding c s \<Longrightarrow> authority_ok s"
  by (simp add: holding_def)

lemma wpE_at_desktop: "wpE (at_desktop m) Q R s = wpE m (\<lambda>a d. Q a (s\<lparr>sv_desktop := d\<rparr>)) (\<lambda>e d. R e (s\<lparr>sv_desktop := d\<rparr>)) (sv_desktop s)"
  by (simp add: wpE_def at_desktop_def split: prod.split sum.split)

lemma same_desktop [simp]: "s\<lparr>sv_desktop := sv_desktop s\<rparr> = s"
  by (cases s) simp

lemma wpE_open_session: "wpE open_session Q R s = (if is_unlocked s then Q (session_of s) s else R Locked s)"
  by (simp add: open_session_def require_session_def wp_simps wpE_at_desktop is_unlocked_def)

text \<open>Steps of a longer operation during which the credential \<open>c\<close> is retained.\<close>

lemma wpE_holding_bind:
  assumes "keeps_authority m" and "holding c s"
    and "\<And>a t. holding c t \<Longrightarrow> wpE (f a) (\<lambda>_. authority_ok) (\<lambda>_. authority_ok) t"
  shows "wpE (bindE m f) (\<lambda>_. authority_ok) (\<lambda>_. authority_ok) s"
  unfolding wpE_bindE
  by (rule wpE_mono [OF preservesD [OF keeps_authority_holding [OF assms(1)] assms(2)]])
    (auto intro: assms(3) holding_ok)

lemma wpE_retained:
  assumes "holding c s" and "wpE (f c) Q R s"
  shows "wpE (bindE retained_credential f) Q R s"
  using assms by (simp add: retained_credential_def holding_def wp_simps)

lemma wpE_retain:
  assumes "holding c s" and "has_component new"
  shows "wpE (retain new) (\<lambda>_. holding new) (\<lambda>_. authority_ok) s"
  unfolding retain_def
  by (rule wpE_retained [OF assms(1)])
    (use assms in \<open>auto simp: wpE_at_desktop wp_simps holding_def authority_ok_def authority_def\<close>)

lemma wpE_reconcile:
  assumes "holding c s" and "has_component (replace c)"
  shows "wpE (reconcile_authority ev replace) (\<lambda>_. authority_ok) (\<lambda>_. authority_ok) s"
proof -
  have install: "wpE (bindE (at_desktop (modifyE (\<lambda>d. d\<lparr>dk_world := (dk_world d)\<lparr>v_session := candidate\<rparr>\<rparr>))) (\<lambda>_.
      retain (replace c))) (\<lambda>_. authority_ok) (\<lambda>_. authority_ok) t" if "holding c t" for candidate t
    by (rule wpE_holding_bind [OF _ that])
      (auto simp: keeps_authority_def at_desktop_def modifyE_def authority_def intro!: wpE_mono [OF wpE_retain [OF _ assms(2)]]
        intro: holding_ok)
  note reopen = wpE_holding_bind [OF keeps_authority_tryE [OF keeps_authority_on_session]]
  have still: "wpE (bindE (tryE (at_desktop (on_session m))) (\<lambda>still. case still of
      Inr _ \<Rightarrow> returnE ()
    | Inl _ \<Rightarrow> bindE (at_desktop (modifyE (\<lambda>d. d\<lparr>dk_world := (dk_world d)\<lparr>v_session := candidate\<rparr>\<rparr>))) (\<lambda>_.
        retain (replace c)))) (\<lambda>_. authority_ok) (\<lambda>_. authority_ok) t"
    if "holding c t" for candidate t and m :: "('a, 'a VaultSession) vault_op"
    by (rule reopen [OF that]) (auto intro: install simp: wpE_returnE holding_ok split: sum.split)
  show ?thesis
    unfolding reconcile_authority_def
    by (rule wpE_holding_bind [OF keeps_authority_reads(1) assms(1)], rule wpE_retained [of c], assumption, rule reopen, assumption)
      (auto intro: still simp: wpE_returnE holding_ok split: sum.split)
qed

lemma wpE_rotate:
  assumes "holding c s" and "\<And>t. holding c t \<Longrightarrow> wpE reconcile (\<lambda>_. authority_ok) (\<lambda>_. authority_ok) t"
    and "\<And>t. holding c t \<Longrightarrow> wpE (f ()) (\<lambda>_. authority_ok) (\<lambda>_. authority_ok) t"
  shows "wpE (bindE (rotate_or_reconcile ev c new reconcile) f) (\<lambda>_. authority_ok) (\<lambda>_. authority_ok) s"
    unfolding rotate_or_reconcile_def wpE_bindE [of "bindE _ _"] wpE_bindE [of "tryE _"]
    by (rule wpE_mono [OF preservesD [OF keeps_authority_holding [OF keeps_authority_tryE [OF keeps_authority_on_session]] assms(1)]])
      (auto simp: wp_simps intro!: assms(3) wpE_mono [OF assms(2)] intro: holding_ok split: sum.split)

subsection \<open>Every request keeps the invariant\<close>

lemma preserves_retained:
  fixes f :: "KdbxCredential \<Rightarrow> ('a, 'b) service_op"
  assumes "\<And>c s. holding c s \<Longrightarrow> wpE (f c) (\<lambda>_. authority_ok) (\<lambda>_. authority_ok) s"
  shows "preserves authority_ok (bindE retained_credential f)"
proof (rule preservesI)
  fix s :: "'a service" assume "authority_ok s"
  then show "wpE (bindE retained_credential f) (\<lambda>_. authority_ok) (\<lambda>_. authority_ok) s"
    using assms [of "the (dk_save_credential (sv_desktop s))" s]
    by (cases "dk_save_credential (sv_desktop s)") (auto simp: retained_credential_def holding_def wp_simps)
qed

lemma wpE_rotated:
  assumes "holding c s" and "has_component (replace c)" and "keeps_authority g"
  shows "wpE (bindE (rotate_or_reconcile ev c (replace c) (reconcile_authority ev replace)) (\<lambda>_.
    bindE (retain (replace c)) (\<lambda>_. g))) (\<lambda>_. authority_ok) (\<lambda>_. authority_ok) s"
proof (rule wpE_rotate [OF assms(1)])
  show "wpE (bindE (retain (replace c)) (\<lambda>_. g)) (\<lambda>_. authority_ok) (\<lambda>_. authority_ok) t" if "holding c t" for t
    unfolding wpE_bindE
    by (rule wpE_mono [OF wpE_retain [OF that assms(2)]])
      (auto intro: preservesD [OF keeps_authority_ok [OF assms(3)]] holding_ok)
qed (rule wpE_reconcile [of c _ replace, OF _ assms(2)])

lemmas wpE_rotated_last = wpE_rotated [where g = "returnE ()", OF _ _ keeps_authority_simple(1), unfolded bindE_returnE]

lemma has_component_replaced:
  "has_component (with_password (Some p) c)" "has_component (with_keyfile (Some k) c)"
  "cred_keyfile c \<noteq> None \<Longrightarrow> has_component (with_password None c)"
  "cred_password c \<noteq> None \<Longrightarrow> has_component (with_keyfile None c)"
  by (simp_all add: has_component_def with_password_def with_keyfile_def)

lemma preserves_rotations:
  "preserves authority_ok (change_master_password ev p)" "preserves authority_ok (remove_master_password ev)"
  "preserves authority_ok (replace_keyfile ev k)" "preserves authority_ok (remove_keyfile ev)"
proof -
  note ok = keeps_authority_ok [OF keeps_authority_reads(4)] keeps_authority_ok [OF keeps_authority_reads(1)]
  note rotated = wpE_rotated [OF _ _ keeps_authority_reads(3)] wpE_rotated_last
  have authority: "preserves authority_ok (bindE (rotation_authority ev) f)"
    if "\<And>c s. holding c s \<Longrightarrow> wpE (f c) (\<lambda>_. authority_ok) (\<lambda>_. authority_ok) s"
    for f :: "KdbxCredential \<Rightarrow> ('a, 'x) service_op"
  proof -
    have "bindE (rotation_authority ev) f = bindE (require_writable ev) (\<lambda>_. bindE open_session (\<lambda>session.
        if is_dirty session then throwE UnsavedChanges else bindE retained_credential f))"
      by (auto simp: rotation_authority_def op_defs fun_eq_iff split: prod.split sum.split)
    then show ?thesis using preserves_retained [OF that] by (auto intro!: preserves_bindE ok)
  qed
  show "preserves authority_ok (change_master_password ev p)"
    unfolding change_master_password_def reconcile_rotation_authority_def
    by (auto intro!: preserves_bindE [OF ok(1)] preserves_bindE [OF ok(2)] preserves_retained rotated
        has_component_replaced)
  show "preserves authority_ok (remove_master_password ev)"
    unfolding remove_master_password_def reconcile_rotation_authority_def
    by (rule authority) (auto simp: wpE_throwE wpE_bindE [of "liftE _"] wpE_liftE holding_ok ok_or_def
        intro!: rotated has_component_replaced split: option.split)
  show "preserves authority_ok (replace_keyfile ev k)"
    unfolding replace_keyfile_def reconcile_keyfile_authority_def
    by (rule authority) (auto simp: wpE_returnE holding_ok intro!: rotated has_component_replaced)
  show "preserves authority_ok (remove_keyfile ev)"
    unfolding remove_keyfile_def reconcile_keyfile_authority_def
    by (rule authority) (auto simp: wpE_returnE wpE_throwE wpE_bindE [of "liftE _"] wpE_liftE holding_ok ok_or_def
        intro!: rotated has_component_replaced split: option.split)
qed

lemma wpE_keeping:
  assumes "keeps_authority m" and "authority s = a"
    and "\<And>x t. authority t = a \<Longrightarrow> wpE (f x) Q R t" and "\<And>e t. authority t = a \<Longrightarrow> R e t"
  shows "wpE (bindE m f) Q R s"
  unfolding wpE_bindE
  by (rule wpE_mono [OF preservesD [OF keeps_authorityD [OF assms(1)] assms(2)]]) (auto intro: assms(3,4))

lemma authority_install:
  "authority_ok s \<Longrightarrow> sv_selected_path s \<noteq> None \<Longrightarrow> sv_pending_keyfile s = None \<Longrightarrow> has_component cred \<Longrightarrow>
   wpE (bindE (install_session session cred token) (\<lambda>_. returnE x)) (\<lambda>_. authority_ok) (\<lambda>_. authority_ok) s"
  by (auto simp: install_session_def wp_simps wpE_at_desktop authority_ok_def authority_def)

lemma preserves_unlock: "preserves authority_ok (unlock_with_components ev password)"
proof (rule preservesI)
  fix s :: "'a service" assume ok: "authority_ok s"
  let ?G = "\<lambda>_. authority_ok :: 'a service \<Rightarrow> bool"
  obtain u c b selected keyfile where a: "authority s = (u, c, b, selected, keyfile)" by (cases "authority s")
  have okI: "authority_ok t" if "authority t = (u, c, b, selected, keyfile)" for t
    using ok unfolding authority_ok_def that a .
  have fields: "sv_selected_path t = selected" "sv_pending_keyfile t = keyfile"
    if "authority t = (u, c, b, selected, keyfile)" for t :: "'a service"
    using that by (simp_all add: authority_def)
  have finish: "wpE (bindE (modifyE (\<lambda>s. s\<lparr>sv_pending_keyfile := None\<rparr>)) (\<lambda>_.
      bindE (install_session session cred token) (\<lambda>_. returnE snapshot))) ?G ?G t"
    if "authority t = (u, c, b, selected, keyfile)" "selected \<noteq> None" "has_component cred" for session cred token snapshot t
    unfolding wpE_bindE [of "modifyE _"] wpE_modifyE
    by (rule authority_install) (use okI [OF that(1)] fields [OF that(1)] that in \<open>auto simp: authority_ok_def authority_def\<close>)
  have opened: "wpE (bindE (map_errE map_open_error (at_desktop (on_session m))) (\<lambda>session.
       bindE (liftE (map_err map_open_error (snapshot_from_session ev session))) (\<lambda>snapshot.
       bindE (at_desktop random_process_token) (\<lambda>token.
       bindE (modifyE (\<lambda>s. s\<lparr>sv_pending_keyfile := None\<rparr>)) (\<lambda>_.
       bindE (install_session session cred token) (\<lambda>_.
       returnE snapshot)))))) ?G ?G t"
    if "authority t = (u, c, b, selected, keyfile)" "selected \<noteq> None" "has_component cred" for m cred t
    by (rule wpE_keeping [OF _ that(1)], simp add: keeps_authority_map_errE, rule wpE_keeping, simp, assumption,
        rule wpE_keeping, simp, assumption, rule finish [OF _ that(2,3)]) (auto intro: okI)
  show "wpE (unlock_with_components ev password) ?G ?G s"
    unfolding unlock_with_components_def Let_def
    by (rule wpE_keeping [OF keeps_authority_reads(5) a])
      (auto simp: wpE_bindE [of "getsE _"] wpE_bindE [of "liftE _"] wpE_getsE wpE_liftE wpE_throwE fields ok_or_def
        intro: okI opened split: option.split)
qed

lemma preserves_reload: "preserves authority_ok (reload_with_components ev password)"
proof (rule preservesI)
  fix s :: "'a service" assume ok: "authority_ok s"
  let ?G = "\<lambda>_. authority_ok :: 'a service \<Rightarrow> bool"
  have okI: "authority_ok t" if "authority t = authority s" for t
    using ok unfolding authority_ok_def that .
  have finish: "wpE (bindE (install_session session cred token) (\<lambda>_. returnE snapshot)) ?G ?G t"
    if "authority t = authority s" "dk_unlocked (sv_desktop s)" "has_component cred" for session cred token snapshot t
    by (rule authority_install) (use okI [OF that(1)] that in \<open>auto simp: authority_ok_def authority_def\<close>)
  have opened: "wpE (bindE (map_errE (\<lambda>_. ReloadFailed) (at_desktop (on_session m))) (\<lambda>candidate.
       bindE (liftE (map_err (\<lambda>_. ReloadFailed) (snapshot_from_session ev candidate))) (\<lambda>snapshot.
       bindE (at_desktop random_process_token) (\<lambda>token.
       bindE (install_session candidate cred token) (\<lambda>_.
       returnE snapshot))))) ?G ?G s"
    if "dk_unlocked (sv_desktop s)" "has_component cred" for m cred
    by (rule wpE_keeping [OF _ refl], simp add: keeps_authority_map_errE, rule wpE_keeping, simp, assumption,
        rule wpE_keeping, simp, assumption, rule finish [OF _ that]) (auto intro: okI)
  show "wpE (reload_with_components ev password) ?G ?G s"
    by (auto simp: reload_with_components_def Let_def retained_credential_def is_unlocked_def
        wpE_bindE [of open_session] wpE_open_session wpE_bindE [of "bindE _ _"] wpE_bindE [of "getsE _"]
        wpE_bindE [of "liftE _"] wpE_getsE wpE_liftE wpE_throwE ok_or_def intro: ok opened split: option.split)
qed

lemma preserves_locks:
  "preserves authority_ok service_lock_clean" "preserves authority_ok service_discard_and_lock"
proof -
  show "preserves authority_ok service_discard_and_lock"
    unfolding service_discard_and_lock_def discard_and_lock_def require_session_def
    by (auto intro!: preservesI simp: wp_simps wpE_at_desktop) (simp_all add: authority_ok_def authority_def)
  then show "preserves authority_ok service_lock_clean"
    unfolding service_lock_clean_def
    by (auto intro!: preserves_bindE [OF keeps_authority_ok [OF keeps_authority_reads(1)]])
qed

lemma preserves_selection:
  "preserves authority_ok (select_path p)" "preserves authority_ok (set_pending_keyfile k)"
  "preserves authority_ok clear_pending_keyfile"
  unfolding select_path_def set_pending_keyfile_def clear_pending_keyfile_def require_locked_def
  by (auto intro!: preservesI simp: wp_simps is_unlocked_def ok_or_def split: option.split)
    (simp_all add: authority_ok_def authority_def)

text \<open>A replacement by synchronization only gives the session a new token.\<close>

lemma preserves_sync_replace: "preserves authority_ok (at_desktop (sync_replace ext es ea ed ct cred))"
proof (rule preservesI)
  fix s :: "'a service" assume ok: "authority_ok s"
  define J where "J = (\<lambda>d :: 'a desktop. dk_unlocked d = dk_unlocked (sv_desktop s) \<and>
    dk_save_credential d = dk_save_credential (sv_desktop s) \<and> dk_browser_session_id d \<noteq> None)"
  have on: "preserves J (on_session m)" for m :: "('a vault_world, 'e, 'x) op"
    by (simp add: preserves_def on_session_def J_def split: prod.split)
  have token: "preserves J random_process_token"
    unfolding random_process_token_def
    by (rule preserves_bindE, rule preserves_map_errE, rule on) (simp add: preserves_def J_def)
  have require: "preserves J require_session"
    unfolding require_session_def by (auto intro!: preserves_intros)
  have rest: "wpE (at_desktop f) (\<lambda>_. authority_ok) (\<lambda>_. authority_ok) s"
    if "preserves J f" "dk_browser_session_id (sv_desktop s) \<noteq> None" for f :: "('a, unit) desktop_op"
    unfolding wpE_at_desktop
    by (rule wpE_mono [OF preservesD [OF that(1)]])
      (use ok that(2) in \<open>auto simp: J_def authority_ok_def authority_def\<close>)
  have "dk_browser_session_id (sv_desktop s) = Some ea \<or>
      at_desktop (sync_replace ext es ea ed ct cred) s = (Inl ExternalChange, s)"
    by (simp add: sync_replace_def at_desktop_def op_defs)
  then show "wpE (at_desktop (sync_replace ext es ea ed ct cred)) (\<lambda>_. authority_ok) (\<lambda>_. authority_ok) s"
  proof
    assume "dk_browser_session_id (sv_desktop s) = Some ea"
    then show ?thesis
      by (intro rest) (auto simp: sync_replace_def intro!: preserves_intros on token require, simp add: J_def)
  qed (simp add: wpE_def ok)
qed

lemma preserves_perform: "preserves authority_ok (perform ev request)"
proof -
  have forget: "preserves authority_ok (forget m)" if "preserves authority_ok m" for m :: "('a, 'x) service_op"
    unfolding forget_def by (rule preserves_bindE [OF that]) simp
  have "preserves authority_ok (perform_write ev q)" for q :: "'b write_request"
    by (cases q) (auto simp: perform_write_def intro: forget [OF keeps_authority_ok] forget [OF preserves_rotations(1)]
        forget [OF preserves_rotations(2)] preserves_rotations keeps_authority_ok)
  then show ?thesis
    by (cases request) (auto simp: perform_def intro: forget preserves_selection preserves_unlock preserves_reload
        preserves_locks preserves_sync_replace keeps_authority_ok)
qed

subsection \<open>A concrete service\<close>

text \<open>A vault whose encrypted form is its password, with an empty database.\<close>

definition ref_service_ext :: "ref_db vault_ext" where
  "ref_service_ext = \<lparr>sha256 = sha256 ref_gateway_ext, vx_kdbx =
     \<lparr>parse_database = (\<lambda>bs cred. if map_option as_bytes (cred_password cred) = Some bs then Inr (Kdbx4 1, ref_empty_db)
         else Inl InvalidCredentials),
      database_save = (\<lambda>_ _ cred. case cred_password cred of None \<Rightarrow> Inl KdbxError.Io | Some p \<Rightarrow> Inr (as_bytes p)),
      database_semantically_eq = (=), database_valid_for_sync = (\<lambda>_. True), database_merge = (\<lambda>_ _ _. Inr (ConflictedDoc []))\<rparr>\<rparr>"

definition ref_service_env :: "bool \<Rightarrow> (ref_db, nat) service_env" where
  "ref_service_env read_only = \<lparr>sv_vault = ref_service_ext, sv_lib = ref_lib, sv_totp = ref_totp, sv_save_supported = True,
     sv_read_only = (\<lambda>_. read_only)\<rparr>"

definition ref_service_session :: "ref_db VaultSession" where
  "ref_service_session = \<lparr>vs_path = ''/v/a'', vs_document = \<lparr>kd_version = Kdbx4 1, kd_database = ref_empty_db, kd_revision = 0,
       kd_revision_permanently_dirty = False\<rparr>,
     vs_source_fingerprint = fingerprint ref_service_ext (as_bytes ''pw''), vs_saved_revision = 0\<rparr>"

definition ref_service_world :: "ref_db vault_world" where
  "ref_service_world = \<lparr>v_session = ref_service_session, v_files = [(''/v/a'', Regular (as_bytes ''pw''))], v_script = [],
     v_random = (\<lambda>n. [word_of_nat n]), v_random_index = 0, v_armed = [], v_seed = 0, v_history = [], v_checks = []\<rparr>"

definition ref_service_desktop :: "ref_db desktop" where
  "ref_service_desktop = \<lparr>dk_world = ref_service_world, dk_unlocked = True, dk_save_credential = Some ref_cred,
     dk_browser_session_id = Some ''00'', dk_poisoned = False, dk_users = [], dk_history = []\<rparr>"

lemma snapshot_Inr: "\<exists>snapshot. snapshot_from_session ev s = Inr snapshot"
  by (simp add: snapshot_from_session_def projection_def)

text \<open>Selecting the vault and unlocking it with its password.\<close>

lemma ref_select: "snd (perform (ref_service_env b) (Select ''/v/a'') (new_service ref_service_desktop)) =
    (new_service ref_service_desktop)\<lparr>sv_selected_path := Some ''/v/a''\<rparr>"
  by (simp add: perform_def forget_def select_path_def require_locked_def op_defs is_unlocked_def new_service_def display_file_name_def)

lemma ref_open: "open_with_credential ref_service_ext ''/v/a'' ref_cred ref_service_world = (Inr ref_service_session, ref_service_world)"
  by (simp add: open_with_credential_def canonical_regular_file_def open_stable_document_with_credential_def
      validate_current_target_def fingerprint_path_def read_file_def sys_def op_defs ref_service_world_def
      ref_service_session_def open_reader_with_credential_def ref_service_ext_def ref_cred_def)

lemma ref_unlock:
  fixes b :: bool
  defines "u \<equiv> snd (perform (ref_service_env b) (Unlock (Some ''pw'')) ((new_service ref_service_desktop)\<lparr>sv_selected_path := Some ''/v/a''\<rparr>))"
  shows "is_unlocked u" and "\<not> dk_poisoned (sv_desktop u)"
proof -
  obtain snapshot where snap: "snapshot_from_session (ref_service_env b) ref_service_session = Inr snapshot"
    using snapshot_Inr by blast
  have comp: "has_component ref_cred" by (simp add: has_component_def ref_cred_def)
  have quiet: "v_script ref_service_world = []" by (simp add: ref_service_world_def)
  have cred: "\<lparr>cred_password = Some ''pw'', cred_keyfile = None\<rparr> = ref_cred" by (simp add: ref_cred_def)
  show "is_unlocked u" "\<not> dk_poisoned (sv_desktop u)"
    unfolding u_def using ref_open snap
    by (simp_all add: perform_def forget_def unlock_with_components_def require_locked_def op_defs is_unlocked_def new_service_def
        at_desktop_def on_session_def random_process_token_def install_session_def ref_service_desktop_def cred
        comp sys_def quiet ref_service_env_def)
qed

subsection \<open>The invariant\<close>

text \<open>
  C16: Whatever requests the desktop service performs, in whatever order and with whatever failures, it
  keeps a save credential and a session token exactly while a vault is open: locking drops both, and
  an open vault can always be saved. The credential it keeps has a password or a keyfile, a keyfile
  waiting for an unlock belongs to a selected vault, and none waits while a vault is open.
\<close>

theorem service_retains_exactly_its_session:
  assumes "service_reachable ev s"
  shows "(is_unlocked s \<longleftrightarrow> dk_save_credential (sv_desktop s) \<noteq> None) \<and>
    (is_unlocked s \<longleftrightarrow> dk_browser_session_id (sv_desktop s) \<noteq> None) \<and>
    pred_option has_component (dk_save_credential (sv_desktop s)) \<and>
    (is_unlocked s \<longrightarrow> sv_selected_path s \<noteq> None \<and> sv_pending_keyfile s = None) \<and>
    (sv_pending_keyfile s \<noteq> None \<longrightarrow> sv_selected_path s \<noteq> None)"
proof -
  have "authority_ok s" using assms
  proof induction
    case (started d)
    show ?case by (simp add: new_service_def authority_ok_def authority_def)
  next
    case (performed s request)
    with preserves_perform show ?case by (auto simp: preserves_def)
  qed
  then show ?thesis unfolding authority_ok_def authority_def is_unlocked_def prod.case .
qed

theorem service_retains_exactly_its_session_witness:
  "let s = snd (perform (ref_service_env False) (Unlock (Some ''pw''))
       (snd (perform (ref_service_env False) (Select ''/v/a'') (new_service ref_service_desktop)))) in
   is_unlocked s \<and> dk_save_credential (sv_desktop s) \<noteq> None \<and> dk_browser_session_id (sv_desktop s) \<noteq> None"
proof -
  let ?ev = "ref_service_env False"
  let ?s = "snd (perform ?ev (Unlock (Some ''pw'')) (snd (perform ?ev (Select ''/v/a'') (new_service ref_service_desktop))))"
  have "service_reachable ?ev ?s" by (intro service_reachable.intros)
  from service_retains_exactly_its_session [OF this] have "is_unlocked ?s \<longrightarrow>
      dk_save_credential (sv_desktop ?s) \<noteq> None \<and> dk_browser_session_id (sv_desktop ?s) \<noteq> None" by blast
  then show ?thesis using ref_unlock [of False] by (simp add: ref_select)
qed

subsection \<open>Vaults that may not be written\<close>

definition refused :: "WriteRestriction \<Rightarrow> 'd service \<Rightarrow> ('d, 'a) service_op \<Rightarrow> bool" where
  "refused r s m \<longleftrightarrow> m s = (Inl (write_restriction_error r), s) \<or> m s = (Inl InvalidRequest, s)"

lemma refused_bind: "refused r s m \<Longrightarrow> refused r s (bindE m f)"
  by (auto simp: refused_def bindE_def)

lemma refused_answers:
  "refused r s m \<Longrightarrow> refused r s (then_snapshot ev m)" "refused r s m \<Longrightarrow> refused r s (forget m)"
  by (simp_all add: then_snapshot_def forget_def refused_bind)

lemma refused_check:
  "(\<And>e. x = Inl e \<Longrightarrow> e = InvalidRequest) \<Longrightarrow> (\<And>a. refused r s (f a)) \<Longrightarrow> refused r s (bindE (liftE x) f)"
  by (cases x) (auto simp: refused_def bindE_def liftE_def)

lemma refused_writable:
  "is_unlocked s \<Longrightarrow> session_restriction ev (session_of s) = Some r \<Longrightarrow> refused r s (require_writable ev)"
  by (simp add: refused_def require_writable_def open_session_def require_session_def at_desktop_def is_unlocked_def op_defs)

lemma request_errors:
  "require_id i = Inl e \<Longrightarrow> e = InvalidRequest" "require_name n = Inl e \<Longrightarrow> e = InvalidRequest"
  "expiry_from_request x y = Inl e \<Longrightarrow> e = InvalidRequest" "totp_from_request x u = Inl e \<Longrightarrow> e = InvalidRequest"
  "icon_from_request ic = Inl e \<Longrightarrow> e = InvalidRequest" "parse_ids seen ids = Inl e \<Longrightarrow> e = InvalidRequest"
  "parse_entry_ids ids = Inl e \<Longrightarrow> e = InvalidRequest"
proof -
  show parse: "parse_ids seen ids = Inl e \<Longrightarrow> e = InvalidRequest" for seen ids
    by (induction seen ids rule: parse_ids.induct)
      (auto simp: require_id_def bindR_def split: if_splits sum.splits)
  then show "parse_entry_ids ids = Inl e \<Longrightarrow> e = InvalidRequest"
    by (auto simp: parse_entry_ids_def split: if_splits)
qed (auto simp: require_id_def require_name_def expiry_from_request_def totp_from_request_def icon_from_request_def
    split: if_splits option.splits bool.splits EntryIconRequestDto.splits)

text \<open>
  C34: While the open vault may not be written, because of its format, the platform or the permissions of
  its file, every edit, every save and every change of the credential is refused with the reason, or
  as an invalid request, and leaves the service and the directory exactly as they were.
\<close>

theorem restricted_vault_refuses_writes:
  assumes "is_unlocked s" and "session_restriction ev (session_of s) = Some r"
  shows "perform_write ev request s \<in> {(Inl (write_restriction_error r), s), (Inl InvalidRequest, s)}"
proof -
  note writable = refused_writable [OF assms]
  note edit = refused_bind [OF writable]
  have edits: "refused r s (edit_with ev f m)" "refused r s (edit_session ev draws q)"
    for f draws q and m :: "('a VaultSession, SessionError, 'x) op"
    by (simp_all add: edit_with_def edit_session_def edit)
  have "refused r s (perform_edit ev draws q)" for draws q
    by (cases q)
      (auto simp: perform_edit_def service_update_entry_def service_set_entry_tags_def service_create_entry_def
        service_entry_edit_def service_duplicate_entry_def service_delete_entry_def service_restore_entry_def
        service_permanently_delete_entry_def service_move_entry_def service_set_custom_field_def
        service_delete_custom_field_def service_set_entry_custom_icon_png_def service_restore_entry_history_def
        service_create_group_def service_rename_group_def service_move_group_def service_delete_group_def
        service_restore_group_def service_permanently_delete_group_def move_entries_bulk_def bulk_edit_def
        trash_entries_bulk_def restore_entries_bulk_def permanently_delete_entries_bulk_def import_entry_attachment_def
        service_update_database_metadata_def service_set_history_max_items_def service_set_recycle_bin_enabled_def
        throwE_def [abs_def] refused_def [of _ _ "\<lambda>_. _"]
        intro!: refused_answers refused_check edits edit refused_bind [OF edits(1)] dest: request_errors)
  moreover have "refused r s (rotation_authority ev)" by (simp add: rotation_authority_def edit)
  ultimately have "refused r s (perform_write ev request)"
    by (cases request)
      (auto simp: perform_write_def service_save_def change_master_password_def remove_master_password_def
        replace_keyfile_def remove_keyfile_def intro!: refused_answers edit intro: refused_bind)
  then show ?thesis by (simp add: refused_def)
qed

theorem restricted_vault_refuses_writes_witness:
  "perform_write (ref_service_env True) Save \<lparr>sv_desktop = ref_service_desktop, sv_selected_path = Some ''/v/a'', sv_pending_keyfile = None\<rparr> =
     (Inl ReadOnlySource, \<lparr>sv_desktop = ref_service_desktop, sv_selected_path = Some ''/v/a'', sv_pending_keyfile = None\<rparr>)"
proof -
  let ?s = "\<lparr>sv_desktop = ref_service_desktop, sv_selected_path = Some ''/v/a'', sv_pending_keyfile = None\<rparr>"
  have restricted: "is_unlocked ?s" "session_restriction (ref_service_env True) (session_of ?s) = Some ReadOnlySourceRestriction"
    by (simp_all add: is_unlocked_def session_of_def session_restriction_def write_restriction_def ref_service_desktop_def
        ref_service_world_def ref_service_session_def ref_service_env_def)
  have "fst (perform_write (ref_service_env True) Save ?s) \<noteq> Inl InvalidRequest"
    using restricted by (simp add: perform_write_def forget_def service_save_def require_writable_def open_session_def at_desktop_def
        require_session_def op_defs is_unlocked_def write_restriction_error_def)
  with restricted_vault_refuses_writes [OF restricted, of Save] show ?thesis
    by (auto simp: write_restriction_error_def)
qed

subsection \<open>Synchronization does not ask\<close>

lemma temp_create_quiet:
  assumes "v_script w = []" and "map_of (v_files w) (parent @ pre @ hex_encode (v_random w (v_random_index w)) @ ''.tmp'') = None"
  shows "temp_create TEMP_CREATE_ATTEMPTS parent pre w =
    (let p = parent @ pre @ hex_encode (v_random w (v_random_index w)) @ ''.tmp'' in
     (Inr p, w\<lparr>v_random_index := Suc (v_random_index w), v_files := AList.update p (Regular []) (v_files w), v_armed := p # v_armed w\<rparr>))"
proof -
  have "temp_create (Suc n) parent pre w =
    (let p = parent @ pre @ hex_encode (v_random w (v_random_index w)) @ ''.tmp'' in
     (Inr p, w\<lparr>v_random_index := Suc (v_random_index w), v_files := AList.update p (Regular []) (v_files w), v_armed := p # v_armed w\<rparr>))" for n
    using assms by (simp add: random_temp_name_def op_defs sys_def Let_def)
  from this [of 127] show ?thesis by (simp only: TEMP_CREATE_ATTEMPTS_def) simp
qed

text \<open>
  The write restriction does not reach synchronization. In this example the vault file is marked
  read-only, so that every save is refused, and a replacement requested by synchronization installs
  the candidate over that file.
\<close>

theorem sync_replaces_read_only_vault:
  "\<exists>t. write_restriction True (\<lambda>_. True) (v_session (dk_world ref_desktop)) = Some ReadOnlySourceRestriction \<and>
     sync_replace (vault_ext_of ref_gateway_ext ref_api) (source_binding (vault_ext_of ref_gateway_ext ref_api) ''/v/a.kdbx'') ''s''
       (digest_as_str (CiphertextDigest_of (vault_ext_of ref_gateway_ext ref_api) [7])) [8] ref_cred ref_desktop = (Inr (), t) \<and>
     map_of (v_files (dk_world ref_desktop)) ''/v/a.kdbx'' = Some (Regular [7]) \<and>
     map_of (v_files (dk_world t)) ''/v/a.kdbx'' = Some (Regular [8])"
proof -
  let ?x = "vault_ext_of ref_gateway_ext ref_api"
  have capture: "capture_encrypted ?x ref_vault_world =
      (Inr \<lparr>ev_ciphertext = [7], ev_fingerprint = fingerprint ?x [7]\<rparr>, ref_vault_world)"
    by (simp add: capture_encrypted_def require_source_unchanged_def validate_current_target_def fingerprint_path_def read_file_def
        sys_def op_defs ref_vault_world_def ref_session_def is_dirty_def has_changes_since_def)
      (simp add: fingerprint_def vault_ext_of_def)
  have fp: "fingerprint ?x bs = fingerprint ref_gateway_ext bs" for bs by (simp add: fingerprint_def vault_ext_of_def)
  have parse: "open_reader_with_credential (vx_kdbx ?x) bs ref_cred =
      Inr \<lparr>kd_version = Kdbx4 1, kd_database = bs, kd_revision = 0, kd_revision_permanently_dirty = False\<rparr>" for bs
    by (simp add: vault_ext_of_def open_reader_with_credential_def ref_api_def ref_cred_def)
  have same: "database_semantically_eq (vx_kdbx ?x) = (=)" by (simp add: vault_ext_of_def ref_api_def)
  have replace: "\<exists>u. replace_encrypted_if_unchanged ?x (fingerprint ?x [7]) [8] ref_cred ref_vault_world = (Inr (), u) \<and>
      v_script u = [] \<and> map_of (v_files u) ''/v/a.kdbx'' = Some (Regular [8])"
    by (simp add: replace_encrypted_if_unchanged_def with_temp_def op_defs is_dirty_def has_changes_since_def ref_vault_world_def ref_session_def
        validate_current_target_def require_source_unchanged_def fingerprint_path_def read_file_def sys_def fp temp_create_quiet Let_def
        parent_of_def hex_encode_def hex_byte_def hex_digit_def parse same
        replace_body_def write_temp_def open_document_with_credential_def verify_semantic_equivalence_def
        create_backup_temp_def reject_symlink_if_present_def backup_path_def fill_backup_def finish_replace_def replace_primary_def
        disarm_def sync_parent_def open_stable_document_with_credential_def commit_backup_def rename_file_def drop_temp_def)
  then obtain u where u: "replace_encrypted_if_unchanged ?x (fingerprint ?x [7]) [8] ref_cred ref_vault_world = (Inr (), u)"
    "v_script u = []" "map_of (v_files u) ''/v/a.kdbx'' = Some (Regular [8])" by blast
  have "\<exists>t. sync_replace ?x (source_binding ?x ''/v/a.kdbx'') ''s'' (digest_as_str (CiphertextDigest_of ?x [7])) [8] ref_cred ref_desktop =
      (Inr (), t) \<and> map_of (v_files (dk_world t)) ''/v/a.kdbx'' = Some (Regular [8])"
    using capture u
    by (simp add: sync_replace_def require_session_def on_session_def random_process_token_def op_defs ref_desktop_def sys_def)
      (simp add: ref_vault_world_def ref_session_def)
  then show ?thesis
    by (simp add: write_restriction_def ref_desktop_def ref_vault_world_def ref_session_def)
qed

end
