(* ===== verification/Credential_Rotation.thy ===== *)
theory Credential_Rotation
  imports Desktop_Properties Export_Properties
begin

section \<open>Changing the credential of a vault\<close>

text \<open>
  A change of the password or keyfile rewrites the vault under the new credential and then retains
  that credential for the next save. The theory follows the file through the rewrite, for runs in
  which system calls fail but no other process writes, and shows that file and retained credential
  part only when the user is told that the outcome is uncertain.
\<close>

subsection \<open>After the rename\<close>

text \<open>The vault file holds \<open>bs\<close>, and the session is still about it.\<close>

definition file_holds :: "string \<Rightarrow> bytes \<Rightarrow> 'd vault_world \<Rightarrow> bool" where
  "file_holds path bs t \<longleftrightarrow> no_writers (v_script t) \<and> vs_path (v_session t) = path \<and>
     map_of (v_files t) path = Some (Regular bs)"

lemma file_holds_sys [simp]: "preserves (file_holds path bs) (sys e)"
  unfolding preserves_def
proof (intro allI impI)
  fix t :: "'a vault_world" assume t: "file_holds path bs t"
  then have "no_writers (v_script t)" by (simp add: file_holds_def)
  from sys_keeps [OF this, of e] t show "file_holds path bs (snd (sys e t))" by (auto simp: file_holds_def)
qed

lemma sys_error: "wpE (sys e) (\<lambda>_ _. True) (\<lambda>e' _. e' = e) t"
  by (simp add: wpE_def sys_def split: list.split fs_event.split)

lemma wpE_file_sys:
  "file_holds path bs t \<Longrightarrow> wpE (sys e) (\<lambda>_. file_holds path bs) (\<lambda>e' u. file_holds path bs u \<and> e' = e) t"
  by (rule wpE_mono [OF wpE_conj [OF preservesD [OF file_holds_sys] sys_error]]) auto

lemma wpE_file_read:
  "file_holds path bs t \<Longrightarrow> wpE (read_file e path) (\<lambda>a u. file_holds path bs u \<and> a = bs) (\<lambda>e' u. file_holds path bs u \<and> e' = e) t"
  unfolding read_file_def wpE_bindE
  by (rule wpE_mono [OF wpE_file_sys]) (auto simp: wp_simps file_holds_def)

lemma wpE_file_validate:
  "file_holds path bs t \<Longrightarrow> wpE (validate_current_target path) (\<lambda>_. file_holds path bs) (\<lambda>e u. file_holds path bs u \<and> e = ReadSource) t"
  unfolding validate_current_target_def wpE_bindE
  by (rule wpE_mono [OF wpE_file_sys]) (auto simp: wp_simps file_holds_def)

lemma wpE_file_fingerprint:
  "file_holds path bs t \<Longrightarrow> wpE (fingerprint_path ext path) (\<lambda>a u. file_holds path bs u \<and> a = fingerprint ext bs)
     (\<lambda>e u. file_holds path bs u \<and> e = ReadSource) t"
  unfolding fingerprint_path_def wpE_bindE
  by (rule wpE_mono [OF wpE_file_read]) (auto simp: wp_simps)

text \<open>Opening succeeds with what the bytes hold, unless a system call fails.\<close>

lemma wpE_file_open:
  assumes "file_holds path bs t"
  shows "wpE (open_stable_document_with_credential ext path cred)
    (\<lambda>(doc, fp) u. file_holds path bs u \<and> fp = fingerprint ext bs \<and> open_reader_with_credential (vx_kdbx ext) bs cred = Inr doc)
    (\<lambda>e u. file_holds path bs u \<and>
      (e = ReadSource \<or> (\<exists>k. open_reader_with_credential (vx_kdbx ext) bs cred = Inl k \<and> e = Kdbx k))) t"
  unfolding open_stable_document_with_credential_def wpE_bindE
  by (rule wpE_mono [OF wpE_file_validate [OF assms]], rule wpE_mono [OF wpE_file_fingerprint], assumption,
      elim conjE, rule wpE_mono [OF wpE_file_read], assumption)
    (auto simp: wp_simps map_err_def intro!: wpE_mono [OF wpE_file_fingerprint] wpE_mono [OF wpE_file_validate] split: sum.splits)

definition uncertain :: "SessionError \<Rightarrow> bool" where
  "uncertain e \<longleftrightarrow> rotation_replacement_may_be_installed e \<and> map_save_error e = SaveUncertain"

lemma uncertain_simps [simp]:
  "uncertain FinalReadFailed" "uncertain SavedButBackupUpdateFailed" "uncertain SavedButBackupDurabilityUncertain"
  "uncertain DurabilityUncertain"
  by (simp_all add: uncertain_def rotation_replacement_may_be_installed_def map_save_error_def)

lemma wpE_file_commit_backup:
  assumes "file_holds path bs t" and "b \<noteq> path"
  shows "wpE (commit_backup b path) (\<lambda>_. file_holds path bs) (\<lambda>e u. file_holds path bs u \<and> uncertain e) t"
proof -
  have bak: "backup_path path \<noteq> path" by (simp add: backup_path_def)
  have rename: "wpE (rename_file SavedButBackupUpdateFailed b (backup_path path)) (\<lambda>_. file_holds path bs)
      (\<lambda>e u. file_holds path bs u \<and> uncertain e) u" if "file_holds path bs u" for u
    unfolding rename_file_def wpE_bindE
    by (rule wpE_mono [OF wpE_file_sys [OF that]])
      (use bak assms(2) in \<open>auto simp: wp_simps file_holds_def update_conv' delete_conv' restrict_map_def split: option.split\<close>)
  have reject: "wpE (reject_symlink_if_present SavedButBackupUpdateFailed q) (\<lambda>_. file_holds path bs)
      (\<lambda>e u. file_holds path bs u \<and> uncertain e) u" if "file_holds path bs u" for q u
    unfolding reject_symlink_if_present_def wpE_bindE
    by (rule wpE_mono [OF wpE_file_sys [OF that]]) (auto simp: wp_simps)
  have disarmed: "file_holds path bs (u\<lparr>v_armed := a\<rparr>) = file_holds path bs u" for u and a
    by (simp add: file_holds_def)
  show ?thesis
    unfolding commit_backup_def wpE_bindE disarm_def wpE_modifyE
    by (rule wpE_mono [OF reject [OF assms(1)]], rule wpE_mono [OF rename], assumption)
      (auto simp: disarmed intro!: wpE_mono [OF wpE_file_sys])
qed

subsection \<open>Before the rename\<close>

text \<open>The errors of the steps before the rename are none of those after which the service reconciles.\<close>

definition early :: "SessionError \<Rightarrow> bool" where
  "early e \<longleftrightarrow> \<not> rotation_replacement_may_be_installed e"

definition raises_early :: "('d, 'a) vault_op \<Rightarrow> bool" where
  "raises_early m \<longleftrightarrow> (\<forall>t. wpE m (\<lambda>_ _. True) (\<lambda>e _. early e) t)"

lemma raises_early_simple [simp]:
  "raises_early (returnE a)" "raises_early (getsE f)" "raises_early (modifyE g)" "raises_early (tryE m)" "raises_early (disarm p)"
  "raises_early (throwE e) = early e" "early e \<Longrightarrow> raises_early (sys e)"
  "raises_early (liftE r) = (\<forall>e. r = Inl e \<longrightarrow> early e)"
  by (auto simp: raises_early_def disarm_def wp_simps intro: wpE_trivial_intro wpE_mono [OF sys_error] split: sum.split)

lemma raises_early_bindE: "raises_early m \<Longrightarrow> (\<And>a. raises_early (f a)) \<Longrightarrow> raises_early (bindE m f)"
  unfolding raises_early_def wpE_bindE by (metis (mono_tags, lifting) wpE_mono)

lemma raises_early_map_errE: "(\<And>e. early (g e)) \<Longrightarrow> raises_early (map_errE g m)"
  by (simp add: raises_early_def wpE_def map_errE_def split: prod.splits sum.splits)

lemma early_simps [simp]:
  "early ReadSource" "early UnsupportedPath" "early ExternalModificationDetected" "early CredentialMismatch" "early (Kdbx k)"
  "early (CredentialVerificationFailed k)" "early TempCreateFailed" "early TempRandomFailed" "early WriteTemp" "early SyncTemp"
  "early (TempVerificationFailed k)" "early BackupTempFailed" "early BackupFailed" "early BackupVerificationFailed" "early AtomicReplaceFailed"
  by (simp_all add: early_def rotation_replacement_may_be_installed_def)

lemma raises_early_files [simp]:
  "early e \<Longrightarrow> raises_early (read_file e p)" "early e \<Longrightarrow> raises_early (write_temp e p bs)"
  "early e \<Longrightarrow> raises_early (reject_symlink_if_present e p)" "raises_early (validate_current_target p)"
  "raises_early (replace_primary p q)" "raises_early (random_temp_name pre)"
proof -
  show "raises_early (random_temp_name pre)"
    unfolding random_temp_name_def by (rule raises_early_bindE, simp) (simp add: raises_early_def wpE_def)
qed (auto simp: read_file_def write_temp_def reject_symlink_if_present_def validate_current_target_def replace_primary_def
    intro!: raises_early_bindE split: option.split node.split)

lemma raises_early_checks [simp]:
  "raises_early (fingerprint_path ext p)" "raises_early (require_source_unchanged ext)" "raises_early (verify_save_credential ext cred)"
  "raises_early (fill_backup ext b)" "raises_early (map_errE TempVerificationFailed m)"
  unfolding fingerprint_path_def require_source_unchanged_def verify_save_credential_def fill_backup_def
  by (auto intro!: raises_early_bindE raises_early_map_errE split: sum.split)

lemma raises_early_identity [simp]:
  "early e \<Longrightarrow> raises_early (bindE (tryE (sys e)) (\<lambda>identity. case identity of
     Inr _ \<Rightarrow> returnE p | Inl e' \<Rightarrow> bindE (disarm p) (\<lambda>_. throwE e')))"
  by (auto simp: raises_early_def wpE_bindE [of "tryE _"] wpE_tryE disarm_def wp_simps intro!: wpE_mono [OF sys_error])

lemma raises_early_temp_create [simp]: "raises_early (temp_create n parent pre)"
  by (induction n) (auto simp: Let_def intro!: raises_early_bindE [of "random_temp_name _"] raises_early_bindE [of "sys _"]
      raises_early_bindE [of "getsE _"] raises_early_bindE [of "modifyE _"])

lemma raises_early_mapped: "raises_early m \<Longrightarrow> (\<And>e. early e \<Longrightarrow> early (g e)) \<Longrightarrow> raises_early (map_errE g m)"
  by (fastforce simp: raises_early_def wpE_def map_errE_def split: prod.splits sum.splits)

lemma raises_early_backup [simp]: "raises_early (create_backup_temp p)"
  unfolding create_backup_temp_def by (auto intro!: raises_early_bindE raises_early_mapped)

lemma wpE_early: "raises_early m \<Longrightarrow> wpE m Q R t \<Longrightarrow> wpE m Q (\<lambda>e x. R e x \<and> early e) t"
  by (rule wpE_mono [OF wpE_conj [where Q' = "\<lambda>_ _. True" and R' = "\<lambda>e _. early e"]]) (auto simp: raises_early_def)

subsection \<open>The replacement\<close>

lemma keeps_checks [simp]:
  "preserves (keeps_files w) (validate_current_target p)" "preserves (keeps_files w) (fingerprint_path ext p)"
  "preserves (keeps_files w) (reject_symlink_if_present e p)" "preserves (keeps_files w) (verify_save_credential ext cred)"
  "preserves (keeps_files w) (require_source_unchanged ext)"
proof -
  show *: "preserves (keeps_files w) (validate_current_target p)" "preserves (keeps_files w) (fingerprint_path ext p)" for p
    unfolding validate_current_target_def fingerprint_path_def
    by (auto intro!: preserves_intros split: option.split node.split)
  show "preserves (keeps_files w) (require_source_unchanged ext)"
    unfolding require_source_unchanged_def by (auto intro!: preserves_intros *)
qed (auto simp: reject_symlink_if_present_def verify_save_credential_def intro!: preserves_intros split: sum.split)

lemma keeps_fill_backup [simp]: "map_of (v_files w) b = None \<Longrightarrow> preserves (keeps_files w) (fill_backup ext b)"
  unfolding fill_backup_def by (auto intro!: preserves_intros)

lemma keeps_create_backup_temp:
  assumes "keeps_files w t"
  shows "wpE (create_backup_temp p) (\<lambda>b u. keeps_files w u \<and> map_of (v_files w) b = None) (\<lambda>e u. keeps_files w u \<and> early e) t"
  by (rule wpE_early [OF raises_early_backup])
    (unfold create_backup_temp_def wpE_bindE wpE_map_errE,
     rule wpE_mono [OF preservesD [OF keeps_checks(3) assms]], auto intro: keeps_temp_create)

lemma keeps_trans: "keeps_files w u \<Longrightarrow> keeps_files u t \<Longrightarrow> keeps_files w t"
  by (simp add: keeps_files_def)

lemma wpE_file_installed:
  assumes "file_holds path bs t" and "vs_path s = path" and "b \<noteq> path" and "verified_bytes ext cred doc bs"
  shows "wpE (bindE sync_parent (\<lambda>durability.
     bindE (map_errE map_final_open_error
        (open_stable_document_with_credential ext path cred)) (\<lambda>(final_document, final_fingerprint).
     bindE (modifyE (\<lambda>w. w\<lparr>v_checks := v_checks w @ [(final_document, final_fingerprint)]\<rparr>)) (\<lambda>_.
     bindE (liftE (map_err FinalVerificationFailed (verify_semantic_equivalence (vx_kdbx ext) doc final_document))) (\<lambda>_.
     bindE (modifyE (\<lambda>w. w\<lparr>v_session := s\<lparr>vs_source_fingerprint := final_fingerprint,
         vs_saved_revision := kd_revision (vs_document s)\<rparr>\<rparr>)) (\<lambda>_.
     bindE (commit_backup b path) (\<lambda>_.
     liftE durability)))))))
   (\<lambda>_. file_holds path bs) (\<lambda>e u. file_holds path bs u \<and> uncertain e) t"
proof -
  obtain reopened where opened: "open_reader_with_credential (vx_kdbx ext) bs cred = Inr reopened"
    "verify_semantic_equivalence (vx_kdbx ext) doc reopened = Inr ()"
    using assms(4) by (auto simp: verified_bytes_def)
  have checked: "file_holds path bs (u\<lparr>v_checks := c\<rparr>) = file_holds path bs u" for u :: "'a vault_world" and c
    by (simp add: file_holds_def)
  have session: "file_holds path bs (u\<lparr>v_checks := c, v_session := s\<lparr>vs_source_fingerprint := f, vs_saved_revision := n\<rparr>\<rparr>)"
    if "file_holds path bs u" for u f n c
    using that assms(2) by (simp add: file_holds_def)
  have parent: "wpE sync_parent (\<lambda>durability u. file_holds path bs u \<and> (\<forall>e. durability = Inl e \<longrightarrow> e = DurabilityUncertain))
      (\<lambda>_ _. False) t"
    unfolding sync_parent_def wpE_tryE wpE_bindE
    by (rule wpE_mono [OF wpE_file_sys [OF assms(1)]]) (auto intro!: wpE_mono [OF wpE_file_sys])
  have final: "wpE (bindE (map_errE map_final_open_error (open_stable_document_with_credential ext path cred)) (\<lambda>(final_document, final_fingerprint).
     bindE (modifyE (\<lambda>w. w\<lparr>v_checks := v_checks w @ [(final_document, final_fingerprint)]\<rparr>)) (\<lambda>_.
     bindE (liftE (map_err FinalVerificationFailed (verify_semantic_equivalence (vx_kdbx ext) doc final_document))) (\<lambda>_.
     bindE (modifyE (\<lambda>w. w\<lparr>v_session := s\<lparr>vs_source_fingerprint := final_fingerprint,
         vs_saved_revision := kd_revision (vs_document s)\<rparr>\<rparr>)) (\<lambda>_.
     bindE (commit_backup b path) (\<lambda>_.
     liftE durability))))))
     (\<lambda>_. file_holds path bs) (\<lambda>e u. file_holds path bs u \<and> uncertain e) u"
    if "file_holds path bs u" "\<forall>e. durability = Inl e \<longrightarrow> e = DurabilityUncertain" for u and durability :: "SessionError + unit"
    unfolding wpE_bindE [of "map_errE _ _"] wpE_map_errE
    by (rule wpE_mono [OF wpE_file_open [OF that(1)]])
      (use that(2) in \<open>auto simp: opened checked wpE_bindE [of "liftE _"] wpE_bindE [of "modifyE _"] wpE_bindE [of "commit_backup _ _"]
        wpE_liftE wpE_modifyE map_final_open_error_def intro!: wpE_mono [OF wpE_file_commit_backup [OF session assms(3)]] split: sum.splits\<close>)
  show ?thesis
    unfolding wpE_bindE [of sync_parent]
    by (rule wpE_mono [OF parent]) (auto intro: final)
qed

lemma wpE_finish_rotation:
  assumes "keeps_files u t" and "map_of (v_files u) p = Some (Regular bs)" and "path = vs_path (v_session u)"
    and "verified_bytes ext cred (vs_document (v_session u)) bs" and "p \<noteq> path" and "b \<noteq> path"
  shows "wpE (finish_replace ext cred p b (vs_document (v_session u)) None) (\<lambda>_. file_holds path bs)
    (\<lambda>e t. keeps_files u t \<and> early e \<or> file_holds path bs t \<and> uncertain e) t"
proof -
  have disarmed: "file_holds q bs (x\<lparr>v_armed := a\<rparr>) = file_holds q bs x" for q a and x :: "'a vault_world"
    by (simp add: file_holds_def)
  have replace: "wpE (replace_primary p path) (\<lambda>_. file_holds path bs) (\<lambda>e y. keeps_files u y \<and> early e) x" if "keeps_files u x" for x
    by (rule wpE_early [OF raises_early_files(5)], unfold replace_primary_def wpE_bindE,
        rule wpE_mono [OF preservesD [OF keeps_sys that]])
      (use assms(2,3,5) in \<open>auto simp: wp_simps file_holds_def keeps_files_def update_conv' split: option.split\<close>)
  have session: "v_session x = v_session u" if "keeps_files u x" for x using that by (simp add: keeps_files_def)
  show ?thesis
    unfolding finish_replace_def wpE_bindE [of "require_source_unchanged _"] wpE_bindE [of "getsE _"]
      wpE_bindE [of "replace_primary _ _"] wpE_getsE
    by (rule wpE_mono [OF wpE_early [OF raises_early_checks(2) preservesD [OF keeps_checks(5) assms(1)]]],
        simp only: session assms(3) [symmetric], rule wpE_mono [OF replace], assumption)
      (use assms in \<open>auto simp: disarm_def wpE_bindE [of "modifyE (\<lambda>w. w\<lparr>v_armed := removeAll p (v_armed w)\<rparr>)"] wpE_modifyE disarmed
        intro!: wpE_mono [OF wpE_file_installed [where s = "v_session u" and doc = "vs_document (v_session u)"]]\<close>)
qed

subsection \<open>The whole rotation\<close>

lemma file_holds_drop_temp: "q \<noteq> path \<Longrightarrow> file_holds path bs t \<Longrightarrow> file_holds path bs (drop_temp q t)"
  using preservesD [OF file_holds_sys, of path bs t TempCreateFailed]
  by (auto simp: drop_temp_def wpE_def file_holds_def delete_conv' restrict_map_def split: prod.splits sum.splits)

text \<open>A guarded body that only leaves one of two kinds of states.\<close>

lemma wpE_with_temp_either:
  assumes "wpE create (\<lambda>q u. keeps_files w u \<and> map_of (v_files w) q = None) (\<lambda>e u. keeps_files w u \<and> early e) t"
    and "map_of (v_files w) path \<noteq> None"
    and "\<And>q u. keeps_files w u \<Longrightarrow> map_of (v_files w) q = None \<Longrightarrow>
      wpE (body q) (\<lambda>_ x. \<exists>bs. file_holds path bs x \<and> P bs)
        (\<lambda>e x. keeps_files w x \<and> early e \<or> (\<exists>bs. file_holds path bs x \<and> P bs) \<and> uncertain e) u"
  shows "wpE (with_temp create body) (\<lambda>_ x. \<exists>bs. file_holds path bs x \<and> P bs)
    (\<lambda>e x. keeps_files w x \<and> early e \<or> (\<exists>bs. file_holds path bs x \<and> P bs) \<and> uncertain e) t"
proof -
  have drop: "wpE (\<lambda>u. case body q u of (r, x) \<Rightarrow> (r, drop_temp q x)) (\<lambda>_ x. \<exists>bs. file_holds path bs x \<and> P bs)
      (\<lambda>e x. keeps_files w x \<and> early e \<or> (\<exists>bs. file_holds path bs x \<and> P bs) \<and> uncertain e) u"
    if "keeps_files w u" "map_of (v_files w) q = None" for q u
  proof -
    have "q \<noteq> path" using that(2) assms(2) by auto
    with assms(3) [OF that] show ?thesis
      by (auto simp: wpE_def intro: keeps_drop_temp [OF that(2)] dest: file_holds_drop_temp split: prod.splits sum.splits)
  qed
  show ?thesis
    unfolding with_temp_def wpE_bindE
    by (rule wpE_mono [OF assms(1)]) (auto intro: drop)
qed

lemma wpE_open_kept:
  assumes "keeps_files u t" and "map_of (v_files u) p = Some (Regular bs)"
  shows "wpE (open_document_with_credential ext p cred)
    (\<lambda>d x. keeps_files u x \<and> open_reader_with_credential (vx_kdbx ext) bs cred = Inr d) (\<lambda>_. keeps_files u) t"
  unfolding open_document_with_credential_def read_file_def wpE_bindE wpE_map_errE
  by (rule wpE_mono [OF preservesD [OF keeps_sys assms(1)]])
    (use assms(2) in \<open>auto simp: wp_simps keeps_files_def split: sum.split\<close>)

lemma wpE_keeps_bind:
  assumes "preserves (keeps_files u) m" and "raises_early m" and "keeps_files u t"
    and "\<And>e x. keeps_files u x \<Longrightarrow> early e \<Longrightarrow> R e x" and "\<And>a x. keeps_files u x \<Longrightarrow> wpE (f a) Q R x"
  shows "wpE (bindE m f) Q R t"
  unfolding wpE_bindE
  by (rule wpE_mono [OF wpE_early [OF assms(2) preservesD [OF assms(1,3)]]]) (auto intro: assms(4,5))

text \<open>From the written temporary file \<open>p\<close> to the end, where \<open>u\<close> is the world with that file.\<close>

lemma wpE_verified_rotation:
  assumes "keeps_files u t" and "map_of (v_files u) p = Some (Regular bs)" and "map_of (v_files u) (vs_path (v_session u)) \<noteq> None"
    and "p \<noteq> vs_path (v_session u)"
  shows "wpE (bindE (map_errE TempVerificationFailed (open_document_with_credential ext p cred)) (\<lambda>reopened.
     bindE (liftE (map_err TempVerificationFailed
        (verify_semantic_equivalence (vx_kdbx ext) (vs_document (v_session u)) reopened))) (\<lambda>_.
     bindE (require_source_unchanged ext) (\<lambda>_.
     bindE (sys WriteTemp) (\<lambda>_.
     bindE (sys SyncTemp) (\<lambda>_.
     with_temp (create_backup_temp (vs_path (v_session u))) (\<lambda>b.
     bindE (fill_backup ext b) (\<lambda>_.
     bindE (finish_replace ext cred p b (vs_document (v_session u)) None) (\<lambda>_.
     returnE Saved)))))))))
    (\<lambda>_ x. \<exists>bs. file_holds (vs_path (v_session u)) bs x \<and> verified_bytes ext cred (vs_document (v_session u)) bs)
    (\<lambda>e x. keeps_files u x \<and> early e \<or>
      (\<exists>bs. file_holds (vs_path (v_session u)) bs x \<and> verified_bytes ext cred (vs_document (v_session u)) bs) \<and> uncertain e) t"
proof -
  let ?path = "vs_path (v_session u)" and ?doc = "vs_document (v_session u)"
  let ?P = "verified_bytes ext cred (vs_document (v_session u))"
  let ?Q = "\<lambda>x. \<exists>bs. file_holds (vs_path (v_session u)) bs x \<and> verified_bytes ext cred (vs_document (v_session u)) bs"
  let ?R = "\<lambda>e x. keeps_files u x \<and> early e \<or> ?Q x \<and> uncertain e"
  have guarded: "wpE (bindE (fill_backup ext b) (\<lambda>_. bindE (finish_replace ext cred p b ?doc None) (\<lambda>_. returnE Saved)))
      (\<lambda>_. ?Q) ?R x" if "?P bs" "keeps_files u x" "map_of (v_files u) b = None" for b x
  proof (rule wpE_keeps_bind [OF keeps_fill_backup [OF that(3)] raises_early_checks(4) that(2)])
    fix y assume y: "keeps_files u y"
    have "b \<noteq> ?path" using that(3) assms(3) by auto
    from wpE_finish_rotation [OF y assms(2) refl that(1) assms(4) this]
    show "wpE (bindE (finish_replace ext cred p b ?doc None) (\<lambda>_. returnE Saved)) (\<lambda>_. ?Q) ?R y"
      unfolding wpE_bindE wpE_returnE by (rule wpE_mono) (use that(1) in auto)
  qed simp
  have tail: "wpE (bindE (require_source_unchanged ext) (\<lambda>_. bindE (sys WriteTemp) (\<lambda>_. bindE (sys SyncTemp) (\<lambda>_.
      with_temp (create_backup_temp ?path) (\<lambda>b. bindE (fill_backup ext b) (\<lambda>_.
      bindE (finish_replace ext cred p b ?doc None) (\<lambda>_. returnE Saved))))))) (\<lambda>_. ?Q) ?R x"
    if "?P bs" "keeps_files u x" for x
    by (rule wpE_keeps_bind [OF keeps_checks(5) raises_early_checks(2) that(2)], simp, rule wpE_keeps_bind [OF keeps_sys], simp,
        assumption, simp, rule wpE_keeps_bind [OF keeps_sys], simp, assumption, simp, rule wpE_with_temp_either [OF keeps_create_backup_temp], assumption)
      (use assms(3) guarded [OF that(1)] in auto)
  have verified: "open_reader_with_credential (vx_kdbx ext) bs cred = Inr d \<Longrightarrow>
      verify_semantic_equivalence (vx_kdbx ext) ?doc d = Inr () \<Longrightarrow> ?P bs" for d
    by (auto simp: verified_bytes_def)
  show ?thesis
    unfolding wpE_bindE [of "map_errE _ _"] wpE_map_errE
    by (rule wpE_mono [OF wpE_open_kept [OF assms(1,2)]])
      (auto simp: wpE_bindE [of "liftE _"] wpE_liftE map_err_def intro!: tail verified split: sum.splits)
qed

lemma keeps_write_temp:
  assumes "keeps_files w t" and "map_of (v_files w) p = None"
  shows "wpE (write_temp e p bs) (\<lambda>_ u. keeps_files w u \<and> map_of (v_files u) p = Some (Regular bs)) (\<lambda>_. keeps_files w) t"
proof -
  have "wpE (write_temp e p bs) (\<lambda>_ u. map_of (v_files u) p = Some (Regular bs)) (\<lambda>_ _. True) t"
    unfolding write_temp_def wpE_bindE
    by (rule wpE_mono [OF wpE_trivial_intro]) (simp_all add: wp_simps update_conv')
  from wpE_conj [OF preservesD [OF keeps_write [OF assms(2)] assms(1)] this] show ?thesis by (rule wpE_mono) auto
qed

lemma keeps_refl: "no_writers (v_script w) \<Longrightarrow> keeps_files w w"
  by (simp add: keeps_files_def)

lemma wpE_persist_body:
  assumes "keeps_files w t" and "map_of (v_files w) p = None" and "map_of (v_files w) (vs_path (v_session w)) \<noteq> None"
  shows "wpE (persist_body ext cred p)
    (\<lambda>_ x. \<exists>bs. file_holds (vs_path (v_session w)) bs x \<and> verified_bytes ext cred (vs_document (v_session w)) bs)
    (\<lambda>e x. keeps_files w x \<and> early e \<or>
      (\<exists>bs. file_holds (vs_path (v_session w)) bs x \<and> verified_bytes ext cred (vs_document (v_session w)) bs) \<and> uncertain e) t"
proof -
  let ?Q = "\<lambda>x. \<exists>bs. file_holds (vs_path (v_session w)) bs x \<and> verified_bytes ext cred (vs_document (v_session w)) bs"
  let ?R = "\<lambda>e x. keeps_files w x \<and> early e \<or> ?Q x \<and> uncertain e"
  let ?rest = "bindE (map_errE TempVerificationFailed (open_document_with_credential ext p cred)) (\<lambda>reopened.
     bindE (liftE (map_err TempVerificationFailed
        (verify_semantic_equivalence (vx_kdbx ext) (vs_document (v_session w)) reopened))) (\<lambda>_.
     bindE (require_source_unchanged ext) (\<lambda>_.
     bindE (sys WriteTemp) (\<lambda>_.
     bindE (sys SyncTemp) (\<lambda>_.
     with_temp (create_backup_temp (vs_path (v_session w))) (\<lambda>b.
     bindE (fill_backup ext b) (\<lambda>_.
     bindE (finish_replace ext cred p b (vs_document (v_session w)) None) (\<lambda>_.
     returnE Saved))))))))"
  have session: "v_session t = v_session w" using assms(1) by (simp add: keeps_files_def)
  have writing: "map_err Kdbx r = Inl e \<Longrightarrow> early e" for e and r :: "KdbxError + bytes" by (cases r) auto
  have verified: "wpE (bindE (sys WriteTemp) (\<lambda>_. bindE (sys SyncTemp) (\<lambda>_. ?rest))) (\<lambda>_. ?Q) ?R u"
    if u: "keeps_files w u" "map_of (v_files u) p = Some (Regular bs)" for u bs
  proof -
    have same: "v_session u = v_session w" using u(1) by (simp add: keeps_files_def)
    have dom: "map_of (v_files u) (vs_path (v_session u)) \<noteq> None" "p \<noteq> vs_path (v_session u)"
      using u(1) assms(2,3) same by (auto simp: keeps_files_def)
    have rest: "wpE ?rest (\<lambda>_. ?Q) ?R x" if "keeps_files u x" for x
      using wpE_verified_rotation [OF that u(2) dom, of ext cred] unfolding same
      by (rule wpE_mono) (auto intro: keeps_trans [OF u(1)])
    have weaken: "?R e x" if "keeps_files u x" "early e" for e x using keeps_trans [OF u(1) that(1)] that(2) by simp
    have "keeps_files u u" by (rule keeps_refl) (use u(1) in \<open>simp add: keeps_files_def\<close>)
    then show ?thesis
      by (intro wpE_keeps_bind [where R = ?R, OF keeps_sys _ _ weaken] rest) simp_all
  qed
  show ?thesis
    unfolding persist_body_def wpE_bindE [of "getsE _"] wpE_getsE wpE_bindE [of "modifyE _"] wpE_modifyE
      wpE_bindE [of "liftE _"] wpE_liftE wpE_bindE [of "write_temp _ _ _"] session
    by (auto simp: keeps_seed [OF assms(1)] dest: writing
        intro!: wpE_mono [OF wpE_early [OF raises_early_files(2) keeps_write_temp [OF keeps_seed [OF assms(1)] assms(2)]]] verified
        split: sum.splits)
qed

text \<open>The rotation keeps every file and the session, or ends with the vault rewritten under the new credential.\<close>

lemma wpE_rotate_credential:
  assumes "no_writers (v_script w)" and "map_of (v_files w) (vs_path (v_session w)) \<noteq> None"
  shows "wpE (rotate_credential ext current new)
    (\<lambda>_ x. \<exists>bs. file_holds (vs_path (v_session w)) bs x \<and> verified_bytes ext new (vs_document (v_session w)) bs)
    (\<lambda>e x. keeps_files w x \<and> early e \<or>
      (\<exists>bs. file_holds (vs_path (v_session w)) bs x \<and> verified_bytes ext new (vs_document (v_session w)) bs) \<and> uncertain e) w"
proof -
  note start = keeps_refl [OF assms(1)]
  show ?thesis
    unfolding rotate_credential_def persist_with_credentials_def wpE_bindE [of "getsE _"] wpE_getsE simp_thms if_False
    by (rule wpE_keeps_bind [OF keeps_checks(1) raises_early_files(4) start], simp,
        rule wpE_keeps_bind [OF keeps_checks(5) raises_early_checks(2)], assumption, simp,
        rule wpE_keeps_bind [OF keeps_checks(4) raises_early_checks(3)], assumption, simp,
        rule wpE_with_temp_either [OF wpE_early [OF raises_early_temp_create keeps_temp_create]], assumption)
      (use assms(2) in \<open>auto intro: wpE_persist_body\<close>)
qed

subsection \<open>The service\<close>

definition world_of :: "'d service \<Rightarrow> 'd vault_world" where
  "world_of s = dk_world (sv_desktop s)"

definition retains :: "'d service \<Rightarrow> KdbxCredential option" where
  "retains s = dk_save_credential (sv_desktop s)"

lemma file_holds_open [simp]: "preserves (file_holds path bs) (open_with_credential ext q cred)"
proof -
  have read: "preserves (file_holds path bs) (read_file e p)" "preserves (file_holds path bs) (validate_current_target p)" for e p
    unfolding read_file_def validate_current_target_def
    by (auto intro!: preserves_intros split: option.split node.split)
  then have "preserves (file_holds path bs) (open_stable_document_with_credential ext p cred)" for p
    unfolding open_stable_document_with_credential_def fingerprint_path_def
    by (auto intro!: preserves_intros)
  with read show ?thesis
    unfolding open_with_credential_def canonical_regular_file_def
    by (auto intro!: preserves_intros split: prod.split)
qed

definition rotating :: "string \<Rightarrow> bytes \<Rightarrow> KdbxCredential \<Rightarrow> 'd service \<Rightarrow> bool" where
  "rotating path bs c t \<longleftrightarrow> file_holds path bs (world_of t) \<and> is_unlocked t \<and> retains t = Some c"

lemma rotating_opens:
  "preserves (file_holds path bs) m \<Longrightarrow> preserves (rotating path bs c) (tryE (at_desktop (on_session m)))"
  by (auto simp: preserves_def rotating_def tryE_def at_desktop_def on_session_def world_of_def is_unlocked_def retains_def split: prod.splits)

lemma wpE_try_True: "wpE (tryE m) Q R s \<longleftrightarrow> wpE (tryE m) Q (\<lambda>_ _. False) s"
  by (simp add: wpE_tryE)

lemma wpE_rotating_retained: "rotating path bs c t \<Longrightarrow> wpE (f c) Q R t \<Longrightarrow> wpE (bindE retained_credential f) Q R t"
  by (simp add: retained_credential_def rotating_def retains_def wp_simps)

lemma wpE_rotating_reconcile:
  assumes "rotating path bs c t"
  shows "wpE (reconcile_authority ev replace)
    (\<lambda>_ x. map_of (v_files (world_of x)) path = Some (Regular bs) \<and> (retains x = Some c \<or> retains x = Some (replace c))) (\<lambda>_ _. False) t"
proof -
  let ?Q = "\<lambda>_ x. map_of (v_files (world_of x)) path = Some (Regular bs) \<and> (retains x = Some c \<or> retains x = Some (replace c))"
  have attempt: "wpE (bindE (tryE (at_desktop (on_session (open_with_credential ext q cred)))) f) ?Q (\<lambda>_ _. False) x"
    if "rotating path bs c x" "\<And>a x. rotating path bs c x \<Longrightarrow> wpE (f a) ?Q (\<lambda>_ _. False) x"
    for x ext q cred and f :: "_ \<Rightarrow> ('a, unit) service_op"
  proof -
    have "wpE (tryE (at_desktop (on_session (open_with_credential ext q cred)))) (\<lambda>_. rotating path bs c) (\<lambda>_ _. False) x"
      using preservesD [OF rotating_opens [OF file_holds_open] that(1)] by (subst (asm) wpE_try_True)
    then show ?thesis unfolding wpE_bindE by (rule wpE_mono) (erule that(2), simp)
  qed
  have settled: "?Q a x" if "rotating path bs c x" for a x
    using that by (simp add: rotating_def file_holds_def)
  have adopt: "wpE (bindE (at_desktop (modifyE (\<lambda>d. d\<lparr>dk_world := (dk_world d)\<lparr>v_session := candidate\<rparr>\<rparr>))) (\<lambda>_.
      retain (replace c))) ?Q (\<lambda>_ _. False) x" if "rotating path bs c x" for candidate x
    using that by (simp add: retain_def retained_credential_def wp_simps wpE_at_desktop rotating_def world_of_def retains_def file_holds_def)
  have open_one: "wpE (bindE open_session f) ?Q (\<lambda>_ _. False) t" if "wpE (f (session_of t)) ?Q (\<lambda>_ _. False) t" for f
    using that assms by (simp add: wpE_bindE wpE_open_session rotating_def)
  show ?thesis
    unfolding reconcile_authority_def
    by (rule open_one, rule wpE_rotating_retained [OF assms], rule attempt [OF assms])
      (auto simp: wpE_returnE intro!: attempt adopt dest: settled split: sum.split)
qed

text \<open>In \<open>t\<close> the vault file of \<open>s\<close> holds its document, verified to open with the credential.\<close>

definition rewritten :: "'d vault_ext \<Rightarrow> KdbxCredential \<Rightarrow> 'd service \<Rightarrow> 'd service \<Rightarrow> bool" where
  "rewritten ext cred s t \<longleftrightarrow> (\<exists>bs. map_of (v_files (world_of t)) (vs_path (session_of s)) = Some (Regular bs) \<and>
     verified_bytes ext cred (vs_document (session_of s)) bs)"

lemma wpE_rotation_service:
  fixes g :: "('d, 'x) service_op"
  assumes "is_unlocked s" and "retains s = Some c" and "no_writers (v_script (world_of s))"
    and "map_of (v_files (world_of s)) (vs_path (session_of s)) \<noteq> None"
    and "\<And>t. is_unlocked t \<Longrightarrow> \<exists>x. g t = (Inr x, t)"
  shows "wpE (bindE (rotate_or_reconcile ev c (replace c) (reconcile_authority ev replace)) (\<lambda>_. bindE (retain (replace c)) (\<lambda>_. g)))
    (\<lambda>_ t. rewritten (sv_vault ev) (replace c) s t \<and> retains t = Some (replace c))
    (\<lambda>e t. keeps_files (world_of s) (world_of t) \<and> retains t = Some c \<or>
      rewritten (sv_vault ev) (replace c) s t \<and> e = SaveUncertain \<and> (retains t = Some c \<or> retains t = Some (replace c))) s"
proof -
  let ?path = "vs_path (session_of s)" and ?doc = "vs_document (session_of s)"
  let ?Q = "\<lambda>_ t. rewritten (sv_vault ev) (replace c) s t \<and> retains t = Some (replace c)"
  let ?R = "\<lambda>e t. keeps_files (world_of s) (world_of t) \<and> retains t = Some c \<or>
      rewritten (sv_vault ev) (replace c) s t \<and> e = SaveUncertain \<and> (retains t = Some c \<or> retains t = Some (replace c))"
  let ?next = "\<lambda>_ :: unit. bindE (retain (replace c)) (\<lambda>_. g)"
  have world: "v_session (world_of s) = session_of s" by (simp add: world_of_def session_of_def)
  let ?at = "\<lambda>w. s\<lparr>sv_desktop := (sv_desktop s)\<lparr>dk_world := w\<rparr>\<rparr>"
  have fields: "world_of (?at w) = w" "is_unlocked (?at w) = is_unlocked s" "retains (?at w) = retains s" for w
    by (simp_all add: world_of_def is_unlocked_def retains_def)
  have saved: "wpE (?next ()) ?Q ?R (?at w)"
    if "file_holds ?path bs w" "verified_bytes (sv_vault ev) (replace c) ?doc bs" for w bs
  proof -
    let ?t = "(?at w)\<lparr>sv_desktop := (sv_desktop (?at w))\<lparr>dk_save_credential := Some (replace c)\<rparr>\<rparr>"
    have "is_unlocked ?t" using assms(1) by (simp add: is_unlocked_def)
    then obtain x where "g ?t = (Inr x, ?t)" using assms(5) by blast
    then show ?thesis
      using assms(2) that
      by (simp add: retain_def retained_credential_def wp_simps wpE_at_desktop wpE_def [of g] retains_def rewritten_def world_of_def
          file_holds_def)
  qed
  have failed: "wpE (bindE (if rotation_replacement_may_be_installed e then reconcile_authority ev replace else returnE ())
      (\<lambda>_. throwE (map_save_error e))) (\<lambda>a. wpE (?next a) ?Q ?R) ?R (?at w)"
    if "keeps_files (world_of s) w \<and> early e \<or>
      (\<exists>bs. file_holds ?path bs w \<and> verified_bytes (sv_vault ev) (replace c) ?doc bs) \<and> uncertain e" for e w
    using that
  proof (elim disjE conjE exE)
    assume "keeps_files (world_of s) w" "early e"
    then show ?thesis using assms(2) by (simp add: early_def wp_simps fields)
  next
    fix bs assume bs: "uncertain e" "file_holds ?path bs w" "verified_bytes (sv_vault ev) (replace c) ?doc bs"
    then have "rotating ?path bs c (?at w)" using assms(1,2) by (simp add: rotating_def fields)
    from wpE_rotating_reconcile [OF this] have "wpE (reconcile_authority ev replace) (\<lambda>_. ?R SaveUncertain) (\<lambda>_ _. False) (?at w)"
      by (rule wpE_mono) (use bs(3) in \<open>auto simp: rewritten_def\<close>)
    then show ?thesis
      using bs(1) by (auto simp: wpE_bindE [of "reconcile_authority _ _"] uncertain_def wpE_throwE elim!: wpE_mono)
  qed
  let ?done = "\<lambda>w. \<exists>bs. file_holds ?path bs w \<and> verified_bytes (sv_vault ev) (replace c) ?doc bs"
  have rotated: "wpE (rotate_credential (sv_vault ev) c (replace c)) (\<lambda>_. ?done)
      (\<lambda>e w. keeps_files (world_of s) w \<and> early e \<or> ?done w \<and> uncertain e) (dk_world (sv_desktop s))"
    using wpE_rotate_credential [OF assms(3), unfolded world, OF assms(4), of "sv_vault ev" c "replace c"] by (simp add: world_of_def)
  show ?thesis
    unfolding rotate_or_reconcile_def wpE_bindE [of "bindE _ _"] wpE_bindE [of "tryE _"] wpE_tryE wpE_at_desktop wpE_on_session
  proof (rule wpE_mono [OF rotated])
    show "wpE (case Inr outcome of Inl e \<Rightarrow> bindE (if rotation_replacement_may_be_installed e then reconcile_authority ev replace
        else returnE ()) (\<lambda>_. throwE (map_save_error e)) | Inr _ \<Rightarrow> returnE ()) (\<lambda>a. wpE (?next a) ?Q ?R) ?R (?at w)"
      if "?done w" for outcome :: SaveOutcome and w
      using that by (auto simp: wpE_returnE intro: saved)
  qed (unfold sum.case, rule failed)
qed

lemma service_snapshot_total: "is_unlocked t \<Longrightarrow> \<exists>x. service_snapshot ev t = (Inr x, t)"
  using snapshot_Inr [of ev "session_of t"]
  by (auto simp: service_snapshot_def open_session_def require_session_def at_desktop_def is_unlocked_def op_defs)

lemma wpE_rotation_authority:
  assumes "is_unlocked s" and "retains s = Some c" and "\<And>e. R e s" and "wpE (f c) Q R s"
  shows "wpE (bindE (rotation_authority ev) f) Q R s"
  using assms
  by (auto simp: rotation_authority_def require_writable_def retained_credential_def wpE_bindE wpE_open_session wpE_throwE wpE_returnE
      wpE_getsE wpE_liftE retains_def split: option.split)

text \<open>What a request does to the retained credential.\<close>

definition replaces :: "'v write_request \<Rightarrow> (KdbxCredential \<Rightarrow> KdbxCredential) option" where
  "replaces request = (case request of
     ChangePassword p \<Rightarrow> Some (with_password (Some p))
   | RemovePassword \<Rightarrow> Some (with_password None)
   | ReplaceKeyfile k \<Rightarrow> Some (with_keyfile (Some k))
   | RemoveKeyfile \<Rightarrow> Some (with_keyfile None)
   | _ \<Rightarrow> None)"

lemma perform_rotation:
  assumes open_vault: "is_unlocked s" "retains s = Some c"
    and directory: "no_writers (v_script (world_of s))" "map_of (v_files (world_of s)) (vs_path (session_of s)) \<noteq> None"
    and "replaces request = Some replace"
  shows "wpE (perform_write ev request)
    (\<lambda>_ t. keeps_files (world_of s) (world_of t) \<and> retains t = Some c \<and> replace c = c \<or>
      rewritten (sv_vault ev) (replace c) s t \<and> retains t = Some (replace c))
    (\<lambda>e t. keeps_files (world_of s) (world_of t) \<and> retains t = Some c \<or>
      rewritten (sv_vault ev) (replace c) s t \<and> e = SaveUncertain \<and> (retains t = Some c \<or> retains t = Some (replace c))) s"
    (is "wpE _ ?Q ?R s")
proof -
  have same: "keeps_files (world_of s) (world_of s)" by (rule keeps_refl [OF directory(1)])
  have R: "?R e s" for e using same open_vault(2) by simp
  have unchanged: "?Q () s" if "replace = with_keyfile x" "cred_keyfile c = x" for x
    using that same open_vault(2) by (cases c) (auto simp: with_keyfile_def)
  note auth = wpE_rotation_authority [where R = ?R, OF open_vault R]
  have change: "change_master_password ev p = bindE (require_writable ev) (\<lambda>_. bindE open_session (\<lambda>session.
      if is_dirty session then throwE UnsavedChanges else if p = [] then throwE InvalidRequest
      else bindE retained_credential (\<lambda>current. bindE (rotate_or_reconcile ev current (with_password (Some p) current)
         (reconcile_authority ev (with_password (Some p)))) (\<lambda>_. bindE (retain (with_password (Some p) current)) (\<lambda>_. service_snapshot ev)))))" for p
    unfolding change_master_password_def reconcile_rotation_authority_def by (rule refl)
  have snap: "wpE (bindE (rotate_or_reconcile ev c (replace c) (reconcile_authority ev replace))
      (\<lambda>_. bindE (retain (replace c)) (\<lambda>_. service_snapshot ev))) (\<lambda>_. ?Q ()) ?R s"
    by (rule wpE_mono [OF wpE_rotation_service [OF open_vault directory service_snapshot_total]]) auto
  have plain: "wpE (bindE (rotate_or_reconcile ev c (replace c) (reconcile_authority ev replace))
      (\<lambda>_. retain (replace c))) ?Q ?R s"
    by (rule wpE_mono [OF wpE_rotation_service [OF open_vault directory, where g = "returnE ()", unfolded bindE_returnE]])
      (auto simp: returnE_def)
  show ?thesis
  proof (cases request)
    case (ChangePassword p)
    with assms(5) have r: "replace = with_password (Some p)" by (simp add: replaces_def)
    show ?thesis
      using snap R open_vault
      by (auto simp: ChangePassword perform_write_def forget_def change r require_writable_def retained_credential_def retains_def
          wpE_bindE wpE_open_session wpE_throwE wpE_returnE wpE_getsE wpE_liftE split: option.split)
  next
    case RemovePassword
    with assms(5) have r: "replace = with_password None" by (simp add: replaces_def)
    have "wpE (remove_master_password ev) (\<lambda>_. ?Q ()) ?R s"
      unfolding remove_master_password_def reconcile_rotation_authority_def
      by (rule auth) (use snap R r in \<open>auto simp: wpE_throwE wpE_bindE [of "liftE _"] wpE_liftE ok_or_def split: option.split\<close>)
    then show ?thesis by (simp add: RemovePassword perform_write_def forget_def wpE_bindE wpE_returnE)
  next
    case (ReplaceKeyfile k)
    with assms(5) have r: "replace = with_keyfile (Some k)" by (simp add: replaces_def)
    show ?thesis
      unfolding ReplaceKeyfile perform_write_def write_request.case replace_keyfile_def reconcile_keyfile_authority_def
    proof (rule auth)
      show "wpE (if cred_keyfile c = Some k then returnE ()
          else bindE (rotate_or_reconcile ev c (with_keyfile (Some k) c) (reconcile_authority ev (with_keyfile (Some k))))
            (\<lambda>_. retain (with_keyfile (Some k) c))) ?Q ?R s"
        using plain unchanged [of "Some k"] by (simp add: r wpE_returnE)
    qed
  next
    case RemoveKeyfile
    with assms(5) have r: "replace = with_keyfile None" by (simp add: replaces_def)
    show ?thesis
      unfolding RemoveKeyfile perform_write_def write_request.case remove_keyfile_def reconcile_keyfile_authority_def
    proof (rule auth)
      show "wpE (if cred_keyfile c = None then returnE () else bindE (liftE (ok_or InvalidRequest (cred_password c))) (\<lambda>password.
          if password = [] then throwE InvalidRequest
          else bindE (rotate_or_reconcile ev c (with_keyfile None c) (reconcile_authority ev (with_keyfile None)))
            (\<lambda>_. retain (with_keyfile None c)))) ?Q ?R s"
        using plain same open_vault(2) unchanged [of None]
        by (simp add: r wpE_returnE wpE_throwE wpE_bindE [of "liftE _"] wpE_liftE ok_or_def split: option.split)
    qed
  qed (use assms(5) in \<open>simp_all add: replaces_def\<close>)
qed

text \<open>
  C12: Changing or removing the password or the keyfile of an open vault never silently separates the
  vault file from the credential the service retains. Whichever system calls fail, as long as no other
  process writes to the directory: either the vault file and the retained credential are those from
  before, and success is only reported if there was nothing to change; or the file holds the document
  verified under the new credential, and then the new credential is retained and success reported, or
  the user is told that the outcome is uncertain.
\<close>

theorem rotation_keeps_file_and_credential_together:
  assumes "is_unlocked s" and "retains s = Some c" and "no_writers (v_script (world_of s))"
    and "map_of (v_files (world_of s)) (vs_path (session_of s)) \<noteq> None"
    and "replaces request = Some replace" and "perform_write ev request s = (r, t)"
  shows "map_of (v_files (world_of t)) (vs_path (session_of s)) = map_of (v_files (world_of s)) (vs_path (session_of s)) \<and>
      retains t = Some c \<and> (r = Inr () \<longrightarrow> replace c = c) \<or>
    rewritten (sv_vault ev) (replace c) s t \<and>
      (r = Inr () \<and> retains t = Some (replace c) \<or>
       r = Inl SaveUncertain \<and> (retains t = Some c \<or> retains t = Some (replace c)))"
proof -
  have kept: "map_of (v_files (world_of t)) (vs_path (session_of s)) = map_of (v_files (world_of s)) (vs_path (session_of s))"
    if "keeps_files (world_of s) (world_of t)"
    using that assms(4) by (auto simp: keeps_files_def)
  show ?thesis
    using perform_rotation [OF assms(1-5), of ev] assms(6) kept by (cases r) (auto simp: wpE_def)
qed

lemma ref_rotate: "\<exists>u. rotate_credential ref_service_ext ref_cred (with_password (Some ''new'') ref_cred) ref_service_world = (Inr Saved, u)"
proof -
  let ?x = ref_service_ext and ?doc = "vs_document ref_service_session"
  let ?new = "with_password (Some ''new'') ref_cred"
  have parse: "open_reader_with_credential (vx_kdbx ?x) (as_bytes ''pw'') ref_cred = Inr ?doc"
    "open_reader_with_credential (vx_kdbx ?x) (as_bytes ''new'') ?new = Inr ?doc"
    by (simp_all add: open_reader_with_credential_def ref_service_ext_def ref_service_session_def ref_cred_def with_password_def)
  have save: "save_to_writer_with_credential (vx_kdbx ?x) seed ?doc ?new = Inr (as_bytes ''new'')" for seed
    by (simp add: save_to_writer_with_credential_def ensure_writable_format_def has_component_def ref_service_ext_def
        ref_service_session_def ref_cred_def with_password_def)
  have same: "verify_semantic_equivalence (vx_kdbx ?x) ?doc ?doc = Inr ()"
    by (simp add: verify_semantic_equivalence_def ref_service_ext_def)
  have session: "vs_path ref_service_session = ''/v/a''"
    "vs_source_fingerprint ref_service_session = fingerprint ?x (as_bytes ''pw'')"
    by (simp_all add: ref_service_session_def)
  show ?thesis
    by (simp add: rotate_credential_def persist_with_credentials_def with_temp_def op_defs ref_service_world_def session
        validate_current_target_def require_source_unchanged_def fingerprint_path_def read_file_def sys_def temp_create_quiet Let_def
        parent_of_def hex_encode_def hex_byte_def hex_digit_def parse save same verify_save_credential_def
        persist_body_def write_temp_def open_document_with_credential_def
        create_backup_temp_def reject_symlink_if_present_def backup_path_def fill_backup_def finish_replace_def replace_primary_def
        disarm_def sync_parent_def open_stable_document_with_credential_def commit_backup_def rename_file_def drop_temp_def)
qed

lemma ref_rotation: "fst (perform_write (ref_service_env False) (ChangePassword ''new'')
    \<lparr>sv_desktop = ref_service_desktop, sv_selected_path = Some ''/v/a'', sv_pending_keyfile = None\<rparr>) = Inr ()"
proof -
  obtain u where u: "rotate_credential ref_service_ext ref_cred (with_password (Some ''new'') ref_cred) ref_service_world = (Inr Saved, u)"
    using ref_rotate by blast
  have clean: "session_restriction (ref_service_env False) (v_session ref_service_world) = None" "\<not> is_dirty (v_session ref_service_world)"
    by (simp_all add: session_restriction_def write_restriction_def ref_service_env_def ref_service_world_def ref_service_session_def
        is_dirty_def has_changes_since_def)
  have vault: "sv_vault (ref_service_env False) = ref_service_ext" by (simp add: ref_service_env_def)
  let ?t = "\<lparr>sv_desktop = ref_service_desktop\<lparr>dk_world := u, dk_save_credential := Some (with_password (Some ''new'') ref_cred)\<rparr>,
      sv_selected_path = Some ''/v/a'', sv_pending_keyfile = None\<rparr>"
  obtain x where "service_snapshot (ref_service_env False) ?t = (Inr x, ?t)"
    using service_snapshot_total [of ?t "ref_service_env False"] by (auto simp: is_unlocked_def ref_service_desktop_def)
  then show ?thesis
    using u clean
    by (simp add: perform_write_def forget_def change_master_password_def require_writable_def open_session_def require_session_def
        rotate_or_reconcile_def retain_def retained_credential_def at_desktop_def on_session_def op_defs session_of_def vault ref_service_desktop_def)
qed

theorem rotation_keeps_file_and_credential_together_witness:
  "let s = \<lparr>sv_desktop = ref_service_desktop, sv_selected_path = Some ''/v/a'', sv_pending_keyfile = None\<rparr>;
       t = snd (perform_write (ref_service_env False) (ChangePassword ''new'') s);
       new = \<lparr>cred_password = Some ''new'', cred_keyfile = None\<rparr>
   in rewritten ref_service_ext new s t \<and> retains t = Some new"
proof -
  let ?s = "\<lparr>sv_desktop = ref_service_desktop, sv_selected_path = Some ''/v/a'', sv_pending_keyfile = None\<rparr>"
  let ?ev = "ref_service_env False"
  have s: "is_unlocked ?s" "retains ?s = Some ref_cred" "no_writers (v_script (world_of ?s))"
    "map_of (v_files (world_of ?s)) (vs_path (session_of ?s)) \<noteq> None"
    by (simp_all add: is_unlocked_def retains_def world_of_def session_of_def ref_service_desktop_def ref_service_world_def
        ref_service_session_def no_writers_def)
  have "replaces (ChangePassword ''new'' :: nat write_request) = Some (with_password (Some ''new''))" by (simp add: replaces_def)
  from rotation_keeps_file_and_credential_together [OF s this prod.collapse [symmetric], of ?ev] ref_rotation
  show ?thesis by (auto simp: Let_def with_password_def ref_cred_def ref_service_env_def)
qed

end
