(* ===== verification/Desktop_Clipboard.thy ===== *)
theory Desktop_Clipboard
  imports Desktop_Properties
begin

section \<open>Copying secrets to the clipboard\<close>

text \<open>
  Models \<open>clipboard.rs\<close>, \<open>AppState\<close> of \<open>state.rs\<close> and \<open>state/generated_clipboard.rs\<close> under
  \<open>src/apps/desktop/src-tauri/src\<close>.

  The clipboard of the operating system is shared: its content carries whether this application or
  another one put it there, which no operation reads. Every call on it consumes one \<open>port_event\<close>:
  what another application copied just before, and whether the call fails and what it then leaves.
  A copy and a lock hold the gate for secret operations, and what may run in between, an expiry of
  the clipboard or another use of the service, touches only one of the two halves; so each is one
  step here.
\<close>

datatype origin = Ours | Foreign

type_synonym board = "(origin \<times> string) option"








subsection \<open>The clipboard of the operating system\<close>

definition others_write :: "string option option \<Rightarrow> board \<Rightarrow> board" where
  "others_write change b = (case change of None \<Rightarrow> b | Some text \<Rightarrow> map_option (Pair Foreign) text)"





subsection \<open>The clipboard service\<close>








subsection \<open>The commands that share the gate\<close>















subsection \<open>Runs\<close>





subsection \<open>What the lease stands for\<close>






lemma others_write_ours [simp]: "others_write change b = Some (Ours, v) \<longleftrightarrow> change = None \<and> b = Some (Ours, v)"
  by (auto simp: others_write_def split: option.split)

lemma others_write_None [simp]: "others_write None b = b"
  by (simp add: others_write_def)



lemma consumed_calls [simp]:
  "e # rest = used @ rest \<longleftrightarrow> used = [e]" "e # f # rest = used @ rest \<longleftrightarrow> used = [e, f]"
  using append_same_eq [of "[e]" rest used] append_same_eq [of "[e, f]" rest used] by auto





















end
