(* ===== verification/Mobile_Service.thy ===== *)
theory Mobile_Service
  imports Desktop_Mutations
begin

section \<open>The vault service of the mobile application\<close>

text \<open>
  Models \<open>src/apps/desktop/src-tauri/src/mobile\<close>: \<open>state.rs\<close>, \<open>session.rs\<close>, \<open>mutations.rs\<close>, \<open>generation.rs\<close>,
  \<open>transaction.rs\<close>, \<open>persistence.rs\<close>, \<open>state_attachments.rs\<close>, \<open>service_mutations.rs\<close> and the commands that
  span several calls.

  On a phone the vault is a document of another application, reached through native code that hands
  out copies in a private directory. The native code is the record \<open>native_source\<close> of operations on a
  device: the private files, whatever state the native code has, and one event per system call that may
  fail and may write private files. The service is behind a mutex which commands give up while native
  code runs; each time a command takes it again, a list of other requests has run first (\<open>mw_others\<close>).
\<close>

datatype MobileError = PickerFailed | SourceUnavailable | NoVaultSelected | UnlockFailed | UnsupportedVault
  | EntryNotFound | GroupNotFound | InvalidRequest | Conflict | SecretUnavailable | Locked | UnsavedChanges
  | Busy | SaveFailed | SaveAuthenticationFailed | ExternalChange | SaveUncertain | PersistenceUnsupported
  | RecoveryRequired | ReloadFailed | ReloadAuthenticationFailed | AutofillUnavailable
  | AutofillNotConfigured | AutofillRefreshFailed | CredentialUnavailable | Internal

subsection \<open>The device\<close>

record mobile_event =
  me_writes :: "(string \<times> bytes) list"
  me_fails :: bool

record 'n device =
  dv_files :: "(string \<times> bytes) list"
  dv_events :: "mobile_event list"
  dv_native :: 'n

definition device_sys :: "('n device, unit, unit) op" where
  "device_sys = (\<lambda>d. case dv_events d of
     [] \<Rightarrow> (Inr (), d)
   | e # rest \<Rightarrow> (if me_fails e then Inl () else Inr (),
       d\<lparr>dv_events := rest, dv_files := fold (\<lambda>(p, bs). AList.update p bs) (me_writes e) (dv_files d)\<rparr>))"

definition device_read :: "string \<Rightarrow> ('n device, unit, bytes) op" where
  "device_read p = bindE device_sys (\<lambda>_. bindE (getsE dv_files) (\<lambda>files. liftE (ok_or () (map_of files p))))"

definition device_put :: "string \<Rightarrow> bytes \<Rightarrow> ('n device, unit, unit) op" where
  "device_put p bs = bindE device_sys (\<lambda>_. modifyE (\<lambda>d. d\<lparr>dv_files := AList.update p bs (dv_files d)\<rparr>))"

text \<open>\<open>create_new(true)\<close>: an existing file makes the call fail.\<close>

definition device_create_new :: "string \<Rightarrow> ('n device, unit, unit) op" where
  "device_create_new p =
     bindE device_sys (\<lambda>_. bindE (getsE dv_files) (\<lambda>files.
     if map_of files p \<noteq> None then throwE () else modifyE (\<lambda>d. d\<lparr>dv_files := AList.update p [] files\<rparr>)))"

definition device_remove :: "string \<Rightarrow> ('n device, unit, unit) op" where
  "device_remove p = bindE device_sys (\<lambda>_. modifyE (\<lambda>d. d\<lparr>dv_files := AList.delete p (dv_files d)\<rparr>))"

subsection \<open>Generations\<close>

record EncryptedGeneration =
  eg_size :: nat
  eg_sha256 :: bytes

definition generation_of :: "'x core_ext_scheme \<Rightarrow> bytes \<Rightarrow> EncryptedGeneration" where
  "generation_of ext bs = \<lparr>eg_size = length bs, eg_sha256 = sha256 ext bs\<rparr>"

definition EncryptedGeneration_from_path ::
    "'x core_ext_scheme \<Rightarrow> string \<Rightarrow> ('n device, MobileError, EncryptedGeneration) op" where
  "EncryptedGeneration_from_path ext p =
     bindE (map_errE (\<lambda>_. SaveFailed) (device_read p)) (\<lambda>bs.
     if length bs \<ge> 2 ^ 64 then throwE SaveFailed else returnE (generation_of ext bs))"

definition native_identity :: "EncryptedGeneration \<Rightarrow> string" where
  "native_identity g = to_decimal (eg_size g) @ '':'' @ hex_encode (eg_sha256 g)"

definition MobileSourceHandle_new :: "string \<Rightarrow> MobileError + string" where
  "MobileSourceHandle_new value =
     (if length value < 32 \<or> length value > 128 \<or> \<not> list_all (\<lambda>c. (of_char c :: nat) < 128) value
      then Inl Internal else Inr value)"

subsection \<open>Sessions\<close>

record 'd MobileVaultSession =
  ms_document :: "'d KdbxDocument"
  ms_handle :: string
  ms_baseline :: EncryptedGeneration
  ms_writable :: bool
  ms_saved_revision :: "64 word"

record VaultCoreSnapshotDto =
  vc_dirty :: bool
  vc_recycle_bin_enabled :: bool
  vc_recycle_bin_group_id :: "string option"
  vc_root_group_id :: string
  vc_groups :: "GroupDto list"
  vc_entries :: "EntrySummaryDto list"

definition snapshot_for ::
    "('d, 'v) service_env \<Rightarrow> 'd KdbxDocument \<Rightarrow> 64 word \<Rightarrow> MobileError + VaultCoreSnapshotDto" where
  "snapshot_for ev doc saved_revision =
     map_err (\<lambda>_. Internal) (bindR (projection (sv_lib ev) doc) (\<lambda>root.
     Inr \<lparr>vc_dirty = has_changes_since doc saved_revision,
          vc_recycle_bin_enabled = recycle_bin_enabled (sv_lib ev) (kd_database doc),
          vc_recycle_bin_group_id = recycle_bin_group_id (sv_lib ev) doc, vc_root_group_id = vg_id root,
          vc_groups = fst (collect_group root), vc_entries = snd (collect_group root)\<rparr>))"

definition mobile_is_dirty :: "'d MobileVaultSession \<Rightarrow> bool" where
  "mobile_is_dirty s = has_changes_since (ms_document s) (ms_saved_revision s)"

definition password_credential :: "string \<Rightarrow> KdbxCredential" where
  "password_credential password = \<lparr>cred_password = Some password, cred_keyfile = None\<rparr>"

definition mobile_open :: "'d vault_ext \<Rightarrow> string \<Rightarrow> string \<Rightarrow> ('n device, KdbxError, 'd KdbxDocument) op" where
  "mobile_open ext p password =
     bindE (map_errE (\<lambda>_. KdbxError.Io) (device_read p)) (\<lambda>bs.
     liftE (open_reader_with_credential (vx_kdbx ext) bs (password_credential password)))"

definition mobile_map_open_error :: "KdbxError \<Rightarrow> MobileError" where
  "mobile_map_open_error e = (case e of
     InvalidCredentials \<Rightarrow> UnlockFailed
   | InvalidKdbx \<Rightarrow> UnsupportedVault | UnsupportedFormat \<Rightarrow> UnsupportedVault | Conversion _ \<Rightarrow> UnsupportedVault
   | _ \<Rightarrow> Internal)"

definition open_candidate ::
    "('d, 'v) service_env \<Rightarrow> string \<Rightarrow> string \<Rightarrow> bool \<Rightarrow> string \<Rightarrow>
     ('n device, MobileError, 'd MobileVaultSession \<times> VaultCoreSnapshotDto) op" where
  "open_candidate ev p token writable password =
     bindE (map_errE (\<lambda>_. UnsupportedVault) (EncryptedGeneration_from_path (sv_vault ev) p)) (\<lambda>before.
     bindE (map_errE mobile_map_open_error (mobile_open (sv_vault ev) p password)) (\<lambda>doc.
     bindE (map_errE (\<lambda>_. UnsupportedVault) (EncryptedGeneration_from_path (sv_vault ev) p)) (\<lambda>after.
     if before \<noteq> after then throwE UnsupportedVault
     else
       bindE (liftE (snapshot_for ev doc (kd_revision doc))) (\<lambda>snapshot.
       returnE (\<lparr>ms_document = doc, ms_handle = token, ms_baseline = before, ms_writable = writable,
         ms_saved_revision = kd_revision doc\<rparr>, snapshot)))))"

record PreparedMobileSave =
  pm_operation :: "64 word"
  pm_revision :: "64 word"
  pm_baseline :: string
  pm_candidate :: string

text \<open>The candidate: the current copy is the baseline and opens, then the document is written, read back and compared.\<close>

definition session_prepare_save ::
    "('d, 'v) service_env \<Rightarrow> nat \<Rightarrow> 64 word \<Rightarrow> string \<Rightarrow> string \<Rightarrow> string \<Rightarrow> 'd MobileVaultSession \<Rightarrow>
     ('n device, MobileError, PreparedMobileSave) op" where
  "session_prepare_save ev seed operation current_path candidate_path password s =
     (if \<not> ms_writable s then throwE PersistenceUnsupported
      else if \<not> mobile_is_dirty s then throwE InvalidRequest
      else
        bindE (EncryptedGeneration_from_path (sv_vault ev) current_path) (\<lambda>current_generation.
        if current_generation \<noteq> ms_baseline s then throwE ExternalChange
        else
          bindE (map_errE (\<lambda>e. if e = InvalidCredentials then SaveAuthenticationFailed else SaveFailed)
            (mobile_open (sv_vault ev) current_path password)) (\<lambda>_.
          bindE (map_errE (\<lambda>_. SaveFailed) (device_create_new candidate_path)) (\<lambda>_.
          bindE (liftE (map_err (\<lambda>_. SaveFailed) (save_to_writer_with_credential (vx_kdbx (sv_vault ev)) seed (ms_document s)
            (password_credential password)))) (\<lambda>bs.
          bindE (map_errE (\<lambda>_. SaveFailed) (device_put candidate_path bs)) (\<lambda>_.
          bindE (map_errE (\<lambda>_. SaveFailed) device_sys) (\<lambda>_.  \<comment> \<open>sync_all\<close>
          bindE (map_errE (\<lambda>_. SaveFailed) (mobile_open (sv_vault ev) candidate_path password)) (\<lambda>reopened.
          bindE (liftE (map_err (\<lambda>_. SaveFailed)
            (verify_semantic_equivalence (vx_kdbx (sv_vault ev)) (ms_document s) reopened))) (\<lambda>_.
          bindE (EncryptedGeneration_from_path (sv_vault ev) candidate_path) (\<lambda>candidate_generation.
          returnE \<lparr>pm_operation = operation, pm_revision = kd_revision (ms_document s),
            pm_baseline = native_identity (ms_baseline s), pm_candidate = native_identity candidate_generation\<rparr>))))))))))"

text \<open>What a session becomes once the file that was read back is verified.\<close>

definition session_mark_verified_saved ::
    "('d, 'v) service_env \<Rightarrow> PreparedMobileSave \<Rightarrow> string \<Rightarrow> string \<Rightarrow> 'd MobileVaultSession \<Rightarrow>
     ('n device, MobileError, 'd MobileVaultSession) op" where
  "session_mark_verified_saved ev prepared read_back_path password s =
     (if kd_revision (ms_document s) \<noteq> pm_revision prepared then throwE SaveUncertain
      else
        bindE (map_errE (\<lambda>_. SaveUncertain) (EncryptedGeneration_from_path (sv_vault ev) read_back_path)) (\<lambda>final_generation.
        if native_identity final_generation \<noteq> pm_candidate prepared then throwE SaveUncertain
        else
          bindE (map_errE (\<lambda>_. SaveUncertain) (mobile_open (sv_vault ev) read_back_path password)) (\<lambda>reopened.
          bindE (liftE (map_err (\<lambda>_. SaveUncertain)
            (verify_semantic_equivalence (vx_kdbx (sv_vault ev)) (ms_document s) reopened))) (\<lambda>_.
          returnE (s\<lparr>ms_baseline := final_generation, ms_saved_revision := kd_revision (ms_document s)\<rparr>)))))"

definition session_reload_candidate ::
    "('d, 'v) service_env \<Rightarrow> string \<Rightarrow> string \<Rightarrow> 'd MobileVaultSession \<Rightarrow>
     ('n device, MobileError, 'd MobileVaultSession \<times> VaultCoreSnapshotDto) op" where
  "session_reload_candidate ev p password s =
     bindE (map_errE (\<lambda>_. ReloadFailed) (EncryptedGeneration_from_path (sv_vault ev) p)) (\<lambda>before.
     bindE (map_errE (\<lambda>e. if e = InvalidCredentials then ReloadAuthenticationFailed else ReloadFailed)
       (mobile_open (sv_vault ev) p password)) (\<lambda>candidate.
     bindE (map_errE (\<lambda>_. ReloadFailed) (EncryptedGeneration_from_path (sv_vault ev) p)) (\<lambda>after.
     if before \<noteq> after then throwE ReloadFailed
     else
       bindE (liftE (snapshot_for ev candidate (kd_revision candidate))) (\<lambda>snapshot.
       returnE (s\<lparr>ms_document := candidate, ms_baseline := before, ms_saved_revision := kd_revision candidate\<rparr>, snapshot)))))"

subsection \<open>Requests to a session\<close>

definition mobile_require_id :: "string \<Rightarrow> MobileError + unit" where
  "mobile_require_id value = (if value = [] then Inl InvalidRequest else Inr ())"

definition mobile_require_name :: "string \<Rightarrow> MobileError + unit" where
  "mobile_require_name value = (if is_blank value then Inl InvalidRequest else Inr ())"

definition mobile_map_mutation_error :: "KdbxError \<Rightarrow> MobileError" where
  "mobile_map_mutation_error e =
     (if e = KdbxError.EntryNotFound then EntryNotFound
      else if e = KdbxError.GroupNotFound then GroupNotFound
      else if e \<in> {CannotDeleteRootGroup, InvalidGroupMove} then Conflict
      else if e \<in> {KdbxError.ReservedField, InvalidEntryTags, InvalidExpiry, InvalidIcon, InvalidTotp, InvalidAttachmentName,
          KdbxError.AttachmentAlreadyExists, KdbxError.AttachmentNotFound, TotpNotConfigured, UnsupportedTotpFormat,
          RecycleBinDisabled, InvalidRecycleBinOperation} then InvalidRequest
      else Internal)"

definition mobile_expiry_from_request :: "bool option \<Rightarrow> int option \<Rightarrow> MobileError + EntryExpiry option" where
  "mobile_expiry_from_request expires seconds = (case (expires, seconds) of
     (None, None) \<Rightarrow> Inr None
   | (Some False, None) \<Rightarrow> Inr (Some ExpiryDisabled)
   | (Some True, Some seconds) \<Rightarrow> Inr (Some (AtUnixSeconds seconds))
   | _ \<Rightarrow> Inl InvalidRequest)"

definition mobile_totp_from_request :: "bool option \<Rightarrow> string option \<Rightarrow> MobileError + EntryTotpUpdate option" where
  "mobile_totp_from_request enabled uri = (case (enabled, uri) of
     (None, None) \<Rightarrow> Inr None
   | (Some False, None) \<Rightarrow> Inr (Some ClearTotp)
   | (Some True, Some uri) \<Rightarrow> if is_blank uri then Inl InvalidRequest else Inr (Some (SetTotp uri))
   | _ \<Rightarrow> Inl InvalidRequest)"

definition mobile_icon_from_request :: "EntryIconRequestDto option \<Rightarrow> MobileError + EntryIconUpdate option" where
  "mobile_icon_from_request icon = (case icon of
     None \<Rightarrow> Inr None
   | Some NoIconRequest \<Rightarrow> Inr (Some ClearIcon)
   | Some (BuiltInRequest i) \<Rightarrow> if i \<le> MAX_STANDARD_ICON_ID then Inr (Some (UseBuiltIn i)) else Inl InvalidRequest)"

text \<open>The requests of \<open>mutations.rs\<close>, with the fields of their structs in order.\<close>

datatype mobile_edit =
  MobileUpdateEntry UpdateEntryRequestDto
| MobileSetEntryTags string "string list"
| MobileCreateEntry string NewEntry "string option"
| MobileDeleteEntry string
| MobileMoveEntry string string
| MobileCreateGroup string string
| MobileRenameGroup string string
| MobileMoveGroup string string
| MobileDeleteGroup string
| MobileSetCustomField string string string FieldProtection
| MobileDeleteCustomField string string

text \<open>The checks of a request, and the edit of the document that it asks for.\<close>

definition checked_edit :: "('d, 'v) service_env \<Rightarrow> 'd KdbxDocument \<Rightarrow> mobile_edit \<Rightarrow> MobileError + session_edit" where
  "checked_edit ev doc request = (case request of
     MobileUpdateEntry q \<Rightarrow>
       bindR (mobile_require_id (uq_entry_id q)) (\<lambda>_.
       bindR (mobile_expiry_from_request (uq_expires q) (uq_expiry_unix_seconds q)) (\<lambda>expiry.
       bindR (mobile_totp_from_request (uq_totp_enabled q) (uq_totp_uri q)) (\<lambda>totp.
       bindR (mobile_icon_from_request (uq_icon q)) (\<lambda>icon.
       Inr (UpdateEntry (uq_entry_id q) \<lparr>eu_title = uq_title q, eu_username = uq_username q, eu_url = uq_url q,
         eu_password = uq_password q, eu_notes = uq_notes q, eu_expiry = expiry, eu_totp = totp, eu_icon = icon\<rparr>)))))
   | MobileSetEntryTags i tags \<Rightarrow> bindR (mobile_require_id i) (\<lambda>_. Inr (SetEntryTags i tags))
   | MobileCreateEntry g input notes \<Rightarrow> bindR (mobile_require_id g) (\<lambda>_. Inr (CreateEntry g input notes))
   | MobileDeleteEntry i \<Rightarrow> bindR (mobile_require_id i) (\<lambda>_. Inr (TrashEntry i))
   | MobileMoveEntry i g \<Rightarrow> bindR (mobile_require_id i) (\<lambda>_. bindR (mobile_require_id g) (\<lambda>_. Inr (MoveEntry i g)))
   | MobileCreateGroup g name \<Rightarrow> bindR (mobile_require_id g) (\<lambda>_. bindR (mobile_require_name name) (\<lambda>_. Inr (CreateGroup g name)))
   | MobileRenameGroup g name \<Rightarrow> bindR (mobile_require_id g) (\<lambda>_. bindR (mobile_require_name name) (\<lambda>_. Inr (RenameGroup g name)))
   | MobileMoveGroup g p \<Rightarrow> bindR (mobile_require_id g) (\<lambda>_. bindR (mobile_require_id p) (\<lambda>_. Inr (MoveGroup g p)))
   | MobileDeleteGroup g \<Rightarrow> bindR (mobile_require_id g) (\<lambda>_. Inr (TrashGroup g))
   | MobileSetCustomField i name value protection \<Rightarrow>
       bindR (mobile_require_id i) (\<lambda>_.
       bindR (map_err mobile_map_mutation_error (custom_fields (sv_lib ev) doc i)) (\<lambda>fields.
       bindR (if list_ex (\<lambda>f. cfs_name f = name) fields then Inr () else mobile_require_name name) (\<lambda>_.
       Inr (SetEntryCustomField i name value protection))))
   | MobileDeleteCustomField i name \<Rightarrow> bindR (mobile_require_id i) (\<lambda>_. Inr (DeleteEntryCustomField i name)))"

definition session_edit_document ::
    "('d, 'v) service_env \<Rightarrow> edit_supply \<Rightarrow> session_edit \<Rightarrow> ('d MobileVaultSession, MobileError, string option) op" where
  "session_edit_document ev draws request = (\<lambda>s.
     case document_edit (sv_lib ev) (sv_totp ev) draws request (ms_document s) of
       (r, doc) \<Rightarrow> (map_err mobile_map_mutation_error r, s\<lparr>ms_document := doc\<rparr>))"

definition session_perform_edit ::
    "('d, 'v) service_env \<Rightarrow> edit_supply \<Rightarrow> mobile_edit \<Rightarrow>
     ('d MobileVaultSession, MobileError, string option \<times> VaultCoreSnapshotDto) op" where
  "session_perform_edit ev draws request =
     bindE (getsE ms_document) (\<lambda>doc.
     bindE (liftE (checked_edit ev doc request)) (\<lambda>edit.
     bindE (session_edit_document ev draws edit) (\<lambda>created.
     bindE (getsE (\<lambda>s. snapshot_for ev (ms_document s) (ms_saved_revision s))) (\<lambda>snapshot.
     bindE (liftE snapshot) (\<lambda>snapshot. returnE (created, snapshot))))))"

subsection \<open>The service\<close>

record pending_selection =
  ps_staged_path :: string
  ps_file_name :: string
  ps_handle :: string
  ps_writable :: bool
  ps_recovery_required :: bool

record 'd mobile_service =
  mb_pending :: "pending_selection option"
  mb_session :: "'d MobileVaultSession option"
  mb_active :: "64 word option"
  mb_next :: "64 word"

record StagedMobileSelection =
  sg_staged_path :: string
  sg_file_name :: string
  sg_source_token :: string
  sg_writable :: bool
  sg_recovery_required :: bool

record NativeSavePaths =
  np_transaction_token :: string
  np_current_path :: string
  np_candidate_path :: string

datatype NativeCommitOutcome = Verified string | CommitFailed MobileError

record 'n native_source =
  ns_select :: "('n device, MobileError, StagedMobileSelection option) op"
  ns_release :: "string \<Rightarrow> bool \<Rightarrow> ('n device, MobileError, unit) op"
  ns_prepare_save :: "string \<Rightarrow> ('n device, MobileError, NativeSavePaths) op"
  ns_commit_candidate :: "string \<Rightarrow> string \<Rightarrow> string \<Rightarrow> string \<Rightarrow> ('n device, MobileError, NativeCommitOutcome) op"
  ns_finalize_save :: "string \<Rightarrow> string \<Rightarrow> ('n device, MobileError, unit) op"
  ns_abort_save :: "string \<Rightarrow> string \<Rightarrow> 'n device \<Rightarrow> 'n device"
  ns_stage_current :: "string \<Rightarrow> ('n device, MobileError, string \<times> string) op"
  ns_finish_read :: "string \<Rightarrow> string \<Rightarrow> 'n device \<Rightarrow> 'n device"
  ns_select_attachment_import :: "('n device, MobileError, (string \<times> string \<times> string) option) op"
  ns_finish_attachment_import :: "string \<Rightarrow> 'n device \<Rightarrow> 'n device"
  ns_prepare_attachment_export :: "('n device, MobileError, string \<times> string) op"
  ns_export_attachment :: "string \<Rightarrow> string \<Rightarrow> ('n device, MobileError, bool) op"
  ns_abort_attachment_export :: "string \<Rightarrow> 'n device \<Rightarrow> 'n device"

datatype mobile_request = RunEdit edit_supply mobile_edit | RunUnlock string | StartSelection | StartSave | StartReload
  | StartLock | StartDiscard | StartImport | StartExport

record ('d, 'n) mobile_world =
  mw_service :: "'d mobile_service"
  mw_device :: "'n device"
  mw_poisoned :: bool
  mw_others :: "mobile_request list list"
  mw_seed :: nat

type_synonym ('d, 'n, 'a) mobile_op = "(('d, 'n) mobile_world, MobileError, 'a) op"

definition on_device :: "('n device, 'e, 'a) op \<Rightarrow> (('d, 'n) mobile_world, 'e, 'a) op" where
  "on_device m = (\<lambda>w. case m (mw_device w) of (r, d) \<Rightarrow> (r, w\<lparr>mw_device := d\<rparr>))"

definition on_service :: "('d mobile_service, MobileError, 'a) op \<Rightarrow> ('d, 'n, 'a) mobile_op" where
  "on_service m = (\<lambda>w. case m (mw_service w) of (r, s) \<Rightarrow> (r, w\<lparr>mw_service := s\<rparr>))"

definition tell_device :: "('n device \<Rightarrow> 'n device) \<Rightarrow> (('d, 'n) mobile_world, 'e, unit) op" where
  "tell_device f = modifyE (\<lambda>w. w\<lparr>mw_device := f (mw_device w)\<rparr>)"

definition mobile_session :: "MobileError \<Rightarrow> ('d mobile_service, MobileError, 'd MobileVaultSession) op" where
  "mobile_session e = bindE (getsE mb_session) (\<lambda>s. liftE (ok_or e s))"

definition not_busy :: "('d mobile_service, MobileError, unit) op" where
  "not_busy = bindE (getsE mb_active) (\<lambda>active. if active \<noteq> None then throwE Busy else returnE ())"

text \<open>Operations are numbered; after the last number the count starts again at one.\<close>

definition number_operation :: "('d mobile_service, MobileError, 64 word) op" where
  "number_operation =
     bindE (getsE mb_next) (\<lambda>i.
     bindE (modifyE (\<lambda>s. s\<lparr>mb_next := (if i = - 1 then 1 else i + 1), mb_active := Some i\<rparr>)) (\<lambda>_. returnE i))"

definition begin_operation :: "('d mobile_service, MobileError, 64 word \<times> string) op" where
  "begin_operation =
     bindE (mobile_session Locked) (\<lambda>session.
     bindE number_operation (\<lambda>i. returnE (i, ms_handle session)))"

definition can_select :: "('d mobile_service, MobileError, unit) op" where
  "can_select =
     bindE not_busy (\<lambda>_.
     bindE (getsE mb_session) (\<lambda>session. if session \<noteq> None then throwE Conflict else returnE ()))"

definition begin_selection :: "('d mobile_service, MobileError, 64 word \<times> (string \<times> bool) option) op" where
  "begin_selection =
     bindE can_select (\<lambda>_.
     bindE number_operation (\<lambda>i.
     bindE (getsE mb_pending) (\<lambda>pending.
     returnE (i, map_option (\<lambda>p. (ps_handle p, ps_recovery_required p)) pending))))"

definition begin_save :: "('d mobile_service, MobileError, 64 word \<times> string) op" where
  "begin_save =
     bindE (mobile_session Locked) (\<lambda>session.
     bindE not_busy (\<lambda>_.
     if \<not> ms_writable session then throwE PersistenceUnsupported
     else if \<not> mobile_is_dirty session then throwE InvalidRequest
     else begin_operation))"

definition begin_reload :: "('d mobile_service, MobileError, 64 word \<times> string) op" where
  "begin_reload = bindE (mobile_session Locked) (\<lambda>_. bindE not_busy (\<lambda>_. begin_operation))"

definition begin_lock :: "('d mobile_service, MobileError, 64 word \<times> string) op" where
  "begin_lock =
     bindE not_busy (\<lambda>_.
     bindE (mobile_session Locked) (\<lambda>session.
     if mobile_is_dirty session then throwE UnsavedChanges else begin_operation))"

definition begin_discard_and_lock :: "('d mobile_service, MobileError, 64 word \<times> string) op" where
  "begin_discard_and_lock = bindE not_busy (\<lambda>_. begin_operation)"

definition begin_attachment_import :: "('d mobile_service, MobileError, 64 word \<times> string) op" where
  "begin_attachment_import =
     bindE not_busy (\<lambda>_.
     bindE (mobile_session Locked) (\<lambda>session.
     if \<not> ms_writable session then throwE PersistenceUnsupported else begin_operation))"

definition begin_attachment_export :: "('d mobile_service, MobileError, 64 word \<times> string) op" where
  "begin_attachment_export = bindE not_busy (\<lambda>_. begin_operation)"

definition cancel_operation :: "64 word \<Rightarrow> 'd mobile_service \<Rightarrow> 'd mobile_service" where
  "cancel_operation operation s = (if mb_active s = Some operation then s\<lparr>mb_active := None\<rparr> else s)"

definition require_operation :: "MobileError \<Rightarrow> 64 word \<Rightarrow> ('d mobile_service, MobileError, unit) op" where
  "require_operation e operation =
     bindE (getsE mb_active) (\<lambda>active. if active \<noteq> Some operation then throwE e else returnE ())"

definition complete_lock_operation :: "64 word \<Rightarrow> ('d mobile_service, MobileError, unit) op" where
  "complete_lock_operation operation =
     bindE (require_operation Internal operation) (\<lambda>_.
     bindE (mobile_session Internal) (\<lambda>_.
     modifyE (\<lambda>s. s\<lparr>mb_session := None, mb_active := None\<rparr>)))"

definition session_mut_for_mutation :: "('d mobile_service, MobileError, unit) op" where
  "session_mut_for_mutation =
     bindE not_busy (\<lambda>_.
     bindE (mobile_session Locked) (\<lambda>session.
     if \<not> ms_writable session then throwE PersistenceUnsupported else returnE ()))"

text \<open>An edit of the open session.\<close>

definition on_open_session :: "('d MobileVaultSession, MobileError, 'a) op \<Rightarrow> ('d mobile_service, MobileError, 'a) op" where
  "on_open_session m = (\<lambda>s. case mb_session s of
     None \<Rightarrow> (Inl Locked, s)
   | Some session \<Rightarrow> (case m session of (r, session') \<Rightarrow> (r, s\<lparr>mb_session := Some session'\<rparr>)))"

definition mobile_perform_edit ::
    "('d, 'v) service_env \<Rightarrow> edit_supply \<Rightarrow> mobile_edit \<Rightarrow>
     ('d mobile_service, MobileError, string option \<times> VaultCoreSnapshotDto) op" where
  "mobile_perform_edit ev draws request =
     bindE session_mut_for_mutation (\<lambda>_. on_open_session (session_perform_edit ev draws request))"

subsection \<open>Selection and unlock\<close>

text \<open>A pending selection that is dropped removes its private copy if it can.\<close>

definition drop_pending :: "pending_selection option \<Rightarrow> (('d, 'n) mobile_world, 'e, unit) op" where
  "drop_pending dropped = (case dropped of
     None \<Rightarrow> returnE ()
   | Some p \<Rightarrow> bindE (tryE (on_device (device_remove (ps_staged_path p)))) (\<lambda>_. returnE ()))"

definition set_pending :: "pending_selection option \<Rightarrow> (('d, 'n) mobile_world, 'e, unit) op" where
  "set_pending selection = modifyE (\<lambda>w. w\<lparr>mw_service := (mw_service w)\<lparr>mb_pending := selection\<rparr>\<rparr>)"

definition complete_selection :: "64 word \<Rightarrow> StagedMobileSelection \<Rightarrow> ('d, 'n, string \<times> bool) mobile_op" where
  "complete_selection operation selected =
     bindE (getsE mw_service) (\<lambda>s.
     if mb_active s \<noteq> Some operation \<or> mb_session s \<noteq> None then throwE Conflict
     else
       bindE (liftE (MobileSourceHandle_new (sg_source_token selected))) (\<lambda>handle_token.
       bindE (drop_pending (mb_pending s)) (\<lambda>_.
       bindE (set_pending (Some \<lparr>ps_staged_path = sg_staged_path selected, ps_file_name = sg_file_name selected,
         ps_handle = handle_token, ps_writable = sg_writable selected, ps_recovery_required = sg_recovery_required selected\<rparr>)) (\<lambda>_.
       bindE (modifyE (\<lambda>w. w\<lparr>mw_service := (mw_service w)\<lparr>mb_active := None\<rparr>\<rparr>)) (\<lambda>_.
       returnE (sg_file_name selected, sg_writable selected))))))"

definition mobile_unlock :: "('d, 'v) service_env \<Rightarrow> string \<Rightarrow> ('d, 'n, VaultCoreSnapshotDto) mobile_op" where
  "mobile_unlock ev password =
     bindE (on_service can_select) (\<lambda>_.
     bindE (getsE (mb_pending \<circ> mw_service)) (\<lambda>taken.
     bindE (liftE (ok_or NoVaultSelected taken)) (\<lambda>selection.
     if ps_recovery_required selection then throwE RecoveryRequired
     else
       bindE (set_pending None) (\<lambda>_.
       bindE (tryE (liftE (MobileSourceHandle_new (ps_handle selection)))) (\<lambda>token. case token of
         Inl e \<Rightarrow> bindE (drop_pending taken) (\<lambda>_. throwE e)
       | Inr token \<Rightarrow>
           bindE (tryE (on_device (open_candidate ev (ps_staged_path selection) token (ps_writable selection) password))) (\<lambda>opened.
           case opened of
             Inl e \<Rightarrow> bindE (set_pending taken) (\<lambda>_. throwE e)
           | Inr (session, snapshot) \<Rightarrow>
               bindE (tryE (on_device (device_remove (ps_staged_path selection)))) (\<lambda>removed.
               bindE (drop_pending taken) (\<lambda>_. case removed of
                 Inl _ \<Rightarrow> throwE Internal
               | Inr _ \<Rightarrow>
                   bindE (modifyE (\<lambda>w. w\<lparr>mw_service := (mw_service w)\<lparr>mb_session := Some session\<rparr>\<rparr>)) (\<lambda>_.
                   returnE snapshot)))))))))"

subsection \<open>The mutex\<close>

definition forget_result :: "('s, 'e, 'a) op \<Rightarrow> 's \<Rightarrow> 's" where
  "forget_result m = (\<lambda>s. snd (m s))"

text \<open>One request while the mutex is held.\<close>

definition run_request :: "('d, 'v) service_env \<Rightarrow> mobile_request \<Rightarrow> ('d, 'n) mobile_world \<Rightarrow> ('d, 'n) mobile_world" where
  "run_request ev request w = (if mw_poisoned w then w else (case request of
     RunEdit draws edit \<Rightarrow> forget_result (on_service (mobile_perform_edit ev draws edit)) w
   | RunUnlock password \<Rightarrow> forget_result (mobile_unlock ev password) w
   | StartSelection \<Rightarrow> forget_result (on_service begin_selection) w
   | StartSave \<Rightarrow> forget_result (on_service begin_save) w
   | StartReload \<Rightarrow> forget_result (on_service begin_reload) w
   | StartLock \<Rightarrow> forget_result (on_service begin_lock) w
   | StartDiscard \<Rightarrow> forget_result (on_service begin_discard_and_lock) w
   | StartImport \<Rightarrow> forget_result (on_service begin_attachment_import) w
   | StartExport \<Rightarrow> forget_result (on_service begin_attachment_export) w))"

definition take_mutex :: "('d, 'v) service_env \<Rightarrow> MobileError \<Rightarrow> ('d, 'n, unit) mobile_op" where
  "take_mutex ev e = (\<lambda>w.
     let t = fold (run_request ev) (case mw_others w of [] \<Rightarrow> [] | requests # _ \<Rightarrow> requests) (w\<lparr>mw_others := tl (mw_others w)\<rparr>) in
     (if mw_poisoned t then Inl e else Inr (), t))"

definition locked_call :: "('d, 'v) service_env \<Rightarrow> MobileError \<Rightarrow> ('d, 'n, 'a) mobile_op \<Rightarrow> ('d, 'n, 'a) mobile_op" where
  "locked_call ev e m = bindE (take_mutex ev e) (\<lambda>_. m)"

definition finish :: "('d, 'v) service_env \<Rightarrow> 64 word \<Rightarrow> ('d, 'n, unit) mobile_op" where
  "finish ev operation =
     bindE (tryE (locked_call ev Internal (modifyE (\<lambda>w. w\<lparr>mw_service := cancel_operation operation (mw_service w)\<rparr>)))) (\<lambda>_. returnE ())"

subsection \<open>Saving and reloading\<close>

definition service_prepare_save ::
    "('d, 'v) service_env \<Rightarrow> 64 word \<Rightarrow> string \<Rightarrow> string \<Rightarrow> string \<Rightarrow> ('d, 'n, PreparedMobileSave) mobile_op" where
  "service_prepare_save ev operation current_path candidate_path password =
     bindE (on_service (bindE (require_operation SaveUncertain operation) (\<lambda>_. mobile_session SaveUncertain))) (\<lambda>session.
     bindE (getsE mw_seed) (\<lambda>seed.
     bindE (modifyE (\<lambda>w. w\<lparr>mw_seed := Suc seed\<rparr>)) (\<lambda>_.
     on_device (session_prepare_save ev seed operation current_path candidate_path password session))))"

definition service_mark_verified_saved ::
    "('d, 'v) service_env \<Rightarrow> PreparedMobileSave \<Rightarrow> string \<Rightarrow> string \<Rightarrow> ('d, 'n, VaultCoreSnapshotDto) mobile_op" where
  "service_mark_verified_saved ev prepared read_back_path password =
     bindE (on_service (bindE (require_operation SaveUncertain (pm_operation prepared)) (\<lambda>_. mobile_session SaveUncertain))) (\<lambda>session.
     bindE (on_device (session_mark_verified_saved ev prepared read_back_path password session)) (\<lambda>saved.
     bindE (modifyE (\<lambda>w. w\<lparr>mw_service := (mw_service w)\<lparr>mb_session := Some saved\<rparr>\<rparr>)) (\<lambda>_.
     liftE (snapshot_for ev (ms_document saved) (ms_saved_revision saved)))))"

definition run_save_transaction ::
    "'n native_source \<Rightarrow> string \<Rightarrow> (string \<Rightarrow> string \<Rightarrow> ('d, 'n, string \<times> string \<times> 'c) mobile_op) \<Rightarrow>
     ('c \<Rightarrow> string \<Rightarrow> ('d, 'n, 'a) mobile_op) \<Rightarrow> ('d, 'n, 'a) mobile_op" where
  "run_save_transaction ns source_token prepare verify =
     bindE (on_device (ns_prepare_save ns source_token)) (\<lambda>paths.
     let abort = tell_device (ns_abort_save ns source_token (np_transaction_token paths)) in
     bindE (tryE (prepare (np_current_path paths) (np_candidate_path paths))) (\<lambda>prepared. case prepared of
       Inl e \<Rightarrow> bindE abort (\<lambda>_. throwE e)
     | Inr (baseline, candidate, context) \<Rightarrow>
         bindE (tryE (on_device (ns_commit_candidate ns source_token (np_transaction_token paths) baseline candidate))) (\<lambda>committed.
         case (case committed of Inl e \<Rightarrow> CommitFailed e | Inr outcome \<Rightarrow> outcome) of
           CommitFailed e \<Rightarrow> bindE (if e = SaveUncertain then abort else returnE ()) (\<lambda>_. throwE e)
         | Verified read_back \<Rightarrow>
             bindE (tryE (verify context read_back)) (\<lambda>verified. case verified of
               Inl _ \<Rightarrow> bindE abort (\<lambda>_. throwE SaveUncertain)
             | Inr result \<Rightarrow>
                 bindE (on_device (ns_finalize_save ns source_token (np_transaction_token paths))) (\<lambda>_.
                 returnE result)))))"

definition mobile_save ::
    "('d, 'v) service_env \<Rightarrow> 'n native_source \<Rightarrow> string \<Rightarrow> ('d, 'n, VaultCoreSnapshotDto) mobile_op" where
  "mobile_save ev ns password =
     bindE (locked_call ev Internal (on_service begin_save)) (\<lambda>(operation, source_token).
     bindE (tryE (run_save_transaction ns source_token
       (\<lambda>current_path candidate_path.
         bindE (locked_call ev Internal (service_prepare_save ev operation current_path candidate_path password)) (\<lambda>prepared.
         returnE (pm_baseline prepared, pm_candidate prepared, prepared)))
       (\<lambda>prepared read_back.
         locked_call ev SaveUncertain (service_mark_verified_saved ev prepared read_back password)))) (\<lambda>result.
     bindE (finish ev operation) (\<lambda>_. liftE result)))"

definition service_reload_candidate ::
    "('d, 'v) service_env \<Rightarrow> 64 word \<Rightarrow> string \<Rightarrow> string \<Rightarrow> ('d, 'n, VaultCoreSnapshotDto) mobile_op" where
  "service_reload_candidate ev operation p password =
     bindE (on_service (bindE (require_operation ReloadFailed operation) (\<lambda>_. mobile_session ReloadFailed))) (\<lambda>session.
     bindE (on_device (session_reload_candidate ev p password session)) (\<lambda>(reloaded, snapshot).
     bindE (modifyE (\<lambda>w. w\<lparr>mw_service := (mw_service w)\<lparr>mb_session := Some reloaded\<rparr>\<rparr>)) (\<lambda>_.
     returnE snapshot)))"

definition mobile_reload ::
    "('d, 'v) service_env \<Rightarrow> 'n native_source \<Rightarrow> string \<Rightarrow> ('d, 'n, VaultCoreSnapshotDto) mobile_op" where
  "mobile_reload ev ns password =
     bindE (locked_call ev Internal (on_service begin_reload)) (\<lambda>(operation, source_token).
     bindE (tryE (on_device (ns_stage_current ns source_token))) (\<lambda>staged. case staged of
       Inl e \<Rightarrow> bindE (finish ev operation) (\<lambda>_. throwE e)
     | Inr (read_token, staged_path) \<Rightarrow>
         bindE (tryE (locked_call ev ReloadFailed (service_reload_candidate ev operation staged_path password))) (\<lambda>result.
         bindE (tell_device (ns_finish_read ns source_token read_token)) (\<lambda>_.
         bindE (finish ev operation) (\<lambda>_. liftE result)))))"

subsection \<open>Locking and selecting\<close>

datatype MobileLockKind = CleanLock | DiscardLock

definition mobile_lock :: "('d, 'v) service_env \<Rightarrow> 'n native_source \<Rightarrow> MobileLockKind \<Rightarrow> ('d, 'n, unit) mobile_op" where
  "mobile_lock ev ns kind =
     bindE (locked_call ev Internal (on_service (case kind of CleanLock \<Rightarrow> begin_lock | DiscardLock \<Rightarrow> begin_discard_and_lock)))
       (\<lambda>(operation, source_token).
     bindE (tryE (on_device (ns_release ns source_token False))) (\<lambda>released. case released of
       Inr _ \<Rightarrow> locked_call ev Internal (on_service (complete_lock_operation operation))
     | Inl e \<Rightarrow> bindE (finish ev operation) (\<lambda>_. throwE e)))"

definition release_quietly :: "'n native_source \<Rightarrow> string \<Rightarrow> bool \<Rightarrow> ('d, 'n, unit) mobile_op" where
  "release_quietly ns token preserve = bindE (tryE (on_device (ns_release ns token preserve))) (\<lambda>_. returnE ())"

text \<open>Here a poisoned mutex ends the command, so \<open>finish\<close> is a call that may fail.\<close>

definition finish_or_fail :: "('d, 'v) service_env \<Rightarrow> 64 word \<Rightarrow> ('d, 'n, unit) mobile_op" where
  "finish_or_fail ev operation =
     locked_call ev Internal (modifyE (\<lambda>w. w\<lparr>mw_service := cancel_operation operation (mw_service w)\<rparr>))"

definition mobile_select :: "('d, 'v) service_env \<Rightarrow> 'n native_source \<Rightarrow> ('d, 'n, (string \<times> bool) option) mobile_op" where
  "mobile_select ev ns =
     bindE (locked_call ev Internal (on_service begin_selection)) (\<lambda>(operation, previous).
     bindE (tryE (on_device (ns_select ns))) (\<lambda>selected. case selected of
       Inl e \<Rightarrow> bindE (finish_or_fail ev operation) (\<lambda>_. throwE e)
     | Inr None \<Rightarrow> bindE (finish_or_fail ev operation) (\<lambda>_. returnE None)
     | Inr (Some selected) \<Rightarrow>
         let release_selected = release_quietly ns (sg_source_token selected) (sg_recovery_required selected) in
         bindE (case previous of
             None \<Rightarrow> returnE (Inr ())
           | Some (token, preserve) \<Rightarrow> tryE (on_device (ns_release ns token preserve))) (\<lambda>released. case released of
           Inl e \<Rightarrow> bindE release_selected (\<lambda>_. bindE (finish_or_fail ev operation) (\<lambda>_. throwE e))
         | Inr _ \<Rightarrow>
             bindE (take_mutex ev Internal) (\<lambda>_.
             bindE (tryE (complete_selection operation selected)) (\<lambda>completed. case completed of
               Inr dto \<Rightarrow> returnE (Some dto)
             | Inl e \<Rightarrow> bindE release_selected (\<lambda>_. bindE (finish_or_fail ev operation) (\<lambda>_. throwE e)))))))"

subsection \<open>Attachments\<close>

definition MAX_MOBILE_ATTACHMENT_BYTES :: nat where "MAX_MOBILE_ATTACHMENT_BYTES = 64 * 1024 * 1024"

definition complete_attachment_import ::
    "('d, 'v) service_env \<Rightarrow> edit_supply \<Rightarrow> 64 word \<Rightarrow> string \<Rightarrow> string \<Rightarrow> string \<Rightarrow> ('d, 'n, VaultCoreSnapshotDto) mobile_op" where
  "complete_attachment_import ev draws operation i name staged_path =
     bindE (on_service (bindE (require_operation Internal operation) (\<lambda>_. mobile_session Locked))) (\<lambda>session.
     if \<not> ms_writable session then throwE PersistenceUnsupported
     else
       bindE (liftE (mobile_require_id i)) (\<lambda>_.
       if name = [] then throwE InvalidRequest
       else
         bindE (map_errE (\<lambda>_. Internal) (on_device (device_read staged_path))) (\<lambda>measured.  \<comment> \<open>metadata\<close>
         if length measured > MAX_MOBILE_ATTACHMENT_BYTES then throwE InvalidRequest
         else
           bindE (map_errE (\<lambda>_. Internal) (on_device (device_read staged_path))) (\<lambda>bs.
           if length bs > MAX_MOBILE_ATTACHMENT_BYTES then throwE InvalidRequest
           else
             bindE (on_service (on_open_session (session_edit_document ev draws (AddEntryAttachment i name bs)))) (\<lambda>_.
             bindE (on_service (mobile_session Locked)) (\<lambda>session.
             liftE (snapshot_for ev (ms_document session) (ms_saved_revision session))))))))"

definition mobile_import_attachment ::
    "('d, 'v) service_env \<Rightarrow> 'n native_source \<Rightarrow> edit_supply \<Rightarrow> string \<Rightarrow> ('d, 'n, VaultCoreSnapshotDto option) mobile_op" where
  "mobile_import_attachment ev ns draws i =
     bindE (locked_call ev Internal (on_service begin_attachment_import)) (\<lambda>(operation, _).
     bindE (tryE (on_device (ns_select_attachment_import ns))) (\<lambda>selected. case selected of
       Inl e \<Rightarrow> bindE (finish_or_fail ev operation) (\<lambda>_. throwE e)
     | Inr None \<Rightarrow> bindE (finish_or_fail ev operation) (\<lambda>_. returnE None)
     | Inr (Some (token, staged_path, file_name)) \<Rightarrow>
         bindE (take_mutex ev Internal) (\<lambda>_.
         bindE (tryE (complete_attachment_import ev draws operation i file_name staged_path)) (\<lambda>result.
         bindE (tryE (on_device (device_remove staged_path))) (\<lambda>_.
         bindE (tell_device (ns_finish_attachment_import ns token)) (\<lambda>_.
         bindE (finish_or_fail ev operation) (\<lambda>_.
         liftE (bindR result (\<lambda>snapshot. Inr (Some snapshot))))))))))"

definition prepare_attachment_export ::
    "('d, 'v) service_env \<Rightarrow> 64 word \<Rightarrow> string \<Rightarrow> string \<Rightarrow> string \<Rightarrow> ('d, 'n, unit) mobile_op" where
  "prepare_attachment_export ev operation i name candidate_path =
     bindE (on_service (bindE (require_operation Internal operation) (\<lambda>_. mobile_session Locked))) (\<lambda>session.
     bindE (liftE (mobile_require_id i)) (\<lambda>_.
     if name = [] then throwE InvalidRequest
     else
       bindE (liftE (map_err mobile_map_mutation_error (entry_attachment_bytes (sv_lib ev) (ms_document session) i name))) (\<lambda>bs.
       map_errE (\<lambda>_. Internal) (on_device
         (bindE (device_create_new candidate_path) (\<lambda>_. bindE (device_put candidate_path bs) (\<lambda>_. device_sys)))))))"

definition mobile_export_attachment ::
    "('d, 'v) service_env \<Rightarrow> 'n native_source \<Rightarrow> string \<Rightarrow> string \<Rightarrow> ('d, 'n, bool) mobile_op" where
  "mobile_export_attachment ev ns i name =
     bindE (locked_call ev Internal (on_service begin_attachment_export)) (\<lambda>(operation, _).
     bindE (tryE (on_device (ns_prepare_attachment_export ns))) (\<lambda>ready. case ready of
       Inl e \<Rightarrow> bindE (finish_or_fail ev operation) (\<lambda>_. throwE e)
     | Inr (token, candidate_path) \<Rightarrow>
         let abort = tell_device (ns_abort_attachment_export ns token) in
         bindE (take_mutex ev Internal) (\<lambda>_.
         bindE (tryE (prepare_attachment_export ev operation i name candidate_path)) (\<lambda>prepared. case prepared of
           Inl e \<Rightarrow>
             bindE (tryE (on_device (device_remove candidate_path))) (\<lambda>_.
             bindE abort (\<lambda>_. bindE (finish_or_fail ev operation) (\<lambda>_. throwE e)))
         | Inr _ \<Rightarrow>
             bindE (tryE (on_device (ns_export_attachment ns token name))) (\<lambda>exported.
             bindE (case exported of Inl _ \<Rightarrow> abort | Inr _ \<Rightarrow> returnE ()) (\<lambda>_.
             bindE (finish_or_fail ev operation) (\<lambda>_. liftE exported)))))))"

subsection \<open>Reads\<close>

definition with_mobile_session ::
    "('d MobileVaultSession \<Rightarrow> MobileError + 'a) \<Rightarrow> 'd mobile_service \<Rightarrow> MobileError + 'a" where
  "with_mobile_session read s = bindR (ok_or Locked (mb_session s)) read"

definition mobile_snapshot :: "('d, 'v) service_env \<Rightarrow> 'd mobile_service \<Rightarrow> MobileError + VaultCoreSnapshotDto" where
  "mobile_snapshot ev s = with_mobile_session (\<lambda>session. snapshot_for ev (ms_document session) (ms_saved_revision session)) s"

definition mobile_entry_detail :: "('d, 'v) service_env \<Rightarrow> string \<Rightarrow> 'd mobile_service \<Rightarrow> MobileError + EntryDetailDto" where
  "mobile_entry_detail ev i s = with_mobile_session (\<lambda>session.
     bindR (mobile_require_id i) (\<lambda>_.
     bindR (map_err (\<lambda>_. Internal) (projection (sv_lib ev) (ms_document session))) (\<lambda>root.
     bindR (ok_or EntryNotFound (find_entry i root)) (\<lambda>summary.
     bindR (map_err mobile_map_mutation_error (custom_fields (sv_lib ev) (ms_document session) i)) (\<lambda>fields.
     Inr \<lparr>dt_summary = summary, dt_custom_fields = fields\<rparr>))))) s"

definition mobile_entry_history :: "('d, 'v) service_env \<Rightarrow> string \<Rightarrow> 'd mobile_service \<Rightarrow> MobileError + EntryHistory" where
  "mobile_entry_history ev i s = with_mobile_session (\<lambda>session.
     bindR (mobile_require_id i) (\<lambda>_. map_err mobile_map_mutation_error (entry_history (sv_lib ev) (ms_document session) i))) s"

definition mobile_entry_attachments ::
    "('d, 'v) service_env \<Rightarrow> string \<Rightarrow> 'd mobile_service \<Rightarrow> MobileError + EntryAttachmentSummary list" where
  "mobile_entry_attachments ev i s = with_mobile_session (\<lambda>session.
     bindR (mobile_require_id i) (\<lambda>_. map_err mobile_map_mutation_error (entry_attachments (sv_lib ev) (ms_document session) i))) s"

definition mobile_entry_totp_code ::
    "('d, 'v) service_env \<Rightarrow> nat \<Rightarrow> string \<Rightarrow> 'd mobile_service \<Rightarrow> MobileError + EntryTotpCode" where
  "mobile_entry_totp_code ev now i s = with_mobile_session (\<lambda>session.
     bindR (mobile_require_id i) (\<lambda>_.
     map_err mobile_map_mutation_error (entry_totp_code_at (sv_lib ev) (sv_totp ev) (ms_document session) i now))) s"

datatype MobileSecretKind = TitleSecret | UsernameSecret | UrlSecret | NotesSecret

definition mobile_entry_secret ::
    "('d, 'v) service_env \<Rightarrow> string \<Rightarrow> MobileSecretKind \<Rightarrow> 'd mobile_service \<Rightarrow> MobileError + string" where
  "mobile_entry_secret ev i kind s = with_mobile_session (\<lambda>session.
     bindR (mobile_require_id i) (\<lambda>_.
     bindR (map_err mobile_map_mutation_error ((case kind of
         TitleSecret \<Rightarrow> entry_title | UsernameSecret \<Rightarrow> entry_username | UrlSecret \<Rightarrow> entry_url | NotesSecret \<Rightarrow> entry_notes)
       (sv_lib ev) (ms_document session) i)) (\<lambda>value.
     ok_or SecretUnavailable value))) s"

definition mobile_entry_custom_field ::
    "('d, 'v) service_env \<Rightarrow> string \<Rightarrow> string \<Rightarrow> 'd mobile_service \<Rightarrow> MobileError + string" where
  "mobile_entry_custom_field ev i name s = with_mobile_session (\<lambda>session.
     bindR (mobile_require_id i) (\<lambda>_.
     bindR (map_err mobile_map_mutation_error (entry_custom_field (sv_lib ev) (ms_document session) i name)) (\<lambda>value.
     ok_or SecretUnavailable value))) s"

end
