(* ===== verification/Mobile_Properties.thy ===== *)
theory Mobile_Properties
  imports Mobile_Service Desktop_Properties
begin

section \<open>Saving and losing nothing on a phone\<close>

text \<open>
  While a command runs native code it does not hold the mutex, but its operation is active, and every
  other request is refused then. So a save ends with the session it began with, marked as saved only
  for a document that was read back and compared, and unsaved edits survive every command that does
  not discard them.
\<close>

lemma same_service [simp]: "w\<lparr>mw_service := mw_service w\<rparr> = w"
  by (cases w) simp

lemma wpE_on_device:
  "wpE (on_device m) Q R w = wpE m (\<lambda>a d. Q a (w\<lparr>mw_device := d\<rparr>)) (\<lambda>e d. R e (w\<lparr>mw_device := d\<rparr>)) (mw_device w)"
  by (simp add: wpE_def on_device_def split: prod.split sum.split)

lemma wpE_on_service:
  "wpE (on_service m) Q R w = wpE m (\<lambda>a s. Q a (w\<lparr>mw_service := s\<rparr>)) (\<lambda>e s. R e (w\<lparr>mw_service := s\<rparr>)) (mw_service w)"
  by (simp add: wpE_def on_service_def split: prod.split sum.split)

subsection \<open>One operation at a time\<close>

lemma not_busy_active: "mb_active s = Some i \<Longrightarrow> not_busy s = (Inl Busy, s)"
  by (simp add: not_busy_def op_defs)

lemma active_refuses:
  assumes "mb_active (mw_service w) = Some i"
  shows "run_request ev request w = w"
  using assms
  by (cases request)
    (simp_all add: run_request_def forget_result_def on_service_def mobile_perform_edit_def session_mut_for_mutation_def
      mobile_unlock_def can_select_def begin_selection_def begin_save_def begin_reload_def begin_lock_def
      begin_discard_and_lock_def begin_attachment_import_def begin_attachment_export_def mobile_session_def
      not_busy_active ok_or_def op_defs split: option.split)

lemma active_take_mutex:
  assumes "mb_active (mw_service w) = Some i"
  shows "take_mutex ev e w = (if mw_poisoned w then Inl e else Inr (), w\<lparr>mw_others := tl (mw_others w)\<rparr>)"
proof -
  have "fold (run_request ev) requests (w\<lparr>mw_others := later\<rparr>) = w\<lparr>mw_others := later\<rparr>" for requests later
    using assms by (induction requests) (auto simp: active_refuses)
  then show ?thesis by (simp add: take_mutex_def Let_def)
qed

text \<open>At the start of a command, when nothing else has run yet.\<close>

lemma fresh_take_mutex:
  "mw_others w = [] # rest \<Longrightarrow> take_mutex ev e w = (if mw_poisoned w then Inl e else Inr (), w\<lparr>mw_others := rest\<rparr>)"
  by (simp add: take_mutex_def)

subsection \<open>Steps during an operation\<close>

text \<open>The service is \<open>v\<close>, with an active operation.\<close>

definition serving :: "'d mobile_service \<Rightarrow> ('d, 'n) mobile_world \<Rightarrow> bool" where
  "serving v w \<longleftrightarrow> mw_service w = v \<and> mb_active v \<noteq> None"

lemma serving_device: "preserves (serving v) (on_device m)" "preserves (serving v) (tell_device f)"
  by (auto simp: preserves_def serving_def on_device_def tell_device_def op_defs split: prod.split)

subsection \<open>A save\<close>

text \<open>
  What the file at \<open>p\<close> holds when the session is marked: it is read twice, first for its generation and
  then to open it, and opens with the password to a document equal to that of the session.
\<close>

definition reads_back ::
    "('d, 'v) service_env \<Rightarrow> string \<Rightarrow> 'd MobileVaultSession \<Rightarrow> string \<Rightarrow> bytes \<Rightarrow> 'n device \<Rightarrow> bool" where
  "reads_back ev password s p bs d \<longleftrightarrow>
     (\<exists>bs' reopened d1 d2. device_read p d = (Inr bs, d1) \<and> device_read p d1 = (Inr bs', d2) \<and>
        open_reader_with_credential (vx_kdbx (sv_vault ev)) bs' (password_credential password) = Inr reopened \<and>
        verify_semantic_equivalence (vx_kdbx (sv_vault ev)) (ms_document s) reopened = Inr ())"

text \<open>
  What a session is after a verified save: the same document, counted as saved. The native code was
  asked to replace exactly the generation the session had as its baseline and said it did; the file it
  handed back has the generation that it was asked to write, which is the new baseline.
\<close>

definition verified_session ::
    "('d, 'v) service_env \<Rightarrow> 'n native_source \<Rightarrow> string \<Rightarrow> 'd MobileVaultSession \<Rightarrow> 'd MobileVaultSession \<Rightarrow> bool" where
  "verified_session ev ns password s saved \<longleftrightarrow>
     (\<exists>transaction before after p bs.
        ns_commit_candidate ns (ms_handle s) transaction (native_identity (ms_baseline s))
          (native_identity (generation_of (sv_vault ev) bs)) before = (Inr (Verified p), after) \<and>
        reads_back ev password s p bs after \<and>
        saved = s\<lparr>ms_baseline := generation_of (sv_vault ev) bs, ms_saved_revision := kd_revision (ms_document s)\<rparr>)"

lemma wpE_self: "wpE m (\<lambda>a t. m s = (Inr a, t)) (\<lambda>_ _. True) s"
  by (simp add: wpE_def split: prod.split sum.split)

lemma wpE_from_path:
  "(\<And>bs t. device_read p d = (Inr bs, t) \<Longrightarrow> Q (generation_of ext bs) t) \<Longrightarrow> (\<And>e t. R e t) \<Longrightarrow>
   wpE (EncryptedGeneration_from_path ext p) Q R d"
  unfolding EncryptedGeneration_from_path_def wpE_bindE wpE_map_errE
  by (rule wpE_mono [OF wpE_self]) (auto simp: wp_simps)

lemma wpE_mobile_open:
  "(\<And>bs doc t. device_read p d = (Inr bs, t) \<Longrightarrow>
      open_reader_with_credential (vx_kdbx ext) bs (password_credential password) = Inr doc \<Longrightarrow> Q doc t) \<Longrightarrow>
   (\<And>e t. R e t) \<Longrightarrow> wpE (mobile_open ext p password) Q R d"
  unfolding mobile_open_def wpE_bindE wpE_map_errE
  by (rule wpE_mono [OF wpE_self]) (auto simp: wp_simps split: sum.split)

lemma wpE_session_mark:
  "wpE (session_mark_verified_saved ev prepared p password s)
     (\<lambda>saved _. \<exists>bs. native_identity (generation_of (sv_vault ev) bs) = pm_candidate prepared \<and> reads_back ev password s p bs d \<and>
        saved = s\<lparr>ms_baseline := generation_of (sv_vault ev) bs, ms_saved_revision := kd_revision (ms_document s)\<rparr>)
     (\<lambda>_ _. True) d"
  unfolding session_mark_verified_saved_def reads_back_def
  by (auto simp: wp_simps intro!: wpE_from_path wpE_mobile_open split: sum.split)

text \<open>The service after a verified save.\<close>

definition outcome_of_save ::
    "('d, 'v) service_env \<Rightarrow> 'n native_source \<Rightarrow> string \<Rightarrow> 'd mobile_service \<Rightarrow> 'd MobileVaultSession \<Rightarrow>
     ('d, 'n) mobile_world \<Rightarrow> bool" where
  "outcome_of_save ev ns password v s w \<longleftrightarrow> mb_active v \<noteq> None \<and>
     (\<exists>saved. verified_session ev ns password s saved \<and> mw_service w = v\<lparr>mb_session := Some saved\<rparr>)"

definition prepared_for :: "'d MobileVaultSession \<Rightarrow> string \<times> string \<times> PreparedMobileSave \<Rightarrow> bool" where
  "prepared_for s prepared \<longleftrightarrow> (case prepared of (baseline, candidate, context) \<Rightarrow>
     baseline = native_identity (ms_baseline s) \<and> candidate = pm_candidate context)"

lemma wpE_session_prepare:
  "wpE (session_prepare_save ev seed operation current candidate password s)
     (\<lambda>prepared _. pm_baseline prepared = native_identity (ms_baseline s)) (\<lambda>_ _. True) d"
  unfolding session_prepare_save_def
  by (auto simp: wpE_returnE wpE_throwE intro!: wpE_then)

lemma mutex_device: "serving v t \<Longrightarrow>
    wpE (take_mutex ev e) (\<lambda>_ u. serving v u \<and> mw_device u = mw_device t) (\<lambda>_ u. serving v u) t"
  by (auto simp: wpE_def serving_def active_take_mutex)

lemma wpE_prepare:
  assumes "serving v w" and "mb_session v = Some s"
  shows "wpE (bindE (locked_call ev e (service_prepare_save ev operation p q password)) (\<lambda>prepared.
      returnE (pm_baseline prepared, pm_candidate prepared, prepared)))
    (\<lambda>prepared t. serving v t \<and> prepared_for s prepared) (\<lambda>_. serving v) w"
proof -
  have "wpE (service_prepare_save ev operation p q password)
      (\<lambda>prepared t. serving v t \<and> prepared_for s (pm_baseline prepared, pm_candidate prepared, prepared)) (\<lambda>_. serving v) t"
    if "serving v t" for t
    using that assms(2)
    unfolding service_prepare_save_def
    by (auto simp: wp_simps wpE_on_service wpE_on_device require_operation_def mobile_session_def ok_or_def serving_def
        prepared_for_def intro!: wpE_mono [OF wpE_session_prepare])
  then show ?thesis
    unfolding locked_call_def wpE_bindE wpE_returnE
    by (rule wpE_mono [OF mutex_device [OF assms(1)]]) auto
qed

lemma wpE_mark:
  assumes "serving v w" and "mb_session v = Some s" and "prepared_for s (baseline, candidate, prepared)"
    and "ns_commit_candidate ns (ms_handle s) transaction baseline candidate before = (Inr (Verified p), mw_device w)"
  shows "wpE (locked_call ev e (service_mark_verified_saved ev prepared p password)) (\<lambda>_. outcome_of_save ev ns password v s)
    (\<lambda>_ t. serving v t \<or> outcome_of_save ev ns password v s t) w"
proof -
  have marked: "verified_session ev ns password s saved"
    if "native_identity (generation_of (sv_vault ev) bs) = pm_candidate prepared" "reads_back ev password s p bs (mw_device w)"
      "saved = s\<lparr>ms_baseline := generation_of (sv_vault ev) bs, ms_saved_revision := kd_revision (ms_document s)\<rparr>" for bs saved
    unfolding verified_session_def
    using that assms(3,4) by (intro exI [of _ transaction] exI [of _ before] exI [of _ "mw_device w"] exI [of _ p] exI [of _ bs])
      (auto simp: prepared_for_def)
  have "wpE (service_mark_verified_saved ev prepared p password) (\<lambda>_. outcome_of_save ev ns password v s)
      (\<lambda>_ t. serving v t \<or> outcome_of_save ev ns password v s t) t" if "serving v t" "mw_device t = mw_device w" for t
    using that assms(2)
    unfolding service_mark_verified_saved_def
    by (auto simp: wp_simps wpE_on_service wpE_on_device require_operation_def mobile_session_def ok_or_def serving_def
        outcome_of_save_def intro!: wpE_mono [OF wpE_session_mark] marked split: sum.split)
  then show ?thesis
    unfolding locked_call_def wpE_bindE
    by (rule wpE_mono [OF mutex_device [OF assms(1)]]) auto
qed

lemma wpE_save_transaction:
  assumes "serving v w"
    and prepare: "\<And>p q t. serving v t \<Longrightarrow> wpE (prepare p q) (\<lambda>c t. serving v t \<and> prepared_for s c) (\<lambda>_. serving v) t"
    and verify: "\<And>baseline candidate c transaction before p t. serving v t \<Longrightarrow> prepared_for s (baseline, candidate, c) \<Longrightarrow>
      ns_commit_candidate ns token transaction baseline candidate before = (Inr (Verified p), mw_device t) \<Longrightarrow>
      wpE (verify c p) (\<lambda>_. outcome_of_save ev ns password v s) (\<lambda>_ t. serving v t \<or> outcome_of_save ev ns password v s t) t"
  shows "wpE (run_save_transaction ns token prepare verify) (\<lambda>_. outcome_of_save ev ns password v s)
    (\<lambda>_ t. serving v t \<or> outcome_of_save ev ns password v s t) w"
proof -
  let ?O = "outcome_of_save ev ns password v s"
  let ?R = "\<lambda>_ t. serving v t \<or> ?O t"
  have device: "?R e t \<Longrightarrow> ?R e (t\<lparr>mw_device := d\<rparr>)" for e :: MobileError and t d
    by (auto simp: serving_def outcome_of_save_def)
  have abort: "?R e t \<Longrightarrow> wpE (bindE (tell_device f) (\<lambda>_. throwE e)) Q ?R t" for Q f e t
    by (simp add: tell_device_def wp_simps device)
  have refused: "?R e t \<Longrightarrow> wpE (bindE (returnE ()) (\<lambda>_. throwE e)) Q ?R t" for Q e t
    by (simp add: wp_simps)
  have finalize: "?O t \<Longrightarrow> wpE (bindE (on_device m) (\<lambda>_. returnE a)) (\<lambda>_. ?O) ?R t" for m a t
    by (auto simp: wp_simps wpE_on_device outcome_of_save_def intro!: wpE_all)
  have commit: "wpE (bindE (tryE (on_device (ns_commit_candidate ns token tr baseline candidate))) (\<lambda>committed.
      case (case committed of Inl e \<Rightarrow> CommitFailed e | Inr outcome \<Rightarrow> outcome) of
        CommitFailed e \<Rightarrow> bindE (if e = SaveUncertain then tell_device f else returnE ()) (\<lambda>_. throwE e)
      | Verified p \<Rightarrow> bindE (tryE (verify c p)) (\<lambda>verified. case verified of
          Inl _ \<Rightarrow> bindE (tell_device f) (\<lambda>_. throwE SaveUncertain)
        | Inr result \<Rightarrow> bindE (on_device m) (\<lambda>_. returnE result)))) (\<lambda>_. ?O) ?R t"
    if "serving v t" "prepared_for s (baseline, candidate, c)" for tr f m c baseline candidate t
  proof -
    have after: "serving v (t\<lparr>mw_device := d\<rparr>)" for d using that(1) by (simp add: serving_def)
    have verified: "wpE (bindE (tryE (verify c p)) (\<lambda>verified. case verified of
          Inl _ \<Rightarrow> bindE (tell_device f) (\<lambda>_. throwE SaveUncertain)
        | Inr result \<Rightarrow> bindE (on_device m) (\<lambda>_. returnE result))) (\<lambda>_. ?O) ?R (t\<lparr>mw_device := d\<rparr>)"
      if "ns_commit_candidate ns token tr baseline candidate (mw_device t) = (Inr (Verified p), d)" for p d
      unfolding wpE_bindE [of "tryE _"] wpE_tryE
      by (rule wpE_mono [OF verify [OF after \<open>prepared_for s (baseline, candidate, c)\<close>]])
        (use that in \<open>auto simp: abort finalize\<close>)
    show ?thesis
      unfolding wpE_bindE [of "tryE (on_device _)"] wpE_tryE wpE_on_device
      by (rule wpE_mono [OF wpE_self])
        (auto simp: abort refused after verified split: NativeCommitOutcome.split)
  qed
  have step: "wpE (on_device m) (\<lambda>_. serving v) (\<lambda>_. serving v) t" if "serving v t" for m :: "('b device, MobileError, 'y) op" and t
    by (rule preservesD [OF serving_device(1) that])
  show ?thesis
    unfolding run_save_transaction_def wpE_bindE [of "on_device (ns_prepare_save _ _)"] Let_def
  proof (rule wpE_mono [OF step [OF assms(1)]])
    fix paths and t :: "('a, 'b) mobile_world" assume "serving v t"
    show "wpE (bindE (tryE (prepare (np_current_path paths) (np_candidate_path paths))) (\<lambda>prepared. case prepared of
        Inl e \<Rightarrow> bindE (tell_device (ns_abort_save ns token (np_transaction_token paths))) (\<lambda>_. throwE e)
      | Inr (baseline, candidate, context) \<Rightarrow>
          bindE (tryE (on_device (ns_commit_candidate ns token (np_transaction_token paths) baseline candidate))) (\<lambda>committed.
          case (case committed of Inl e \<Rightarrow> CommitFailed e | Inr outcome \<Rightarrow> outcome) of
            Verified read_back \<Rightarrow> bindE (tryE (verify context read_back)) (\<lambda>verified. case verified of
              Inl _ \<Rightarrow> bindE (tell_device (ns_abort_save ns token (np_transaction_token paths))) (\<lambda>_. throwE SaveUncertain)
            | Inr result \<Rightarrow> bindE (on_device (ns_finalize_save ns token (np_transaction_token paths))) (\<lambda>_. returnE result))
          | CommitFailed e \<Rightarrow> bindE (if e = SaveUncertain then tell_device (ns_abort_save ns token (np_transaction_token paths))
              else returnE ()) (\<lambda>_. throwE e)))) (\<lambda>_. ?O) ?R t"
      unfolding wpE_bindE [of "tryE (prepare _ _)"] wpE_tryE
      by (rule wpE_mono [OF prepare [OF \<open>serving v t\<close>]]) (auto simp: abort intro!: commit)
  qed auto
qed

lemma wpE_finish:
  assumes "mb_active (mw_service w) \<noteq> None"
  shows "wpE (finish ev i) (\<lambda>_ t. mb_session (mw_service t) = mb_session (mw_service w)) (\<lambda>_ _. False) w"
proof -
  obtain j where active: "mb_active (mw_service w) = Some j" using assms by blast
  show ?thesis
    by (simp add: wpE_def finish_def locked_call_def op_defs cancel_operation_def active_take_mutex [OF active])
qed

lemma active_session: "serving v t \<or> outcome_of_save ev ns password v s t \<Longrightarrow> mb_active (mw_service t) \<noteq> None"
  by (auto simp: serving_def outcome_of_save_def)

text \<open>A command that starts: its operation is active and the session is still the same.\<close>

definition starts_operation :: "('d mobile_service, MobileError, 64 word \<times> string) op \<Rightarrow> bool" where
  "starts_operation m \<longleftrightarrow> (\<forall>v s. mb_session v = Some s \<longrightarrow>
     wpE m (\<lambda>a u. snd a = ms_handle s \<and> mb_session u = Some s \<and> mb_active u \<noteq> None) (\<lambda>_ u. u = v) v)"

lemma starts_operation_begin:
  "starts_operation begin_save" "starts_operation begin_reload" "starts_operation begin_lock"
  "starts_operation begin_discard_and_lock" "starts_operation begin_attachment_import" "starts_operation begin_attachment_export"
  by (simp_all add: starts_operation_def begin_save_def begin_reload_def begin_lock_def begin_discard_and_lock_def
      begin_attachment_import_def begin_attachment_export_def begin_operation_def number_operation_def mobile_session_def
      not_busy_def ok_or_def wp_simps)

lemma wpE_start:
  assumes "starts_operation m" and "mb_session (mw_service w) = Some s" and "mw_others w = [] # rest"
    and "\<And>a t v. serving v t \<Longrightarrow> mb_session v = Some s \<Longrightarrow> snd a = ms_handle s \<Longrightarrow> wpE (f a) Q R t"
    and "\<And>e t. mw_service t = mw_service w \<Longrightarrow> R e t"
  shows "wpE (bindE (locked_call ev e (on_service m)) f) Q R w"
proof -
  have "wpE m (\<lambda>a u. snd a = ms_handle s \<and> mb_session u = Some s \<and> mb_active u \<noteq> None) (\<lambda>_ u. u = mw_service w) (mw_service w)"
    using assms(1,2) by (simp add: starts_operation_def)
  then have "wpE (on_service m) (\<lambda>a. wpE (f a) Q R) R (w\<lparr>mw_others := rest\<rparr>)"
    unfolding wpE_on_service
    by (simp, elim wpE_mono) (auto intro!: assms(4,5) simp: serving_def)
  then show ?thesis
    using assms(5)
    by (simp add: wpE_bindE locked_call_def wpE_def [of "take_mutex _ _"] fresh_take_mutex [OF assms(3)])
qed

lemma wpE_mobile_save:
  fixes ev :: "('d, 'v) service_env" and ns :: "'n native_source" and password :: string
  assumes "mb_session (mw_service w) = Some s" and "mw_others w = [] # rest"
  defines "marked \<equiv> \<lambda>t. \<exists>saved. mb_session (mw_service t) = Some saved \<and> verified_session ev ns password s saved"
  shows "wpE (mobile_save ev ns password) (\<lambda>_. marked) (\<lambda>_ t. mb_session (mw_service t) = Some s \<or> marked t) w"
proof -
  let ?saved = "\<lambda>t. \<exists>saved. mb_session (mw_service t) = Some saved \<and> verified_session ev ns password s saved"
  let ?R = "\<lambda>_ :: MobileError. \<lambda>t. mb_session (mw_service t) = Some s \<or> ?saved t"
  have finishing: "wpE (bindE (finish ev i) (\<lambda>_. liftE result)) (\<lambda>_. ?saved) ?R t"
    if "serving v t \<and> (\<exists>e. result = Inl e) \<or> outcome_of_save ev ns password v s t" "mb_session v = Some s" for v i t result
  proof -
    have "mb_active (mw_service t) \<noteq> None" using that(1) active_session by blast
    from wpE_finish [OF this] show ?thesis
      unfolding wpE_bindE
      by (rule wpE_mono) (use that in \<open>auto simp: wp_simps serving_def outcome_of_save_def split: sum.split\<close>)
  qed
  show ?thesis
    unfolding mobile_save_def marked_def
  proof (rule wpE_start [OF starts_operation_begin(1) assms(1,2)], clarsimp)
    fix i v and t :: "('d, 'n) mobile_world" assume v: "serving v t" "mb_session v = Some s"
    show "wpE (bindE (tryE (run_save_transaction ns (ms_handle s)
         (\<lambda>p q. bindE (locked_call ev Internal (service_prepare_save ev i p q password)) (\<lambda>prepared.
            returnE (pm_baseline prepared, pm_candidate prepared, prepared)))
         (\<lambda>prepared p. locked_call ev SaveUncertain (service_mark_verified_saved ev prepared p password)))) (\<lambda>result.
       bindE (finish ev i) (\<lambda>_. liftE result))) (\<lambda>_. ?saved) ?R t"
      unfolding wpE_bindE [of "tryE _"] wpE_tryE
      by (rule wpE_mono [OF wpE_save_transaction [OF v(1) wpE_prepare wpE_mark]])
        (auto intro!: finishing [OF _ v(2)] v(2))
  qed (use assms(1) in auto)
qed

text \<open>
  C13: A save on a phone never loses or falsely clears unsaved work. Whatever the native code and the
  private files do, and whatever other requests arrive while it does, the session after the save is
  either exactly the one before, with an error reported, or the same document counted as saved at its
  revision. In that case the native code was asked to replace exactly the generation that the session
  had as its baseline and confirmed it, the file it handed back had the generation of the candidate
  (which becomes the new baseline), and a second read of that file opened with the password to a
  document equal to the one of the session.
\<close>

theorem mobile_save_is_verified:
  assumes "mb_session (mw_service w) = Some s" and "mw_others w = [] # rest" and "mobile_save ev ns password w = (r, t)"
  shows "mb_session (mw_service t) = Some s \<and> (\<exists>e. r = Inl e) \<or>
    (\<exists>saved. mb_session (mw_service t) = Some saved \<and> verified_session ev ns password s saved)"
  using wpE_mobile_save [OF assms(1,2), of ev ns password] assms(3) by (cases r) (auto simp: wpE_def)

text \<open>A phone whose vault is a private file \<open>current\<close>, with unsaved edits and another request during the save.\<close>

definition ref_mobile_session :: "ref_db MobileVaultSession" where
  "ref_mobile_session = \<lparr>ms_document = (vs_document ref_service_session)\<lparr>kd_revision := 1\<rparr>, ms_handle = replicate 32 (CHR ''h''),
     ms_baseline = generation_of ref_service_ext (as_bytes ''pw''), ms_writable = True, ms_saved_revision = 0\<rparr>"

definition ref_mobile_world :: "(ref_db, unit) mobile_world" where
  "ref_mobile_world = \<lparr>mw_service = \<lparr>mb_pending = None, mb_session = Some ref_mobile_session, mb_active = None, mb_next = 1\<rparr>,
     mw_device = \<lparr>dv_files = [(''current'', as_bytes ''pw'')], dv_events = [], dv_native = ()\<rparr>, mw_poisoned = False,
     mw_others = [[], [StartDiscard], [RunEdit ref_draws (MobileDeleteEntry ''e'')]], mw_seed = 0\<rparr>"

definition ref_native :: "unit native_source" where
  "ref_native = \<lparr>ns_select = returnE None, ns_release = (\<lambda>_ _. returnE ()),
     ns_prepare_save = (\<lambda>_. returnE \<lparr>np_transaction_token = ''t'', np_current_path = ''current'', np_candidate_path = ''candidate''\<rparr>),
     ns_commit_candidate = (\<lambda>_ _ _ _. returnE (Verified ''candidate'')), ns_finalize_save = (\<lambda>_ _. returnE ()),
     ns_abort_save = (\<lambda>_ _ d. d), ns_stage_current = (\<lambda>_. throwE SourceUnavailable), ns_finish_read = (\<lambda>_ _ d. d),
     ns_select_attachment_import = returnE None, ns_finish_attachment_import = (\<lambda>_ d. d),
     ns_prepare_attachment_export = throwE SourceUnavailable, ns_export_attachment = (\<lambda>_ _. returnE False),
     ns_abort_attachment_export = (\<lambda>_ d. d)\<rparr>"

lemma snapshot_for_total: "\<exists>snapshot. snapshot_for ev doc n = Inr snapshot"
  by (simp add: snapshot_for_def projection_def)

lemma ref_mobile_save: "\<exists>snapshot t. mobile_save (ref_service_env False) ref_native ''pw'' ref_mobile_world = (Inr snapshot, t)"
proof -
  let ?x = ref_service_ext and ?doc = "ms_document ref_mobile_session" and ?cred = "password_credential ''pw''"
  obtain doc where parse: "open_reader_with_credential (vx_kdbx ?x) (as_bytes ''pw'') ?cred = Inr doc"
    and same: "verify_semantic_equivalence (vx_kdbx ?x) ?doc doc = Inr ()"
    by (simp add: open_reader_with_credential_def ref_service_ext_def ref_service_session_def ref_mobile_session_def
        password_credential_def verify_semantic_equivalence_def)
  have save: "save_to_writer_with_credential (vx_kdbx ?x) seed ?doc ?cred = Inr (as_bytes ''pw'')" for seed
    by (simp add: save_to_writer_with_credential_def ensure_writable_format_def has_component_def ref_service_ext_def
        ref_service_session_def ref_mobile_session_def password_credential_def)
  have session: "ms_baseline ref_mobile_session = generation_of ?x (as_bytes ''pw'')" "ms_writable ref_mobile_session"
    "mobile_is_dirty ref_mobile_session"
    by (simp_all add: ref_mobile_session_def mobile_is_dirty_def has_changes_since_def ref_service_session_def)
  have vault: "sv_vault (ref_service_env False) = ?x" by (simp add: ref_service_env_def)
  have small: "length (as_bytes ''pw'') = 2" by (simp add: as_bytes_def)
  obtain snapshot where snapshot: "snapshot_for (ref_service_env False) ?doc (kd_revision ?doc) = Inr snapshot"
    using snapshot_for_total by blast
  show ?thesis
    by (simp add: mobile_save_def locked_call_def take_mutex_def op_defs ref_mobile_world_def on_service_def begin_save_def
        mobile_session_def ok_or_def not_busy_def session begin_operation_def number_operation_def run_save_transaction_def on_device_def
        ref_native_def active_refuses service_prepare_save_def require_operation_def session_prepare_save_def vault
        EncryptedGeneration_from_path_def device_read_def device_sys_def mobile_open_def parse save same small device_create_new_def
        device_put_def service_mark_verified_saved_def session_mark_verified_saved_def snapshot finish_def Let_def)
qed

theorem mobile_save_is_verified_witness:
  "\<exists>saved. mb_session (mw_service (snd (mobile_save (ref_service_env False) ref_native ''pw'' ref_mobile_world))) = Some saved \<and>
     verified_session (ref_service_env False) ref_native ''pw'' ref_mobile_session saved"
proof -
  obtain snapshot t where run: "mobile_save (ref_service_env False) ref_native ''pw'' ref_mobile_world = (Inr snapshot, t)"
    using ref_mobile_save by blast
  have "mb_session (mw_service ref_mobile_world) = Some ref_mobile_session"
    "mw_others ref_mobile_world = [] # tl (mw_others ref_mobile_world)"
    by (simp_all add: ref_mobile_world_def)
  from mobile_save_is_verified [OF this run] show ?thesis by (simp add: run)
qed

subsection \<open>The other commands\<close>

abbreviation session_is :: "'d MobileVaultSession option \<Rightarrow> ('d, 'n) mobile_world \<Rightarrow> bool" where
  "session_is session w \<equiv> mb_session (mw_service w) = session"

lemma serving_session: "serving v t \<Longrightarrow> session_is (mb_session v) t"
  by (simp add: serving_def)

lemma wpE_serving: "preserves (serving v) m \<Longrightarrow> serving v t \<Longrightarrow> (\<And>a u. serving v u \<Longrightarrow> wpE (f a) Q R u) \<Longrightarrow>
    (\<And>e u. serving v u \<Longrightarrow> R e u) \<Longrightarrow> wpE (bindE m f) Q R t"
  unfolding wpE_bindE by (rule wpE_mono [OF preservesD])

lemma serving_mutex: "preserves (serving v) (take_mutex ev e)"
  by (auto simp: preserves_def serving_def active_take_mutex)

lemma wpE_finishing:
  assumes "serving v t" and "\<And>u. session_is (mb_session v) u \<Longrightarrow> wpE (f ()) Q R u"
  shows "wpE (bindE (finish ev i) f) Q R t"
  unfolding wpE_bindE
  by (rule wpE_mono [OF wpE_finish]) (use assms in \<open>auto simp: serving_def\<close>)

lemma wpE_finishing_or_failing:
  assumes "serving v t" and "\<And>u. session_is (mb_session v) u \<Longrightarrow> wpE (f ()) Q R u" and "\<And>e u. session_is (mb_session v) u \<Longrightarrow> R e u"
  shows "wpE (bindE (finish_or_fail ev i) f) Q R t"
proof -
  have "wpE (finish_or_fail ev i) (\<lambda>_. session_is (mb_session v)) (\<lambda>_. session_is (mb_session v)) t"
    unfolding finish_or_fail_def locked_call_def wpE_bindE
    by (rule wpE_mono [OF mutex_device [OF assms(1)]]) (auto simp: wp_simps serving_def cancel_operation_def)
  then show ?thesis unfolding wpE_bindE by (rule wpE_mono) (use assms in auto)
qed

lemma wpE_complete_lock:
  assumes "serving v t" and "mb_session v = Some s"
  shows "wpE (locked_call ev e (on_service (complete_lock_operation i))) (\<lambda>_. session_is None) (\<lambda>_. session_is (Some s)) t"
  unfolding locked_call_def wpE_bindE
  by (rule wpE_mono [OF mutex_device [OF assms(1)]])
    (use assms(2) in \<open>auto simp: wp_simps wpE_on_service complete_lock_operation_def require_operation_def mobile_session_def
      ok_or_def serving_def\<close>)

lemma wpE_mobile_lock:
  assumes "session_is (Some s) w" and "mw_others w = [] # rest"
  shows "wpE (mobile_lock ev ns kind) (\<lambda>_. session_is None) (\<lambda>_. session_is (Some s)) w"
proof -
  have starts: "starts_operation (case kind of CleanLock \<Rightarrow> begin_lock | DiscardLock \<Rightarrow> begin_discard_and_lock)"
    by (simp add: starts_operation_begin split: MobileLockKind.split)
  have "wpE (bindE (tryE (on_device (ns_release ns token False))) (\<lambda>released. case released of
      Inr _ \<Rightarrow> locked_call ev Internal (on_service (complete_lock_operation i))
    | Inl e \<Rightarrow> bindE (finish ev i) (\<lambda>_. throwE e))) (\<lambda>_. session_is None) (\<lambda>_. session_is (Some s)) t"
    if "serving v t" "mb_session v = Some s" for i token v t
    by (rule wpE_serving [OF preserves_tryE [OF serving_device(1)] that(1)])
      (use that in \<open>auto simp: wpE_throwE serving_session intro!: wpE_finishing wpE_complete_lock split: sum.split\<close>)
  then show ?thesis
    unfolding mobile_lock_def
    by (intro wpE_start [OF starts assms]) (use assms in auto)
qed

lemma serving_reads:
  "preserves (serving v) (on_service (bindE (require_operation e operation) (\<lambda>_. mobile_session e')))"
  by (auto simp: preserves_def serving_def on_service_def require_operation_def mobile_session_def ok_or_def op_defs
      split: option.split)

text \<open>A session that was reloaded has a new document that counts as saved; the source is the same.\<close>

definition reloaded :: "'d MobileVaultSession \<Rightarrow> 'd MobileVaultSession \<Rightarrow> bool" where
  "reloaded s s' \<longleftrightarrow> (\<exists>doc generation. s' = s\<lparr>ms_document := doc, ms_baseline := generation, ms_saved_revision := kd_revision doc\<rparr>)"

lemma wpE_reload_session: "wpE (session_reload_candidate ev p password s) (\<lambda>a _. reloaded s (fst a)) (\<lambda>_ _. True) d"
  unfolding session_reload_candidate_def
  by (auto simp: wp_simps reloaded_def intro!: wpE_from_path wpE_mobile_open split: sum.split) blast

lemma wpE_reload_candidate:
  assumes "serving v t" and "mb_session v = Some s"
  shows "wpE (locked_call ev e (service_reload_candidate ev i p password))
    (\<lambda>_ u. \<exists>v' s'. serving v' u \<and> mb_session v' = Some s' \<and> reloaded s s') (\<lambda>_. serving v) t"
  unfolding locked_call_def service_reload_candidate_def
proof (rule wpE_serving [OF serving_mutex assms(1)])
  fix u :: "('a, 'b) mobile_world" assume u: "serving v u"
  show "wpE (bindE (on_service (bindE (require_operation ReloadFailed i) (\<lambda>_. mobile_session ReloadFailed))) (\<lambda>session.
     bindE (on_device (session_reload_candidate ev p password session)) (\<lambda>(reloaded, snapshot).
     bindE (modifyE (\<lambda>w. w\<lparr>mw_service := (mw_service w)\<lparr>mb_session := Some reloaded\<rparr>\<rparr>)) (\<lambda>_. returnE snapshot))))
     (\<lambda>_ u. \<exists>v' s'. serving v' u \<and> mb_session v' = Some s' \<and> reloaded s s') (\<lambda>_. serving v) u"
    using u assms(2)
    by (auto simp: wp_simps wpE_on_service wpE_on_device require_operation_def mobile_session_def ok_or_def serving_def
        intro!: wpE_mono [OF wpE_reload_session])
qed

lemma wpE_mobile_reload:
  assumes "session_is (Some s) w" and "mw_others w = [] # rest"
  defines "kept \<equiv> \<lambda>t. \<exists>s'. session_is (Some s') t \<and> reloaded s s'"
  shows "wpE (mobile_reload ev ns password) (\<lambda>_. kept) (\<lambda>_. session_is (Some s)) w"
proof -
  have finishing: "wpE (bindE (tell_device f) (\<lambda>_. bindE (finish ev i) (\<lambda>_. liftE result))) (\<lambda>_. kept) (\<lambda>_. session_is (Some s)) t"
    if "serving v t" "mb_session v = Some s'" "if isl result then s' = s else reloaded s s'" for f i result v s' t
  proof -
    let ?u = "t\<lparr>mw_device := f (mw_device t)\<rparr>"
    have "serving v ?u" using that(1) by (simp add: serving_def)
    then have "wpE (bindE (finish ev i) (\<lambda>_. liftE result)) (\<lambda>_. kept) (\<lambda>_. session_is (Some s)) ?u"
      by (rule wpE_finishing) (use that(2,3) in \<open>auto simp: wpE_liftE kept_def split: sum.split\<close>)
    then show ?thesis by (simp add: tell_device_def wpE_bindE [of "modifyE _"] wpE_modifyE)
  qed
  have "wpE (bindE (tryE (on_device (ns_stage_current ns token))) (\<lambda>staged. case staged of
       Inl e \<Rightarrow> bindE (finish ev i) (\<lambda>_. throwE e)
     | Inr (read_token, staged_path) \<Rightarrow>
         bindE (tryE (locked_call ev ReloadFailed (service_reload_candidate ev i staged_path password))) (\<lambda>result.
         bindE (tell_device (ns_finish_read ns token read_token)) (\<lambda>_.
         bindE (finish ev i) (\<lambda>_. liftE result))))) (\<lambda>_. kept) (\<lambda>_. session_is (Some s)) t"
    if "serving v t" "mb_session v = Some s" for i token v t
  proof (rule wpE_serving [OF preserves_tryE [OF serving_device(1)] that(1)])
    fix staged and u :: "('a, 'b) mobile_world" assume u: "serving v u"
    show "wpE (case staged of
       Inl e \<Rightarrow> bindE (finish ev i) (\<lambda>_. throwE e)
     | Inr (read_token, staged_path) \<Rightarrow>
         bindE (tryE (locked_call ev ReloadFailed (service_reload_candidate ev i staged_path password))) (\<lambda>result.
         bindE (tell_device (ns_finish_read ns token read_token)) (\<lambda>_.
         bindE (finish ev i) (\<lambda>_. liftE result)))) (\<lambda>_. kept) (\<lambda>_. session_is (Some s)) u"
      using u that(2)
      by (auto simp: wpE_throwE wpE_bindE [of "tryE _"] wpE_tryE
          intro!: wpE_finishing finishing wpE_mono [OF wpE_reload_candidate [OF u that(2)]] split: sum.split)
  qed (use that in \<open>auto simp: serving_session\<close>)
  then show ?thesis
    unfolding mobile_reload_def
    by (intro wpE_start [OF starts_operation_begin(2) assms(1,2)]) (use assms(1) in auto)
qed

lemma serving_prepare_export: "preserves (serving v) (prepare_attachment_export ev operation i name p)"
  unfolding prepare_attachment_export_def
  by (intro preserves_bindE preserves_map_errE serving_reads serving_device) (auto intro!: preserves_bindE preserves_map_errE serving_device)

lemma wpE_mobile_export:
  assumes "session_is (Some s) w" and "mw_others w = [] # rest"
  shows "wpE (mobile_export_attachment ev ns i name) (\<lambda>_. session_is (Some s)) (\<lambda>_. session_is (Some s)) w"
proof -
  let ?K = "\<lambda>_. session_is (Some s)"
  have ending: "wpE (bindE (finish_or_fail ev j) (\<lambda>_. liftE result)) ?K ?K t" "wpE (bindE (finish_or_fail ev j) (\<lambda>_. throwE e)) ?K ?K t"
    if "serving v t" "mb_session v = Some s" for v t j e and result :: "MobileError + bool"
    by (auto intro!: wpE_finishing_or_failing [OF that(1)] simp: that(2) wpE_liftE wpE_throwE split: sum.split)
  note serving = preserves_tryE [OF serving_device(1)] preserves_tryE [OF serving_prepare_export] serving_device(2) serving_mutex
  have "wpE (bindE (tryE (on_device (ns_prepare_attachment_export ns))) (\<lambda>ready. case ready of
       Inl e \<Rightarrow> bindE (finish_or_fail ev operation) (\<lambda>_. throwE e)
     | Inr (token, candidate_path) \<Rightarrow>
         bindE (take_mutex ev Internal) (\<lambda>_.
         bindE (tryE (prepare_attachment_export ev operation i name candidate_path)) (\<lambda>prepared. case prepared of
           Inl e \<Rightarrow>
             bindE (tryE (on_device (device_remove candidate_path))) (\<lambda>_.
             bindE (tell_device (ns_abort_attachment_export ns token)) (\<lambda>_. bindE (finish_or_fail ev operation) (\<lambda>_. throwE e)))
         | Inr _ \<Rightarrow>
             bindE (tryE (on_device (ns_export_attachment ns token name))) (\<lambda>exported.
             bindE (case exported of Inl _ \<Rightarrow> tell_device (ns_abort_attachment_export ns token) | Inr _ \<Rightarrow> returnE ()) (\<lambda>_.
             bindE (finish_or_fail ev operation) (\<lambda>_. liftE exported))))))) ?K ?K t"
    if v: "serving v t" "mb_session v = Some s" for operation v t
    using v(2)
    by (auto intro!: wpE_serving [OF serving(1) v(1)] wpE_serving [OF serving(1)] wpE_serving [OF serving(2)]
        wpE_serving [OF serving(3)] wpE_serving [OF serving(4)] wpE_serving [OF preserves_simple(1)] ending
        split: sum.split) (auto simp: serving_def)
  then show ?thesis
    unfolding mobile_export_attachment_def Let_def
    by (intro wpE_start [OF starts_operation_begin(6) assms]) (use assms in auto)
qed

text \<open>The session after an import: nothing changed, or the document after adding some attachment to the entry.\<close>

definition maybe_attached ::
    "('d, 'v) service_env \<Rightarrow> edit_supply \<Rightarrow> string \<Rightarrow> 'd MobileVaultSession \<Rightarrow> 'd MobileVaultSession \<Rightarrow> bool" where
  "maybe_attached ev draws i s s' \<longleftrightarrow> s' = s \<or>
     (\<exists>name bs. s' = s\<lparr>ms_document := snd (document_edit (sv_lib ev) (sv_totp ev) draws (AddEntryAttachment i name bs) (ms_document s))\<rparr>)"

definition holding :: "('d MobileVaultSession \<Rightarrow> bool) \<Rightarrow> ('d, 'n) mobile_world \<Rightarrow> bool" where
  "holding K u \<longleftrightarrow> (\<exists>v s. serving v u \<and> mb_session v = Some s \<and> K s)"

lemma holding_serving: "(\<And>v. preserves (serving v) m) \<Longrightarrow> preserves (holding K) m"
  unfolding preserves_def holding_def by blast

lemma wpE_holding: "(\<And>v. preserves (serving v) m) \<Longrightarrow> holding K t \<Longrightarrow> (\<And>a u. holding K u \<Longrightarrow> wpE (f a) Q R u) \<Longrightarrow>
    (\<And>e u. holding K u \<Longrightarrow> R e u) \<Longrightarrow> wpE (bindE m f) Q R t"
  unfolding wpE_bindE by (rule wpE_mono [OF preservesD [OF holding_serving]])

lemma wpE_complete_import:
  fixes t :: "('d, 'n) mobile_world"
  assumes "serving v t" and "mb_session v = Some s"
  shows "wpE (complete_attachment_import ev draws operation i name p)
    (\<lambda>_. holding (maybe_attached ev draws i s)) (\<lambda>_. holding (maybe_attached ev draws i s)) t"
proof -
  let ?H = "\<lambda>_. holding (maybe_attached ev draws i s)"
  have kept: "holding (maybe_attached ev draws i s) u" if "serving v u" for u :: "('d, 'n) mobile_world"
    using that assms(2) by (auto simp: holding_def maybe_attached_def)
  have edit: "wpE (bindE (on_service (on_open_session (session_edit_document ev draws (AddEntryAttachment i name bs)))) (\<lambda>_.
       bindE (on_service (mobile_session Locked)) (\<lambda>session.
       liftE (snapshot_for ev (ms_document session) (ms_saved_revision session))))) ?H ?H u" if "serving v u" for bs and u :: "('d, 'n) mobile_world"
  proof -
    obtain r doc where e: "document_edit (sv_lib ev) (sv_totp ev) draws (AddEntryAttachment i name bs) (ms_document s) = (r, doc)"
      by fastforce
    then have "maybe_attached ev draws i s (s\<lparr>ms_document := doc\<rparr>)" unfolding maybe_attached_def by (metis snd_conv)
    with e that assms(2) show ?thesis
      by (auto simp: wp_simps wpE_on_service on_open_session_def session_edit_document_def wpE_def holding_def
          serving_def mobile_session_def ok_or_def op_defs on_service_def split: prod.split sum.split)
  qed
  note reading = wpE_serving [OF preserves_map_errE [OF serving_device(1)]]
  show ?thesis
    unfolding complete_attachment_import_def
    by (rule wpE_serving [OF serving_reads assms(1)])
      (auto simp: wpE_throwE wpE_bindE [of "liftE _"] wpE_liftE kept intro!: reading edit split: sum.split)
qed

lemma wpE_mobile_import:
  fixes ev :: "('d, 'v) service_env" and ns :: "'n native_source" and draws :: edit_supply and i :: string
  assumes "session_is (Some s) w" and "mw_others w = [] # rest"
  defines "attached \<equiv> \<lambda>t. \<exists>s'. session_is (Some s') t \<and> maybe_attached ev draws i s s'"
  shows "wpE (mobile_import_attachment ev ns draws i) (\<lambda>a t. attached t \<and> (a = None \<longrightarrow> session_is (Some s) t)) (\<lambda>_. attached) w"
    (is "wpE _ ?Q ?R w")
proof -
  have same: "attached t" if "session_is (Some s) t" for t :: "('d, 'n) mobile_world"
    using that by (auto simp: attached_def maybe_attached_def)
  have ending: "wpE (bindE (finish_or_fail ev operation) (\<lambda>_. liftE (bindR result (\<lambda>a. Inr (Some a))))) ?Q ?R t"
    if "holding (maybe_attached ev draws i s) t" for operation result t
    using that by (auto simp: holding_def wpE_liftE attached_def bindR_def split: sum.split intro!: wpE_finishing_or_failing)
  have held: "attached t" if "holding (maybe_attached ev draws i s) t" for t :: "('d, 'n) mobile_world"
    using that by (auto simp: holding_def serving_def attached_def)
  note serving = preserves_tryE [OF serving_device(1)] serving_device(2)
  have cleaning: "wpE (bindE (tryE (on_device (device_remove p))) (\<lambda>_. bindE (tell_device (ns_finish_attachment_import ns token)) (\<lambda>_.
      bindE (finish_or_fail ev operation) (\<lambda>_. liftE (bindR result (\<lambda>a. Inr (Some a))))))) ?Q ?R t"
    if t: "holding (maybe_attached ev draws i s) t" for p token operation result t
    by (rule wpE_holding [OF serving(1) t], rule wpE_holding [OF serving(2)], assumption, rule ending) (auto intro: held)
  have importing: "wpE (bindE (take_mutex ev Internal) (\<lambda>_.
         bindE (tryE (complete_attachment_import ev draws operation i name p)) (\<lambda>result.
         bindE (tryE (on_device (device_remove p))) (\<lambda>_.
         bindE (tell_device (ns_finish_attachment_import ns token)) (\<lambda>_.
         bindE (finish_or_fail ev operation) (\<lambda>_.
         liftE (bindR result (\<lambda>a. Inr (Some a))))))))) ?Q ?R t"
    if t: "serving v t" "mb_session v = Some s" for v t token operation name p
    by (rule wpE_serving [OF serving_mutex t(1)], unfold wpE_bindE [of "tryE (complete_attachment_import _ _ _ _ _ _)"] wpE_tryE,
        rule wpE_mono [OF wpE_complete_import [OF _ t(2)]], assumption, erule cleaning, erule cleaning)
      (use t(2) in \<open>auto intro!: same simp: serving_def\<close>)
  have "wpE (bindE (tryE (on_device (ns_select_attachment_import ns))) (\<lambda>selected. case selected of
       Inl e \<Rightarrow> bindE (finish_or_fail ev operation) (\<lambda>_. throwE e)
     | Inr None \<Rightarrow> bindE (finish_or_fail ev operation) (\<lambda>_. returnE None)
     | Inr (Some (token, staged_path, file_name)) \<Rightarrow>
         bindE (take_mutex ev Internal) (\<lambda>_.
         bindE (tryE (complete_attachment_import ev draws operation i file_name staged_path)) (\<lambda>result.
         bindE (tryE (on_device (device_remove staged_path))) (\<lambda>_.
         bindE (tell_device (ns_finish_attachment_import ns token)) (\<lambda>_.
         bindE (finish_or_fail ev operation) (\<lambda>_.
         liftE (bindR result (\<lambda>snapshot. Inr (Some snapshot)))))))))) ?Q ?R t"
    if v: "serving v t" "mb_session v = Some s" for operation v t
  proof (rule wpE_serving [OF serving(1) v(1)])
    fix selected and u :: "('d, 'n) mobile_world" assume u: "serving v u"
    show "wpE (case selected of
       Inl e \<Rightarrow> bindE (finish_or_fail ev operation) (\<lambda>_. throwE e)
     | Inr None \<Rightarrow> bindE (finish_or_fail ev operation) (\<lambda>_. returnE None)
     | Inr (Some (token, staged_path, file_name)) \<Rightarrow>
         bindE (take_mutex ev Internal) (\<lambda>_.
         bindE (tryE (complete_attachment_import ev draws operation i file_name staged_path)) (\<lambda>result.
         bindE (tryE (on_device (device_remove staged_path))) (\<lambda>_.
         bindE (tell_device (ns_finish_attachment_import ns token)) (\<lambda>_.
         bindE (finish_or_fail ev operation) (\<lambda>_.
         liftE (bindR result (\<lambda>snapshot. Inr (Some snapshot))))))))) ?Q ?R u"
      using u v(2)
      by (auto simp: wpE_throwE wpE_returnE same intro!: wpE_finishing_or_failing [OF u] importing [OF u] split: sum.split option.split)
  qed (use v in \<open>auto simp: serving_def same\<close>)
  then show ?thesis
    unfolding mobile_import_attachment_def
    by (intro wpE_start [OF starts_operation_begin(5) assms(1,2)]) (use assms(1) same in auto)
qed

lemma mobile_edit_keeps_session:
  assumes "mb_session v = Some s" and "mobile_perform_edit ev draws edit v = (r, v')"
  shows "v' = v \<or> (\<exists>checked. checked_edit ev (ms_document s) edit = Inr checked \<and>
      v' = v\<lparr>mb_session := Some (s\<lparr>ms_document := snd (document_edit (sv_lib ev) (sv_totp ev) draws checked (ms_document s))\<rparr>)\<rparr>)"
proof (cases "checked_edit ev (ms_document s) edit")
  case (Inl e)
  have "v\<lparr>mb_session := Some s\<rparr> = v" using assms(1) by (cases v) simp
  with Inl assms show ?thesis
    by (auto simp: mobile_perform_edit_def session_mut_for_mutation_def not_busy_def mobile_session_def ok_or_def on_open_session_def
        session_perform_edit_def op_defs split: if_splits)
next
  case (Inr checked)
  with assms show ?thesis
    by (auto simp: mobile_perform_edit_def session_mut_for_mutation_def not_busy_def mobile_session_def ok_or_def on_open_session_def
        session_perform_edit_def session_edit_document_def op_defs split: if_splits prod.splits sum.splits)
qed

text \<open>
  C14: An open session on a phone is never lost by accident. Of the commands, only a lock closes it, and
  only when it reports success; a plain lock reports success only when nothing is unsaved. An edit
  leaves it as it was or changes its document as the edit does; importing an attachment leaves it as it
  was, which is certain if the picker is cancelled, or adds an attachment to the entry; a save keeps its
  document; a reload that reports an error leaves it exactly as it was, with its unsaved edits, and
  one that succeeds opens the same source again; exporting an attachment never changes it; and while
  it is open no other vault can be selected or unlocked: both requests fail before anything on the device
  is touched. This holds whatever the native code and the private files do and whatever other requests
  arrive while a command waits for native code.
\<close>

theorem mobile_session_is_never_lost:
  assumes "mb_session (mw_service w) = Some s" and "mw_others w = [] # rest"
  shows "(\<forall>r t. mobile_lock ev ns kind w = (r, t) \<longrightarrow> mb_session (mw_service t) = (if r = Inr () then None else Some s) \<and>
      (kind = CleanLock \<and> r = Inr () \<longrightarrow> \<not> mobile_is_dirty s)) \<and>
    (\<forall>r v. mobile_perform_edit ev draws edit (mw_service w) = (r, v) \<longrightarrow>
      mb_session v = Some s \<or> (\<exists>checked. checked_edit ev (ms_document s) edit = Inr checked \<and>
        mb_session v = Some (s\<lparr>ms_document := snd (document_edit (sv_lib ev) (sv_totp ev) draws checked (ms_document s))\<rparr>))) \<and>
    (\<forall>r t. mobile_import_attachment ev ns draws i w = (r, t) \<longrightarrow>
      (\<exists>s'. mb_session (mw_service t) = Some s' \<and> maybe_attached ev draws i s s' \<and> (r = Inr None \<longrightarrow> s' = s))) \<and>
    (\<forall>r t. mobile_save ev ns password w = (r, t) \<longrightarrow>
      (\<exists>s'. mb_session (mw_service t) = Some s' \<and> ms_document s' = ms_document s \<and> ms_handle s' = ms_handle s)) \<and>
    (\<forall>r t. mobile_reload ev ns password w = (r, t) \<longrightarrow>
      (\<exists>s'. mb_session (mw_service t) = Some s' \<and> (if isl r then s' = s else reloaded s s'))) \<and>
    (\<forall>r t. mobile_export_attachment ev ns i name w = (r, t) \<longrightarrow> mb_session (mw_service t) = Some s) \<and>
    (\<forall>r t. mobile_select ev ns w = (r, t) \<longrightarrow> (\<exists>e. r = Inl e) \<and> t = w\<lparr>mw_others := rest\<rparr>) \<and>
    (\<forall>r t. mobile_unlock ev password w = (r, t) \<longrightarrow> (\<exists>e. r = Inl e) \<and> t = w)"
proof (intro conjI)
  note calls = locked_call_def fresh_take_mutex [OF assms(2)] on_service_def op_defs not_busy_def mobile_session_def ok_or_def
  have clean: "\<not> mobile_is_dirty s" if "mobile_lock ev ns CleanLock w = (Inr (), t)" for t
    using that assms by (auto simp: mobile_lock_def begin_lock_def calls split: if_splits)
  have "mb_session (mw_service t) = (if r = Inr () then None else Some s)" if "mobile_lock ev ns kind w = (r, t)" for r t
    using wpE_mobile_lock [OF assms, of ev ns kind] that by (cases r) (auto simp: wpE_def)
  with clean show "\<forall>r t. mobile_lock ev ns kind w = (r, t) \<longrightarrow> mb_session (mw_service t) = (if r = Inr () then None else Some s) \<and>
      (kind = CleanLock \<and> r = Inr () \<longrightarrow> \<not> mobile_is_dirty s)" by blast
  show "\<forall>r v. mobile_perform_edit ev draws edit (mw_service w) = (r, v) \<longrightarrow>
      mb_session v = Some s \<or> (\<exists>checked. checked_edit ev (ms_document s) edit = Inr checked \<and>
        mb_session v = Some (s\<lparr>ms_document := snd (document_edit (sv_lib ev) (sv_totp ev) draws checked (ms_document s))\<rparr>))"
    using assms(1) by (auto dest: mobile_edit_keeps_session [OF assms(1)])
  show "\<forall>r t. mobile_import_attachment ev ns draws i w = (r, t) \<longrightarrow>
      (\<exists>s'. mb_session (mw_service t) = Some s' \<and> maybe_attached ev draws i s s' \<and> (r = Inr None \<longrightarrow> s' = s))"
  proof (intro allI impI)
    fix r t assume "mobile_import_attachment ev ns draws i w = (r, t)"
    with wpE_mobile_import [OF assms, of ev ns draws i]
    show "\<exists>s'. mb_session (mw_service t) = Some s' \<and> maybe_attached ev draws i s s' \<and> (r = Inr None \<longrightarrow> s' = s)"
      by (cases r) (auto simp: wpE_def)
  qed
  show "\<forall>r t. mobile_save ev ns password w = (r, t) \<longrightarrow>
      (\<exists>s'. mb_session (mw_service t) = Some s' \<and> ms_document s' = ms_document s \<and> ms_handle s' = ms_handle s)"
  proof (intro allI impI)
    fix r t assume "mobile_save ev ns password w = (r, t)"
    with wpE_mobile_save [OF assms, of ev ns password]
    show "\<exists>s'. mb_session (mw_service t) = Some s' \<and> ms_document s' = ms_document s \<and> ms_handle s' = ms_handle s"
      by (cases r) (auto simp: wpE_def verified_session_def)
  qed
  show "\<forall>r t. mobile_reload ev ns password w = (r, t) \<longrightarrow>
      (\<exists>s'. mb_session (mw_service t) = Some s' \<and> (if isl r then s' = s else reloaded s s'))"
  proof (intro allI impI)
    fix r t assume "mobile_reload ev ns password w = (r, t)"
    with wpE_mobile_reload [OF assms, of ev ns password]
    show "\<exists>s'. mb_session (mw_service t) = Some s' \<and> (if isl r then s' = s else reloaded s s')"
      by (cases r) (auto simp: wpE_def)
  qed
  show "\<forall>r t. mobile_export_attachment ev ns i name w = (r, t) \<longrightarrow> mb_session (mw_service t) = Some s"
    using wpE_mobile_export [OF assms, of ev ns i name] by (auto simp: wpE_snd)
  show "\<forall>r t. mobile_select ev ns w = (r, t) \<longrightarrow> (\<exists>e. r = Inl e) \<and> t = w\<lparr>mw_others := rest\<rparr>"
    using assms by (auto simp: mobile_select_def begin_selection_def can_select_def calls split: if_splits)
  show "\<forall>r t. mobile_unlock ev password w = (r, t) \<longrightarrow> (\<exists>e. r = Inl e) \<and> t = w"
    using assms by (auto simp: mobile_unlock_def can_select_def calls split: if_splits)
qed

theorem mobile_session_is_never_lost_witness:
  "mobile_is_dirty ref_mobile_session \<and>
   mb_session (mw_service (snd (mobile_lock (ref_service_env False) ref_native CleanLock ref_mobile_world))) = Some ref_mobile_session \<and>
   mb_session (mw_service (snd (mobile_lock (ref_service_env False) ref_native DiscardLock ref_mobile_world))) = None"
proof -
  let ?ev = "ref_service_env False" and ?w = ref_mobile_world
  have w: "mb_session (mw_service ?w) = Some ref_mobile_session" "mw_others ?w = [] # tl (mw_others ?w)"
    by (simp_all add: ref_mobile_world_def)
  have lost: "mb_session (mw_service (snd (mobile_lock ?ev ref_native kind ?w))) =
        (if fst (mobile_lock ?ev ref_native kind ?w) = Inr () then None else Some ref_mobile_session)"
      "kind = CleanLock \<and> fst (mobile_lock ?ev ref_native kind ?w) = Inr () \<Longrightarrow> \<not> mobile_is_dirty ref_mobile_session" for kind
    using mobile_session_is_never_lost [OF w, of ?ev ref_native kind, THEN conjunct1] prod.collapse by metis+
  have dirty: "mobile_is_dirty ref_mobile_session"
    by (simp add: ref_mobile_session_def mobile_is_dirty_def has_changes_since_def ref_service_session_def)
  have "fst (mobile_lock ?ev ref_native DiscardLock ?w) = Inr ()"
    by (simp add: mobile_lock_def locked_call_def take_mutex_def op_defs ref_mobile_world_def on_service_def begin_discard_and_lock_def
        mobile_session_def ok_or_def not_busy_def begin_operation_def number_operation_def on_device_def ref_native_def
        active_refuses complete_lock_operation_def require_operation_def Let_def)
  with dirty lost(2) [of CleanLock] show ?thesis by (simp add: lost(1)) blast
qed

end
