(* ===== verification/Spec2Isabelle.thy ===== *)
theory Spec2Isabelle
  imports Store_Properties Sync_Properties Gateway_Properties Session_Properties
    Kdbx_Merge_Properties Sync_Liveness Editing_Properties Browser_Properties Sync_Providers
    Export_Properties Desktop_Properties Credential_Rotation Desktop_Clipboard Mobile_Properties
begin

section \<open>Nian Pass: a password manager and the synchronization of its vaults\<close>

text \<open>
  Nian Pass keeps passwords in KDBX files. A desktop application opens one vault at a time, edits it in
  memory, saves it, copies secrets to the clipboard, answers a browser extension, and synchronizes the
  encrypted file with a remote object held by a gateway of its own, a WebDAV server or an S3 bucket. This
  library models that program from \<open>src/\<close> and proves what makes it correct: no update of another
  device is lost, no edit is lost or looks saved when it is not, the vault file is never left without a
  credential that opens it, and secrets leave the program only where the user sent them.

  \<^bold>\<open>How the code is rendered.\<close> A Rust function that may fail and changes state is a value of the type
  \<open>('s, 'e, 'a) op\<close> of \<open>Prelude\<close>, from a state to an error or a result with the new state; \<open>bindE\<close> is the
  \<open>?\<close> operator, and an early return leaves behind exactly the changes made so far. Structs are records,
  enums datatypes, \<open>u64\<close> counters words; strings and byte strings are lists of bytes. Disks, networks,
  the clipboard and other processes are part of the state: a script of events says which system call
  fails, which request is lost and who else acts in between, and theorems quantify over all scripts.
  Third-party code is a record of functions: the KDBX format and database (\<open>keepass\<close>), SHA-256, JSON, URL
  and UUID codecs, the HTTP and AWS clients and their servers. What is relied on of them is a named
  predicate (\<open>store_ext_ok\<close>, \<open>gateway_ext_ok\<close>, \<open>json_laws\<close>, \<open>dav_honours_conditions\<close>, \<dots>), and every
  theorem that assumes one is applied to a concrete instance (\<open>Reference_Ext\<close>, \<open>Reference_World\<close>,
  \<open>Reference_Database\<close>, \<open>Reference_Library\<close>).

  \<^bold>\<open>Synchronization.\<close>
  \<^item> \<open>Store_Io\<close>, \<open>Sync_Store\<close>: the private directory with BASE and the journal
    (\<open>crates/sync-engine/src/store_io.rs\<close>, \<open>store.rs\<close>, \<open>store/\<close>). \<open>Sync_Store_Disk\<close>, \<open>Sync_Store_Spec\<close> and
    \<open>Sync_Journal_Spec\<close> abstract the directory to an optional BASE and an optional journal;
    \<open>Store_Properties\<close> shows that each operation is atomic on that abstraction under any I/O failure.
  \<^item> \<open>Sync_Engine\<close>: \<open>sync\<close>, \<open>resolve\<close>, recovery and the two-phase commit (\<open>engine.rs\<close>, \<open>recovery.rs\<close>,
    \<open>commit.rs\<close>, \<open>conflict.rs\<close>, \<open>conflict_authority.rs\<close>, \<open>codec.rs\<close>); \<open>Vault_Sync\<close>: the decision between
    equal, fast-forwarded and divergent generations (\<open>crates/vault-sync\<close>).
  \<^item> \<open>Engine_Env\<close>: the locale \<open>sync_env\<close>, what the engine relies on. \<open>Engine_Safety\<close> and \<open>Engine_Tokens\<close>
    prove inside it that at most one justified change of the remote object is made and that a conflict
    token is used at most once. \<open>Remote_Contract\<close> splits the contract: a provider and a local vault that
    keep \<open>remote_contract\<close> and \<open>local_contract\<close> make a \<open>deployment\<close>, which is a world of \<open>sync_env\<close>.
  \<^item> \<open>Gateway_Storage\<close>, \<open>Gateway_Server\<close>: the gateway process (\<open>apps/sync-gateway\<close>); \<open>Gateway_Client\<close>: its
    client (\<open>crates/sync-provider-gateway\<close>). \<open>Gateway_Contract\<close> discharges the provider's contract for the
    two together, \<open>Gateway_Steps\<close> follows the process through requests and restarts, and
    \<open>Gateway_Register\<close> refines a compare-and-swap register; the theorems are in \<open>Gateway_Properties\<close>.
  \<^item> \<open>Remote_Providers\<close>, \<open>Remote_Properties\<close>: WebDAV and S3 (\<open>crates/sync-provider-webdav\<close>,
    \<open>crates/sync-provider-s3\<close>) and their contract over servers that honour conditional requests.
  \<^item> \<open>Sync_World\<close> interprets the contracts on the gateway and the desktop; \<open>Sync_Properties\<close>,
    \<open>Sync_Liveness\<close> and \<open>Sync_Providers\<close> state what follows for engine, provider and desktop together.

  \<^bold>\<open>Vaults.\<close>
  \<^item> \<open>Kdbx_Document\<close>, \<open>Kdbx_Library\<close>: documents, credentials, lookups and the projection without
    secrets; \<open>Kdbx_Editing\<close>, \<open>Kdbx_Entry_Updates\<close>, \<open>Kdbx_Recycle\<close>: every edit (\<open>crates/kdbx\<close>).
  \<^item> \<open>Kdbx_Merge_Core\<close>, \<open>Kdbx_Three_Way\<close>, \<open>Kdbx_Merge_Builder\<close>: the semantic three-way merge of
    \<open>crates/kdbx/src/sync.rs\<close>; \<open>Kdbx_Merge_Facts\<close> and \<open>Kdbx_Merge_Properties\<close>: what it keeps.
  \<^item> \<open>Vault_Session\<close>, \<open>Vault_Lifecycle\<close>, \<open>Session_Edits\<close>: the open file (\<open>crates/vault-session\<close>): opening,
    saving through a verified temporary file with a backup, change of the credential, replacement by
    synchronization, export, edits. \<open>Vault_Safety\<close>, \<open>Session_Properties\<close>, \<open>Export_Properties\<close>,
    \<open>Recycle_Facts\<close> and \<open>Editing_Properties\<close> hold the theorems.

  \<^bold>\<open>Desktop application\<close> (\<open>apps/desktop/src-tauri/src\<close>).
  \<^item> \<open>Desktop_Local\<close>: the service as synchronization sees it; \<open>Desktop_Service\<close>, \<open>Desktop_Mutations\<close>: the
    whole service, with selection, unlock, save, password and keyfile changes, edits, reads, attachments.
    \<open>Desktop_Properties\<close> makes every operation a request and proves its invariant over all reachable
    states; \<open>Credential_Rotation\<close> follows a change of the credential through every failure.
  \<^item> \<open>Desktop_Clipboard\<close>: copies, their lease, and locking (\<open>clipboard.rs\<close>, \<open>AppState\<close>).
  \<^item> \<open>Mobile_Service\<close>: the service on a phone (\<open>mobile\<close>), whose vault is a document of another application:
    sessions, edits, numbered operations, the save transaction, selection, locks and attachments. Other
    requests run whenever the mutex is free, and the native provider is an arbitrary record of operations.
    \<open>Mobile_Properties\<close>: no session is lost, and none is marked as saved without a verified read-back.
  \<^item> \<open>Browser_Protocol\<close>, \<open>Credential_Provider\<close>, \<open>Browser_Bridge\<close>, \<open>Browser_Properties\<close>: frames and messages
    (\<open>crates/browser-native-protocol\<close>), matching of origins (\<open>crates/credential-provider-core\<close>), the
    bridge (\<open>browser_bridge.rs\<close>) and the native host (\<open>apps/browser-native-host/src/proxy.rs\<close>).

  \<^bold>\<open>Bounds.\<close> Most loops are structural. The settling of groups in the merge (\<open>add_remote_groups\<close>) ends
  because every round adds a group or stops, which is proved; the walk from a group to the root
  (\<open>ancestors\<close>, \<open>in_recycle_bin_from\<close>) remembers the groups it has seen and ends because there are finitely
  many identifiers. The validation does the same in the code and rejects a cycle; in the recycle bin the
  code has no such list, and on a cycle of groups, which no database that passes the validation has
  (\<open>valid_database_is_tree\<close>), the model answers that the group is not in the bin where the code would not
  return. Temporary names are tried at most
  \<open>TEMP_CREATE_ATTEMPTS\<close> times, as in the code.

  \<^bold>\<open>Not modelled.\<close> Creation of a new vault and the Windows replacement, which rest on device and inode
  numbers and on operating-system calls that a map from names to contents does not have; with them
  \<open>create\<close> and \<open>export_copy\<close> of the desktop service. Mobile autofill and the iOS commands, Tauri commands, windows and
  the scheduling of the sync runtime, which dispatch to the operations modelled here; password generation
  and health reports; HTTP framing, timeouts and the accept loop of the gateway; installation of the
  native host; the command line, a thin reader over the \<open>kdbx\<close> crate. Zeroization of secrets has no
  counterpart in a functional model.
\<close>

end
